(* ===== verification/Prelude.thy ===== *)
theory Prelude
  imports Complex_Main
begin

text \<open>
  What every component shares: the Python exceptions as a datatype, results as sums, the
  SQLAlchemy session as an explicit list of rows per table, JSON values, UUIDs, timestamps and
  the string methods the source calls. The collection \<open>wp\<close> holds the rules that push a
  postcondition through the branches of an operation.

  Conventions used in all theories. An operation that may raise returns \<open>exn + 'a\<close>; one
  that also writes the database returns \<open>exn + 'a \<times> 'db\<close>, so that a raise carries no state:
  \<open>get_session\<close> (app\_base/core/database.py) rolls the transaction back when the handler
  raises. \<open>transact\<close> is that dependency. Where the source commits before it raises, the
  operation returns the committed database beside the error instead. Log calls, metrics and the
  French message text of an \<open>ApiError\<close> are not modelled; the status and the code are.
\<close>

named_theorems wp \<open>rules for postconditions of operations\<close>
named_theorems guard \<open>rules for predicates that the operations of a repository keep\<close>

section \<open>Results\<close>

datatype exn =
    ApiError int string
  | LookupError string
  | IntegrityError
  | InvalidStatusTransition
  | MultipleResultsFound
  | NoResultFound
  | RuntimeError
  | PyValueError
  | PyTypeError
  | PyKeyError
  | PyAttributeError
  | PyZeroDivisionError
  | PyOverflowError
  | InvalidOperation
  | HTTPError
  | ValidationError
  | DataError

type_synonym 'a res = "exn + 'a"

definition bindR :: "exn + 'a \<Rightarrow> ('a \<Rightarrow> exn + 'b) \<Rightarrow> exn + 'b" where
  "bindR m f = (case m of Inl e \<Rightarrow> Inl e | Inr x \<Rightarrow> f x)"

lemma bindR_simps [simp]:
  "bindR (Inl e) f = Inl e"
  "bindR (Inr x) f = f x"
  by (simp_all add: bindR_def)

lemma bindR_eq_Inr: "bindR m f = Inr y \<longleftrightarrow> (\<exists>x. m = Inr x \<and> f x = Inr y)"
  by (cases m) auto

lemma bindR_eq_Inl: "bindR m f = Inl e \<longleftrightarrow> m = Inl e \<or> (\<exists>x. m = Inr x \<and> f x = Inl e)"
  by (cases m) auto

text \<open>\<open>okR P m\<close>: whatever \<open>m\<close> returns satisfies \<open>P\<close> (a raise satisfies everything).\<close>

definition okR :: "('a \<Rightarrow> bool) \<Rightarrow> exn + 'a \<Rightarrow> bool" where
  "okR P m = (case m of Inl _ \<Rightarrow> True | Inr x \<Rightarrow> P x)"

lemma okR_Inl [simp, wp]: "okR P (Inl e)"
  by (simp add: okR_def)

lemma okR_Inr [simp]: "okR P (Inr x) = P x"
  by (simp add: okR_def)

lemma okR_InrI [wp]: "P x \<Longrightarrow> okR P (Inr x)"
  by simp

lemma okR_bindR [wp]: "okR (\<lambda>x. okR Q (f x)) m \<Longrightarrow> okR Q (bindR m f)"
  by (cases m) auto

lemma okR_if [wp]: "(b \<Longrightarrow> okR P m) \<Longrightarrow> (\<not> b \<Longrightarrow> okR P n) \<Longrightarrow> okR P (if b then m else n)"
  by simp

lemma okR_option [wp]:
  "(x = None \<Longrightarrow> okR P m) \<Longrightarrow> (\<And>y. x = Some y \<Longrightarrow> okR P (f y)) \<Longrightarrow>
   okR P (case x of None \<Rightarrow> m | Some y \<Rightarrow> f y)"
  by (cases x) auto

lemma okR_sum [wp]:
  "(\<And>e. x = Inl e \<Longrightarrow> okR P (f e)) \<Longrightarrow> (\<And>y. x = Inr y \<Longrightarrow> okR P (g y)) \<Longrightarrow>
   okR P (case x of Inl e \<Rightarrow> f e | Inr y \<Rightarrow> g y)"
  by (cases x) auto

lemma okR_prod [wp]:
  "(\<And>a b. x = (a, b) \<Longrightarrow> okR P (f a b)) \<Longrightarrow> okR P (case x of (a, b) \<Rightarrow> f a b)"
  by (cases x) auto

lemma okR_Let_prod [wp]:
  "(\<And>a b. x = (a, b) \<Longrightarrow> okR P (f a b)) \<Longrightarrow> okR P (let (a, b) = x in f a b)"
  by (cases x) simp

lemma okR_Let [wp]: "(\<And>y. y = x \<Longrightarrow> okR P (f y)) \<Longrightarrow> okR P (let y = x in f y)"
  by simp

lemma okR_D: "okR P m \<Longrightarrow> m = Inr x \<Longrightarrow> P x"
  by simp

lemma okR_mono: "okR P m \<Longrightarrow> (\<And>x. P x \<Longrightarrow> Q x) \<Longrightarrow> okR Q m"
  by (cases m) auto

lemma okR_iff: "okR P m \<longleftrightarrow> (\<forall>x. m = Inr x \<longrightarrow> P x)"
  by (cases m) auto

text \<open>
  \<open>get_session\<close>: commit when the handler returns, roll back when it raises.
\<close>

definition transact :: "'db \<Rightarrow> exn + 'a \<times> 'db \<Rightarrow> (exn + 'a) \<times> 'db" where
  "transact db m = (case m of Inl e \<Rightarrow> (Inl e, db) | Inr (x, db') \<Rightarrow> (Inr x, db'))"

lemma transact_simps [simp]:
  "transact db (Inl e) = (Inl e, db)"
  "transact db (Inr (x, db')) = (Inr x, db')"
  by (simp_all add: transact_def)

lemma transact_okR:
  "P db \<Longrightarrow> okR (\<lambda>(_, db'). P db') m \<Longrightarrow> P (snd (transact db m))"
  by (auto simp: transact_def okR_def split: sum.splits prod.splits)

section \<open>Identifiers and time\<close>

text \<open>
  A \<open>UUID\<close> is its 128-bit integer; a \<open>datetime\<close> is a number of microseconds since the epoch in
  UTC (a naive value is read as UTC, as the code's \<open>replace(tzinfo=UTC)\<close> does).
\<close>

type_synonym uuid = nat
type_synonym datetime = int

definition seconds :: "int \<Rightarrow> int" where
  "seconds n = n * 1000000"

definition hex_digit :: "nat \<Rightarrow> char" where
  "hex_digit d = ''0123456789abcdef'' ! (d mod 16)"

fun hex_of :: "nat \<Rightarrow> nat \<Rightarrow> string" where
  "hex_of 0 n = []"
| "hex_of (Suc k) n = hex_of k (n div 16) @ [hex_digit n]"

definition uuid_str :: "uuid \<Rightarrow> string" where
  "uuid_str u = (let h = hex_of 32 u in
     take 8 h @ ''-'' @ take 4 (drop 8 h) @ ''-'' @ take 4 (drop 12 h) @ ''-'' @
     take 4 (drop 16 h) @ ''-'' @ drop 20 h)"

text \<open>
  \<open>UUID(text)\<close>: the prefixes \<open>urn:\<close> and \<open>uuid:\<close>, outer braces and every dash are dropped, and 32
  hexadecimal digits must remain. (Python's integer parser would also accept an underscore
  between digits, which this one does not.)
\<close>

definition hex_val :: "char \<Rightarrow> nat option" where
  "hex_val c = (let n = of_char c :: nat in
     if 48 \<le> n \<and> n \<le> 57 then Some (n - 48)
     else if 97 \<le> n \<and> n \<le> 102 then Some (n - 87)
     else if 65 \<le> n \<and> n \<le> 70 then Some (n - 55)
     else None)"

fun hex_parse :: "nat \<Rightarrow> string \<Rightarrow> nat option" where
  "hex_parse acc [] = Some acc"
| "hex_parse acc (c # cs) =
     (case hex_val c of None \<Rightarrow> None | Some d \<Rightarrow> hex_parse (acc * 16 + d) cs)"

definition drop_prefix :: "string \<Rightarrow> string \<Rightarrow> string" where
  "drop_prefix p s = (if take (length p) s = p then drop (length p) s else s)"

definition uuid_parse :: "string \<Rightarrow> uuid option" where
  "uuid_parse s =
     (let t = drop_prefix ''uuid:'' (drop_prefix ''urn:'' s);
          u = filter (\<lambda>c. c \<noteq> CHR ''-'') (filter (\<lambda>c. c \<noteq> CHR ''{'' \<and> c \<noteq> CHR ''}'') t)
      in if length u = 32 then hex_parse 0 u else None)"

text \<open>Parsing the canonical text of a UUID gives it back.\<close>

lemma length_hex_of [simp]: "length (hex_of k n) = k"
  by (induction k arbitrary: n) auto

lemma hex_val_digit [simp]: "hex_val (hex_digit d) = Some (d mod 16)"
proof -
  have "list_all (\<lambda>m. hex_val (''0123456789abcdef'' ! m) = Some m) [0..<16]" by code_simp
  then show ?thesis by (simp add: hex_digit_def list_all_iff)
qed

lemma hex_parse_snoc:
  "hex_parse acc (xs @ [c]) = (case hex_parse acc xs of None \<Rightarrow> None
     | Some a \<Rightarrow> (case hex_val c of None \<Rightarrow> None | Some d \<Rightarrow> Some (a * 16 + d)))"
  by (induction xs arbitrary: acc) (auto split: option.split)

lemma hex_parse_hex_of: "hex_parse 0 (hex_of k n) = Some (n mod 16 ^ k)"
  by (induction k arbitrary: n) (simp_all add: hex_parse_snoc mod_mult2_eq mult.commute)

lemma hex_of_chars: "c \<in> set (hex_of k n) \<Longrightarrow> hex_val c \<noteq> None"
  by (induction k arbitrary: n) auto

lemma not_hex: "hex_val (CHR ''-'') = None" "hex_val (CHR ''u'') = None"
    "hex_val (CHR ''{'') = None" "hex_val (CHR ''}'') = None"
  by code_simp+

lemma filter_hex [simp]:
  assumes "\<forall>c \<in> set xs. hex_val c \<noteq> None"
  shows "filter (\<lambda>c. c \<noteq> CHR ''-'') xs = xs" "filter (\<lambda>c. c \<noteq> CHR ''{'' \<and> c \<noteq> CHR ''}'') xs = xs"
proof -
  have ne: "c \<noteq> CHR ''-''" "c \<noteq> CHR ''{''" "c \<noteq> CHR ''}''" if "c \<in> set xs" for c
    using bspec [OF assms that] not_hex by (rule_tac notI, simp only: not_True_eq_False simp_thms)+
  show "filter (\<lambda>c. c \<noteq> CHR ''-'') xs = xs" "filter (\<lambda>c. c \<noteq> CHR ''{'' \<and> c \<noteq> CHR ''}'') xs = xs"
    by (rule filter_True, intro ballI conjI ne, assumption)+
qed

lemma drop_prefix_other:
  assumes "c \<in> set p" and "c \<notin> set s"
  shows "drop_prefix p s = s"
proof -
  have "take (length p) s \<noteq> p" using assms by (metis in_set_takeD)
  then show ?thesis by (simp add: drop_prefix_def)
qed

lemma uuid_roundtrip:
  assumes "u < 2 ^ 128"
  shows "uuid_parse (uuid_str u) = Some u"
proof -
  define h where "h = hex_of 32 u"
  have len: "length h = 32" and val: "hex_parse 0 h = Some (u mod 16 ^ 32)"
    by (simp_all only: h_def length_hex_of hex_parse_hex_of)
  have hex: "\<forall>c \<in> set (take i (drop j h)). hex_val c \<noteq> None" "\<forall>c \<in> set (drop j h). hex_val c \<noteq> None" for i j
    using hex_of_chars [of _ 32 u] by (auto simp: h_def dest!: in_set_takeD in_set_dropD simp del: not_None_eq)
  have hex0: "\<forall>c \<in> set (take i h). hex_val c \<noteq> None" for i using hex(1) [of i 0] by simp
  have join: "take 8 h @ take 4 (drop 8 h) @ take 4 (drop 12 h) @ take 4 (drop 16 h) @ drop 20 h = h"
    using append_take_drop_id [of 8 h] append_take_drop_id [of 4 "drop 8 h"]
      append_take_drop_id [of 4 "drop 12 h"] append_take_drop_id [of 4 "drop 16 h"] by simp
  have str: "uuid_str u = take 8 h @ ''-'' @ take 4 (drop 8 h) @ ''-'' @ take 4 (drop 12 h) @ ''-'' @
      take 4 (drop 16 h) @ ''-'' @ drop 20 h"
    by (simp only: uuid_str_def h_def Let_def)
  have no: "CHR ''u'' \<notin> set (uuid_str u)"
    unfolding str using hex hex0 not_hex(2) by (simp del: not_None_eq) metis
  have p: "drop_prefix ''uuid:'' (drop_prefix ''urn:'' (uuid_str u)) = uuid_str u"
    using no by (simp add: drop_prefix_other [where c = "CHR ''u''"])
  have f: "filter (\<lambda>c. c \<noteq> CHR ''-'') (filter (\<lambda>c. c \<noteq> CHR ''{'' \<and> c \<noteq> CHR ''}'') (uuid_str u)) = h"
    unfolding str using join by (simp add: hex hex0 del: not_None_eq)
  have "(16::nat) ^ 32 = 2 ^ 128" by simp
  then have "u mod 16 ^ 32 = u" using assms by simp
  with val show ?thesis unfolding uuid_parse_def Let_def p f len by (simp del: power_numeral)
qed
section \<open>Strings\<close>

text \<open>The \<open>str\<close> methods the source uses, on ASCII text.\<close>

definition is_space :: "char \<Rightarrow> bool" where
  "is_space c = (let n = of_char c :: nat in n = 32 \<or> (9 \<le> n \<and> n \<le> 13) \<or> (28 \<le> n \<and> n \<le> 31))"

definition strip :: "string \<Rightarrow> string" where
  "strip s = rev (dropWhile is_space (rev (dropWhile is_space s)))"

definition lower_char :: "char \<Rightarrow> char" where
  "lower_char c = (let n = of_char c :: nat in
     if 65 \<le> n \<and> n \<le> 90 then char_of (n + 32) else c)"

definition lower :: "string \<Rightarrow> string" where
  "lower s = map lower_char s"

definition is_digit :: "char \<Rightarrow> bool" where
  "is_digit c = (let n = of_char c :: nat in 48 \<le> n \<and> n \<le> 57)"

fun digits_val :: "int \<Rightarrow> string \<Rightarrow> int" where
  "digits_val acc [] = acc"
| "digits_val acc (c # cs) = digits_val (acc * 10 + (of_char c - 48)) cs"

text \<open>\<open>int(text)\<close>: surrounding blanks, an optional sign and decimal digits.\<close>

definition int_of_str :: "string \<Rightarrow> exn + int" where
  "int_of_str s = (let t = strip s;
       (sg, ds) = (case t of [] \<Rightarrow> (1, []) | c # cs \<Rightarrow>
          if c = CHR ''-'' then (-1, cs) else if c = CHR ''+'' then (1, cs) else (1, t))
     in if ds \<noteq> [] \<and> list_all is_digit ds then Inr (sg * digits_val 0 ds) else Inl PyValueError)"

fun nat_str :: "nat \<Rightarrow> string" where
  "nat_str n = (if n < 10 then [char_of (48 + n)] else nat_str (n div 10) @ [char_of (48 + n mod 10)])"

declare nat_str.simps [simp del]

definition int_str :: "int \<Rightarrow> string" where
  "int_str i = (if i < 0 then CHR ''-'' # nat_str (nat (- i)) else nat_str (nat i))"

lemma strip_Nil [simp]: "strip [] = []"
  by (simp add: strip_def)

section \<open>JSON values\<close>

text \<open>
  What \<open>json.loads\<close> and \<open>response.json()\<close> give. XOF has no minor unit and the provider's amounts
  are integers, so numbers are integers. \<open>str\<close> of a list or an object is only ever compared
  with words that it cannot equal; it is represented by its brackets.
\<close>

datatype json = JNull | JBool bool | JInt int | JStr string | JList "json list"
  | JObj "(string \<times> json) list"

fun truthy :: "json \<Rightarrow> bool" where
  "truthy JNull = False"
| "truthy (JBool b) = b"
| "truthy (JInt i) = (i \<noteq> 0)"
| "truthy (JStr s) = (s \<noteq> [])"
| "truthy (JList xs) = (xs \<noteq> [])"
| "truthy (JObj fs) = (fs \<noteq> [])"

fun py_str :: "json \<Rightarrow> string" where
  "py_str JNull = ''None''"
| "py_str (JBool b) = (if b then ''True'' else ''False'')"
| "py_str (JInt i) = int_str i"
| "py_str (JStr s) = s"
| "py_str (JList xs) = ''[]''"
| "py_str (JObj fs) = ''{}''"

fun py_int :: "json \<Rightarrow> exn + int" where
  "py_int (JInt i) = Inr i"
| "py_int (JBool b) = Inr (if b then 1 else 0)"
| "py_int (JStr s) = int_of_str s"
| "py_int _ = Inl PyTypeError"

text \<open>
  \<open>dict.get\<close> (absent reads as None; the last of two equal keys wins) and \<open>a or b\<close>.
\<close>

definition jget :: "(string \<times> json) list \<Rightarrow> string \<Rightarrow> json" where
  "jget fs k = (case map_of (rev fs) k of None \<Rightarrow> JNull | Some v \<Rightarrow> v)"

definition jor :: "json \<Rightarrow> json \<Rightarrow> json" where
  "jor a b = (if truthy a then a else b)"

definition jstr_opt :: "string option \<Rightarrow> json" where
  "jstr_opt x = (case x of None \<Rightarrow> JNull | Some s \<Rightarrow> JStr s)"

definition as_uuid :: "json \<Rightarrow> exn + uuid" where
  "as_uuid j = (case uuid_parse (py_str j) of None \<Rightarrow> Inl PyValueError | Some u \<Rightarrow> Inr u)"

text \<open>
  \<open>d[k]\<close> raises when the key is absent. A value bound to a text column is a string or None; the
  driver refuses any other type when the row is flushed.
\<close>

definition jkey :: "(string \<times> json) list \<Rightarrow> string \<Rightarrow> exn + json" where
  "jkey fs k = (case map_of (rev fs) k of None \<Rightarrow> Inl PyKeyError | Some v \<Rightarrow> Inr v)"

fun as_text :: "json \<Rightarrow> exn + string option" where
  "as_text JNull = Inr None"
| "as_text (JStr s) = Inr (Some s)"
| "as_text _ = Inl PyTypeError"

text \<open>\<open>Decimal(str(value))\<close> of a provider amount (integers, see above).\<close>

fun json_decimal :: "json \<Rightarrow> exn + rat" where
  "json_decimal (JInt i) = Inr (of_int i)"
| "json_decimal (JStr s) = bindR (int_of_str s) (\<lambda>i. Inr (of_int i))"
| "json_decimal _ = Inl PyValueError"

text \<open>In a payload a timestamp is its instant; ISO 8601 formatting is not modelled.\<close>

definition iso :: "datetime option \<Rightarrow> json" where
  "iso t = (case t of None \<Rightarrow> JNull | Some t \<Rightarrow> JInt t)"

definition juuid :: "uuid \<Rightarrow> json" where
  "juuid u = JStr (uuid_str u)"

lemma as_uuid_juuid: "u < 2 ^ 128 \<Longrightarrow> as_uuid (juuid u) = Inr u"
  by (simp add: as_uuid_def juuid_def uuid_roundtrip del: power_numeral)

definition juuid_opt :: "uuid option \<Rightarrow> json" where
  "juuid_opt x = (case x of None \<Rightarrow> JNull | Some u \<Rightarrow> juuid u)"

text \<open>\<open>a or b\<close> on strings and on decimals: the empty string and zero are false.\<close>

definition str_or :: "string option \<Rightarrow> string \<Rightarrow> string" where
  "str_or x y = (case x of None \<Rightarrow> y | Some s \<Rightarrow> if s = [] then y else s)"

definition dec_or :: "rat option \<Rightarrow> rat option \<Rightarrow> rat option" where
  "dec_or x y = (case x of None \<Rightarrow> y | Some v \<Rightarrow> if v = 0 then y else x)"

lemma dec_or_simps [simp]:
  "dec_or None y = y"
  "dec_or (Some v) y = (if v = 0 then y else Some v)"
  by (simp_all add: dec_or_def)

section \<open>Loops\<close>

text \<open>A \<open>for\<close> loop over a list: the first raise ends it.\<close>

fun foldR :: "('a \<Rightarrow> 's \<Rightarrow> exn + 's) \<Rightarrow> 'a list \<Rightarrow> 's \<Rightarrow> exn + 's" where
  "foldR f [] s = Inr s"
| "foldR f (x # xs) s = bindR (f x s) (foldR f xs)"

lemma okR_foldR:
  assumes "P s" and "\<And>x s. x \<in> set xs \<Longrightarrow> P s \<Longrightarrow> okR P (f x s)"
  shows "okR P (foldR f xs s)"
  using assms
proof (induction xs arbitrary: s)
  case (Cons x xs)
  then have "okR P (f x s)" by simp
  then have "okR (\<lambda>s'. okR P (foldR f xs s')) (f x s)"
    using Cons by (intro okR_mono [OF \<open>okR P (f x s)\<close>]) simp
  then show ?case by (simp add: okR_bindR)
qed simp

section \<open>Tables\<close>

text \<open>
  A table is the list of its rows in insertion order. \<open>session.get\<close> reads by primary key,
  \<open>scalar_one_or_none\<close> raises on a second match, \<open>session.add\<close> followed by \<open>flush\<close> raises
  \<open>IntegrityError\<close> when a unique constraint is violated, and \<open>on_conflict_do_nothing\<close> reports
  whether the row went in.
\<close>

definition scalar_one_or_none :: "'r list \<Rightarrow> exn + 'r option" where
  "scalar_one_or_none rs =
     (case rs of [] \<Rightarrow> Inr None | [r] \<Rightarrow> Inr (Some r) | _ \<Rightarrow> Inl MultipleResultsFound)"

definition get_row :: "('r \<Rightarrow> 'k) \<Rightarrow> 'k \<Rightarrow> 'r list \<Rightarrow> 'r option" where
  "get_row key k rs = find (\<lambda>r. key r = k) rs"

definition put_row :: "('r \<Rightarrow> 'k) \<Rightarrow> 'k \<Rightarrow> 'r \<Rightarrow> 'r list \<Rightarrow> 'r list" where
  "put_row key k r' rs = map (\<lambda>r. if key r = k then r' else r) rs"

definition insert_row :: "('r \<Rightarrow> 'r \<Rightarrow> bool) \<Rightarrow> 'r \<Rightarrow> 'r list \<Rightarrow> exn + 'r list" where
  "insert_row clash r rs = (if list_ex (clash r) rs then Inl IntegrityError else Inr (rs @ [r]))"

definition insert_do_nothing :: "('r \<Rightarrow> 'k) \<Rightarrow> 'r \<Rightarrow> 'r list \<Rightarrow> bool \<times> 'r list" where
  "insert_do_nothing key r rs =
     (if list_ex (\<lambda>x. key x = key r) rs then (False, rs) else (True, rs @ [r]))"

definition some_clash :: "'a option \<Rightarrow> 'a option \<Rightarrow> bool" where
  "some_clash x y = (x \<noteq> None \<and> x = y)"

text \<open>A flushed change of a loaded row: the other rows must not clash with it.\<close>

definition update_row :: "('r \<Rightarrow> 'k) \<Rightarrow> ('r \<Rightarrow> 'r \<Rightarrow> bool) \<Rightarrow> 'r \<Rightarrow> 'r list \<Rightarrow> exn + 'r list" where
  "update_row key clash r rs =
     (if list_ex (\<lambda>x. key x \<noteq> key r \<and> clash r x) rs then Inl IntegrityError
      else Inr (put_row key (key r) r rs))"

text \<open>One page of a query, newest first.\<close>

definition page_desc :: "('r \<Rightarrow> datetime) \<Rightarrow> nat \<Rightarrow> nat \<Rightarrow> 'r list \<Rightarrow> 'r list" where
  "page_desc stamp page page_size rs =
     take page_size (drop ((page - 1) * page_size) (rev (sort_key stamp rs)))"

lemma get_row_Some: "get_row key k rs = Some r \<Longrightarrow> r \<in> set rs \<and> key r = k"
  by (auto simp: get_row_def find_Some_iff)

lemma get_row_None: "get_row key k rs = None \<longleftrightarrow> k \<notin> key ` set rs"
  by (auto simp: get_row_def find_None_iff)

lemma get_row_Nil [simp]: "get_row key k [] = None"
  by (simp add: get_row_def)

lemma get_row_Cons [simp]:
  "get_row key k (r # rs) = (if key r = k then Some r else get_row key k rs)"
  by (simp add: get_row_def)

lemma get_row_append:
  "get_row key k (xs @ ys) = (case get_row key k xs of None \<Rightarrow> get_row key k ys | Some r \<Rightarrow> Some r)"
  by (induction xs) auto

lemma put_row_Nil [simp]: "put_row key k r [] = []"
  by (simp add: put_row_def)

lemma put_row_Cons [simp]:
  "put_row key k r' (r # rs) = (if key r = k then r' else r) # put_row key k r' rs"
  by (simp add: put_row_def)

lemma get_put_same:
  "get_row key k rs = Some r \<Longrightarrow> key r' = k \<Longrightarrow> get_row key k (put_row key k r' rs) = Some r'"
  by (induction rs) (auto split: if_splits)

lemma get_put_other:
  "key r' = k \<Longrightarrow> k' \<noteq> k \<Longrightarrow> get_row key k' (put_row key k r' rs) = get_row key k' rs"
  by (induction rs) auto

lemma map_put_row: "key r' = k \<Longrightarrow> map key (put_row key k r' rs) = map key rs"
  by (induction rs) auto

lemma set_put_row: "set (put_row key k r' rs) \<subseteq> insert r' (set rs)"
  by (auto simp: put_row_def)

lemma set_put_rowD:
  "r \<in> set (put_row key k r' rs) \<Longrightarrow> (r = r' \<and> k \<in> key ` set rs) \<or> (r \<in> set rs \<and> key r \<noteq> k)"
  by (auto simp: put_row_def split: if_splits)

lemma length_put_row [simp]: "length (put_row key k r' rs) = length rs"
  by (simp add: put_row_def)

lemma put_row_absent: "k \<notin> key ` set rs \<Longrightarrow> put_row key k r' rs = rs"
  by (induction rs) auto

lemma scalar_one_or_none_Some:
  "scalar_one_or_none rs = Inr (Some r) \<longleftrightarrow> rs = [r]"
  by (auto simp: scalar_one_or_none_def split: list.splits)

lemma scalar_one_or_none_None:
  "scalar_one_or_none rs = Inr None \<longleftrightarrow> rs = []"
  by (auto simp: scalar_one_or_none_def split: list.splits)

lemma insert_row_Inr:
  "insert_row clash r rs = Inr rs' \<longleftrightarrow> rs' = rs @ [r] \<and> (\<forall>x \<in> set rs. \<not> clash r x)"
  by (auto simp: insert_row_def list_ex_iff)

lemma okR_insert_row [wp]:
  "((\<forall>x \<in> set rs. \<not> clash r x) \<Longrightarrow> P (rs @ [r])) \<Longrightarrow> okR P (insert_row clash r rs)"
  by (auto simp: insert_row_def list_ex_iff)

lemma okR_scalar [wp]:
  "(rs = [] \<Longrightarrow> P None) \<Longrightarrow> (\<And>r. rs = [r] \<Longrightarrow> P (Some r)) \<Longrightarrow> okR P (scalar_one_or_none rs)"
  by (auto simp: scalar_one_or_none_def split: list.splits)

text \<open>Sums over a table when one row, with a unique key, is replaced.\<close>

lemma sum_list_put_row:
  fixes f :: "'r \<Rightarrow> 'a::ab_group_add"
  assumes "distinct (map key rs)" and "get_row key k rs = Some r"
  shows "(\<Sum>x\<leftarrow>put_row key k r' rs. f x) = (\<Sum>x\<leftarrow>rs. f x) - f r + f r'"
  using assms
proof (induction rs)
  case (Cons a rs)
  show ?case
  proof (cases "key a = k")
    case True
    with Cons.prems have "k \<notin> key ` set rs" by auto
    with True Cons.prems show ?thesis by (simp add: put_row_absent algebra_simps)
  next
    case False
    with Cons.prems Cons.IH show ?thesis by (simp add: algebra_simps)
  qed
qed simp

lemma put_row_eq_update:
  assumes "distinct (map key rs)" and "get_row key k rs = Some r" and "key r' = k"
    and "x \<in> set (put_row key k r' rs)"
  shows "x = r' \<or> (x \<in> set rs \<and> x \<noteq> r)"
  using assms set_put_rowD [OF assms(4)] get_row_Some [OF assms(2)] by auto

end
