(* ===== verification/Py_Numbers.thy ===== *)
theory Py_Numbers
  imports Prelude "HOL-Library.Log_Nat"
begin

text \<open>
  The numbers of the program. A \<open>Decimal\<close> and a \<open>float\<close> are rationals, with the rounding each
  Python operation makes written out: \<open>round\_sig b p\<close> keeps \<open>p\<close> digits in base \<open>b\<close>, half to
  even. \<open>dec28\<close> is the default decimal context (28 digits), \<open>to_float\<close> the binary64 format
  (53 bits; overflow and subnormal numbers are out of the range of any fare). Sums and
  differences of money columns (\<open>NUMERIC(12,2)\<close>) never reach 28 digits, so the wallet theories
  use \<open>+\<close> and \<open>-\<close> as they are.

  The lemmas show that all these roundings are monotone, keep the sign and leave an integer of
  few digits alone, which is what the fare theorems rest on.
\<close>

section \<open>Rounding to an integer\<close>

text \<open>\<open>round(x)\<close> on a float and \<open>quantize(Decimal("1"))\<close>: nearest, half to even.\<close>

definition round_half_even :: "rat \<Rightarrow> int" where
  "round_half_even x = (let f = \<lfloor>x\<rfloor>; d = x - of_int f in
     if d < 1 / 2 then f else if 1 / 2 < d then f + 1 else if even f then f else f + 1)"

text \<open>\<open>int(x)\<close>: truncation towards zero.\<close>

definition py_trunc :: "rat \<Rightarrow> int" where
  "py_trunc x = (if x < 0 then - \<lfloor>- x\<rfloor> else \<lfloor>x\<rfloor>)"

lemma round_half_even_bounds:
  "of_int (round_half_even x) \<le> x + 1 / 2" "x - 1 / 2 \<le> of_int (round_half_even x)"
  unfolding round_half_even_def Let_def
  by (auto split: if_splits) linarith+

lemma round_half_even_of_int [simp]: "round_half_even (of_int n) = n"
  by (simp add: round_half_even_def)

lemma round_half_even_numeral [simp]:
  "round_half_even 0 = 0" "round_half_even 1 = 1" "round_half_even (numeral k) = numeral k"
  using round_half_even_of_int [of 0] round_half_even_of_int [of 1]
    round_half_even_of_int [of "numeral k"]
  by simp_all

lemma round_half_even_mono: "x \<le> y \<Longrightarrow> round_half_even x \<le> round_half_even y"
proof (cases "\<lfloor>x\<rfloor> = \<lfloor>y\<rfloor>")
  case True
  assume "x \<le> y"
  with True show ?thesis by (auto simp: round_half_even_def Let_def)
next
  case False
  assume "x \<le> y"
  with False have "\<lfloor>x\<rfloor> + 1 \<le> \<lfloor>y\<rfloor>" using floor_mono [of x y] by linarith
  moreover have "round_half_even x \<le> \<lfloor>x\<rfloor> + 1" "\<lfloor>y\<rfloor> \<le> round_half_even y"
    by (auto simp: round_half_even_def Let_def)
  ultimately show ?thesis by linarith
qed

lemma round_half_even_nonneg: "0 \<le> x \<Longrightarrow> 0 \<le> round_half_even x"
  using round_half_even_mono [of 0 x] by simp

lemma round_half_even_le_int: "x \<le> of_int n \<Longrightarrow> round_half_even x \<le> n"
  using round_half_even_mono [of x "of_int n"] by simp

lemma round_half_even_ge_int: "of_int n \<le> x \<Longrightarrow> n \<le> round_half_even x"
  using round_half_even_mono [of "of_int n" x] by simp

lemma py_trunc_of_int [simp]: "py_trunc (of_int n) = n"
  by (simp add: py_trunc_def flip: of_int_minus)

lemma py_trunc_nonneg: "0 \<le> x \<Longrightarrow> py_trunc x = \<lfloor>x\<rfloor>"
  by (simp add: py_trunc_def)

lemma py_trunc_numeral [simp]: "py_trunc 0 = 0" "py_trunc 1 = 1" "py_trunc (numeral k) = numeral k"
  using py_trunc_of_int [of 0] py_trunc_of_int [of 1] py_trunc_of_int [of "numeral k"] by simp_all

section \<open>Rounding to significant digits\<close>

text \<open>
  The exponent \<open>e\<close> of a positive rational: \<open>b ^ e \<le> x < b ^ (e + 1)\<close>, computed from the number
  of digits of numerator and denominator.
\<close>

definition bpow :: "nat \<Rightarrow> int \<Rightarrow> rat" where
  "bpow b e = (if 0 \<le> e then of_nat b ^ nat e else 1 / of_nat b ^ nat (- e))"

definition exponent :: "nat \<Rightarrow> rat \<Rightarrow> int" where
  "exponent b x = (let (n, d) = quotient_of x;
       k = int (floorlog b (nat n)) - int (floorlog b (nat d))
     in if bpow b k \<le> x then k else k - 1)"

definition round_pos :: "nat \<Rightarrow> nat \<Rightarrow> rat \<Rightarrow> rat" where
  "round_pos b p x = (let u = bpow b (exponent b x - int p + 1)
     in of_int (round_half_even (x / u)) * u)"

definition round_sig :: "nat \<Rightarrow> nat \<Rightarrow> rat \<Rightarrow> rat" where
  "round_sig b p x = (if x = 0 then 0 else if x < 0 then - round_pos b p (- x) else round_pos b p x)"

definition dec28 :: "rat \<Rightarrow> rat" where
  "dec28 x = round_sig 10 28 x"

definition to_float :: "rat \<Rightarrow> rat" where
  "to_float x = round_sig 2 53 x"

lemma bpow_pos: "0 < b \<Longrightarrow> 0 < bpow b e"
  by (simp add: bpow_def)

lemma bpow_powr_int: "0 < b \<Longrightarrow> bpow b e = power_int (of_nat b) e"
  by (simp add: bpow_def power_int_def inverse_eq_divide power_one_over)

lemma bpow_add: "0 < b \<Longrightarrow> bpow b (e + f) = bpow b e * bpow b f"
  by (simp add: bpow_powr_int power_int_add)

lemma bpow_mono: "1 < b \<Longrightarrow> e \<le> f \<Longrightarrow> bpow b e \<le> bpow b f"
  by (simp add: bpow_powr_int power_int_increasing)

lemma bpow_0 [simp]: "bpow b 0 = 1"
  by (simp add: bpow_def)

lemma bpow_Suc: "0 < b \<Longrightarrow> bpow b (e + 1) = bpow b e * of_nat b"
  by (simp add: bpow_add) (simp add: bpow_def)

lemma bpow_nat: "bpow b (int k) = of_nat (b ^ k)"
  by (simp add: bpow_def)

lemma exponent_bounds:
  assumes "1 < b" and "0 < x"
  shows "bpow b (exponent b x) \<le> x \<and> x < bpow b (exponent b x + 1)"
proof -
  obtain n d where q: "quotient_of x = (n, d)" by (cases "quotient_of x")
  then have d: "0 < d" and x: "x = of_int n / of_int d"
    by (simp_all add: quotient_of_denom_pos quotient_of_div)
  with assms(2) have n: "0 < n" by (simp add: zero_less_divide_iff)
  define L M where "L = floorlog b (nat n)" and "M = floorlog b (nat d)"
  have nb: "b ^ (L - 1) \<le> nat n" "nat n < b ^ L" and db: "b ^ (M - 1) \<le> nat d" "nat d < b ^ M"
    using floorlog_bounds [of "nat n" b] floorlog_bounds [of "nat d" b] n d assms(1)
    by (simp_all add: L_def M_def)
  have LM: "0 < L" "0 < M"
    using n d assms(1) by (simp_all add: L_def M_def floorlog_def)
  have cast: "of_nat (nat n) = (of_int n :: rat)" "of_nat (nat d) = (of_int d :: rat)"
    using n d by simp_all
  have n1: "bpow b (int L - 1) \<le> of_int n" and n2: "of_int n < bpow b (int L)"
    and d1: "bpow b (int M - 1) \<le> of_int d" and d2: "of_int d < bpow b (int M)"
  proof -
    have "int L - 1 = int (L - 1)" "int M - 1 = int (M - 1)" using LM by simp_all
    then show "bpow b (int L - 1) \<le> of_int n" "bpow b (int M - 1) \<le> of_int d"
      using nb(1) db(1) cast by (metis bpow_nat of_nat_le_iff)+
    show "of_int n < bpow b (int L)" "of_int d < bpow b (int M)"
      using nb(2) db(2) cast by (metis bpow_nat of_nat_less_iff)+
  qed
  have pos: "0 < bpow b e" for e using assms(1) by (simp add: bpow_pos)
  have dpos: "(0::rat) < of_int d" using d by simp
  have lo: "bpow b (int L - int M - 1) \<le> x"
  proof -
    have "bpow b (int L - int M - 1) * of_int d \<le> bpow b (int L - int M - 1) * bpow b (int M)"
      using d2 pos by (simp add: mult_left_mono order_less_imp_le)
    also have "\<dots> = bpow b (int L - 1)"
      using assms(1) by (subst bpow_add [symmetric]) simp_all
    finally show ?thesis using n1 dpos by (simp add: x pos_le_divide_eq)
  qed
  have hi: "x < bpow b (int L - int M + 1)"
  proof -
    have "bpow b (int L) = bpow b (int L - int M + 1) * bpow b (int M - 1)"
      using assms(1) by (subst bpow_add [symmetric]) simp_all
    also have "\<dots> \<le> bpow b (int L - int M + 1) * of_int d"
      using d1 pos by (simp add: mult_left_mono order_less_imp_le)
    finally show ?thesis using n2 dpos by (simp add: x pos_divide_less_eq)
  qed
  show ?thesis
    using lo hi by (auto simp: exponent_def q Let_def L_def [symmetric] M_def [symmetric])
qed

lemma exponent_unique:
  assumes "1 < b" and "0 < x" and "bpow b e \<le> x" and "x < bpow b (f + 1)"
  shows "e \<le> exponent b x \<and> exponent b x \<le> f"
proof -
  have *: "bpow b i < bpow b j \<Longrightarrow> i < j" for i j
    using bpow_mono [OF assms(1), of j i] by (meson not_less)
  have "bpow b e < bpow b (exponent b x + 1)" "bpow b (exponent b x) < bpow b (f + 1)"
    using exponent_bounds [OF assms(1,2)] assms(3,4) by (meson order_le_less_trans)+
  then have "e < exponent b x + 1" "exponent b x < f + 1" by (blast dest: *)+
  then show ?thesis by simp
qed

lemma exponent_mono:
  assumes "1 < b" and "0 < x" and "x \<le> y"
  shows "exponent b x \<le> exponent b y"
proof -
  have "0 < y" and "bpow b (exponent b x) \<le> y"
    using assms exponent_bounds [OF assms(1,2)] by simp_all
  then show ?thesis
    using exponent_unique [OF assms(1), of y "exponent b x" "exponent b y"]
      exponent_bounds [OF assms(1), of y] by simp
qed

text \<open>The last kept digit of \<open>x\<close> counts \<open>u\<close>: \<open>x / u\<close> has exactly \<open>p\<close> digits before the point.\<close>

lemma scaled_bounds:
  assumes "1 < b" and "0 < x" and "0 < p" and "u = bpow b (exponent b x - int p + 1)"
  shows "of_int (int b ^ (p - 1)) \<le> x / u" "x / u \<le> of_int (int b ^ p)"
proof -
  have u: "0 < u" using assms by (simp add: bpow_pos)
  have e: "bpow b (exponent b x) = bpow b (int (p - 1)) * u"
    "bpow b (exponent b x + 1) = bpow b (int p) * u"
    unfolding assms(4) using assms(1,3) by (simp_all flip: bpow_add add: of_nat_diff)
  from exponent_bounds [OF assms(1,2)] u
  show "of_int (int b ^ (p - 1)) \<le> x / u" "x / u \<le> of_int (int b ^ p)"
    by (simp_all add: e bpow_nat pos_le_divide_eq pos_divide_le_eq order_less_imp_le)
qed

lemma round_pos_bounds:
  assumes "1 < b" and "0 < x" and "0 < p"
  shows "bpow b (exponent b x) \<le> round_pos b p x" "round_pos b p x \<le> bpow b (exponent b x + 1)"
proof -
  define u where "u = bpow b (exponent b x - int p + 1)"
  have u: "0 < u" using assms by (simp add: u_def bpow_pos)
  have e: "bpow b (exponent b x) = bpow b (int (p - 1)) * u"
    "bpow b (exponent b x + 1) = bpow b (int p) * u"
    unfolding u_def using assms(1,3) by (simp_all flip: bpow_add add: of_nat_diff)
  have "int b ^ (p - 1) \<le> round_half_even (x / u)" "round_half_even (x / u) \<le> int b ^ p"
    using scaled_bounds [OF assms u_def]
    by (simp_all only: round_half_even_ge_int round_half_even_le_int)
  then have "of_int (int b ^ (p - 1)) * u \<le> round_pos b p x"
    "round_pos b p x \<le> of_int (int b ^ p) * u"
    unfolding round_pos_def Let_def u_def [symmetric]
    using u by (simp_all only: of_int_le_iff mult_le_cancel_right_pos)
  then show "bpow b (exponent b x) \<le> round_pos b p x"
    "round_pos b p x \<le> bpow b (exponent b x + 1)"
    by (simp_all add: e bpow_nat)
qed

lemma round_pos_mono:
  assumes "1 < b" and "0 < p" and "0 < x" and "x \<le> y"
  shows "round_pos b p x \<le> round_pos b p y"
proof (cases "exponent b x = exponent b y")
  case True
  define u where "u = bpow b (exponent b y - int p + 1)"
  have "0 < u" using assms by (simp add: u_def bpow_pos)
  with assms(4) have "round_half_even (x / u) \<le> round_half_even (y / u)"
    by (intro round_half_even_mono divide_right_mono) simp_all
  with \<open>0 < u\<close> True show ?thesis
    by (simp add: round_pos_def Let_def u_def [symmetric])
next
  case False
  with exponent_mono [OF assms(1,3,4)] have "exponent b x + 1 \<le> exponent b y" by simp
  then have "bpow b (exponent b x + 1) \<le> bpow b (exponent b y)"
    by (rule bpow_mono [OF assms(1)])
  with round_pos_bounds [OF assms(1,3,2)] round_pos_bounds [OF assms(1) _ assms(2), of y] assms
  show ?thesis by (meson order_trans order_less_le_trans)
qed

lemma round_pos_pos: "1 < b \<Longrightarrow> 0 < p \<Longrightarrow> 0 < x \<Longrightarrow> 0 < round_pos b p x"
  using round_pos_bounds(1) [of b x p] bpow_pos [of b "exponent b x"] by simp

lemma round_sig_mono:
  assumes "1 < b" and "0 < p" and "x \<le> y"
  shows "round_sig b p x \<le> round_sig b p y"
  using round_pos_pos [OF assms(1,2), of "- x"] round_pos_pos [OF assms(1,2), of y]
    round_pos_mono [OF assms(1,2), of x y] round_pos_mono [OF assms(1,2), of "- y" "- x"] assms(3)
  by (auto simp: round_sig_def)

lemma round_pos_of_int:
  assumes "1 < b" and "0 < n" and "n < int b ^ p"
  shows "round_pos b p (of_int n) = of_int n"
proof -
  define e where "e = exponent b (of_int n)"
  define u where "u = bpow b (e - int p + 1)"
  have p: "0 < p" using assms by (cases p) auto
  have "(of_int n :: rat) < of_int (int b ^ p)" using assms(3) by (simp only: of_int_less_iff)
  also have "\<dots> = bpow b (int p - 1 + 1)" by (simp add: bpow_nat)
  finally have "e \<le> int p - 1"
    using exponent_unique [OF assms(1), of "of_int n" e "int p - 1"] exponent_bounds [OF assms(1)]
      assms(2) by (simp add: e_def)
  then obtain k where k: "int p - 1 - e = int k"
    using zero_le_imp_eq_int [of "int p - 1 - e"] by auto
  have u: "0 < u" using assms(1) by (simp add: u_def bpow_pos)
  have "bpow b (int k) * u = 1"
    unfolding u_def k [symmetric] using assms(1) by (simp flip: bpow_add)
  then have "of_int n / u = of_int (n * int b ^ k)"
    using u by (simp add: bpow_nat divide_eq_eq)
  then have "round_half_even (of_int n / u) = n * int b ^ k"
    by (simp only: round_half_even_of_int)
  then show ?thesis
    using \<open>bpow b (int k) * u = 1\<close>
    by (simp add: round_pos_def Let_def e_def [symmetric] u_def [symmetric] bpow_nat)
qed

lemma round_sig_of_int:
  assumes "1 < b" and "\<bar>n\<bar> < int b ^ p"
  shows "round_sig b p (of_int n) = of_int n"
  using round_pos_of_int [of b n p] round_pos_of_int [of b "- n" p] assms
  by (auto simp: round_sig_def)

lemma round_sig_0 [simp]: "round_sig b p 0 = 0"
  by (simp add: round_sig_def)

section \<open>Decimal arithmetic\<close>

lemma dec28_mono: "x \<le> y \<Longrightarrow> dec28 x \<le> dec28 y"
  by (simp add: dec28_def round_sig_mono)

lemma to_float_mono: "x \<le> y \<Longrightarrow> to_float x \<le> to_float y"
  by (simp add: to_float_def round_sig_mono)

lemma dec28_0 [simp]: "dec28 0 = 0"
  by (simp add: dec28_def)

lemma to_float_0 [simp]: "to_float 0 = 0"
  by (simp add: to_float_def)

lemma dec28_nonneg: "0 \<le> x \<Longrightarrow> 0 \<le> dec28 x"
  using dec28_mono [of 0 x] by simp

lemma to_float_nonneg: "0 \<le> x \<Longrightarrow> 0 \<le> to_float x"
  using to_float_mono [of 0 x] by simp

lemma dec28_of_int: "\<bar>n\<bar> < 10 ^ 28 \<Longrightarrow> dec28 (of_int n) = of_int n"
  using round_sig_of_int [of 10 n 28] by (simp add: dec28_def)

lemma to_float_of_int: "\<bar>n\<bar> < 2 ^ 53 \<Longrightarrow> to_float (of_int n) = of_int n"
  using round_sig_of_int [of 2 n 53] by (simp add: to_float_def)

text \<open>The four operations of a \<open>Decimal\<close> in the default context.\<close>

definition dadd :: "rat \<Rightarrow> rat \<Rightarrow> rat" where
  "dadd x y = dec28 (x + y)"

definition dsub :: "rat \<Rightarrow> rat \<Rightarrow> rat" where
  "dsub x y = dec28 (x - y)"

definition dmul :: "rat \<Rightarrow> rat \<Rightarrow> rat" where
  "dmul x y = dec28 (x * y)"

definition ddiv :: "rat \<Rightarrow> rat \<Rightarrow> rat" where
  "ddiv x y = dec28 (x / y)"

text \<open>\<open>round(float(x))\<close>.\<close>

definition round_float :: "rat \<Rightarrow> int" where
  "round_float x = round_half_even (to_float x)"

lemma dadd_mono: "x \<le> x' \<Longrightarrow> y \<le> y' \<Longrightarrow> dadd x y \<le> dadd x' y'"
  by (simp add: dadd_def dec28_mono add_mono)

lemma dmul_mono: "0 \<le> x \<Longrightarrow> x \<le> x' \<Longrightarrow> 0 \<le> y \<Longrightarrow> y \<le> y' \<Longrightarrow> dmul x y \<le> dmul x' y'"
  by (simp add: dmul_def dec28_mono mult_mono)

lemma ddiv_mono: "x \<le> x' \<Longrightarrow> 0 \<le> y \<Longrightarrow> ddiv x y \<le> ddiv x' y"
  by (simp add: ddiv_def dec28_mono divide_right_mono)

lemma dadd_nonneg: "0 \<le> x \<Longrightarrow> 0 \<le> y \<Longrightarrow> 0 \<le> dadd x y"
  by (simp add: dadd_def dec28_nonneg)

lemma dmul_nonneg: "0 \<le> x \<Longrightarrow> 0 \<le> y \<Longrightarrow> 0 \<le> dmul x y"
  by (simp add: dmul_def dec28_nonneg)

lemma ddiv_nonneg: "0 \<le> x \<Longrightarrow> 0 \<le> y \<Longrightarrow> 0 \<le> ddiv x y"
  by (simp add: ddiv_def dec28_nonneg)

lemma round_float_mono: "x \<le> y \<Longrightarrow> round_float x \<le> round_float y"
  by (simp add: round_float_def round_half_even_mono to_float_mono)

lemma round_float_nonneg: "0 \<le> x \<Longrightarrow> 0 \<le> round_float x"
  by (simp add: round_float_def round_half_even_nonneg to_float_nonneg)

lemma round_float_le_int: "x \<le> of_int n \<Longrightarrow> \<bar>n\<bar> < 2 ^ 53 \<Longrightarrow> round_float x \<le> n"
  using to_float_mono [of x "of_int n"]
  by (simp add: round_float_def round_half_even_le_int to_float_of_int)

end
