(* ===== verification/Payment_Entities.thy ===== *)
theory Payment_Entities
  imports Py_Numbers
begin

text \<open>
  The data of app\_base/modules/payment/domain/entities.py: the enumerations with their stored
  strings, the statuses that still await the provider, and one record per dataclass. Fields
  carry a prefix for their class; \<open>created_at\<close> columns are not null and every construction
  passes a value, so those fields are plain timestamps.
\<close>

section \<open>Enumerations\<close>

datatype payment_status = PS_PENDING | PS_REQUIRES_ACTION | PS_PROCESSING | PS_SUCCEEDED
  | PS_FAILED | PS_CANCELLED | PS_PARTIALLY_REFUNDED | PS_REFUNDED | PS_COLLECTED | PS_DISPUTED

datatype payment_method = PM_CASH | PM_MOBILE_MONEY | PM_WAVE | PM_DIDDIPAY

datatype debt_status = DS_OPEN | DS_MOBILE_MONEY_PENDING | DS_CASH_PENDING_CONFIRMATION | DS_SETTLED

datatype entry_direction = CREDIT | DEBIT

datatype entry_status = ES_PENDING | ES_CONFIRMED | ES_FAILED

datatype entry_type = RIDE_PAYOUT | PLATFORM_COMMISSION | TOPUP | ADJUSTMENT
  | WITHDRAWAL_RESERVED | WITHDRAWAL_SUCCEEDED | WITHDRAWAL_RELEASED | REFUND

datatype topup_status = TS_PENDING | TS_REQUIRES_ACTION | TS_PROCESSING | TS_SUCCEEDED
  | TS_FAILED | TS_CANCELLED

datatype withdrawal_status = WS_RESERVED | WS_PROCESSING | WS_SUCCEEDED | WS_FAILED | WS_RELEASED

fun payment_status_value :: "payment_status \<Rightarrow> string" where
  "payment_status_value PS_PENDING = ''pending''"
| "payment_status_value PS_REQUIRES_ACTION = ''requires_action''"
| "payment_status_value PS_PROCESSING = ''processing''"
| "payment_status_value PS_SUCCEEDED = ''succeeded''"
| "payment_status_value PS_FAILED = ''failed''"
| "payment_status_value PS_CANCELLED = ''cancelled''"
| "payment_status_value PS_PARTIALLY_REFUNDED = ''partially_refunded''"
| "payment_status_value PS_REFUNDED = ''refunded''"
| "payment_status_value PS_COLLECTED = ''collected''"
| "payment_status_value PS_DISPUTED = ''disputed''"

text \<open>\<open>PaymentStatus(value)\<close>: None where the constructor raises \<open>ValueError\<close>.\<close>

definition payment_status_of :: "string \<Rightarrow> payment_status option" where
  "payment_status_of s = find (\<lambda>x. payment_status_value x = s)
     [PS_PENDING, PS_REQUIRES_ACTION, PS_PROCESSING, PS_SUCCEEDED, PS_FAILED, PS_CANCELLED,
      PS_PARTIALLY_REFUNDED, PS_REFUNDED, PS_COLLECTED, PS_DISPUTED]"

fun payment_method_value :: "payment_method \<Rightarrow> string" where
  "payment_method_value PM_CASH = ''cash''"
| "payment_method_value PM_MOBILE_MONEY = ''mobile_money''"
| "payment_method_value PM_WAVE = ''wave''"
| "payment_method_value PM_DIDDIPAY = ''diddipay''"

definition payment_method_of :: "string \<Rightarrow> payment_method option" where
  "payment_method_of s = find (\<lambda>x. payment_method_value x = s)
     [PM_CASH, PM_MOBILE_MONEY, PM_WAVE, PM_DIDDIPAY]"

fun topup_status_value :: "topup_status \<Rightarrow> string" where
  "topup_status_value TS_PENDING = ''pending''"
| "topup_status_value TS_REQUIRES_ACTION = ''requires_action''"
| "topup_status_value TS_PROCESSING = ''processing''"
| "topup_status_value TS_SUCCEEDED = ''succeeded''"
| "topup_status_value TS_FAILED = ''failed''"
| "topup_status_value TS_CANCELLED = ''cancelled''"

fun withdrawal_status_value :: "withdrawal_status \<Rightarrow> string" where
  "withdrawal_status_value WS_RESERVED = ''reserved''"
| "withdrawal_status_value WS_PROCESSING = ''processing''"
| "withdrawal_status_value WS_SUCCEEDED = ''succeeded''"
| "withdrawal_status_value WS_FAILED = ''failed''"
| "withdrawal_status_value WS_RELEASED = ''released''"

definition PENDING_PAYMENT_STATUSES :: "payment_status list" where
  "PENDING_PAYMENT_STATUSES = [PS_PENDING, PS_REQUIRES_ACTION, PS_PROCESSING]"

definition PENDING_TOPUP_STATUSES :: "topup_status list" where
  "PENDING_TOPUP_STATUSES = [TS_PENDING, TS_REQUIRES_ACTION, TS_PROCESSING]"

definition PENDING_WITHDRAWAL_STATUSES :: "withdrawal_status list" where
  "PENDING_WITHDRAWAL_STATUSES = [WS_RESERVED, WS_PROCESSING]"

lemma payment_status_roundtrip [simp]: "payment_status_of (payment_status_value s) = Some s"
  by (cases s) (simp_all add: payment_status_of_def)

lemma payment_method_roundtrip [simp]: "payment_method_of (payment_method_value m) = Some m"
  by (cases m) (simp_all add: payment_method_of_def)

lemma payment_status_of_Some: "payment_status_of s = Some x \<Longrightarrow> payment_status_value x = s"
  unfolding payment_status_of_def find_Some_iff by blast

section \<open>Dataclasses\<close>

text \<open>\<open>KEEP\<close> is the sentinel for "leave the stored value": \<open>None\<close> itself is a value to store.\<close>

datatype 'a keep = KEEP | Write 'a

fun keep_or :: "'a keep \<Rightarrow> 'a \<Rightarrow> 'a" where
  "keep_or KEEP old = old"
| "keep_or (Write new) old = new"

record transaction =
  tx_id :: uuid
  tx_ride_id :: uuid
  tx_amount :: rat
  tx_currency :: string
  tx_method :: payment_method
  tx_status :: payment_status
  tx_collected_by :: "uuid option"
  tx_collected_at :: "datetime option"
  tx_created_at :: datetime
  tx_payment_intent_id :: "uuid option"
  tx_business_reference :: "string option"
  tx_idempotency_key :: "string option"
  tx_provider_status :: "string option"
  tx_provider_next_action :: "json option"
  tx_paid_at :: "datetime option"

record passenger_debt =
  pd_id :: uuid
  pd_passenger_user_id :: uuid
  pd_ride_id :: uuid
  pd_amount :: rat
  pd_status :: debt_status
  pd_currency :: string
  pd_reason :: string
  pd_created_at :: datetime
  pd_updated_at :: datetime
  pd_settled_at :: "datetime option"
  pd_settled_by :: "uuid option"

record driver_wallet =
  wa_id :: uuid
  wa_driver_id :: uuid
  wa_balance :: rat
  wa_currency :: string
  wa_updated_at :: "datetime option"

record ledger_entry =
  le_id :: uuid
  le_driver_id :: uuid
  le_amount :: rat
  le_currency :: string
  le_direction :: entry_direction
  le_entry_type :: entry_type
  le_status :: entry_status
  le_reference_type :: string
  le_reference_id :: uuid
  le_description :: "string option"
  le_created_at :: datetime

record driver_topup =
  tu_id :: uuid
  tu_driver_id :: uuid
  tu_amount :: rat
  tu_currency :: string
  tu_method :: payment_method
  tu_status :: topup_status
  tu_payment_intent_id :: "uuid option"
  tu_business_reference :: "string option"
  tu_idempotency_key :: "string option"
  tu_provider_status :: "string option"
  tu_provider_next_action :: "json option"
  tu_created_at :: datetime
  tu_paid_at :: "datetime option"

record withdrawal_quote =
  wq_id :: uuid
  wq_driver_id :: uuid
  wq_amount :: rat
  wq_fees :: rat
  wq_net_amount :: rat
  wq_currency :: string
  wq_expires_at :: datetime
  wq_consumed_at :: "datetime option"
  wq_created_at :: datetime

record withdrawal_verification =
  wv_id :: uuid
  wv_driver_id :: uuid
  wv_beneficiary_destination :: json
  wv_recipient_phone :: string
  wv_code_hash :: string
  wv_expires_at :: datetime
  wv_attempt_count :: int
  wv_consumed_at :: "datetime option"
  wv_created_at :: datetime

record driver_withdrawal =
  wd_id :: uuid
  wd_driver_id :: uuid
  wd_quote_id :: uuid
  wd_amount :: rat
  wd_fees :: rat
  wd_net_amount :: rat
  wd_beneficiary_reference :: string
  wd_beneficiary_destination :: "json option"
  wd_status :: withdrawal_status
  wd_currency :: string
  wd_payout_id :: "uuid option"
  wd_business_reference :: "string option"
  wd_idempotency_key :: "string option"
  wd_provider_status :: "string option"
  wd_failure_code :: "string option"
  wd_failure_message :: "string option"
  wd_created_at :: datetime
  wd_reserved_at :: "datetime option"
  wd_succeeded_at :: "datetime option"
  wd_released_at :: "datetime option"
  wd_updated_at :: datetime

text \<open>A row of \<open>payment.webhook_events\<close>: the processed callbacks, keyed by their event id.\<close>

record webhook_event =
  we_id :: string
  we_payment_intent_id :: "uuid option"
  we_event_type :: string
  we_business_reference :: "string option"
  we_payload :: string

end
