(* ===== verification/Payment_Repository.thy ===== *)
theory Payment_Repository
  imports Payment_Entities
begin

text \<open>
  app\_base/modules/payment/infra/repositories.py: the tables of the \<open>payment\<close> schema as lists of
  rows and every operation of \<open>SqlAlchemyPaymentRepository\<close> that reads or writes them. Unique
  constraints (payment/infra/models.py) are the \<open>clash\<close> relations. \<open>new_id\<close> stands for
  \<open>uuid4()\<close>: a counter in the state, so that ids never repeat.

  A wallet balance is money; the ledger is its history. What that means, and that every write keeps it,
  is in Payment\_Ledger.
\<close>

section \<open>State\<close>

record pay_db =
  transactions :: "transaction list"
  debts :: "passenger_debt list"
  webhook_events :: "webhook_event list"
  wallets :: "driver_wallet list"
  ledger :: "ledger_entry list"
  topups :: "driver_topup list"
  quotes :: "withdrawal_quote list"
  verifications :: "withdrawal_verification list"
  withdrawals :: "driver_withdrawal list"
  next_id :: nat

definition empty_pay_db :: pay_db where
  "empty_pay_db = \<lparr>transactions = [], debts = [], webhook_events = [], wallets = [], ledger = [],
     topups = [], quotes = [], verifications = [], withdrawals = [], next_id = 1\<rparr>"

definition new_id :: "pay_db \<Rightarrow> uuid \<times> pay_db" where
  "new_id db = (next_id db, db\<lparr>next_id := Suc (next_id db)\<rparr>)"

text \<open>The unique constraints of the tables.\<close>

definition tx_clash :: "transaction \<Rightarrow> transaction \<Rightarrow> bool" where
  "tx_clash a b \<longleftrightarrow> tx_id a = tx_id b
     \<or> some_clash (tx_payment_intent_id a) (tx_payment_intent_id b)
     \<or> some_clash (tx_idempotency_key a) (tx_idempotency_key b)"

definition pd_clash :: "passenger_debt \<Rightarrow> passenger_debt \<Rightarrow> bool" where
  "pd_clash a b \<longleftrightarrow> pd_id a = pd_id b \<or> pd_ride_id a = pd_ride_id b"

definition tu_clash :: "driver_topup \<Rightarrow> driver_topup \<Rightarrow> bool" where
  "tu_clash a b \<longleftrightarrow> tu_id a = tu_id b
     \<or> some_clash (tu_payment_intent_id a) (tu_payment_intent_id b)
     \<or> some_clash (tu_idempotency_key a) (tu_idempotency_key b)"

definition wd_clash :: "driver_withdrawal \<Rightarrow> driver_withdrawal \<Rightarrow> bool" where
  "wd_clash a b \<longleftrightarrow> wd_id a = wd_id b \<or> wd_quote_id a = wd_quote_id b
     \<or> some_clash (wd_payout_id a) (wd_payout_id b)
     \<or> some_clash (wd_idempotency_key a) (wd_idempotency_key b)"

definition le_key :: "ledger_entry \<Rightarrow> uuid \<times> entry_type \<times> string \<times> uuid" where
  "le_key e = (le_driver_id e, le_entry_type e, le_reference_type e, le_reference_id e)"

section \<open>Transactions\<close>

definition save_transaction :: "transaction \<Rightarrow> pay_db \<Rightarrow> exn + transaction \<times> pay_db" where
  "save_transaction t db = bindR (insert_row tx_clash t (transactions db))
     (\<lambda>rows. Inr (t, db\<lparr>transactions := rows\<rparr>))"

definition find_by_ride_id :: "uuid \<Rightarrow> pay_db \<Rightarrow> exn + transaction option" where
  "find_by_ride_id rid db = scalar_one_or_none (filter (\<lambda>t. tx_ride_id t = rid) (transactions db))"

definition find_by_payment_intent_id :: "uuid \<Rightarrow> pay_db \<Rightarrow> exn + transaction option" where
  "find_by_payment_intent_id pid db =
     scalar_one_or_none (filter (\<lambda>t. tx_payment_intent_id t = Some pid) (transactions db))"

definition update_collected ::
  "uuid \<Rightarrow> uuid \<Rightarrow> rat \<Rightarrow> datetime \<Rightarrow> pay_db \<Rightarrow> exn + transaction \<times> pay_db" where
  "update_collected tid collected_by amount collected_at db =
     (case get_row tx_id tid (transactions db) of
        None \<Rightarrow> Inl (LookupError ''No transaction'')
      | Some row \<Rightarrow>
        let row' = row\<lparr>tx_collected_by := Some collected_by, tx_amount := amount,
              tx_collected_at := Some collected_at,
              tx_method := PM_CASH, tx_status := PS_COLLECTED\<rparr>
        in Inr (row', db\<lparr>transactions := put_row tx_id tid row' (transactions db)\<rparr>))"

definition prepare_cash_payment :: "uuid \<Rightarrow> pay_db \<Rightarrow> exn + transaction \<times> pay_db" where
  "prepare_cash_payment tid db =
     (case get_row tx_id tid (transactions db) of
        None \<Rightarrow> Inl (LookupError ''No transaction'')
      | Some row \<Rightarrow>
        let row' = row\<lparr>tx_method := PM_CASH, tx_status := PS_PENDING, tx_payment_intent_id := None,
              tx_business_reference := None, tx_idempotency_key := None,
              tx_provider_status := Some ''local'', tx_provider_next_action := None,
              tx_paid_at := None\<rparr>
        in Inr (row', db\<lparr>transactions := put_row tx_id tid row' (transactions db)\<rparr>))"

definition mark_external_status ::
  "uuid \<Rightarrow> payment_status \<Rightarrow> string option \<Rightarrow> datetime option \<Rightarrow> json option keep \<Rightarrow> pay_db
    \<Rightarrow> exn + transaction \<times> pay_db" where
  "mark_external_status tid status provider_status paid_at next_action db =
     (case get_row tx_id tid (transactions db) of
        None \<Rightarrow> Inl (LookupError ''No transaction'')
      | Some row \<Rightarrow>
        let row1 = row\<lparr>tx_status := status, tx_provider_status := provider_status\<rparr>;
            row2 = (if paid_at \<noteq> None
                    then row1\<lparr>tx_paid_at := paid_at, tx_collected_at := paid_at\<rparr> else row1);
            row' = row2\<lparr>tx_provider_next_action := keep_or next_action (tx_provider_next_action row2)\<rparr>
        in Inr (row', db\<lparr>transactions := put_row tx_id tid row' (transactions db)\<rparr>))"

definition replace_external_intent ::
  "uuid \<Rightarrow> uuid \<Rightarrow> string \<Rightarrow> payment_method \<Rightarrow> payment_status \<Rightarrow> string \<Rightarrow> json option \<Rightarrow> pay_db
    \<Rightarrow> exn + transaction \<times> pay_db" where
  "replace_external_intent tid intent idem method status provider_status next_action db =
     (case get_row tx_id tid (transactions db) of
        None \<Rightarrow> Inl (LookupError ''No transaction'')
      | Some row \<Rightarrow>
        let row' = row\<lparr>tx_payment_intent_id := Some intent, tx_idempotency_key := Some idem,
              tx_method := method, tx_status := status, tx_provider_status := Some provider_status,
              tx_provider_next_action := next_action, tx_paid_at := None, tx_collected_at := None\<rparr>
        in bindR (update_row tx_id tx_clash row' (transactions db))
             (\<lambda>rows. Inr (row', db\<lparr>transactions := rows\<rparr>)))"

definition list_stale_transactions ::
  "datetime \<Rightarrow> datetime \<Rightarrow> nat \<Rightarrow> pay_db \<Rightarrow> transaction list" where
  "list_stale_transactions created_before created_after limit db =
     take limit (sort_key tx_created_at (filter (\<lambda>t. tx_payment_intent_id t \<noteq> None
        \<and> tx_status t \<in> set PENDING_PAYMENT_STATUSES
        \<and> tx_created_at t \<le> created_before \<and> created_after \<le> tx_created_at t) (transactions db)))"

section \<open>Passenger debts\<close>

definition find_open_debt_for_passenger :: "uuid \<Rightarrow> pay_db \<Rightarrow> passenger_debt option" where
  "find_open_debt_for_passenger uid db =
     (case sort_key pd_created_at (filter (\<lambda>d. pd_passenger_user_id d = uid
         \<and> pd_status d \<noteq> DS_SETTLED) (debts db)) of [] \<Rightarrow> None | d # _ \<Rightarrow> Some d)"

definition find_debt_by_id :: "uuid \<Rightarrow> pay_db \<Rightarrow> passenger_debt option" where
  "find_debt_by_id did db = get_row pd_id did (debts db)"

definition find_debt_by_ride_id :: "uuid \<Rightarrow> pay_db \<Rightarrow> exn + passenger_debt option" where
  "find_debt_by_ride_id rid db = scalar_one_or_none (filter (\<lambda>d. pd_ride_id d = rid) (debts db))"

text \<open>Pages are numbered from 1; the newest rows come first.\<close>

definition list_debts_for_passenger ::
  "uuid \<Rightarrow> nat \<Rightarrow> nat \<Rightarrow> pay_db \<Rightarrow> passenger_debt list \<times> nat" where
  "list_debts_for_passenger uid page page_size db =
     (let rows = filter (\<lambda>d. pd_passenger_user_id d = uid) (debts db)
      in (page_desc pd_created_at page page_size rows, length rows))"

definition save_debt :: "passenger_debt \<Rightarrow> pay_db \<Rightarrow> exn + passenger_debt \<times> pay_db" where
  "save_debt d db = bindR (insert_row pd_clash d (debts db))
     (\<lambda>rows. Inr (d, db\<lparr>debts := rows\<rparr>))"

definition update_debt_status ::
  "uuid \<Rightarrow> debt_status \<Rightarrow> datetime option \<Rightarrow> uuid option \<Rightarrow> datetime \<Rightarrow> pay_db
    \<Rightarrow> exn + passenger_debt \<times> pay_db" where
  "update_debt_status did status settled_at settled_by now db =
     (case get_row pd_id did (debts db) of
        None \<Rightarrow> Inl (LookupError ''No passenger debt'')
      | Some row \<Rightarrow>
        let row1 = row\<lparr>pd_status := status, pd_updated_at := now\<rparr>;
            row' = (if settled_at \<noteq> None
                    then row1\<lparr>pd_settled_at := settled_at, pd_settled_by := settled_by\<rparr> else row1)
        in Inr (row', db\<lparr>debts := put_row pd_id did row' (debts db)\<rparr>))"

section \<open>Callbacks\<close>

definition record_webhook_event :: "webhook_event \<Rightarrow> pay_db \<Rightarrow> bool \<times> pay_db" where
  "record_webhook_event e db =
     (let (stored, rows) = insert_do_nothing we_id e (webhook_events db)
      in (stored, db\<lparr>webhook_events := rows\<rparr>))"

section \<open>Wallets and the ledger\<close>

definition get_or_create_wallet ::
  "uuid \<Rightarrow> string \<Rightarrow> pay_db \<Rightarrow> driver_wallet \<times> pay_db" where
  "get_or_create_wallet driver_id currency db =
     (case get_row wa_driver_id driver_id (wallets db) of
        Some w \<Rightarrow> (w, db)
      | None \<Rightarrow>
        let (wid, db1) = new_id db;
            w = \<lparr>wa_id = wid, wa_driver_id = driver_id, wa_balance = 0, wa_currency = currency,
                 wa_updated_at = None\<rparr>
        in (w, db1\<lparr>wallets := wallets db1 @ [w]\<rparr>))"

definition withdrawal_reserved_total :: "uuid \<Rightarrow> pay_db \<Rightarrow> rat" where
  "withdrawal_reserved_total driver_id db =
     (\<Sum>w\<leftarrow>filter (\<lambda>w. wd_driver_id w = driver_id
        \<and> wd_status w \<in> {WS_RESERVED, WS_PROCESSING}) (withdrawals db). wd_amount w)"

definition list_ledger_entries ::
  "uuid \<Rightarrow> nat \<Rightarrow> nat \<Rightarrow> pay_db \<Rightarrow> ledger_entry list \<times> nat" where
  "list_ledger_entries driver_id page page_size db =
     (let rows = filter (\<lambda>e. le_driver_id e = driver_id) (ledger db)
      in (page_desc le_created_at page page_size rows, length rows))"

definition set_balance :: "uuid \<Rightarrow> rat \<Rightarrow> datetime \<Rightarrow> driver_wallet \<Rightarrow> pay_db \<Rightarrow> pay_db" where
  "set_balance driver_id balance now w db =
     db\<lparr>wallets := put_row wa_driver_id driver_id
          (w\<lparr>wa_balance := balance, wa_updated_at := Some now\<rparr>) (wallets db)\<rparr>"

definition record_ledger_entry_once ::
  "ledger_entry \<Rightarrow> datetime \<Rightarrow> pay_db \<Rightarrow> exn + ledger_entry option \<times> pay_db" where
  "record_ledger_entry_once entry now db =
     (let (w, db1) = get_or_create_wallet (le_driver_id entry) (le_currency entry) db;
          (inserted, rows) = insert_do_nothing le_key entry (ledger db1)
      in if \<not> inserted then Inr (None, db1)
         else
           let db2 = db1\<lparr>ledger := rows\<rparr>
           in case get_row wa_driver_id (le_driver_id entry) (wallets db2) of
                None \<Rightarrow> Inl NoResultFound
              | Some wallet \<Rightarrow>
                if le_status entry = ES_CONFIRMED then
                  let delta = (if le_direction entry = CREDIT then le_amount entry else - le_amount entry)
                  in Inr (Some entry,
                       set_balance (le_driver_id entry) (wa_balance wallet + delta) now wallet db2)
                else Inr (Some entry, db2))"

section \<open>Top-ups\<close>

definition save_topup :: "driver_topup \<Rightarrow> pay_db \<Rightarrow> exn + driver_topup \<times> pay_db" where
  "save_topup t db = bindR (insert_row tu_clash t (topups db))
     (\<lambda>rows. Inr (t, db\<lparr>topups := rows\<rparr>))"

definition find_topup_by_id :: "uuid \<Rightarrow> pay_db \<Rightarrow> driver_topup option" where
  "find_topup_by_id tid db = get_row tu_id tid (topups db)"

definition find_topup_by_payment_intent_id :: "uuid \<Rightarrow> pay_db \<Rightarrow> exn + driver_topup option" where
  "find_topup_by_payment_intent_id pid db =
     scalar_one_or_none (filter (\<lambda>t. tu_payment_intent_id t = Some pid) (topups db))"

definition mark_topup_status ::
  "uuid \<Rightarrow> topup_status \<Rightarrow> string option \<Rightarrow> datetime option \<Rightarrow> json option keep \<Rightarrow> pay_db
    \<Rightarrow> exn + driver_topup \<times> pay_db" where
  "mark_topup_status tid status provider_status paid_at next_action db =
     (case get_row tu_id tid (topups db) of
        None \<Rightarrow> Inl (LookupError ''No topup'')
      | Some row \<Rightarrow>
        let row1 = row\<lparr>tu_status := status, tu_provider_status := provider_status\<rparr>;
            row2 = (if paid_at \<noteq> None then row1\<lparr>tu_paid_at := paid_at\<rparr> else row1);
            row' = row2\<lparr>tu_provider_next_action := keep_or next_action (tu_provider_next_action row2)\<rparr>
        in Inr (row', db\<lparr>topups := put_row tu_id tid row' (topups db)\<rparr>))"

definition list_stale_topups :: "datetime \<Rightarrow> datetime \<Rightarrow> nat \<Rightarrow> pay_db \<Rightarrow> driver_topup list" where
  "list_stale_topups created_before created_after limit db =
     take limit (sort_key tu_created_at (filter (\<lambda>t. tu_payment_intent_id t \<noteq> None
        \<and> tu_status t \<in> set PENDING_TOPUP_STATUSES
        \<and> tu_created_at t \<le> created_before \<and> created_after \<le> tu_created_at t) (topups db)))"

section \<open>Withdrawals\<close>

definition save_withdrawal_quote :: "withdrawal_quote \<Rightarrow> pay_db \<Rightarrow> exn + withdrawal_quote \<times> pay_db" where
  "save_withdrawal_quote q db = bindR (insert_row (\<lambda>a b. wq_id a = wq_id b) q (quotes db))
     (\<lambda>rows. Inr (q, db\<lparr>quotes := rows\<rparr>))"

definition save_withdrawal_verification ::
  "withdrawal_verification \<Rightarrow> pay_db \<Rightarrow> exn + withdrawal_verification \<times> pay_db" where
  "save_withdrawal_verification v db =
     bindR (insert_row (\<lambda>a b. wv_id a = wv_id b) v (verifications db))
       (\<lambda>rows. Inr (v, db\<lparr>verifications := rows\<rparr>))"

definition find_latest_withdrawal_verification ::
  "uuid \<Rightarrow> pay_db \<Rightarrow> withdrawal_verification option" where
  "find_latest_withdrawal_verification driver_id db =
     (case rev (sort_key wv_created_at
              (filter (\<lambda>v. wv_driver_id v = driver_id) (verifications db))) of
        [] \<Rightarrow> None | v # _ \<Rightarrow> Some v)"

text \<open>
  A wrong code is counted and flushed before the \<open>LookupError\<close> leaves the function, so the
  session's state is part of the result in every branch.
\<close>

definition consume_withdrawal_verification ::
  "uuid \<Rightarrow> uuid \<Rightarrow> json \<Rightarrow> string \<Rightarrow> int \<Rightarrow> datetime \<Rightarrow> pay_db
    \<Rightarrow> (exn + withdrawal_verification) \<times> pay_db" where
  "consume_withdrawal_verification vid driver_id destination code_hash max_attempts now db =
     (case get_row wv_id vid (verifications db) of
        None \<Rightarrow> (Inl (LookupError ''WITHDRAWAL_VERIFICATION_NOT_FOUND''), db)
      | Some row \<Rightarrow>
        if wv_driver_id row \<noteq> driver_id
        then (Inl (LookupError ''WITHDRAWAL_VERIFICATION_NOT_FOUND''), db)
        else if wv_consumed_at row \<noteq> None
        then (Inl (LookupError ''WITHDRAWAL_VERIFICATION_USED''), db)
        else if wv_expires_at row \<le> now
        then (Inl (LookupError ''WITHDRAWAL_VERIFICATION_EXPIRED''), db)
        else if max_attempts \<le> wv_attempt_count row
        then (Inl (LookupError ''WITHDRAWAL_VERIFICATION_LOCKED''), db)
        else if wv_beneficiary_destination row \<noteq> destination \<or> wv_code_hash row \<noteq> code_hash
        then
          let row' = row\<lparr>wv_attempt_count := wv_attempt_count row + 1\<rparr>;
              db' = db\<lparr>verifications := put_row wv_id vid row' (verifications db)\<rparr>
          in (Inl (LookupError (if max_attempts \<le> wv_attempt_count row'
                then ''WITHDRAWAL_VERIFICATION_LOCKED'' else ''WITHDRAWAL_VERIFICATION_INVALID'')), db')
        else
          let row' = row\<lparr>wv_consumed_at := Some now\<rparr>
          in (Inr row', db\<lparr>verifications := put_row wv_id vid row' (verifications db)\<rparr>))"

definition withdrawal_ledger_entry ::
  "uuid \<Rightarrow> driver_withdrawal \<Rightarrow> entry_type \<Rightarrow> entry_direction \<Rightarrow> string \<Rightarrow> datetime \<Rightarrow> ledger_entry" where
  "withdrawal_ledger_entry eid w entry_type direction description now =
     \<lparr>le_id = eid, le_driver_id = wd_driver_id w, le_amount = wd_amount w,
      le_currency = wd_currency w, le_direction = direction, le_entry_type = entry_type,
      le_status = ES_CONFIRMED, le_reference_type = ''driver_withdrawal'',
      le_reference_id = wd_id w, le_description = Some description, le_created_at = now\<rparr>"

definition reserve_withdrawal_from_quote ::
  "driver_withdrawal \<Rightarrow> datetime \<Rightarrow> pay_db \<Rightarrow> exn + driver_withdrawal \<times> pay_db" where
  "reserve_withdrawal_from_quote withdrawal now db =
     (case get_row wq_id (wd_quote_id withdrawal) (quotes db) of
        None \<Rightarrow> Inl (LookupError ''WITHDRAWAL_QUOTE_NOT_FOUND'')
      | Some quote \<Rightarrow>
        if wq_driver_id quote \<noteq> wd_driver_id withdrawal
        then Inl (LookupError ''WITHDRAWAL_QUOTE_NOT_FOUND'')
        else if wq_consumed_at quote \<noteq> None then
          (case get_row wd_quote_id (wd_quote_id withdrawal) (withdrawals db) of
             None \<Rightarrow> Inl (LookupError ''WITHDRAWAL_QUOTE_ALREADY_USED'')
           | Some row \<Rightarrow>
             if wd_beneficiary_destination row = None \<and> wd_beneficiary_destination withdrawal \<noteq> None
             then let row' = row\<lparr>wd_beneficiary_destination := wd_beneficiary_destination withdrawal\<rparr>
                  in Inr (row', db\<lparr>withdrawals := put_row wd_id (wd_id row) row' (withdrawals db)\<rparr>)
             else Inr (row, db))
        else if wq_expires_at quote \<le> now then Inl (LookupError ''WITHDRAWAL_QUOTE_EXPIRED'')
        else
          let w = withdrawal\<lparr>wd_amount := wq_amount quote, wd_fees := wq_fees quote,
                wd_net_amount := wq_net_amount quote, wd_currency := wq_currency quote\<rparr>;
              (wallet, db1) = get_or_create_wallet (wd_driver_id w) (wd_currency w) db
          in if wa_balance wallet < wd_amount w
             then Inl (LookupError ''WITHDRAWAL_BALANCE_INSUFFICIENT'')
             else
               let row = w\<lparr>wd_status := WS_RESERVED, wd_payout_id := None,
                     wd_provider_status := None, wd_failure_code := None,
                     wd_failure_message := None, wd_created_at := now, wd_reserved_at := Some now,
                     wd_succeeded_at := None, wd_released_at := None, wd_updated_at := now\<rparr>;
                   (eid, db2) = new_id db1;
                   entry = withdrawal_ledger_entry eid row WITHDRAWAL_RESERVED DEBIT
                     ''Montant reserve pour retrait chauffeur'' now
               in bindR (insert_row wd_clash row (withdrawals db2)) (\<lambda>wrows.
                  bindR (insert_row (\<lambda>a b. le_key a = le_key b) entry (ledger db2)) (\<lambda>lrows.
                  Inr (row, set_balance (wd_driver_id w) (wa_balance wallet - wd_amount w) now wallet
                    (db2\<lparr>withdrawals := wrows, ledger := lrows,
                       quotes := put_row wq_id (wq_id quote)
                         (quote\<lparr>wq_consumed_at := Some now\<rparr>) (quotes db2)\<rparr>)))))"

definition find_withdrawal_by_id :: "uuid \<Rightarrow> pay_db \<Rightarrow> driver_withdrawal option" where
  "find_withdrawal_by_id wid db = get_row wd_id wid (withdrawals db)"

definition find_withdrawal_by_quote_id :: "uuid \<Rightarrow> pay_db \<Rightarrow> driver_withdrawal option" where
  "find_withdrawal_by_quote_id qid db = get_row wd_quote_id qid (withdrawals db)"

definition find_withdrawal_by_payout_id :: "uuid \<Rightarrow> pay_db \<Rightarrow> driver_withdrawal option" where
  "find_withdrawal_by_payout_id pid db = get_row wd_payout_id (Some pid) (withdrawals db)"

definition find_withdrawal_by_business_reference ::
  "string \<Rightarrow> pay_db \<Rightarrow> exn + driver_withdrawal option" where
  "find_withdrawal_by_business_reference ref db =
     scalar_one_or_none (filter (\<lambda>w. wd_business_reference w = Some ref) (withdrawals db))"

definition list_withdrawals :: "uuid \<Rightarrow> nat \<Rightarrow> nat \<Rightarrow> pay_db \<Rightarrow> driver_withdrawal list \<times> nat" where
  "list_withdrawals driver_id page page_size db =
     (let rows = filter (\<lambda>w. wd_driver_id w = driver_id) (withdrawals db)
      in (page_desc wd_created_at page page_size rows, length rows))"

definition list_stale_withdrawals :: "datetime \<Rightarrow> nat \<Rightarrow> pay_db \<Rightarrow> driver_withdrawal list" where
  "list_stale_withdrawals updated_before limit db =
     take limit (sort_key wd_updated_at (filter (\<lambda>w. wd_status w \<in> {WS_RESERVED, WS_PROCESSING}
        \<and> wd_updated_at w \<le> updated_before) (withdrawals db)))"

definition insert_withdrawal_ledger_once ::
  "driver_withdrawal \<Rightarrow> entry_type \<Rightarrow> entry_direction \<Rightarrow> string \<Rightarrow> datetime \<Rightarrow> pay_db \<Rightarrow> bool \<times> pay_db" where
  "insert_withdrawal_ledger_once row entry_type direction description now db =
     (let (eid, db1) = new_id db;
          (inserted, rows) = insert_do_nothing le_key
            (withdrawal_ledger_entry eid row entry_type direction description now) (ledger db1)
      in (inserted, db1\<lparr>ledger := rows\<rparr>))"

definition mark_withdrawal_provider_state ::
  "uuid \<Rightarrow> withdrawal_status \<Rightarrow> uuid option \<Rightarrow> string option \<Rightarrow> string option \<Rightarrow> string option
    \<Rightarrow> datetime \<Rightarrow> pay_db \<Rightarrow> exn + driver_withdrawal \<times> pay_db" where
  "mark_withdrawal_provider_state wid target payout_id provider_status failure_code failure_message
     now db =
     (case get_row wd_id wid (withdrawals db) of
        None \<Rightarrow> Inl NoResultFound
      | Some row0 \<Rightarrow>
        if wd_status row0 = WS_SUCCEEDED \<or> wd_status row0 = WS_RELEASED then Inr (row0, db)
        else
          let row = row0\<lparr>wd_payout_id := (if payout_id \<noteq> None then payout_id else wd_payout_id row0),
                wd_provider_status := provider_status, wd_failure_code := failure_code,
                wd_failure_message := failure_message, wd_updated_at := now\<rparr>
          in if target = WS_SUCCEEDED then
               let row' = row\<lparr>wd_status := WS_SUCCEEDED, wd_succeeded_at := Some now\<rparr>;
                   (_, db1) = insert_withdrawal_ledger_once row' WITHDRAWAL_SUCCEEDED DEBIT
                     ''withdrawal_succeeded'' now db
               in bindR (update_row wd_id wd_clash row' (withdrawals db1))
                    (\<lambda>rows. Inr (row', db1\<lparr>withdrawals := rows\<rparr>))
             else if target = WS_FAILED \<or> target = WS_RELEASED then
               let row' = row\<lparr>wd_status := WS_RELEASED, wd_released_at := Some now\<rparr>;
                   (inserted, db1) = insert_withdrawal_ledger_once row' WITHDRAWAL_RELEASED CREDIT
                     ''withdrawal_released'' now db
               in bindR (update_row wd_id wd_clash row' (withdrawals db1)) (\<lambda>rows.
                    let db2 = db1\<lparr>withdrawals := rows\<rparr>
                    in if inserted then
                         (case get_row wa_driver_id (wd_driver_id row') (wallets db2) of
                            None \<Rightarrow> Inl NoResultFound
                          | Some wallet \<Rightarrow> Inr (row', set_balance (wd_driver_id row')
                              (wa_balance wallet + wd_amount row') now wallet db2))
                       else Inr (row', db2))
             else
               let row' = row\<lparr>wd_status := target\<rparr>
               in bindR (update_row wd_id wd_clash row' (withdrawals db))
                    (\<lambda>rows. Inr (row', db\<lparr>withdrawals := rows\<rparr>)))"

end
