(* ===== verification/Payment_Ledger.thy ===== *)
theory Payment_Ledger
  imports Payment_Repository
begin

text \<open>
  What the payment tables promise. \<open>wallet_inv\<close>: a wallet balance is the sum of the effects of
  the driver's ledger entries. \<open>withdrawal_inv\<close>: every withdrawal was debited once when it was
  reserved, and has a success entry exactly when it succeeded and a release entry exactly when
  it was released. Both depend on a few tables only and are stated over those, so that an
  operation on another table keeps them by simplification.

  The locale \<open>once_ledger\<close> is the contract the settlement code relies on (record an entry at
  most once per key), with its clients' replay lemmas; it is interpreted on
  \<open>record_ledger_entry_once\<close>.
\<close>

section \<open>Balances\<close>

text \<open>
  The effect of an entry on the balance. A \<open>WITHDRAWAL_SUCCEEDED\<close> entry has none: the money left
  the wallet when it was reserved.
\<close>

definition balance_effect :: "ledger_entry \<Rightarrow> rat" where
  "balance_effect e =
     (if le_status e \<noteq> ES_CONFIRMED \<or> le_entry_type e = WITHDRAWAL_SUCCEEDED then 0
      else if le_direction e = CREDIT then le_amount e else - le_amount e)"

definition ledger_total :: "uuid \<Rightarrow> ledger_entry list \<Rightarrow> rat" where
  "ledger_total d es = (\<Sum>e\<leftarrow>filter (\<lambda>e. le_driver_id e = d) es. balance_effect e)"

definition wallet_inv :: "driver_wallet list \<Rightarrow> ledger_entry list \<Rightarrow> bool" where
  "wallet_inv ws es \<longleftrightarrow> distinct (map wa_driver_id ws) \<and> distinct (map le_key es)
     \<and> (\<forall>w \<in> set ws. wa_balance w = ledger_total (wa_driver_id w) es)
     \<and> (\<forall>e \<in> set es. le_driver_id e \<in> wa_driver_id ` set ws)"

definition balance_of :: "pay_db \<Rightarrow> uuid \<Rightarrow> rat" where
  "balance_of db d = (case get_row wa_driver_id d (wallets db) of None \<Rightarrow> 0 | Some w \<Rightarrow> wa_balance w)"

lemma ledger_total_simps [simp]:
  "ledger_total d [] = 0"
  "ledger_total d (es @ [e]) = ledger_total d es + (if le_driver_id e = d then balance_effect e else 0)"
  by (simp_all add: ledger_total_def)

lemma ledger_total_absent: "d \<notin> le_driver_id ` set es \<Longrightarrow> ledger_total d es = 0"
proof -
  assume "d \<notin> le_driver_id ` set es"
  then have "filter (\<lambda>e. le_driver_id e = d) es = []" by (auto simp: filter_empty_conv)
  then show ?thesis by (simp add: ledger_total_def)
qed

lemma wallet_inv_empty [simp]: "wallet_inv [] []"
  by (simp add: wallet_inv_def)

lemma wallet_inv_balance:
  assumes "wallet_inv ws es" and "get_row wa_driver_id d ws = Some w"
  shows "wa_balance w = ledger_total d es"
  using assms get_row_Some [of wa_driver_id d ws w] by (auto simp: wallet_inv_def)

lemma balance_of_total: "wallet_inv (wallets db) (ledger db) \<Longrightarrow> balance_of db d = ledger_total d (ledger db)"
proof (cases "get_row wa_driver_id d (wallets db)")
  case None
  assume "wallet_inv (wallets db) (ledger db)"
  with None have "d \<notin> le_driver_id ` set (ledger db)"
    by (auto simp: get_row_None wallet_inv_def)
  with None show ?thesis by (simp add: balance_of_def ledger_total_absent)
next
  case (Some w)
  assume "wallet_inv (wallets db) (ledger db)"
  with Some show ?thesis by (simp add: balance_of_def wallet_inv_balance)
qed

lemma wallet_inv_new_wallet:
  assumes "wallet_inv ws es" and "get_row wa_driver_id (wa_driver_id w) ws = None" and "wa_balance w = 0"
  shows "wallet_inv (ws @ [w]) es"
proof -
  have d: "wa_driver_id w \<notin> wa_driver_id ` set ws" using assms(2) by (simp add: get_row_None)
  with assms(1) have "wa_driver_id w \<notin> le_driver_id ` set es" by (auto simp: wallet_inv_def)
  then have "ledger_total (wa_driver_id w) es = 0" by (rule ledger_total_absent)
  with assms d show ?thesis by (auto simp: wallet_inv_def)
qed

text \<open>Posting: append a new entry and move the balance of its owner by the entry's effect.\<close>

lemma wallet_inv_post:
  assumes inv: "wallet_inv ws es" and w: "get_row wa_driver_id (le_driver_id e) ws = Some w"
    and new: "le_key e \<notin> le_key ` set es"
    and w': "wa_driver_id w' = le_driver_id e" "wa_balance w' = wa_balance w + balance_effect e"
  shows "wallet_inv (put_row wa_driver_id (le_driver_id e) w' ws) (es @ [e])"
proof -
  let ?ws = "put_row wa_driver_id (le_driver_id e) w' ws"
  have keys: "map wa_driver_id ?ws = map wa_driver_id ws" using w'(1) by (rule map_put_row)
  then have ids: "wa_driver_id ` set ?ws = wa_driver_id ` set ws" by (metis list.set_map)
  have mem: "le_driver_id e \<in> wa_driver_id ` set ws"
    using get_row_Some [OF w] by (metis image_eqI)
  have "wa_balance x = ledger_total (wa_driver_id x) (es @ [e])" if "x \<in> set ?ws" for x
    using set_put_rowD [OF that] inv wallet_inv_balance [OF inv w] w'
    by (auto simp: wallet_inv_def)
  with inv new keys ids mem show ?thesis by (auto simp: wallet_inv_def)
qed

lemma wallet_inv_post_neutral:
  assumes "wallet_inv ws es" and "le_driver_id e \<in> wa_driver_id ` set ws"
    and "le_key e \<notin> le_key ` set es" and "balance_effect e = 0"
  shows "wallet_inv ws (es @ [e])"
  using assms by (auto simp: wallet_inv_def)

text \<open>The tables that neither wallets nor ledger entries live in.\<close>

definition money_frame :: "pay_db \<Rightarrow> pay_db \<Rightarrow> bool" where
  "money_frame db db' \<longleftrightarrow> transactions db' = transactions db \<and> debts db' = debts db
     \<and> webhook_events db' = webhook_events db \<and> topups db' = topups db \<and> quotes db' = quotes db
     \<and> verifications db' = verifications db \<and> withdrawals db' = withdrawals db"

lemma money_frame_refl [simp]: "money_frame db db"
  by (simp add: money_frame_def)

lemma money_frame_trans: "money_frame a b \<Longrightarrow> money_frame b c \<Longrightarrow> money_frame a c"
  by (simp add: money_frame_def)

lemma get_or_create_wallet_spec:
  assumes "get_or_create_wallet d c db = (w, db')"
  shows "get_row wa_driver_id d (wallets db') = Some w" "wa_driver_id w = d"
    "ledger db' = ledger db" "money_frame db db'" "balance_of db' = balance_of db"
    "wa_balance w = balance_of db d"
    "wallet_inv (wallets db) (ledger db) \<Longrightarrow> wallet_inv (wallets db') (ledger db')"
proof -
  consider (old) "get_row wa_driver_id d (wallets db) = Some w" "db' = db"
    | (new) "get_row wa_driver_id d (wallets db) = None" "wa_driver_id w = d" "wa_balance w = 0"
        "db' = db\<lparr>next_id := Suc (next_id db), wallets := wallets db @ [w]\<rparr>"
    using assms
    by (auto simp: get_or_create_wallet_def new_id_def Let_def split: option.splits)
  then have all: "get_row wa_driver_id d (wallets db') = Some w \<and> wa_driver_id w = d
    \<and> ledger db' = ledger db \<and> money_frame db db' \<and> balance_of db' = balance_of db
    \<and> wa_balance w = balance_of db d
    \<and> (wallet_inv (wallets db) (ledger db) \<longrightarrow> wallet_inv (wallets db') (ledger db'))"
  proof cases
    case old
    then show ?thesis using get_row_Some [OF old(1)] by (simp add: balance_of_def)
  next
    case new
    then show ?thesis
      by (auto simp: balance_of_def money_frame_def get_row_append fun_eq_iff
          intro: wallet_inv_new_wallet split: option.splits)
  qed
  then show "get_row wa_driver_id d (wallets db') = Some w" "wa_driver_id w = d"
    "ledger db' = ledger db" "money_frame db db'" "balance_of db' = balance_of db"
    "wa_balance w = balance_of db d"
    "wallet_inv (wallets db) (ledger db) \<Longrightarrow> wallet_inv (wallets db') (ledger db')"
    by blast+
qed

text \<open>\<open>record_ledger_entry_once\<close> on a recorded and on a new key.\<close>

lemma record_once_dup:
  assumes "le_key e \<in> le_key ` set (ledger db)"
  shows "record_ledger_entry_once e now db =
    Inr (None, snd (get_or_create_wallet (le_driver_id e) (le_currency e) db))"
proof -
  obtain w db1 where g: "get_or_create_wallet (le_driver_id e) (le_currency e) db = (w, db1)"
    by fastforce
  have "list_ex (\<lambda>x. le_key x = le_key e) (ledger db1)"
    using assms get_or_create_wallet_spec(3) [OF g] by (auto simp: list_ex_iff)
  then show ?thesis by (simp add: record_ledger_entry_once_def g insert_do_nothing_def)
qed

lemma record_once_new:
  assumes inv: "wallet_inv (wallets db) (ledger db)"
    and fresh: "le_key e \<notin> le_key ` set (ledger db)"
    and kind: "le_entry_type e \<noteq> WITHDRAWAL_SUCCEEDED"
  shows "\<exists>db'. record_ledger_entry_once e now db = Inr (Some e, db') \<and> ledger db' = ledger db @ [e]
    \<and> wallet_inv (wallets db') (ledger db') \<and> money_frame db db'"
proof -
  obtain w db1 where g: "get_or_create_wallet (le_driver_id e) (le_currency e) db = (w, db1)"
    by fastforce
  note spec = get_or_create_wallet_spec [OF g]
  have new: "\<not> list_ex (\<lambda>x. le_key x = le_key e) (ledger db1)"
    using fresh spec(3) by (auto simp: list_ex_iff image_iff)
  have inv1: "wallet_inv (wallets db1) (ledger db1)" using spec(7) [OF inv] .
  have fresh1: "le_key e \<notin> le_key ` set (ledger db1)" using fresh spec(3) by simp
  show ?thesis
  proof (cases "le_status e = ES_CONFIRMED")
    case True
    define w' where "w' = w\<lparr>wa_balance := wa_balance w + balance_effect e, wa_updated_at := Some now\<rparr>"
    have "record_ledger_entry_once e now db = Inr (Some e, db1\<lparr>ledger := ledger db1 @ [e],
        wallets := put_row wa_driver_id (le_driver_id e) w' (wallets db1)\<rparr>)"
      using True kind new spec(1)
      by (simp add: record_ledger_entry_once_def g insert_do_nothing_def set_balance_def w'_def
          balance_effect_def Let_def)
    moreover have "wallet_inv (put_row wa_driver_id (le_driver_id e) w' (wallets db1))
        (ledger db1 @ [e])"
      using spec(2) by (intro wallet_inv_post [OF inv1 spec(1) fresh1]) (simp_all add: w'_def)
    ultimately show ?thesis using spec(3,4) by (simp add: money_frame_def)
  next
    case False
    then have "record_ledger_entry_once e now db = Inr (Some e, db1\<lparr>ledger := ledger db1 @ [e]\<rparr>)"
      using new spec(1) by (simp add: record_ledger_entry_once_def g insert_do_nothing_def Let_def)
    moreover have "le_driver_id e \<in> wa_driver_id ` set (wallets db1)"
      using get_row_Some [OF spec(1)] by (metis image_eqI)
    then have "wallet_inv (wallets db1) (ledger db1 @ [e])"
      using False by (intro wallet_inv_post_neutral [OF inv1 _ fresh1]) (simp_all add: balance_effect_def)
    ultimately show ?thesis using spec(3,4) by (simp add: money_frame_def)
  qed
qed

lemma record_once_ok:
  assumes "wallet_inv (wallets db) (ledger db)" and "le_entry_type e \<noteq> WITHDRAWAL_SUCCEEDED"
  shows "okR (\<lambda>(_, db'). wallet_inv (wallets db') (ledger db') \<and> money_frame db db'
    \<and> (ledger db' = ledger db \<or> ledger db' = ledger db @ [e])) (record_ledger_entry_once e now db)"
proof (cases "le_key e \<in> le_key ` set (ledger db)")
  case True
  obtain w db1 where g: "get_or_create_wallet (le_driver_id e) (le_currency e) db = (w, db1)"
    by fastforce
  show ?thesis
    using get_or_create_wallet_spec [OF g] assms(1) by (simp add: record_once_dup [OF True] g)
next
  case False
  from record_once_new [OF assms(1) False assms(2), of now] show ?thesis by auto
qed

section \<open>Recording at most once: the contract\<close>

text \<open>
  Callbacks are delivered again and reconciliation replays them, so settlement code posts the
  same entry any number of times. \<open>credited\<close> is what should count: the first entry of each key
  that is not recorded yet.
\<close>

fun post_all :: "('e \<Rightarrow> 'db \<Rightarrow> exn + 'e option \<times> 'db) \<Rightarrow> 'e list \<Rightarrow> 'db \<Rightarrow> exn + 'db" where
  "post_all rec [] db = Inr db"
| "post_all rec (e # es) db = bindR (rec e db) (\<lambda>(_, db'). post_all rec es db')"

fun credited :: "('e \<Rightarrow> 'k) \<Rightarrow> 'k set \<Rightarrow> 'e list \<Rightarrow> 'e list" where
  "credited key K [] = []"
| "credited key K (e # es) =
     (if key e \<in> K then credited key K es else e # credited key (insert (key e) K) es)"

lemma credited_none: "key ` set es \<subseteq> K \<Longrightarrow> credited key K es = []"
  by (induction es) auto

locale once_ledger =
  fixes rec :: "'e \<Rightarrow> 'db \<Rightarrow> exn + 'e option \<times> 'db"
    and key :: "'e \<Rightarrow> 'k" and keys :: "'db \<Rightarrow> 'k set"
    and owner :: "'e \<Rightarrow> 'd" and amount :: "'e \<Rightarrow> rat" and balance :: "'db \<Rightarrow> 'd \<Rightarrow> rat"
    and good :: "'db \<Rightarrow> bool" and admissible :: "'e \<Rightarrow> bool"
  assumes rec_dup: "good db \<Longrightarrow> key e \<in> keys db \<Longrightarrow>
      \<exists>db'. rec e db = Inr (None, db') \<and> good db' \<and> keys db' = keys db \<and> balance db' = balance db"
    and rec_new: "good db \<Longrightarrow> admissible e \<Longrightarrow> key e \<notin> keys db \<Longrightarrow>
      \<exists>db'. rec e db = Inr (Some e, db') \<and> good db' \<and> keys db' = insert (key e) (keys db)
        \<and> balance db' = (balance db)(owner e := balance db (owner e) + amount e)"
begin

lemma rec_step:
  assumes "good db" and "admissible e"
  shows "\<exists>r db'. rec e db = Inr (r, db') \<and> good db' \<and> keys db' = insert (key e) (keys db)
    \<and> (\<forall>d. balance db' d =
        balance db d + (if key e \<notin> keys db \<and> owner e = d then amount e else 0))"
  using rec_dup [OF assms(1), of e] rec_new [OF assms, of]
  by (cases "key e \<in> keys db") (force simp: insert_absorb)+

lemma post_all_spec:
  assumes "good db" and "\<forall>e \<in> set es. admissible e"
  shows "\<exists>db'. post_all rec es db = Inr db' \<and> good db' \<and> keys db' = keys db \<union> key ` set es
    \<and> (\<forall>d. balance db' d = balance db d
        + (\<Sum>e\<leftarrow>filter (\<lambda>e. owner e = d) (credited key (keys db) es). amount e))"
  using assms
proof (induction es arbitrary: db)
  case Nil
  then show ?case by simp
next
  case (Cons e es)
  then obtain r db1 where s: "rec e db = Inr (r, db1)" "good db1"
    "keys db1 = insert (key e) (keys db)"
    "\<forall>d. balance db1 d = balance db d + (if key e \<notin> keys db \<and> owner e = d then amount e else 0)"
    using rec_step [of db e] by auto
  with Cons.IH [of db1] Cons.prems(2) obtain db' where
    "post_all rec es db1 = Inr db'" "good db'" "keys db' = keys db1 \<union> key ` set es"
    "\<forall>d. balance db' d = balance db1 d
        + (\<Sum>e\<leftarrow>filter (\<lambda>e. owner e = d) (credited key (keys db1) es). amount e)"
    by auto
  with s show ?case by (auto simp: insert_absorb)
qed

lemma post_all_again:
  assumes "good db" and "\<forall>e \<in> set es. admissible e" and "post_all rec es db = Inr db1"
    and "set es' \<subseteq> set es"
  shows "\<exists>db2. post_all rec es' db1 = Inr db2 \<and> keys db2 = keys db1 \<and> balance db2 = balance db1"
proof -
  from post_all_spec [OF assms(1,2)] assms(3)
  have g: "good db1" and k: "keys db1 = keys db \<union> key ` set es" by auto
  from assms(4) k have sub: "key ` set es' \<subseteq> keys db1" by auto
  have adm: "\<forall>e \<in> set es'. admissible e" using assms(2,4) by blast
  from post_all_spec [OF g adm] sub show ?thesis
    by (auto simp: credited_none Un_absorb2 fun_eq_iff)
qed

end

text \<open>The repository provides it: entries other than \<open>WITHDRAWAL_SUCCEEDED\<close>, on consistent wallets.\<close>

lemma balance_post:
  assumes "wallet_inv (wallets db) (ledger db)" and "wallet_inv (wallets db') (ledger db')"
    and "ledger db' = ledger db @ [e]"
  shows "balance_of db' = (balance_of db)(le_driver_id e := balance_of db (le_driver_id e) + balance_effect e)"
  using balance_of_total [OF assms(1)] balance_of_total [OF assms(2)] assms(3)
  by (auto simp: fun_eq_iff)

interpretation pay_ledger: once_ledger "\<lambda>e. record_ledger_entry_once e now" le_key
    "\<lambda>db::pay_db. le_key ` set (ledger db)" le_driver_id balance_effect balance_of
    "\<lambda>db::pay_db. wallet_inv (wallets db) (ledger db)"
    "\<lambda>e::ledger_entry. le_entry_type e \<noteq> WITHDRAWAL_SUCCEEDED"
  for now
proof
  fix db :: pay_db and e :: ledger_entry
  assume inv: "wallet_inv (wallets db) (ledger db)"
  obtain w db1 where g: "get_or_create_wallet (le_driver_id e) (le_currency e) db = (w, db1)"
    by fastforce
  show "\<exists>db'. record_ledger_entry_once e now db = Inr (None, db')
      \<and> wallet_inv (wallets db') (ledger db') \<and> le_key ` set (ledger db') = le_key ` set (ledger db)
      \<and> balance_of db' = balance_of db"
    if "le_key e \<in> le_key ` set (ledger db)"
    using record_once_dup [OF that, of now] get_or_create_wallet_spec [OF g] inv g by simp
  show "\<exists>db'. record_ledger_entry_once e now db = Inr (Some e, db')
      \<and> wallet_inv (wallets db') (ledger db')
      \<and> le_key ` set (ledger db') = insert (le_key e) (le_key ` set (ledger db))
      \<and> balance_of db' = (balance_of db)(le_driver_id e := balance_of db (le_driver_id e) + balance_effect e)"
    if "le_entry_type e \<noteq> WITHDRAWAL_SUCCEEDED" "le_key e \<notin> le_key ` set (ledger db)"
    using record_once_new [OF inv that(2,1), of now] balance_post [OF inv] by auto
qed

section \<open>Withdrawals\<close>

definition withdrawal_key :: "driver_withdrawal \<Rightarrow> entry_type \<Rightarrow> uuid \<times> entry_type \<times> string \<times> uuid" where
  "withdrawal_key w t = (wd_driver_id w, t, ''driver_withdrawal'', wd_id w)"

text \<open>
  Every entry that names a withdrawal is one of its three, with its amount; a withdrawal has its
  reservation entry always, its success entry when it succeeded and its release entry when it
  was released.
\<close>

definition entry_of_withdrawal :: "ledger_entry \<Rightarrow> driver_withdrawal \<Rightarrow> bool" where
  "entry_of_withdrawal e w \<longleftrightarrow> le_reference_id e = wd_id w \<and> le_driver_id e = wd_driver_id w
     \<and> le_amount e = wd_amount w \<and> le_status e = ES_CONFIRMED
     \<and> (le_entry_type e, le_direction e) \<in> {(WITHDRAWAL_RESERVED, DEBIT),
          (WITHDRAWAL_SUCCEEDED, DEBIT), (WITHDRAWAL_RELEASED, CREDIT)}"

definition withdrawal_booked :: "driver_withdrawal \<Rightarrow> ledger_entry list \<Rightarrow> bool" where
  "withdrawal_booked w es \<longleftrightarrow> withdrawal_key w WITHDRAWAL_RESERVED \<in> le_key ` set es
     \<and> (withdrawal_key w WITHDRAWAL_SUCCEEDED \<in> le_key ` set es \<longleftrightarrow> wd_status w = WS_SUCCEEDED)
     \<and> (withdrawal_key w WITHDRAWAL_RELEASED \<in> le_key ` set es \<longleftrightarrow> wd_status w = WS_RELEASED)
     \<and> wd_status w \<noteq> WS_FAILED"

definition withdrawal_inv :: "driver_withdrawal list \<Rightarrow> ledger_entry list \<Rightarrow> bool" where
  "withdrawal_inv ws es \<longleftrightarrow> distinct (map wd_id ws)
     \<and> (\<forall>e \<in> set es. le_reference_type e = ''driver_withdrawal'' \<longrightarrow>
          (\<exists>w \<in> set ws. entry_of_withdrawal e w))
     \<and> (\<forall>w \<in> set ws. withdrawal_booked w es)"

definition money_inv :: "pay_db \<Rightarrow> bool" where
  "money_inv db \<longleftrightarrow> wallet_inv (wallets db) (ledger db) \<and> withdrawal_inv (withdrawals db) (ledger db)"

lemma money_inv_empty: "money_inv empty_pay_db"
  by (simp add: money_inv_def empty_pay_db_def withdrawal_inv_def)

lemma withdrawal_inv_other_entry:
  assumes "withdrawal_inv ws es" and "le_reference_type e \<noteq> ''driver_withdrawal''"
  shows "withdrawal_inv ws (es @ [e])"
  using assms by (auto simp: withdrawal_inv_def withdrawal_booked_def withdrawal_key_def le_key_def)

lemma money_inv_record_once:
  assumes "money_inv db" and "le_entry_type e \<noteq> WITHDRAWAL_SUCCEEDED"
    and "le_reference_type e \<noteq> ''driver_withdrawal''"
  shows "okR (\<lambda>(_, db'). money_inv db' \<and> money_frame db db') (record_ledger_entry_once e now db)"
  using assms withdrawal_inv_other_entry
  by (intro okR_mono [OF record_once_ok]) (auto simp: money_inv_def money_frame_def)

lemma withdrawal_inv_reserve:
  assumes inv: "withdrawal_inv ws es" and new: "wd_id row \<notin> wd_id ` set ws"
    and st: "wd_status row = WS_RESERVED" and e: "entry_of_withdrawal e row"
    and t: "le_entry_type e = WITHDRAWAL_RESERVED" "le_reference_type e = ''driver_withdrawal''"
  shows "withdrawal_inv (ws @ [row]) (es @ [e])"
proof -
  have key: "le_key e = withdrawal_key row WITHDRAWAL_RESERVED"
    using e t by (simp add: le_key_def withdrawal_key_def entry_of_withdrawal_def)
  have none: "withdrawal_key row u \<notin> le_key ` set es" for u
  proof
    assume "withdrawal_key row u \<in> le_key ` set es"
    then obtain x where "x \<in> set es" "withdrawal_key row u = le_key x" by auto
    with inv new show False
      by (fastforce simp: withdrawal_inv_def le_key_def withdrawal_key_def entry_of_withdrawal_def)
  qed
  have "withdrawal_booked row (es @ [e])"
    using none st key by (auto simp: withdrawal_booked_def withdrawal_key_def)
  moreover have "withdrawal_booked w (es @ [e])" if "w \<in> set ws" for w
    using inv that key by (auto simp: withdrawal_inv_def withdrawal_booked_def withdrawal_key_def)
  ultimately show ?thesis
    using inv new e by (auto simp: withdrawal_inv_def)
qed

text \<open>A row replaced by one with the same identity and amount, with at most new entries of its own.\<close>

definition same_withdrawal :: "driver_withdrawal \<Rightarrow> driver_withdrawal \<Rightarrow> bool" where
  "same_withdrawal r r' \<longleftrightarrow> wd_id r' = wd_id r \<and> wd_driver_id r' = wd_driver_id r
     \<and> wd_amount r' = wd_amount r"

lemma withdrawal_inv_update:
  assumes inv: "withdrawal_inv ws es" and r: "get_row wd_id i ws = Some r"
    and same: "same_withdrawal r r'"
    and new: "\<forall>e \<in> set new. entry_of_withdrawal e r'"
    and booked: "withdrawal_booked r' (es @ new)"
  shows "withdrawal_inv (put_row wd_id i r' ws) (es @ new)"
proof -
  let ?ws = "put_row wd_id i r' ws"
  have ri: "r \<in> set ws" "wd_id r = i" using get_row_Some [OF r] by auto
  have mem: "r' \<in> set ?ws" "\<And>w. w \<in> set ws \<Longrightarrow> wd_id w \<noteq> i \<Longrightarrow> w \<in> set ?ws"
    using ri by (auto simp: put_row_def image_iff)
  have uniq: "w = r" if "w \<in> set ws" "wd_id w = i" for w
    using inv that ri by (auto simp: withdrawal_inv_def distinct_map inj_on_def)
  have "\<exists>w \<in> set ?ws. entry_of_withdrawal e w"
    if "e \<in> set (es @ new)" "le_reference_type e = ''driver_withdrawal''" for e
  proof (cases "e \<in> set new")
    case True
    with new mem(1) show ?thesis by blast
  next
    case False
    with that inv obtain w where w: "w \<in> set ws" "entry_of_withdrawal e w"
      by (auto simp: withdrawal_inv_def)
    show ?thesis
    proof (cases "wd_id w = i")
      case True
      with w uniq same have "entry_of_withdrawal e r'"
        by (auto simp: entry_of_withdrawal_def same_withdrawal_def)
      with mem(1) show ?thesis by blast
    next
      case False
      with w mem(2) show ?thesis by blast
    qed
  qed
  moreover have "withdrawal_booked x (es @ new)" if "x \<in> set ?ws" for x
    using set_put_rowD [OF that]
  proof
    assume "x \<in> set ws \<and> wd_id x \<noteq> i"
    moreover then have "withdrawal_key x u \<notin> le_key ` set new" for u
      using new same ri(2)
      by (fastforce simp: withdrawal_key_def le_key_def entry_of_withdrawal_def same_withdrawal_def)
    ultimately show ?thesis
      using inv by (auto simp: withdrawal_inv_def withdrawal_booked_def image_Un)
  qed (simp add: booked)
  moreover have "map wd_id ?ws = map wd_id ws"
    using same ri(2) by (simp add: map_put_row same_withdrawal_def)
  ultimately show ?thesis
    using inv by (auto simp: withdrawal_inv_def)
qed

lemma withdrawal_inv_settle:
  assumes inv: "withdrawal_inv ws es" and r: "get_row wd_id i ws = Some r"
    and same: "same_withdrawal r r'" and open_: "wd_status r \<notin> {WS_SUCCEEDED, WS_RELEASED}"
    and e: "entry_of_withdrawal e r'" "le_reference_type e = ''driver_withdrawal''"
    and st: "(le_entry_type e, wd_status r') \<in> {(WITHDRAWAL_SUCCEEDED, WS_SUCCEEDED),
      (WITHDRAWAL_RELEASED, WS_RELEASED)}"
  shows "withdrawal_inv (put_row wd_id i r' ws) (es @ [e])" "le_key e \<notin> le_key ` set es"
proof -
  have b: "withdrawal_booked r es"
    using inv get_row_Some [OF r] by (auto simp: withdrawal_inv_def)
  have keys: "withdrawal_key r' u = withdrawal_key r u" for u
    using same by (simp add: withdrawal_key_def same_withdrawal_def)
  have ek: "le_key e = withdrawal_key r (le_entry_type e)"
    using e same by (simp add: le_key_def withdrawal_key_def entry_of_withdrawal_def same_withdrawal_def)
  show "le_key e \<notin> le_key ` set es"
    using b open_ st ek by (auto simp: withdrawal_booked_def)
  have "withdrawal_booked r' (es @ [e])"
    using b open_ st keys ek by (auto simp: withdrawal_booked_def withdrawal_key_def)
  with inv r same e show "withdrawal_inv (put_row wd_id i r' ws) (es @ [e])"
    by (intro withdrawal_inv_update) auto
qed

lemma withdrawal_inv_restatus:
  assumes inv: "withdrawal_inv ws es" and r: "get_row wd_id i ws = Some r"
    and same: "same_withdrawal r r'"
    and st: "wd_status r = wd_status r' \<or>
      {wd_status r, wd_status r'} \<inter> {WS_SUCCEEDED, WS_RELEASED} = {} \<and> wd_status r' \<noteq> WS_FAILED"
  shows "withdrawal_inv (put_row wd_id i r' ws) es"
proof -
  have "withdrawal_booked r es"
    using inv get_row_Some [OF r] by (auto simp: withdrawal_inv_def)
  with same st have "withdrawal_booked r' (es @ [])"
    by (auto simp: withdrawal_booked_def withdrawal_key_def same_withdrawal_def)
  from withdrawal_inv_update [OF inv r same _ this] show ?thesis by simp
qed

lemma okR_update_row [wp]: "P (put_row key (key r) r rs) \<Longrightarrow> okR P (update_row key clash r rs)"
  by (simp add: update_row_def)

section \<open>The withdrawal operations keep the books\<close>

lemma get_or_create_wallet_money_inv:
  assumes "money_inv db" and "get_or_create_wallet d c db = (w, db')"
  shows "money_inv db'" "withdrawals db' = withdrawals db" "ledger db' = ledger db"
  using assms get_or_create_wallet_spec [OF assms(2)]
  by (auto simp: money_inv_def money_frame_def)

lemma withdrawal_row_by_id:
  assumes "withdrawal_inv ws es" and "r \<in> set ws"
  shows "get_row wd_id (wd_id r) ws = Some r"
  using assms
  by (cases "get_row wd_id (wd_id r) ws")
    (auto simp: get_row_None withdrawal_inv_def distinct_map inj_on_def dest: get_row_Some)

lemma reserve_money_inv:
  assumes inv: "money_inv db"
  shows "okR (\<lambda>(_, db'). money_inv db') (reserve_withdrawal_from_quote w now db)"
  unfolding reserve_withdrawal_from_quote_def
proof (intro wp, goal_cases)
  case (1 quote row row')
  have "row \<in> set (withdrawals db)" using get_row_Some [OF 1(4)] by simp
  with inv have "get_row wd_id (wd_id row) (withdrawals db) = Some row"
    by (auto simp: money_inv_def intro: withdrawal_row_by_id)
  with inv 1 have "withdrawal_inv (put_row wd_id (wd_id row) row' (withdrawals db)) (ledger db)"
    by (intro withdrawal_inv_restatus) (auto simp: money_inv_def same_withdrawal_def)
  then show ?case using inv by (simp add: money_inv_def)
next
  case (2 quote row)
  then show ?case using inv by simp
next
  case (3 quote wd wallet db1 row eid db2 entry)
  note spec = get_or_create_wallet_spec [OF 3(6)]
    and inv1 = get_or_create_wallet_money_inv [OF inv 3(6)]
  have db2: "wallets db2 = wallets db1" "ledger db2 = ledger db1" "withdrawals db2 = withdrawals db1"
    using 3(9) by (auto simp: new_id_def)
  have e: "entry_of_withdrawal entry row" "le_reference_type entry = ''driver_withdrawal''"
    "le_entry_type entry = WITHDRAWAL_RESERVED" "balance_effect entry = - wd_amount wd"
    "le_driver_id entry = wd_driver_id wd" "wd_status row = WS_RESERVED"
    using 3(8,10) by (simp_all add: withdrawal_ledger_entry_def entry_of_withdrawal_def balance_effect_def)
  have fresh: "wd_id row \<notin> wd_id ` set (withdrawals db1)" "le_key entry \<notin> le_key ` set (ledger db1)"
    using 3(11,12) db2 by (auto simp: wd_clash_def)
  have "withdrawal_inv (withdrawals db1 @ [row]) (ledger db1 @ [entry])"
    using inv1(1) fresh(1) e by (intro withdrawal_inv_reserve) (auto simp: money_inv_def)
  moreover have "wallet_inv (put_row wa_driver_id (le_driver_id entry)
      (wallet\<lparr>wa_balance := wa_balance wallet - wd_amount wd, wa_updated_at := Some now\<rparr>) (wallets db1))
      (ledger db1 @ [entry])"
    using inv1(1) spec(1,2) fresh(2) e
    by (intro wallet_inv_post) (auto simp: money_inv_def)
  ultimately show ?case
    using db2 e(5) by (simp add: money_inv_def set_balance_def)
qed

lemma withdrawal_has_wallet:
  assumes "money_inv db" and "w \<in> set (withdrawals db)"
  shows "wd_driver_id w \<in> wa_driver_id ` set (wallets db)"
proof -
  from assms obtain e where "e \<in> set (ledger db)" "le_key e = withdrawal_key w WITHDRAWAL_RESERVED"
    by (force simp: money_inv_def withdrawal_inv_def withdrawal_booked_def)
  moreover from this have "le_driver_id e = wd_driver_id w"
    by (simp add: le_key_def withdrawal_key_def)
  ultimately show ?thesis
    using assms(1) by (metis money_inv_def wallet_inv_def)
qed

lemma settle_entry:
  assumes inv: "money_inv db" and r: "get_row wd_id wid (withdrawals db) = Some r"
    and open_: "\<not> (wd_status r = WS_SUCCEEDED \<or> wd_status r = WS_RELEASED)"
    and same: "same_withdrawal r r'"
    and st: "(t, d, wd_status r') \<in> {(WITHDRAWAL_SUCCEEDED, DEBIT, WS_SUCCEEDED),
      (WITHDRAWAL_RELEASED, CREDIT, WS_RELEASED)}"
    and ins: "insert_withdrawal_ledger_once r' t d txt now db = (inserted, db1)"
  shows "\<exists>e. inserted \<and> db1 = db\<lparr>next_id := Suc (next_id db), ledger := ledger db @ [e]\<rparr>
    \<and> le_key e \<notin> le_key ` set (ledger db) \<and> le_driver_id e = wd_driver_id r'
    \<and> balance_effect e = (if t = WITHDRAWAL_SUCCEEDED then 0 else wd_amount r')
    \<and> withdrawal_inv (put_row wd_id wid r' (withdrawals db)) (ledger db @ [e])"
proof -
  define e where "e = withdrawal_ledger_entry (next_id db) r' t d txt now"
  have e: "entry_of_withdrawal e r'" "le_reference_type e = ''driver_withdrawal''"
    "le_entry_type e = t" "le_driver_id e = wd_driver_id r'"
    "balance_effect e = (if t = WITHDRAWAL_SUCCEEDED then 0 else wd_amount r')"
    using st by (auto simp: e_def withdrawal_ledger_entry_def entry_of_withdrawal_def balance_effect_def)
  have w: "withdrawal_inv (withdrawals db) (ledger db)" using inv by (simp add: money_inv_def)
  have "wd_status r \<notin> {WS_SUCCEEDED, WS_RELEASED}" using open_ by simp
  moreover have "(le_entry_type e, wd_status r') \<in> {(WITHDRAWAL_SUCCEEDED, WS_SUCCEEDED),
      (WITHDRAWAL_RELEASED, WS_RELEASED)}"
    using st e(3) by auto
  ultimately have s: "withdrawal_inv (put_row wd_id wid r' (withdrawals db)) (ledger db @ [e])"
    "le_key e \<notin> le_key ` set (ledger db)"
    using withdrawal_inv_settle [OF w r same _ e(1,2)] by blast+
  then have "\<not> list_ex (\<lambda>x. le_key x = le_key e) (ledger db)"
    by (auto simp: list_ex_iff image_iff)
  then have "insert_withdrawal_ledger_once r' t d txt now db =
      (True, db\<lparr>next_id := Suc (next_id db), ledger := ledger db @ [e]\<rparr>)"
    by (simp add: insert_withdrawal_ledger_once_def new_id_def insert_do_nothing_def e_def)
  with s e ins show ?thesis by auto
qed

lemma mark_money_inv:
  assumes inv: "money_inv db"
  shows "okR (\<lambda>(_, db'). money_inv db')
    (mark_withdrawal_provider_state wid target pid ps fc fm now db)"
  unfolding mark_withdrawal_provider_state_def
proof (intro wp, goal_cases)
  case (1 row0)
  then show ?case using inv by simp
next
  case (2 row0 row row' inserted db1)
  have "same_withdrawal row0 row'" using 2(3,5) by (simp add: same_withdrawal_def)
  from settle_entry [OF inv 2(1,2) this _ 2(6)] 2(5) obtain e where e: "db1 = db\<lparr>next_id := Suc (next_id db), ledger := ledger db @ [e]\<rparr>"
    "le_key e \<notin> le_key ` set (ledger db)" "le_driver_id e = wd_driver_id row'" "balance_effect e = 0"
    "withdrawal_inv (put_row wd_id wid row' (withdrawals db)) (ledger db @ [e])"
    by auto
  have "wd_driver_id row' = wd_driver_id row0" "wd_id row' = wid"
    using 2(3,5) get_row_Some [OF 2(1)] by simp_all
  with e inv withdrawal_has_wallet [OF inv, of row0] get_row_Some [OF 2(1)]
  show ?case by (auto simp: money_inv_def intro: wallet_inv_post_neutral)
next
  case (3 row0 row row' inserted db1 db2 wallet)
  have same: "same_withdrawal row0 row'" using 3(3,6) by (simp add: same_withdrawal_def)
  from settle_entry [OF inv 3(1,2) this _ 3(7)] 3(6) obtain e where e: "db1 = db\<lparr>next_id := Suc (next_id db), ledger := ledger db @ [e]\<rparr>"
    "le_key e \<notin> le_key ` set (ledger db)" "le_driver_id e = wd_driver_id row'"
    "balance_effect e = wd_amount row'"
    "withdrawal_inv (put_row wd_id wid row' (withdrawals db)) (ledger db @ [e])"
    by auto
  have "wd_id row' = wid" using same get_row_Some [OF 3(1)] by (simp add: same_withdrawal_def)
  moreover have "wallet_inv (put_row wa_driver_id (le_driver_id e)
      (wallet\<lparr>wa_balance := wa_balance wallet + wd_amount row', wa_updated_at := Some now\<rparr>)
      (wallets db)) (ledger db @ [e])"
    using inv e 3 get_row_Some [OF 3(10)]
    by (intro wallet_inv_post) (auto simp: money_inv_def)
  ultimately show ?case
    using e 3(8) by (simp add: money_inv_def set_balance_def)
next
  case (4 row0 row row' inserted db1 db2)
  have "same_withdrawal row0 row'" using 4(3,6) by (simp add: same_withdrawal_def)
  from settle_entry [OF inv 4(1,2) this _ 4(7)] 4(6,9) show ?case by auto
next
  case (5 row0 row row')
  have same: "same_withdrawal row0 row'" and "wd_id row' = wid"
    using 5 get_row_Some [OF 5(1)] by (simp_all add: same_withdrawal_def)
  moreover have "withdrawal_inv (put_row wd_id wid row' (withdrawals db)) (ledger db)"
    using inv 5 same by (intro withdrawal_inv_restatus [OF _ 5(1)]) (auto simp: money_inv_def)
  ultimately show ?case using inv by (simp add: money_inv_def)
qed

section \<open>Conservation\<close>

text \<open>What a driver was credited and debited outside withdrawals: payouts, top-ups, commissions.\<close>

definition income :: "uuid \<Rightarrow> pay_db \<Rightarrow> rat" where
  "income d db = (\<Sum>e\<leftarrow>filter (\<lambda>e. le_driver_id e = d
     \<and> le_reference_type e \<noteq> ''driver_withdrawal'') (ledger db). balance_effect e)"

definition withdrawn :: "(withdrawal_status \<Rightarrow> bool) \<Rightarrow> uuid \<Rightarrow> pay_db \<Rightarrow> rat" where
  "withdrawn p d db = (\<Sum>w\<leftarrow>filter (\<lambda>w. wd_driver_id w = d \<and> p (wd_status w)) (withdrawals db).
     wd_amount w)"

definition entries_of :: "uuid \<Rightarrow> ledger_entry list \<Rightarrow> ledger_entry set" where
  "entries_of i es = {e \<in> set es. le_reference_type e = ''driver_withdrawal'' \<and> le_reference_id e = i}"

lemma entry_with_key:
  assumes d: "distinct (map le_key es)" and e: "e \<in> set es" "le_key e = k"
  shows "{x \<in> set es. le_key x = k} = {e}"
  using assms by (auto simp: distinct_map inj_on_def)

lemma withdrawal_entries_total:
  assumes inv: "money_inv db" and w: "w \<in> set (withdrawals db)"
  shows "(\<Sum>e \<in> entries_of (wd_id w) (ledger db). balance_effect e) =
    (if wd_status w = WS_RELEASED then 0 else - wd_amount w)"
proof -
  let ?es = "ledger db" and ?k = "withdrawal_key w"
  have wi: "withdrawal_inv (withdrawals db) ?es" and dk: "distinct (map le_key ?es)"
    using inv by (simp_all add: money_inv_def wallet_inv_def)
  have b: "withdrawal_booked w ?es" using wi w by (simp add: withdrawal_inv_def)
  define ats where "ats t = {x \<in> set ?es. le_key x = ?k t}" for t
  have own: "entry_of_withdrawal e w" if "e \<in> entries_of (wd_id w) ?es" for e
  proof -
    from that wi obtain v where v: "v \<in> set (withdrawals db)" "entry_of_withdrawal e v"
      by (auto simp: withdrawal_inv_def entries_of_def)
    with that have "wd_id v = wd_id w" by (simp add: entries_of_def entry_of_withdrawal_def)
    with v w wi have "v = w" by (auto simp: withdrawal_inv_def distinct_map inj_on_def)
    with v show ?thesis by simp
  qed
  have split_: "entries_of (wd_id w) ?es = ats WITHDRAWAL_RESERVED \<union> ats WITHDRAWAL_SUCCEEDED \<union> ats WITHDRAWAL_RELEASED"
    using own by (fastforce simp: entries_of_def ats_def le_key_def withdrawal_key_def
        entry_of_withdrawal_def)
  have disj: "ats t \<inter> ats u = {}" if "t \<noteq> u" for t u
    using that by (auto simp: ats_def withdrawal_key_def)
  have fin: "finite (ats t)" for t by (simp add: ats_def)
  have sum_at: "(\<Sum>e \<in> ats t. balance_effect e) = (if ?k t \<in> le_key ` set ?es then c else 0)"
    if "\<And>e. e \<in> ats t \<Longrightarrow> balance_effect e = c" for t c
  proof (cases "?k t \<in> le_key ` set ?es")
    case True
    then obtain e where e: "e \<in> set ?es" "le_key e = ?k t" by force
    then have at_t: "ats t = {e}" using entry_with_key [OF dk e] by (simp add: ats_def)
    then have "balance_effect e = c" using that by simp
    with at_t True show ?thesis by simp
  next
    case False
    then have "ats t = {}" by (force simp: ats_def)
    with False show ?thesis by simp
  qed
  have eff: "balance_effect e = (case t of WITHDRAWAL_RESERVED \<Rightarrow> - wd_amount w
      | WITHDRAWAL_RELEASED \<Rightarrow> wd_amount w | _ \<Rightarrow> 0)"
    if "e \<in> ats t" "t \<in> {WITHDRAWAL_RESERVED, WITHDRAWAL_SUCCEEDED, WITHDRAWAL_RELEASED}" for e t
  proof -
    from that split_ have "entry_of_withdrawal e w" by (auto intro: own)
    moreover from that(1) have "le_entry_type e = t"
      by (simp add: ats_def le_key_def withdrawal_key_def)
    ultimately show ?thesis
      using that(2) by (auto simp: entry_of_withdrawal_def balance_effect_def)
  qed
  have "(\<Sum>e \<in> entries_of (wd_id w) ?es. balance_effect e) = (\<Sum>e \<in> ats WITHDRAWAL_RESERVED. balance_effect e)
      + (\<Sum>e \<in> ats WITHDRAWAL_SUCCEEDED. balance_effect e) + (\<Sum>e \<in> ats WITHDRAWAL_RELEASED. balance_effect e)"
    unfolding split_ using fin disj
    by (subst sum.union_disjoint; simp add: Int_Un_distrib2)+
  also have "\<dots> = (if wd_status w = WS_RELEASED then 0 else - wd_amount w)"
    using b sum_at [of WITHDRAWAL_RESERVED "- wd_amount w"] sum_at [of WITHDRAWAL_SUCCEEDED 0]
      sum_at [of WITHDRAWAL_RELEASED "wd_amount w"] eff
    by (auto simp: withdrawal_booked_def)
  finally show ?thesis .
qed

lemma conservation:
  assumes inv: "money_inv db"
  shows "balance_of db d = income d db - withdrawn (\<lambda>s. s \<noteq> WS_RELEASED) d db"
proof -
  let ?es = "ledger db" and ?ws = "withdrawals db"
  have wi: "withdrawal_inv ?ws ?es" and dk: "distinct (map le_key ?es)" and dw: "distinct (map wd_id ?ws)"
    using inv by (simp_all add: money_inv_def wallet_inv_def withdrawal_inv_def)
  have de: "distinct ?es" and dws: "distinct ?ws" using dk dw by (simp_all add: distinct_map)
  define S where "S = {e \<in> set ?es. le_driver_id e = d \<and> le_reference_type e = ''driver_withdrawal''}"
  define W where "W = {w \<in> set ?ws. wd_driver_id w = d}"
  have grp: "{e \<in> S. le_reference_id e = wd_id w} = entries_of (wd_id w) ?es" if "w \<in> W" for w
  proof -
    have "le_driver_id e = d" if "e \<in> entries_of (wd_id w) ?es" for e
    proof -
      from that wi obtain v where v: "v \<in> set ?ws" "entry_of_withdrawal e v"
        by (auto simp: withdrawal_inv_def entries_of_def)
      with that have "wd_id v = wd_id w" by (simp add: entries_of_def entry_of_withdrawal_def)
      with v \<open>w \<in> W\<close> dw have "v = w" by (auto simp: W_def distinct_map inj_on_def)
      with v \<open>w \<in> W\<close> show ?thesis by (simp add: W_def entry_of_withdrawal_def)
    qed
    then show ?thesis by (auto simp: S_def entries_of_def)
  qed
  have img: "le_reference_id ` S \<subseteq> wd_id ` W"
    using wi by (fastforce simp: S_def W_def withdrawal_inv_def entry_of_withdrawal_def)
  have injW: "inj_on wd_id W" using dw by (auto simp: W_def distinct_map inj_on_def)
  have "(\<Sum>e \<in> S. balance_effect e) = (\<Sum>i \<in> wd_id ` W. \<Sum>e \<in> {e \<in> S. le_reference_id e = i}. balance_effect e)"
    using img by (intro sum.group [symmetric]) (simp_all add: S_def W_def)
  also have "\<dots> = (\<Sum>w \<in> W. \<Sum>e \<in> {e \<in> S. le_reference_id e = wd_id w}. balance_effect e)"
    by (simp add: sum.reindex [OF injW])
  also have "\<dots> = (\<Sum>w \<in> W. if wd_status w = WS_RELEASED then 0 else - wd_amount w)"
    using grp withdrawal_entries_total [OF inv] by (intro sum.cong) (auto simp: W_def)
  also have "\<dots> = - (\<Sum>w \<in> {w \<in> W. wd_status w \<noteq> WS_RELEASED}. wd_amount w)"
    by (simp add: sum.If_cases sum_negf W_def Int_def Collect_conj_eq [symmetric] conj_commute)
  finally have S: "(\<Sum>e \<in> S. balance_effect e) = - withdrawn (\<lambda>s. s \<noteq> WS_RELEASED) d db"
    using dws by (simp add: withdrawn_def W_def sum_list_distinct_conv_sum_set conj_assoc)
  have "ledger_total d ?es = (\<Sum>e \<in> {e \<in> set ?es. le_driver_id e = d}. balance_effect e)"
    using de by (simp add: ledger_total_def sum_list_distinct_conv_sum_set)
  also have "{e \<in> set ?es. le_driver_id e = d} = S \<union> {e \<in> set ?es. le_driver_id e = d
      \<and> le_reference_type e \<noteq> ''driver_withdrawal''}"
    by (auto simp: S_def)
  also have "(\<Sum>e \<in> \<dots>. balance_effect e) = (\<Sum>e \<in> S. balance_effect e) + income d db"
    using de by (subst sum.union_disjoint) (auto simp: S_def income_def sum_list_distinct_conv_sum_set)
  finally show ?thesis
    using inv S by (simp add: money_inv_def balance_of_total)
qed

end
