(* ===== verification/Return_Contexts.thy ===== *)
theory Return_Contexts
  imports Prelude
begin

text \<open>
  app\_base/modules/payment/application/return\_contexts.py: one-time browser return contexts in
  Redis. The store maps a key to its context and expiry; an expired key reads as absent.
  \<open>secrets.token_urlsafe\<close> and the rewriting of the URL's query string (urllib) are parameters.
\<close>

record return_context =
  rc_flow :: string
  rc_surface :: string
  rc_user_id :: uuid
  rc_resource_id :: uuid
  rc_payment_intent_id :: "uuid option"

type_synonym context_store = "string \<Rightarrow> (return_context \<times> datetime) option"

definition context_key :: "string \<Rightarrow> string" where
  "context_key token = ''diddigo:payment-return:'' @ token"

definition redis_get :: "string \<Rightarrow> datetime \<Rightarrow> context_store \<Rightarrow> (return_context \<times> datetime) option" where
  "redis_get key now st =
     (case st key of None \<Rightarrow> None | Some (c, e) \<Rightarrow> if now < e then Some (c, e) else None)"

text \<open>\<open>TTL\<close>: the remaining time in whole seconds, to the nearest.\<close>

definition redis_ttl :: "datetime \<Rightarrow> datetime \<Rightarrow> int" where
  "redis_ttl now expires = (expires - now + 500000) div 1000000"

definition create_context ::
  "string \<Rightarrow> string \<Rightarrow> uuid \<Rightarrow> uuid \<Rightarrow> string \<Rightarrow> int \<Rightarrow> datetime \<Rightarrow> context_store \<Rightarrow> context_store" where
  "create_context flow surface user_id resource_id token ttl now st =
     st(context_key token \<mapsto> (\<lparr>rc_flow = flow, rc_surface = surface, rc_user_id = user_id,
        rc_resource_id = resource_id, rc_payment_intent_id = None\<rparr>, now + seconds ttl))"

definition bind_payment_intent :: "string \<Rightarrow> uuid \<Rightarrow> datetime \<Rightarrow> context_store \<Rightarrow> context_store" where
  "bind_payment_intent token pid now st =
     (case redis_get (context_key token) now st of
        None \<Rightarrow> st
      | Some (c, e) \<Rightarrow>
        let ttl = redis_ttl now e
        in if 0 < ttl
           then st(context_key token \<mapsto> (c\<lparr>rc_payment_intent_id := Some pid\<rparr>, now + seconds ttl))
           else st)"

definition consume_context ::
  "string \<Rightarrow> string \<Rightarrow> datetime \<Rightarrow> context_store \<Rightarrow> return_context option \<times> context_store" where
  "consume_context token expected_surface now st =
     (case redis_get (context_key token) now st of
        None \<Rightarrow> (None, st)
      | Some (c, _) \<Rightarrow>
        (if rc_surface c \<noteq> expected_surface \<or> rc_payment_intent_id c = None then None else Some c,
         st(context_key token := None)))"

definition callback_url ::
  "(string \<Rightarrow> string \<Rightarrow> string) \<Rightarrow> string option \<Rightarrow> string \<Rightarrow> string option" where
  "callback_url with_context base token =
     (case base of None \<Rightarrow> None | Some b \<Rightarrow> if b = [] then None else Some (with_context b token))"

lemma context_key_eq [simp]: "context_key a = context_key b \<longleftrightarrow> a = b"
  by (simp add: context_key_def)

text \<open>Reading a key after a write to it, and to another one.\<close>

lemma redis_get_upd [simp]:
  "redis_get k now (st(k' := v)) =
     (if k = k' then case v of None \<Rightarrow> None | Some (c, e) \<Rightarrow> if now < e then v else None
      else redis_get k now st)"
  by (auto simp: redis_get_def split: option.splits)

lemma consume_gone:
  "consume_context t s now st = (r, st') \<Longrightarrow> redis_get (context_key t) now' st' = None \<or> now' < now"
  by (auto simp: consume_context_def redis_get_def split: option.splits if_splits)

end
