(* ===== verification/Ride_Entities.thy ===== *)
theory Ride_Entities
  imports Py_Numbers
begin

text \<open>
  The data of app\_base/modules/ride/domain/entities.py and the ride state machine: the
  transition table, the record of a ride and \<open>Ride.transition\<close>. The second half shows what the
  machine guarantees along any run of transitions: terminal rides stay as they are, a timestamp
  is written on the first visit only, and the history is a chain of allowed moves that ends in
  the current status. The locale \<open>lifecycle\<close> is the part that any status table with terminal
  states shares.
\<close>

section \<open>Enumerations\<close>

record geo_point =
  lat :: rat
  lng :: rat

datatype ride_status = REQUESTED | MATCHED | DRIVER_EN_ROUTE | ARRIVED | IN_PROGRESS | WAITING
  | COMPLETED | CANCELLED_BY_PASSENGER | CANCELLED_BY_DRIVER | NO_DRIVER_FOUND

datatype vehicle_category = VC_STANDARD | VC_COMFORT | VC_VAN

datatype comfort_level = CL_STANDARD | CL_COMFORT | CL_PREMIUM

datatype ride_payment_method = CASH | MOBILE_MONEY

datatype vehicle_verification_status = VV_PENDING_VERIFICATION | VV_ACTIVE | VV_SUSPENDED | VV_REJECTED

datatype driver_status = DR_PENDING_VERIFICATION | DR_ACTIVE | DR_SUSPENDED | DR_OFFLINE

datatype kyc_status = KYC_PENDING_VERIFICATION | KYC_APPROVED | KYC_REJECTED

datatype cancel_reason = PASSENGER_CHANGED_MIND | PASSENGER_NO_SHOW | DRIVER_UNAVAILABLE
  | FOUND_ALTERNATIVE | OTHER_REASON

fun allowed_transitions :: "ride_status \<Rightarrow> ride_status list" where
  "allowed_transitions REQUESTED =
     [MATCHED, NO_DRIVER_FOUND, CANCELLED_BY_PASSENGER, CANCELLED_BY_DRIVER]"
| "allowed_transitions MATCHED = [DRIVER_EN_ROUTE, CANCELLED_BY_PASSENGER, CANCELLED_BY_DRIVER]"
| "allowed_transitions DRIVER_EN_ROUTE = [ARRIVED, CANCELLED_BY_PASSENGER, CANCELLED_BY_DRIVER]"
| "allowed_transitions ARRIVED = [IN_PROGRESS, CANCELLED_BY_PASSENGER, CANCELLED_BY_DRIVER]"
| "allowed_transitions IN_PROGRESS =
     [WAITING, COMPLETED, CANCELLED_BY_PASSENGER, CANCELLED_BY_DRIVER]"
| "allowed_transitions WAITING =
     [IN_PROGRESS, COMPLETED, CANCELLED_BY_PASSENGER, CANCELLED_BY_DRIVER]"
| "allowed_transitions COMPLETED = []"
| "allowed_transitions CANCELLED_BY_PASSENGER = []"
| "allowed_transitions CANCELLED_BY_DRIVER = []"
| "allowed_transitions NO_DRIVER_FOUND = []"

fun vehicle_category_value :: "vehicle_category \<Rightarrow> string" where
  "vehicle_category_value VC_STANDARD = ''standard''"
| "vehicle_category_value VC_COMFORT = ''comfort''"
| "vehicle_category_value VC_VAN = ''van''"

fun comfort_level_value :: "comfort_level \<Rightarrow> string" where
  "comfort_level_value CL_STANDARD = ''standard''"
| "comfort_level_value CL_COMFORT = ''comfort''"
| "comfort_level_value CL_PREMIUM = ''premium''"

fun ride_payment_method_value :: "ride_payment_method \<Rightarrow> string" where
  "ride_payment_method_value CASH = ''cash''"
| "ride_payment_method_value MOBILE_MONEY = ''mobile_money''"

fun cancel_reason_value :: "cancel_reason \<Rightarrow> string" where
  "cancel_reason_value PASSENGER_CHANGED_MIND = ''passenger_changed_mind''"
| "cancel_reason_value PASSENGER_NO_SHOW = ''passenger_no_show''"
| "cancel_reason_value DRIVER_UNAVAILABLE = ''driver_unavailable''"
| "cancel_reason_value FOUND_ALTERNATIVE = ''found_alternative''"
| "cancel_reason_value OTHER_REASON = ''other''"

definition VALID_CANCEL_REASONS :: "string list" where
  "VALID_CANCEL_REASONS = map cancel_reason_value
     [PASSENGER_CHANGED_MIND, PASSENGER_NO_SHOW, DRIVER_UNAVAILABLE, FOUND_ALTERNATIVE, OTHER_REASON]"

section \<open>Dataclasses\<close>

text \<open>The free-form \<open>metadata\<close> of a transition.\<close>

datatype meta_value = MStr string | MInt int | MReal rat | MBool bool

record status_transition =
  st_ride_id :: uuid
  st_from_status :: ride_status
  st_to_status :: ride_status
  st_changed_at :: datetime
  st_metadata :: "(string \<times> meta_value) list option"

record ride =
  rd_id :: uuid
  rd_passenger_user_id :: uuid
  rd_status :: ride_status
  rd_vehicle_category :: vehicle_category
  rd_comfort_level :: comfort_level
  rd_is_review_account :: bool
  rd_pickup_location :: "geo_point option"
  rd_pickup_address :: "string option"
  rd_dropoff_location :: "geo_point option"
  rd_dropoff_address :: "string option"
  rd_scheduled_at :: "datetime option"
  rd_requested_at :: "datetime option"
  rd_matched_at :: "datetime option"
  rd_arrived_at :: "datetime option"
  rd_started_at :: "datetime option"
  rd_completed_at :: "datetime option"
  rd_cancelled_at :: "datetime option"
  rd_cancellation_reason :: "string option"
  rd_completion_reason :: "string option"
  rd_early_stop_requested_at :: "datetime option"
  rd_early_stop_expires_at :: "datetime option"
  rd_early_stop_requested_by_user_id :: "uuid option"
  rd_early_stop_confirmed_at :: "datetime option"
  rd_estimated_fare :: "rat option"
  rd_final_fare :: "rat option"
  rd_waiting_started_at :: "datetime option"
  rd_waiting_duration_seconds :: int
  rd_waiting_fee :: rat
  rd_waiting_rate_per_minute :: "rat option"
  rd_pre_ride_wait_started_at :: "datetime option"
  rd_pre_ride_wait_seconds :: int
  rd_pre_ride_wait_fee :: rat
  rd_supplements_total :: rat
  rd_currency :: string
  rd_distance_km :: "rat option"
  rd_duration_seconds :: "int option"
  rd_base_fare :: "rat option"
  rd_distance_fare :: "rat option"
  rd_duration_fare :: "rat option"
  rd_surge_multiplier :: rat
  rd_surge_cap :: rat
  rd_commission_rate :: rat
  rd_driver_payout_estimate :: "rat option"
  rd_platform_commission :: "rat option"
  rd_actual_distance_km :: "rat option"
  rd_actual_duration_seconds :: "int option"
  rd_actual_pricing_fare :: "rat option"
  rd_pricing_delta :: "rat option"
  rd_map_trace_id :: "string option"
  rd_trace_analysis_status :: "string option"
  rd_trace_analysis_error_code :: "string option"
  rd_trace_recommendation :: "string option"
  rd_trace_quality_label :: "string option"
  rd_trace_quality_score :: "rat option"
  rd_trace_points_count :: "int option"
  rd_trace_usable_points_count :: "int option"
  rd_payment_method :: ride_payment_method
  rd_quote_id :: "uuid option"
  rd_start_code_hash :: "string option"
  rd_start_code_attempts :: int
  rd_start_code_blocked_at :: "datetime option"
  rd_start_code_used_at :: "datetime option"
  rd_driver_id :: "uuid option"
  rd_vehicle_id :: "uuid option"
  rd_payment_transaction_id :: "uuid option"
  rd_share_token :: "string option"
  rd_share_expires_at :: "datetime option"
  rd_emergency_requested_at :: "datetime option"
  rd_emergency_status :: "string option"
  rd_emergency_note :: "string option"
  rd_status_history :: "status_transition list"

text \<open>A ride as \<open>Ride(id=..., passenger_user_id=...)\<close> builds it: every other field at its default.\<close>

definition new_ride :: "uuid \<Rightarrow> uuid \<Rightarrow> ride" where
  "new_ride i passenger = \<lparr>rd_id = i, rd_passenger_user_id = passenger, rd_status = REQUESTED,
     rd_vehicle_category = VC_STANDARD, rd_comfort_level = CL_STANDARD,
     rd_is_review_account = False, rd_pickup_location = None, rd_pickup_address = None,
     rd_dropoff_location = None, rd_dropoff_address = None, rd_scheduled_at = None,
     rd_requested_at = None, rd_matched_at = None, rd_arrived_at = None, rd_started_at = None,
     rd_completed_at = None, rd_cancelled_at = None, rd_cancellation_reason = None,
     rd_completion_reason = None, rd_early_stop_requested_at = None,
     rd_early_stop_expires_at = None, rd_early_stop_requested_by_user_id = None,
     rd_early_stop_confirmed_at = None, rd_estimated_fare = None, rd_final_fare = None,
     rd_waiting_started_at = None, rd_waiting_duration_seconds = 0, rd_waiting_fee = 0,
     rd_waiting_rate_per_minute = None, rd_pre_ride_wait_started_at = None,
     rd_pre_ride_wait_seconds = 0, rd_pre_ride_wait_fee = 0, rd_supplements_total = 0,
     rd_currency = ''XOF'', rd_distance_km = None, rd_duration_seconds = None,
     rd_base_fare = None, rd_distance_fare = None, rd_duration_fare = None,
     rd_surge_multiplier = 1, rd_surge_cap = 8 / 5, rd_commission_rate = 9 / 50,
     rd_driver_payout_estimate = None, rd_platform_commission = None,
     rd_actual_distance_km = None, rd_actual_duration_seconds = None,
     rd_actual_pricing_fare = None, rd_pricing_delta = None, rd_map_trace_id = None,
     rd_trace_analysis_status = None, rd_trace_analysis_error_code = None,
     rd_trace_recommendation = None, rd_trace_quality_label = None,
     rd_trace_quality_score = None, rd_trace_points_count = None,
     rd_trace_usable_points_count = None, rd_payment_method = CASH, rd_quote_id = None,
     rd_start_code_hash = None, rd_start_code_attempts = 0, rd_start_code_blocked_at = None,
     rd_start_code_used_at = None, rd_driver_id = None, rd_vehicle_id = None,
     rd_payment_transaction_id = None, rd_share_token = None, rd_share_expires_at = None,
     rd_emergency_requested_at = None, rd_emergency_status = None, rd_emergency_note = None,
     rd_status_history = []\<rparr>"

text \<open>
  A document is a file of DiddiFiles or a link: the pair of columns \<open><name>_file_id\<close> and
  \<open><name>_url\<close>. The verdicts on documents are a dict by document type (a list without repeated
  types) and an append-only history. \<open>updated_at\<close>, which nothing reads, is left out.
\<close>

record attachment =
  at_file_id :: "uuid option"
  at_url :: "string option"

record document_review =
  dr_document_type :: string
  dr_status :: string
  dr_reason_code :: "string option"
  dr_reason :: "string option"
  dr_expected_correction :: "string option"
  dr_reviewed_at :: "datetime option"

record review_event =
  rv_review :: document_review
  rv_reviewed_by_user_id :: "uuid option"
  rv_resubmitted_at :: "datetime option"

record driver_profile =
  dp_id :: uuid
  dp_user_id :: uuid
  dp_license_number :: string
  dp_status :: driver_status
  dp_kyc_status :: kyc_status
  dp_is_review_account :: bool
  dp_rating_avg :: rat
  dp_rating_count :: int
  dp_license_verified_at :: "datetime option"
  dp_legal_name :: "string option"
  dp_birth_date :: "datetime option"
  dp_residence_address :: "string option"
  dp_license_document :: attachment
  dp_license_back_document :: attachment
  dp_national_id_document :: attachment
  dp_national_id_back_document :: attachment
  dp_selfie_document :: attachment
  dp_profile_photo_file_id :: "uuid option"
  dp_license_expires_at :: "datetime option"
  dp_national_id_expires_at :: "datetime option"
  dp_kyc_submitted_at :: "datetime option"
  dp_kyc_reviewed_at :: "datetime option"
  dp_kyc_review_notes :: "string option"
  dp_kyc_document_reviews :: "document_review list"
  dp_kyc_review_history :: "review_event list"
  dp_created_at :: "datetime option"

record vehicle =
  ve_id :: uuid
  ve_driver_id :: uuid
  ve_plate_number :: string
  ve_make :: "string option"
  ve_model :: "string option"
  ve_color :: "string option"
  ve_category :: vehicle_category
  ve_comfort_level :: comfort_level
  ve_verification_status :: vehicle_verification_status
  ve_owner_type :: string
  ve_partner_id :: "uuid option"
  ve_active :: bool
  ve_registration_document :: attachment
  ve_insurance_document :: attachment
  ve_technical_inspection_document :: attachment
  ve_transport_authorization_document :: attachment
  ve_vehicle_photo :: attachment
  ve_vehicle_front_photo :: attachment
  ve_vehicle_back_photo :: attachment
  ve_vehicle_left_photo :: attachment
  ve_vehicle_right_photo :: attachment
  ve_vehicle_interior_photo :: attachment
  ve_vehicle_plate_photo :: attachment
  ve_verified_at :: "datetime option"
  ve_reviewed_at :: "datetime option"
  ve_review_notes :: "string option"
  ve_document_reviews :: "document_review list"
  ve_review_history :: "review_event list"
  ve_created_at :: "datetime option"

definition no_attachment :: attachment where
  "no_attachment = \<lparr>at_file_id = None, at_url = None\<rparr>"

text \<open>A profile and a vehicle with every optional field at its default.\<close>

definition new_driver_profile :: "uuid \<Rightarrow> uuid \<Rightarrow> string \<Rightarrow> driver_profile" where
  "new_driver_profile i user license = \<lparr>dp_id = i, dp_user_id = user, dp_license_number = license,
     dp_status = DR_PENDING_VERIFICATION, dp_kyc_status = KYC_PENDING_VERIFICATION,
     dp_is_review_account = False, dp_rating_avg = 5, dp_rating_count = 0,
     dp_license_verified_at = None, dp_legal_name = None, dp_birth_date = None,
     dp_residence_address = None, dp_license_document = no_attachment,
     dp_license_back_document = no_attachment, dp_national_id_document = no_attachment,
     dp_national_id_back_document = no_attachment, dp_selfie_document = no_attachment,
     dp_profile_photo_file_id = None, dp_license_expires_at = None, dp_national_id_expires_at = None,
     dp_kyc_submitted_at = None, dp_kyc_reviewed_at = None, dp_kyc_review_notes = None,
     dp_kyc_document_reviews = [], dp_kyc_review_history = [], dp_created_at = None\<rparr>"

definition new_vehicle :: "uuid \<Rightarrow> uuid \<Rightarrow> string \<Rightarrow> vehicle" where
  "new_vehicle i driver_id plate = \<lparr>ve_id = i, ve_driver_id = driver_id, ve_plate_number = plate,
     ve_make = None, ve_model = None, ve_color = None, ve_category = VC_STANDARD,
     ve_comfort_level = CL_STANDARD, ve_verification_status = VV_PENDING_VERIFICATION,
     ve_owner_type = ''driver'', ve_partner_id = None, ve_active = True,
     ve_registration_document = no_attachment, ve_insurance_document = no_attachment,
     ve_technical_inspection_document = no_attachment,
     ve_transport_authorization_document = no_attachment, ve_vehicle_photo = no_attachment,
     ve_vehicle_front_photo = no_attachment, ve_vehicle_back_photo = no_attachment,
     ve_vehicle_left_photo = no_attachment, ve_vehicle_right_photo = no_attachment,
     ve_vehicle_interior_photo = no_attachment, ve_vehicle_plate_photo = no_attachment,
     ve_verified_at = None, ve_reviewed_at = None, ve_review_notes = None,
     ve_document_reviews = [], ve_review_history = [], ve_created_at = None\<rparr>"

record pricing_rule =
  pr_id :: uuid
  pr_city :: string
  pr_vehicle_category :: vehicle_category
  pr_base_fare :: rat
  pr_price_per_km :: rat
  pr_price_per_min :: rat
  pr_min_fare :: rat
  pr_surge_multiplier :: rat
  pr_active_from :: datetime
  pr_active_to :: "datetime option"

record ride_quote =
  rq_id :: uuid
  rq_passenger_user_id :: uuid
  rq_pickup_location :: geo_point
  rq_dropoff_location :: geo_point
  rq_vehicle_category :: vehicle_category
  rq_comfort_level :: comfort_level
  rq_estimated_fare :: rat
  rq_distance_km :: rat
  rq_duration_seconds :: int
  rq_base_fare :: rat
  rq_distance_fare :: rat
  rq_duration_fare :: rat
  rq_surge_multiplier :: rat
  rq_surge_cap :: rat
  rq_commission_rate :: rat
  rq_platform_commission :: rat
  rq_driver_payout_estimate :: rat
  rq_tariff_version :: string
  rq_expires_at :: datetime
  rq_pickup_address :: "string option"
  rq_dropoff_address :: "string option"
  rq_consumed_at :: "datetime option"
  rq_ride_id :: "uuid option"
  rq_created_at :: datetime

record ride_rating =
  rr_id :: uuid
  rr_ride_id :: uuid
  rr_rater_role :: string
  rr_rating :: int
  rr_comment :: "string option"

record route_point =
  rp_ride_id :: uuid
  rp_location :: geo_point
  rp_recorded_at :: datetime
  rp_heading :: "int option"
  rp_speed_kmh :: "rat option"
  rp_accuracy_m :: "rat option"
  rp_source :: string

record ride_stop =
  rs_id :: uuid
  rs_ride_id :: uuid
  rs_sequence :: nat
  rs_latitude :: rat
  rs_longitude :: rat
  rs_address :: "string option"
  rs_note :: "string option"
  rs_created_at :: datetime

record ride_supplement =
  su_id :: uuid
  su_ride_id :: uuid
  su_amount :: rat
  su_reason :: string
  su_custom_label :: "string option"
  su_source :: string
  su_status :: string
  su_created_by_user_id :: "uuid option"
  su_created_at :: datetime
  su_decided_by_user_id :: "uuid option"
  su_decided_at :: "datetime option"

section \<open>Transitions\<close>

definition is_active_status :: "ride_status \<Rightarrow> bool" where
  "is_active_status s = (s \<in> {REQUESTED, MATCHED, DRIVER_EN_ROUTE, ARRIVED, IN_PROGRESS, WAITING})"

definition is_active :: "ride \<Rightarrow> bool" where
  "is_active r = is_active_status (rd_status r)"

text \<open>A timestamp field set on the first visit only.\<close>

definition first_visit :: "bool \<Rightarrow> datetime \<Rightarrow> datetime option \<Rightarrow> datetime option" where
  "first_visit b now old = (if b \<and> old = None then Some now else old)"

text \<open>
  \<open>Ride.transition\<close>; \<open>now\<close> is the \<open>when\<close> argument or the clock.
\<close>

definition moved_to ::
  "ride_status \<Rightarrow> datetime \<Rightarrow> (string \<times> meta_value) list option \<Rightarrow> ride \<Rightarrow> ride" where
  "moved_to new_status now metadata r = r\<lparr>
     rd_status := new_status,
     rd_matched_at := first_visit (new_status = MATCHED) now (rd_matched_at r),
     rd_arrived_at := first_visit (new_status = ARRIVED) now (rd_arrived_at r),
     rd_started_at := first_visit (new_status = IN_PROGRESS) now (rd_started_at r),
     rd_completed_at := first_visit (new_status = COMPLETED) now (rd_completed_at r),
     rd_final_fare :=
       (if new_status = COMPLETED \<and> rd_completed_at r = None \<and> rd_final_fare r = None
        then rd_estimated_fare r else rd_final_fare r),
     rd_cancelled_at := first_visit (new_status \<in> {CANCELLED_BY_PASSENGER, CANCELLED_BY_DRIVER})
       now (rd_cancelled_at r),
     rd_status_history := rd_status_history r @
       [\<lparr>st_ride_id = rd_id r, st_from_status = rd_status r, st_to_status = new_status,
         st_changed_at = now, st_metadata = metadata\<rparr>]\<rparr>"

definition transition ::
  "ride_status \<Rightarrow> datetime \<Rightarrow> (string \<times> meta_value) list option \<Rightarrow> ride \<Rightarrow> exn + ride" where
  "transition new_status now metadata r =
     (if new_status = rd_status r then Inr r
      else if new_status \<notin> set (allowed_transitions (rd_status r)) then Inl InvalidStatusTransition
      else Inr (moved_to new_status now metadata r))"

fun run_transitions ::
  "(ride_status \<times> datetime \<times> (string \<times> meta_value) list option) list \<Rightarrow> ride \<Rightarrow> exn + ride" where
  "run_transitions [] r = Inr r"
| "run_transitions ((s, now, m) # es) r = bindR (transition s now m r) (run_transitions es)"

lemma is_active_iff: "is_active_status s \<longleftrightarrow> allowed_transitions s \<noteq> []"
  by (cases s) (simp_all add: is_active_status_def)

text \<open>What no transition rewrites: a timestamp that is set, nor the identity of the ride.\<close>

definition keeps :: "'a option \<Rightarrow> 'a option \<Rightarrow> bool" where
  "keeps a b \<longleftrightarrow> a = None \<or> b = a"

definition stamps_kept :: "ride \<Rightarrow> ride \<Rightarrow> bool" where
  "stamps_kept r r' \<longleftrightarrow> keeps (rd_matched_at r) (rd_matched_at r')
     \<and> keeps (rd_arrived_at r) (rd_arrived_at r') \<and> keeps (rd_started_at r) (rd_started_at r')
     \<and> keeps (rd_completed_at r) (rd_completed_at r') \<and> keeps (rd_cancelled_at r) (rd_cancelled_at r')
     \<and> keeps (rd_final_fare r) (rd_final_fare r')
     \<and> rd_id r' = rd_id r \<and> rd_passenger_user_id r' = rd_passenger_user_id r"

lemma stamps_kept_refl [simp]: "stamps_kept r r"
  by (simp add: stamps_kept_def keeps_def)

lemma keeps_trans: "keeps a b \<Longrightarrow> keeps b c \<Longrightarrow> keeps a c"
  by (auto simp: keeps_def)

lemma stamps_kept_trans: "stamps_kept a b \<Longrightarrow> stamps_kept b c \<Longrightarrow> stamps_kept a c"
  by (auto simp: stamps_kept_def intro: keeps_trans)

lemma transition_moves:
  assumes "s \<noteq> rd_status r" and "s \<in> set (allowed_transitions (rd_status r))"
  shows "transition s now m r = Inr (moved_to s now m r)"
  using assms by (simp add: transition_def)

lemma moved_to_fields [simp]:
  "rd_status (moved_to s now m r) = s"
  "rd_id (moved_to s now m r) = rd_id r"
  "rd_driver_id (moved_to s now m r) = rd_driver_id r"
  "rd_passenger_user_id (moved_to s now m r) = rd_passenger_user_id r"
  "rd_status_history (moved_to s now m r) = rd_status_history r @
     [\<lparr>st_ride_id = rd_id r, st_from_status = rd_status r, st_to_status = s,
       st_changed_at = now, st_metadata = m\<rparr>]"
  "rd_matched_at (moved_to s now m r) = first_visit (s = MATCHED) now (rd_matched_at r)"
  "rd_arrived_at (moved_to s now m r) = first_visit (s = ARRIVED) now (rd_arrived_at r)"
  "rd_started_at (moved_to s now m r) = first_visit (s = IN_PROGRESS) now (rd_started_at r)"
  "rd_completed_at (moved_to s now m r) = first_visit (s = COMPLETED) now (rd_completed_at r)"
  "rd_cancelled_at (moved_to s now m r) =
     first_visit (s \<in> {CANCELLED_BY_PASSENGER, CANCELLED_BY_DRIVER}) now (rd_cancelled_at r)"
  "rd_final_fare (moved_to s now m r) =
     (if s = COMPLETED \<and> rd_completed_at r = None \<and> rd_final_fare r = None
      then rd_estimated_fare r else rd_final_fare r)"
  by (simp_all add: moved_to_def)

lemma keeps_first_visit [simp]: "keeps x (first_visit b now x)"
  by (simp add: keeps_def first_visit_def)

lemma moved_to_stamps [simp]: "stamps_kept r (moved_to s now m r)"
  unfolding stamps_kept_def moved_to_fields
  by (intro conjI keeps_first_visit refl) (simp add: keeps_def)

lemma transition_cases:
  assumes "transition s now m r = Inr r'"
  obtains (same) "s = rd_status r" "r' = r"
  | (move) "s \<in> set (allowed_transitions (rd_status r))" "s \<noteq> rd_status r"
      "rd_status r' = s" "stamps_kept r r'"
      "rd_status_history r' = rd_status_history r @
         [\<lparr>st_ride_id = rd_id r, st_from_status = rd_status r, st_to_status = s,
           st_changed_at = now, st_metadata = m\<rparr>]"
proof -
  from assms consider "s = rd_status r" "Inr r = (Inr r' :: exn + ride)"
    | "s \<in> set (allowed_transitions (rd_status r))" "s \<noteq> rd_status r"
      "Inr (moved_to s now m r) = (Inr r' :: exn + ride)"
    unfolding transition_def by (metis sum.distinct(1))
  then show ?thesis
  proof cases
    case 1
    from 1(2) have "r' = r" by (rule sum.inject(2) [THEN iffD1, THEN sym])
    with 1(1) show ?thesis by (rule same)
  next
    case 2
    from 2(3) have r': "r' = moved_to s now m r" by (rule sum.inject(2) [THEN iffD1, THEN sym])
    show ?thesis
      by (rule move [OF 2(1,2)]) (simp_all only: r' moved_to_fields moved_to_stamps)
  qed
qed

lemma transition_status: "transition s now m r = Inr r' \<Longrightarrow> rd_status r' = s"
  by (erule transition_cases) simp_all

lemma transition_fails_iff:
  "transition s now m r = Inl e \<longleftrightarrow> e = InvalidStatusTransition
     \<and> s \<noteq> rd_status r \<and> s \<notin> set (allowed_transitions (rd_status r))"
  by (auto simp: transition_def)

section \<open>The contract of a status table\<close>

text \<open>
  A table of allowed moves, a set of terminal states with no move, and a rank that an allowed
  move never lowers except inside one loop: a run that starts in a terminal state never leaves
  it, and a state outside the loop is visited at most once.
\<close>

locale lifecycle =
  fixes moves :: "'s \<Rightarrow> 's list" and terminal :: "'s \<Rightarrow> bool" and rank :: "'s \<Rightarrow> nat"
    and looping :: "'s \<Rightarrow> bool"
  assumes terminal_stuck: "terminal s \<Longrightarrow> moves s = []"
    and rank_mono: "t \<in> set (moves s) \<Longrightarrow> rank s \<le> rank t"
    and rank_strict: "t \<in> set (moves s) \<Longrightarrow> \<not> looping s \<Longrightarrow> rank s < rank t"
begin

abbreviation reaches :: "'s \<Rightarrow> 's \<Rightarrow> bool" where
  "reaches \<equiv> rtranclp (\<lambda>s t. t \<in> set (moves s))"

lemma reaches_rank: "reaches s t \<Longrightarrow> rank s \<le> rank t"
  by (induction rule: rtranclp_induct) (auto dest: rank_mono)

lemma terminal_absorbing:
  assumes "terminal s" and "reaches s t"
  shows "t = s"
  using assms(2,1) by (cases rule: converse_rtranclpE) (auto dest: terminal_stuck)

lemma no_return:
  assumes "\<not> looping s" and "t \<in> set (moves s)" and "reaches t u"
  shows "u \<noteq> s"
  using rank_strict [OF assms(2,1)] reaches_rank [OF assms(3)] by auto

end

fun ride_rank :: "ride_status \<Rightarrow> nat" where
  "ride_rank REQUESTED = 0"
| "ride_rank MATCHED = 1"
| "ride_rank DRIVER_EN_ROUTE = 2"
| "ride_rank ARRIVED = 3"
| "ride_rank IN_PROGRESS = 4"
| "ride_rank WAITING = 4"
| "ride_rank _ = 5"

interpretation ride_life: lifecycle allowed_transitions "\<lambda>s. \<not> is_active_status s" ride_rank
    "\<lambda>s. s \<in> {IN_PROGRESS, WAITING}"
proof
  show "allowed_transitions s = []" if "\<not> is_active_status s" for s
    using that by (simp add: is_active_iff)
  show "ride_rank s \<le> ride_rank t" if "t \<in> set (allowed_transitions s)" for s t
    using that by (cases s) auto
  show "ride_rank s < ride_rank t"
    if "t \<in> set (allowed_transitions s)" "s \<notin> {IN_PROGRESS, WAITING}" for s t
    using that by (cases s) auto
qed

text \<open>A run of \<open>transition\<close> moves along the table.\<close>

lemma run_reaches: "run_transitions es r = Inr r' \<Longrightarrow> ride_life.reaches (rd_status r) (rd_status r')"
proof (induction es r rule: run_transitions.induct)
  case (1 r)
  then show ?case by simp
next
  case (2 s now m es r)
  then obtain r1 where r1: "transition s now m r = Inr r1" "run_transitions es r1 = Inr r'"
    by (auto simp only: run_transitions.simps bindR_eq_Inr)
  with "2.IH" have "ride_life.reaches (rd_status r1) (rd_status r')" by blast
  moreover from r1(1) have "ride_life.reaches (rd_status r) (rd_status r1)"
    by (cases rule: transition_cases) (simp, blast)
  ultimately show ?case by (meson rtranclp_trans)
qed

section \<open>History and timestamps\<close>

text \<open>\<open>chain s hs t\<close>: the entries of \<open>hs\<close> lead from \<open>s\<close> to \<open>t\<close>, each by an allowed move.\<close>

fun chain :: "ride_status \<Rightarrow> status_transition list \<Rightarrow> ride_status \<Rightarrow> bool" where
  "chain s [] t = (s = t)"
| "chain s (h # hs) t = (st_from_status h = s \<and> st_to_status h \<in> set (allowed_transitions s)
     \<and> chain (st_to_status h) hs t)"

lemma chain_snoc:
  "chain s (hs @ [h]) t \<longleftrightarrow> chain s hs (st_from_status h)
     \<and> st_to_status h \<in> set (allowed_transitions (st_from_status h)) \<and> st_to_status h = t"
  by (induction hs arbitrary: s) auto

lemma transition_chain:
  assumes "transition s now m r = Inr r'" and "chain s0 (rd_status_history r) (rd_status r)"
  shows "chain s0 (rd_status_history r') (rd_status r')"
  using assms(1)
proof (cases rule: transition_cases)
  case same
  with assms(2) show ?thesis by simp
next
  case move
  with assms(2) show ?thesis by (simp add: chain_snoc)
qed

lemma run_chain:
  "run_transitions es r = Inr r' \<Longrightarrow> chain s0 (rd_status_history r) (rd_status r) \<Longrightarrow>
    chain s0 (rd_status_history r') (rd_status r')"
proof (induction es r rule: run_transitions.induct)
  case (2 s now m es r)
  then obtain r1 where "transition s now m r = Inr r1" "run_transitions es r1 = Inr r'"
    by (auto simp only: run_transitions.simps bindR_eq_Inr)
  with "2.IH" "2.prems"(2) show ?case by (blast intro: transition_chain)
qed simp

lemma transition_stamps: "transition s now m r = Inr r' \<Longrightarrow> stamps_kept r r'"
  by (erule transition_cases) simp_all

lemma run_stamps: "run_transitions es r = Inr r' \<Longrightarrow> stamps_kept r r'"
proof (induction es r rule: run_transitions.induct)
  case (2 s now m es r)
  then obtain r1 where "transition s now m r = Inr r1" "run_transitions es r1 = Inr r'"
    by (auto simp only: run_transitions.simps bindR_eq_Inr)
  with "2.IH" show ?case by (blast intro: stamps_kept_trans transition_stamps)
qed simp

end
