(* ===== verification/Payment_Service.thy ===== *)
theory Payment_Service
  imports Payment_Ledger Return_Contexts Ride_Entities
begin

text \<open>
  app\_base/modules/payment/application/services.py: passenger debts, cash confirmation,
  preparation of a digital collection, the DiddiPay callback and the reconciliation sweep.

  DiddiPay is outside the repository: its client is a record of functions whose result may be
  any exception or any JSON object. So are the HMAC and the JSON parser. \<open>find_ride\<close> is the
  ride repository's \<open>find_by_id\<close>. The clock is read once per request.
\<close>

section \<open>Surroundings\<close>

record diddipay =
  dp_create_payment_intent :: "(string \<times> json) list \<Rightarrow> string \<Rightarrow> exn + (string \<times> json) list"
  dp_get_payment_intent :: "uuid \<Rightarrow> exn + (string \<times> json) list option"
  dp_create_payout :: "(string \<times> json) list \<Rightarrow> string \<Rightarrow> exn + (string \<times> json) list"
  dp_get_payout :: "uuid \<Rightarrow> exn + (string \<times> json) list option"
  dp_get_payout_by_business_reference :: "string \<Rightarrow> exn + (string \<times> json) list option"

record pay_env =
  pe_find_ride :: "uuid \<Rightarrow> ride option"
  pe_diddipay :: diddipay
  pe_callback_secret :: "string option"
  pe_hmac_sha256 :: "string \<Rightarrow> string \<Rightarrow> string"
  pe_json_loads :: "string \<Rightarrow> json option"
  pe_has_return_contexts :: bool
  pe_return_token :: string
  pe_context_ttl :: int
  pe_with_context :: "string \<Rightarrow> string \<Rightarrow> string"
  pe_consumer_return_url :: "string option"
  pe_pro_return_url :: "string option"
  pe_payment_callback_url :: "string option"

fun debt_status_value :: "debt_status \<Rightarrow> string" where
  "debt_status_value DS_OPEN = ''open''"
| "debt_status_value DS_MOBILE_MONEY_PENDING = ''mobile_money_pending''"
| "debt_status_value DS_CASH_PENDING_CONFIRMATION = ''cash_pending_confirmation''"
| "debt_status_value DS_SETTLED = ''settled''"

definition fallback_customer_email :: "string option \<Rightarrow> exn + string" where
  "fallback_customer_email phone =
     (let normalized = filter is_digit (str_or phone [])
      in if normalized = [] then Inl (ApiError 422 ''PAYMENT_EMAIL_REQUIRED'')
         else Inr (normalized @ ''@diddifree.com''))"

definition passenger_debt_payload :: "passenger_debt option \<Rightarrow> exn + (string \<times> json) list" where
  "passenger_debt_payload debt = (case debt of
       None \<Rightarrow> Inl RuntimeError
     | Some d \<Rightarrow> Inr
        [(''id'', juuid (pd_id d)),
         (''ride_id'', juuid (pd_ride_id d)),
         (''amount'', JInt (py_trunc (pd_amount d))),
         (''currency'', JStr (pd_currency d)),
         (''status'', JStr (debt_status_value (pd_status d))),
         (''reason'', JStr (pd_reason d)),
         (''created_at'', iso (Some (pd_created_at d))),
         (''updated_at'', iso (Some (pd_updated_at d))),
         (''settled_at'', iso (pd_settled_at d))])"

definition payment_status_from_diddipay :: "string \<Rightarrow> exn + payment_status" where
  "payment_status_from_diddipay status =
     (let normalized = lower (strip status)
      in if normalized \<in> {''expired'', ''abandoned''} then Inr PS_CANCELLED
         else case payment_status_of normalized of
             None \<Rightarrow> Inl (ApiError 422 ''PAYMENT_STATUS_INVALID'')
           | Some s \<Rightarrow> Inr s)"

fun topup_status_from_payment_status :: "payment_status \<Rightarrow> topup_status" where
  "topup_status_from_payment_status PS_PENDING = TS_PENDING"
| "topup_status_from_payment_status PS_REQUIRES_ACTION = TS_REQUIRES_ACTION"
| "topup_status_from_payment_status PS_PROCESSING = TS_PROCESSING"
| "topup_status_from_payment_status PS_SUCCEEDED = TS_SUCCEEDED"
| "topup_status_from_payment_status PS_FAILED = TS_FAILED"
| "topup_status_from_payment_status PS_CANCELLED = TS_CANCELLED"
| "topup_status_from_payment_status _ = TS_FAILED"

definition external_payment_payload :: "transaction \<Rightarrow> json option \<Rightarrow> (string \<times> json) list" where
  "external_payment_payload payment next_action =
     [(''ride_id'', juuid (tx_ride_id payment)),
      (''status'', JStr (payment_status_value (tx_status payment))),
      (''method'', JStr (payment_method_value (tx_method payment))),
      (''amount'', JInt (py_trunc (tx_amount payment))),
      (''currency'', JStr (tx_currency payment)),
      (''provider'', JStr ''diddipay''),
      (''provider_status'', jstr_opt (tx_provider_status payment)),
      (''payment_intent_id'', juuid_opt (tx_payment_intent_id payment)),
      (''business_reference'', jstr_opt (tx_business_reference payment)),
      (''next_action'', case next_action of None \<Rightarrow> JNull | Some j \<Rightarrow> j)]"

text \<open>\<open>_intent_mismatch_reason\<close>: None when the intent is the same money as the local row.\<close>

fun unhashable :: "json \<Rightarrow> bool" where
  "unhashable (JList _) = True"
| "unhashable (JObj _) = True"
| "unhashable _ = False"

datatype mismatch = AMOUNT_ABSENT | AMOUNT_NOT_A_NUMBER | MONEY_DIFFERS | REFERENCE_DIFFERS

definition intent_mismatch_reason ::
  "(string \<times> json) list \<Rightarrow> rat \<Rightarrow> string \<Rightarrow> string option \<Rightarrow> exn + mismatch option" where
  "intent_mismatch_reason intent amount currency business_reference =
     (if jget intent ''amount'' = JNull \<or> jget intent ''currency'' = JNull
      then Inr (Some AMOUNT_ABSENT)
      else case py_int (jget intent ''amount'') of
          Inl _ \<Rightarrow> Inr (Some AMOUNT_NOT_A_NUMBER)
        | Inr provider_amount \<Rightarrow>
          if provider_amount \<noteq> py_trunc amount \<or> py_str (jget intent ''currency'') \<noteq> currency
          then Inr (Some MONEY_DIFFERS)
          else if str_or business_reference [] = [] then Inr None
          else if unhashable (jget intent ''business_reference'') then Inl PyTypeError
          else if jget intent ''business_reference'' \<notin> {JNull, jstr_opt business_reference}
          then Inr (Some REFERENCE_DIFFERS)
          else Inr None)"

definition next_action_from_intent :: "(string \<times> json) list \<Rightarrow> json option" where
  "next_action_from_intent intent =
     (case jget intent ''attempts'' of
        JList (JObj a # _) \<Rightarrow>
          (case jget a ''next_action'' of JObj fs \<Rightarrow> Some (JObj fs) | _ \<Rightarrow> None)
      | _ \<Rightarrow> None)"

definition consumer_return_url :: "pay_env \<Rightarrow> string option" where
  "consumer_return_url env =
     (if str_or (pe_consumer_return_url env) [] \<noteq> [] then pe_consumer_return_url env
      else pe_payment_callback_url env)"

section \<open>Settlement\<close>

definition ride_entry ::
  "uuid \<Rightarrow> uuid \<Rightarrow> rat \<Rightarrow> ride \<Rightarrow> entry_direction \<Rightarrow> entry_type \<Rightarrow> string \<Rightarrow> datetime \<Rightarrow> ledger_entry" where
  "ride_entry eid driver_id amount ride direction entry_type description now =
     \<lparr>le_id = eid, le_driver_id = driver_id, le_amount = amount, le_currency = rd_currency ride,
      le_direction = direction, le_entry_type = entry_type, le_status = ES_CONFIRMED,
      le_reference_type = ''ride'', le_reference_id = rd_id ride,
      le_description = Some description, le_created_at = now\<rparr>"

definition record_ride_settlement ::
  "ride \<Rightarrow> payment_status \<Rightarrow> datetime \<Rightarrow> pay_db \<Rightarrow> exn + pay_db" where
  "record_ride_settlement ride payment_status now db =
     (case rd_driver_id ride of
        None \<Rightarrow> Inr db
      | Some driver_id \<Rightarrow>
       (case (rd_platform_commission ride, rd_driver_payout_estimate ride) of
          (Some commission, Some payout) \<Rightarrow>
            if rd_payment_method ride = CASH \<and> payment_status = PS_COLLECTED then
              let (eid, db1) = new_id db
              in bindR (record_ledger_entry_once (ride_entry eid driver_id commission ride DEBIT
                   PLATFORM_COMMISSION ''Commission DiddiGo sur course cash'' now) now db1)
                 (\<lambda>(_, db2). Inr db2)
            else if rd_payment_method ride = MOBILE_MONEY \<and> payment_status = PS_SUCCEEDED then
              let (eid, db1) = new_id db
              in bindR (record_ledger_entry_once (ride_entry eid driver_id payout ride CREDIT
                   RIDE_PAYOUT ''Montant net chauffeur sur course digitale'' now) now db1)
                 (\<lambda>(_, db2). Inr db2)
            else Inr db
        | _ \<Rightarrow> Inr db))"

definition topup_entry :: "uuid \<Rightarrow> driver_topup \<Rightarrow> datetime \<Rightarrow> ledger_entry" where
  "topup_entry eid t now =
     \<lparr>le_id = eid, le_driver_id = tu_driver_id t, le_amount = tu_amount t,
      le_currency = tu_currency t, le_direction = CREDIT, le_entry_type = TOPUP,
      le_status = ES_CONFIRMED, le_reference_type = ''driver_topup'', le_reference_id = tu_id t,
      le_description = Some ''Recharge chauffeur confirmee'', le_created_at = now\<rparr>"

definition credit_driver_topup :: "driver_topup \<Rightarrow> datetime \<Rightarrow> pay_db \<Rightarrow> exn + pay_db" where
  "credit_driver_topup t now db =
     (let (eid, db1) = new_id db
      in bindR (record_ledger_entry_once (topup_entry eid t now) now db1) (\<lambda>(_, db2). Inr db2))"

definition apply_transaction_status ::
  "pay_env \<Rightarrow> transaction \<Rightarrow> payment_status \<Rightarrow> string \<Rightarrow> datetime option \<Rightarrow> json option keep
    \<Rightarrow> datetime \<Rightarrow> pay_db \<Rightarrow> exn + transaction \<times> pay_db" where
  "apply_transaction_status env payment status provider_status paid_at next_action now db =
     bindR (mark_external_status (tx_id payment) status (Some provider_status) paid_at next_action db)
       (\<lambda>(payment, db1).
          case pe_find_ride env (tx_ride_id payment) of
            None \<Rightarrow> Inr (payment, db1)
          | Some ride \<Rightarrow> bindR (record_ride_settlement ride (tx_status payment) now db1)
              (\<lambda>db2. Inr (payment, db2)))"

definition apply_topup_status ::
  "driver_topup \<Rightarrow> topup_status \<Rightarrow> string \<Rightarrow> datetime option \<Rightarrow> json option keep
    \<Rightarrow> datetime \<Rightarrow> pay_db \<Rightarrow> exn + driver_topup \<times> pay_db" where
  "apply_topup_status topup status provider_status paid_at next_action now db =
     bindR (mark_topup_status (tu_id topup) status (Some provider_status) paid_at next_action db)
       (\<lambda>(topup, db1).
          if tu_status topup = TS_SUCCEEDED
          then bindR (credit_driver_topup topup now db1) (\<lambda>db2. Inr (topup, db2))
          else Inr (topup, db1))"

section \<open>Cash\<close>

definition cash_tolerance :: "rat \<Rightarrow> rat" where
  "cash_tolerance expected = max 200 (expected * (1 / 10))"

definition new_transaction ::
  "uuid \<Rightarrow> uuid \<Rightarrow> rat \<Rightarrow> string \<Rightarrow> payment_method \<Rightarrow> payment_status \<Rightarrow> datetime \<Rightarrow> transaction" where
  "new_transaction i ride_id amount currency method status created_at =
     \<lparr>tx_id = i, tx_ride_id = ride_id, tx_amount = amount, tx_currency = currency,
      tx_method = method, tx_status = status, tx_collected_by = None, tx_collected_at = None,
      tx_created_at = created_at, tx_payment_intent_id = None, tx_business_reference = None,
      tx_idempotency_key = None, tx_provider_status = None, tx_provider_next_action = None,
      tx_paid_at = None\<rparr>"

definition cash_payment_of ::
  "uuid \<Rightarrow> rat \<Rightarrow> string \<Rightarrow> datetime \<Rightarrow> transaction option \<Rightarrow> pay_db \<Rightarrow> exn + transaction \<times> pay_db" where
  "cash_payment_of ride_id amount currency now existing db =
     (case existing of
        Some t \<Rightarrow> Inr (t, db)
      | None \<Rightarrow>
        let (tid, db1) = new_id db
        in save_transaction (new_transaction tid ride_id amount currency PM_CASH PS_PENDING now) db1)"

definition confirm_cash ::
  "pay_env \<Rightarrow> uuid \<Rightarrow> rat \<Rightarrow> uuid \<Rightarrow> datetime \<Rightarrow> pay_db \<Rightarrow> exn + (string \<times> json) list \<times> pay_db" where
  "confirm_cash env ride_id amount_collected collected_by now db =
     (case pe_find_ride env ride_id of
        None \<Rightarrow> Inl (ApiError 404 ''RIDE_NOT_FOUND'')
      | Some ride \<Rightarrow>
        if rd_status ride \<noteq> COMPLETED then Inl (ApiError 409 ''RIDE_NOT_COMPLETED'')
        else if (case rd_final_fare ride of
              None \<Rightarrow> False
            | Some expected \<Rightarrow> cash_tolerance expected < \<bar>amount_collected - expected\<bar>)
        then Inl (ApiError 422 ''AMOUNT_MISMATCH'')
        else
          bindR (find_by_ride_id ride_id db) (\<lambda>existing.
          bindR (cash_payment_of ride_id amount_collected (rd_currency ride) now existing db)
            (\<lambda>(payment, db1).
          bindR (update_collected (tx_id payment) collected_by amount_collected now db1)
            (\<lambda>(payment, db2).
          bindR (record_ride_settlement ride (tx_status payment) now db2) (\<lambda>db3.
          Inr ([(''ride_id'', juuid (tx_ride_id payment)),
                (''status'', JStr (payment_status_value (tx_status payment))),
                (''amount'', JInt (py_trunc (tx_amount payment))),
                (''currency'', JStr (tx_currency payment)),
                (''collected_at'', iso (tx_collected_at payment))], db3))))))"

definition get_payment :: "pay_env \<Rightarrow> uuid \<Rightarrow> pay_db \<Rightarrow> exn + (string \<times> json) list" where
  "get_payment env ride_id db = bindR (find_by_ride_id ride_id db) (\<lambda>payment.
     case payment of
       None \<Rightarrow>
         let method = (case pe_find_ride env ride_id of
               None \<Rightarrow> ''cash'' | Some ride \<Rightarrow> ride_payment_method_value (rd_payment_method ride))
         in Inr [(''ride_id'', juuid ride_id), (''status'', JStr ''pending''),
              (''method'', JStr method), (''amount'', JNull), (''currency'', JStr ''XOF'')]
     | Some p \<Rightarrow> Inr (
         [(''ride_id'', juuid (tx_ride_id p)),
          (''status'', JStr (payment_status_value (tx_status p))),
          (''method'', JStr (payment_method_value (tx_method p))),
          (''amount'', JInt (py_trunc (tx_amount p))),
          (''currency'', JStr (tx_currency p))] @
         (case tx_payment_intent_id p of
            None \<Rightarrow> []
          | Some pid \<Rightarrow>
            [(''provider'', JStr ''diddipay''),
             (''provider_status'', jstr_opt (tx_provider_status p)),
             (''payment_intent_id'', juuid pid),
             (''business_reference'', jstr_opt (tx_business_reference p)),
             (''paid_at'', iso (tx_paid_at p))])))"

definition prepare_cash ::
  "pay_env \<Rightarrow> uuid \<Rightarrow> datetime \<Rightarrow> pay_db \<Rightarrow> exn + (string \<times> json) list \<times> pay_db" where
  "prepare_cash env ride_id now db =
     bindR (find_by_ride_id ride_id db) (\<lambda>existing.
     bindR (case existing of
         None \<Rightarrow>
          (case pe_find_ride env ride_id of
             None \<Rightarrow> Inl (ApiError 404 ''RIDE_NOT_FOUND'')
           | Some ride \<Rightarrow>
             let (tid, db1) = new_id db;
                 amount = (case dec_or (dec_or (rd_final_fare ride) (rd_estimated_fare ride)) (Some 0)
                           of None \<Rightarrow> 0 | Some a \<Rightarrow> a)
             in save_transaction (new_transaction tid ride_id amount (rd_currency ride)
                  PM_CASH PS_PENDING now) db1)
       | Some payment \<Rightarrow>
         if tx_method payment \<noteq> PM_CASH then
           if tx_status payment \<notin> {PS_FAILED, PS_CANCELLED}
           then Inl (ApiError 409 ''PAYMENT_OPERATION_CONFLICT'')
           else prepare_cash_payment (tx_id payment) db
         else Inr (payment, db))
       (\<lambda>(payment, db1).
          Inr ([(''ride_id'', juuid (tx_ride_id payment)),
                (''status'', JStr (payment_status_value (tx_status payment))),
                (''method'', JStr (payment_method_value (tx_method payment))),
                (''amount'', JInt (py_trunc (tx_amount payment))),
                (''currency'', JStr (tx_currency payment)),
                (''provider'', JStr ''cash''),
                (''provider_status'', JStr ''local'')], db1)))"

section \<open>Digital collection\<close>

definition ride_reference :: "uuid \<Rightarrow> string" where
  "ride_reference ride_id = ''diddigo:ride:'' @ uuid_str ride_id"

definition collection_key :: "uuid \<Rightarrow> uuid option \<Rightarrow> string" where
  "collection_key ride_id previous = ride_reference ride_id @ (case previous of
       None \<Rightarrow> '':collection:v1'' | Some pid \<Rightarrow> '':collection:retry:'' @ uuid_str pid)"

text \<open>
  The context store is not part of the database transaction, so its state is returned beside the
  result in every branch.
\<close>

definition open_return_context ::
  "pay_env \<Rightarrow> string \<Rightarrow> string \<Rightarrow> uuid \<Rightarrow> uuid \<Rightarrow> string option \<Rightarrow> datetime \<Rightarrow> context_store
    \<Rightarrow> string option \<times> context_store" where
  "open_return_context env flow surface user_id resource_id base now st =
     (if pe_has_return_contexts env
      then (callback_url (pe_with_context env) base (pe_return_token env),
            create_context flow surface user_id resource_id (pe_return_token env)
              (pe_context_ttl env) now st)
      else (base, st))"

definition bind_return_context ::
  "pay_env \<Rightarrow> uuid \<Rightarrow> datetime \<Rightarrow> context_store \<Rightarrow> context_store" where
  "bind_return_context env pid now st =
     (if pe_has_return_contexts env \<and> pe_return_token env \<noteq> []
      then bind_payment_intent (pe_return_token env) pid now st else st)"

definition collection_request ::
  "ride \<Rightarrow> rat \<Rightarrow> uuid \<Rightarrow> string \<Rightarrow> string option \<Rightarrow> string option \<Rightarrow> string option \<Rightarrow> (string \<times> json) list" where
  "collection_request ride amount payer_user_id email phone network callback =
     [(''business_reference'', JStr (ride_reference (rd_id ride))),
      (''amount'', JInt (py_trunc amount)),
      (''currency'', JStr (rd_currency ride)),
      (''payer_user_id'', juuid payer_user_id),
      (''payee_user_id'', juuid_opt (rd_driver_id ride)),
      (''channel'', JStr ''mobile_money''),
      (''network'', jstr_opt network),
      (''customer_email'', JStr email),
      (''customer_phone'', jstr_opt phone),
      (''callback_url'', jstr_opt callback),
      (''description'', JStr (''Course DiddiGo '' @ uuid_str (rd_id ride))),
      (''metadata'', JObj [(''ride_id'', juuid (rd_id ride))])]"

text \<open>The local row for the intent that DiddiPay returned.\<close>

definition store_collection ::
  "uuid \<Rightarrow> ride \<Rightarrow> rat \<Rightarrow> payment_method \<Rightarrow> transaction option \<Rightarrow> string \<Rightarrow> (string \<times> json) list \<Rightarrow> uuid
    \<Rightarrow> payment_status \<Rightarrow> datetime \<Rightarrow> pay_db \<Rightarrow> exn + transaction \<times> pay_db" where
  "store_collection ride_id ride amount method retrying idem intent pid status now db =
     (let next_action = next_action_from_intent intent;
          provider_status = py_str (jor (jget intent ''status'') (JStr (payment_status_value status)))
      in case retrying of
           Some existing \<Rightarrow> replace_external_intent (tx_id existing) pid idem method status
             provider_status next_action db
         | None \<Rightarrow>
           bindR (if truthy (jget intent ''amount'') then json_decimal (jget intent ''amount'')
                  else Inr amount) (\<lambda>local_amount.
           let (tid, db1) = new_id db;
               currency = py_str (jor (jget intent ''currency'') (JStr (rd_currency ride)))
           in save_transaction ((new_transaction tid ride_id local_amount currency method status now)
                \<lparr>tx_payment_intent_id := Some pid,
                 tx_business_reference := Some (ride_reference ride_id),
                 tx_idempotency_key := Some idem,
                 tx_provider_status := Some provider_status,
                 tx_provider_next_action := next_action,
                 tx_paid_at := (if status = PS_SUCCEEDED then Some now else None)\<rparr>) db1))"

definition prepare_diddipay ::
  "pay_env \<Rightarrow> uuid \<Rightarrow> payment_method \<Rightarrow> uuid \<Rightarrow> string \<Rightarrow> string option \<Rightarrow> string option \<Rightarrow> datetime
    \<Rightarrow> context_store \<Rightarrow> pay_db \<Rightarrow> (exn + (string \<times> json) list \<times> pay_db) \<times> context_store" where
  "prepare_diddipay env ride_id method payer_user_id email phone network now st db =
     (case pe_find_ride env ride_id of
        None \<Rightarrow> (Inl (ApiError 404 ''RIDE_NOT_FOUND''), st)
      | Some ride \<Rightarrow>
       (case dec_or (rd_final_fare ride) (rd_estimated_fare ride) of
          None \<Rightarrow> (Inl (ApiError 409 ''PAYMENT_OPERATION_CONFLICT''), st)
        | Some amount \<Rightarrow>
          if amount \<le> 0 then (Inl (ApiError 409 ''PAYMENT_OPERATION_CONFLICT''), st)
          else case find_by_ride_id ride_id db of
              Inl e \<Rightarrow> (Inl e, st)
            | Inr existing \<Rightarrow>
              let retrying = (case existing of
                    None \<Rightarrow> None
                  | Some t \<Rightarrow> if tx_payment_intent_id t \<noteq> None \<and> tx_status t \<in> {PS_FAILED, PS_CANCELLED}
                              then Some t else None)
              in if existing \<noteq> None \<and> retrying = None then
                   (if tx_payment_intent_id (the existing) \<noteq> None
                    then Inr (external_payment_payload (the existing)
                           (tx_provider_next_action (the existing)), db)
                    else Inl (ApiError 409 ''PAYMENT_OPERATION_CONFLICT''), st)
                 else
                   let idem = collection_key ride_id (case retrying of
                         None \<Rightarrow> None | Some t \<Rightarrow> tx_payment_intent_id t);
                       (callback, st1) = open_return_context env ''ride_payment'' ''consumer''
                         payer_user_id ride_id (consumer_return_url env) now st
                   in case dp_create_payment_intent (pe_diddipay env)
                          (collection_request ride amount payer_user_id email phone network callback)
                          idem of
                        Inl e \<Rightarrow> (Inl e, st1)
                      | Inr intent \<Rightarrow>
                       (case bindR (payment_status_from_diddipay (py_str
                              (jor (jget intent ''status'') (JStr ''requires_action''))))
                            (\<lambda>status. bindR (jkey intent ''id'') (\<lambda>j. bindR (as_uuid j) (\<lambda>pid.
                              Inr (status, pid)))) of
                          Inl e \<Rightarrow> (Inl e, st1)
                        | Inr (status, pid) \<Rightarrow>
                          (bindR (store_collection ride_id ride amount method retrying idem intent
                               pid status now db)
                             (\<lambda>(payment, db1). Inr (external_payment_payload payment
                               (next_action_from_intent intent), db1)),
                           bind_return_context env pid now st1))))"

definition mobile_money_networks :: "string list" where
  "mobile_money_networks = [''orange'', ''wave'', ''mtn'', ''moov'']"

definition prepare_payment ::
  "pay_env \<Rightarrow> uuid \<Rightarrow> string \<Rightarrow> uuid \<Rightarrow> string option \<Rightarrow> string option \<Rightarrow> string option \<Rightarrow> datetime
    \<Rightarrow> context_store \<Rightarrow> pay_db \<Rightarrow> (exn + (string \<times> json) list \<times> pay_db) \<times> context_store" where
  "prepare_payment env ride_id method payer_user_id customer_email customer_phone network now st db =
     (case pe_find_ride env ride_id of
        None \<Rightarrow> (Inl (ApiError 404 ''RIDE_NOT_FOUND''), st)
      | Some ride \<Rightarrow>
        if rd_passenger_user_id ride \<noteq> payer_user_id
        then (Inl (ApiError 403 ''RIDE_NOT_OWNED_BY_USER''), st)
        else if rd_status ride \<noteq> COMPLETED then (Inl (ApiError 409 ''RIDE_NOT_COMPLETED''), st)
        else if (case rd_final_fare ride of None \<Rightarrow> True | Some f \<Rightarrow> f \<le> 0)
        then (Inl (ApiError 409 ''PAYMENT_OPERATION_CONFLICT''), st)
        else case payment_method_of method of
            None \<Rightarrow> (Inl (ApiError 422 ''INVALID_PAYMENT_METHOD''), st)
          | Some payment_method \<Rightarrow>
            if payment_method = PM_CASH then (prepare_cash env ride_id now db, st)
            else if ride_payment_method_value (rd_payment_method ride) \<noteq> payment_method_value payment_method
            then (Inl (ApiError 409 ''PAYMENT_OPERATION_CONFLICT''), st)
            else if payment_method = PM_MOBILE_MONEY
              \<and> (case network of None \<Rightarrow> True | Some n \<Rightarrow> n \<notin> set mobile_money_networks)
            then (Inl (ApiError 422 ''INVALID_PAYMENT_METHOD''), st)
            else
              let phone = str_or customer_phone [];
                  email = (if str_or customer_email [] = [] \<and> phone \<noteq> []
                           then filter is_digit phone @ ''@diddifree.com''
                           else str_or customer_email [])
              in if email = [] then (Inl (ApiError 422 ''PAYMENT_EMAIL_REQUIRED''), st)
                 else prepare_diddipay env ride_id payment_method payer_user_id email
                   customer_phone network now st db)"

section \<open>Passenger debts\<close>

definition total_pages :: "nat \<Rightarrow> nat \<Rightarrow> nat" where
  "total_pages items page_size = max 1 ((items + page_size - 1) div page_size)"

fun collectR :: "(exn + 'a) list \<Rightarrow> exn + 'a list" where
  "collectR [] = Inr []"
| "collectR (m # ms) = bindR m (\<lambda>x. bindR (collectR ms) (\<lambda>xs. Inr (x # xs)))"

definition list_passenger_debts :: "uuid \<Rightarrow> nat \<Rightarrow> nat \<Rightarrow> pay_db \<Rightarrow> exn + (string \<times> json) list" where
  "list_passenger_debts uid page page_size db =
     (let (ds, items) = list_debts_for_passenger uid page page_size db
      in bindR (collectR (map (\<lambda>d. passenger_debt_payload (Some d)) ds)) (\<lambda>data.
         Inr [(''data'', JList (map JObj data)),
              (''pagination'', JObj [(''page'', JInt (int page)),
                 (''page_size'', JInt (int page_size)), (''total_items'', JInt (int items)),
                 (''total_pages'', JInt (int (total_pages items page_size)))])]))"

definition get_passenger_debt :: "uuid \<Rightarrow> uuid \<Rightarrow> pay_db \<Rightarrow> exn + (string \<times> json) list" where
  "get_passenger_debt debt_id uid db =
     (case find_debt_by_id debt_id db of
        None \<Rightarrow> Inl (ApiError 404 ''PASSENGER_DEBT_NOT_FOUND'')
      | Some d \<Rightarrow>
        if pd_passenger_user_id d \<noteq> uid then Inl (ApiError 403 ''RIDE_NOT_OWNED_BY_USER'')
        else passenger_debt_payload (Some d))"

definition owned_open_debt :: "uuid \<Rightarrow> uuid \<Rightarrow> pay_db \<Rightarrow> exn + passenger_debt" where
  "owned_open_debt debt_id uid db =
     (case find_debt_by_id debt_id db of
        None \<Rightarrow> Inl (ApiError 404 ''PASSENGER_DEBT_NOT_FOUND'')
      | Some d \<Rightarrow>
        if pd_passenger_user_id d \<noteq> uid then Inl (ApiError 403 ''RIDE_NOT_OWNED_BY_USER'')
        else if pd_status d = DS_SETTLED then Inl (ApiError 409 ''PASSENGER_DEBT_SETTLEMENT_INVALID'')
        else Inr d)"

definition prepare_passenger_debt_payment ::
  "pay_env \<Rightarrow> uuid \<Rightarrow> uuid \<Rightarrow> string option \<Rightarrow> string option \<Rightarrow> string \<Rightarrow> datetime
    \<Rightarrow> context_store \<Rightarrow> pay_db \<Rightarrow> (exn + (string \<times> json) list \<times> pay_db) \<times> context_store" where
  "prepare_passenger_debt_payment env debt_id uid email phone network now st db =
     (case owned_open_debt debt_id uid db of
        Inl e \<Rightarrow> (Inl e, st)
      | Inr debt \<Rightarrow>
       (case (if str_or email [] \<noteq> [] then Inr (str_or email []) else fallback_customer_email phone) of
          Inl e \<Rightarrow> (Inl e, st)
        | Inr customer_email \<Rightarrow>
          let (m, st1) = prepare_diddipay env (pd_ride_id debt) PM_MOBILE_MONEY uid customer_email
                phone (Some network) now st db
          in (bindR m (\<lambda>(payment, db1).
              let expires_at = (case jget payment ''next_action'' of
                    JObj (f # fs) \<Rightarrow> jget (f # fs) ''expires_at'' | _ \<Rightarrow> JNull);
                  payment1 = payment @ [(''mobile_money_network'', JStr network),
                    (''expires_at'', expires_at)]
              in bindR (update_debt_status (pd_id debt) DS_MOBILE_MONEY_PENDING None None now db1)
                 (\<lambda>(_, db2).
                 bindR (passenger_debt_payload (find_debt_by_id (pd_id debt) db2)) (\<lambda>d.
                 Inr ([(''debt'', JObj d), (''payment'', JObj payment1)], db2)))), st1)))"

definition request_passenger_debt_cash_settlement ::
  "uuid \<Rightarrow> uuid \<Rightarrow> datetime \<Rightarrow> pay_db \<Rightarrow> exn + (string \<times> json) list \<times> pay_db" where
  "request_passenger_debt_cash_settlement debt_id uid now db =
     bindR (owned_open_debt debt_id uid db) (\<lambda>debt.
     bindR (update_debt_status (pd_id debt) DS_CASH_PENDING_CONFIRMATION None None now db)
       (\<lambda>(d, db1). bindR (passenger_debt_payload (Some d)) (\<lambda>p. Inr (p, db1))))"

definition confirm_passenger_debt_cash_settlement ::
  "pay_env \<Rightarrow> uuid \<Rightarrow> uuid \<Rightarrow> datetime \<Rightarrow> pay_db \<Rightarrow> exn + (string \<times> json) list \<times> pay_db" where
  "confirm_passenger_debt_cash_settlement env debt_id driver_id now db =
     (case find_debt_by_id debt_id db of
        None \<Rightarrow> Inl (ApiError 404 ''PASSENGER_DEBT_NOT_FOUND'')
      | Some debt \<Rightarrow>
        if pd_status debt \<noteq> DS_CASH_PENDING_CONFIRMATION
        then Inl (ApiError 409 ''PASSENGER_DEBT_SETTLEMENT_INVALID'')
        else if (case pe_find_ride env (pd_ride_id debt) of
              None \<Rightarrow> True | Some ride \<Rightarrow> rd_driver_id ride \<noteq> Some driver_id)
        then Inl (ApiError 403 ''RIDE_NOT_OWNED_BY_USER'')
        else bindR (update_debt_status (pd_id debt) DS_SETTLED (Some now) (Some driver_id) now db)
          (\<lambda>(d, db1). bindR (passenger_debt_payload (Some d)) (\<lambda>p. Inr (p, db1))))"

section \<open>The DiddiPay callback\<close>

definition withdrawal_target :: "string \<Rightarrow> withdrawal_status option" where
  "withdrawal_target provider_status =
     (if provider_status = ''succeeded'' then Some WS_SUCCEEDED
      else if provider_status \<in> {''failed'', ''disputed''} then Some WS_FAILED
      else if provider_status \<in> {''pending'', ''processing''} then Some WS_PROCESSING
      else None)"

text \<open>\<open>data.get(k) or default\<close>, then \<open>str\<close>; the amount check that callbacks and payouts share.\<close>

definition text_or :: "(string \<times> json) list \<Rightarrow> string \<Rightarrow> string \<Rightarrow> string" where
  "text_or fs k d = py_str (jor (jget fs k) (JStr d))"

definition same_money :: "(string \<times> json) list \<Rightarrow> rat \<Rightarrow> string \<Rightarrow> exn + bool" where
  "same_money fs amount currency =
     bindR (py_int (jor (jget fs ''amount'') (JInt (-1)))) (\<lambda>a.
     Inr (a = py_trunc amount \<and> jget fs ''currency'' = JStr currency))"

definition optional_uuid :: "(string \<times> json) list \<Rightarrow> string \<Rightarrow> exn + uuid option" where
  "optional_uuid fs k =
     (if truthy (jget fs k) then bindR (as_uuid (jget fs k)) (\<lambda>u. Inr (Some u)) else Inr None)"

definition callback_withdrawal ::
  "(string \<times> json) list \<Rightarrow> uuid \<Rightarrow> datetime \<Rightarrow> pay_db \<Rightarrow> exn + (string \<times> json) list \<times> pay_db" where
  "callback_withdrawal data payout_id now db =
     bindR (case find_withdrawal_by_payout_id payout_id db of
         Some w \<Rightarrow> Inr (Some w)
       | None \<Rightarrow> if truthy (jget data ''business_reference'')
           then find_withdrawal_by_business_reference (py_str (jget data ''business_reference'')) db
           else Inr None) (\<lambda>found.
     case found of
       None \<Rightarrow> Inl (ApiError 404 ''WITHDRAWAL_NOT_FOUND'')
     | Some w \<Rightarrow>
       if jget data ''business_reference'' \<noteq> jstr_opt (wd_business_reference w)
       then Inl (ApiError 409 ''WITHDRAWAL_REFERENCE_MISMATCH'')
       else case withdrawal_target (text_or data ''status'' []) of
           None \<Rightarrow> Inl (ApiError 422 ''WITHDRAWAL_STATUS_INVALID'')
         | Some target \<Rightarrow>
           bindR (as_text (jget data ''failure_code'')) (\<lambda>failure_code.
           bindR (as_text (jget data ''failure_message'')) (\<lambda>failure_message.
           bindR (mark_withdrawal_provider_state (wd_id w) target (Some payout_id)
               (Some (text_or data ''status'' [])) failure_code failure_message now db)
             (\<lambda>(_, db1). Inr ([(''status'', JStr ''processed''), (''payout_id'', juuid payout_id),
               (''reference_type'', JStr ''driver_withdrawal'')], db1)))))"

definition processed :: "uuid \<Rightarrow> string \<Rightarrow> (string \<times> json) list" where
  "processed intent_id reference_type = [(''status'', JStr ''processed''),
     (''payment_intent_id'', juuid intent_id), (''reference_type'', JStr reference_type)]"

definition callback_intent ::
  "pay_env \<Rightarrow> (string \<times> json) list \<Rightarrow> uuid \<Rightarrow> datetime \<Rightarrow> pay_db \<Rightarrow> exn + (string \<times> json) list \<times> pay_db" where
  "callback_intent env data intent_id now db =
     (let text = text_or data ''status'' [] in
      bindR (payment_status_from_diddipay text) (\<lambda>status.
      let paid_at = (if status = PS_SUCCEEDED then Some now else None) in
      bindR (find_by_payment_intent_id intent_id db) (\<lambda>found.
      case found of
        Some payment \<Rightarrow>
          bindR (same_money data (tx_amount payment) (tx_currency payment)) (\<lambda>same.
          if \<not> same then Inl (ApiError 409 ''PAYMENT_OPERATION_CONFLICT'')
          else if jget data ''business_reference'' \<noteq> jstr_opt (tx_business_reference payment)
          then Inl (ApiError 409 ''PAYMENT_OPERATION_CONFLICT'')
          else bindR (apply_transaction_status env payment status text paid_at KEEP now db)
            (\<lambda>(_, db1). Inr (processed intent_id ''ride'', db1)))
      | None \<Rightarrow>
          bindR (find_topup_by_payment_intent_id intent_id db) (\<lambda>topup.
          case topup of
            None \<Rightarrow> Inl (ApiError 404 ''PAYMENT_INTENT_NOT_FOUND'')
          | Some t \<Rightarrow>
            bindR (same_money data (tu_amount t) (tu_currency t)) (\<lambda>same.
            if \<not> same then Inl (ApiError 409 ''PAYMENT_OPERATION_CONFLICT'')
            else if jget data ''business_reference'' \<noteq> jstr_opt (tu_business_reference t)
            then Inl (ApiError 409 ''PAYMENT_OPERATION_CONFLICT'')
            else bindR (apply_topup_status t (topup_status_from_payment_status status) text paid_at
                KEEP now db)
              (\<lambda>(_, db1). Inr (processed intent_id ''driver_topup'', db1)))))))"

text \<open>Signature, JSON and envelope: the event id and the data of a callback that is accepted.\<close>

definition authenticate_callback ::
  "pay_env \<Rightarrow> string \<Rightarrow> string option \<Rightarrow> string option
    \<Rightarrow> exn + string \<times> (string \<times> json) list \<times> (string \<times> json) list" where
  "authenticate_callback env raw_body event_id_header signature =
     (let secret = str_or (pe_callback_secret env) [] in
      if secret = [] then Inl (ApiError 503 ''PAYMENT_CONFIGURATION_MISSING'')
      else if str_or signature [] = [] \<or> str_or signature [] \<noteq> pe_hmac_sha256 env secret raw_body
      then Inl (ApiError 401 ''PAYMENT_CALLBACK_INVALID'')
      else case pe_json_loads env raw_body of
          None \<Rightarrow> Inl (ApiError 422 ''PAYMENT_CALLBACK_INVALID'')
        | Some (JObj payload) \<Rightarrow>
          let event_id = text_or payload ''id'' []
          in if event_id = [] \<or> event_id_header \<noteq> Some event_id
             then Inl (ApiError 422 ''PAYMENT_CALLBACK_INVALID'')
             else (case jget payload ''data'' of
                 JObj data \<Rightarrow> Inr (event_id, payload, data)
               | _ \<Rightarrow> Inl (ApiError 422 ''PAYMENT_CALLBACK_INVALID''))
        | Some _ \<Rightarrow> Inl PyAttributeError)"

definition apply_diddipay_webhook ::
  "pay_env \<Rightarrow> string \<Rightarrow> string option \<Rightarrow> string option \<Rightarrow> datetime \<Rightarrow> pay_db
    \<Rightarrow> exn + (string \<times> json) list \<times> pay_db" where
  "apply_diddipay_webhook env raw_body event_id_header signature now db =
     bindR (authenticate_callback env raw_body event_id_header signature)
       (\<lambda>(event_id, payload, data).
     bindR (optional_uuid data ''payment_intent_id'') (\<lambda>intent_id.
     bindR (as_text (jget data ''business_reference'')) (\<lambda>business_reference.
     let (stored, db1) = record_webhook_event
           \<lparr>we_id = event_id, we_payment_intent_id = intent_id,
            we_event_type = text_or payload ''type'' [],
            we_business_reference = business_reference, we_payload = raw_body\<rparr> db
     in if \<not> stored then Inr ([(''status'', JStr ''duplicate'')], db1)
        else bindR (optional_uuid data ''payout_id'') (\<lambda>payout_id.
          case payout_id of
            Some pid \<Rightarrow> callback_withdrawal data pid now db1
          | None \<Rightarrow>
           (case intent_id of
              None \<Rightarrow> Inl (ApiError 422 ''PAYMENT_CALLBACK_INVALID'')
            | Some iid \<Rightarrow> callback_intent env data iid now db1)))))"

section \<open>Reconciliation\<close>

record reconciliation_report =
  rr_checked :: nat
  rr_updated :: nat
  rr_unchanged :: nat
  rr_missing :: nat
  rr_mismatched :: nat
  rr_errors :: nat
  rr_updated_references :: "string list"

definition empty_report :: reconciliation_report where
  "empty_report = \<lparr>rr_checked = 0, rr_updated = 0, rr_unchanged = 0, rr_missing = 0,
     rr_mismatched = 0, rr_errors = 0, rr_updated_references = []\<rparr>"

text \<open>The counter that one row adds to.\<close>

datatype outcome = MISSING | ERROR_SEEN | MISMATCHED | UNCHANGED | UPDATED string

fun count :: "outcome \<Rightarrow> reconciliation_report \<Rightarrow> reconciliation_report" where
  "count MISSING r = r\<lparr>rr_missing := rr_missing r + 1\<rparr>"
| "count ERROR_SEEN r = r\<lparr>rr_errors := rr_errors r + 1\<rparr>"
| "count MISMATCHED r = r\<lparr>rr_mismatched := rr_mismatched r + 1\<rparr>"
| "count UNCHANGED r = r\<lparr>rr_unchanged := rr_unchanged r + 1\<rparr>"
| "count (UPDATED ref) r = r\<lparr>rr_updated := rr_updated r + 1,
     rr_updated_references := rr_updated_references r @ [ref]\<rparr>"

definition check_one :: "reconciliation_report \<Rightarrow> reconciliation_report" where
  "check_one r = r\<lparr>rr_checked := rr_checked r + 1\<rparr>"

text \<open>\<open>_read_intent\<close>: any exception of the client is an error outcome.\<close>

definition read_intent :: "diddipay \<Rightarrow> uuid option \<Rightarrow> outcome + (string \<times> json) list" where
  "read_intent dp payment_intent_id = (case payment_intent_id of
       None \<Rightarrow> Inl MISSING
     | Some pid \<Rightarrow>
       (case dp_get_payment_intent dp pid of
          Inl _ \<Rightarrow> Inl ERROR_SEEN
        | Inr None \<Rightarrow> Inl MISSING
        | Inr (Some intent) \<Rightarrow> Inr intent))"

definition reconcile_transaction_row ::
  "pay_env \<Rightarrow> datetime \<Rightarrow> transaction \<Rightarrow> pay_db \<Rightarrow> exn + outcome \<times> pay_db" where
  "reconcile_transaction_row env now payment db =
     (let reference = str_or (tx_business_reference payment) (ride_reference (tx_ride_id payment)) in
      case read_intent (pe_diddipay env) (tx_payment_intent_id payment) of
        Inl oc \<Rightarrow> Inr (oc, db)
      | Inr intent \<Rightarrow>
        bindR (intent_mismatch_reason intent (tx_amount payment) (tx_currency payment)
            (tx_business_reference payment)) (\<lambda>reason.
        if reason \<noteq> None then Inr (MISMATCHED, db)
        else
          let provider_status = text_or intent ''status'' []
          in case payment_status_from_diddipay provider_status of
               Inl _ \<Rightarrow> Inr (ERROR_SEEN, db)
             | Inr status \<Rightarrow>
               let next_action = next_action_from_intent intent
               in if status = tx_status payment \<and> next_action = tx_provider_next_action payment
                  then Inr (UNCHANGED, db)
                  else bindR (apply_transaction_status env payment status provider_status
                      (if status = PS_SUCCEEDED then Some now else None) (Write next_action) now db)
                    (\<lambda>(_, db1). Inr (UPDATED reference, db1))))"

definition reconcile_topup_row ::
  "pay_env \<Rightarrow> datetime \<Rightarrow> driver_topup \<Rightarrow> pay_db \<Rightarrow> exn + outcome \<times> pay_db" where
  "reconcile_topup_row env now topup db =
     (let reference = str_or (tu_business_reference topup)
            (''diddigo:driver_topup:'' @ uuid_str (tu_id topup)) in
      case read_intent (pe_diddipay env) (tu_payment_intent_id topup) of
        Inl oc \<Rightarrow> Inr (oc, db)
      | Inr intent \<Rightarrow>
        bindR (intent_mismatch_reason intent (tu_amount topup) (tu_currency topup)
            (tu_business_reference topup)) (\<lambda>reason.
        if reason \<noteq> None then Inr (MISMATCHED, db)
        else
          let provider_status = text_or intent ''status'' []
          in case payment_status_from_diddipay provider_status of
               Inl _ \<Rightarrow> Inr (ERROR_SEEN, db)
             | Inr payment_status \<Rightarrow>
               let status = topup_status_from_payment_status payment_status;
                   next_action = next_action_from_intent intent
               in if status = tu_status topup \<and> next_action = tu_provider_next_action topup
                  then Inr (UNCHANGED, db)
                  else bindR (apply_topup_status topup status provider_status
                      (if status = TS_SUCCEEDED then Some now else None) (Write next_action) now db)
                    (\<lambda>(_, db1). Inr (UPDATED reference, db1))))"

text \<open>
  \<open>_reconcile_withdrawal\<close> only catches \<open>ApiError\<close>, and only around the client: any other
  exception leaves the sweep.
\<close>

definition fetch_payout :: "diddipay \<Rightarrow> driver_withdrawal \<Rightarrow> exn + (string \<times> json) list option" where
  "fetch_payout dp w = (case wd_payout_id w of
       Some pid \<Rightarrow> dp_get_payout dp pid
     | None \<Rightarrow> dp_get_payout_by_business_reference dp (str_or (wd_business_reference w) []))"

definition reconcile_withdrawal_row ::
  "pay_env \<Rightarrow> datetime \<Rightarrow> driver_withdrawal \<Rightarrow> pay_db \<Rightarrow> exn + outcome \<times> pay_db" where
  "reconcile_withdrawal_row env now w db =
     (case fetch_payout (pe_diddipay env) w of
        Inl (ApiError status code) \<Rightarrow> Inr (ERROR_SEEN, db)
      | Inl e \<Rightarrow> Inl e
      | Inr None \<Rightarrow> Inr (MISSING, db)
      | Inr (Some payout) \<Rightarrow>
        bindR (same_money payout (wd_net_amount w) (wd_currency w)) (\<lambda>same.
        if \<not> same \<or> jget payout ''business_reference'' \<noteq> jstr_opt (wd_business_reference w)
        then Inr (MISMATCHED, db)
        else case withdrawal_target (text_or payout ''status'' []) of
            None \<Rightarrow> Inr (ERROR_SEEN, db)
          | Some target \<Rightarrow>
            bindR (jkey payout ''id'') (\<lambda>j. bindR (as_uuid j) (\<lambda>pid.
            bindR (as_text (jget payout ''failure_code'')) (\<lambda>failure_code.
            bindR (as_text (jget payout ''failure_message'')) (\<lambda>failure_message.
            bindR (mark_withdrawal_provider_state (wd_id w) target (Some pid)
                (Some (text_or payout ''status'' [])) failure_code failure_message now db)
              (\<lambda>(updated, db1).
                Inr (if wd_status updated = wd_status w then UNCHANGED
                     else UPDATED (str_or (wd_business_reference w) (uuid_str (wd_id w))),
                   db1))))))))"

text \<open>One row of a sweep: the check is counted, then its outcome.\<close>

definition reconciled ::
  "('r \<Rightarrow> pay_db \<Rightarrow> exn + outcome \<times> pay_db) \<Rightarrow> 'r \<Rightarrow> reconciliation_report \<times> pay_db
    \<Rightarrow> exn + reconciliation_report \<times> pay_db" where
  "reconciled f row = (\<lambda>(report, db).
     bindR (f row db) (\<lambda>(oc, db1). Inr (count oc (check_one report), db1)))"

definition reconcile_pending ::
  "pay_env \<Rightarrow> nat \<Rightarrow> int \<Rightarrow> int \<Rightarrow> datetime \<Rightarrow> pay_db \<Rightarrow> exn + reconciliation_report \<times> pay_db" where
  "reconcile_pending env limit min_age max_age now db =
     (let created_before = now - seconds min_age;
          created_after = now - seconds max_age
      in bindR (foldR (reconciled (reconcile_transaction_row env now))
            (list_stale_transactions created_before created_after limit db) (empty_report, db))
         (\<lambda>(report1, db1).
         bindR (foldR (reconciled (reconcile_topup_row env now))
            (list_stale_topups created_before created_after limit db1) (report1, db1))
         (\<lambda>(report2, db2).
         foldR (reconciled (reconcile_withdrawal_row env now))
            (list_stale_withdrawals created_before limit db2) (report2, db2))))"

definition reconcile_transaction ::
  "pay_env \<Rightarrow> uuid \<Rightarrow> datetime \<Rightarrow> pay_db \<Rightarrow> exn + reconciliation_report \<times> pay_db" where
  "reconcile_transaction env ride_id now db =
     bindR (find_by_ride_id ride_id db) (\<lambda>found.
     case found of
       None \<Rightarrow> Inl (ApiError 404 ''PAYMENT_INTENT_NOT_FOUND'')
     | Some payment \<Rightarrow>
       if tx_payment_intent_id payment = None then Inl (ApiError 404 ''PAYMENT_INTENT_NOT_FOUND'')
       else reconciled (reconcile_transaction_row env now) payment (empty_report, db))"

definition reconcile_topup ::
  "pay_env \<Rightarrow> uuid \<Rightarrow> datetime \<Rightarrow> pay_db \<Rightarrow> exn + reconciliation_report \<times> pay_db" where
  "reconcile_topup env topup_id now db =
     (case find_topup_by_id topup_id db of
        None \<Rightarrow> Inl (ApiError 404 ''PAYMENT_INTENT_NOT_FOUND'')
      | Some topup \<Rightarrow>
        if tu_payment_intent_id topup = None then Inl (ApiError 404 ''PAYMENT_INTENT_NOT_FOUND'')
        else reconciled (reconcile_topup_row env now) topup (empty_report, db))"

end
