(* ===== verification/Wallet_Service.thy ===== *)
theory Wallet_Service
  imports Payment_Service
begin

text \<open>
  app\_base/modules/payment/application/wallet\_service.py: the driver's wallet, top-ups and
  withdrawals. \<open>request_withdrawal\<close> commits between its steps, so it returns the durable
  database beside its result: a step that raises loses what was written since the last commit
  and nothing else. The driver repository, the SMS provider, the random code and SHA-256 are
  parameters.
\<close>

section \<open>Surroundings\<close>

record wallet_env =
  we_pay :: pay_env
  we_driver_of_user :: "uuid \<Rightarrow> uuid option"
  we_driver_exists :: "uuid \<Rightarrow> bool"
  we_otp_hash :: "string \<Rightarrow> string"
  we_sms :: "(string \<Rightarrow> string \<Rightarrow> string \<Rightarrow> exn + unit) option"
  we_min_balance :: rat
  we_withdrawal_min_amount :: rat
  we_withdrawal_fee :: rat
  we_quote_ttl :: int
  we_otp_max_attempts :: int
  we_otp_ttl :: int
  we_otp_retry_seconds :: int

definition driver_id_for_user :: "wallet_env \<Rightarrow> uuid \<Rightarrow> exn + uuid" where
  "driver_id_for_user env user_id = (case we_driver_of_user env user_id of
       None \<Rightarrow> Inl (ApiError 404 ''DRIVER_PROFILE_NOT_FOUND'')
     | Some d \<Rightarrow> Inr d)"

definition require_driver :: "wallet_env \<Rightarrow> uuid \<Rightarrow> exn + unit" where
  "require_driver env driver_id =
     (if we_driver_exists env driver_id then Inr ()
      else Inl (ApiError 404 ''DRIVER_PROFILE_NOT_FOUND''))"

section \<open>Payloads\<close>

definition wallet_payload :: "driver_wallet \<Rightarrow> rat \<Rightarrow> rat \<Rightarrow> (string \<times> json) list" where
  "wallet_payload wallet min_balance reserved =
     [(''driver_id'', juuid (wa_driver_id wallet)),
      (''balance'', JInt (py_trunc (wa_balance wallet))),
      (''available_balance'', JInt (py_trunc (wa_balance wallet))),
      (''reserved_balance'', JInt (py_trunc reserved)),
      (''total_balance'', JInt (py_trunc (wa_balance wallet + reserved))),
      (''currency'', JStr (wa_currency wallet)),
      (''min_balance'', JInt (py_trunc min_balance)),
      (''can_go_online'', JBool (min_balance \<le> wa_balance wallet))]"

fun direction_value :: "entry_direction \<Rightarrow> string" where
  "direction_value CREDIT = ''credit''"
| "direction_value DEBIT = ''debit''"

fun entry_type_value :: "entry_type \<Rightarrow> string" where
  "entry_type_value RIDE_PAYOUT = ''ride_payout''"
| "entry_type_value PLATFORM_COMMISSION = ''platform_commission''"
| "entry_type_value TOPUP = ''topup''"
| "entry_type_value ADJUSTMENT = ''adjustment''"
| "entry_type_value WITHDRAWAL_RESERVED = ''withdrawal_reserved''"
| "entry_type_value WITHDRAWAL_SUCCEEDED = ''withdrawal_succeeded''"
| "entry_type_value WITHDRAWAL_RELEASED = ''withdrawal_released''"
| "entry_type_value REFUND = ''refund''"

fun entry_status_value :: "entry_status \<Rightarrow> string" where
  "entry_status_value ES_PENDING = ''pending''"
| "entry_status_value ES_CONFIRMED = ''confirmed''"
| "entry_status_value ES_FAILED = ''failed''"

definition ledger_payload :: "ledger_entry \<Rightarrow> (string \<times> json) list" where
  "ledger_payload e =
     [(''id'', juuid (le_id e)),
      (''driver_id'', juuid (le_driver_id e)),
      (''amount'', JInt (py_trunc (le_amount e))),
      (''currency'', JStr (le_currency e)),
      (''direction'', JStr (direction_value (le_direction e))),
      (''type'', JStr (entry_type_value (le_entry_type e))),
      (''status'', JStr (entry_status_value (le_status e))),
      (''reference_type'', JStr (le_reference_type e)),
      (''reference_id'', juuid (le_reference_id e)),
      (''description'', jstr_opt (le_description e)),
      (''created_at'', iso (Some (le_created_at e)))]"

definition topup_payload :: "driver_topup \<Rightarrow> json option \<Rightarrow> (string \<times> json) list" where
  "topup_payload t next_action =
     [(''id'', juuid (tu_id t)),
      (''driver_id'', juuid (tu_driver_id t)),
      (''amount'', JInt (py_trunc (tu_amount t))),
      (''currency'', JStr (tu_currency t)),
      (''method'', JStr (payment_method_value (tu_method t))),
      (''status'', JStr (topup_status_value (tu_status t))),
      (''provider'', JStr ''diddipay''),
      (''provider_status'', jstr_opt (tu_provider_status t)),
      (''payment_intent_id'', juuid_opt (tu_payment_intent_id t)),
      (''business_reference'', jstr_opt (tu_business_reference t)),
      (''paid_at'', iso (tu_paid_at t)),
      (''next_action'', case next_action of None \<Rightarrow> JNull | Some j \<Rightarrow> j)]"

definition withdrawal_payload :: "driver_withdrawal \<Rightarrow> (string \<times> json) list" where
  "withdrawal_payload w =
     [(''id'', juuid (wd_id w)),
      (''driver_id'', juuid (wd_driver_id w)),
      (''quote_id'', juuid (wd_quote_id w)),
      (''amount'', JInt (py_trunc (wd_amount w))),
      (''fees'', JInt (py_trunc (wd_fees w))),
      (''net_amount'', JInt (py_trunc (wd_net_amount w))),
      (''currency'', JStr (wd_currency w)),
      (''beneficiary_reference'', JStr (wd_beneficiary_reference w)),
      (''beneficiary_destination'', case wd_beneficiary_destination w of None \<Rightarrow> JNull | Some j \<Rightarrow> j),
      (''status'', JStr (withdrawal_status_value (wd_status w))),
      (''payout_id'', juuid_opt (wd_payout_id w)),
      (''business_reference'', jstr_opt (wd_business_reference w)),
      (''provider_status'', jstr_opt (wd_provider_status w)),
      (''failure_code'', jstr_opt (wd_failure_code w)),
      (''failure_message'', jstr_opt (wd_failure_message w)),
      (''created_at'', iso (Some (wd_created_at w))),
      (''reserved_at'', iso (wd_reserved_at w)),
      (''succeeded_at'', iso (wd_succeeded_at w)),
      (''released_at'', iso (wd_released_at w))]"

definition page_payload :: "json list \<Rightarrow> nat \<Rightarrow> nat \<Rightarrow> nat \<Rightarrow> (string \<times> json) list" where
  "page_payload data page page_size items =
     [(''data'', JList data),
      (''pagination'', JObj [(''page'', JInt (int page)), (''page_size'', JInt (int page_size)),
         (''total'', JInt (int items))])]"

definition mask_phone :: "string \<Rightarrow> string" where
  "mask_phone phone = (if length phone \<le> 4 then ''****''
     else replicate (length phone - 4) (CHR ''*'') @ drop (length phone - 4) phone)"

section \<open>Reading the wallet\<close>

definition admin_get_wallet :: "wallet_env \<Rightarrow> uuid \<Rightarrow> pay_db \<Rightarrow> exn + (string \<times> json) list \<times> pay_db" where
  "admin_get_wallet env driver_id db =
     bindR (require_driver env driver_id) (\<lambda>_.
     let (w, db1) = get_or_create_wallet driver_id ''XOF'' db
     in Inr (wallet_payload w (we_min_balance env) (withdrawal_reserved_total driver_id db1), db1))"

definition get_wallet :: "wallet_env \<Rightarrow> uuid \<Rightarrow> pay_db \<Rightarrow> exn + (string \<times> json) list \<times> pay_db" where
  "get_wallet env user_id db =
     bindR (driver_id_for_user env user_id) (\<lambda>driver_id.
     let (w, db1) = get_or_create_wallet driver_id ''XOF'' db
     in Inr (wallet_payload w (we_min_balance env) (withdrawal_reserved_total driver_id db1), db1))"

definition get_ledger ::
  "wallet_env \<Rightarrow> uuid \<Rightarrow> nat \<Rightarrow> nat \<Rightarrow> pay_db \<Rightarrow> exn + (string \<times> json) list \<times> pay_db" where
  "get_ledger env user_id page page_size db =
     bindR (driver_id_for_user env user_id) (\<lambda>driver_id.
     let (_, db1) = get_or_create_wallet driver_id ''XOF'' db;
         (entries, items) = list_ledger_entries driver_id page page_size db1
     in Inr (page_payload (map (JObj \<circ> ledger_payload) entries) page page_size items, db1))"

definition admin_get_ledger ::
  "wallet_env \<Rightarrow> uuid \<Rightarrow> nat \<Rightarrow> nat \<Rightarrow> pay_db \<Rightarrow> exn + (string \<times> json) list \<times> pay_db" where
  "admin_get_ledger env driver_id page page_size db =
     bindR (require_driver env driver_id) (\<lambda>_.
     let (_, db1) = get_or_create_wallet driver_id ''XOF'' db;
         (entries, items) = list_ledger_entries driver_id page page_size db1
     in Inr ((''driver_id'', juuid driver_id) #
          page_payload (map (JObj \<circ> ledger_payload) entries) page page_size items, db1))"

record online_eligibility =
  oe_eligible :: bool
  oe_balance :: int
  oe_min_balance :: int
  oe_currency :: string

definition get_online_eligibility ::
  "wallet_env \<Rightarrow> uuid \<Rightarrow> pay_db \<Rightarrow> online_eligibility \<times> pay_db" where
  "get_online_eligibility env driver_id db =
     (let (w, db1) = get_or_create_wallet driver_id ''XOF'' db
      in (\<lparr>oe_eligible = (we_min_balance env \<le> wa_balance w), oe_balance = py_trunc (wa_balance w),
           oe_min_balance = py_trunc (we_min_balance env), oe_currency = wa_currency w\<rparr>, db1))"

definition ensure_driver_can_go_online :: "wallet_env \<Rightarrow> uuid \<Rightarrow> pay_db \<Rightarrow> exn + unit \<times> pay_db" where
  "ensure_driver_can_go_online env driver_id db =
     (let (e, db1) = get_online_eligibility env driver_id db
      in if \<not> oe_eligible e then Inl (ApiError 403 ''DRIVER_BALANCE_TOO_LOW'') else Inr ((), db1))"

section \<open>Top-ups\<close>

definition wallet_payment_status :: "string \<Rightarrow> exn + payment_status" where
  "wallet_payment_status status =
     (case payment_status_of (if status = [] then ''requires_action'' else status) of
        None \<Rightarrow> Inl (ApiError 422 ''PAYMENT_STATUS_INVALID'')
      | Some s \<Rightarrow> Inr s)"

definition ends_with :: "string \<Rightarrow> string \<Rightarrow> bool" where
  "ends_with suffix s = (length suffix \<le> length s \<and> drop (length s - length suffix) s = suffix)"

definition pro_return_url :: "pay_env \<Rightarrow> string option" where
  "pro_return_url env =
     (if str_or (pe_pro_return_url env) [] \<noteq> [] then pe_pro_return_url env
      else case pe_payment_callback_url env of
          None \<Rightarrow> None
        | Some fallback \<Rightarrow>
          if fallback \<noteq> [] \<and> ends_with ''/payments/return'' fallback
          then Some (take (length fallback - length ''/payments/return'') fallback @ ''/wallet/return'')
          else Some fallback)"

definition credit_topup :: "driver_topup \<Rightarrow> datetime \<Rightarrow> pay_db \<Rightarrow> exn + pay_db" where
  "credit_topup t now db =
     (if tu_status t \<noteq> TS_SUCCEEDED then Inr db else credit_driver_topup t now db)"

definition topup_request ::
  "uuid \<Rightarrow> uuid \<Rightarrow> uuid \<Rightarrow> rat \<Rightarrow> payment_method \<Rightarrow> string \<Rightarrow> string option \<Rightarrow> string option
    \<Rightarrow> (string \<times> json) list" where
  "topup_request topup_id driver_id user_id amount method email phone callback =
     [(''business_reference'', JStr (''diddigo:driver_topup:'' @ uuid_str topup_id)),
      (''amount'', JInt (py_trunc amount)),
      (''currency'', JStr ''XOF''),
      (''payer_user_id'', juuid user_id),
      (''payee_user_id'', JNull),
      (''channel'', JStr ''mobile_money''),
      (''network'', if method = PM_WAVE then JStr ''wave'' else JNull),
      (''customer_email'', JStr email),
      (''customer_phone'', jstr_opt phone),
      (''callback_url'', jstr_opt callback),
      (''description'', JStr (''Recharge compte chauffeur DiddiGo '' @ uuid_str driver_id)),
      (''metadata'', JObj [(''driver_id'', juuid driver_id), (''topup_id'', juuid topup_id)])]"

definition store_topup ::
  "uuid \<Rightarrow> uuid \<Rightarrow> rat \<Rightarrow> payment_method \<Rightarrow> (string \<times> json) list \<Rightarrow> uuid \<Rightarrow> topup_status
    \<Rightarrow> datetime \<Rightarrow> pay_db \<Rightarrow> exn + (string \<times> json) list \<times> pay_db" where
  "store_topup topup_id driver_id amount method intent pid status now db =
     bindR (if truthy (jget intent ''amount'') then json_decimal (jget intent ''amount'')
            else Inr amount) (\<lambda>local_amount.
     let reference = ''diddigo:driver_topup:'' @ uuid_str topup_id;
         next_action = next_action_from_intent intent;
         topup = \<lparr>tu_id = topup_id, tu_driver_id = driver_id, tu_amount = local_amount,
           tu_currency = text_or intent ''currency'' ''XOF'', tu_method = method,
           tu_status = status, tu_payment_intent_id = Some pid,
           tu_business_reference = Some reference,
           tu_idempotency_key = Some (reference @ '':v1''),
           tu_provider_status = Some (text_or intent ''status'' (topup_status_value status)),
           tu_provider_next_action = next_action, tu_created_at = now,
           tu_paid_at = (if status = TS_SUCCEEDED then Some now else None)\<rparr>
     in bindR (save_topup topup db) (\<lambda>(_, db1).
        bindR (if status = TS_SUCCEEDED then credit_topup topup now db1 else Inr db1) (\<lambda>db2.
        Inr (topup_payload topup next_action, db2))))"

definition create_topup ::
  "wallet_env \<Rightarrow> uuid \<Rightarrow> rat \<Rightarrow> string \<Rightarrow> string \<Rightarrow> string option \<Rightarrow> datetime \<Rightarrow> context_store \<Rightarrow> pay_db
    \<Rightarrow> (exn + (string \<times> json) list \<times> pay_db) \<times> context_store" where
  "create_topup env user_id amount method email phone now st db =
     (case driver_id_for_user env user_id of
        Inl e \<Rightarrow> (Inl e, st)
      | Inr driver_id \<Rightarrow>
        if amount \<le> 0 then (Inl (ApiError 422 ''INVALID_TOPUP_AMOUNT''), st)
        else case payment_method_of method of
            None \<Rightarrow> (Inl (ApiError 422 ''INVALID_PAYMENT_METHOD''), st)
          | Some payment_method \<Rightarrow>
            if payment_method = PM_CASH then (Inl (ApiError 422 ''INVALID_PAYMENT_METHOD''), st)
            else if email = [] then (Inl (ApiError 422 ''PAYMENT_EMAIL_REQUIRED''), st)
            else
              let (topup_id, db1) = new_id db;
                  (callback, st1) = open_return_context (we_pay env) ''driver_topup'' ''pro'' user_id
                    topup_id (pro_return_url (we_pay env)) now st
              in case dp_create_payment_intent (pe_diddipay (we_pay env))
                     (topup_request topup_id driver_id user_id amount payment_method email phone callback)
                     (''diddigo:driver_topup:'' @ uuid_str topup_id @ '':v1'') of
                   Inl e \<Rightarrow> (Inl e, st1)
                 | Inr intent \<Rightarrow>
                  (case bindR (wallet_payment_status (text_or intent ''status'' []))
                       (\<lambda>s. bindR (jkey intent ''id'') (\<lambda>j. bindR (as_uuid j) (\<lambda>pid.
                         Inr (topup_status_from_payment_status s, pid)))) of
                     Inl e \<Rightarrow> (Inl e, st1)
                   | Inr (status, pid) \<Rightarrow>
                     (store_topup topup_id driver_id amount payment_method intent pid status now db1,
                      bind_return_context (we_pay env) pid now st1)))"

definition get_topup :: "wallet_env \<Rightarrow> uuid \<Rightarrow> uuid \<Rightarrow> pay_db \<Rightarrow> exn + (string \<times> json) list" where
  "get_topup env user_id topup_id db =
     bindR (driver_id_for_user env user_id) (\<lambda>driver_id.
     case find_topup_by_id topup_id db of
       None \<Rightarrow> Inl (ApiError 404 ''TOPUP_NOT_FOUND'')
     | Some t \<Rightarrow>
       if tu_driver_id t \<noteq> driver_id then Inl (ApiError 404 ''TOPUP_NOT_FOUND'')
       else Inr (topup_payload t (tu_provider_next_action t)))"

text \<open>
  \<open>record_ride_settlement\<close> of the wallet service. Its digital branch asks for \<open>diddipay\<close> or
  \<open>wave\<close>, which no ride's own payment method can be.
\<close>

definition wallet_record_ride_settlement ::
  "ride \<Rightarrow> payment_status \<Rightarrow> datetime \<Rightarrow> pay_db \<Rightarrow> exn + pay_db" where
  "wallet_record_ride_settlement ride payment_status now db =
     (case rd_driver_id ride of
        None \<Rightarrow> Inr db
      | Some driver_id \<Rightarrow>
       (case dec_or (rd_final_fare ride) (rd_estimated_fare ride) of
          None \<Rightarrow> Inr db
        | Some fare \<Rightarrow>
         (case (rd_platform_commission ride, rd_driver_payout_estimate ride) of
            (Some commission, Some payout) \<Rightarrow>
              if rd_payment_method ride = CASH \<and> payment_status = PS_COLLECTED then
                let (eid, db1) = new_id db
                in bindR (record_ledger_entry_once (ride_entry eid driver_id commission ride DEBIT
                     PLATFORM_COMMISSION ''Commission DiddiGo sur course cash'' now) now db1)
                   (\<lambda>(_, db2). Inr db2)
              else if ride_payment_method_value (rd_payment_method ride)
                  \<in> {payment_method_value PM_DIDDIPAY, payment_method_value PM_WAVE} then
                if payment_status \<noteq> PS_SUCCEEDED then Inr db
                else
                  let (eid, db1) = new_id db
                  in bindR (record_ledger_entry_once (ride_entry eid driver_id payout ride CREDIT
                       RIDE_PAYOUT ''Montant net chauffeur sur course digitale'' now) now db1)
                     (\<lambda>(_, db2). Inr db2)
              else Inr db
          | _ \<Rightarrow> Inr db)))"

section \<open>Withdrawals\<close>

definition quote_withdrawal ::
  "wallet_env \<Rightarrow> uuid \<Rightarrow> rat \<Rightarrow> datetime \<Rightarrow> pay_db \<Rightarrow> exn + (string \<times> json) list \<times> pay_db" where
  "quote_withdrawal env user_id amount now db =
     bindR (driver_id_for_user env user_id) (\<lambda>driver_id.
     let minimum = we_withdrawal_min_amount env; fees = we_withdrawal_fee env in
     if amount \<noteq> of_int (round_half_even amount) \<or> amount < minimum
     then Inl (ApiError 422 ''INVALID_WITHDRAWAL_AMOUNT'')
     else if amount \<le> fees then Inl (ApiError 422 ''INVALID_WITHDRAWAL_AMOUNT'')
     else
       let (wallet, db1) = get_or_create_wallet driver_id ''XOF'' db
       in if wa_balance wallet < amount then Inl (ApiError 409 ''WITHDRAWAL_BALANCE_INSUFFICIENT'')
          else
            let (qid, db2) = new_id db1;
                quote = \<lparr>wq_id = qid, wq_driver_id = driver_id, wq_amount = amount, wq_fees = fees,
                  wq_net_amount = amount - fees, wq_currency = ''XOF'',
                  wq_expires_at = now + seconds (we_quote_ttl env), wq_consumed_at = None,
                  wq_created_at = now\<rparr>
            in bindR (save_withdrawal_quote quote db2) (\<lambda>(quote, db3).
               Inr ([(''quote_id'', juuid (wq_id quote)),
                     (''amount'', JInt (py_trunc (wq_amount quote))),
                     (''fees'', JInt (py_trunc (wq_fees quote))),
                     (''net_amount'', JInt (py_trunc (wq_net_amount quote))),
                     (''currency'', JStr (wq_currency quote)),
                     (''expires_at'', iso (Some (wq_expires_at quote)))], db3)))"

definition apply_withdrawal_provider_payload ::
  "driver_withdrawal \<Rightarrow> (string \<times> json) list \<Rightarrow> datetime \<Rightarrow> pay_db \<Rightarrow> exn + driver_withdrawal \<times> pay_db" where
  "apply_withdrawal_provider_payload w payout now db =
     bindR (py_int (jor (jget payout ''amount'') (JInt (-1)))) (\<lambda>a.
     if a \<noteq> py_trunc (wd_net_amount w) then Inl (ApiError 409 ''WITHDRAWAL_AMOUNT_MISMATCH'')
     else if jget payout ''currency'' \<noteq> JStr (wd_currency w)
     then Inl (ApiError 409 ''WITHDRAWAL_CURRENCY_MISMATCH'')
     else if jget payout ''business_reference'' \<noteq> jstr_opt (wd_business_reference w)
     then Inl (ApiError 409 ''WITHDRAWAL_REFERENCE_MISMATCH'')
     else
       case withdrawal_target (text_or payout ''status'' []) of
         None \<Rightarrow> Inl (ApiError 422 ''WITHDRAWAL_STATUS_INVALID'')
       | Some target \<Rightarrow>
         bindR (jkey payout ''id'') (\<lambda>j. bindR (as_uuid j) (\<lambda>pid.
         bindR (as_text (jget payout ''failure_code'')) (\<lambda>failure_code.
         bindR (as_text (jget payout ''failure_message'')) (\<lambda>failure_message.
         mark_withdrawal_provider_state (wd_id w) target (Some pid)
           (Some (text_or payout ''status'' [])) failure_code failure_message now db)))))"

fun verification_error_status :: "string \<Rightarrow> int" where
  "verification_error_status code =
     (if code = ''WITHDRAWAL_VERIFICATION_NOT_FOUND'' then 404
      else if code = ''WITHDRAWAL_VERIFICATION_USED'' then 409
      else if code = ''WITHDRAWAL_VERIFICATION_EXPIRED'' then 410
      else if code = ''WITHDRAWAL_VERIFICATION_LOCKED'' then 429
      else 400)"

fun reservation_error_status :: "string \<Rightarrow> int" where
  "reservation_error_status code =
     (if code = ''WITHDRAWAL_QUOTE_NOT_FOUND'' then 404
      else if code \<in> {''WITHDRAWAL_QUOTE_ALREADY_USED'', ''WITHDRAWAL_BALANCE_INSUFFICIENT''} then 409
      else 422)"

text \<open>\<open>except LookupError\<close>: the code of the exception, with the status that the map gives it.\<close>

fun lookup_to_api :: "(string \<Rightarrow> int) \<Rightarrow> exn \<Rightarrow> exn" where
  "lookup_to_api status (LookupError code) = ApiError (status code) code"
| "lookup_to_api status e = e"

definition draft_withdrawal ::
  "uuid \<Rightarrow> uuid \<Rightarrow> uuid \<Rightarrow> string \<Rightarrow> json \<Rightarrow> datetime \<Rightarrow> driver_withdrawal" where
  "draft_withdrawal wid driver_id quote_id beneficiary destination now =
     \<lparr>wd_id = wid, wd_driver_id = driver_id, wd_quote_id = quote_id, wd_amount = 0, wd_fees = 0,
      wd_net_amount = 0, wd_beneficiary_reference = strip beneficiary,
      wd_beneficiary_destination = Some destination, wd_status = WS_RESERVED,
      wd_currency = ''XOF'', wd_payout_id = None,
      wd_business_reference = Some (''diddigo:driver_withdrawal:'' @ uuid_str wid),
      wd_idempotency_key = Some (''diddigo:driver_withdrawal:'' @ uuid_str wid @ '':v1''),
      wd_provider_status = None, wd_failure_code = None, wd_failure_message = None,
      wd_created_at = now, wd_reserved_at = Some now, wd_succeeded_at = None,
      wd_released_at = None, wd_updated_at = now\<rparr>"

definition payout_request :: "uuid \<Rightarrow> driver_withdrawal \<Rightarrow> (string \<times> json) list" where
  "payout_request driver_id w =
     [(''business_reference'', jstr_opt (wd_business_reference w)),
      (''beneficiary_reference'', JStr (wd_beneficiary_reference w)),
      (''beneficiary_destination'',
         case wd_beneficiary_destination w of None \<Rightarrow> JNull | Some j \<Rightarrow> j),
      (''amount'', JInt (py_trunc (wd_net_amount w))),
      (''currency'', JStr (wd_currency w)),
      (''metadata'', JObj [(''driver_id'', juuid driver_id), (''withdrawal_id'', juuid (wd_id w)),
         (''quote_id'', juuid (wd_quote_id w)), (''fees_xof'', JInt (py_trunc (wd_fees w)))])]"

text \<open>
  The part before the first commit: the verification is consumed and the quote reserved. A raise
  rolls both back.
\<close>

definition reserve_verified ::
  "wallet_env \<Rightarrow> uuid \<Rightarrow> uuid \<Rightarrow> string \<Rightarrow> json \<Rightarrow> uuid \<Rightarrow> string \<Rightarrow> datetime \<Rightarrow> pay_db
    \<Rightarrow> exn + driver_withdrawal \<times> pay_db" where
  "reserve_verified env driver_id quote_id beneficiary destination verification_id code now db =
     (let (consumed, db1) = consume_withdrawal_verification verification_id driver_id destination
            (we_otp_hash env code) (we_otp_max_attempts env) now db
      in case consumed of
           Inl e \<Rightarrow> Inl (lookup_to_api verification_error_status e)
         | Inr _ \<Rightarrow>
           let (wid, db2) = new_id db1
           in case reserve_withdrawal_from_quote
                  (draft_withdrawal wid driver_id quote_id beneficiary destination now) now db2 of
                Inl e \<Rightarrow> Inl (lookup_to_api reservation_error_status e)
              | Inr r \<Rightarrow> Inr r)"

text \<open>
  The part after it: the payout is created; a refusal of the provider releases the reservation,
  and an unclear outcome leaves it for reconciliation. \<open>db\<close> is the committed state.
\<close>

definition submit_payout ::
  "wallet_env \<Rightarrow> uuid \<Rightarrow> driver_withdrawal \<Rightarrow> datetime \<Rightarrow> pay_db
    \<Rightarrow> (exn + (string \<times> json) list) \<times> pay_db" where
  "submit_payout env driver_id w now db =
     (case dp_create_payout (pe_diddipay (we_pay env)) (payout_request driver_id w)
             (str_or (wd_idempotency_key w) []) of
        Inl (ApiError status code) \<Rightarrow>
          if status < 500
          then (case mark_withdrawal_provider_state (wd_id w) WS_FAILED None (Some ''rejected'')
                    (Some code) (Some []) now db of
                  Inl e \<Rightarrow> (Inl e, db)
                | Inr (_, db1) \<Rightarrow> (Inl (ApiError status code), db1))
          else (Inl (ApiError status code), db)
      | Inl e \<Rightarrow> (Inl e, db)
      | Inr payout \<Rightarrow> transact db
          (bindR (apply_withdrawal_provider_payload w payout now db) (\<lambda>(w', db1).
            Inr (withdrawal_payload w', db1))))"

definition request_withdrawal ::
  "wallet_env \<Rightarrow> uuid \<Rightarrow> uuid \<Rightarrow> string \<Rightarrow> json \<Rightarrow> uuid \<Rightarrow> string \<Rightarrow> string \<Rightarrow> datetime \<Rightarrow> pay_db
    \<Rightarrow> (exn + (string \<times> json) list) \<times> pay_db" where
  "request_withdrawal env user_id quote_id beneficiary destination verification_id code
       profile_phone now db =
     (case driver_id_for_user env user_id of
        Inl e \<Rightarrow> (Inl e, db)
      | Inr driver_id \<Rightarrow>
        if strip beneficiary = [] then (Inl (ApiError 422 ''WITHDRAWAL_BENEFICIARY_REQUIRED''), db)
        else if profile_phone = []
        then (Inl (ApiError 409 ''WITHDRAWAL_PROFILE_PHONE_REQUIRED''), db)
        else case find_withdrawal_by_quote_id quote_id db of
            Some existing \<Rightarrow>
              if wd_driver_id existing \<noteq> driver_id
                \<or> wd_beneficiary_destination existing \<noteq> Some destination
              then (Inl (ApiError 409 ''WITHDRAWAL_QUOTE_ALREADY_USED''), db)
              else (Inr (withdrawal_payload existing), db)
          | None \<Rightarrow>
           (case reserve_verified env driver_id quote_id beneficiary destination verification_id
                   code now db of
              Inl e \<Rightarrow> (Inl e, db)
            | Inr (w, db1) \<Rightarrow> submit_payout env driver_id w now db1))"

text \<open>The OTP request commits the verification before the SMS goes out.\<close>

definition request_withdrawal_verification ::
  "wallet_env \<Rightarrow> uuid \<Rightarrow> string \<Rightarrow> json \<Rightarrow> string \<Rightarrow> datetime \<Rightarrow> pay_db
    \<Rightarrow> (exn + (string \<times> json) list) \<times> pay_db" where
  "request_withdrawal_verification env user_id profile_phone destination code now db =
     (case driver_id_for_user env user_id of
        Inl e \<Rightarrow> (Inl e, db)
      | Inr driver_id \<Rightarrow>
        let phone = strip profile_phone in
        if phone = [] then (Inl (ApiError 409 ''WITHDRAWAL_PROFILE_PHONE_REQUIRED''), db)
        else if (case find_latest_withdrawal_verification driver_id db of
              None \<Rightarrow> False
            | Some latest \<Rightarrow> wv_consumed_at latest = None \<and> now < wv_expires_at latest
                \<and> now - wv_created_at latest < seconds (we_otp_retry_seconds env))
        then (Inl (ApiError 429 ''WITHDRAWAL_VERIFICATION_RATE_LIMITED''), db)
        else case we_sms env of
            None \<Rightarrow> (Inl (ApiError 503 ''SMS_NOT_CONFIGURED''), db)
          | Some send \<Rightarrow>
            let (vid, db1) = new_id db;
                v = \<lparr>wv_id = vid, wv_driver_id = driver_id, wv_beneficiary_destination = destination,
                  wv_recipient_phone = phone, wv_code_hash = we_otp_hash env code,
                  wv_expires_at = now + seconds (we_otp_ttl env), wv_attempt_count = 0,
                  wv_consumed_at = None, wv_created_at = now\<rparr>
            in case save_withdrawal_verification v db1 of
                 Inl e \<Rightarrow> (Inl e, db)
               | Inr (_, db2) \<Rightarrow>
                (case send phone code (''diddigo:withdrawal-verification:'' @ uuid_str vid) of
                   Inl _ \<Rightarrow> (Inl (ApiError 503 ''WITHDRAWAL_VERIFICATION_DELIVERY_FAILED''), db2)
                 | Inr _ \<Rightarrow>
                   (Inr [(''verification_id'', juuid vid),
                         (''expires_at'', iso (Some (wv_expires_at v))),
                         (''recipient_phone_masked'', JStr (mask_phone phone)),
                         (''retry_after_seconds'', JInt (we_otp_retry_seconds env))], db2)))"

definition get_withdrawal :: "wallet_env \<Rightarrow> uuid \<Rightarrow> uuid \<Rightarrow> pay_db \<Rightarrow> exn + (string \<times> json) list" where
  "get_withdrawal env user_id withdrawal_id db =
     bindR (driver_id_for_user env user_id) (\<lambda>driver_id.
     case find_withdrawal_by_id withdrawal_id db of
       None \<Rightarrow> Inl (ApiError 404 ''WITHDRAWAL_NOT_FOUND'')
     | Some w \<Rightarrow>
       if wd_driver_id w \<noteq> driver_id then Inl (ApiError 404 ''WITHDRAWAL_NOT_FOUND'')
       else Inr (withdrawal_payload w))"

definition admin_list_withdrawals ::
  "wallet_env \<Rightarrow> uuid \<Rightarrow> nat \<Rightarrow> nat \<Rightarrow> pay_db \<Rightarrow> exn + (string \<times> json) list" where
  "admin_list_withdrawals env driver_id page page_size db =
     bindR (require_driver env driver_id) (\<lambda>_.
     let (rows, items) = list_withdrawals driver_id page page_size db
     in Inr ((''driver_id'', juuid driver_id) #
          page_payload (map (JObj \<circ> withdrawal_payload) rows) page page_size items))"

definition list_driver_withdrawals ::
  "wallet_env \<Rightarrow> uuid \<Rightarrow> nat \<Rightarrow> nat \<Rightarrow> pay_db \<Rightarrow> exn + (string \<times> json) list" where
  "list_driver_withdrawals env user_id page page_size db =
     bindR (driver_id_for_user env user_id) (\<lambda>driver_id.
       admin_list_withdrawals env driver_id page page_size db)"

definition admin_get_withdrawal :: "uuid \<Rightarrow> pay_db \<Rightarrow> exn + (string \<times> json) list" where
  "admin_get_withdrawal withdrawal_id db =
     (case find_withdrawal_by_id withdrawal_id db of
        None \<Rightarrow> Inl (ApiError 404 ''WITHDRAWAL_NOT_FOUND'')
      | Some w \<Rightarrow> Inr (withdrawal_payload w))"

definition reconcile_withdrawal ::
  "wallet_env \<Rightarrow> uuid \<Rightarrow> datetime \<Rightarrow> pay_db \<Rightarrow> exn + (string \<times> json) list \<times> pay_db" where
  "reconcile_withdrawal env withdrawal_id now db =
     (case find_withdrawal_by_id withdrawal_id db of
        None \<Rightarrow> Inl (ApiError 404 ''WITHDRAWAL_NOT_FOUND'')
      | Some w \<Rightarrow>
        bindR (fetch_payout (pe_diddipay (we_pay env)) w) (\<lambda>payout.
        case payout of
          None \<Rightarrow> Inr (withdrawal_payload w, db)
        | Some p \<Rightarrow>
          bindR (apply_withdrawal_provider_payload w p now db) (\<lambda>(w', db1).
          Inr (withdrawal_payload w', db1))))"

end
