(* ===== verification/Payment_Safety.thy ===== *)
theory Payment_Safety
  imports Wallet_Service
begin

text \<open>
  The invariant of the payment database and its preservation by every handler of the two
  payment services. \<open>pay_inv\<close> adds to \<open>money_inv\<close> that a ride has at most one transaction row,
  which the queries by ride id rely on. \<open>pay_step\<close> is one request of any kind, \<open>pay_reachable\<close>
  the states that a sequence of requests leads to; the surroundings (provider, rides, clock)
  may differ from one request to the next.
\<close>

section \<open>The invariant\<close>

definition pay_inv :: "pay_db \<Rightarrow> bool" where
  "pay_inv db \<longleftrightarrow> money_inv db \<and> distinct (map tx_id (transactions db))
     \<and> distinct (map tx_ride_id (transactions db))"

lemma pay_inv_empty: "pay_inv empty_pay_db"
  by (simp add: pay_inv_def money_inv_empty) (simp add: empty_pay_db_def)

text \<open>Writes that touch none of the tables that the invariant speaks of.\<close>

lemma pay_inv_frame [simp]:
  "pay_inv (db\<lparr>debts := x1\<rparr>) = pay_inv db"
  "pay_inv (db\<lparr>webhook_events := x2\<rparr>) = pay_inv db"
  "pay_inv (db\<lparr>topups := x3\<rparr>) = pay_inv db"
  "pay_inv (db\<lparr>quotes := x4\<rparr>) = pay_inv db"
  "pay_inv (db\<lparr>verifications := x5\<rparr>) = pay_inv db"
  "pay_inv (db\<lparr>next_id := x6\<rparr>) = pay_inv db"
  by (simp_all add: pay_inv_def money_inv_def)

lemma pay_inv_new_id: "new_id db = (i, db') \<Longrightarrow> pay_inv db \<Longrightarrow> pay_inv db'"
  by (auto simp: new_id_def)

lemma pay_inv_put_tx:
  assumes "pay_inv db" and "get_row tx_id i (transactions db) = Some r"
    and "tx_ride_id r' = tx_ride_id r" and "tx_id r' = i"
  shows "pay_inv (db\<lparr>transactions := put_row tx_id i r' (transactions db)\<rparr>)"
proof -
  have "map tx_ride_id (put_row tx_id i r' rs) = map tx_ride_id rs"
    if "distinct (map tx_id rs)" "get_row tx_id i rs = Some r" for rs
    using that assms(3) by (induction rs) (auto simp: put_row_absent image_iff split: if_splits)
  with assms show ?thesis
    by (simp add: pay_inv_def money_inv_def map_put_row)
qed

lemma pay_inv_add_tx:
  assumes "pay_inv db" and "tx_ride_id t \<notin> tx_ride_id ` set (transactions db)"
    and "\<forall>x \<in> set (transactions db). \<not> tx_clash t x"
  shows "pay_inv (db\<lparr>transactions := transactions db @ [t]\<rparr>)"
  using assms by (auto simp: pay_inv_def money_inv_def tx_clash_def)

lemma find_by_ride_id_None: "find_by_ride_id rid db = Inr None \<Longrightarrow> rid \<notin> tx_ride_id ` set (transactions db)"
  by (auto simp: find_by_ride_id_def scalar_one_or_none_None filter_empty_conv)

text \<open>Parsers and pure checks: any result will do.\<close>

lemma okR_any: "(\<And>x. Q x) \<Longrightarrow> okR Q m"
  by (auto simp: okR_iff)

lemmas okR_parsers [wp] =
  okR_any [where m = "json_decimal j" for j] okR_any [where m = "jkey fs k" for fs k]
  okR_any [where m = "as_uuid j" for j] okR_any [where m = "as_text j" for j]
  okR_any [where m = "py_int j" for j] okR_any [where m = "optional_uuid fs k" for fs k]
  okR_any [where m = "same_money fs a c" for fs a c]
  okR_any [where m = "payment_status_from_diddipay s" for s]
  okR_any [where m = "intent_mismatch_reason i a c b" for i a c b]
  okR_any [where m = "passenger_debt_payload d" for d]
  okR_any [where m = "find_by_payment_intent_id i db" for i db]
  okR_any [where m = "find_topup_by_payment_intent_id i db" for i db]
  okR_any [where m = "find_withdrawal_by_business_reference r db" for r db]
  okR_any [where m = "authenticate_callback e r h s" for e r h s]
  okR_any [where m = "driver_id_for_user e u" for e u]
  okR_any [where m = "require_driver e u" for e u]
  okR_any [where m = "fetch_payout dp w" for dp w]

lemma okR_eq: "(\<And>x. m = Inr x \<Longrightarrow> Q x) \<Longrightarrow> okR Q m"
  by (auto simp: okR_iff)

lemma okR_find_by_ride_id [wp]:
  "(\<And>x. find_by_ride_id i db = Inr x \<Longrightarrow> Q x) \<Longrightarrow> okR Q (find_by_ride_id i db)"
  by (rule okR_eq)

section \<open>Repository operations\<close>

text \<open>What the operations outside debts and withdrawals do to the tables.\<close>

definition keeps_rest :: "pay_db \<Rightarrow> pay_db \<Rightarrow> bool" where
  "keeps_rest db db' \<longleftrightarrow> pay_inv db' \<and> withdrawals db' = withdrawals db \<and> debts db' = debts db"

lemma keeps_rest_put_tx:
  assumes "pay_inv db" and "get_row tx_id i (transactions db) = Some r"
    and "tx_ride_id r' = tx_ride_id r" and "tx_id r' = tx_id r"
  shows "keeps_rest db (db\<lparr>transactions := put_row tx_id i r' (transactions db)\<rparr>)"
  using pay_inv_put_tx [OF assms(1,2,3)] get_row_Some [OF assms(2)] assms(4)
  by (simp add: keeps_rest_def)

lemma keeps_rest_wallet:
  "pay_inv db \<Longrightarrow> keeps_rest db (snd (get_or_create_wallet d c db))"
  using get_or_create_wallet_money_inv [of db d c] get_or_create_wallet_spec(4) [of d c db]
  by (cases "get_or_create_wallet d c db") (auto simp: keeps_rest_def pay_inv_def money_frame_def)

lemma keeps_rest_save_transaction:
  assumes "pay_inv db" and "tx_ride_id t \<notin> tx_ride_id ` set (transactions db)"
  shows "okR (\<lambda>(_, db'). keeps_rest db db') (save_transaction t db)"
  using assms pay_inv_add_tx [OF assms] by (auto simp: save_transaction_def keeps_rest_def intro!: wp)

lemma keeps_rest_update_collected:
  assumes "pay_inv db"
  shows "okR (\<lambda>(_, db'). keeps_rest db db') (update_collected i who amt stamp db)"
  using keeps_rest_put_tx [OF assms] by (auto simp: update_collected_def Let_def split: option.split)

lemma keeps_rest_prepare_cash_payment:
  assumes "pay_inv db"
  shows "okR (\<lambda>(_, db'). keeps_rest db db') (prepare_cash_payment i db)"
  using keeps_rest_put_tx [OF assms]
  by (auto simp: prepare_cash_payment_def Let_def split: option.split)

lemma keeps_rest_mark_external_status:
  assumes "pay_inv db"
  shows "okR (\<lambda>(_, db'). keeps_rest db db') (mark_external_status i st ps paid na db)"
  using keeps_rest_put_tx [OF assms]
  by (auto simp: mark_external_status_def Let_def split: option.split)

lemma keeps_rest_replace_external_intent:
  assumes "pay_inv db"
  shows "okR (\<lambda>(_, db'). keeps_rest db db') (replace_external_intent i intent idem m st ps na db)"
proof (cases "get_row tx_id i (transactions db)")
  case (Some row)
  with get_row_Some [OF Some] keeps_rest_put_tx [OF assms Some] show ?thesis
    by (auto simp: replace_external_intent_def Let_def update_row_def)
qed (simp add: replace_external_intent_def)

lemma keeps_rest_record_once:
  assumes "pay_inv db" and "le_entry_type e \<noteq> WITHDRAWAL_SUCCEEDED"
    and "le_reference_type e \<noteq> ''driver_withdrawal''"
  shows "okR (\<lambda>(_, db'). keeps_rest db db') (record_ledger_entry_once e now db)"
proof (rule okR_mono [OF money_inv_record_once [OF _ assms(2,3)]])
  show "money_inv db" using assms(1) by (simp add: pay_inv_def)
qed (use assms(1) in \<open>auto simp: keeps_rest_def pay_inv_def money_frame_def\<close>)

lemma mark_withdrawal_frame:
  "okR (\<lambda>(_, db'). transactions db' = transactions db \<and> debts db' = debts db)
    (mark_withdrawal_provider_state i t p s fc fm now db)"
  unfolding mark_withdrawal_provider_state_def
  by (intro wp okR_update_row) (auto simp: insert_withdrawal_ledger_once_def new_id_def
      insert_do_nothing_def set_balance_def Let_def split: if_splits)

lemma inv_mark_withdrawal:
  assumes "pay_inv db"
  shows "okR (\<lambda>(_, db'). pay_inv db') (mark_withdrawal_provider_state i t p s fc fm now db)"
  using mark_money_inv [of db i t p s fc fm now] mark_withdrawal_frame [of db i t p s fc fm now] assms
  by (cases "mark_withdrawal_provider_state i t p s fc fm now db") (auto simp: pay_inv_def)

lemma reserve_frame:
  "okR (\<lambda>(_, db'). transactions db' = transactions db \<and> debts db' = debts db)
    (reserve_withdrawal_from_quote w now db)"
  unfolding reserve_withdrawal_from_quote_def
  by (intro wp) (auto simp: get_or_create_wallet_def new_id_def set_balance_def Let_def
      split: option.splits)

lemma inv_reserve:
  assumes "pay_inv db"
  shows "okR (\<lambda>(_, db'). pay_inv db') (reserve_withdrawal_from_quote w now db)"
  using reserve_money_inv [of db w now] reserve_frame [of db w now] assms
  by (cases "reserve_withdrawal_from_quote w now db") (auto simp: pay_inv_def)

lemma prepare_diddipay_debts:
  "okR (\<lambda>(_, db'). debts db' = debts db) (fst (prepare_diddipay env r m u e ph net now st db))"
proof -
  have store: "okR (\<lambda>(_, db'). debts db' = debts db)
      (store_collection r ride a m rt idem intent pid s now db)" for ride a rt idem intent pid s
    unfolding store_collection_def save_transaction_def replace_external_intent_def
    by (intro wp)
      (auto simp: new_id_def)
  have "okR Q (store_collection r ride a m rt idem intent pid s now db)"
    if "\<And>x. debts (snd x) = debts db \<Longrightarrow> Q x" for ride a rt idem intent pid s Q
    by (rule okR_mono [OF store]) (auto intro: that)
  then show ?thesis
    unfolding prepare_diddipay_def
    by (auto simp: Let_def split: option.splits sum.splits if_splits prod.splits intro!: okR_bindR)
qed

text \<open>Loading a debt that is still open.\<close>

lemma owned_open_debt_Inr: "owned_open_debt i u db = Inr d \<Longrightarrow>
    get_row pd_id i (debts db) = Some d \<and> pd_id d = i \<and> pd_status d \<noteq> DS_SETTLED"
  by (auto simp: owned_open_debt_def find_debt_by_id_def split: option.splits if_splits dest: get_row_Some)

section \<open>Requests\<close>

text \<open>One request of either service; \<open>transact\<close> is the request's database transaction.\<close>

inductive pay_step :: "pay_db \<Rightarrow> pay_db \<Rightarrow> bool" where
  cash: "pay_step db (snd (transact db (confirm_cash env ride amount who now db)))"
| prepare: "pay_step db (snd (transact db (fst (prepare_payment env ride m payer email phone net now st db))))"
| debt_mobile: "pay_step db (snd (transact db
    (fst (prepare_passenger_debt_payment env did uid email phone net now st db))))"
| debt_cash: "pay_step db (snd (transact db (request_passenger_debt_cash_settlement did uid now db)))"
| debt_confirm: "pay_step db (snd (transact db (confirm_passenger_debt_cash_settlement env did drv now db)))"
| webhook: "pay_step db (snd (transact db (apply_diddipay_webhook env raw hdr sig now db)))"
| sweep: "pay_step db (snd (transact db (reconcile_pending env limit a b now db)))"
| sweep_ride: "pay_step db (snd (transact db (reconcile_transaction env ride now db)))"
| sweep_topup: "pay_step db (snd (transact db (reconcile_topup env i now db)))"
| wallet: "pay_step db (snd (transact db (get_wallet wenv u db)))"
| wallet_admin: "pay_step db (snd (transact db (admin_get_wallet wenv d db)))"
| read_ledger: "pay_step db (snd (transact db (get_ledger wenv u p n db)))"
| read_ledger_admin: "pay_step db (snd (transact db (admin_get_ledger wenv d p n db)))"
| online: "pay_step db (snd (transact db (ensure_driver_can_go_online wenv d db)))"
| topup: "pay_step db (snd (transact db (fst (create_topup wenv u amount m mail phone now st db))))"
| quote: "pay_step db (snd (transact db (quote_withdrawal wenv u amount now db)))"
| withdraw: "pay_step db (snd (request_withdrawal wenv u q ben dest v code tel now db))"
| otp: "pay_step db (snd (request_withdrawal_verification wenv u tel dest code now db))"
| sweep_withdrawal: "pay_step db (snd (transact db (reconcile_withdrawal wenv i now db)))"

section \<open>Predicates that the repository keeps\<close>

text \<open>
  The services write the database through the repository only. The locale lists what each
  writing operation has to keep of a predicate \<open>I\<close> (with the guard under which the services
  call it); its lemmas show that then every handler keeps it, and so every request.
\<close>

locale pay_guard =
  fixes I :: "pay_db \<Rightarrow> bool"
  assumes g_new_id: "I db \<Longrightarrow> I (db\<lparr>next_id := n\<rparr>)"
    and g_wallet: "I db \<Longrightarrow> I (snd (get_or_create_wallet d c db))"
    and g_save_transaction: "I db \<Longrightarrow> tx_ride_id t \<notin> tx_ride_id ` set (transactions db) \<Longrightarrow>
      okR (\<lambda>(_, db'). I db') (save_transaction t db)"
    and g_update_collected: "I db \<Longrightarrow> okR (\<lambda>(_, db'). I db') (update_collected i who amt t0 db)"
    and g_prepare_cash: "I db \<Longrightarrow> okR (\<lambda>(_, db'). I db') (prepare_cash_payment i db)"
    and g_mark_external: "I db \<Longrightarrow> okR (\<lambda>(_, db'). I db') (mark_external_status i st ps paid na db)"
    and g_replace_intent: "I db \<Longrightarrow>
      okR (\<lambda>(_, db'). I db') (replace_external_intent i pid idem m st pr act db)"
    and g_debt: "I db \<Longrightarrow> get_row pd_id i (debts db) = Some debt \<Longrightarrow> pd_status debt \<noteq> DS_SETTLED \<Longrightarrow>
      okR (\<lambda>(_, db'). I db') (update_debt_status i dst settled agent now db)"
    and g_webhook: "I db \<Longrightarrow> I (db\<lparr>webhook_events := events\<rparr>)"
    and g_record: "I db \<Longrightarrow> le_entry_type e \<noteq> WITHDRAWAL_SUCCEEDED \<Longrightarrow>
      le_reference_type e \<noteq> ''driver_withdrawal'' \<Longrightarrow>
      okR (\<lambda>(_, db'). I db') (record_ledger_entry_once e now db)"
    and g_topups: "I db \<Longrightarrow> I (db\<lparr>topups := rows1\<rparr>)"
    and g_quotes: "I db \<Longrightarrow> I (db\<lparr>quotes := rows2\<rparr>)"
    and g_verifications: "I db \<Longrightarrow> I (db\<lparr>verifications := rows3\<rparr>)"
    and g_reserve: "I db \<Longrightarrow> okR (\<lambda>(_, db'). I db') (reserve_withdrawal_from_quote w now db)"
    and g_mark_withdrawal: "I db \<Longrightarrow>
      okR (\<lambda>(_, db'). I db') (mark_withdrawal_provider_state i tgt po prs fc fm now db)"
begin

text \<open>The same facts as rules for the continuation of a call.\<close>

lemma then_okR: "okR (\<lambda>(_, db'). I db') m \<Longrightarrow> (\<And>x db'. I db' \<Longrightarrow> Q (x, db')) \<Longrightarrow> okR Q m"
  by (erule okR_mono) auto

lemmas inv_update_collected [guard] = then_okR [OF g_update_collected]
lemmas inv_prepare_cash_payment [guard] = then_okR [OF g_prepare_cash]
lemmas inv_mark_external_status [guard] = then_okR [OF g_mark_external]
lemmas inv_replace_external_intent [guard] = then_okR [OF g_replace_intent]
lemmas inv_record_once [guard] = then_okR [OF g_record]
lemmas inv_reserve [guard] = then_okR [OF g_reserve]
lemmas inv_mark_withdrawal [guard] = then_okR [OF g_mark_withdrawal]
lemmas inv_save_transaction [guard] = then_okR [OF g_save_transaction]

lemma inv_new_id [guard]:
  assumes "I db" and "\<And>i db'. I db' \<Longrightarrow> transactions db' = transactions db \<Longrightarrow> okR Q (f i db')"
  shows "okR Q (let (i, db') = new_id db in f i db')"
  using assms g_new_id by (auto simp: new_id_def)

lemma keeps_new_id: "new_id db = (i, db') \<Longrightarrow> I db \<Longrightarrow> I db'"
  by (auto simp: new_id_def intro: g_new_id)

lemma keeps_wallet: "get_or_create_wallet d c db = (w, db') \<Longrightarrow> I db \<Longrightarrow> I db'"
  using g_wallet [of db d c] by simp

lemma inv_wallet [guard]:
  assumes "I db" and "\<And>w db'. I db' \<Longrightarrow> okR Q (f w db')"
  shows "okR Q (let (w, db') = get_or_create_wallet d c db in f w db')"
  using assms keeps_wallet by (cases "get_or_create_wallet d c db") auto

lemma inv_mark_topup_status [guard]:
  assumes "I db" and "\<And>t db'. I db' \<Longrightarrow> Q (t, db')"
  shows "okR Q (mark_topup_status i st ps paid na db)"
  using assms(1) by (auto simp: mark_topup_status_def Let_def intro!: okR_option assms(2) g_topups)

lemma inv_save_topup [guard]:
  assumes "I db" and "\<And>t db'. I db' \<Longrightarrow> Q (t, db')"
  shows "okR Q (save_topup t db)"
  using assms(1) by (auto simp: save_topup_def intro!: okR_bindR okR_insert_row assms(2) g_topups)

lemma inv_save_quote [guard]:
  assumes "I db" and "\<And>q db'. I db' \<Longrightarrow> Q (q, db')"
  shows "okR Q (save_withdrawal_quote t db)"
  using assms(1)
  by (auto simp: save_withdrawal_quote_def intro!: okR_bindR okR_insert_row assms(2) g_quotes)

text \<open>The handlers of the payment service.\<close>

lemma inv_settlement [guard]:
  assumes "I db" and "\<And>db'. I db' \<Longrightarrow> Q db'"
  shows "okR Q (record_ride_settlement ride st now db)"
  unfolding record_ride_settlement_def
  by (intro wp guard assms; (rule assms)?; simp add: ride_entry_def assms)

lemma inv_credit_driver_topup [guard]:
  assumes "I db" and "\<And>db'. I db' \<Longrightarrow> Q db'"
  shows "okR Q (credit_driver_topup t now db)"
  unfolding credit_driver_topup_def
  by (intro wp guard assms) (simp_all add: topup_entry_def assms)

lemma inv_apply_transaction_status [guard]:
  assumes "I db" and "\<And>t db'. I db' \<Longrightarrow> Q (t, db')"
  shows "okR Q (apply_transaction_status env payment st ps paid na now db)"
  unfolding apply_transaction_status_def
  by (intro wp guard assms) (auto intro: assms)

lemma inv_apply_topup_status [guard]:
  assumes "I db" and "\<And>t db'. I db' \<Longrightarrow> Q (t, db')"
  shows "okR Q (apply_topup_status t st ps paid na now db)"
  unfolding apply_topup_status_def
  by (intro wp guard assms) (auto intro: assms)

lemma inv_cash_payment_of [guard]:
  assumes "I db" and "find_by_ride_id ride_id db = Inr existing"
    and "\<And>t db'. I db' \<Longrightarrow> Q (t, db')"
  shows "okR Q (cash_payment_of ride_id amt cur now existing db)"
  using assms(2) find_by_ride_id_None [of ride_id db] unfolding cash_payment_of_def
  by (intro wp guard assms) (auto simp: new_transaction_def assms)

lemma inv_confirm_cash:
  assumes "I db"
  shows "okR (\<lambda>(_, db'). I db') (confirm_cash env ride_id amount who now db)"
  unfolding confirm_cash_def
  by (intro wp guard assms) auto

lemma inv_prepare_cash:
  assumes "I db"
  shows "okR (\<lambda>(_, db'). I db') (prepare_cash env ride_id now db)"
  unfolding prepare_cash_def
  by (intro wp guard assms)
    (use assms in \<open>auto simp: new_transaction_def new_id_def dest: find_by_ride_id_None\<close>)

lemma inv_store_collection [guard]:
  assumes "I db" and "find_by_ride_id ride_id db = Inr existing"
    and "retrying = None \<Longrightarrow> existing = None" and "\<And>t db'. I db' \<Longrightarrow> Q (t, db')"
  shows "okR Q (store_collection ride_id ride amount m retrying idem intent pid st now db)"
  unfolding store_collection_def
  by (intro wp guard assms)
    (use assms in \<open>auto simp: new_transaction_def new_id_def dest: find_by_ride_id_None\<close>)

lemma inv_prepare_diddipay:
  assumes "I db"
  shows "okR (\<lambda>(_, db'). I db') (fst (prepare_diddipay env ride_id m uid email phone net now st db))"
  using assms unfolding prepare_diddipay_def
  by (auto simp: Let_def split: option.splits sum.splits if_splits prod.splits
      intro!: okR_bindR inv_store_collection)

lemma inv_prepare_payment:
  assumes "I db"
  shows "okR (\<lambda>(_, db'). I db') (fst (prepare_payment env ride_id m uid email phone net now st db))"
  using assms unfolding prepare_payment_def
  by (auto simp: Let_def split: option.splits intro!: inv_prepare_cash inv_prepare_diddipay)

lemma inv_update_debt [guard]:
  assumes "I db" and "get_row pd_id i (debts db) = Some d" and "pd_status d \<noteq> DS_SETTLED"
    and "\<And>t db'. I db' \<Longrightarrow> Q (t, db')"
  shows "okR Q (update_debt_status i st settled who now db)"
  using assms by (intro then_okR [OF g_debt])

lemma inv_prepare_debt_payment:
  assumes "I db"
  shows "okR (\<lambda>(_, db'). I db')
    (fst (prepare_passenger_debt_payment env did uid email phone net now st db))"
proof -
  have step: "okR Q (fst (prepare_diddipay env r PM_MOBILE_MONEY uid e phone (Some net) now st db))"
    if "\<And>x. I (snd x) \<Longrightarrow> debts (snd x) = debts db \<Longrightarrow> Q x" for r e Q
    using inv_prepare_diddipay [OF assms, of env r PM_MOBILE_MONEY uid e phone "Some net" now st]
      prepare_diddipay_debts [of db env r PM_MOBILE_MONEY uid e phone "Some net" now st]
    by (auto simp: okR_iff intro: that)
  show ?thesis
    unfolding prepare_passenger_debt_payment_def Let_def
    by (auto simp: split_beta' split: sum.split dest!: owned_open_debt_Inr
        intro!: step okR_bindR inv_update_debt okR_any [where m = "passenger_debt_payload d" for d])
qed

lemma okR_owned_open_debt [guard]:
  "(\<And>d. get_row pd_id i (debts db) = Some d \<Longrightarrow> pd_id d = i \<Longrightarrow> pd_status d \<noteq> DS_SETTLED \<Longrightarrow> Q d) \<Longrightarrow>
    okR Q (owned_open_debt i u db)"
  by (auto intro!: okR_eq dest: owned_open_debt_Inr)

lemma inv_request_debt_cash:
  assumes "I db"
  shows "okR (\<lambda>(_, db'). I db') (request_passenger_debt_cash_settlement did uid now db)"
  unfolding request_passenger_debt_cash_settlement_def
  by (intro wp guard assms) auto

lemma inv_confirm_debt_cash:
  assumes "I db"
  shows "okR (\<lambda>(_, db'). I db') (confirm_passenger_debt_cash_settlement env did drv now db)"
  unfolding confirm_passenger_debt_cash_settlement_def find_debt_by_id_def
  by (intro wp guard assms) (auto dest: get_row_Some)

lemma inv_callback_withdrawal [guard]:
  assumes "I db" and "\<And>r db'. I db' \<Longrightarrow> Q (r, db')"
  shows "okR Q (callback_withdrawal data pid now db)"
  unfolding callback_withdrawal_def
  by (intro wp guard assms) (auto intro: assms)

lemma inv_callback_intent [guard]:
  assumes "I db" and "\<And>r db'. I db' \<Longrightarrow> Q (r, db')"
  shows "okR Q (callback_intent env data pid now db)"
  unfolding callback_intent_def
  by (intro wp guard assms) (auto intro: assms)

lemma inv_record_webhook_event:
  "record_webhook_event e db = (stored, db') \<Longrightarrow> I db \<Longrightarrow> I db'"
  by (auto simp: record_webhook_event_def insert_do_nothing_def g_webhook split: if_splits)

lemma inv_webhook:
  assumes "I db"
  shows "okR (\<lambda>(_, db'). I db') (apply_diddipay_webhook env raw hdr sig now db)"
  unfolding apply_diddipay_webhook_def
  by (intro wp guard) (use assms inv_record_webhook_event in auto)

lemma inv_reconciled:
  assumes "I (snd s)"
    and "\<And>db. I db \<Longrightarrow> okR (\<lambda>(_, db'). I db') (f row db)"
  shows "okR (\<lambda>(_, db'). I db') (reconciled f row s)"
  using assms(2) [OF assms(1)]
  by (cases "f row (snd s)") (auto simp: reconciled_def split_beta)

lemma inv_reconcile_transaction_row:
  "I db \<Longrightarrow> okR (\<lambda>(_, db'). I db') (reconcile_transaction_row env now t db)"
  unfolding reconcile_transaction_row_def by (intro wp guard) auto

lemma inv_reconcile_topup_row:
  "I db \<Longrightarrow> okR (\<lambda>(_, db'). I db') (reconcile_topup_row env now t db)"
  unfolding reconcile_topup_row_def by (intro wp guard) auto

lemma inv_reconcile_withdrawal_row:
  assumes "I db"
  shows "okR (\<lambda>(_, db'). I db') (reconcile_withdrawal_row env now w db)"
  unfolding reconcile_withdrawal_row_def
  by (intro wp guard assms) (use assms in \<open>auto split: exn.split\<close>)

lemma inv_sweep:
  assumes "I (snd s)"
    and "\<And>row db. I db \<Longrightarrow> okR (\<lambda>(_, db'). I db') (f row db)"
  shows "okR (\<lambda>s. I (snd s)) (foldR (reconciled f) rows s)"
proof (rule okR_foldR)
  show "okR (\<lambda>s. I (snd s)) (reconciled f x s)" if "I (snd s)" for x s
    using inv_reconciled [where f = f and row = x, OF that] assms(2) by (auto elim!: okR_mono)
qed (rule assms)

lemma inv_reconcile_pending:
  assumes "I db"
  shows "okR (\<lambda>(_, db'). I db') (reconcile_pending env limit a b now db)"
proof -
  have sweep_next: "okR P (bindR (foldR (reconciled f) rows s) g)"
    if "I (snd s)" "\<And>row db. I db \<Longrightarrow> okR (\<lambda>(_, db'). I db') (f row db)"
      "\<And>r db. I db \<Longrightarrow> okR P (g (r, db))"
    for f :: "'r \<Rightarrow> pay_db \<Rightarrow> exn + outcome \<times> pay_db" and rows s P
      and g :: "reconciliation_report \<times> pay_db \<Rightarrow> exn + reconciliation_report \<times> pay_db"
    by (intro okR_bindR okR_mono [OF inv_sweep [OF that(1,2)]]) (auto intro: that(3))
  show ?thesis
    unfolding reconcile_pending_def Let_def
    by (intro sweep_next) (auto intro!: sweep_next inv_reconcile_transaction_row inv_reconcile_topup_row
        okR_mono [OF inv_sweep] inv_reconcile_withdrawal_row assms)
qed

lemma inv_reconcile_transaction:
  "I db \<Longrightarrow> okR (\<lambda>(_, db'). I db') (reconcile_transaction env ride_id now db)"
  unfolding reconcile_transaction_def
  by (intro wp guard inv_reconciled inv_reconcile_transaction_row) auto

lemma inv_reconcile_topup:
  "I db \<Longrightarrow> okR (\<lambda>(_, db'). I db') (reconcile_topup env i now db)"
  unfolding reconcile_topup_def
  by (intro wp guard inv_reconciled inv_reconcile_topup_row) auto

text \<open>The handlers of the wallet service.\<close>

lemma inv_get_wallet: "I db \<Longrightarrow> okR (\<lambda>(_, db'). I db') (get_wallet env u db)"
  unfolding get_wallet_def by (intro wp guard) auto

lemma inv_admin_get_wallet: "I db \<Longrightarrow> okR (\<lambda>(_, db'). I db') (admin_get_wallet env u db)"
  unfolding admin_get_wallet_def by (intro wp guard) auto

lemma inv_get_ledger: "I db \<Longrightarrow> okR (\<lambda>(_, db'). I db') (get_ledger env u p n db)"
  unfolding get_ledger_def by (intro wp guard) (auto dest: keeps_wallet)

lemma inv_admin_get_ledger:
  "I db \<Longrightarrow> okR (\<lambda>(_, db'). I db') (admin_get_ledger env u p n db)"
  unfolding admin_get_ledger_def by (intro wp guard) (auto dest: keeps_wallet)

lemma inv_go_online:
  "I db \<Longrightarrow> okR (\<lambda>(_, db'). I db') (ensure_driver_can_go_online env d db)"
  unfolding ensure_driver_can_go_online_def get_online_eligibility_def
  by (auto simp: Let_def split: prod.splits if_splits dest: keeps_wallet)

lemma inv_store_topup:
  "I db \<Longrightarrow> okR (\<lambda>(_, db'). I db') (store_topup i d a m intent pid st now db)"
  unfolding store_topup_def credit_topup_def by (intro wp guard) auto

lemma inv_create_topup:
  assumes "I db"
  shows "okR (\<lambda>(_, db'). I db') (fst (create_topup env u a m email phone now st db))"
  using assms unfolding create_topup_def
  by (auto simp: Let_def split: option.splits sum.splits if_splits prod.splits
      intro!: inv_store_topup dest: keeps_new_id)

lemma inv_quote_withdrawal:
  "I db \<Longrightarrow> okR (\<lambda>(_, db'). I db') (quote_withdrawal env u a now db)"
  unfolding quote_withdrawal_def
  by (intro wp guard) (auto dest: keeps_wallet keeps_new_id)

lemma inv_apply_payload [guard]:
  assumes "I db" and "\<And>w db'. I db' \<Longrightarrow> Q (w, db')"
  shows "okR Q (apply_withdrawal_provider_payload w p now db)"
  unfolding apply_withdrawal_provider_payload_def
  by (intro wp guard assms)

lemma inv_consume:
  "I db \<Longrightarrow> I (snd (consume_withdrawal_verification i d j h m now db))"
  by (simp add: consume_withdrawal_verification_def Let_def g_verifications split: option.split)

lemma inv_reserve_verified:
  assumes "I db"
  shows "okR (\<lambda>(_, db'). I db') (reserve_verified env d q b dest v code now db)"
proof -
  obtain c db1 where c: "consume_withdrawal_verification v d dest (we_otp_hash env code)
      (we_otp_max_attempts env) now db = (c, db1)" by fastforce
  from c inv_consume [OF assms] have "I db1" by (metis snd_conv)
  then have r: "okR (\<lambda>(_, db'). I db') (reserve_withdrawal_from_quote w now
      (db1\<lparr>next_id := Suc (next_id db1)\<rparr>))" for w
    by (intro g_reserve g_new_id)
  show ?thesis
    unfolding reserve_verified_def
    by (auto simp: new_id_def c split: sum.split dest: okR_D [OF r])
qed

lemma inv_submit_payout:
  assumes "I db"
  shows "I (snd (submit_payout env d w now db))"
proof -
  have m: "okR (\<lambda>(_, db'). I db')
      (mark_withdrawal_provider_state (wd_id w) WS_FAILED None (Some ''rejected'') (Some c) (Some []) now db)" for c
    using assms by (intro wp guard) auto
  have t: "I (snd (transact db (bindR (apply_withdrawal_provider_payload w p now db)
      (\<lambda>(w', db1). Inr (withdrawal_payload w', db1)))))" for p
    by (rule transact_okR [where P = I], rule assms, intro wp guard assms) auto
  from m have released: "I db'" if "mark_withdrawal_provider_state (wd_id w) WS_FAILED None
      (Some ''rejected'') (Some c) (Some []) now db = Inr (w', db')" for c w' db'
    using that by (metis (no_types, lifting) case_prod_conv okR_D)
  show ?thesis
    unfolding submit_payout_def using assms t
    by (simp split: sum.split exn.split) (use released in blast)
qed

lemma inv_request_withdrawal:
  assumes "I db"
  shows "I (snd (request_withdrawal env u q b dest v code phone now db))"
  using assms unfolding request_withdrawal_def
  by (auto split: sum.split option.split intro!: inv_submit_payout
      dest!: okR_D [OF inv_reserve_verified [OF assms]])

lemma inv_request_verification:
  "I db \<Longrightarrow> I (snd (request_withdrawal_verification env u phone dest code now db))"
  unfolding request_withdrawal_verification_def
  by (auto simp: Let_def save_withdrawal_verification_def insert_row_def new_id_def
      g_new_id g_verifications split: sum.split option.split if_splits)

lemma inv_reconcile_withdrawal:
  "I db \<Longrightarrow> okR (\<lambda>(_, db'). I db') (reconcile_withdrawal env i now db)"
  unfolding reconcile_withdrawal_def by (intro wp guard) auto

lemma step_keeps:
  assumes "pay_step db db'" and "I db"
  shows "I db'"
  using assms
  by (induction rule: pay_step.induct)
    (rule transact_okR, assumption, rule inv_confirm_cash inv_prepare_payment inv_prepare_debt_payment
      inv_request_debt_cash inv_confirm_debt_cash inv_webhook inv_reconcile_pending
      inv_reconcile_transaction inv_reconcile_topup inv_get_wallet inv_admin_get_wallet
      inv_get_ledger inv_admin_get_ledger inv_go_online inv_create_topup inv_quote_withdrawal
      inv_reconcile_withdrawal, assumption
     | rule inv_request_withdrawal inv_request_verification, assumption)+

lemma run_keeps: "pay_step\<^sup>*\<^sup>* db db' \<Longrightarrow> I db \<Longrightarrow> I db'"
  by (induction rule: rtranclp_induct) (auto intro: step_keeps)

end

section \<open>The invariant of reachable states\<close>

lemmas keeps_rest_ops = keeps_rest_wallet keeps_rest_save_transaction keeps_rest_update_collected
  keeps_rest_prepare_cash_payment keeps_rest_mark_external_status keeps_rest_replace_external_intent
  keeps_rest_record_once

lemma keeps_rest_inv: "okR (\<lambda>(_, db'). keeps_rest db db') m \<Longrightarrow> okR (\<lambda>(_, db'). pay_inv db') m"
  by (erule okR_mono) (auto simp: keeps_rest_def)

interpretation pay_guarded: pay_guard pay_inv
proof
  fix db :: pay_db and d c
  assume "pay_inv db"
  then show "pay_inv (snd (get_or_create_wallet d c db))"
    using keeps_rest_wallet [of db d c] by (simp add: keeps_rest_def)
next
  fix db :: pay_db and i dst settled agent now
  assume "pay_inv db"
  then show "okR (\<lambda>(_, db'). pay_inv db') (update_debt_status i dst settled agent now db)"
    by (auto simp: update_debt_status_def Let_def split: option.split)
qed (auto intro: keeps_rest_inv keeps_rest_ops inv_reserve inv_mark_withdrawal)

definition pay_reachable :: "pay_db \<Rightarrow> bool" where
  "pay_reachable db = pay_step\<^sup>*\<^sup>* empty_pay_db db"

lemma pay_reachable_inv: "pay_reachable db \<Longrightarrow> pay_inv db"
  unfolding pay_reachable_def by (erule pay_guarded.run_keeps) (rule pay_inv_empty)

section \<open>Settled withdrawals and debts are final\<close>

definition terminal_withdrawal :: "driver_withdrawal \<Rightarrow> bool" where
  "terminal_withdrawal w \<longleftrightarrow> wd_status w = WS_SUCCEEDED \<or> wd_status w = WS_RELEASED"

text \<open>What the end of a withdrawal is: who, how much, which end and when.\<close>

definition outcome_of ::
  "driver_withdrawal \<Rightarrow> uuid \<times> rat \<times> withdrawal_status \<times> datetime option \<times> datetime option" where
  "outcome_of w = (wd_driver_id w, wd_amount w, wd_status w, wd_succeeded_at w, wd_released_at w)"

definition ended :: "uuid \<Rightarrow> driver_withdrawal \<Rightarrow> pay_db \<Rightarrow> bool" where
  "ended i w db \<longleftrightarrow> pay_inv db \<and> terminal_withdrawal w
     \<and> (\<exists>w'. get_row wd_id i (withdrawals db) = Some w' \<and> outcome_of w' = outcome_of w)"

lemma reserve_withdrawals:
  "okR (\<lambda>(_, db'). withdrawals db' = withdrawals db
      \<or> (\<exists>row d. row \<in> set (withdrawals db) \<and> withdrawals db' = put_row wd_id (wd_id row)
           (row\<lparr>wd_beneficiary_destination := d\<rparr>) (withdrawals db))
      \<or> (\<exists>row. withdrawals db' = withdrawals db @ [row]))
    (reserve_withdrawal_from_quote w now db)"
  unfolding reserve_withdrawal_from_quote_def
  by (intro wp) (auto simp: get_or_create_wallet_def new_id_def set_balance_def Let_def
      split: option.splits dest: get_row_Some)

lemma mark_withdrawals:
  "okR (\<lambda>(_, db'). withdrawals db' = withdrawals db
      \<or> (\<exists>row row'. get_row wd_id i (withdrawals db) = Some row \<and> \<not> terminal_withdrawal row
           \<and> withdrawals db' = put_row wd_id (wd_id row) row' (withdrawals db) \<and> wd_id row' = wd_id row))
    (mark_withdrawal_provider_state i t p s fc fm now db)"
  unfolding mark_withdrawal_provider_state_def terminal_withdrawal_def
  by (intro wp) (auto simp: insert_withdrawal_ledger_once_def new_id_def
      insert_do_nothing_def set_balance_def Let_def split: if_splits)

lemma ended_put:
  assumes "get_row wd_id i (withdrawals db) = Some v" and "outcome_of v = outcome_of w"
    and "get_row wd_id j (withdrawals db) = Some row" and "wd_id row' = wd_id row"
    and "j = i \<Longrightarrow> outcome_of row' = outcome_of row"
  shows "\<exists>v. get_row wd_id i (put_row wd_id (wd_id row) row' (withdrawals db)) = Some v
    \<and> outcome_of v = outcome_of w"
  using assms get_row_Some [OF assms(3)]
  by (cases "j = i") (auto simp: get_put_other get_put_same)

lemma pay_guardI:
  assumes inv: "\<And>db. I db \<Longrightarrow> pay_inv db"
    and rest: "\<And>db db'. I db \<Longrightarrow> keeps_rest db db' \<Longrightarrow> I db'"
    and debt: "\<And>i db d st settled who now. I db \<Longrightarrow> get_row pd_id i (debts db) = Some d \<Longrightarrow>
      pd_status d \<noteq> DS_SETTLED \<Longrightarrow> okR (\<lambda>(_, db'). I db') (update_debt_status i st settled who now db)"
    and reserve: "\<And>db w now. I db \<Longrightarrow> okR (\<lambda>(_, db'). I db') (reserve_withdrawal_from_quote w now db)"
    and mark: "\<And>db i t p s fc fm now. I db \<Longrightarrow>
      okR (\<lambda>(_, db'). I db') (mark_withdrawal_provider_state i t p s fc fm now db)"
  shows "pay_guard I"
proof -
  have op: "okR (\<lambda>(_, db'). I db') m" if "I db" "okR (\<lambda>(_, db'). keeps_rest db db') m" for db m
    using that(2) by (rule okR_mono) (auto intro: rest [OF that(1)])
  have frame: "I db'" if "I db" "pay_inv db'" "withdrawals db' = withdrawals db" "debts db' = debts db" for db db'
    by (rule rest [OF that(1)]) (simp add: keeps_rest_def that)
  show ?thesis
  proof
    fix db :: pay_db
    assume I: "I db"
    note p = inv [OF I]
    show "I (snd (get_or_create_wallet d c db))" for d c
      by (rule rest [OF I keeps_rest_wallet [OF p]])
    show "okR (\<lambda>(_, db'). I db') (save_transaction t db)"
      if "tx_ride_id t \<notin> tx_ride_id ` set (transactions db)" for t
      by (rule op [OF I keeps_rest_save_transaction [OF p that]])
    show "okR (\<lambda>(_, db'). I db') (record_ledger_entry_once e now db)"
      if "le_entry_type e \<noteq> WITHDRAWAL_SUCCEEDED" "le_reference_type e \<noteq> ''driver_withdrawal''" for e now
      by (rule op [OF I keeps_rest_record_once [OF p that]])
  qed (rule op, assumption, rule keeps_rest_ops, erule inv
      | (rule debt reserve mark, assumption+)
      | (rule frame, assumption, simp_all add: inv))+
qed

lemma okR_both: "okR P m \<Longrightarrow> okR R m \<Longrightarrow> (\<And>x. P x \<Longrightarrow> R x \<Longrightarrow> Q x) \<Longrightarrow> okR Q m"
  by (simp add: okR_iff)

interpretation ended_withdrawal: pay_guard "ended i w" for i w
proof (rule pay_guardI)
  fix db and x :: driver_withdrawal and now
  assume e: "ended i w db"
  then obtain v where v: "get_row wd_id i (withdrawals db) = Some v" "outcome_of v = outcome_of w"
    by (auto simp: ended_def)
  have "\<exists>v. get_row wd_id i (put_row wd_id (wd_id row) (row\<lparr>wd_beneficiary_destination := d\<rparr>) (withdrawals db)) = Some v
      \<and> outcome_of v = outcome_of w" if "row \<in> set (withdrawals db)" for row d
  proof (rule ended_put [OF v, of "wd_id row"])
    show "get_row wd_id (wd_id row) (withdrawals db) = Some row"
      using e that by (auto simp: ended_def pay_inv_def money_inv_def intro: withdrawal_row_by_id)
  qed (simp_all add: outcome_of_def)
  with e v show "okR (\<lambda>(_, db'). ended i w db') (reserve_withdrawal_from_quote x now db)"
    by (intro okR_both [OF reserve_withdrawals inv_reserve]) (auto simp: ended_def get_row_append)
next
  fix db j tgt po prs fc fm now
  assume e: "ended i w db"
  then obtain v where v: "get_row wd_id i (withdrawals db) = Some v" "outcome_of v = outcome_of w"
    "terminal_withdrawal w"
    by (auto simp: ended_def)
  have "\<exists>v. get_row wd_id i (put_row wd_id (wd_id row) row' (withdrawals db)) = Some v
      \<and> outcome_of v = outcome_of w"
    if "get_row wd_id j (withdrawals db) = Some row" "\<not> terminal_withdrawal row" "wd_id row' = wd_id row"
    for row row'
    using that v by (intro ended_put [OF v(1,2) that(1,3)]) (auto simp: terminal_withdrawal_def outcome_of_def)
  with e v show "okR (\<lambda>(_, db'). ended i w db') (mark_withdrawal_provider_state j tgt po prs fc fm now db)"
    by (intro okR_both [OF mark_withdrawals inv_mark_withdrawal]) (auto simp: ended_def)
next
  fix db j d st settled who now
  assume "ended i w db"
  then show "okR (\<lambda>(_, db'). ended i w db') (update_debt_status j st settled who now db)"
    by (auto simp: update_debt_status_def ended_def Let_def split: option.split)
qed (auto simp: ended_def keeps_rest_def)

definition settled_debt :: "passenger_debt \<Rightarrow> pay_db \<Rightarrow> bool" where
  "settled_debt d db \<longleftrightarrow> pay_inv db \<and> pd_status d = DS_SETTLED
     \<and> get_row pd_id (pd_id d) (debts db) = Some d"

interpretation settled_debt_final: pay_guard "settled_debt d" for d
proof (rule pay_guardI)
  fix i db e st settled who now
  assume s: "settled_debt d db" and e: "get_row pd_id i (debts db) = Some e" "pd_status e \<noteq> DS_SETTLED"
  then have "i \<noteq> pd_id d" by (auto simp: settled_debt_def)
  with s e get_row_Some [OF e(1)] show "okR (\<lambda>(_, db'). settled_debt d db') (update_debt_status i st settled who now db)"
    by (auto simp: update_debt_status_def settled_debt_def Let_def get_put_other)
next
  fix db w now
  assume "settled_debt d db"
  then show "okR (\<lambda>(_, db'). settled_debt d db') (reserve_withdrawal_from_quote w now db)"
    by (intro okR_both [OF reserve_frame inv_reserve]) (auto simp: settled_debt_def)
next
  fix db i t p s fc fm now
  assume "settled_debt d db"
  then show "okR (\<lambda>(_, db'). settled_debt d db') (mark_withdrawal_provider_state i t p s fc fm now db)"
    by (intro okR_both [OF mark_withdrawal_frame inv_mark_withdrawal]) (auto simp: settled_debt_def)
qed (auto simp: settled_debt_def keeps_rest_def)

end
