(* ===== verification/Payment_Properties.thy ===== *)
theory Payment_Properties
  imports Payment_Safety
begin

text \<open>
  The properties of the payment component, each with a witness on a small concrete run: a
  sandbox provider, one driver, one ride.
\<close>

section \<open>A concrete run\<close>

definition demo_intent :: "(string \<times> json) list" where
  "demo_intent = [(''id'', juuid 77), (''status'', JStr ''succeeded''), (''amount'', JInt 5000),
     (''currency'', JStr ''XOF''),
     (''business_reference'', JStr (''diddigo:driver_topup:'' @ uuid_str 1))]"

definition demo_diddipay :: diddipay where
  "demo_diddipay = \<lparr>dp_create_payment_intent = (\<lambda>_ _. Inr demo_intent),
     dp_get_payment_intent = (\<lambda>_. Inr (Some demo_intent)),
     dp_create_payout = (\<lambda>_ _. Inl (ApiError 422 ''REFUSED'')),
     dp_get_payout = (\<lambda>_. Inr None), dp_get_payout_by_business_reference = (\<lambda>_. Inr None)\<rparr>"

text \<open>Ride 5 of passenger 9: completed, cash, 5000 XOF, commission 900, driver 107.\<close>

definition demo_ride :: ride where
  "demo_ride = (new_ride 5 9)\<lparr>rd_status := COMPLETED, rd_final_fare := Some 5000,
     rd_driver_id := Some 107, rd_platform_commission := Some 900,
     rd_driver_payout_estimate := Some 4100\<rparr>"

definition demo_env :: pay_env where
  "demo_env = \<lparr>pe_find_ride = (\<lambda>i. if i = 5 then Some demo_ride else None),
     pe_diddipay = demo_diddipay, pe_callback_secret = Some ''k'',
     pe_hmac_sha256 = (\<lambda>_ _. ''sig''),
     pe_json_loads = (\<lambda>_. Some (JObj [(''id'', JStr ''e1''), (''type'', JStr ''payment''),
        (''data'', JObj ((''payment_intent_id'', juuid 77) # demo_intent))])),
     pe_has_return_contexts = False, pe_return_token = ''t'', pe_context_ttl = 900,
     pe_with_context = (\<lambda>u t. u @ t), pe_consumer_return_url = None,
     pe_pro_return_url = None, pe_payment_callback_url = None\<rparr>"

definition demo_wallet_env :: wallet_env where
  "demo_wallet_env = \<lparr>we_pay = demo_env, we_driver_of_user = (\<lambda>u. Some (u + 100)),
     we_driver_exists = (\<lambda>_. True), we_otp_hash = (\<lambda>c. c), we_sms = Some (\<lambda>_ _ _. Inr ()),
     we_min_balance = 1000, we_withdrawal_min_amount = 500, we_withdrawal_fee = 100,
     we_quote_ttl = 300, we_otp_max_attempts = 3, we_otp_ttl = 300, we_otp_retry_seconds = 60\<rparr>"

text \<open>Driver 107 (user 7) is credited 5000 by a top-up, then the cash of ride 5 is confirmed.\<close>

definition demo_db1 :: pay_db where
  "demo_db1 = snd (transact empty_pay_db
     (fst (create_topup demo_wallet_env 7 5000 ''wave'' ''a@b'' None 0 (\<lambda>_. None) empty_pay_db)))"

definition demo_db2 :: pay_db where
  "demo_db2 = snd (transact demo_db1 (confirm_cash demo_env 5 5000 107 10 demo_db1))"

lemmas demo_defs = demo_wallet_env_def demo_env_def demo_diddipay_def demo_intent_def

lemma demo_ride_fields [simp]:
  "rd_id demo_ride = 5" "rd_status demo_ride = COMPLETED" "rd_final_fare demo_ride = Some 5000"
  "rd_driver_id demo_ride = Some 107" "rd_platform_commission demo_ride = Some 900"
  "rd_driver_payout_estimate demo_ride = Some 4100" "rd_payment_method demo_ride = CASH"
  "rd_currency demo_ride = ''XOF''" "rd_passenger_user_id demo_ride = 9"
  by (simp_all add: demo_ride_def new_ride_def)

definition demo_topup :: driver_topup where
  "demo_topup = \<lparr>tu_id = 1, tu_driver_id = 107, tu_amount = 5000, tu_currency = ''XOF'',
     tu_method = PM_WAVE, tu_status = TS_SUCCEEDED, tu_payment_intent_id = Some 77,
     tu_business_reference = Some (''diddigo:driver_topup:'' @ uuid_str 1),
     tu_idempotency_key = Some (''diddigo:driver_topup:'' @ uuid_str 1 @ '':v1''),
     tu_provider_status = Some ''succeeded'',
     tu_provider_next_action = next_action_from_intent demo_intent,
     tu_created_at = 0, tu_paid_at = Some 0\<rparr>"

lemma demo_db1_value: "demo_db1 = \<lparr>transactions = [], debts = [], webhook_events = [],
    wallets = [\<lparr>wa_id = 3, wa_driver_id = 107, wa_balance = 5000, wa_currency = ''XOF'', wa_updated_at = Some 0\<rparr>],
    ledger = [topup_entry 2 demo_topup 0], topups = [demo_topup], quotes = [], verifications = [],
    withdrawals = [], next_id = 4\<rparr>"
  by (simp add: demo_db1_def create_topup_def driver_id_for_user_def demo_defs payment_method_of_def
      new_id_def empty_pay_db_def open_return_context_def wallet_payment_status_def text_or_def jget_def
      jor_def payment_status_of_def jkey_def as_uuid_juuid store_topup_def save_topup_def insert_row_def
      credit_topup_def credit_driver_topup_def topup_entry_def record_ledger_entry_once_def
      get_or_create_wallet_def insert_do_nothing_def set_balance_def Let_def demo_topup_def)

lemma demo_db2_facts:
  "wallets demo_db2 = [\<lparr>wa_id = 3, wa_driver_id = 107, wa_balance = 4100, wa_currency = ''XOF'',
     wa_updated_at = Some 10\<rparr>]"
  "ledger demo_db2 = [topup_entry 2 demo_topup 0, ride_entry 5 107 900 demo_ride DEBIT PLATFORM_COMMISSION
      ''Commission DiddiGo sur course cash'' 10]"
  "map tx_status (transactions demo_db2) = [PS_COLLECTED]"
  "withdrawals demo_db2 = []"
  by (simp_all add: demo_db2_def demo_db1_value topup_entry_def demo_topup_def demo_env_def confirm_cash_def cash_tolerance_def find_by_ride_id_def
        scalar_one_or_none_def cash_payment_of_def new_id_def save_transaction_def new_transaction_def
        insert_row_def update_collected_def record_ride_settlement_def record_ledger_entry_once_def
        get_or_create_wallet_def insert_do_nothing_def ride_entry_def le_key_def set_balance_def Let_def)

text \<open>Driver 107 quotes 1000, verifies, and DiddiPay refuses the payout: the amount comes back.\<close>

definition demo_db3 :: pay_db where
  "demo_db3 = snd (transact demo_db1 (quote_withdrawal demo_wallet_env 7 1000 20 demo_db1))"

definition demo_db4 :: pay_db where
  "demo_db4 = snd (request_withdrawal_verification demo_wallet_env 7 ''01'' JNull ''42'' 20 demo_db3)"

definition demo_db5 :: pay_db where
  "demo_db5 = snd (request_withdrawal demo_wallet_env 7 4 ''b'' JNull 5 ''42'' ''01'' 30 demo_db4)"

definition demo_quote :: withdrawal_quote where
  "demo_quote = \<lparr>wq_id = 4, wq_driver_id = 107, wq_amount = 1000, wq_fees = 100, wq_net_amount = 900,
     wq_currency = ''XOF'', wq_expires_at = 20 + seconds 300, wq_consumed_at = None, wq_created_at = 20\<rparr>"

definition demo_verification :: withdrawal_verification where
  "demo_verification = \<lparr>wv_id = 5, wv_driver_id = 107, wv_beneficiary_destination = JNull,
     wv_recipient_phone = ''01'', wv_code_hash = ''42'', wv_expires_at = 20 + seconds 300,
     wv_attempt_count = 0, wv_consumed_at = None, wv_created_at = 20\<rparr>"

lemma demo_strip [simp]: "strip ''01'' = ''01''" "strip ''b'' = ''b''"
  by code_simp+

lemma demo_db4_value: "demo_db4 = demo_db1\<lparr>quotes := [demo_quote], verifications := [demo_verification],
    next_id := 6\<rparr>"
  by (simp add: demo_db4_def demo_db3_def demo_quote_def demo_verification_def demo_db1_value
      quote_withdrawal_def request_withdrawal_verification_def driver_id_for_user_def demo_defs
      get_or_create_wallet_def new_id_def save_withdrawal_quote_def insert_row_def
      find_latest_withdrawal_verification_def save_withdrawal_verification_def Let_def)

definition demo_withdrawal :: driver_withdrawal where
  "demo_withdrawal = (draft_withdrawal 6 107 4 ''b'' JNull 30)\<lparr>wd_amount := 1000, wd_fees := 100,
     wd_net_amount := 900\<rparr>"

definition demo_reserved_db :: pay_db where
  "demo_reserved_db = demo_db1\<lparr>quotes := [demo_quote\<lparr>wq_consumed_at := Some 30\<rparr>],
     verifications := [demo_verification\<lparr>wv_consumed_at := Some 30\<rparr>],
     withdrawals := [demo_withdrawal],
     ledger := [topup_entry 2 demo_topup 0, withdrawal_ledger_entry 7 demo_withdrawal
       WITHDRAWAL_RESERVED DEBIT ''Montant reserve pour retrait chauffeur'' 30],
     wallets := [\<lparr>wa_id = 3, wa_driver_id = 107, wa_balance = 4000, wa_currency = ''XOF'',
       wa_updated_at = Some 30\<rparr>], next_id := 8\<rparr>"

lemma demo_reserved:
  "reserve_verified demo_wallet_env 107 4 ''b'' JNull 5 ''42'' 30 demo_db4
    = Inr (demo_withdrawal, demo_reserved_db)"
  by (simp add: demo_reserved_db_def demo_db4_value demo_db1_value demo_withdrawal_def demo_quote_def demo_verification_def
      reserve_verified_def consume_withdrawal_verification_def demo_wallet_env_def new_id_def
      reserve_withdrawal_from_quote_def draft_withdrawal_def get_or_create_wallet_def insert_row_def
      withdrawal_ledger_entry_def le_key_def topup_entry_def demo_topup_def set_balance_def seconds_def Let_def)

lemma demo_requested:
  "request_withdrawal demo_wallet_env 7 4 ''b'' JNull 5 ''42'' ''01'' 30 demo_db4
    = submit_payout demo_wallet_env 107 demo_withdrawal 30 demo_reserved_db"
proof -
  have "driver_id_for_user demo_wallet_env 7 = Inr 107"
    by (simp add: driver_id_for_user_def demo_wallet_env_def)
  moreover have "find_withdrawal_by_quote_id 4 demo_db4 = None"
    by (simp add: find_withdrawal_by_quote_id_def demo_db4_value demo_db1_value)
  ultimately show ?thesis by (simp add: request_withdrawal_def demo_reserved)
qed

lemma demo_refused: "dp_create_payout (pe_diddipay (we_pay demo_wallet_env)) p k = Inl (ApiError 422 ''REFUSED'')"
  by (simp add: demo_defs)

lemma demo_db5_facts:
  "map wd_status (withdrawals demo_db5) = [WS_RELEASED]"
  "map le_entry_type (ledger demo_db5) = [TOPUP, WITHDRAWAL_RESERVED, WITHDRAWAL_RELEASED]"
  "balance_of demo_db5 107 = 5000"
  by (simp_all add: demo_db5_def demo_requested submit_payout_def demo_reserved_db_def
      mark_withdrawal_provider_state_def insert_withdrawal_ledger_once_def insert_do_nothing_def
      withdrawal_ledger_entry_def le_key_def update_row_def set_balance_def new_id_def demo_db1_value
      demo_withdrawal_def draft_withdrawal_def topup_entry_def demo_topup_def balance_of_def
      demo_refused Let_def)

lemma demo_reachable: "pay_reachable demo_db1" "pay_reachable demo_db2" "pay_reachable demo_db4" "pay_reachable demo_db5"
proof -
  have "pay_step empty_pay_db demo_db1" unfolding demo_db1_def by (rule pay_step.topup)
  moreover have "pay_step demo_db1 demo_db2" unfolding demo_db2_def by (rule pay_step.cash)
  moreover have "pay_step demo_db1 demo_db3" unfolding demo_db3_def by (rule pay_step.quote)
  moreover have "pay_step demo_db3 demo_db4" unfolding demo_db4_def by (rule pay_step.otp)
  moreover have "pay_step demo_db4 demo_db5" unfolding demo_db5_def by (rule pay_step.withdraw)
  ultimately show "pay_reachable demo_db1" "pay_reachable demo_db2" "pay_reachable demo_db4" "pay_reachable demo_db5"
    unfolding pay_reachable_def by (meson rtranclp.rtrancl_into_rtrancl rtranclp.rtrancl_refl)+
qed

section \<open>Balances and the ledger\<close>

text \<open>C1: in every state that requests can reach, a driver's balance is what payouts, top-ups and
  commissions brought, less every withdrawal that was not released.\<close>

lemma reachable_balances:
  assumes "pay_reachable db"
  shows "balance_of db d = income d db - withdrawn (\<lambda>s. s \<noteq> WS_RELEASED) d db"
  using pay_reachable_inv [OF assms] by (intro conservation) (simp add: pay_inv_def)

lemma reachable_balances_witness:
  "pay_reachable demo_db2 \<and> balance_of demo_db2 107 = 4100 \<and> income 107 demo_db2 = 4100"
proof -
  have "withdrawn (\<lambda>s. s \<noteq> WS_RELEASED) 107 demo_db2 = 0" "balance_of demo_db2 107 = 4100"
    by (simp_all add: withdrawn_def balance_of_def demo_db2_facts)
  with reachable_balances [OF demo_reachable(2), of 107] demo_reachable(2) show ?thesis by simp
qed

text \<open>C2: each withdrawal is taken from the balance once and given back at most once: its ledger
  entries add up to its amount, or to nothing when it was released.\<close>

lemma withdrawal_books:
  assumes "pay_reachable db" and "w \<in> set (withdrawals db)"
  shows "(\<Sum>e \<in> entries_of (wd_id w) (ledger db). balance_effect e)
    = (if wd_status w = WS_RELEASED then 0 else - wd_amount w)"
  using pay_reachable_inv [OF assms(1)] assms(2)
  by (intro withdrawal_entries_total) (simp_all add: pay_inv_def)

lemma withdrawal_books_witness:
  "\<exists>w \<in> set (withdrawals demo_db5). wd_status w = WS_RELEASED
    \<and> (\<Sum>e \<in> entries_of (wd_id w) (ledger demo_db5). balance_effect e) = 0"
proof -
  obtain w where w: "withdrawals demo_db5 = [w]" "wd_status w = WS_RELEASED"
    using demo_db5_facts(1) by (auto simp: map_eq_Cons_conv)
  with withdrawal_books [OF demo_reachable(4), of w] show ?thesis by simp
qed

section \<open>Settlement\<close>

text \<open>Who a payment status settles a ride with: the driver, the entry type, the change of the
  balance.\<close>

definition settles :: "ride \<Rightarrow> payment_status \<Rightarrow> (uuid \<times> entry_type \<times> rat) option" where
  "settles ride st =
     (case (rd_driver_id ride, rd_platform_commission ride, rd_driver_payout_estimate ride) of
        (Some d, Some commission, Some payout) \<Rightarrow>
          if rd_payment_method ride = CASH \<and> st = PS_COLLECTED
          then Some (d, PLATFORM_COMMISSION, - commission)
          else if rd_payment_method ride = MOBILE_MONEY \<and> st = PS_SUCCEEDED
          then Some (d, RIDE_PAYOUT, payout) else None
      | _ \<Rightarrow> None)"

lemma settles_none: "settles ride st = None \<Longrightarrow> record_ride_settlement ride st now db = Inr db"
  by (auto simp: settles_def record_ride_settlement_def split: option.splits if_splits)

lemma settles_some:
  assumes "settles ride st = Some (d, t, a)"
  obtains e where "record_ride_settlement ride st now db =
      bindR (record_ledger_entry_once e now (db\<lparr>next_id := Suc (next_id db)\<rparr>)) (\<lambda>(_, db'). Inr db')"
    "le_key e = (d, t, ''ride'', rd_id ride)" "balance_effect e = a" "le_driver_id e = d"
    "le_entry_type e \<noteq> WITHDRAWAL_SUCCEEDED"
  using assms
  by (auto simp: settles_def record_ride_settlement_def new_id_def ride_entry_def le_key_def
      balance_effect_def split: option.splits if_splits)

lemma settle_once:
  assumes inv: "pay_inv db" and due: "settles ride st = Some (d, t, a)"
  shows "\<exists>db1. record_ride_settlement ride st now db = Inr db1
    \<and> balance_of db1 = (if (d, t, ''ride'', rd_id ride) \<in> le_key ` set (ledger db) then balance_of db
        else (balance_of db)(d := balance_of db d + a))
    \<and> (d, t, ''ride'', rd_id ride) \<in> le_key ` set (ledger db1)"
proof -
  let ?db = "db\<lparr>next_id := Suc (next_id db)\<rparr>"
  obtain e where e: "record_ride_settlement ride st now db =
      bindR (record_ledger_entry_once e now ?db) (\<lambda>(_, db'). Inr db')"
    "le_key e = (d, t, ''ride'', rd_id ride)" "balance_effect e = a" "le_driver_id e = d"
    "le_entry_type e \<noteq> WITHDRAWAL_SUCCEEDED"
    using settles_some [OF due] by metis
  have "wallet_inv (wallets ?db) (ledger ?db)" using inv by (simp add: pay_inv_def money_inv_def)
  from pay_ledger.rec_step [where now = now, OF this e(5)] obtain r db1 where
    "record_ledger_entry_once e now ?db = Inr (r, db1)"
    "le_key ` set (ledger db1) = insert (le_key e) (le_key ` set (ledger db))"
    "\<forall>x. balance_of db1 x = balance_of ?db x
      + (if le_key e \<notin> le_key ` set (ledger db) \<and> le_driver_id e = x then balance_effect e else 0)"
    by auto
  moreover have "balance_of ?db = balance_of db" by (simp add: balance_of_def fun_eq_iff)
  ultimately show ?thesis using e by (auto simp: fun_eq_iff)
qed

text \<open>C3: settling a ride moves the driver's balance by the commission (cash) or the payout
  (digital) when no entry of that kind exists for the ride, and by nothing otherwise.\<close>

lemma settlement_effect:
  assumes "pay_inv db" and "settles ride st = Some (d, t, a)"
  shows "\<exists>db1. record_ride_settlement ride st now db = Inr db1
    \<and> balance_of db1 = (if (d, t, ''ride'', rd_id ride) \<in> le_key ` set (ledger db) then balance_of db
        else (balance_of db)(d := balance_of db d + a))
    \<and> (d, t, ''ride'', rd_id ride) \<in> le_key ` set (ledger db1)"
  using assms by (rule settle_once)

lemma settles_demo [simp]: "settles demo_ride PS_COLLECTED = Some (107, PLATFORM_COMMISSION, -900)"
  by (simp add: settles_def)

lemma demo_settled:
  "\<exists>db1. record_ride_settlement demo_ride PS_COLLECTED 10 demo_db1 = Inr db1 \<and> balance_of db1 107 = 4100"
  by (simp add: record_ride_settlement_def record_ledger_entry_once_def ride_entry_def le_key_def
      get_or_create_wallet_def insert_do_nothing_def demo_db1_value topup_entry_def set_balance_def
      new_id_def balance_of_def Let_def)

lemma settlement_effect_witness:
  "\<exists>db1. record_ride_settlement demo_ride PS_COLLECTED 10 demo_db1 = Inr db1 \<and> balance_of db1 107 = 4100"
proof -
  have "(107, PLATFORM_COMMISSION, ''ride'', rd_id demo_ride) \<notin> le_key ` set (ledger demo_db1)"
    "balance_of demo_db1 107 = 5000"
    by (simp_all add: demo_db1_value topup_entry_def le_key_def balance_of_def)
  with settlement_effect [OF pay_reachable_inv [OF demo_reachable(1)] settles_demo, of 10] show ?thesis
    by auto
qed

text \<open>Settling again, at any later time, changes neither a balance nor the ledger: a callback
  that is delivered twice and a sweep that replays it pay once.\<close>

lemma settlement_replay:
  assumes "pay_inv db" and "record_ride_settlement ride st now db = Inr db1"
  shows "\<exists>db2. record_ride_settlement ride st now' db1 = Inr db2
    \<and> balance_of db2 = balance_of db1 \<and> ledger db2 = ledger db1"
proof (cases "settles ride st")
  case None
  with assms(2) show ?thesis by (auto simp: settles_none)
next
  case (Some s)
  then obtain d t a where due: "settles ride st = Some (d, t, a)" by (cases s) auto
  let ?db = "db1\<lparr>next_id := Suc (next_id db1)\<rparr>"
  from settle_once [OF assms(1) due, of now] assms(2)
  have key: "(d, t, ''ride'', rd_id ride) \<in> le_key ` set (ledger ?db)" by simp
  obtain e where e: "record_ride_settlement ride st now' db1 =
      bindR (record_ledger_entry_once e now' ?db) (\<lambda>(_, db'). Inr db')"
    "le_key e = (d, t, ''ride'', rd_id ride)"
    using settles_some [OF due] by metis
  obtain w db2 where g: "get_or_create_wallet (le_driver_id e) (le_currency e) ?db = (w, db2)" by fastforce
  have "balance_of ?db = balance_of db1" by (simp add: balance_of_def fun_eq_iff)
  with get_or_create_wallet_spec [OF g] record_once_dup [of e ?db now'] key e g show ?thesis by simp
qed

lemma settlement_replay_witness:
  "\<exists>db1 db2. record_ride_settlement demo_ride PS_COLLECTED 10 demo_db1 = Inr db1
    \<and> record_ride_settlement demo_ride PS_COLLECTED 99 db1 = Inr db2
    \<and> balance_of db2 107 = 4100"
proof -
  obtain db1 where "record_ride_settlement demo_ride PS_COLLECTED 10 demo_db1 = Inr db1" "balance_of db1 107 = 4100"
    using demo_settled by blast
  moreover from settlement_replay [OF pay_reachable_inv [OF demo_reachable(1)] this(1), of 99]
  obtain db2 where "record_ride_settlement demo_ride PS_COLLECTED 99 db1 = Inr db2"
    "balance_of db2 = balance_of db1" by blast
  ultimately show ?thesis by auto
qed

section \<open>Callbacks\<close>

lemma demo_succeeded: "payment_status_from_diddipay ''succeeded'' = Inr PS_SUCCEEDED"
  by code_simp









lemma truthy_juuid [simp]: "truthy (juuid u)"
  by (simp add: juuid_def uuid_str_def Let_def)



text \<open>Without the configured secret, or with a signature that is not the HMAC of the body, a
  callback is refused before anything is read or written.\<close>

lemma webhook_unauthenticated:
  assumes "str_or (pe_callback_secret env) [] = []
    \<or> str_or sig [] \<noteq> pe_hmac_sha256 env (str_or (pe_callback_secret env) []) raw"
  shows "transact db (apply_diddipay_webhook env raw hdr sig now db)
    = (Inl (if str_or (pe_callback_secret env) [] = [] then ApiError 503 ''PAYMENT_CONFIGURATION_MISSING''
        else ApiError 401 ''PAYMENT_CALLBACK_INVALID''), db)"
  using assms by (auto simp: apply_diddipay_webhook_def authenticate_callback_def Let_def)

lemma webhook_unauthenticated_witness:
  "transact demo_db1 (apply_diddipay_webhook demo_env ''{}'' None (Some ''forged'') 0 demo_db1)
    = (Inl (ApiError 401 ''PAYMENT_CALLBACK_INVALID''), demo_db1)"
  using webhook_unauthenticated [of demo_env "Some ''forged''" "''{}''" demo_db1 None 0]
  by (simp add: demo_env_def str_or_def)

section \<open>Finality\<close>

lemma pay_step_run: "pay_step db db' \<Longrightarrow> pay_step\<^sup>*\<^sup>* db db'"
  by (rule r_into_rtranclp)

text \<open>C5: once a withdrawal has succeeded or been released, no sequence of requests changes whom it
  pays, how much, how it ended or when.\<close>

lemma withdrawal_end_is_final:
  assumes "pay_reachable db" and "w \<in> set (withdrawals db)" and "terminal_withdrawal w"
    and "pay_step\<^sup>*\<^sup>* db db'"
  shows "\<exists>w'. get_row wd_id (wd_id w) (withdrawals db') = Some w' \<and> outcome_of w' = outcome_of w"
proof -
  note inv = pay_reachable_inv [OF assms(1)]
  with assms(2) have "get_row wd_id (wd_id w) (withdrawals db) = Some w"
    by (intro withdrawal_row_by_id) (auto simp: pay_inv_def money_inv_def)
  with inv assms(3) have "ended (wd_id w) w db" by (simp add: ended_def)
  from ended_withdrawal.run_keeps [OF assms(4) this] show ?thesis by (simp add: ended_def)
qed

lemma withdrawal_end_is_final_witness:
  "\<exists>w \<in> set (withdrawals demo_db5). \<exists>w'. wd_status w = WS_RELEASED
    \<and> get_row wd_id (wd_id w) (withdrawals (snd (transact demo_db5 (get_wallet demo_wallet_env 7 demo_db5)))) = Some w'
    \<and> outcome_of w' = outcome_of w"
proof -
  obtain w where w: "withdrawals demo_db5 = [w]" "wd_status w = WS_RELEASED"
    using demo_db5_facts(1) by (auto simp: map_eq_Cons_conv)
  with withdrawal_end_is_final [OF demo_reachable(4), of w, OF _ _ pay_step_run [OF pay_step.wallet]]
  show ?thesis by (fastforce simp: terminal_withdrawal_def)
qed

text \<open>A settled passenger debt is never reopened nor rewritten.\<close>

lemma debt_settlement_is_final:
  assumes "pay_inv db" and "get_row pd_id (pd_id d) (debts db) = Some d" and "pd_status d = DS_SETTLED"
    and "pay_step\<^sup>*\<^sup>* db db'"
  shows "get_row pd_id (pd_id d) (debts db') = Some d"
  using settled_debt_final.run_keeps [OF assms(4), of d] assms(1-3) by (simp add: settled_debt_def)

definition demo_debt :: passenger_debt where
  "demo_debt = \<lparr>pd_id = 50, pd_passenger_user_id = 9, pd_ride_id = 5, pd_amount = 5000,
     pd_status = DS_SETTLED, pd_currency = ''XOF'', pd_reason = ''unpaid'', pd_created_at = 0,
     pd_updated_at = 0, pd_settled_at = Some 1, pd_settled_by = Some 107\<rparr>"

lemma debt_settlement_is_final_witness:
  "get_row pd_id 50 (debts (snd (transact (demo_db1\<lparr>debts := [demo_debt]\<rparr>)
    (request_passenger_debt_cash_settlement 50 9 60 (demo_db1\<lparr>debts := [demo_debt]\<rparr>))))) = Some demo_debt"
  using debt_settlement_is_final [of "demo_db1\<lparr>debts := [demo_debt]\<rparr>" demo_debt,
      OF _ _ _ pay_step_run [OF pay_step.debt_cash]] pay_reachable_inv [OF demo_reachable(1)]
  by (simp add: demo_debt_def)

section \<open>Withdrawals\<close>

lemma balance_of_cong: "wallets db' = wallets db \<Longrightarrow> balance_of db' = balance_of db"
  by (simp add: balance_of_def fun_eq_iff)

lemma balance_set_balance:
  assumes "get_row wa_driver_id d (wallets db) = Some w"
  shows "balance_of (set_balance d b now w db) = (balance_of db)(d := b)"
  using get_row_Some [OF assms]
  by (auto simp: fun_eq_iff balance_of_def set_balance_def get_put_same [OF assms] get_put_other)

lemma reserve_fresh:
  assumes q: "get_row wq_id (wd_quote_id w) (quotes db) = Some q" "wq_consumed_at q = None"
    and r: "reserve_withdrawal_from_quote w now db = Inr (row, db1)"
  shows "wq_amount q \<le> balance_of db (wd_driver_id w)
    \<and> balance_of db1 = (balance_of db)(wd_driver_id w := balance_of db (wd_driver_id w) - wq_amount q)
    \<and> wd_amount row = wq_amount q \<and> wd_status row = WS_RESERVED \<and> wd_driver_id row = wq_driver_id q
    \<and> wq_driver_id q = wd_driver_id w \<and> get_row wq_id (wd_quote_id w) (quotes db1) = Some (q\<lparr>wq_consumed_at := Some now\<rparr>)
    \<and> now < wq_expires_at q \<and> withdrawals db1 = withdrawals db @ [row]
    \<and> (\<forall>x \<in> set (withdrawals db). \<not> wd_clash row x) \<and> wd_payout_id row = None"
proof -
  obtain wallet db0 where g: "get_or_create_wallet (wd_driver_id w) (wq_currency q) db = (wallet, db0)"
    by fastforce
  note spec = get_or_create_wallet_spec [OF g]
  from r q g obtain rows es n where ok: "\<not> wq_expires_at q \<le> now" "wq_driver_id q = wd_driver_id w"
    "\<not> wa_balance wallet < wq_amount q"
    and db1: "db1 = set_balance (wd_driver_id w) (wa_balance wallet - wq_amount q) now wallet
      (db0\<lparr>next_id := n, withdrawals := rows, ledger := es,
        quotes := put_row wq_id (wq_id q) (q\<lparr>wq_consumed_at := Some now\<rparr>) (quotes db0)\<rparr>)"
    and row: "rows = withdrawals db0 @ [row]" "wd_amount row = wq_amount q" "wd_status row = WS_RESERVED"
      "wd_driver_id row = wd_driver_id w"
      "\<forall>x \<in> set (withdrawals db0). \<not> wd_clash row x" "wd_payout_id row = None"
    by (auto simp: reserve_withdrawal_from_quote_def bindR_eq_Inr insert_row_Inr new_id_def Let_def
        split: if_splits)
  have "quotes db0 = quotes db" "withdrawals db0 = withdrawals db" using spec(4) by (simp_all add: money_frame_def)
  moreover have "balance_of db1 = (balance_of db0)(wd_driver_id w := wa_balance wallet - wq_amount q)"
    using spec(1) balance_of_cong unfolding db1 by (subst balance_set_balance) (simp_all add: balance_of_def fun_eq_iff)
  ultimately show ?thesis
    using ok row spec(5,6) get_row_Some [OF q(1)] get_put_same [OF q(1), of "q\<lparr>wq_consumed_at := Some now\<rparr>"]
    by (simp add: db1 set_balance_def)
qed

text \<open>Reserving a fresh quote takes exactly its amount from the driver, who has it, consumes the
  quote, and touches no other balance.\<close>

lemma reserve_effect:
  assumes "get_row wq_id (wd_quote_id w) (quotes db) = Some q" and "wq_consumed_at q = None"
    and "reserve_withdrawal_from_quote w now db = Inr (row, db1)"
  shows "wq_amount q \<le> balance_of db (wd_driver_id w)
    \<and> balance_of db1 = (balance_of db)(wd_driver_id w := balance_of db (wd_driver_id w) - wq_amount q)
    \<and> wd_amount row = wq_amount q \<and> wd_status row = WS_RESERVED \<and> wd_driver_id row = wq_driver_id q
    \<and> get_row wq_id (wd_quote_id w) (quotes db1) = Some (q\<lparr>wq_consumed_at := Some now\<rparr>)
    \<and> now < wq_expires_at q \<and> withdrawals db1 = withdrawals db @ [row]"
  using reserve_fresh [OF assms] by simp

lemma reserve_effect_witness:
  "\<exists>row db1. reserve_withdrawal_from_quote (draft_withdrawal 6 107 4 ''b'' JNull 30) 30 demo_db4 = Inr (row, db1)
    \<and> balance_of db1 107 = 4000 \<and> wd_amount row = 1000"
proof -
  have "\<exists>row db1. reserve_withdrawal_from_quote (draft_withdrawal 6 107 4 ''b'' JNull 30) 30 demo_db4 = Inr (row, db1)"
    by (simp add: demo_db4_value demo_db1_value demo_quote_def new_id_def
      reserve_withdrawal_from_quote_def draft_withdrawal_def get_or_create_wallet_def insert_row_def
      withdrawal_ledger_entry_def le_key_def topup_entry_def demo_topup_def set_balance_def seconds_def Let_def)
  then obtain row db1 where r: "reserve_withdrawal_from_quote (draft_withdrawal 6 107 4 ''b'' JNull 30) 30 demo_db4 = Inr (row, db1)"
    by blast
  have q: "get_row wq_id (wd_quote_id (draft_withdrawal 6 107 4 ''b'' JNull 30)) (quotes demo_db4) = Some demo_quote"
    "wq_consumed_at demo_quote = None" "balance_of demo_db4 107 = 5000" "wq_amount demo_quote = 1000"
    by (simp_all add: demo_db4_value demo_db1_value demo_quote_def draft_withdrawal_def balance_of_def)
  from reserve_effect [OF q(1,2) r] q(3,4) r show ?thesis
    by (auto simp: draft_withdrawal_def)
qed

text \<open>Releasing a withdrawal that was just reserved gives its amount back.\<close>

lemma release_fresh:
  assumes inv: "money_inv db" and ws: "withdrawals db = ws @ [row]"
    and row: "wd_status row = WS_RESERVED" "\<forall>x \<in> set ws. \<not> wd_clash row x" "wd_payout_id row = None"
  shows "\<exists>w' db1. mark_withdrawal_provider_state (wd_id row) WS_FAILED None ps fc fm now db = Inr (w', db1)
    \<and> wd_status w' = WS_RELEASED \<and> w' \<in> set (withdrawals db1)
    \<and> balance_of db1 = (balance_of db)(wd_driver_id row := balance_of db (wd_driver_id row) + wd_amount row)"
proof -
  have get: "get_row wd_id (wd_id row) (withdrawals db) = Some row"
    using inv ws by (intro withdrawal_row_by_id) (auto simp: money_inv_def)
  define r where "r = row\<lparr>wd_provider_status := ps, wd_failure_code := fc, wd_failure_message := fm,
    wd_updated_at := now, wd_status := WS_RELEASED, wd_released_at := Some now\<rparr>"
  obtain inserted db1 where ins:
    "insert_withdrawal_ledger_once r WITHDRAWAL_RELEASED CREDIT ''withdrawal_released'' now db = (inserted, db1)"
    by fastforce
  from settle_entry [OF inv get _ _ _ ins] row(1)
  have e: inserted "wallets db1 = wallets db" "withdrawals db1 = withdrawals db"
    by (auto simp: r_def same_withdrawal_def)
  have up: "update_row wd_id wd_clash r (withdrawals db1) = Inr (put_row wd_id (wd_id row) r (withdrawals db1))"
    using row(2,3) by (auto simp: update_row_def e(3) ws list_ex_iff r_def wd_clash_def)
  obtain wallet where w: "get_row wa_driver_id (wd_driver_id row) (wallets db) = Some wallet"
    using withdrawal_has_wallet [OF inv, of row] ws get_row_None by (metis in_set_conv_decomp not_None_eq)
  let ?db2 = "set_balance (wd_driver_id row) (wa_balance wallet + wd_amount row) now wallet
      (db1\<lparr>withdrawals := put_row wd_id (wd_id row) r (withdrawals db1)\<rparr>)"
  have "mark_withdrawal_provider_state (wd_id row) WS_FAILED None ps fc fm now db = Inr (r, ?db2)"
    using row(1) ins e(1) up w e(2)
    by (simp add: mark_withdrawal_provider_state_def get Let_def r_def)
  moreover have "balance_of ?db2 = (balance_of db)(wd_driver_id row := wa_balance wallet + wd_amount row)"
    using w e(2) by (subst balance_set_balance) (simp_all add: balance_of_def fun_eq_iff)
  moreover have "wa_balance wallet = balance_of db (wd_driver_id row)" using w by (simp add: balance_of_def)
  moreover have "r \<in> set (withdrawals ?db2)" using ws e(3) by (simp add: set_balance_def put_row_def)
  ultimately show ?thesis by (simp add: r_def)
qed

text \<open>C6: when DiddiPay refuses the payout of a new withdrawal (a 4xx answer), the driver gets the
  provider's error, the withdrawal ends released, and every balance is what it was.\<close>

lemma refused_payout_restores:
  assumes inv: "pay_inv db" and d: "driver_id_for_user env u = Inr d" and "strip b \<noteq> []" "phone \<noteq> []"
    and new: "find_withdrawal_by_quote_id q db = None"
    and quote: "get_row wq_id q (quotes db) = Some qt" "wq_consumed_at qt = None"
    and res: "reserve_verified env d q b dest v code now db = Inr (w, db1)"
    and refuse: "dp_create_payout (pe_diddipay (we_pay env)) (payout_request d w)
      (str_or (wd_idempotency_key w) []) = Inl (ApiError s c)" "s < 500"
  shows "\<exists>db2 w'. request_withdrawal env u q b dest v code phone now db = (Inl (ApiError s c), db2)
    \<and> balance_of db2 = balance_of db \<and> wd_status w' = WS_RELEASED \<and> w' \<in> set (withdrawals db2)"
proof -
  from res obtain vs n where r: "reserve_withdrawal_from_quote (draft_withdrawal n d q b dest now) now
      (db\<lparr>verifications := vs, next_id := Suc n\<rparr>) = Inr (w, db1)" (is "reserve_withdrawal_from_quote ?w now ?db = _")
    by (auto simp: reserve_verified_def consume_withdrawal_verification_def new_id_def Let_def
        split: option.splits if_splits sum.splits)
  have m: "money_inv ?db" using inv by (simp add: pay_inv_def money_inv_def)
  have qd: "get_row wq_id (wd_quote_id ?w) (quotes ?db) = Some qt" using quote by (simp add: draft_withdrawal_def)
  have bal: "balance_of ?db = balance_of db" by (rule balance_of_cong) simp
  from reserve_fresh [OF qd quote(2) r] bal
  have f: "balance_of db1 = (balance_of db)(d := balance_of db d - wd_amount w)" "wd_status w = WS_RESERVED"
    "wd_driver_id w = d" "withdrawals db1 = withdrawals db @ [w]"
    "\<forall>x \<in> set (withdrawals db). \<not> wd_clash w x" "wd_payout_id w = None"
    by (auto simp: draft_withdrawal_def)
  have "money_inv db1" using okR_D [OF reserve_money_inv [OF m] r] by simp
  from release_fresh [OF this f(4,2,5,6), of "Some ''rejected''" "Some c" "Some []" now] f(1,3)
  obtain w' db2 where "mark_withdrawal_provider_state (wd_id w) WS_FAILED None (Some ''rejected'') (Some c)
      (Some []) now db1 = Inr (w', db2)" "wd_status w' = WS_RELEASED" "w' \<in> set (withdrawals db2)"
    "balance_of db2 = balance_of db"
    by (auto simp: fun_eq_iff)
  with assms(2-5) res refuse show ?thesis
    by (auto simp: request_withdrawal_def submit_payout_def)
qed

lemma demo_driver [simp]: "driver_id_for_user demo_wallet_env 7 = Inr 107"
  by (simp add: driver_id_for_user_def demo_wallet_env_def)

lemma refused_payout_restores_witness:
  "\<exists>db2 w'. request_withdrawal demo_wallet_env 7 4 ''b'' JNull 5 ''42'' ''01'' 30 demo_db4
      = (Inl (ApiError 422 ''REFUSED''), db2)
    \<and> balance_of db2 107 = 5000 \<and> wd_status w' = WS_RELEASED \<and> w' \<in> set (withdrawals db2)"
proof -
  have q: "get_row wq_id 4 (quotes demo_db4) = Some demo_quote" "wq_consumed_at demo_quote = None"
    "find_withdrawal_by_quote_id 4 demo_db4 = None" "balance_of demo_db4 107 = 5000"
    by (simp_all add: demo_db4_value demo_quote_def find_withdrawal_by_quote_id_def demo_db1_value balance_of_def)
  from refused_payout_restores [OF pay_reachable_inv [OF demo_reachable(3)] demo_driver _ _ q(3,1,2)
      demo_reserved demo_refused] q(4)
  show ?thesis by fastforce
qed

text \<open>C7: a wrong code is answered with an error and leaves the stored verification as it was: the
  attempt that the repository counts is rolled back with the request.\<close>

lemma wrong_code_not_counted:
  assumes "driver_id_for_user env u = Inr d" and "strip b \<noteq> []" and "phone \<noteq> []"
    and "find_withdrawal_by_quote_id q db = None"
    and row: "get_row wv_id v (verifications db) = Some row" and "wv_driver_id row = d"
    and "wv_consumed_at row = None" and "now < wv_expires_at row"
    and "wv_attempt_count row < we_otp_max_attempts env" and "wv_code_hash row \<noteq> we_otp_hash env code"
  shows "request_withdrawal env u q b dest v code phone now db
    = (Inl (if wv_attempt_count row + 1 < we_otp_max_attempts env
            then ApiError 400 ''WITHDRAWAL_VERIFICATION_INVALID''
            else ApiError 429 ''WITHDRAWAL_VERIFICATION_LOCKED''), db)"
  using assms
  by (auto simp: request_withdrawal_def reserve_verified_def consume_withdrawal_verification_def Let_def)

lemma wrong_code_not_counted_witness:
  "request_withdrawal demo_wallet_env 7 4 ''b'' JNull 5 ''41'' ''01'' 30 demo_db4
    = (Inl (ApiError 400 ''WITHDRAWAL_VERIFICATION_INVALID''), demo_db4)"
proof -
  have "get_row wv_id 5 (verifications demo_db4) = Some demo_verification"
    "find_withdrawal_by_quote_id 4 demo_db4 = None"
    by (simp_all add: demo_db4_value demo_verification_def find_withdrawal_by_quote_id_def demo_db1_value)
  with wrong_code_not_counted [OF demo_driver, of "''b''" "''01''" 4 demo_db4 5 demo_verification 30 "''41''" JNull]
  show ?thesis by (simp add: demo_verification_def demo_wallet_env_def seconds_def)
qed

section \<open>Cash\<close>

text \<open>On a completed ride with a final fare, the driver's declared amount is refused exactly when
  it is off by more than 200 XOF and more than a tenth of the fare.\<close>

lemma cash_tolerance_exact:
  assumes "pe_find_ride env rid = Some ride" and "rd_status ride = COMPLETED" and "rd_final_fare ride = Some f"
  shows "confirm_cash env rid amount who now db = Inl (ApiError 422 ''AMOUNT_MISMATCH'')
    \<longleftrightarrow> 200 < \<bar>amount - f\<bar> \<and> f / 10 < \<bar>amount - f\<bar>"
proof -
  have rec: "record_ledger_entry_once e now db' \<noteq> Inl (ApiError s c)" for e db' s c
    by (auto simp: record_ledger_entry_once_def Let_def split: prod.split option.split)
  have "find_by_ride_id rid db \<noteq> Inl (ApiError s c)"
    "cash_payment_of rid a cur now existing db' \<noteq> Inl (ApiError s c)"
    "update_collected i who a now db' \<noteq> Inl (ApiError s c)"
    "record_ride_settlement ride st now db' \<noteq> Inl (ApiError s c)" for a cur existing db' i st s c
    using rec by (auto simp: find_by_ride_id_def scalar_one_or_none_def cash_payment_of_def
        save_transaction_def insert_row_def new_id_def update_collected_def record_ride_settlement_def
        bindR_eq_Inl Let_def split: list.splits option.split)
  then show ?thesis
    using assms by (auto simp: confirm_cash_def bindR_eq_Inl cash_tolerance_def)
qed

lemma cash_tolerance_exact_witness:
  "confirm_cash demo_env 5 4300 107 10 demo_db1 = Inl (ApiError 422 ''AMOUNT_MISMATCH'')
    \<and> confirm_cash demo_env 5 4500 107 10 demo_db1 \<noteq> Inl (ApiError 422 ''AMOUNT_MISMATCH'')"
proof -
  have r: "pe_find_ride demo_env 5 = Some demo_ride" by (simp add: demo_env_def)
  from cash_tolerance_exact [OF r demo_ride_fields(2,3), of 4300 107 10 demo_db1]
    cash_tolerance_exact [OF r demo_ride_fields(2,3), of 4500 107 10 demo_db1]
  show ?thesis by simp
qed

lemma distinct_filter_single:
  "distinct (map f xs) \<Longrightarrow> x \<in> set xs \<Longrightarrow> filter (\<lambda>y. f y = f x) xs = [x]"
  by (induction xs) (auto simp: filter_empty_conv, metis image_eqI)

lemma settlement_frame:
  assumes "pay_inv db" and "record_ride_settlement ride st now db = Inr db1"
  shows "transactions db1 = transactions db"
proof (cases "settles ride st")
  case (Some s)
  then obtain d t a where due: "settles ride st = Some (d, t, a)" by (cases s) auto
  let ?db = "db\<lparr>next_id := Suc (next_id db)\<rparr>"
  obtain e where e: "record_ride_settlement ride st now db =
      bindR (record_ledger_entry_once e now ?db) (\<lambda>(_, db'). Inr db')"
    "le_key e = (d, t, ''ride'', rd_id ride)" "le_entry_type e \<noteq> WITHDRAWAL_SUCCEEDED"
    using settles_some [OF due] by metis
  have "money_inv ?db" using assms(1) by (simp add: pay_inv_def money_inv_def)
  moreover have "le_reference_type e \<noteq> ''driver_withdrawal''" using e(2) by (simp add: le_key_def)
  ultimately show ?thesis
    using okR_D [OF money_inv_record_once [of ?db e now]] e(3) assms(2)
    unfolding e(1) by (auto simp: bindR_eq_Inr money_frame_def)
qed (use assms in \<open>simp add: settles_none\<close>)

text \<open>A confirmation that succeeds leaves the ride's one payment collected in cash, for the amount
  declared, by the collector, now; and it makes no second transaction.\<close>

lemma cash_confirmed:
  assumes "pay_inv db" and "confirm_cash env rid amount who now db = Inr (p, db1)"
  shows "\<exists>t. filter (\<lambda>t. tx_ride_id t = rid) (transactions db1) = [t] \<and> tx_status t = PS_COLLECTED
    \<and> tx_method t = PM_CASH \<and> tx_amount t = amount \<and> tx_collected_by t = Some who
    \<and> tx_collected_at t = Some now"
proof -
  from assms(2) obtain ride existing t0 db0 t db2 where
    f: "find_by_ride_id rid db = Inr existing" and
    c: "cash_payment_of rid amount (rd_currency ride) now existing db = Inr (t0, db0)" and
    u: "update_collected (tx_id t0) who amount now db0 = Inr (t, db2)" and
    s: "record_ride_settlement ride (tx_status t) now db2 = Inr db1"
    by (auto simp: confirm_cash_def bindR_eq_Inr split: option.splits if_splits)
  have t0: "t0 \<in> set (transactions db0) \<and> tx_ride_id t0 = rid"
    using c f by (auto simp: cash_payment_of_def save_transaction_def bindR_eq_Inr insert_row_Inr
        new_transaction_def find_by_ride_id_def scalar_one_or_none_Some filter_eq_Cons_iff
        split: option.splits prod.splits)
  have i0: "pay_inv db0"
    using okR_D [OF pay_guarded.inv_cash_payment_of [OF assms(1) f, where Q = "\<lambda>x. pay_inv (snd x)"] c] by simp
  have i2: "pay_inv db2"
    using okR_D [OF pay_guarded.g_update_collected [OF i0] u] by simp
  obtain r where r: "get_row tx_id (tx_id t0) (transactions db0) = Some r"
    and t: "t = r\<lparr>tx_collected_by := Some who, tx_amount := amount, tx_collected_at := Some now,
      tx_method := PM_CASH, tx_status := PS_COLLECTED\<rparr>"
    and db2: "db2 = db0\<lparr>transactions := put_row tx_id (tx_id t0) t (transactions db0)\<rparr>"
    using u by (auto simp: update_collected_def Let_def split: option.splits)
  have "r = t0"
    using get_row_Some [OF r] t0 i0 by (auto simp: pay_inv_def distinct_map inj_on_def)
  with t0 t have "tx_ride_id t = rid" by simp
  moreover have "t \<in> set (transactions db2)"
    using get_row_Some [OF get_put_same [OF r, of t]] t \<open>r = t0\<close> by (simp add: db2)
  ultimately have "filter (\<lambda>x. tx_ride_id x = rid) (transactions db2) = [t]"
    using i2 distinct_filter_single [of tx_ride_id "transactions db2" t] by (auto simp: pay_inv_def)
  with settlement_frame [OF i2 s] t show ?thesis by simp
qed

lemma cash_confirmed_witness:
  "\<exists>p db1 t. confirm_cash demo_env 5 5000 107 10 demo_db1 = Inr (p, db1)
    \<and> filter (\<lambda>t. tx_ride_id t = 5) (transactions db1) = [t] \<and> tx_status t = PS_COLLECTED"
proof -
  have "\<exists>p db1. confirm_cash demo_env 5 5000 107 10 demo_db1 = Inr (p, db1)"
    by (simp add: demo_db1_value topup_entry_def demo_topup_def demo_env_def confirm_cash_def
        cash_tolerance_def find_by_ride_id_def
        scalar_one_or_none_def cash_payment_of_def new_id_def save_transaction_def new_transaction_def
        insert_row_def update_collected_def record_ride_settlement_def record_ledger_entry_once_def
        get_or_create_wallet_def insert_do_nothing_def ride_entry_def le_key_def set_balance_def Let_def)
  with cash_confirmed [OF pay_reachable_inv [OF demo_reachable(1)], of demo_env 5 5000 107 10]
  show ?thesis by blast
qed

section \<open>Reconciliation\<close>

definition report_adds_up :: "reconciliation_report \<Rightarrow> bool" where
  "report_adds_up r \<longleftrightarrow> rr_checked r = rr_updated r + rr_unchanged r + rr_missing r + rr_mismatched r + rr_errors r
     \<and> length (rr_updated_references r) = rr_updated r"

lemma count_adds_up: "report_adds_up r \<Longrightarrow> report_adds_up (count oc (check_one r))"
  by (cases oc) (simp_all add: report_adds_up_def check_one_def)

lemma count_checked: "rr_checked (count oc (check_one r)) = Suc (rr_checked r)"
  by (cases oc) (simp_all add: check_one_def)

lemma reconciled_Inr:
  "reconciled f row s = Inr s' \<Longrightarrow> \<exists>oc db. s' = (count oc (check_one (fst s)), db)"
  by (cases s) (auto simp: reconciled_def bindR_eq_Inr)

lemma sweep_adds_up:
  "foldR (reconciled f) rows s = Inr s' \<Longrightarrow> report_adds_up (fst s) \<Longrightarrow>
    report_adds_up (fst s') \<and> rr_checked (fst s') = rr_checked (fst s) + length rows"
proof (induction rows arbitrary: s)
  case (Cons row rows)
  from Cons.prems(1) obtain s1 where s1: "reconciled f row s = Inr s1" "foldR (reconciled f) rows s1 = Inr s'"
    by (auto simp: bindR_eq_Inr)
  from reconciled_Inr [OF s1(1)] obtain oc db where "s1 = (count oc (check_one (fst s)), db)" by blast
  with Cons.IH [OF s1(2)] Cons.prems(2) show ?case by (simp add: count_adds_up count_checked)
qed simp

text \<open>A payment of ride 5 that waits for its callback, one whose amount differs from DiddiPay's, and
  a provider whose payouts carry a broken amount.\<close>

definition demo_waiting :: "rat \<Rightarrow> transaction" where
  "demo_waiting amount = (new_transaction 1 5 amount ''XOF'' PM_WAVE PS_PENDING 0)\<lparr>tx_payment_intent_id := Some 77\<rparr>"

definition demo_waiting_db :: "rat \<Rightarrow> pay_db" where
  "demo_waiting_db amount = empty_pay_db\<lparr>transactions := [demo_waiting amount]\<rparr>"

definition demo_broken :: pay_env where
  "demo_broken = demo_env\<lparr>pe_diddipay := demo_diddipay\<lparr>dp_get_payout_by_business_reference :=
     (\<lambda>_. Inr (Some [(''amount'', JStr ''x'')]))\<rparr>\<rparr>"

definition demo_broken_db :: pay_db where
  "demo_broken_db = empty_pay_db\<lparr>withdrawals := [draft_withdrawal 6 107 4 ''b'' JNull 0]\<rparr>"

lemma demo_row_updated:
  "reconcile_transaction_row demo_env now (demo_waiting 5000) (demo_waiting_db 5000)
    = Inr (UPDATED (ride_reference 5), empty_pay_db\<lparr>transactions := [(demo_waiting 5000)\<lparr>tx_status := PS_SUCCEEDED,
        tx_provider_status := Some ''succeeded'', tx_paid_at := Some now, tx_collected_at := Some now,
        tx_provider_next_action := next_action_from_intent demo_intent\<rparr>]\<rparr>)"
  by (simp add: reconcile_transaction_row_def demo_waiting_def demo_waiting_db_def new_transaction_def demo_env_def
      demo_diddipay_def demo_intent_def read_intent_def intent_mismatch_reason_def demo_succeeded text_or_def jget_def jor_def
      apply_transaction_status_def mark_external_status_def record_ride_settlement_def empty_pay_db_def Let_def
      str_or_def jstr_opt_def)

text \<open>A sweep that returns has counted every row it looked at under exactly one outcome, has
  named each row it changed, and has looked at no more than the limit in each of the three tables.\<close>

lemma sweep_report:
  assumes "reconcile_pending env limit min_age max_age now db = Inr (r, db1)"
  shows "rr_checked r = rr_updated r + rr_unchanged r + rr_missing r + rr_mismatched r + rr_errors r
    \<and> length (rr_updated_references r) = rr_updated r \<and> rr_checked r \<le> 3 * limit"
proof -
  let ?b = "now - seconds min_age" and ?a = "now - seconds max_age"
  from assms obtain r1 d1 r2 d2 where
    1: "foldR (reconciled (reconcile_transaction_row env now)) (list_stale_transactions ?b ?a limit db) (empty_report, db) = Inr (r1, d1)" and
    2: "foldR (reconciled (reconcile_topup_row env now)) (list_stale_topups ?b ?a limit d1) (r1, d1) = Inr (r2, d2)" and
    3: "foldR (reconciled (reconcile_withdrawal_row env now)) (list_stale_withdrawals ?b limit d2) (r2, d2) = Inr (r, db1)"
    by (auto simp: reconcile_pending_def Let_def bindR_eq_Inr)
  have "report_adds_up empty_report" "rr_checked empty_report = 0"
    by (simp_all add: report_adds_up_def empty_report_def)
  with sweep_adds_up [OF 1] sweep_adds_up [OF 2] sweep_adds_up [OF 3]
  have r: "report_adds_up r" "rr_checked r = length (list_stale_transactions ?b ?a limit db)
      + length (list_stale_topups ?b ?a limit d1) + length (list_stale_withdrawals ?b limit d2)" by simp_all
  have "length (list_stale_transactions ?b ?a limit db) \<le> limit"
    "length (list_stale_topups ?b ?a limit d1) \<le> limit" "length (list_stale_withdrawals ?b limit d2) \<le> limit"
    by (simp_all add: list_stale_transactions_def list_stale_topups_def list_stale_withdrawals_def)
  with r show ?thesis unfolding report_adds_up_def by linarith
qed

lemma sweep_report_witness:
  "\<exists>r db1. reconcile_pending demo_env 10 60 86400 (seconds 100) (demo_waiting_db 5000) = Inr (r, db1)
    \<and> rr_updated r = 1 \<and> rr_checked r \<le> 30"
proof -
  have "list_stale_transactions (seconds 100 - seconds 60) (seconds 100 - seconds 86400) 10 (demo_waiting_db 5000)
      = [demo_waiting 5000]"
    by (simp add: list_stale_transactions_def demo_waiting_db_def demo_waiting_def new_transaction_def seconds_def PENDING_PAYMENT_STATUSES_def)
  then obtain r db1 where r: "reconcile_pending demo_env 10 60 86400 (seconds 100) (demo_waiting_db 5000) = Inr (r, db1)"
    "rr_updated r = 1"
    by (simp add: reconcile_pending_def reconciled_def demo_row_updated list_stale_topups_def
        list_stale_withdrawals_def empty_pay_db_def empty_report_def check_one_def Let_def)
  from sweep_report [OF r(1)] r show ?thesis by auto
qed

text \<open>A sweep writes only rows it reports as updated: when a payment or a top-up is missing,
  mismatched, in error or unchanged, the database is left as it was.\<close>

lemma sweep_writes_only_updates:
  assumes "reconcile_transaction_row env now t db = Inr (oc, db1) \<or> reconcile_topup_row env now u db = Inr (oc, db1)"
    and "\<forall>ref. oc \<noteq> UPDATED ref"
  shows "db1 = db"
  using assms
  by (auto simp: reconcile_transaction_row_def reconcile_topup_row_def bindR_eq_Inr Let_def
      split: sum.splits if_splits)

lemma sweep_writes_only_updates_witness:
  "reconcile_transaction_row demo_env 9 (demo_waiting 1) (demo_waiting_db 1) = Inr (MISMATCHED, demo_waiting_db 1)"
proof -
  have "reconcile_transaction_row demo_env 9 (demo_waiting 1) (demo_waiting_db 1) = Inr (MISMATCHED, demo_waiting_db 1)"
    by (simp add: reconcile_transaction_row_def demo_waiting_def new_transaction_def demo_env_def
      demo_diddipay_def demo_intent_def read_intent_def intent_mismatch_reason_def jget_def Let_def)
  with sweep_writes_only_updates [where oc = MISMATCHED] show ?thesis by blast
qed

lemma read_intent_not_updated: "read_intent dp i \<noteq> Inl (UPDATED ref)"
  by (simp add: read_intent_def split: option.split sum.split)

text \<open>C8: repairing a payment converges: once a row was updated, reading the same answer of
  DiddiPay again finds it unchanged and writes nothing.\<close>

lemma sweep_converges:
  assumes inv: "pay_inv db" and t: "get_row tx_id (tx_id t) (transactions db) = Some t"
    and up: "reconcile_transaction_row env now t db = Inr (UPDATED ref, db1)"
  shows "\<exists>t'. get_row tx_id (tx_id t) (transactions db1) = Some t'
    \<and> reconcile_transaction_row env now' t' db1 = Inr (UNCHANGED, db1)"
proof -
  from up obtain intent s x where i: "read_intent (pe_diddipay env) (tx_payment_intent_id t) = Inr intent"
    "intent_mismatch_reason intent (tx_amount t) (tx_currency t) (tx_business_reference t) = Inr None"
    "payment_status_from_diddipay (text_or intent ''status'' []) = Inr s"
    and ap: "apply_transaction_status env t s (text_or intent ''status'' [])
      (if s = PS_SUCCEEDED then Some now else None) (Write (next_action_from_intent intent)) now db = Inr (x, db1)"
    using read_intent_not_updated
    by (fastforce simp: reconcile_transaction_row_def bindR_eq_Inr Let_def split: sum.splits if_splits)
  from ap obtain t' d where m: "mark_external_status (tx_id t) s (Some (text_or intent ''status'' []))
      (if s = PS_SUCCEEDED then Some now else None) (Write (next_action_from_intent intent)) db = Inr (t', d)"
    and d: "transactions db1 = transactions d"
    using settlement_frame okR_D [OF pay_guarded.g_mark_external [OF inv]]
    by (fastforce simp: apply_transaction_status_def bindR_eq_Inr split: option.splits)
  from m t have t': "tx_status t' = s" "tx_provider_next_action t' = next_action_from_intent intent"
    "tx_payment_intent_id t' = tx_payment_intent_id t" "tx_amount t' = tx_amount t"
    "tx_currency t' = tx_currency t" "tx_business_reference t' = tx_business_reference t"
    "tx_id t' = tx_id t" "transactions d = put_row tx_id (tx_id t) t' (transactions db)"
    by (auto simp: mark_external_status_def Let_def split: if_splits)
  with i have "reconcile_transaction_row env now' t' db1 = Inr (UNCHANGED, db1)"
    by (simp add: reconcile_transaction_row_def Let_def)
  with d t'(7,8) get_put_same [OF t, of t'] show ?thesis by simp
qed

lemma sweep_converges_witness:
  "\<exists>db1 t'. reconcile_transaction_row demo_env 9 (demo_waiting 5000) (demo_waiting_db 5000)
      = Inr (UPDATED (ride_reference 5), db1)
    \<and> reconcile_transaction_row demo_env 11 t' db1 = Inr (UNCHANGED, db1)"
proof -
  have "pay_inv (demo_waiting_db 5000)"
    using pay_inv_empty by (simp add: demo_waiting_db_def pay_inv_def money_inv_def empty_pay_db_def)
  moreover have "get_row tx_id (tx_id (demo_waiting 5000)) (transactions (demo_waiting_db 5000)) = Some (demo_waiting 5000)"
    by (simp add: demo_waiting_db_def)
  ultimately show ?thesis
    using sweep_converges [where env = demo_env and now = 9 and now' = 11] demo_row_updated by blast
qed

lemma foldR_raises:
  "x \<in> set xs \<Longrightarrow> (\<And>s. \<exists>e. f x s = Inl e) \<Longrightarrow> \<exists>e. foldR f xs s = Inl e"
proof (induction xs arbitrary: s)
  case (Cons a xs)
  show ?case
  proof (cases "f a s")
    case (Inr s')
    with Cons.prems(2) [of s] have "x \<noteq> a" by auto
    with Cons.prems Cons.IH [of s'] Inr show ?thesis by auto
  qed simp
qed simp

text \<open>One payout whose amount is not a number ends the whole sweep with an exception, against
  the intention that a sweep survives a bad row: only \<open>ApiError\<close> is caught, and only from the
  client.\<close>

lemma bad_payout_ends_sweep:
  assumes "list_stale_transactions (now - seconds a) (now - seconds b) n db = []"
    and "list_stale_topups (now - seconds a) (now - seconds b) n db = []"
    and "w \<in> set (list_stale_withdrawals (now - seconds a) n db)"
    and "fetch_payout (pe_diddipay env) w = Inr (Some payout)"
    and "py_int (jor (jget payout ''amount'') (JInt (-1))) = Inl e"
  shows "\<exists>e. reconcile_pending env n a b now db = Inl e"
proof -
  have "\<exists>e. reconciled (reconcile_withdrawal_row env now) w s = Inl e" for s
    using assms(4,5) by (cases s) (simp add: reconciled_def reconcile_withdrawal_row_def same_money_def)
  from foldR_raises [where f = "reconciled (reconcile_withdrawal_row env now)" and s = "(empty_report, db)", OF assms(3) this] assms(1,2) show ?thesis
    by (simp add: reconcile_pending_def Let_def)
qed

lemma bad_payout_ends_sweep_witness:
  "\<exists>e. reconcile_pending demo_broken 10 60 86400 (seconds 100) demo_broken_db = Inl e"
proof (rule bad_payout_ends_sweep)
  show "draft_withdrawal 6 107 4 ''b'' JNull 0 \<in> set (list_stale_withdrawals (seconds 100 - seconds 60) 10 demo_broken_db)"
    by (simp add: list_stale_withdrawals_def demo_broken_db_def draft_withdrawal_def seconds_def)
  show "fetch_payout (pe_diddipay demo_broken) (draft_withdrawal 6 107 4 ''b'' JNull 0) = Inr (Some [(''amount'', JStr ''x'')])"
    by (simp add: fetch_payout_def demo_broken_def draft_withdrawal_def demo_env_def)
  show "py_int (jor (jget [(''amount'', JStr ''x'')] ''amount'') (JInt (-1))) = Inl PyValueError"
    by code_simp
qed (simp_all add: list_stale_transactions_def list_stale_topups_def demo_broken_db_def empty_pay_db_def)

end
