(* ===== verification/Ride_Pricing.thy ===== *)
theory Ride_Pricing
  imports Ride_Entities
begin

text \<open>
  The fare arithmetic of app\_base/modules/ride/application/services.py: \<open>_pricing_breakdown\<close>
  and the helpers around it, the supplement catalogue, the waiting charges and the split of a
  final fare. Decimals round to 28 digits (\<open>dadd\<close>, \<open>dmul\<close>, \<open>ddiv\<close>), \<open>float(...)\<close> to 53 bits;
  \<open>quantize\<close> of the stored amounts (two decimals) is exact.
\<close>

section \<open>Constants and enums\<close>

definition DEFAULT_BASE_FARE :: rat where "DEFAULT_BASE_FARE = 250"

definition DEFAULT_PRICE_PER_KM :: rat where "DEFAULT_PRICE_PER_KM = 240"

definition DEFAULT_PRICE_PER_MIN :: rat where "DEFAULT_PRICE_PER_MIN = 0"

definition SURGE_CAP :: rat where "SURGE_CAP = 8 / 5"

definition vehicle_category_of :: "string \<Rightarrow> exn + vehicle_category" where
  "vehicle_category_of value =
     (if value = ''standard'' then Inr VC_STANDARD
      else if value = ''comfort'' then Inr VC_COMFORT
      else if value = ''van'' then Inr VC_VAN
      else Inl (ApiError 422 ''INVALID_VEHICLE_CATEGORY''))"

definition comfort_level_of :: "string \<Rightarrow> exn + comfort_level" where
  "comfort_level_of value =
     (if value = ''standard'' then Inr CL_STANDARD
      else if value = ''comfort'' then Inr CL_COMFORT
      else if value = ''premium'' then Inr CL_PREMIUM
      else Inl (ApiError 422 ''INVALID_COMFORT_LEVEL''))"

definition ride_payment_method_of :: "string \<Rightarrow> exn + ride_payment_method" where
  "ride_payment_method_of value =
     (if value = ''cash'' then Inr CASH
      else if value = ''mobile_money'' then Inr MOBILE_MONEY
      else Inl (ApiError 422 ''INVALID_PAYMENT_METHOD''))"

fun comfort_multiplier :: "comfort_level \<Rightarrow> rat" where
  "comfort_multiplier CL_STANDARD = 1"
| "comfort_multiplier CL_COMFORT = 23 / 20"
| "comfort_multiplier CL_PREMIUM = 13 / 10"

lemma category_roundtrip: "vehicle_category_of (vehicle_category_value c) = Inr c"
  by (cases c) (simp_all add: vehicle_category_of_def)

lemma comfort_roundtrip: "comfort_level_of (comfort_level_value c) = Inr c"
  by (cases c) (simp_all add: comfort_level_of_def)

lemma comfort_multiplier_ge_1: "1 \<le> comfort_multiplier c"
  by (cases c) simp_all

section \<open>The fare of a distance and a duration\<close>

record fare_breakdown =
  fb_base_fare :: rat
  fb_distance_fare :: rat
  fb_duration_fare :: rat
  fb_total_fare :: rat
  fb_platform_commission :: rat
  fb_driver_payout_estimate :: rat

text \<open>\<open>rate\<close> is \<open>settings.diddigo_commission_rate\<close>.\<close>

definition pricing_breakdown ::
  "rat \<Rightarrow> rat \<Rightarrow> int \<Rightarrow> rat \<Rightarrow> rat \<Rightarrow> rat \<Rightarrow> rat \<Rightarrow> rat \<Rightarrow> fare_breakdown" where
  "pricing_breakdown rate distance_km duration_seconds base_fare price_per_km price_per_min
       surge_multiplier comfort =
     (let duration_minutes = ddiv (of_int duration_seconds) 60;
          distance_fare = dmul distance_km price_per_km;
          duration_fare = dmul duration_minutes price_per_min;
          total_fare = dmul (dmul (dadd (dadd base_fare distance_fare) duration_fare) comfort)
            surge_multiplier;
          rounded_total = of_int (round_float total_fare);
          platform_commission = of_int (round_float (dmul rounded_total rate))
      in \<lparr>fb_base_fare = base_fare,
          fb_distance_fare = of_int (round_float distance_fare),
          fb_duration_fare = of_int (round_float duration_fare),
          fb_total_fare = rounded_total,
          fb_platform_commission = platform_commission,
          fb_driver_payout_estimate = dsub rounded_total platform_commission\<rparr>)"

text \<open>
  The estimate as the API returns it. Its Decimals become floats there and are read back with
  \<open>Decimal(str(...))\<close>: a decimal of up to 15 digits survives, so they are kept as they are.
\<close>

record fare_estimate =
  fe_estimated_fare :: int
  fe_currency :: string
  fe_distance_km :: rat
  fe_duration_seconds :: int
  fe_surge_multiplier :: rat
  fe_surge_cap :: rat
  fe_comfort_multiplier :: rat
  fe_base_fare :: int
  fe_distance_fare :: int
  fe_duration_fare :: int
  fe_commission_rate :: rat
  fe_platform_commission :: int
  fe_driver_payout_estimate :: int

definition pricing_response ::
  "rat \<Rightarrow> rat \<Rightarrow> int \<Rightarrow> fare_breakdown \<Rightarrow> rat \<Rightarrow> comfort_level \<Rightarrow> fare_estimate" where
  "pricing_response rate distance_km duration_seconds pricing surge_multiplier comfort =
     \<lparr>fe_estimated_fare = py_trunc (fb_total_fare pricing), fe_currency = ''XOF'',
      fe_distance_km = distance_km, fe_duration_seconds = duration_seconds,
      fe_surge_multiplier = surge_multiplier, fe_surge_cap = SURGE_CAP,
      fe_comfort_multiplier = comfort_multiplier comfort,
      fe_base_fare = py_trunc (fb_base_fare pricing),
      fe_distance_fare = py_trunc (fb_distance_fare pricing),
      fe_duration_fare = py_trunc (fb_duration_fare pricing),
      fe_commission_rate = rate,
      fe_platform_commission = py_trunc (fb_platform_commission pricing),
      fe_driver_payout_estimate = py_trunc (fb_driver_payout_estimate pricing)\<rparr>"

text \<open>The rates that a ride was priced with, read back from its parts.\<close>

definition infer_price_per_km :: "ride \<Rightarrow> rat" where
  "infer_price_per_km ride = (case (rd_distance_fare ride, rd_distance_km ride) of
       (Some fare, Some km) \<Rightarrow> if 0 < km then ddiv fare km else DEFAULT_PRICE_PER_KM
     | _ \<Rightarrow> DEFAULT_PRICE_PER_KM)"

definition infer_price_per_min :: "ride \<Rightarrow> rat" where
  "infer_price_per_min ride = (case (rd_duration_fare ride, rd_duration_seconds ride) of
       (Some fare, Some secs) \<Rightarrow>
         if 0 < secs then
           let duration_minutes = ddiv (of_int secs) 60
           in if 0 < duration_minutes then ddiv fare duration_minutes else DEFAULT_PRICE_PER_MIN
         else DEFAULT_PRICE_PER_MIN
     | _ \<Rightarrow> DEFAULT_PRICE_PER_MIN)"

section \<open>Supplements\<close>

definition SUPPLEMENT_FIXED_AMOUNTS :: "(string \<times> rat) list" where
  "SUPPLEMENT_FIXED_AMOUNTS =
     [(''toll'', 500), (''parking'', 200), (''baggage_standard'', 500), (''baggage_large'', 1000)]"

definition SUPPLEMENT_OTHER_MAX :: rat where "SUPPLEMENT_OTHER_MAX = 1000"

definition supplement_amount :: "string \<Rightarrow> rat option \<Rightarrow> exn + rat" where
  "supplement_amount supplement_type requested_amount =
     (case map_of SUPPLEMENT_FIXED_AMOUNTS supplement_type of
        Some fixed \<Rightarrow>
          if requested_amount \<noteq> None \<and> requested_amount \<noteq> Some fixed
          then Inl (ApiError 422 ''INVALID_SUPPLEMENT_AMOUNT'') else Inr fixed
      | None \<Rightarrow>
        if supplement_type \<noteq> ''other'' then Inl (ApiError 422 ''INVALID_SUPPLEMENT_TYPE'')
        else case requested_amount of
            None \<Rightarrow> Inl (ApiError 422 ''INVALID_SUPPLEMENT_AMOUNT'')
          | Some a \<Rightarrow>
            if a \<le> 0 \<or> SUPPLEMENT_OTHER_MAX < a
            then Inl (ApiError 422 ''INVALID_SUPPLEMENT_AMOUNT'') else Inr a)"

section \<open>Waiting and the final fare\<close>

text \<open>\<open>math.ceil(delta.total_seconds())\<close> and \<open>int(delta.total_seconds())\<close>; time is in microseconds.\<close>

definition ceil_seconds :: "int \<Rightarrow> int" where
  "ceil_seconds delta = - ((- delta) div seconds 1)"

definition int_seconds :: "int \<Rightarrow> int" where
  "int_seconds delta = (if 0 \<le> delta then delta div seconds 1 else - ((- delta) div seconds 1))"

definition waiting_elapsed :: "datetime \<Rightarrow> datetime \<Rightarrow> int" where
  "waiting_elapsed started_at now = max 0 (ceil_seconds (now - started_at))"

definition billed_minutes :: "int \<Rightarrow> int" where
  "billed_minutes elapsed = max 1 (- ((- elapsed) div 60))"

definition pre_ride_fee :: "int \<Rightarrow> int \<Rightarrow> int \<Rightarrow> rat" where
  "pre_ride_fee price_per_minute free_seconds elapsed =
     (let billable_seconds = max 0 (elapsed - free_seconds)
      in of_int (round_half_even (ddiv (dmul (of_int price_per_minute) (of_int billable_seconds)) 60)))"

text \<open>\<open>platform_commission\<close> and \<open>driver_payout_estimate\<close> of a fare that is now final.\<close>

definition split_fare :: "rat \<Rightarrow> ride \<Rightarrow> ride" where
  "split_fare fare ride =
     (let commission = of_int (round_half_even (fare * rd_commission_rate ride))
      in ride\<lparr>rd_final_fare := Some fare, rd_platform_commission := Some commission,
           rd_driver_payout_estimate := Some (fare - commission)\<rparr>)"

definition extras :: "ride \<Rightarrow> rat" where
  "extras ride = rd_pre_ride_wait_fee ride + rd_waiting_fee ride + rd_supplements_total ride"

lemma split_fare_fields [simp]:
  "rd_final_fare (split_fare fare r) = Some fare"
  "rd_platform_commission (split_fare fare r) =
     Some (of_int (round_half_even (fare * rd_commission_rate r)))"
  "rd_driver_payout_estimate (split_fare fare r) =
     Some (fare - of_int (round_half_even (fare * rd_commission_rate r)))"
  "rd_id (split_fare fare r) = rd_id r" "rd_status (split_fare fare r) = rd_status r"
  "rd_driver_id (split_fare fare r) = rd_driver_id r"
  "rd_passenger_user_id (split_fare fare r) = rd_passenger_user_id r"
  "rd_quote_id (split_fare fare r) = rd_quote_id r"
  "rd_share_token (split_fare fare r) = rd_share_token r"
  "rd_status_history (split_fare fare r) = rd_status_history r"
  by (simp_all add: split_fare_def Let_def)

section \<open>Properties of the arithmetic\<close>

lemma breakdown_mono:
  assumes "0 \<le> base" and "0 \<le> km" and "0 \<le> pm" and "0 \<le> surge" and "0 \<le> comfort"
    and "0 \<le> d1" and "d1 \<le> d2" and "0 \<le> t1" and "t1 \<le> t2"
  shows "fb_total_fare (pricing_breakdown rate d1 t1 base km pm surge comfort)
    \<le> fb_total_fare (pricing_breakdown rate d2 t2 base km pm surge comfort)"
proof -
  let ?f = "\<lambda>d t. dadd (dadd base (dmul d km)) (dmul (ddiv (of_int t) 60) pm)"
  have minutes: "0 \<le> ddiv (of_int t1) 60" "ddiv (of_int t1) 60 \<le> ddiv (of_int t2) 60"
    using assms by (auto intro: ddiv_nonneg ddiv_mono)
  have "0 \<le> ?f d1 t1" using assms minutes by (intro dadd_nonneg dmul_nonneg)
  moreover have "?f d1 t1 \<le> ?f d2 t2" using assms minutes by (intro dadd_mono dmul_mono order_refl)
  ultimately have "dmul (dmul (?f d1 t1) comfort) surge \<le> dmul (dmul (?f d2 t2) comfort) surge"
    using assms by (intro dmul_mono dmul_nonneg order_refl) simp_all
  then show ?thesis by (simp add: pricing_breakdown_def Let_def round_float_mono)
qed

lemma breakdown_nonneg:
  assumes "0 \<le> base" "0 \<le> km" "0 \<le> pm" "0 \<le> surge" "0 \<le> comfort" "0 \<le> d" "0 \<le> t"
  shows "0 \<le> fb_total_fare (pricing_breakdown rate d t base km pm surge comfort)"
  using assms by (simp add: pricing_breakdown_def Let_def)
    (intro round_float_nonneg dmul_nonneg dadd_nonneg ddiv_nonneg, simp_all)

lemma dmul_rate_le:
  assumes "0 \<le> rate" "rate \<le> 1" "0 \<le> n" "n < 10 ^ 28"
  shows "dmul (of_int n) rate \<le> of_int n"
proof -
  have "of_int n * rate \<le> (of_int n :: rat)" using assms by (simp add: mult_left_le)
  then have "dmul (of_int n) rate \<le> dec28 (of_int n)" unfolding dmul_def by (rule dec28_mono)
  with assms show ?thesis by (simp add: dec28_of_int)
qed

text \<open>A fare up to 2 to the 53 splits without loss: both parts are between zero and the fare.\<close>

lemma breakdown_split:
  fixes n :: int
  assumes fare: "fb_total_fare (pricing_breakdown rate d t base km pm surge comfort) = of_int n"
    and n: "0 \<le> n" "n < 2 ^ 53" and rate: "0 \<le> rate" "rate \<le> 1"
  shows "let b = pricing_breakdown rate d t base km pm surge comfort in
    0 \<le> fb_platform_commission b \<and> fb_platform_commission b \<le> fb_total_fare b
    \<and> fb_platform_commission b + fb_driver_payout_estimate b = fb_total_fare b"
proof -
  let ?b = "pricing_breakdown rate d t base km pm surge comfort"
  define c where "c = round_float (dmul (of_int n) rate)"
  have b: "fb_platform_commission ?b = of_int c" "fb_driver_payout_estimate ?b = dsub (of_int n) (of_int c)"
    using fare by (simp_all add: pricing_breakdown_def Let_def c_def)
  have "0 \<le> dmul (of_int n) rate" "dmul (of_int n) rate \<le> of_int n"
    using n rate by (simp_all add: dmul_nonneg dmul_rate_le)
  then have c: "0 \<le> c" "c \<le> n"
    using n by (simp_all add: c_def round_float_nonneg round_float_le_int)
  have "dsub (of_int n) (of_int c) = of_int (n - c)"
    using c n dec28_of_int [of "n - c"] by (simp add: dsub_def)
  with b c fare show ?thesis by (simp add: Let_def)
qed

end
