(* ===== verification/Priority.thy ===== *)
theory Priority
  imports Ride_Pricing
begin

text \<open>
  The driver priority engine: app\_base/modules/ride/domain/priority.py (the policy and its
  facts), priority\_service.py (\<open>PriorityLedger\<close>, \<open>DriverPriorityService\<close>) and the queries of
  infra/priority\_repository.py over the append-only ledger.
\<close>

definition DEFAULT_ZONE_ID :: uuid where "DEFAULT_ZONE_ID = 214"

datatype priority_kind = RIDE_COMPLETED | RIDE_CANCELLED_BY_DRIVER | TEMP_BOOST

fun priority_kind_value :: "priority_kind \<Rightarrow> string" where
  "priority_kind_value RIDE_COMPLETED = ''ride_completed''"
| "priority_kind_value RIDE_CANCELLED_BY_DRIVER = ''ride_cancelled_by_driver''"
| "priority_kind_value TEMP_BOOST = ''temp_boost''"

record dispatch_config =
  dc_search_radius_km :: rat
  dc_search_radius_step_km :: rat
  dc_search_radius_max_km :: rat
  dc_offer_wave_size :: int
  dc_search_budget_seconds :: int
  dc_eta_shortlist_size :: int
  dc_priority_window_days :: int
  dc_priority_cap_seconds :: int
  dc_priority_seconds_per_point :: int
  dc_points_ride_completed :: int
  dc_points_ride_cancelled_by_driver :: int

text \<open>A row of the ledger; \<open>created_at\<close> is the column's default.\<close>

record priority_event =
  pv_driver_id :: uuid
  pv_kind :: priority_kind
  pv_points :: int
  pv_zone_id :: "uuid option"
  pv_ride_id :: "uuid option"
  pv_reason :: "string option"
  pv_expires_at :: "datetime option"
  pv_created_at :: datetime

section \<open>The policy\<close>

fun points_for_ride_outcome :: "dispatch_config \<Rightarrow> priority_kind \<Rightarrow> int" where
  "points_for_ride_outcome c RIDE_COMPLETED = dc_points_ride_completed c"
| "points_for_ride_outcome c RIDE_CANCELLED_BY_DRIVER = dc_points_ride_cancelled_by_driver c"
| "points_for_ride_outcome c TEMP_BOOST = 0"

definition bonus_seconds :: "dispatch_config \<Rightarrow> int \<Rightarrow> int" where
  "bonus_seconds c points = points * dc_priority_seconds_per_point c"

section \<open>The ledger\<close>

fun outcome_kind :: "ride_status \<Rightarrow> priority_kind option" where
  "outcome_kind COMPLETED = Some RIDE_COMPLETED"
| "outcome_kind CANCELLED_BY_DRIVER = Some RIDE_CANCELLED_BY_DRIVER"
| "outcome_kind _ = None"

definition record_ride_outcome ::
  "dispatch_config \<Rightarrow> ride \<Rightarrow> datetime \<Rightarrow> priority_event list \<Rightarrow> priority_event list" where
  "record_ride_outcome c ride now es =
     (case (outcome_kind (rd_status ride), rd_driver_id ride) of
        (Some kind, Some driver_id) \<Rightarrow>
          es @ [\<lparr>pv_driver_id = driver_id, pv_kind = kind,
                 pv_points = points_for_ride_outcome c kind, pv_zone_id = Some DEFAULT_ZONE_ID,
                 pv_ride_id = Some (rd_id ride), pv_reason = Some (priority_kind_value kind),
                 pv_expires_at = None, pv_created_at = now\<rparr>]
      | _ \<Rightarrow> es)"

definition record_boost ::
  "uuid \<Rightarrow> int \<Rightarrow> datetime \<Rightarrow> string \<Rightarrow> uuid option \<Rightarrow> datetime \<Rightarrow> priority_event list \<Rightarrow> priority_event list" where
  "record_boost driver_id points expires_at reason zone_id now es =
     es @ [\<lparr>pv_driver_id = driver_id, pv_kind = TEMP_BOOST, pv_points = points, pv_zone_id = zone_id,
            pv_ride_id = None, pv_reason = Some reason, pv_expires_at = Some expires_at,
            pv_created_at = now\<rparr>]"

definition counts_for :: "datetime \<Rightarrow> uuid \<Rightarrow> datetime \<Rightarrow> priority_event \<Rightarrow> bool" where
  "counts_for since zone_id now e \<longleftrightarrow> since < pv_created_at e
     \<and> (case pv_expires_at e of None \<Rightarrow> True | Some t \<Rightarrow> now < t)
     \<and> (case pv_zone_id e of None \<Rightarrow> True | Some z \<Rightarrow> z = zone_id)"

text \<open>\<open>GROUP BY driver_id\<close>: a driver with no row in the window is absent from the result.\<close>

definition windowed_points ::
  "uuid list \<Rightarrow> datetime \<Rightarrow> uuid \<Rightarrow> datetime \<Rightarrow> priority_event list \<Rightarrow> (uuid \<rightharpoonup> int)" where
  "windowed_points driver_ids since zone_id now es = (\<lambda>d.
     let rows = filter (\<lambda>e. pv_driver_id e = d \<and> counts_for since zone_id now e) es
     in if d \<in> set driver_ids \<and> rows \<noteq> [] then Some (\<Sum>e\<leftarrow>rows. pv_points e) else None)"

definition recent_events :: "uuid \<Rightarrow> nat \<Rightarrow> priority_event list \<Rightarrow> priority_event list" where
  "recent_events driver_id limit es =
     take limit (rev (sort_key pv_created_at (filter (\<lambda>e. pv_driver_id e = driver_id) es)))"

definition active_rules :: "datetime \<Rightarrow> priority_event list \<Rightarrow> priority_event list" where
  "active_rules now es = rev (sort_key pv_created_at (filter (\<lambda>e. pv_kind e = TEMP_BOOST
     \<and> (case pv_expires_at e of None \<Rightarrow> True | Some t \<Rightarrow> now < t)) es))"

definition scores_for ::
  "dispatch_config \<Rightarrow> uuid list \<Rightarrow> uuid \<Rightarrow> datetime \<Rightarrow> priority_event list \<Rightarrow> (uuid \<rightharpoonup> int)" where
  "scores_for c driver_ids zone_id now es =
     (if driver_ids = [] then Map.empty
      else windowed_points driver_ids (now - seconds (86400 * dc_priority_window_days c)) zone_id now es)"

section \<open>Properties\<close>

definition points_total :: "(uuid \<rightharpoonup> int) \<Rightarrow> uuid \<Rightarrow> int" where
  "points_total m d = (case m d of None \<Rightarrow> 0 | Some p \<Rightarrow> p)"

text \<open>Appending a row adds its points to its driver when it counts, and nothing otherwise.\<close>

lemma windowed_points_append:
  assumes "d \<in> set ds"
  shows "points_total (windowed_points ds since z now (es @ [e])) d
    = points_total (windowed_points ds since z now es) d
      + (if pv_driver_id e = d \<and> counts_for since z now e then pv_points e else 0)"
  using assms by (simp add: points_total_def windowed_points_def Let_def)

lemma windowed_points_other: "d \<notin> set ds \<Longrightarrow> windowed_points ds since z now es d = None"
  by (simp add: windowed_points_def)

lemma record_ride_outcome_cases:
  obtains (none) "record_ride_outcome c r now es = es"
    "outcome_kind (rd_status r) = None \<or> rd_driver_id r = None"
  | (some) k d e where "outcome_kind (rd_status r) = Some k" "rd_driver_id r = Some d"
    "record_ride_outcome c r now es = es @ [e]" "pv_driver_id e = d"
    "pv_points e = points_for_ride_outcome c k" "pv_ride_id e = Some (rd_id r)"
    "pv_created_at e = now" "pv_expires_at e = None" "pv_zone_id e = Some DEFAULT_ZONE_ID"
  by (cases "outcome_kind (rd_status r)"; cases "rd_driver_id r") (auto simp: record_ride_outcome_def)

end
