(* ===== verification/Ride_Tables.thy ===== *)
theory Ride_Tables
  imports Priority
begin

text \<open>
  app\_base/modules/ride/infra/repositories.py: the tables of the \<open>ride\<close> schema as lists of rows
  and the operations of the repositories on them. A ride row has no \<open>status_history\<close>: a loaded
  ride starts with an empty one, and the rows of \<open>ride_status_history\<close> are the table
  \<open>history\<close>. Unique indexes are the \<open>clash\<close> relations of infra/models.py.
\<close>

section \<open>State\<close>

record notification =
  nt_target :: string
  nt_channel :: string
  nt_recipient :: "string option"
  nt_status :: string
  nt_reason :: "string option"

record emergency_event =
  em_id :: uuid
  em_ride_id :: uuid
  em_actor_user_id :: uuid
  em_actor_role :: string
  em_requested_at :: datetime
  em_note :: "string option"
  em_sequence :: nat
  em_contact_notified :: bool
  em_notification_results :: "notification list"

record location_batch =
  lb_ride_id :: uuid
  lb_batch_id :: uuid
  lb_actor_user_id :: uuid
  lb_samples_count :: nat
  lb_payload_hash :: string

text \<open>The outbox of driver capabilities: the state per user and its numbered events.\<close>

record capability_state =
  cs_user_id :: uuid
  cs_projection_version :: int
  cs_desired_operational_status :: "string option"
  cs_desired_actions :: "string list"
  cs_last_event_id :: "string option"
  cs_sync_status :: string
  cs_last_attempt_at :: "datetime option"
  cs_last_succeeded_at :: "datetime option"
  cs_next_refresh_at :: "datetime option"
  cs_last_error :: "string option"

record capability_event =
  ce_id :: uuid
  ce_event_id :: string
  ce_user_id :: uuid
  ce_projection_version :: int
  ce_operational_status :: string
  ce_actions :: "string list"
  ce_request_id :: "string option"
  ce_status :: string
  ce_attempts :: nat
  ce_next_attempt_at :: datetime
  ce_last_attempt_at :: "datetime option"
  ce_delivered_at :: "datetime option"
  ce_last_error :: "string option"
  ce_created_at :: datetime

record ride_db =
  rides :: "ride list"
  history :: "status_transition list"
  ratings :: "ride_rating list"
  stops :: "ride_stop list"
  supplements :: "ride_supplement list"
  route_points :: "route_point list"
  batches :: "location_batch list"
  emergencies :: "emergency_event list"
  ride_quotes :: "ride_quote list"
  profiles :: "driver_profile list"
  vehicles :: "vehicle list"
  pricing_rules :: "pricing_rule list"
  priority_events :: "priority_event list"
  capability_states :: "capability_state list"
  capability_events :: "capability_event list"
  next_ride_id :: nat

definition empty_ride_db :: ride_db where
  "empty_ride_db = \<lparr>rides = [], history = [], ratings = [], stops = [], supplements = [],
     route_points = [], batches = [], emergencies = [], ride_quotes = [], profiles = [],
     vehicles = [], pricing_rules = [], priority_events = [], capability_states = [],
     capability_events = [], next_ride_id = 1\<rparr>"

definition fresh_id :: "ride_db \<Rightarrow> uuid \<times> ride_db" where
  "fresh_id db = (next_ride_id db, db\<lparr>next_ride_id := Suc (next_ride_id db)\<rparr>)"

section \<open>Rides\<close>

text \<open>
  \<open>uq_rides_one_active_per_driver\<close>: a driver has one ride between the match and the end;
  \<open>quote_id\<close> and \<open>share_token\<close> are unique columns.
\<close>

definition on_duty :: "ride_status \<Rightarrow> bool" where
  "on_duty s = (s \<in> {MATCHED, DRIVER_EN_ROUTE, ARRIVED, IN_PROGRESS, WAITING})"

definition ride_clash :: "ride \<Rightarrow> ride \<Rightarrow> bool" where
  "ride_clash a b \<longleftrightarrow>
     (on_duty (rd_status a) \<and> on_duty (rd_status b) \<and> some_clash (rd_driver_id a) (rd_driver_id b))
     \<or> some_clash (rd_quote_id a) (rd_quote_id b)
     \<or> some_clash (rd_share_token a) (rd_share_token b)"

text \<open>
  \<open>_apply\<close>: what a ride writes into its row. A missing location keeps the row's, and
  \<open>requested_at\<close> is never empty.
\<close>

definition ride_row :: "datetime \<Rightarrow> ride option \<Rightarrow> ride \<Rightarrow> ride" where
  "ride_row now old r = r\<lparr>
     rd_pickup_location := (case rd_pickup_location r of
         Some p \<Rightarrow> Some p | None \<Rightarrow> (case old of None \<Rightarrow> None | Some o' \<Rightarrow> rd_pickup_location o')),
     rd_dropoff_location := (case rd_dropoff_location r of
         Some p \<Rightarrow> Some p | None \<Rightarrow> (case old of None \<Rightarrow> None | Some o' \<Rightarrow> rd_dropoff_location o')),
     rd_requested_at := (case rd_requested_at r of Some t \<Rightarrow> Some t | None \<Rightarrow> Some now),
     rd_status_history := []\<rparr>"

definition save_ride :: "datetime \<Rightarrow> ride \<Rightarrow> ride_db \<Rightarrow> exn + ride_db" where
  "save_ride now ride db =
     (let old = get_row rd_id (rd_id ride) (rides db);
          row = ride_row now old ride
      in if rd_pickup_location row = None \<or> rd_dropoff_location row = None then Inl IntegrityError
         else if old = None
         then bindR (insert_row ride_clash row (rides db)) (\<lambda>rows. Inr (db\<lparr>rides := rows\<rparr>))
         else bindR (update_row rd_id ride_clash row (rides db)) (\<lambda>rows. Inr (db\<lparr>rides := rows\<rparr>)))"

definition find_ride :: "uuid \<Rightarrow> ride_db \<Rightarrow> ride option" where
  "find_ride i db = get_row rd_id i (rides db)"

definition find_by_share_token :: "string \<Rightarrow> ride_db \<Rightarrow> exn + ride option" where
  "find_by_share_token token db =
     scalar_one_or_none (filter (\<lambda>r. rd_share_token r = Some token) (rides db))"

definition requested_stamp :: "ride \<Rightarrow> datetime" where
  "requested_stamp r = (case rd_requested_at r of None \<Rightarrow> 0 | Some t \<Rightarrow> t)"

definition latest_requested :: "ride list \<Rightarrow> ride option" where
  "latest_requested rs = (case rev (sort_key requested_stamp rs) of [] \<Rightarrow> None | r # _ \<Rightarrow> Some r)"

definition find_profile_by_user :: "uuid \<Rightarrow> ride_db \<Rightarrow> driver_profile option" where
  "find_profile_by_user uid db = get_row dp_user_id uid (profiles db)"

definition find_profile :: "uuid \<Rightarrow> ride_db \<Rightarrow> driver_profile option" where
  "find_profile i db = get_row dp_id i (profiles db)"

definition find_active_by_driver_user_id :: "uuid \<Rightarrow> ride_db \<Rightarrow> ride option" where
  "find_active_by_driver_user_id uid db = latest_requested (filter (\<lambda>r. is_active r
     \<and> (\<exists>p \<in> set (profiles db). rd_driver_id r = Some (dp_id p) \<and> dp_user_id p = uid)) (rides db))"

definition find_active_by_passenger_user_id :: "uuid \<Rightarrow> ride_db \<Rightarrow> ride option" where
  "find_active_by_passenger_user_id uid db =
     latest_requested (filter (\<lambda>r. is_active r \<and> rd_passenger_user_id r = uid) (rides db))"

definition has_active_ride :: "uuid \<Rightarrow> ride_db \<Rightarrow> bool" where
  "has_active_ride uid db = list_ex (\<lambda>r. rd_passenger_user_id r = uid \<and> is_active r) (rides db)"

definition matches :: "'a option \<Rightarrow> ('a \<Rightarrow> bool) \<Rightarrow> bool" where
  "matches x p = (case x of None \<Rightarrow> True | Some a \<Rightarrow> p a)"

definition list_rides_by ::
  "uuid option \<Rightarrow> uuid option \<Rightarrow> ride_status option \<Rightarrow> datetime option \<Rightarrow> datetime option \<Rightarrow> nat \<Rightarrow> nat
    \<Rightarrow> ride_db \<Rightarrow> ride list \<times> nat" where
  "list_rides_by passenger driver status from_date to_date page page_size db =
     (let rows = filter (\<lambda>r. matches passenger (\<lambda>p. rd_passenger_user_id r = p)
            \<and> matches driver (\<lambda>d. rd_driver_id r = Some d) \<and> matches status (\<lambda>s. rd_status r = s)
            \<and> matches from_date (\<lambda>t. t \<le> requested_stamp r)
            \<and> matches to_date (\<lambda>t. requested_stamp r < t)) (rides db)
      in (page_desc requested_stamp page page_size rows, length rows))"

definition record_status_transition :: "status_transition \<Rightarrow> ride_db \<Rightarrow> ride_db" where
  "record_status_transition t db = db\<lparr>history := history db @ [t]\<rparr>"

definition record_history :: "ride \<Rightarrow> ride_db \<Rightarrow> ride_db" where
  "record_history ride db = fold record_status_transition (rd_status_history ride) db"

section \<open>Emergencies, ratings, stops\<close>

definition latest_emergency_event :: "uuid \<Rightarrow> ride_db \<Rightarrow> emergency_event option" where
  "latest_emergency_event rid db =
     (case rev (sort_key em_sequence (filter (\<lambda>e. em_ride_id e = rid) (emergencies db))) of
        [] \<Rightarrow> None | e # _ \<Rightarrow> Some e)"

definition save_emergency_event :: "emergency_event \<Rightarrow> ride_db \<Rightarrow> exn + ride_db" where
  "save_emergency_event e db =
     bindR (insert_row (\<lambda>a b. em_id a = em_id b
         \<or> (em_ride_id a = em_ride_id b \<and> em_sequence a = em_sequence b)) e (emergencies db))
       (\<lambda>rows. Inr (db\<lparr>emergencies := rows\<rparr>))"

text \<open>The check constraint comes first; only the unique one has an error code of its own.\<close>

definition save_rating :: "ride_rating \<Rightarrow> ride_db \<Rightarrow> exn + ride_db" where
  "save_rating rating db =
     (if rr_rating rating < 1 \<or> 5 < rr_rating rating then Inl IntegrityError
      else if list_ex (\<lambda>x. rr_ride_id x = rr_ride_id rating \<and> rr_rater_role x = rr_rater_role rating)
          (ratings db)
      then Inl (ApiError 409 ''RATING_ALREADY_SUBMITTED'')
      else Inr (db\<lparr>ratings := ratings db @ [rating]\<rparr>))"

definition has_rated :: "uuid \<Rightarrow> string \<Rightarrow> ride_db \<Rightarrow> bool" where
  "has_rated rid rater_role db =
     list_ex (\<lambda>x. rr_ride_id x = rid \<and> rr_rater_role x = rater_role) (ratings db)"

definition save_stop :: "ride_stop \<Rightarrow> ride_db \<Rightarrow> ride_db" where
  "save_stop stop db = db\<lparr>stops := stops db @ [stop]\<rparr>"

definition count_stops :: "uuid \<Rightarrow> ride_db \<Rightarrow> nat" where
  "count_stops rid db = length (filter (\<lambda>s. rs_ride_id s = rid) (stops db))"

section \<open>Supplements\<close>

definition insert_supplement :: "ride_supplement \<Rightarrow> ride_db \<Rightarrow> exn + ride_db" where
  "insert_supplement s db =
     (if su_amount s \<le> 0 \<or> su_status s \<notin> {''pending'', ''accepted'', ''disputed''}
      then Inl IntegrityError
      else bindR (insert_row (\<lambda>a b. su_id a = su_id b) s (supplements db))
        (\<lambda>rows. Inr (db\<lparr>supplements := rows\<rparr>)))"

definition supplements_of :: "uuid \<Rightarrow> ride_db \<Rightarrow> ride_supplement list" where
  "supplements_of rid db = sort_key su_created_at (filter (\<lambda>s. su_ride_id s = rid) (supplements db))"

definition find_supplement_for_update :: "uuid \<Rightarrow> uuid \<Rightarrow> ride_db \<Rightarrow> ride_supplement option" where
  "find_supplement_for_update rid sid db =
     (case get_row su_id sid (supplements db) of
        None \<Rightarrow> None | Some s \<Rightarrow> if su_ride_id s = rid then Some s else None)"

definition save_supplement :: "ride_supplement \<Rightarrow> ride_db \<Rightarrow> exn + ride_db" where
  "save_supplement s db =
     (case get_row su_id (su_id s) (supplements db) of
        None \<Rightarrow> Inl PyValueError
      | Some row \<Rightarrow>
        if su_status s \<notin> {''pending'', ''accepted'', ''disputed''} then Inl IntegrityError
        else Inr (db\<lparr>supplements := put_row su_id (su_id s)
          (row\<lparr>su_status := su_status s, su_decided_by_user_id := su_decided_by_user_id s,
               su_decided_at := su_decided_at s\<rparr>) (supplements db)\<rparr>))"

definition accepted_supplements_total :: "uuid \<Rightarrow> ride_db \<Rightarrow> rat" where
  "accepted_supplements_total rid db =
     (\<Sum>s\<leftarrow>filter (\<lambda>s. su_ride_id s = rid \<and> su_status s = ''accepted'') (supplements db). su_amount s)"

section \<open>Route points\<close>

definition save_route_points :: "route_point list \<Rightarrow> ride_db \<Rightarrow> ride_db" where
  "save_route_points points db = db\<lparr>route_points := route_points db @ points\<rparr>"

text \<open>The number of samples, whether the batch was a replay, and whether its content differs.\<close>

definition save_route_point_batch ::
  "uuid \<Rightarrow> uuid \<Rightarrow> string \<Rightarrow> route_point list \<Rightarrow> ride_db \<Rightarrow> (nat \<times> bool \<times> bool) \<times> ride_db" where
  "save_route_point_batch batch_id actor_user_id payload_hash points db =
     (case points of
        [] \<Rightarrow> ((0, False, False), db)
      | p # _ \<Rightarrow>
       (case find (\<lambda>b. lb_ride_id b = rp_ride_id p \<and> lb_batch_id b = batch_id) (batches db) of
          Some b \<Rightarrow> ((lb_samples_count b, True, lb_payload_hash b \<noteq> payload_hash), db)
        | None \<Rightarrow>
          let receipt = \<lparr>lb_ride_id = rp_ride_id p, lb_batch_id = batch_id,
                lb_actor_user_id = actor_user_id, lb_samples_count = length points,
                lb_payload_hash = payload_hash\<rparr>
          in ((length points, False, False),
              save_route_points points (db\<lparr>batches := batches db @ [receipt]\<rparr>))))"

definition list_route_points :: "uuid \<Rightarrow> ride_db \<Rightarrow> route_point list" where
  "list_route_points rid db =
     sort_key rp_recorded_at (filter (\<lambda>p. rp_ride_id p = rid) (route_points db))"

definition latest_route_point :: "uuid \<Rightarrow> ride_db \<Rightarrow> route_point option" where
  "latest_route_point rid db = (case rev (list_route_points rid db) of [] \<Rightarrow> None | p # _ \<Rightarrow> Some p)"

section \<open>Scores\<close>

record scoring_stats =
  ss_total_rides :: nat
  ss_eligible_rides :: nat
  ss_completed_rides :: nat
  ss_cancelled_rides :: nat
  ss_emergency_reports :: nat
  ss_rating_count :: nat
  ss_rating_avg :: "rat option"

definition average :: "int list \<Rightarrow> rat option" where
  "average xs = (if xs = [] then None else Some (of_int (sum_list xs) / of_nat (length xs)))"

text \<open>The ratings that one side of completed rides received from the other.\<close>

definition ratings_of :: "(ride \<Rightarrow> bool) \<Rightarrow> string \<Rightarrow> ride_db \<Rightarrow> int list" where
  "ratings_of mine rater_role db = map rr_rating (filter (\<lambda>x. rr_rater_role x = rater_role
     \<and> (case find_ride (rr_ride_id x) db of None \<Rightarrow> False
        | Some r \<Rightarrow> mine r \<and> rd_status r = COMPLETED)) (ratings db))"

definition scoring_stats_of ::
  "(ride \<Rightarrow> bool) \<Rightarrow> ride_status \<Rightarrow> string \<Rightarrow> ride_db \<Rightarrow> scoring_stats" where
  "scoring_stats_of mine cancelled rater_role db =
     (let rows = filter mine (rides db);
          n = (\<lambda>p. length (filter p rows));
          rs = ratings_of mine rater_role db
      in \<lparr>ss_total_rides = length rows,
          ss_eligible_rides = n (\<lambda>r. rd_status r = COMPLETED \<or> rd_status r = cancelled),
          ss_completed_rides = n (\<lambda>r. rd_status r = COMPLETED),
          ss_cancelled_rides = n (\<lambda>r. rd_status r = cancelled),
          ss_emergency_reports = n (\<lambda>r. rd_emergency_status r \<noteq> None),
          ss_rating_count = length rs, ss_rating_avg = average rs\<rparr>)"

definition driver_scoring_stats :: "uuid \<Rightarrow> ride_db \<Rightarrow> scoring_stats" where
  "driver_scoring_stats driver_id = scoring_stats_of (\<lambda>r. rd_driver_id r = Some driver_id)
     CANCELLED_BY_DRIVER ''passenger''"

definition passenger_scoring_stats :: "uuid \<Rightarrow> ride_db \<Rightarrow> scoring_stats" where
  "passenger_scoring_stats uid = scoring_stats_of (\<lambda>r. rd_passenger_user_id r = uid)
     CANCELLED_BY_PASSENGER ''driver''"

definition driver_rating_summary :: "uuid \<Rightarrow> ride_db \<Rightarrow> nat \<times> rat option" where
  "driver_rating_summary driver_id db =
     (let rs = ratings_of (\<lambda>r. rd_driver_id r = Some driver_id) ''passenger'' db
      in (length rs, average rs))"

definition ride_rating_summary :: "uuid \<Rightarrow> ride_db \<Rightarrow> nat \<times> rat option" where
  "ride_rating_summary rid db =
     (let rs = map rr_rating (filter (\<lambda>x. rr_ride_id x = rid) (ratings db)) in (length rs, average rs))"

section \<open>Quotes, drivers, vehicles, tariffs\<close>

definition save_ride_quote :: "ride_quote \<Rightarrow> ride_db \<Rightarrow> exn + ride_db" where
  "save_ride_quote q db = bindR (insert_row (\<lambda>a b. rq_id a = rq_id b) q (ride_quotes db))
     (\<lambda>rows. Inr (db\<lparr>ride_quotes := rows\<rparr>))"

definition find_ride_quote :: "uuid \<Rightarrow> ride_db \<Rightarrow> ride_quote option" where
  "find_ride_quote i db = get_row rq_id i (ride_quotes db)"

definition consume_ride_quote :: "uuid \<Rightarrow> uuid \<Rightarrow> datetime \<Rightarrow> ride_db \<Rightarrow> exn + ride_db" where
  "consume_ride_quote qid rid consumed_at db =
     (case get_row rq_id qid (ride_quotes db) of
        None \<Rightarrow> Inr db
      | Some row \<Rightarrow>
        bindR (update_row rq_id (\<lambda>a b. some_clash (rq_ride_id a) (rq_ride_id b))
            (row\<lparr>rq_ride_id := Some rid, rq_consumed_at := Some consumed_at\<rparr>) (ride_quotes db))
          (\<lambda>rows. Inr (db\<lparr>ride_quotes := rows\<rparr>)))"

text \<open>
  A loaded profile or vehicle shares its JSON columns with the row (\<open>row.document_reviews or {}\<close>: a
  new dict only when the stored one is empty). They are changed in place and assigned back to the row,
  which SQLAlchemy does not see as a change: a column that is not empty keeps its stored value.
\<close>

definition json_column :: "'a list \<Rightarrow> 'a list \<Rightarrow> 'a list" where
  "json_column stored assigned = (if stored = [] then assigned else stored)"

definition profile_row :: "driver_profile option \<Rightarrow> driver_profile \<Rightarrow> driver_profile" where
  "profile_row old p = (case old of None \<Rightarrow> p | Some row \<Rightarrow> p\<lparr>
     dp_kyc_document_reviews := json_column (dp_kyc_document_reviews row) (dp_kyc_document_reviews p),
     dp_kyc_review_history := json_column (dp_kyc_review_history row) (dp_kyc_review_history p)\<rparr>)"

definition save_profile :: "driver_profile \<Rightarrow> ride_db \<Rightarrow> exn + ride_db" where
  "save_profile p db =
     (let old = get_row dp_id (dp_id p) (profiles db); row = profile_row old p in
      bindR (if old = None
             then insert_row (\<lambda>a b. dp_user_id a = dp_user_id b) row (profiles db)
             else update_row dp_id (\<lambda>a b. dp_user_id a = dp_user_id b) row (profiles db))
        (\<lambda>rows. Inr (db\<lparr>profiles := rows\<rparr>)))"

definition profile_ids_for_users :: "uuid list \<Rightarrow> ride_db \<Rightarrow> (uuid \<times> uuid) list" where
  "profile_ids_for_users uids db =
     map (\<lambda>p. (dp_user_id p, dp_id p)) (filter (\<lambda>p. dp_user_id p \<in> set uids) (profiles db))"

definition find_active_vehicle :: "uuid \<Rightarrow> ride_db \<Rightarrow> vehicle option" where
  "find_active_vehicle driver_id db =
     find (\<lambda>v. ve_driver_id v = driver_id \<and> ve_active v) (vehicles db)"

definition find_vehicle :: "uuid \<Rightarrow> ride_db \<Rightarrow> vehicle option" where
  "find_vehicle i db = get_row ve_id i (vehicles db)"

definition vehicle_row :: "vehicle option \<Rightarrow> vehicle \<Rightarrow> vehicle" where
  "vehicle_row old v = (case old of None \<Rightarrow> v | Some row \<Rightarrow> v\<lparr>
     ve_document_reviews := json_column (ve_document_reviews row) (ve_document_reviews v),
     ve_review_history := json_column (ve_review_history row) (ve_review_history v)\<rparr>)"

definition save_vehicle :: "vehicle \<Rightarrow> ride_db \<Rightarrow> exn + ride_db" where
  "save_vehicle v db =
     (let old = get_row ve_id (ve_id v) (vehicles db); row = vehicle_row old v in
      bindR (if old = None
             then insert_row (\<lambda>a b. ve_plate_number a = ve_plate_number b) row (vehicles db)
             else update_row ve_id (\<lambda>a b. ve_plate_number a = ve_plate_number b) row (vehicles db))
        (\<lambda>rows. Inr (db\<lparr>vehicles := rows\<rparr>)))"

text \<open>\<open>ORDER BY ... ASC\<close>: PostgreSQL puts NULL last, \<open>nullsfirst()\<close> first.\<close>

definition stamp_or_0 :: "datetime option \<Rightarrow> datetime" where
  "stamp_or_0 x = (case x of None \<Rightarrow> 0 | Some t \<Rightarrow> t)"

definition asc_by :: "bool \<Rightarrow> ('r \<Rightarrow> datetime option) \<Rightarrow> 'r list \<Rightarrow> 'r list" where
  "asc_by nulls_first stamp rs =
     sort_key (\<lambda>r. if (stamp r = None) = nulls_first then 0 else 1 :: nat)
       (sort_key (\<lambda>r. stamp_or_0 (stamp r)) rs)"

definition page_asc :: "nat \<Rightarrow> nat \<Rightarrow> 'r list \<Rightarrow> 'r list" where
  "page_asc page page_size rs = take page_size (drop ((page - 1) * page_size) rs)"

definition list_by_kyc_status :: "kyc_status list \<Rightarrow> nat \<Rightarrow> nat \<Rightarrow> ride_db \<Rightarrow> driver_profile list \<times> nat" where
  "list_by_kyc_status statuses page page_size db =
     (let rows = filter (\<lambda>p. dp_kyc_status p \<in> set statuses) (profiles db)
      in (page_asc page page_size (asc_by False dp_kyc_submitted_at (asc_by False dp_created_at rows)),
          length rows))"

definition list_by_verification_status ::
  "vehicle_verification_status list \<Rightarrow> nat \<Rightarrow> nat \<Rightarrow> ride_db \<Rightarrow> vehicle list \<times> nat" where
  "list_by_verification_status statuses page page_size db =
     (let rows = filter (\<lambda>v. ve_verification_status v \<in> set statuses) (vehicles db)
      in (page_asc page page_size (asc_by True ve_reviewed_at (asc_by False ve_created_at rows)),
          length rows))"

definition find_active_rule :: "string \<Rightarrow> vehicle_category \<Rightarrow> datetime \<Rightarrow> ride_db \<Rightarrow> pricing_rule option" where
  "find_active_rule city category now db =
     (case rev (sort_key pr_active_from (filter (\<lambda>r. pr_city r = city \<and> pr_vehicle_category r = category
          \<and> pr_active_from r \<le> now \<and> matches (pr_active_to r) (\<lambda>t. now \<le> t)) (pricing_rules db))) of
        [] \<Rightarrow> None | r # _ \<Rightarrow> Some r)"

end
