(* ===== verification/Ride_Views.thy ===== *)
theory Ride_Views
  imports Ride_Tables
begin

text \<open>
  What the ride service is configured with and what it answers: the environment of
  app\_base/modules/ride/application/services.py (settings, DiddiMap, hashes) and its payload
  functions. Payloads are trees; numbers that the API turns into floats stay exact, timestamps
  stay instants.
\<close>

section \<open>Environment\<close>

record trace_analysis =
  ta_actual_distance_km :: "rat option"
  ta_actual_duration_seconds :: "int option"
  ta_usable_for_scoring :: bool
  ta_recommendation :: "string option"
  ta_quality_label :: "string option"
  ta_quality_score :: "rat option"
  ta_points_count :: "int option"
  ta_usable_points_count :: "int option"

record location_sample =
  sa_lat :: rat
  sa_lng :: rat
  sa_recorded_at :: "datetime option"
  sa_heading :: "int option"
  sa_speed_kmh :: "rat option"
  sa_accuracy_m :: "rat option"
  sa_source :: "string option"

text \<open>
  DiddiMap (\<open>re_estimate\<close> and the trace calls), the hash functions, the great-circle distance in
  floating point, the emergency notifier and the user directory are parameters; the rest are
  settings. \<open>re_share_token\<close> is what \<open>secrets.token_urlsafe\<close> returns.
\<close>

record ride_env =
  re_estimate :: "geo_point \<Rightarrow> geo_point \<Rightarrow> exn + rat \<times> int"
  re_start_trace :: "geo_point \<Rightarrow> geo_point \<Rightarrow> rat option \<Rightarrow> int option \<Rightarrow> uuid \<Rightarrow> exn + string"
  re_append_trace :: "string \<Rightarrow> route_point list \<Rightarrow> exn + unit"
  re_finish_trace :: "string \<Rightarrow> datetime \<Rightarrow> exn + unit"
  re_analyze_trace :: "string \<Rightarrow> exn + trace_analysis"
  re_distance_meters :: "geo_point \<Rightarrow> geo_point \<Rightarrow> rat"
  re_hmac_sha256 :: "string \<Rightarrow> string \<Rightarrow> nat list"
  re_sha256_hex :: "string \<Rightarrow> string"
  re_samples_hash :: "location_sample list \<Rightarrow> string"
  re_notify :: "ride \<Rightarrow> uuid \<Rightarrow> string \<Rightarrow> string option \<Rightarrow> bool \<Rightarrow> notification list"
  re_user :: "uuid \<Rightarrow> (string option \<times> string option) option"
  re_photo_url :: "uuid \<Rightarrow> string option"
  re_share_token :: string
  re_dispatch :: dispatch_config
  re_commission_rate :: rat
  re_tariff_version :: string
  re_quote_ttl :: int
  re_arrival_max_meters :: rat
  re_start_code_secret :: string
  re_start_code_max_attempts :: int
  re_wait_free_seconds :: int
  re_wait_price :: int
  re_no_show_seconds :: int
  re_waiting_price :: int
  re_speed_threshold :: rat
  re_emergency_rate_limit :: int
  re_emergency_notify_once :: bool

section \<open>Start codes\<close>

definition zero_pad :: "nat \<Rightarrow> string \<Rightarrow> string" where
  "zero_pad n s = replicate (n - length s) CHR ''0'' @ s"

definition ride_start_code :: "ride_env \<Rightarrow> uuid \<Rightarrow> string" where
  "ride_start_code env rid =
     zero_pad 6 (nat_str (foldl (\<lambda>acc b. acc * 256 + b) 0
       (take 8 (re_hmac_sha256 env (re_start_code_secret env) (uuid_str rid))) mod 1000000))"

definition hash_start_code :: "ride_env \<Rightarrow> uuid \<Rightarrow> string \<Rightarrow> string" where
  "hash_start_code env rid code =
     re_sha256_hex env (uuid_str rid @ '':'' @ code @ '':'' @ re_start_code_secret env)"

section \<open>Payloads\<close>

datatype view = VNone | VBool bool | VInt int | VNum rat | VStr string | VAt datetime
  | VObj "(string \<times> view) list" | VList "view list"

definition vopt :: "('a \<Rightarrow> view) \<Rightarrow> 'a option \<Rightarrow> view" where
  "vopt f x = (case x of None \<Rightarrow> VNone | Some a \<Rightarrow> f a)"

definition vid :: "uuid \<Rightarrow> view" where "vid i = VStr (uuid_str i)"

definition vmoney :: "bool \<Rightarrow> rat option \<Rightarrow> view" where
  "vmoney visible x = (if visible then vopt (\<lambda>a. VInt (py_trunc a)) x else VNone)"

definition point_payload :: "geo_point option \<Rightarrow> string option \<Rightarrow> view" where
  "point_payload point address = VObj [(''lat'', vopt (\<lambda>p. VNum (lat p)) point),
     (''lng'', vopt (\<lambda>p. VNum (lng p)) point), (''address'', vopt VStr address)]"

definition money_visible :: "ride \<Rightarrow> string \<Rightarrow> bool" where
  "money_visible ride viewer_role =
     (if viewer_role \<in> {''admin'', ''passenger''} then True
      else if viewer_role = ''driver'' then rd_status ride \<in> {IN_PROGRESS, COMPLETED}
      else False)"

fun ride_status_value :: "ride_status \<Rightarrow> string" where
  "ride_status_value REQUESTED = ''requested''"
| "ride_status_value MATCHED = ''matched''"
| "ride_status_value DRIVER_EN_ROUTE = ''driver_en_route''"
| "ride_status_value ARRIVED = ''arrived''"
| "ride_status_value IN_PROGRESS = ''in_progress''"
| "ride_status_value WAITING = ''waiting''"
| "ride_status_value COMPLETED = ''completed''"
| "ride_status_value CANCELLED_BY_PASSENGER = ''cancelled_by_passenger''"
| "ride_status_value CANCELLED_BY_DRIVER = ''cancelled_by_driver''"
| "ride_status_value NO_DRIVER_FOUND = ''no_driver_found''"

definition pricing_view :: "ride \<Rightarrow> bool \<Rightarrow> bool \<Rightarrow> view" where
  "pricing_view ride money analytics = VObj [
     (''base_fare'', vmoney money (rd_base_fare ride)),
     (''distance_fare'', vmoney money (rd_distance_fare ride)),
     (''duration_fare'', vmoney money (rd_duration_fare ride)),
     (''surge_multiplier'', VNum (rd_surge_multiplier ride)),
     (''surge_cap'', VNum (rd_surge_cap ride)),
     (''commission_rate'', VNum (rd_commission_rate ride)),
     (''comfort_multiplier'', VNum (comfort_multiplier (rd_comfort_level ride))),
     (''platform_commission'', vmoney money (rd_platform_commission ride)),
     (''driver_payout_estimate'', vmoney money (rd_driver_payout_estimate ride)),
     (''actual_distance_km'', vopt VNum (rd_actual_distance_km ride)),
     (''actual_duration_seconds'', vopt VInt (rd_actual_duration_seconds ride)),
     (''actual_pricing_fare'', vmoney analytics (rd_actual_pricing_fare ride)),
     (''pricing_delta'', vmoney analytics (rd_pricing_delta ride)),
     (''waiting_fee'', vmoney money (Some (rd_waiting_fee ride))),
     (''waiting_rate_per_minute'', vmoney money (rd_waiting_rate_per_minute ride))]"

definition trace_view :: "ride \<Rightarrow> bool \<Rightarrow> view" where
  "trace_view ride analytics = VObj [
     (''status'', VStr (str_or (rd_trace_analysis_status ride)
        (if rd_status ride = COMPLETED then ''legacy_not_analyzed'' else ''pending''))),
     (''error_code'', if analytics then vopt VStr (rd_trace_analysis_error_code ride) else VNone),
     (''recommendation'', vopt VStr (rd_trace_recommendation ride)),
     (''quality_label'', vopt VStr (rd_trace_quality_label ride)),
     (''quality_score'', vopt VNum (rd_trace_quality_score ride)),
     (''points_count'', vopt VInt (rd_trace_points_count ride)),
     (''usable_points_count'', vopt VInt (rd_trace_usable_points_count ride))]"

definition waiting_view :: "ride \<Rightarrow> bool \<Rightarrow> view" where
  "waiting_view ride money = VObj [
     (''active'', VBool (rd_status ride = WAITING)),
     (''started_at'', vopt VAt (rd_waiting_started_at ride)),
     (''duration_seconds'', VInt (rd_waiting_duration_seconds ride)),
     (''fee'', vmoney money (Some (rd_waiting_fee ride))),
     (''rate_per_minute'', vmoney money (rd_waiting_rate_per_minute ride))]"

text \<open>The start code is shown to the passenger between the arrival and the start.\<close>

definition code_shown :: "ride \<Rightarrow> string \<Rightarrow> bool" where
  "code_shown ride viewer_role \<longleftrightarrow> viewer_role = ''passenger''
     \<and> str_or (rd_start_code_hash ride) [] \<noteq> [] \<and> rd_start_code_used_at ride = None"

definition authorization_view :: "ride_env \<Rightarrow> ride \<Rightarrow> string \<Rightarrow> view" where
  "authorization_view env ride viewer_role =
     (let code = ride_start_code env (rd_id ride) in VObj [
        (''code'', if code_shown ride viewer_role then VStr code else VNone),
        (''qr_payload'', if code_shown ride viewer_role
           then VStr (''diddigo://rides/'' @ uuid_str (rd_id ride) @ ''/start?code='' @ code) else VNone),
        (''attempts'', if viewer_role = ''admin'' then VInt (rd_start_code_attempts ride) else VNone),
        (''blocked'', VBool (rd_start_code_blocked_at ride \<noteq> None)),
        (''used_at'', vopt VAt (rd_start_code_used_at ride))])"

definition ride_detail_payload :: "ride_env \<Rightarrow> ride \<Rightarrow> view \<Rightarrow> string \<Rightarrow> view" where
  "ride_detail_payload env ride driver viewer_role =
     (let money = money_visible ride viewer_role; analytics = (viewer_role = ''admin'') in VObj [
        (''id'', vid (rd_id ride)),
        (''status'', VStr (ride_status_value (rd_status ride))),
        (''completion_reason'', vopt VStr (rd_completion_reason ride)),
        (''passenger'', VObj [(''id'', vid (rd_passenger_user_id ride)), (''full_name'', VNone)]),
        (''driver'', driver),
        (''pickup'', point_payload (rd_pickup_location ride) (rd_pickup_address ride)),
        (''dropoff'', point_payload (rd_dropoff_location ride) (rd_dropoff_address ride)),
        (''vehicle_category'', VStr (vehicle_category_value (rd_vehicle_category ride))),
        (''comfort_level'', VStr (comfort_level_value (rd_comfort_level ride))),
        (''estimated_fare'', vmoney money (rd_estimated_fare ride)),
        (''final_fare'', vmoney money (rd_final_fare ride)),
        (''currency'', VStr (rd_currency ride)),
        (''distance_km'', vopt VNum (rd_distance_km ride)),
        (''duration_seconds'', vopt VInt (rd_duration_seconds ride)),
        (''pricing'', pricing_view ride money analytics),
        (''trace_analysis'', trace_view ride analytics),
        (''waiting'', waiting_view ride money),
        (''payment'', VObj [
           (''method'', VStr (ride_payment_method_value (rd_payment_method ride))),
           (''transaction_id'', vopt vid (rd_payment_transaction_id ride)),
           (''ready'', VBool (rd_status ride = COMPLETED
              \<and> (case rd_final_fare ride of None \<Rightarrow> False | Some f \<Rightarrow> 0 < f)))]),
        (''quote_id'', vopt vid (rd_quote_id ride)),
        (''early_stop'', VObj [(''requested_at'', vopt VAt (rd_early_stop_requested_at ride)),
           (''expires_at'', vopt VAt (rd_early_stop_expires_at ride)),
           (''confirmed_at'', vopt VAt (rd_early_stop_confirmed_at ride))]),
        (''arrival'', VObj [(''arrived_at'', vopt VAt (rd_arrived_at ride)),
           (''waiting_started_at'', vopt VAt (rd_pre_ride_wait_started_at ride)),
           (''waiting_seconds'', VInt (rd_pre_ride_wait_seconds ride)),
           (''waiting_fee'', vmoney money (Some (rd_pre_ride_wait_fee ride))),
           (''free_seconds'', VInt (re_wait_free_seconds env)),
           (''price_per_minute_xof'', VInt (re_wait_price env)),
           (''no_show_after_seconds'', VInt (re_no_show_seconds env))]),
        (''start_authorization'', authorization_view env ride viewer_role),
        (''emergency'', VObj [(''status'', vopt VStr (rd_emergency_status ride)),
           (''requested_at'', vopt VAt (rd_emergency_requested_at ride))]),
        (''requested_at'', vopt VAt (rd_requested_at ride)),
        (''matched_at'', vopt VAt (rd_matched_at ride)),
        (''started_at'', vopt VAt (rd_started_at ride)),
        (''completed_at'', vopt VAt (rd_completed_at ride))])"

definition ride_creation_payload :: "ride \<Rightarrow> view" where
  "ride_creation_payload ride = VObj [
     (''ride_id'', vid (rd_id ride)), (''status'', VStr (ride_status_value (rd_status ride))),
     (''estimated_fare'', vmoney True (rd_estimated_fare ride)),
     (''currency'', VStr (rd_currency ride)),
     (''payment_method'', VStr (ride_payment_method_value (rd_payment_method ride))),
     (''requested_at'', vopt VAt (rd_requested_at ride))]"

definition ride_summary_payload :: "ride \<Rightarrow> view" where
  "ride_summary_payload ride = VObj [
     (''id'', vid (rd_id ride)), (''status'', VStr (ride_status_value (rd_status ride))),
     (''completion_reason'', vopt VStr (rd_completion_reason ride)),
     (''final_fare'', vmoney True (rd_final_fare ride)),
     (''completed_at'', vopt VAt (rd_completed_at ride)),
     (''pickup_address'', vopt VStr (rd_pickup_address ride)),
     (''dropoff_address'', vopt VStr (rd_dropoff_address ride)),
     (''dropoff'', point_payload (rd_dropoff_location ride) (rd_dropoff_address ride))]"

definition paginated_rides :: "ride list \<Rightarrow> nat \<Rightarrow> nat \<Rightarrow> nat \<Rightarrow> view" where
  "paginated_rides rs items page page_size = VObj [
     (''data'', VList (map ride_summary_payload rs)),
     (''pagination'', VObj [(''page'', VInt (int page)), (''page_size'', VInt (int page_size)),
        (''total_items'', VInt (int items)),
        (''total_pages'', VInt (int (max 1 ((items + page_size - 1) div page_size))))])]"

definition stop_payload :: "ride_stop \<Rightarrow> view" where
  "stop_payload s = VObj [(''id'', vid (rs_id s)), (''ride_id'', vid (rs_ride_id s)),
     (''sequence'', VInt (int (rs_sequence s))), (''latitude'', VNum (rs_latitude s)),
     (''longitude'', VNum (rs_longitude s)), (''address'', vopt VStr (rs_address s)),
     (''note'', vopt VStr (rs_note s)), (''created_at'', VAt (rs_created_at s))]"

definition supplement_payload :: "ride_supplement \<Rightarrow> view" where
  "supplement_payload s = VObj [(''id'', vid (su_id s)), (''ride_id'', vid (su_ride_id s)),
     (''amount'', VInt (py_trunc (su_amount s))), (''reason'', VStr (su_reason s)),
     (''type'', VStr (su_reason s)), (''custom_label'', vopt VStr (su_custom_label s)),
     (''source'', VStr (su_source s)), (''status'', VStr (su_status s)),
     (''created_by_user_id'', vopt vid (su_created_by_user_id s)),
     (''created_at'', VAt (su_created_at s)),
     (''decided_by_user_id'', vopt vid (su_decided_by_user_id s)),
     (''decided_at'', vopt VAt (su_decided_at s))]"

definition early_stop_payload :: "ride \<Rightarrow> rat \<Rightarrow> bool \<Rightarrow> view" where
  "early_stop_payload ride amount provisional = VObj [
     (''ride_id'', vid (rd_id ride)), (''status'', VStr (ride_status_value (rd_status ride))),
     (''completion_reason'', vopt VStr (rd_completion_reason ride)),
     (''requested_at'', vopt VAt (rd_early_stop_requested_at ride)),
     (''expires_at'', vopt VAt (rd_early_stop_expires_at ride)),
     (''confirmed_at'', vopt VAt (rd_early_stop_confirmed_at ride)),
     (''provisional'', VBool provisional), (''amount'', VInt (py_trunc amount)),
     (''currency'', VStr (rd_currency ride))]"

definition waiting_payload :: "ride \<Rightarrow> view" where
  "waiting_payload ride = VObj [
     (''ride_id'', vid (rd_id ride)), (''status'', VStr (ride_status_value (rd_status ride))),
     (''waiting'', waiting_view ride True)]"

definition pre_ride_payload :: "ride_env \<Rightarrow> ride \<Rightarrow> view" where
  "pre_ride_payload env ride = VObj [
     (''ride_id'', vid (rd_id ride)), (''status'', VStr (ride_status_value (rd_status ride))),
     (''arrived_at'', vopt VAt (rd_arrived_at ride)),
     (''waiting_started_at'', vopt VAt (rd_pre_ride_wait_started_at ride)),
     (''free_seconds'', VInt (re_wait_free_seconds env)),
     (''no_show_after_seconds'', VInt (re_no_show_seconds env)),
     (''price_per_minute_xof'', VInt (re_wait_price env))]"

definition vehicle_view :: "vehicle \<Rightarrow> view" where
  "vehicle_view v = VObj [(''make'', vopt VStr (ve_make v)), (''model'', vopt VStr (ve_model v)),
     (''color'', vopt VStr (ve_color v)), (''plate_number'', VStr (ve_plate_number v)),
     (''category'', VStr (vehicle_category_value (ve_category v))),
     (''comfort_level'', VStr (comfort_level_value (ve_comfort_level v)))]"

definition driver_payload :: "ride_env \<Rightarrow> ride \<Rightarrow> ride_db \<Rightarrow> view" where
  "driver_payload env ride db =
     (case rd_driver_id ride of
        None \<Rightarrow> VNone
      | Some driver_id \<Rightarrow>
       (case find_profile driver_id db of
          None \<Rightarrow> VNone
        | Some p \<Rightarrow>
          let user = re_user env (dp_user_id p) in VObj [
            (''id'', vid (dp_id p)),
            (''full_name'', case user of None \<Rightarrow> VNone | Some (name, _) \<Rightarrow> vopt VStr name),
            (''rating_avg'', VNum (dp_rating_avg p)),
            (''rating_count'', VInt (dp_rating_count p)),
            (''rating_status'', VStr (if dp_rating_count p = 0 then ''new'' else ''rated'')),
            (''phone'', case user of None \<Rightarrow> VNone | Some (_, phone) \<Rightarrow> vopt VStr phone),
            (''photo_url'', vopt VStr (re_photo_url env (dp_id p))),
            (''vehicle'', vopt vehicle_view (find_active_vehicle (dp_id p) db))]))"

end
