(* ===== verification/Ride_Service.thy ===== *)
theory Ride_Service
  imports Ride_Views
begin

text \<open>
  \<open>RideService\<close> of app\_base/modules/ride/application/services.py: one definition per handler.
  A handler takes the environment, its arguments, the clock and the tables; a raise is an
  \<open>Inl\<close> and the request is rolled back (\<open>transact\<close>). Only \<open>start_ride_with_code\<close> commits before
  it raises, so it returns the durable tables beside its result.
\<close>

section \<open>Who may act\<close>

definition load_ride :: "uuid \<Rightarrow> ride_db \<Rightarrow> exn + ride" where
  "load_ride rid db = (case find_ride rid db of
       None \<Rightarrow> Inl (ApiError 404 ''RIDE_NOT_FOUND'') | Some r \<Rightarrow> Inr r)"

definition driver_profile_id_for_user :: "uuid \<Rightarrow> ride_db \<Rightarrow> uuid option" where
  "driver_profile_id_for_user uid db = map_option dp_id (find_profile_by_user uid db)"

definition is_assigned_driver :: "ride \<Rightarrow> uuid \<Rightarrow> ride_db \<Rightarrow> bool" where
  "is_assigned_driver ride uid db \<longleftrightarrow>
     rd_driver_id ride \<noteq> None \<and> rd_driver_id ride = driver_profile_id_for_user uid db"

text \<open>The assigned driver or an admin, else 403.\<close>

definition driver_ride :: "uuid \<Rightarrow> uuid \<Rightarrow> string \<Rightarrow> ride_db \<Rightarrow> exn + ride" where
  "driver_ride rid uid role db = bindR (load_ride rid db) (\<lambda>ride.
     if role \<noteq> ''admin'' \<and> \<not> is_assigned_driver ride uid db
     then Inl (ApiError 403 ''RIDE_NOT_OWNED_BY_USER'') else Inr ride)"

text \<open>\<open>ride.transition\<close> where nothing catches \<open>InvalidStatusTransition\<close> but \<open>update_status\<close>.\<close>

definition api_transition ::
  "ride_status \<Rightarrow> datetime \<Rightarrow> ride \<Rightarrow> exn + ride" where
  "api_transition s now ride = (case transition s now None ride of
       Inl _ \<Rightarrow> Inl (ApiError 409 ''INVALID_STATUS_TRANSITION'') | Inr r \<Rightarrow> Inr r)"

definition record_priority_outcome :: "ride_env \<Rightarrow> ride \<Rightarrow> datetime \<Rightarrow> ride_db \<Rightarrow> ride_db" where
  "record_priority_outcome env ride now db = db\<lparr>priority_events :=
     record_ride_outcome (re_dispatch env) ride now (priority_events db)\<rparr>"

section \<open>Estimates, quotes, requests\<close>

definition estimate_pricing ::
  "ride_env \<Rightarrow> geo_point \<Rightarrow> geo_point \<Rightarrow> string \<Rightarrow> string \<Rightarrow> datetime \<Rightarrow> ride_db \<Rightarrow> exn + fare_estimate" where
  "estimate_pricing env pickup dropoff category comfort now db =
     bindR (vehicle_category_of category) (\<lambda>vc.
     bindR (comfort_level_of comfort) (\<lambda>cl.
     bindR (re_estimate env pickup dropoff) (\<lambda>(distance_km, duration_seconds).
     if distance_km \<le> 0 then Inl (ApiError 502 ''DIDDIMAP_INVALID_RESPONSE'')
     else
       let rule = find_active_rule ''Abidjan'' vc now db;
           surge = min (case rule of None \<Rightarrow> 1 | Some r \<Rightarrow> pr_surge_multiplier r) SURGE_CAP;
           pricing = pricing_breakdown (re_commission_rate env) distance_km duration_seconds
             (case rule of None \<Rightarrow> DEFAULT_BASE_FARE | Some r \<Rightarrow> pr_base_fare r)
             (case rule of None \<Rightarrow> DEFAULT_PRICE_PER_KM | Some r \<Rightarrow> pr_price_per_km r)
             (case rule of None \<Rightarrow> DEFAULT_PRICE_PER_MIN | Some r \<Rightarrow> pr_price_per_min r)
             surge (comfort_multiplier cl)
       in Inr (pricing_response (re_commission_rate env) distance_km duration_seconds pricing surge cl))))"

definition create_quote ::
  "ride_env \<Rightarrow> uuid \<Rightarrow> geo_point \<Rightarrow> string option \<Rightarrow> geo_point \<Rightarrow> string option \<Rightarrow> string \<Rightarrow> string
    \<Rightarrow> datetime \<Rightarrow> ride_db \<Rightarrow> exn + (fare_estimate \<times> uuid \<times> string \<times> datetime) \<times> ride_db" where
  "create_quote env passenger pickup pickup_address dropoff dropoff_address category comfort now db =
     bindR (vehicle_category_of category) (\<lambda>vc.
     bindR (comfort_level_of comfort) (\<lambda>cl.
     bindR (estimate_pricing env pickup dropoff category comfort now db) (\<lambda>est.
     let (qid, db1) = fresh_id db;
         quote = \<lparr>rq_id = qid, rq_passenger_user_id = passenger, rq_pickup_location = pickup,
           rq_dropoff_location = dropoff, rq_vehicle_category = vc, rq_comfort_level = cl,
           rq_estimated_fare = of_int (fe_estimated_fare est), rq_distance_km = fe_distance_km est,
           rq_duration_seconds = fe_duration_seconds est, rq_base_fare = of_int (fe_base_fare est),
           rq_distance_fare = of_int (fe_distance_fare est),
           rq_duration_fare = of_int (fe_duration_fare est),
           rq_surge_multiplier = fe_surge_multiplier est, rq_surge_cap = fe_surge_cap est,
           rq_commission_rate = fe_commission_rate est,
           rq_platform_commission = of_int (fe_platform_commission est),
           rq_driver_payout_estimate = of_int (fe_driver_payout_estimate est),
           rq_tariff_version = re_tariff_version env, rq_expires_at = now + seconds (re_quote_ttl env),
           rq_pickup_address = pickup_address, rq_dropoff_address = dropoff_address,
           rq_consumed_at = None, rq_ride_id = None, rq_created_at = now\<rparr>
     in bindR (save_ride_quote quote db1) (\<lambda>db2.
        Inr ((est, qid, rq_tariff_version quote, rq_expires_at quote), db2)))))"

definition ride_of_quote ::
  "uuid \<Rightarrow> uuid \<Rightarrow> bool \<Rightarrow> ride_quote \<Rightarrow> ride_payment_method \<Rightarrow> datetime option \<Rightarrow> datetime \<Rightarrow> ride" where
  "ride_of_quote rid passenger review quote method scheduled_at now = (new_ride rid passenger)\<lparr>
     rd_vehicle_category := rq_vehicle_category quote, rd_comfort_level := rq_comfort_level quote,
     rd_is_review_account := review,
     rd_pickup_location := Some (rq_pickup_location quote),
     rd_pickup_address := rq_pickup_address quote,
     rd_dropoff_location := Some (rq_dropoff_location quote),
     rd_dropoff_address := rq_dropoff_address quote, rd_scheduled_at := scheduled_at,
     rd_estimated_fare := Some (rq_estimated_fare quote), rd_currency := ''XOF'',
     rd_distance_km := Some (rq_distance_km quote),
     rd_duration_seconds := Some (rq_duration_seconds quote),
     rd_base_fare := Some (rq_base_fare quote), rd_distance_fare := Some (rq_distance_fare quote),
     rd_duration_fare := Some (rq_duration_fare quote),
     rd_surge_multiplier := rq_surge_multiplier quote, rd_surge_cap := rq_surge_cap quote,
     rd_commission_rate := rq_commission_rate quote,
     rd_platform_commission := Some (rq_platform_commission quote),
     rd_driver_payout_estimate := Some (rq_driver_payout_estimate quote),
     rd_payment_method := method, rd_quote_id := Some (rq_id quote),
     rd_requested_at := Some now\<rparr>"

definition request_ride ::
  "uuid \<Rightarrow> bool \<Rightarrow> uuid \<Rightarrow> string \<Rightarrow> datetime option \<Rightarrow> datetime \<Rightarrow> ride_db \<Rightarrow> exn + ride \<times> ride_db" where
  "request_ride passenger review quote_id payment_method scheduled_at now db =
     bindR (ride_payment_method_of payment_method) (\<lambda>method.
     case find_ride_quote quote_id db of
       None \<Rightarrow> Inl (ApiError 404 ''QUOTE_NOT_FOUND'')
     | Some quote \<Rightarrow>
       if rq_passenger_user_id quote \<noteq> passenger then Inl (ApiError 404 ''QUOTE_NOT_FOUND'')
       else if rq_consumed_at quote \<noteq> None then Inl (ApiError 409 ''QUOTE_ALREADY_USED'')
       else if rq_expires_at quote \<le> now then Inl (ApiError 409 ''QUOTE_EXPIRED'')
       else if has_active_ride passenger db then Inl (ApiError 409 ''ACTIVE_RIDE_ALREADY_EXISTS'')
       else
         let (rid, db1) = fresh_id db;
             ride = ride_of_quote rid passenger review quote method scheduled_at now
         in bindR (save_ride now ride db1) (\<lambda>db2.
            bindR (consume_ride_quote (rq_id quote) rid now db2) (\<lambda>db3.
            Inr (ride, record_history ride db3))))"

section \<open>Reading rides\<close>

definition get_ride :: "ride_env \<Rightarrow> uuid \<Rightarrow> uuid \<Rightarrow> string \<Rightarrow> ride_db \<Rightarrow> exn + view" where
  "get_ride env rid uid role db = bindR (load_ride rid db) (\<lambda>ride.
     let is_admin = (role = ''admin''); assigned = is_assigned_driver ride uid db
     in if rd_passenger_user_id ride \<noteq> uid \<and> \<not> assigned \<and> \<not> is_admin
        then Inl (ApiError 403 ''RIDE_NOT_OWNED_BY_USER'')
        else Inr (ride_detail_payload env ride (driver_payload env ride db)
          (if is_admin then ''admin'' else if assigned then ''driver'' else ''passenger'')))"

definition normalise_actor_role :: "string \<Rightarrow> string" where
  "normalise_actor_role role = (if role \<in> {''user'', ''passenger''} then ''passenger'' else role)"

definition list_rides ::
  "uuid \<Rightarrow> string \<Rightarrow> string option \<Rightarrow> uuid option \<Rightarrow> uuid option \<Rightarrow> ride_status option \<Rightarrow> datetime option
    \<Rightarrow> datetime option \<Rightarrow> nat \<Rightarrow> nat \<Rightarrow> ride_db \<Rightarrow> exn + view" where
  "list_rides uid role view_role passenger driver status from_date to_date page page_size db =
     (let identity = normalise_actor_role role;
          selected = str_or view_role identity
      in if selected \<notin> {''admin'', ''passenger'', ''driver''} then Inl (ApiError 422 ''INVALID_ROLE'')
         else if selected = ''admin'' \<and> identity \<noteq> ''admin'' then Inl (ApiError 403 ''FORBIDDEN_ROLE'')
         else
           let driver1 = (if selected = ''driver''
                 then (if identity \<noteq> ''admin'' \<or> driver = None
                       then driver_profile_id_for_user uid db else driver)
                 else if selected = ''passenger'' then None else driver);
               passenger1 = (if selected = ''passenger'' then Some uid else passenger)
           in if selected = ''driver'' \<and> driver1 = None
              then Inr (paginated_rides [] 0 page page_size)
              else let (rs, items) = list_rides_by passenger1 driver1 status from_date to_date
                         page page_size db
                   in Inr (paginated_rides rs items page page_size))"

definition get_active_ride :: "ride_env \<Rightarrow> uuid \<Rightarrow> string \<Rightarrow> ride_db \<Rightarrow> exn + view" where
  "get_active_ride env uid role db =
     (let driver = (normalise_actor_role role = ''driver'')
      in case (if driver then find_active_by_driver_user_id uid db
               else find_active_by_passenger_user_id uid db) of
           None \<Rightarrow> Inl (ApiError 404 ''ACTIVE_RIDE_NOT_FOUND'')
         | Some ride \<Rightarrow> Inr (ride_detail_payload env ride (driver_payload env ride db)
             (if driver then ''driver'' else ''passenger'')))"

section \<open>Traces and the actual price\<close>

text \<open>
  The ride is mutated in place and an exception may follow, so these return the ride as it then
  is, and the exception if there was one.
\<close>

definition ensure_map_trace_started :: "ride_env \<Rightarrow> ride \<Rightarrow> ride \<times> exn option" where
  "ensure_map_trace_started env ride =
     (if str_or (rd_map_trace_id ride) [] \<noteq> [] then (ride, None)
      else case (rd_pickup_location ride, rd_dropoff_location ride) of
          (Some pickup, Some dropoff) \<Rightarrow>
            (case re_start_trace env pickup dropoff (rd_distance_km ride) (rd_duration_seconds ride)
                 (rd_id ride) of
               Inl e \<Rightarrow> (ride, Some e)
             | Inr trace \<Rightarrow> (ride\<lparr>rd_map_trace_id := Some trace\<rparr>, None))
        | _ \<Rightarrow> (ride, Some (ApiError 502 ''DIDDIMAP_INVALID_RESPONSE'')))"

definition with_analysis :: "trace_analysis \<Rightarrow> ride \<Rightarrow> ride" where
  "with_analysis a ride = ride\<lparr>rd_trace_recommendation := ta_recommendation a,
     rd_trace_quality_label := ta_quality_label a, rd_trace_quality_score := ta_quality_score a,
     rd_trace_points_count := ta_points_count a,
     rd_trace_usable_points_count := ta_usable_points_count a\<rparr>"

definition actual_price :: "ride_env \<Rightarrow> ride \<Rightarrow> rat \<Rightarrow> int \<Rightarrow> fare_breakdown" where
  "actual_price env ride distance_km duration_seconds =
     pricing_breakdown (re_commission_rate env) distance_km duration_seconds
       (case dec_or (rd_base_fare ride) (Some DEFAULT_BASE_FARE) of None \<Rightarrow> 0 | Some b \<Rightarrow> b)
       (infer_price_per_km ride) (infer_price_per_min ride)
       (min (rd_surge_multiplier ride) SURGE_CAP) (comfort_multiplier (rd_comfort_level ride))"

definition with_actual_price :: "ride_env \<Rightarrow> rat \<Rightarrow> int \<Rightarrow> ride \<Rightarrow> ride" where
  "with_actual_price env distance_km duration_seconds ride =
     (let price = fb_total_fare (actual_price env ride distance_km duration_seconds);
          locked = dec_or (rd_final_fare ride) (rd_estimated_fare ride)
      in ride\<lparr>rd_actual_distance_km := Some distance_km,
           rd_actual_duration_seconds := Some duration_seconds,
           rd_actual_pricing_fare := Some price,
           rd_pricing_delta := map_option (\<lambda>l. price - l) locked,
           rd_trace_analysis_status := Some ''applied'', rd_trace_analysis_error_code := None,
           rd_final_fare := (if locked \<noteq> None then locked else rd_final_fare ride)\<rparr>)"

definition analyse_trace ::
  "ride_env \<Rightarrow> route_point list \<Rightarrow> datetime \<Rightarrow> string \<Rightarrow> exn + trace_analysis" where
  "analyse_trace env points now trace =
     bindR (re_append_trace env trace points) (\<lambda>_.
     bindR (re_finish_trace env trace now) (\<lambda>_. re_analyze_trace env trace))"

definition apply_actual_pricing_if_possible ::
  "ride_env \<Rightarrow> ride \<Rightarrow> datetime \<Rightarrow> ride_db \<Rightarrow> ride \<times> exn option" where
  "apply_actual_pricing_if_possible env ride now db =
     (let points = list_route_points (rd_id ride) db
      in if points = []
         then (ride\<lparr>rd_trace_analysis_status := Some ''no_samples'',
                 rd_trace_analysis_error_code := None\<rparr>, None)
         else case ensure_map_trace_started env ride of
             (ride1, Some e) \<Rightarrow> (ride1, Some e)
           | (ride1, None) \<Rightarrow>
            (case rd_map_trace_id ride1 of
               None \<Rightarrow> (ride1, Some (ApiError 502 ''DIDDIMAP_INVALID_RESPONSE''))
             | Some trace \<Rightarrow>
              (case analyse_trace env points now trace of
                 Inl e \<Rightarrow> (ride1, Some e)
               | Inr a \<Rightarrow>
                 let ride2 = with_analysis a ride1
                 in if \<not> ta_usable_for_scoring a
                    then (ride2\<lparr>rd_trace_analysis_status := Some ''ignored'',
                            rd_trace_analysis_error_code := None\<rparr>, None)
                    else case (ta_actual_distance_km a, ta_actual_duration_seconds a) of
                        (Some km, Some secs) \<Rightarrow> (with_actual_price env km secs ride2, None)
                      | _ \<Rightarrow> (ride2, Some (ApiError 502 ''DIDDIMAP_INVALID_RESPONSE'')))))"

section \<open>Waiting\<close>

text \<open>\<open>_stop_waiting\<close>: the caller is authorised; the mutated ride is returned for \<open>cancel\<close>.\<close>

definition stop_waiting_ride :: "ride_env \<Rightarrow> ride \<Rightarrow> string \<Rightarrow> datetime \<Rightarrow> exn + ride" where
  "stop_waiting_ride env ride reason now =
     (case rd_waiting_started_at ride of
        None \<Rightarrow> Inl (ApiError 409 ''WAITING_NOT_ACTIVE'')
      | Some started_at \<Rightarrow>
        if rd_status ride \<noteq> WAITING then Inl (ApiError 409 ''WAITING_NOT_ACTIVE'')
        else
          let elapsed = waiting_elapsed started_at now;
              minutes = billed_minutes elapsed;
              rate = (case dec_or (rd_waiting_rate_per_minute ride) (Some (of_int (re_waiting_price env)))
                      of None \<Rightarrow> 0 | Some r \<Rightarrow> r)
          in transition IN_PROGRESS now
               (Some [(''reason'', MStr reason), (''duration_seconds'', MInt elapsed),
                 (''billed_minutes'', MInt minutes)])
               (ride\<lparr>rd_waiting_duration_seconds := rd_waiting_duration_seconds ride + elapsed,
                  rd_waiting_fee := rd_waiting_fee ride + rate * of_int minutes,
                  rd_waiting_started_at := None\<rparr>))"

definition stop_waiting_saved ::
  "ride_env \<Rightarrow> ride \<Rightarrow> string \<Rightarrow> datetime \<Rightarrow> ride_db \<Rightarrow> exn + ride \<times> ride_db" where
  "stop_waiting_saved env ride reason now db =
     bindR (stop_waiting_ride env ride reason now) (\<lambda>ride1.
     bindR (save_ride now ride1 db) (\<lambda>db1. Inr (ride1, db1)))"

definition stop_waiting ::
  "ride_env \<Rightarrow> uuid \<Rightarrow> uuid \<Rightarrow> string \<Rightarrow> string \<Rightarrow> datetime \<Rightarrow> ride_db \<Rightarrow> exn + view \<times> ride_db" where
  "stop_waiting env rid uid role reason now db =
     bindR (driver_ride rid uid role db) (\<lambda>ride.
     bindR (stop_waiting_saved env ride reason now db) (\<lambda>(ride1, db1).
     Inr (waiting_payload ride1, db1)))"

definition start_waiting ::
  "ride_env \<Rightarrow> uuid \<Rightarrow> uuid \<Rightarrow> string \<Rightarrow> rat option \<Rightarrow> datetime \<Rightarrow> ride_db \<Rightarrow> exn + view \<times> ride_db" where
  "start_waiting env rid uid role speed_kmh now db =
     bindR (driver_ride rid uid role db) (\<lambda>ride.
     if rd_status ride = WAITING then Inr (waiting_payload ride, db)
     else if rd_status ride \<noteq> IN_PROGRESS then Inl (ApiError 409 ''WAITING_INVALID_RIDE_STATUS'')
     else case speed_kmh of
         None \<Rightarrow> Inl (ApiError 409 ''WAITING_TELEMETRY_REQUIRED'')
       | Some speed \<Rightarrow>
         if re_speed_threshold env < speed then Inl (ApiError 409 ''VEHICLE_NOT_STOPPED'')
         else
           bindR (transition WAITING now (Some [(''reason'', MStr ''manual'')])
             (ride\<lparr>rd_waiting_started_at := Some now,
                rd_waiting_rate_per_minute := Some (of_int (re_waiting_price env))\<rparr>)) (\<lambda>ride1.
           bindR (save_ride now ride1 db) (\<lambda>db1. Inr (waiting_payload ride1, db1))))"

section \<open>Status changes and completion\<close>

text \<open>A completion with a failed trace goes on with the locked fare.\<close>

definition priced_for_completion :: "ride_env \<Rightarrow> ride \<Rightarrow> datetime \<Rightarrow> ride_db \<Rightarrow> exn + ride" where
  "priced_for_completion env ride now db =
     (case apply_actual_pricing_if_possible env ride now db of
        (r, None) \<Rightarrow> Inr r
      | (r, Some (ApiError _ code)) \<Rightarrow> Inr (r\<lparr>rd_trace_analysis_status := Some ''provider_error'',
             rd_trace_analysis_error_code := Some code\<rparr>)
      | (r, Some e) \<Rightarrow> Inl e)"

definition completed_fare :: "ride \<Rightarrow> ride" where
  "completed_fare ride =
     (let base_fare = (case dec_or (dec_or (rd_final_fare ride) (rd_estimated_fare ride)) (Some 0)
            of None \<Rightarrow> 0 | Some b \<Rightarrow> b)
      in split_fare (base_fare + extras ride) (ride\<lparr>rd_completion_reason :=
           Some (str_or (rd_completion_reason ride) ''destination_reached'')\<rparr>))"

text \<open>A ride that ends while it waits is first taken out of the wait, saved, and loaded again.\<close>

definition wait_ended_first ::
  "ride_env \<Rightarrow> uuid \<Rightarrow> uuid \<Rightarrow> string \<Rightarrow> string \<Rightarrow> bool \<Rightarrow> ride \<Rightarrow> datetime \<Rightarrow> ride_db
    \<Rightarrow> exn + ride \<times> ride_db" where
  "wait_ended_first env rid uid role reason waiting ride now db =
     (if waiting
      then bindR (stop_waiting env rid uid role reason now db) (\<lambda>(_, db1).
           bindR (load_ride rid db1) (\<lambda>r. Inr (r, db1)))
      else Inr (ride, db))"

definition finish_status ::
  "ride_env \<Rightarrow> ride \<Rightarrow> ride_status \<Rightarrow> string \<Rightarrow> datetime \<Rightarrow> ride_db \<Rightarrow> exn + view \<times> ride_db" where
  "finish_status env ride1 new_status viewer now db1 =
     bindR (if new_status = COMPLETED then priced_for_completion env ride1 now db1 else Inr ride1) (\<lambda>ride2.
     bindR (api_transition new_status now ride2) (\<lambda>ride3.
     let ride4 = (if new_status = COMPLETED then completed_fare ride3 else ride3)
     in bindR (save_ride now ride4 db1) (\<lambda>db2.
        Inr (ride_detail_payload env ride4 VNone viewer,
          record_priority_outcome env ride4 now (record_history ride4 db2)))))"

definition update_status ::
  "ride_env \<Rightarrow> uuid \<Rightarrow> ride_status \<Rightarrow> uuid \<Rightarrow> string \<Rightarrow> datetime \<Rightarrow> ride_db \<Rightarrow> exn + view \<times> ride_db" where
  "update_status env rid new_status uid role now db =
     (let viewer = (if role = ''admin'' then ''admin'' else ''driver'') in
      bindR (driver_ride rid uid role db) (\<lambda>ride0.
      if rd_status ride0 = COMPLETED \<and> new_status = COMPLETED
      then Inr (ride_detail_payload env ride0 VNone viewer, db)
      else if rd_status ride0 = WAITING \<and> new_status = IN_PROGRESS
      then Inl (ApiError 409 ''WAITING_STOP_ENDPOINT_REQUIRED'')
      else if new_status = IN_PROGRESS then Inl (ApiError 409 ''RIDE_START_CODE_REQUIRED'')
      else
        bindR (wait_ended_first env rid uid role ''ride_completed''
            (new_status = COMPLETED \<and> rd_status ride0 = WAITING) ride0 now db) (\<lambda>(ride1, db1).
        finish_status env ride1 new_status viewer now db1)))"

section \<open>Early stop\<close>

text \<open>\<open>sum(...)\<close> of the segment lengths, each \<open>Decimal(str(meters / 1000))\<close>.\<close>

definition trace_distance_km :: "ride_env \<Rightarrow> route_point list \<Rightarrow> rat" where
  "trace_distance_km env points = foldl dadd 0
     (map (\<lambda>(p, q). re_distance_meters env (rp_location p) (rp_location q) / 1000)
       (zip points (tl points)))"

definition provisional_early_stop_amount :: "ride_env \<Rightarrow> ride \<Rightarrow> datetime \<Rightarrow> ride_db \<Rightarrow> rat" where
  "provisional_early_stop_amount env ride now db =
     (let distance_km = trace_distance_km env (list_route_points (rd_id ride) db);
          duration_seconds = (case rd_started_at ride of
            None \<Rightarrow> 0 | Some t \<Rightarrow> max 0 (int_seconds (now - t)));
          base = (case dec_or (rd_base_fare ride) (Some DEFAULT_BASE_FARE) of None \<Rightarrow> 0 | Some b \<Rightarrow> b)
      in max base (fb_total_fare (actual_price env ride distance_km duration_seconds)) + extras ride)"

definition request_early_stop ::
  "ride_env \<Rightarrow> uuid \<Rightarrow> uuid \<Rightarrow> datetime \<Rightarrow> ride_db \<Rightarrow> exn + view \<times> ride_db" where
  "request_early_stop env rid passenger now db =
     bindR (load_ride rid db) (\<lambda>ride.
     if rd_passenger_user_id ride \<noteq> passenger then Inl (ApiError 403 ''RIDE_NOT_OWNED_BY_USER'')
     else if rd_status ride \<notin> {IN_PROGRESS, WAITING}
     then Inl (ApiError 409 ''EARLY_STOP_INVALID_RIDE_STATUS'')
     else
       let ride1 = ride\<lparr>rd_early_stop_requested_at := Some now,
             rd_early_stop_expires_at := Some (now + seconds 120),
             rd_early_stop_requested_by_user_id := Some passenger\<rparr>
       in bindR (save_ride now ride1 db) (\<lambda>db1.
          Inr (early_stop_payload ride1 (provisional_early_stop_amount env ride1 now db1) True, db1)))"

definition early_stop_fare :: "rat \<Rightarrow> datetime \<Rightarrow> ride \<Rightarrow> ride" where
  "early_stop_fare price now ride =
     (let base = (case dec_or (rd_base_fare ride) (Some DEFAULT_BASE_FARE) of None \<Rightarrow> 0 | Some b \<Rightarrow> b)
      in split_fare (max base price + extras ride)
           (ride\<lparr>rd_completion_reason := Some ''early_stop'', rd_early_stop_confirmed_at := Some now\<rparr>))"

definition finish_early_stop :: "ride_env \<Rightarrow> ride \<Rightarrow> datetime \<Rightarrow> ride_db \<Rightarrow> exn + view \<times> ride_db" where
  "finish_early_stop env ride1 now db1 =
     (case apply_actual_pricing_if_possible env ride1 now db1 of
        (_, Some e) \<Rightarrow> Inl e
      | (ride2, None) \<Rightarrow>
       (case rd_actual_pricing_fare ride2 of
          None \<Rightarrow> Inl (ApiError 503 ''EARLY_STOP_PRICING_UNAVAILABLE'')
        | Some price \<Rightarrow>
          if rd_trace_analysis_status ride2 \<noteq> Some ''applied''
          then Inl (ApiError 503 ''EARLY_STOP_PRICING_UNAVAILABLE'')
          else
            bindR (transition COMPLETED now (Some [(''completion_reason'', MStr ''early_stop'')])
                (early_stop_fare price now ride2)) (\<lambda>ride3.
            bindR (save_ride now ride3 db1) (\<lambda>db2.
            Inr (early_stop_payload ride3 (case rd_final_fare ride3 of None \<Rightarrow> 0 | Some f \<Rightarrow> f) False,
              record_priority_outcome env ride3 now (record_history ride3 db2))))))"

definition confirm_early_stop ::
  "ride_env \<Rightarrow> uuid \<Rightarrow> uuid \<Rightarrow> string \<Rightarrow> datetime \<Rightarrow> ride_db \<Rightarrow> exn + view \<times> ride_db" where
  "confirm_early_stop env rid uid role now db =
     bindR (driver_ride rid uid role db) (\<lambda>ride0.
     if rd_status ride0 \<notin> {IN_PROGRESS, WAITING}
     then Inl (ApiError 409 ''EARLY_STOP_INVALID_RIDE_STATUS'')
     else case (rd_early_stop_requested_at ride0, rd_early_stop_expires_at ride0) of
         (Some _, Some expires_at) \<Rightarrow>
           if expires_at \<le> now then Inl (ApiError 409 ''EARLY_STOP_REQUEST_EXPIRED'')
           else
             bindR (wait_ended_first env rid uid role ''early_stop'' (rd_status ride0 = WAITING) ride0 now db)
               (\<lambda>(ride1, db1).
             finish_early_stop env ride1 now db1)
       | _ \<Rightarrow> Inl (ApiError 409 ''EARLY_STOP_NOT_REQUESTED''))"

section \<open>Arrival and start\<close>

text \<open>\<open>round(distance_m, 1)\<close> and \<open>ride.status_history[-1]\<close>.\<close>

definition tenths :: "rat \<Rightarrow> rat" where
  "tenths x = of_int (round_half_even (x * 10)) / 10"

definition record_last :: "ride \<Rightarrow> ride_db \<Rightarrow> ride_db" where
  "record_last ride db = record_status_transition (last (rd_status_history ride)) db"

definition mark_arrived ::
  "ride_env \<Rightarrow> uuid \<Rightarrow> uuid \<Rightarrow> string \<Rightarrow> geo_point option \<Rightarrow> datetime \<Rightarrow> ride_db \<Rightarrow> exn + view \<times> ride_db" where
  "mark_arrived env rid uid role driver_position now db =
     bindR (driver_ride rid uid role db) (\<lambda>ride.
     if rd_status ride = ARRIVED then Inr (pre_ride_payload env ride, db)
     else if rd_status ride \<noteq> DRIVER_EN_ROUTE then Inl (ApiError 409 ''ARRIVAL_INVALID_RIDE_STATUS'')
     else case (driver_position, rd_pickup_location ride) of
         (Some position, Some pickup) \<Rightarrow>
           let distance_m = re_distance_meters env position pickup in
           if re_arrival_max_meters env < distance_m then Inl (ApiError 422 ''DRIVER_TOO_FAR_FROM_PICKUP'')
           else
             bindR (transition ARRIVED now (Some [(''distance_meters'', MReal (tenths distance_m))])
               (ride\<lparr>rd_start_code_hash :=
                    Some (hash_start_code env (rd_id ride) (ride_start_code env (rd_id ride))),
                  rd_pre_ride_wait_started_at := Some now\<rparr>)) (\<lambda>ride1.
             bindR (save_ride now ride1 db) (\<lambda>db1.
             Inr (pre_ride_payload env ride1, record_last ride1 db1)))
       | _ \<Rightarrow> Inl (ApiError 422 ''DRIVER_LOCATION_REQUIRED''))"

definition wrong_start_code :: "ride_env \<Rightarrow> ride \<Rightarrow> datetime \<Rightarrow> ride" where
  "wrong_start_code env ride now =
     ride\<lparr>rd_start_code_attempts := rd_start_code_attempts ride + 1,
       rd_start_code_blocked_at :=
         (if re_start_code_max_attempts env \<le> rd_start_code_attempts ride + 1 then Some now
          else rd_start_code_blocked_at ride)\<rparr>"

definition started_ride :: "ride_env \<Rightarrow> ride \<Rightarrow> datetime \<Rightarrow> exn + ride" where
  "started_ride env ride now =
     (let elapsed = max 0 (int_seconds (now - (case rd_pre_ride_wait_started_at ride of
            None \<Rightarrow> now | Some t \<Rightarrow> t)))
      in transition IN_PROGRESS now (Some [(''start_code_verified'', MBool True)])
           (ride\<lparr>rd_pre_ride_wait_seconds := elapsed,
              rd_pre_ride_wait_fee := pre_ride_fee (re_wait_price env) (re_wait_free_seconds env) elapsed,
              rd_start_code_used_at := Some now\<rparr>))"

definition start_with_valid_code ::
  "ride_env \<Rightarrow> ride \<Rightarrow> datetime \<Rightarrow> ride_db \<Rightarrow> exn + view \<times> ride_db" where
  "start_with_valid_code env ride now db =
     bindR (started_ride env ride now) (\<lambda>ride1.
     case ensure_map_trace_started env ride1 of
       (_, Some e) \<Rightarrow> Inl e
     | (ride2, None) \<Rightarrow>
       bindR (save_ride now ride2 db) (\<lambda>db1.
       Inr (ride_detail_payload env ride2 VNone ''driver'', record_last ride2 db1)))"

text \<open>A wrong code is counted and committed, then refused.\<close>

definition start_ride_with_code ::
  "ride_env \<Rightarrow> uuid \<Rightarrow> uuid \<Rightarrow> string \<Rightarrow> string \<Rightarrow> datetime \<Rightarrow> ride_db \<Rightarrow> (exn + view) \<times> ride_db" where
  "start_ride_with_code env rid uid role code now db =
     (case driver_ride rid uid role db of
        Inl e \<Rightarrow> (Inl e, db)
      | Inr ride \<Rightarrow>
        if rd_status ride \<noteq> ARRIVED then (Inl (ApiError 409 ''RIDE_START_INVALID_STATUS''), db)
        else if rd_start_code_used_at ride \<noteq> None
        then (Inl (ApiError 409 ''RIDE_START_CODE_ALREADY_USED''), db)
        else if rd_start_code_blocked_at ride \<noteq> None
        then (Inl (ApiError 423 ''RIDE_START_CODE_BLOCKED''), db)
        else if str_or (rd_start_code_hash ride) [] \<noteq> hash_start_code env (rd_id ride) code then
          let ride1 = wrong_start_code env ride now
          in case save_ride now ride1 db of
               Inl e \<Rightarrow> (Inl e, db)
             | Inr db1 \<Rightarrow>
               (Inl (if rd_start_code_blocked_at ride1 \<noteq> None
                     then ApiError 423 ''RIDE_START_CODE_BLOCKED''
                     else ApiError 422 ''INVALID_RIDE_START_CODE''), db1)
        else transact db (start_with_valid_code env ride now db))"

definition mark_passenger_no_show ::
  "ride_env \<Rightarrow> uuid \<Rightarrow> uuid \<Rightarrow> string \<Rightarrow> datetime \<Rightarrow> ride_db \<Rightarrow> exn + view \<times> ride_db" where
  "mark_passenger_no_show env rid uid role now db =
     bindR (driver_ride rid uid role db) (\<lambda>ride.
     case rd_pre_ride_wait_started_at ride of
       None \<Rightarrow> Inl (ApiError 409 ''NO_SHOW_INVALID_RIDE_STATUS'')
     | Some started_at \<Rightarrow>
       if rd_status ride \<noteq> ARRIVED then Inl (ApiError 409 ''NO_SHOW_INVALID_RIDE_STATUS'')
       else
         let elapsed = int_seconds (now - started_at) in
         if elapsed < re_no_show_seconds env then Inl (ApiError 409 ''NO_SHOW_TOO_EARLY'')
         else
           bindR (transition CANCELLED_BY_DRIVER now (Some [(''reason'', MStr ''passenger_no_show'')])
             (ride\<lparr>rd_pre_ride_wait_seconds := elapsed, rd_pre_ride_wait_fee := 0,
                rd_cancellation_reason := Some ''passenger_no_show''\<rparr>)) (\<lambda>ride1.
           bindR (save_ride now ride1 db) (\<lambda>db1.
           Inr (ride_detail_payload env ride1 VNone ''driver'', record_last ride1 db1))))"

section \<open>Stops and supplements\<close>

definition require_active_ride_for_driver :: "uuid \<Rightarrow> uuid \<Rightarrow> string \<Rightarrow> ride_db \<Rightarrow> exn + ride" where
  "require_active_ride_for_driver rid uid role db = bindR (driver_ride rid uid role db) (\<lambda>ride.
     if rd_status ride \<notin> {IN_PROGRESS, WAITING} then Inl (ApiError 409 ''RIDE_NOT_ACTIVE'')
     else Inr ride)"

definition add_stop ::
  "uuid \<Rightarrow> uuid \<Rightarrow> string \<Rightarrow> rat \<Rightarrow> rat \<Rightarrow> string option \<Rightarrow> string option \<Rightarrow> datetime \<Rightarrow> ride_db
    \<Rightarrow> exn + view \<times> ride_db" where
  "add_stop rid uid role latitude longitude address note now db =
     bindR (require_active_ride_for_driver rid uid role db) (\<lambda>ride.
     let sequence = count_stops (rd_id ride) db;
         (sid, db1) = fresh_id db;
         stop = \<lparr>rs_id = sid, rs_ride_id = rd_id ride, rs_sequence = sequence,
           rs_latitude = latitude, rs_longitude = longitude, rs_address = address,
           rs_note = note, rs_created_at = now\<rparr>
     in Inr (stop_payload stop, save_stop stop db1))"

definition add_supplement ::
  "uuid \<Rightarrow> uuid \<Rightarrow> string \<Rightarrow> string \<Rightarrow> rat option \<Rightarrow> string option \<Rightarrow> datetime \<Rightarrow> ride_db
    \<Rightarrow> exn + view \<times> ride_db" where
  "add_supplement rid uid role supplement_type amount custom_label now db =
     bindR (require_active_ride_for_driver rid uid role db) (\<lambda>ride.
     let kind = lower (strip supplement_type) in
     bindR (supplement_amount kind amount) (\<lambda>checked.
     let label = strip (str_or custom_label []) in
     if kind = ''other'' \<and> label = [] then Inl (ApiError 422 ''SUPPLEMENT_LABEL_REQUIRED'')
     else
       let (sid, db1) = fresh_id db;
           supplement = \<lparr>su_id = sid, su_ride_id = rd_id ride, su_amount = checked,
             su_reason = kind, su_custom_label = (if kind = ''other'' then Some label else None),
             su_source = ''catalog'', su_status = ''pending'', su_created_by_user_id = Some uid,
             su_created_at = now, su_decided_by_user_id = None, su_decided_at = None\<rparr>
       in bindR (insert_supplement supplement db1) (\<lambda>db2.
          Inr (supplement_payload supplement, db2))))"

definition is_participant :: "ride \<Rightarrow> uuid \<Rightarrow> ride_db \<Rightarrow> bool" where
  "is_participant ride uid db \<longleftrightarrow> rd_passenger_user_id ride = uid \<or> is_assigned_driver ride uid db"

definition list_supplements :: "uuid \<Rightarrow> uuid \<Rightarrow> string \<Rightarrow> ride_db \<Rightarrow> exn + view" where
  "list_supplements rid uid role db = bindR (load_ride rid db) (\<lambda>ride.
     if role \<noteq> ''admin'' \<and> \<not> is_participant ride uid db
     then Inl (ApiError 403 ''RIDE_NOT_OWNED_BY_USER'')
     else Inr (VObj [(''items'', VList (map supplement_payload (supplements_of (rd_id ride) db))),
       (''supplements_total'', VInt (py_trunc (rd_supplements_total ride)))]))"

definition decide_supplement ::
  "uuid \<Rightarrow> uuid \<Rightarrow> uuid \<Rightarrow> string \<Rightarrow> string \<Rightarrow> datetime \<Rightarrow> ride_db \<Rightarrow> exn + view \<times> ride_db" where
  "decide_supplement rid sid uid role decision now db =
     bindR (load_ride rid db) (\<lambda>ride.
     if role \<noteq> ''admin'' \<and> rd_passenger_user_id ride \<noteq> uid
     then Inl (ApiError 403 ''RIDE_NOT_OWNED_BY_USER'')
     else if rd_status ride \<notin> {IN_PROGRESS, WAITING} then Inl (ApiError 409 ''RIDE_NOT_ACTIVE'')
     else case find_supplement_for_update (rd_id ride) sid db of
         None \<Rightarrow> Inl (ApiError 404 ''SUPPLEMENT_NOT_FOUND'')
       | Some supplement \<Rightarrow>
         if su_status supplement = decision then Inr (supplement_payload supplement, db)
         else if su_status supplement \<noteq> ''pending''
         then Inl (ApiError 409 ''SUPPLEMENT_ALREADY_DECIDED'')
         else
           let decided = supplement\<lparr>su_status := decision, su_decided_by_user_id := Some uid,
                 su_decided_at := Some now\<rparr>
           in bindR (save_supplement decided db) (\<lambda>db1.
              bindR (save_ride now (ride\<lparr>rd_supplements_total :=
                  accepted_supplements_total (rd_id ride) db1\<rparr>) db1) (\<lambda>db2.
              Inr (supplement_payload decided, db2))))"

section \<open>Cancellation and rating\<close>

definition cancel_ride ::
  "ride_env \<Rightarrow> uuid \<Rightarrow> string \<Rightarrow> uuid \<Rightarrow> string \<Rightarrow> datetime \<Rightarrow> ride_db \<Rightarrow> exn + view \<times> ride_db" where
  "cancel_ride env rid reason uid role now db =
     (if reason \<notin> set VALID_CANCEL_REASONS then Inl (ApiError 422 ''INVALID_CANCEL_REASON'')
      else bindR (load_ride rid db) (\<lambda>ride.
        let is_admin = (role = ''admin''); is_driver = is_assigned_driver ride uid db in
        if \<not> is_admin \<and> rd_passenger_user_id ride \<noteq> uid \<and> \<not> is_driver
        then Inl (ApiError 403 ''RIDE_NOT_OWNED_BY_USER'')
        else if rd_status ride = COMPLETED then Inl (ApiError 409 ''RIDE_ALREADY_COMPLETED'')
        else if rd_status ride \<in> {CANCELLED_BY_PASSENGER, CANCELLED_BY_DRIVER}
        then Inl (ApiError 409 ''RIDE_ALREADY_CANCELLED'')
        else if rd_status ride = NO_DRIVER_FOUND then Inl (ApiError 409 ''RIDE_NOT_CANCELLABLE'')
        else
          bindR (if rd_status ride = WAITING then stop_waiting_saved env ride ''ride_cancelled'' now db
                 else Inr (ride, db)) (\<lambda>(ride1, db1).
          let new_status = (if reason = cancel_reason_value DRIVER_UNAVAILABLE \<or> (is_driver \<and> \<not> is_admin)
                then CANCELLED_BY_DRIVER else CANCELLED_BY_PASSENGER)
          in bindR (transition new_status now (Some [(''reason'', MStr reason)]) ride1) (\<lambda>ride2.
             let ride3 = ride2\<lparr>rd_cancellation_reason := Some reason\<rparr>
             in bindR (save_ride now ride3 db1) (\<lambda>db2.
                Inr (VObj [(''id'', vid (rd_id ride3)),
                       (''status'', VStr (ride_status_value (rd_status ride3))),
                       (''cancelled_at'', vopt VAt (rd_cancelled_at ride3))],
                  record_priority_outcome env ride3 now db2))))))"

definition rating_role_for_actor :: "ride \<Rightarrow> uuid \<Rightarrow> string \<Rightarrow> ride_db \<Rightarrow> string option" where
  "rating_role_for_actor ride uid token_role db =
     (if rd_passenger_user_id ride = uid then Some ''passenger''
      else if token_role = ''admin'' then None
      else if is_assigned_driver ride uid db then Some ''driver'' else None)"

text \<open>A profile without an average would violate the column, which is not nullable.\<close>

definition refresh_driver_rating :: "uuid \<Rightarrow> ride_db \<Rightarrow> exn + ride_db" where
  "refresh_driver_rating driver_id db =
     (case find_profile driver_id db of
        None \<Rightarrow> Inr db
      | Some p \<Rightarrow>
       (case driver_rating_summary driver_id db of
          (_, None) \<Rightarrow> Inl IntegrityError
        | (n, Some avg) \<Rightarrow> save_profile (p\<lparr>dp_rating_count := int n, dp_rating_avg := avg\<rparr>) db))"

definition rate ::
  "uuid \<Rightarrow> int \<Rightarrow> string option \<Rightarrow> uuid \<Rightarrow> string \<Rightarrow> ride_db \<Rightarrow> exn + view \<times> ride_db" where
  "rate rid rating comment uid role db =
     bindR (load_ride rid db) (\<lambda>ride.
     case rating_role_for_actor ride uid role db of
       None \<Rightarrow> Inl (ApiError 403 ''RIDE_NOT_OWNED_BY_USER'')
     | Some rater_role \<Rightarrow>
       if rd_status ride \<noteq> COMPLETED then Inl (ApiError 409 ''RIDE_NOT_COMPLETED'')
       else if has_rated rid rater_role db then Inl (ApiError 409 ''RATING_ALREADY_SUBMITTED'')
       else if \<not> (1 \<le> rating \<and> rating \<le> 5) then Inl (ApiError 422 ''RATING_OUT_OF_RANGE'')
       else
         let (i, db1) = fresh_id db in
         bindR (save_rating \<lparr>rr_id = i, rr_ride_id = rid, rr_rater_role = rater_role,
             rr_rating = rating, rr_comment = comment\<rparr> db1) (\<lambda>db2.
         bindR (case rd_driver_id ride of
             None \<Rightarrow> Inr db2
           | Some driver_id \<Rightarrow> if rater_role = ''passenger'' then refresh_driver_rating driver_id db2
                               else Inr db2) (\<lambda>db3.
         Inr (VObj [(''id'', vid i), (''ride_id'', vid rid), (''rating'', VInt rating),
           (''rater_role'', VStr rater_role)], db3))))"

section \<open>Positions, sharing, emergencies\<close>

definition point_of_sample :: "uuid \<Rightarrow> datetime \<Rightarrow> location_sample \<Rightarrow> route_point" where
  "point_of_sample rid now s = \<lparr>rp_ride_id = rid,
     rp_location = \<lparr>lat = sa_lat s, lng = sa_lng s\<rparr>,
     rp_recorded_at = (case sa_recorded_at s of None \<Rightarrow> now | Some t \<Rightarrow> t),
     rp_heading = sa_heading s, rp_speed_kmh = sa_speed_kmh s, rp_accuracy_m = sa_accuracy_m s,
     rp_source = (case sa_source s of None \<Rightarrow> ''driver'' | Some x \<Rightarrow> x)\<rparr>"

definition add_location_samples ::
  "ride_env \<Rightarrow> uuid \<Rightarrow> location_sample list \<Rightarrow> uuid \<Rightarrow> uuid \<Rightarrow> datetime \<Rightarrow> ride_db \<Rightarrow> exn + view \<times> ride_db" where
  "add_location_samples env rid samples uid batch_id now db =
     bindR (load_ride rid db) (\<lambda>ride.
     if \<not> is_assigned_driver ride uid db then Inl (ApiError 403 ''RIDE_NOT_OWNED_BY_USER'')
     else
       let ((accepted, replayed, conflict), db1) = save_route_point_batch batch_id uid
             (re_samples_hash env samples) (map (point_of_sample rid now) samples) db
       in if conflict then Inl (ApiError 409 ''GPS_BATCH_IDEMPOTENCY_CONFLICT'')
          else Inr (VObj [(''ride_id'', vid rid), (''batch_id'', vid batch_id),
              (''accepted_samples'', VInt (int accepted)), (''replayed'', VBool replayed)], db1))"

definition create_share_link ::
  "ride_env \<Rightarrow> uuid \<Rightarrow> uuid \<Rightarrow> string \<Rightarrow> datetime \<Rightarrow> ride_db \<Rightarrow> exn + view \<times> ride_db" where
  "create_share_link env rid uid role now db =
     bindR (load_ride rid db) (\<lambda>ride.
     if \<not> is_participant ride uid db \<and> role \<noteq> ''admin''
     then Inl (ApiError 403 ''RIDE_NOT_OWNED_BY_USER'')
     else
       let token = str_or (rd_share_token ride) (re_share_token env);
           ride1 = ride\<lparr>rd_share_token := Some token, rd_share_expires_at := Some (now + seconds 86400)\<rparr>
       in bindR (save_ride now ride1 db) (\<lambda>db1.
          Inr (VObj [(''ride_id'', vid (rd_id ride1)), (''share_token'', VStr token),
              (''expires_at'', vopt VAt (rd_share_expires_at ride1)),
              (''public_path'', VStr (''/v1/rides/shared/'' @ token))], db1)))"

definition get_shared_ride :: "string \<Rightarrow> datetime \<Rightarrow> ride_db \<Rightarrow> exn + view" where
  "get_shared_ride token now db =
     bindR (find_by_share_token token db) (\<lambda>found.
     case found of
       None \<Rightarrow> Inl (ApiError 404 ''SHARE_LINK_NOT_FOUND'')
     | Some ride \<Rightarrow>
      (case rd_share_expires_at ride of
         None \<Rightarrow> Inl (ApiError 404 ''SHARE_LINK_NOT_FOUND'')
       | Some expires_at \<Rightarrow>
         if expires_at < now then Inl (ApiError 404 ''SHARE_LINK_NOT_FOUND'')
         else
           let latest = latest_route_point (rd_id ride) db
           in Inr (VObj [(''ride_id'', vid (rd_id ride)),
              (''status'', VStr (ride_status_value (rd_status ride))),
              (''driver_location'', vopt (\<lambda>p. VObj [(''lat'', VNum (lat (rp_location p))),
                 (''lng'', VNum (lng (rp_location p)))]) latest),
              (''last_location_at'', vopt (\<lambda>p. VAt (rp_recorded_at p)) latest),
              (''pickup'', point_payload (rd_pickup_location ride) (rd_pickup_address ride)),
              (''dropoff'', point_payload (rd_dropoff_location ride) (rd_dropoff_address ride))])))"

definition notification_view :: "notification \<Rightarrow> view" where
  "notification_view n = VObj [(''target'', VStr (nt_target n)), (''channel'', VStr (nt_channel n)),
     (''recipient'', vopt VStr (nt_recipient n)), (''status'', VStr (nt_status n)),
     (''reason'', vopt VStr (nt_reason n))]"

definition emergency_open :: "string option \<Rightarrow> datetime \<Rightarrow> ride \<Rightarrow> ride" where
  "emergency_open note now ride = ride\<lparr>
     rd_emergency_requested_at := (case rd_emergency_requested_at ride of None \<Rightarrow> Some now | t \<Rightarrow> t),
     rd_emergency_status := Some ''open'',
     rd_emergency_note := (case rd_emergency_note ride of None \<Rightarrow> note | n \<Rightarrow> n)\<rparr>"

definition request_emergency ::
  "ride_env \<Rightarrow> uuid \<Rightarrow> uuid \<Rightarrow> string \<Rightarrow> string option \<Rightarrow> datetime \<Rightarrow> ride_db \<Rightarrow> exn + view \<times> ride_db" where
  "request_emergency env rid uid role note now db =
     bindR (load_ride rid db) (\<lambda>ride.
     if \<not> is_participant ride uid db \<and> role \<noteq> ''admin''
     then Inl (ApiError 403 ''RIDE_NOT_OWNED_BY_USER'')
     else
       let latest = latest_emergency_event (rd_id ride) db;
           notified = (case latest of None \<Rightarrow> False | Some e \<Rightarrow> em_contact_notified e)
       in if (case latest of None \<Rightarrow> False
              | Some e \<Rightarrow> now - em_requested_at e < seconds (re_emergency_rate_limit env))
          then Inl (ApiError 429 ''EMERGENCY_RATE_LIMITED'')
          else
            let ride1 = emergency_open note now ride in
            bindR (save_ride now ride1 db) (\<lambda>db1.
            let results = re_notify env ride1 uid role note
                  (\<not> (re_emergency_notify_once env \<and> notified));
                (i, db2) = fresh_id db1;
                event = \<lparr>em_id = i, em_ride_id = rd_id ride1, em_actor_user_id = uid,
                  em_actor_role = role, em_requested_at = now, em_note = note,
                  em_sequence = (case latest of None \<Rightarrow> 1 | Some e \<Rightarrow> em_sequence e + 1),
                  em_contact_notified = (notified \<or> list_ex (\<lambda>n. nt_target n = ''emergency_contact''
                     \<and> nt_status n = ''sent'') results),
                  em_notification_results = results\<rparr>
            in bindR (save_emergency_event event db2) (\<lambda>db3.
               Inr (VObj [(''ride_id'', vid (rd_id ride1)), (''status'', VStr ''open''),
                   (''requested_at'', vopt VAt (rd_emergency_requested_at ride1)),
                   (''notifications'', VList (map notification_view results)),
                   (''event_id'', vid i), (''sequence'', VInt (int (em_sequence event)))], db3))))"

end
