(* ===== verification/Offer_Store.thy ===== *)
theory Offer_Store
  imports Ride_Service
begin

text \<open>
  app\_base/modules/ride/infra/offer\_store.py: the Redis keys of one ride's matching (the offer
  wave, the drivers already tried, the claim), each with its expiry. A wave is a list without
  repetition, as the code reads a Redis set; a value that an older deployment wrote is a string.

  The locale \<open>claiming\<close> is the contract that matching relies on: while a claim is held nobody
  else can claim, so that of any number of attempts at most one wins.
\<close>

datatype offer_value = One string | Wave "uuid list"

record offer_store =
  os_offers :: "uuid \<Rightarrow> (offer_value \<times> datetime) option"
  os_tried :: "uuid \<Rightarrow> (uuid list \<times> datetime) option"
  os_claims :: "uuid \<Rightarrow> (uuid \<times> datetime) option"

definition OFFER_TTL_SECONDS :: int where "OFFER_TTL_SECONDS = 15"

definition TRIED_TTL_SECONDS :: int where "TRIED_TTL_SECONDS = 900"

definition no_offers :: offer_store where
  "no_offers = \<lparr>os_offers = Map.empty, os_tried = Map.empty, os_claims = Map.empty\<rparr>"

definition live :: "datetime \<Rightarrow> ('a \<times> datetime) option \<Rightarrow> 'a option" where
  "live now x = (case x of None \<Rightarrow> None | Some (v, t) \<Rightarrow> if now < t then Some v else None)"

lemma live_simps [simp]:
  "live now None = None"
  "live now (Some (v, t)) = (if now < t then Some v else None)"
  by (simp_all add: live_def)

definition already_tried :: "datetime \<Rightarrow> uuid \<Rightarrow> offer_store \<Rightarrow> uuid list" where
  "already_tried now rid st = (case live now (os_tried st rid) of None \<Rightarrow> [] | Some ds \<Rightarrow> ds)"

definition open_offers :: "datetime \<Rightarrow> uuid \<Rightarrow> uuid list \<Rightarrow> offer_store \<Rightarrow> offer_store" where
  "open_offers now rid drivers st =
     (if drivers = [] then st
      else st\<lparr>os_offers := (os_offers st)(rid \<mapsto> (Wave (remdups drivers), now + seconds OFFER_TTL_SECONDS)),
          os_tried := (os_tried st)(rid \<mapsto> (remdups (already_tried now rid st @ drivers),
            now + seconds TRIED_TTL_SECONDS))\<rparr>)"

definition current_offers :: "datetime \<Rightarrow> uuid \<Rightarrow> offer_store \<Rightarrow> uuid list" where
  "current_offers now rid st = (case live now (os_offers st rid) of
       None \<Rightarrow> []
     | Some (One raw) \<Rightarrow> (case uuid_parse raw of None \<Rightarrow> [] | Some d \<Rightarrow> [d])
     | Some (Wave ds) \<Rightarrow> ds)"

definition close_offer :: "uuid \<Rightarrow> offer_store \<Rightarrow> offer_store" where
  "close_offer rid st = st\<lparr>os_offers := (os_offers st)(rid := None)\<rparr>"

text \<open>Whether somebody else of the wave can still answer.\<close>

definition decline_offer :: "datetime \<Rightarrow> uuid \<Rightarrow> uuid \<Rightarrow> offer_store \<Rightarrow> bool \<times> offer_store" where
  "decline_offer now rid driver st = (case live now (os_offers st rid) of
       None \<Rightarrow> (False, st)
     | Some (One raw) \<Rightarrow> (False, close_offer rid st)
     | Some (Wave ds) \<Rightarrow>
       let remaining = filter (\<lambda>d. d \<noteq> driver) ds
       in if remaining = [] then (False, close_offer rid st)
          else (True, st\<lparr>os_offers := (os_offers st)(rid \<mapsto> (Wave remaining, snd (the (os_offers st rid))))\<rparr>))"

definition claim :: "datetime \<Rightarrow> uuid \<Rightarrow> uuid \<Rightarrow> offer_store \<Rightarrow> bool \<times> offer_store" where
  "claim now rid driver st =
     (if live now (os_claims st rid) = None
      then (True, st\<lparr>os_claims := (os_claims st)(rid \<mapsto> (driver, now + seconds TRIED_TTL_SECONDS))\<rparr>)
      else (False, st))"

definition release_claim :: "uuid \<Rightarrow> offer_store \<Rightarrow> offer_store" where
  "release_claim rid st = st\<lparr>os_claims := (os_claims st)(rid := None)\<rparr>"

definition clear_offers :: "uuid \<Rightarrow> offer_store \<Rightarrow> offer_store" where
  "clear_offers rid st = st\<lparr>os_offers := (os_offers st)(rid := None),
     os_tried := (os_tried st)(rid := None), os_claims := (os_claims st)(rid := None)\<rparr>"

section \<open>The contract of a claim\<close>

text \<open>
  \<open>held h k s\<close>: key \<open>k\<close> is claimed, and stays so up to time \<open>h\<close>. An attempt carries its time.
\<close>

locale claiming =
  fixes try_claim :: "int \<Rightarrow> 'k \<Rightarrow> 'd \<Rightarrow> 's \<Rightarrow> bool \<times> 's"
    and held :: "int \<Rightarrow> 'k \<Rightarrow> 's \<Rightarrow> bool" and lease :: int
  assumes held_refuses: "held h k s \<Longrightarrow> t \<le> h \<Longrightarrow> \<not> fst (try_claim t k d s)"
    and held_stays: "held h k s \<Longrightarrow> t \<le> h \<Longrightarrow> held h k (snd (try_claim t k' d s))"
    and win_holds: "fst (try_claim t k d s) \<Longrightarrow> h < t + lease \<Longrightarrow> held h k (snd (try_claim t k d s))"
begin

text \<open>The winners of a sequence of attempts on one key.\<close>

fun winners :: "'k \<Rightarrow> (int \<times> 'd) list \<Rightarrow> 's \<Rightarrow> 'd list \<times> 's" where
  "winners k [] s = ([], s)"
| "winners k ((t, d) # as) s =
     (let (won, s') = try_claim t k d s; (ws, s'') = winners k as s'
      in (if won then d # ws else ws, s''))"

lemma held_no_winner:
  "held h k s \<Longrightarrow> \<forall>(t, d) \<in> set as. t \<le> h \<Longrightarrow> fst (winners k as s) = [] \<and> held h k (snd (winners k as s))"
proof (induction k as s rule: winners.induct)
  case (2 k t d as s)
  obtain won s' where c: "try_claim t k d s = (won, s')" by fastforce
  from "2.prems" held_refuses [of h k s t d] held_stays [of h k s t k d] c have "\<not> won" "held h k s'" by auto
  with "2.IH" [OF c [symmetric] refl] "2.prems"(2) c show ?case by (auto simp: case_prod_beta)
qed simp

theorem one_winner:
  assumes "\<forall>(t, d) \<in> set as. t0 \<le> t \<and> t \<le> h" and "h < t0 + lease"
  shows "length (fst (winners k as s)) \<le> 1"
  using assms(1)
proof (induction as arbitrary: s)
  case (Cons a as)
  obtain t d where a: "a = (t, d)" by fastforce
  obtain won s' where c: "try_claim t k d s = (won, s')" by fastforce
  show ?case
  proof (cases won)
    case True
    from win_holds [of t k d s h] c True Cons.prems assms(2) a have "held h k s'" by auto
    with held_no_winner [of h k s' as] Cons.prems show ?thesis
      by (auto simp: a c case_prod_beta)
  next
    case False
    with Cons a c show ?thesis by (auto simp: case_prod_beta)
  qed
qed simp

end

definition claim_held :: "int \<Rightarrow> uuid \<Rightarrow> offer_store \<Rightarrow> bool" where
  "claim_held h rid st = (case os_claims st rid of None \<Rightarrow> False | Some (_, t) \<Rightarrow> h < t)"

interpretation ride_claim: claiming claim claim_held "seconds TRIED_TTL_SECONDS"
proof
  fix h t :: int and k k' d :: uuid and s :: offer_store
  show "claim_held h k s \<Longrightarrow> t \<le> h \<Longrightarrow> \<not> fst (claim t k d s)"
    by (auto simp: claim_held_def claim_def split: option.splits)
  show "claim_held h k s \<Longrightarrow> t \<le> h \<Longrightarrow> claim_held h k (snd (claim t k' d s))"
    by (auto simp: claim_held_def claim_def split: option.splits)
  show "fst (claim t k d s) \<Longrightarrow> h < t + seconds TRIED_TTL_SECONDS \<Longrightarrow> claim_held h k (snd (claim t k d s))"
    by (auto simp: claim_held_def claim_def split: if_splits)
qed

section \<open>Waves\<close>

lemma tried_after_open:
  "d \<in> set (already_tried now' rid (open_offers now rid ds st)) \<longleftrightarrow>
     (if ds = [] then d \<in> set (already_tried now' rid st)
      else now' < now + seconds TRIED_TTL_SECONDS \<and> (d \<in> set ds \<or> d \<in> set (already_tried now rid st)))"
  by (auto simp: open_offers_def already_tried_def split: option.splits)

lemma decline_wave:
  assumes "live now (os_offers st rid) = Some (Wave ds)"
  shows "set (current_offers now rid (snd (decline_offer now rid d st))) = set ds - {d}
    \<and> (fst (decline_offer now rid d st) \<longleftrightarrow> set ds - {d} \<noteq> {})"
proof -
  obtain e where e: "os_offers st rid = Some (Wave ds, e)" "now < e"
    using assms by (auto simp: live_def split: option.splits if_splits)
  have "filter (\<lambda>x. x \<noteq> d) ds = [] \<longleftrightarrow> set ds - {d} = {}" by (auto simp: filter_empty_conv)
  with e show ?thesis
    by (auto simp: decline_offer_def current_offers_def close_offer_def Let_def)
qed

end
