(* ===== verification/Driver_Locations.thy ===== *)
theory Driver_Locations
  imports Ride_Service
begin

text \<open>
  app\_base/modules/ride/infra/driver\_location.py: the Redis keys of driver presence. A key with
  an expiry reads as absent once it is due; \<open>GEOSEARCH\<close> is a parameter that lists the members of
  the position set inside the radius, nearest first, at most \<open>count\<close> of them.
\<close>

record driver_locations =
  dl_positions :: "uuid \<Rightarrow> geo_point option"
  dl_seen :: "uuid \<Rightarrow> datetime option"
  dl_available :: "uuid \<Rightarrow> datetime option"
  dl_speed :: "uuid \<Rightarrow> (rat \<times> datetime) option"

type_synonym geosearch = "(uuid \<Rightarrow> geo_point option) \<Rightarrow> geo_point \<Rightarrow> rat \<Rightarrow> nat \<Rightarrow> uuid list"

definition PRESENCE_TTL_SECONDS :: int where "PRESENCE_TTL_SECONDS = 30"

definition AVAILABILITY_TTL_SECONDS :: int where "AVAILABILITY_TTL_SECONDS = 300"

definition no_drivers :: driver_locations where
  "no_drivers = \<lparr>dl_positions = Map.empty, dl_seen = Map.empty, dl_available = Map.empty, dl_speed = Map.empty\<rparr>"

definition alive :: "datetime \<Rightarrow> datetime option \<Rightarrow> bool" where
  "alive now x = (case x of None \<Rightarrow> False | Some t \<Rightarrow> now < t)"

definition update_position ::
  "int \<Rightarrow> uuid \<Rightarrow> geo_point \<Rightarrow> rat option \<Rightarrow> datetime \<Rightarrow> driver_locations \<Rightarrow> driver_locations" where
  "update_position telemetry_ttl d location speed_kmh now l =
     l\<lparr>dl_positions := (dl_positions l)(d \<mapsto> location),
       dl_seen := (dl_seen l)(d \<mapsto> now + seconds PRESENCE_TTL_SECONDS),
       dl_speed := (case speed_kmh of
           None \<Rightarrow> dl_speed l
         | Some v \<Rightarrow> (dl_speed l)(d \<mapsto> (max 0 v, now + seconds telemetry_ttl)))\<rparr>"

definition get_speed_kmh :: "uuid \<Rightarrow> datetime \<Rightarrow> driver_locations \<Rightarrow> rat option" where
  "get_speed_kmh d now l = (case dl_speed l d of
       None \<Rightarrow> None | Some (v, t) \<Rightarrow> if now < t then Some v else None)"

definition set_available :: "uuid \<Rightarrow> bool \<Rightarrow> datetime \<Rightarrow> driver_locations \<Rightarrow> driver_locations" where
  "set_available d available now l =
     l\<lparr>dl_available := (dl_available l)(d :=
       if available then Some (now + seconds AVAILABILITY_TTL_SECONDS) else None)\<rparr>"

definition is_available :: "uuid \<Rightarrow> datetime \<Rightarrow> driver_locations \<Rightarrow> bool" where
  "is_available d now l = alive now (dl_available l d)"

definition is_online_and_available :: "uuid \<Rightarrow> datetime \<Rightarrow> driver_locations \<Rightarrow> bool" where
  "is_online_and_available d now l = (alive now (dl_seen l d) \<and> alive now (dl_available l d))"

text \<open>\<open>_search\<close>: four times the limit is fetched when busy drivers are to be dropped.\<close>

definition search_drivers ::
  "geosearch \<Rightarrow> geo_point \<Rightarrow> rat \<Rightarrow> nat \<Rightarrow> bool \<Rightarrow> datetime \<Rightarrow> driver_locations \<Rightarrow> uuid list" where
  "search_drivers geo location radius_km limit require_available now l =
     take limit (filter (\<lambda>d. alive now (dl_seen l d) \<and> (require_available \<longrightarrow> alive now (dl_available l d)))
       (geo (dl_positions l) location radius_km (if require_available then limit * 4 else limit)))"

definition find_nearby :: "geosearch \<Rightarrow> geo_point \<Rightarrow> rat \<Rightarrow> nat \<Rightarrow> datetime \<Rightarrow> driver_locations \<Rightarrow> uuid list" where
  "find_nearby geo location radius_km limit = search_drivers geo location radius_km limit False"

definition find_available_nearby ::
  "geosearch \<Rightarrow> geo_point \<Rightarrow> rat \<Rightarrow> nat \<Rightarrow> datetime \<Rightarrow> driver_locations \<Rightarrow> uuid list" where
  "find_available_nearby geo location radius_km limit = search_drivers geo location radius_km limit True"

definition get_position :: "uuid \<Rightarrow> driver_locations \<Rightarrow> geo_point option" where
  "get_position d l = dl_positions l d"

definition coordinates_for :: "uuid list \<Rightarrow> driver_locations \<Rightarrow> (uuid \<Rightarrow> geo_point option)" where
  "coordinates_for ds l = (\<lambda>d. if d \<in> set ds then dl_positions l d else None)"

definition go_offline :: "uuid \<Rightarrow> driver_locations \<Rightarrow> driver_locations" where
  "go_offline d l = l\<lparr>dl_positions := (dl_positions l)(d := None), dl_seen := (dl_seen l)(d := None),
     dl_available := (dl_available l)(d := None), dl_speed := (dl_speed l)(d := None)\<rparr>"

text \<open>What a search can return.\<close>

lemma found_available:
  "d \<in> set (find_available_nearby geo p r n now l) \<Longrightarrow> is_online_and_available d now l"
  by (auto simp: find_available_nearby_def search_drivers_def is_online_and_available_def
      dest: in_set_takeD)

lemma found_limit: "length (find_available_nearby geo p r n now l) \<le> n"
  by (simp add: find_available_nearby_def search_drivers_def)

lemma offline_not_found: "d \<notin> set (find_available_nearby geo p r n now (go_offline d l))"
  by (auto dest!: found_available simp: is_online_and_available_def go_offline_def alive_def)

lemma busy_not_found: "d \<notin> set (find_available_nearby geo p r n now' (set_available d False now l))"
  by (auto dest!: found_available simp: is_online_and_available_def set_available_def alive_def)

lemma position_does_not_free:
  "is_available d now' (update_position ttl e p v now l) = is_available d now' l"
  by (simp add: is_available_def update_position_def)

end
