(* ===== verification/Matching.thy ===== *)
theory Matching
  imports Offer_Store Driver_Locations Payment_Repository
begin

text \<open>
  app\_base/modules/ride/application/matching\_service.py: offer waves. A handler works on the SQL
  tables (rides and wallets, rolled back when it raises) and on Redis (offers and availability,
  which stay): \<open>matching\<close> is both. Rankings keep Python's stable sort. The partner check, the
  routing provider and \<open>GEOSEARCH\<close> are parameters.
\<close>

definition MAX_CANDIDATES :: nat where "MAX_CANDIDATES = 25"

record match_env =
  me_geosearch :: geosearch
  me_eta :: "geo_point \<Rightarrow> geo_point \<Rightarrow> exn + int"
  me_has_routing :: bool
  me_eta_ranking_enabled :: bool
  me_blocked_by_partner :: "uuid \<Rightarrow> bool \<times> string option"
  me_min_balance :: rat
  me_max_commission :: rat
  me_config :: dispatch_config

record matching =
  mt_rides :: ride_db
  mt_pay :: pay_db
  mt_offers :: offer_store
  mt_locations :: driver_locations

record matching_dispatch =
  md_drivers :: "uuid list"
  md_new_wave :: bool
  md_no_driver_found :: bool

definition no_dispatch :: matching_dispatch where
  "no_dispatch = \<lparr>md_drivers = [], md_new_wave = False, md_no_driver_found = False\<rparr>"

definition given_up :: matching_dispatch where
  "given_up = \<lparr>md_drivers = [], md_new_wave = True, md_no_driver_found = True\<rparr>"

section \<open>Who can take a ride\<close>

fun comfort_rank :: "comfort_level \<Rightarrow> nat" where
  "comfort_rank CL_STANDARD = 1"
| "comfort_rank CL_COMFORT = 2"
| "comfort_rank CL_PREMIUM = 3"

definition comfort_can_serve :: "comfort_level \<Rightarrow> comfort_level \<Rightarrow> bool" where
  "comfort_can_serve vehicle_comfort requested_comfort =
     (comfort_rank requested_comfort \<le> comfort_rank vehicle_comfort)"

datatype refusal = PROFILE_NOT_FOUND | COHORT_MISMATCH | PROFILE_NOT_ACTIVE driver_status
  | NO_VEHICLE | PARTNER_BLOCKED string | BALANCE_TOO_LOW | CATEGORY_MISMATCH | COMFORT_MISMATCH

text \<open>The balance check creates a missing wallet.\<close>

definition can_take_ride ::
  "match_env \<Rightarrow> uuid \<Rightarrow> ride \<Rightarrow> ride_db \<Rightarrow> pay_db \<Rightarrow> refusal option \<times> pay_db" where
  "can_take_ride env uid ride db pay =
     (case find_profile_by_user uid db of
        None \<Rightarrow> (Some PROFILE_NOT_FOUND, pay)
      | Some profile \<Rightarrow>
        if dp_is_review_account profile \<noteq> rd_is_review_account ride then (Some COHORT_MISMATCH, pay)
        else if dp_status profile \<noteq> DR_ACTIVE then (Some (PROFILE_NOT_ACTIVE (dp_status profile)), pay)
        else case find_active_vehicle (dp_id profile) db of
            None \<Rightarrow> (Some NO_VEHICLE, pay)
          | Some vehicle \<Rightarrow>
           (case me_blocked_by_partner env (dp_id profile) of
              (True, reason) \<Rightarrow> (Some (PARTNER_BLOCKED (str_or reason ''partner_not_active'')), pay)
            | (False, _) \<Rightarrow>
              let (wallet, pay1) = get_or_create_wallet (dp_id profile) ''XOF'' pay
              in if wa_balance wallet < me_min_balance env then (Some BALANCE_TOO_LOW, pay1)
                 else if ve_category vehicle \<noteq> rd_vehicle_category ride then (Some CATEGORY_MISMATCH, pay1)
                 else if \<not> comfort_can_serve (ve_comfort_level vehicle) (rd_comfort_level ride)
                 then (Some COMFORT_MISMATCH, pay1)
                 else (None, pay1)))"

text \<open>The shortlist: nearest first, nobody tried before, up to \<open>most\<close> drivers.\<close>

fun shortlist ::
  "match_env \<Rightarrow> ride \<Rightarrow> ride_db \<Rightarrow> uuid list \<Rightarrow> int \<Rightarrow> uuid list \<Rightarrow> uuid list \<Rightarrow> pay_db \<Rightarrow> uuid list \<times> pay_db" where
  "shortlist env ride db tried most [] eligible pay = (eligible, pay)"
| "shortlist env ride db tried most (u # us) eligible pay =
     (if u \<in> set tried then shortlist env ride db tried most us eligible pay
      else case can_take_ride env u ride db pay of
          (Some _, pay1) \<Rightarrow> shortlist env ride db tried most us eligible pay1
        | (None, pay1) \<Rightarrow>
          if most \<le> int (length (eligible @ [u])) then (eligible @ [u], pay1)
          else shortlist env ride db tried most us (eligible @ [u]) pay1)"

section \<open>Ranking\<close>

text \<open>Capped bonuses, by user id; a driver without a score has none.\<close>

definition priority_bonuses ::
  "match_env \<Rightarrow> uuid list \<Rightarrow> datetime \<Rightarrow> ride_db \<Rightarrow> (uuid \<Rightarrow> int option)" where
  "priority_bonuses env uids now db =
     (let ids = profile_ids_for_users uids db;
          scores = scores_for (me_config env) (map snd ids) DEFAULT_ZONE_ID now (priority_events db)
      in (\<lambda>u. case map_of ids u of
            None \<Rightarrow> None
          | Some p \<Rightarrow> map_option (\<lambda>points. min (bonus_seconds (me_config env) points)
              (dc_priority_cap_seconds (me_config env))) (scores p)))"

definition bonus_of :: "(uuid \<Rightarrow> int option) \<Rightarrow> uuid \<Rightarrow> int" where
  "bonus_of bonuses u = (case bonuses u of None \<Rightarrow> 0 | Some b \<Rightarrow> b)"

text \<open>The travel time of a driver to the pickup; no position or a failing provider gives none.\<close>

definition eta_of :: "match_env \<Rightarrow> geo_point \<Rightarrow> driver_locations \<Rightarrow> uuid list \<Rightarrow> uuid \<Rightarrow> int option" where
  "eta_of env pickup locs uids u = (case coordinates_for uids locs u of
       None \<Rightarrow> None
     | Some origin \<Rightarrow> (case me_eta env origin pickup of Inl _ \<Rightarrow> None | Inr t \<Rightarrow> Some t))"

definition rank_by_eta ::
  "match_env \<Rightarrow> ride \<Rightarrow> uuid list \<Rightarrow> datetime \<Rightarrow> ride_db \<Rightarrow> driver_locations \<Rightarrow> uuid list" where
  "rank_by_eta env ride eligible now db locs =
     (if \<not> me_has_routing env \<or> \<not> me_eta_ranking_enabled env \<or> length eligible \<le> 1 then eligible
      else case rd_pickup_location ride of
          None \<Rightarrow> eligible
        | Some pickup \<Rightarrow>
          let eta = eta_of env pickup locs eligible;
              timed = filter (\<lambda>u. eta u \<noteq> None) eligible;
              untimed = filter (\<lambda>u. eta u = None) eligible
          in if timed = [] then eligible
             else sort_key (\<lambda>u. the (eta u) - bonus_of (priority_bonuses env timed now db) u) timed
               @ untimed)"

text \<open>\<open>xs[:n]\<close>\<close>

definition py_take :: "int \<Rightarrow> 'a list \<Rightarrow> 'a list" where
  "py_take n xs = (if 0 \<le> n then take (nat n) xs else take (length xs - nat (- n)) xs)"

definition next_candidates ::
  "match_env \<Rightarrow> ride \<Rightarrow> datetime \<Rightarrow> matching \<Rightarrow> exn + uuid list \<times> pay_db" where
  "next_candidates env ride now m =
     (case rd_pickup_location ride of
        None \<Rightarrow> Inr ([], mt_pay m)
      | Some pickup \<Rightarrow>
        let cfg = me_config env; tried = already_tried now (rd_id ride) (mt_offers m) in
        if dc_offer_wave_size cfg = 0 then Inl PyZeroDivisionError
        else
          let wave_number = int (length tried) div dc_offer_wave_size cfg;
              radius_km = min (dc_search_radius_km cfg + dc_search_radius_step_km cfg * of_int wave_number)
                (dc_search_radius_max_km cfg);
              nearby = find_available_nearby (me_geosearch env) pickup radius_km MAX_CANDIDATES now
                (mt_locations m);
              most = max (dc_offer_wave_size cfg) (dc_eta_shortlist_size cfg);
              (eligible, pay1) = shortlist env ride (mt_rides m) tried most nearby [] (mt_pay m)
          in Inr (py_take (dc_offer_wave_size cfg)
                    (rank_by_eta env ride eligible now (mt_rides m) (mt_locations m)), pay1))"

section \<open>Matching a ride\<close>

definition search_budget_exceeded :: "match_env \<Rightarrow> ride \<Rightarrow> datetime \<Rightarrow> bool" where
  "search_budget_exceeded env ride now =
     (let budget = dc_search_budget_seconds (me_config env)
      in 0 < budget \<and> (case rd_requested_at ride of
           None \<Rightarrow> False | Some started \<Rightarrow> seconds budget < now - started))"

definition give_up :: "ride \<Rightarrow> datetime \<Rightarrow> matching \<Rightarrow> exn + matching" where
  "give_up ride now m =
     bindR (transition NO_DRIVER_FOUND now None ride) (\<lambda>ride1.
     bindR (save_ride now ride1 (mt_rides m)) (\<lambda>db1.
     Inr (m\<lparr>mt_rides := record_history ride1 db1,
            mt_offers := clear_offers (rd_id ride1) (mt_offers m)\<rparr>)))"

definition try_match :: "match_env \<Rightarrow> ride \<Rightarrow> datetime \<Rightarrow> matching \<Rightarrow> exn + matching_dispatch \<times> matching" where
  "try_match env ride now m =
     (if rd_status ride \<noteq> REQUESTED then Inr (no_dispatch, m)
      else if search_budget_exceeded env ride now
        \<or> (0 < me_max_commission env \<and> (case rd_platform_commission ride of
             None \<Rightarrow> False | Some c \<Rightarrow> me_max_commission env < c))
      then bindR (give_up ride now m) (\<lambda>m1. Inr (given_up, m1))
      else
        let outstanding = current_offers now (rd_id ride) (mt_offers m) in
        if outstanding \<noteq> [] then Inr (no_dispatch\<lparr>md_drivers := outstanding\<rparr>, m)
        else bindR (next_candidates env ride now m) (\<lambda>(candidates, pay1).
          let m1 = m\<lparr>mt_pay := pay1\<rparr> in
          if candidates = [] then bindR (give_up ride now m1) (\<lambda>m2. Inr (given_up, m2))
          else Inr (no_dispatch\<lparr>md_drivers := candidates, md_new_wave := True\<rparr>,
                 m1\<lparr>mt_offers := open_offers now (rd_id ride) candidates (mt_offers m1)\<rparr>)))"

definition load_active_ride :: "uuid \<Rightarrow> ride_db \<Rightarrow> exn + ride" where
  "load_active_ride rid db = (case find_ride rid db of
       None \<Rightarrow> Inl (ApiError 404 ''RIDE_NOT_FOUND'')
     | Some ride \<Rightarrow>
       if rd_status ride = MATCHED then Inl (ApiError 409 ''RIDE_ALREADY_MATCHED'')
       else if rd_status ride \<noteq> REQUESTED then Inl (ApiError 409 ''RIDE_NOT_OFFERABLE'')
       else Inr ride)"

text \<open>What an accept writes: driver, vehicle and the match.\<close>

definition assign_driver :: "ride \<Rightarrow> uuid \<Rightarrow> uuid \<Rightarrow> datetime \<Rightarrow> ride_db \<Rightarrow> exn + ride \<times> ride_db" where
  "assign_driver ride driver_id vehicle_id now db =
     bindR (transition MATCHED now None
        (ride\<lparr>rd_driver_id := Some driver_id, rd_vehicle_id := Some vehicle_id\<rparr>)) (\<lambda>ride1.
     bindR (save_ride now ride1 db) (\<lambda>db1. Inr (ride1, record_history ride1 db1)))"

text \<open>
  Redis is not rolled back: the claim is taken before the write, and released when it fails. The
  result carries the matching state after the request.
\<close>

definition accept :: "uuid \<Rightarrow> uuid \<Rightarrow> datetime \<Rightarrow> matching \<Rightarrow> (exn + ride) \<times> matching" where
  "accept rid uid now m =
     (case load_active_ride rid (mt_rides m) of
        Inl e \<Rightarrow> (Inl e, m)
      | Inr ride \<Rightarrow>
        let holders = current_offers now rid (mt_offers m) in
        if holders = [] then (Inl (ApiError 409 ''OFFER_EXPIRED''), m)
        else if uid \<notin> set holders then (Inl (ApiError 403 ''OFFER_NOT_YOURS''), m)
        else case find_profile_by_user uid (mt_rides m) of
            None \<Rightarrow> (Inl (ApiError 403 ''DRIVER_NOT_VERIFIED''), m)
          | Some profile \<Rightarrow>
            if dp_status profile \<noteq> DR_ACTIVE then (Inl (ApiError 403 ''DRIVER_NOT_VERIFIED''), m)
            else if dp_is_review_account profile \<noteq> rd_is_review_account ride
            then (Inl (ApiError 403 ''REVIEW_COHORT_MISMATCH''), m)
            else case find_active_vehicle (dp_id profile) (mt_rides m) of
                None \<Rightarrow> (Inl (ApiError 409 ''NO_ACTIVE_VEHICLE''), m)
              | Some vehicle \<Rightarrow>
               (case claim now rid uid (mt_offers m) of
                  (False, offers1) \<Rightarrow> (Inl (ApiError 409 ''RIDE_ALREADY_MATCHED''), m\<lparr>mt_offers := offers1\<rparr>)
                | (True, offers1) \<Rightarrow>
                 (case assign_driver ride (dp_id profile) (ve_id vehicle) now (mt_rides m) of
                    Inl e \<Rightarrow>
                      (Inl (if e = IntegrityError then ApiError 409 ''DRIVER_ALREADY_ON_ACTIVE_RIDE'' else e),
                       m\<lparr>mt_offers := release_claim rid offers1\<rparr>)
                  | Inr (ride1, db1) \<Rightarrow>
                      (Inr ride1, m\<lparr>mt_rides := db1, mt_offers := close_offer rid offers1,
                         mt_locations := set_available uid False now (mt_locations m)\<rparr>))))"

text \<open>
  A decline that exhausts the wave opens the next one; the withdrawal from the wave stays even
  when that fails.
\<close>

definition keep_redis :: "matching \<Rightarrow> exn + 'a \<times> matching \<Rightarrow> (exn + 'a) \<times> matching" where
  "keep_redis m r = (case r of Inl e \<Rightarrow> (Inl e, m) | Inr (x, m') \<Rightarrow> (Inr x, m'))"

definition decline :: "match_env \<Rightarrow> uuid \<Rightarrow> uuid \<Rightarrow> datetime \<Rightarrow> matching \<Rightarrow> (exn + matching_dispatch) \<times> matching" where
  "decline env rid uid now m =
     (case load_active_ride rid (mt_rides m) of
        Inl e \<Rightarrow> (Inl e, m)
      | Inr ride \<Rightarrow>
        let holders = current_offers now rid (mt_offers m) in
        if holders \<noteq> [] \<and> uid \<notin> set holders then (Inl (ApiError 403 ''OFFER_NOT_YOURS''), m)
        else
          let (still_active, offers1) = decline_offer now rid uid (mt_offers m);
              m1 = m\<lparr>mt_offers := offers1\<rparr>
          in if still_active
             then (Inr (no_dispatch\<lparr>md_drivers := current_offers now rid offers1\<rparr>), m1)
             else keep_redis m1 (try_match env ride now m1))"

definition advance_expired_offer ::
  "match_env \<Rightarrow> uuid \<Rightarrow> datetime \<Rightarrow> matching \<Rightarrow> exn + matching_dispatch \<times> matching" where
  "advance_expired_offer env rid now m =
     (let outstanding = current_offers now rid (mt_offers m) in
      if outstanding \<noteq> [] then Inr (no_dispatch\<lparr>md_drivers := outstanding\<rparr>, m)
      else case find_ride rid (mt_rides m) of
          None \<Rightarrow> Inr (no_dispatch, m)
        | Some ride \<Rightarrow> if rd_status ride \<noteq> REQUESTED then Inr (no_dispatch, m) else try_match env ride now m)"

definition release_driver :: "ride \<Rightarrow> datetime \<Rightarrow> matching \<Rightarrow> matching" where
  "release_driver ride now m =
     (let m1 = m\<lparr>mt_offers := clear_offers (rd_id ride) (mt_offers m)\<rparr>
      in case rd_driver_id ride of
           None \<Rightarrow> m1
         | Some driver_id \<Rightarrow>
          (case find_profile driver_id (mt_rides m) of
             None \<Rightarrow> m1
           | Some p \<Rightarrow> m1\<lparr>mt_locations := set_available (dp_user_id p) True now (mt_locations m1)\<rparr>))"

end
