(* ===== verification/Ride_Safety.thy ===== *)
theory Ride_Safety
  imports Matching
begin

text \<open>
  What every request on rides keeps. \<open>ride_move\<close> is the change of one row that handlers make;
  \<open>ride_inv\<close> is the invariant of the tables: a passenger has one active ride, a driver one ride on
  duty, a quote makes one ride, a completed ride is split between driver and platform, and the
  supplements total is the sum of the accepted supplements. The locale \<open>ride_guard\<close> is the
  contract of a predicate that the writes of the repositories keep.
\<close>

section \<open>One row\<close>

text \<open>The split of a fare that is final.\<close>

definition settled_fare :: "ride \<Rightarrow> bool" where
  "settled_fare r \<longleftrightarrow> (\<exists>f. rd_final_fare r = Some f
     \<and> rd_platform_commission r = Some (of_int (round_half_even (f * rd_commission_rate r)))
     \<and> rd_driver_payout_estimate r = Some (f - of_int (round_half_even (f * rd_commission_rate r))))"

text \<open>What an ended ride is about to be paid by.\<close>

definition outcome :: "ride \<Rightarrow> ride_status \<times> rat option \<times> rat option \<times> rat option \<times> uuid option \<times> ride_payment_method" where
  "outcome r = (rd_status r, rd_final_fare r, rd_platform_commission r, rd_driver_payout_estimate r,
     rd_driver_id r, rd_payment_method r)"

definition same_ride :: "ride \<Rightarrow> ride \<Rightarrow> bool" where
  "same_ride r r' \<longleftrightarrow> rd_id r' = rd_id r \<and> rd_passenger_user_id r' = rd_passenger_user_id r
     \<and> rd_quote_id r' = rd_quote_id r \<and> rd_payment_method r' = rd_payment_method r"

text \<open>A wait that nothing started: the ride can only be cancelled.\<close>

definition unstarted_wait :: "ride \<Rightarrow> bool" where
  "unstarted_wait r \<longleftrightarrow> rd_status r = WAITING \<and> rd_waiting_started_at r = None"

definition ride_move :: "ride \<Rightarrow> ride \<Rightarrow> bool" where
  "ride_move r r' \<longleftrightarrow> same_ride r r'
     \<and> ride_life.reaches (rd_status r) (rd_status r')
     \<and> (\<not> is_active r \<longrightarrow> outcome r' = outcome r)
     \<and> (rd_status r' = COMPLETED \<longrightarrow> rd_status r = COMPLETED \<and> rd_commission_rate r' = rd_commission_rate r
          \<or> settled_fare r')
     \<and> (rd_driver_id r' = rd_driver_id r \<or> rd_status r = REQUESTED \<and> rd_status r' = MATCHED)
     \<and> (unstarted_wait r \<longrightarrow> unstarted_wait r' \<or> rd_status r' \<in> {CANCELLED_BY_PASSENGER, CANCELLED_BY_DRIVER})"

text \<open>
  The core of a row: what the invariant reads. Changes outside it are moves.
\<close>

definition core :: "ride \<Rightarrow> ride_status \<times> rat option \<times> rat option \<times> rat option \<times> uuid option \<times> ride_payment_method
    \<times> uuid \<times> uuid \<times> uuid option \<times> rat \<times> datetime option" where
  "core r = (rd_status r, rd_final_fare r, rd_platform_commission r, rd_driver_payout_estimate r,
     rd_driver_id r, rd_payment_method r, rd_id r, rd_passenger_user_id r, rd_quote_id r,
     rd_commission_rate r, rd_waiting_started_at r)"

lemma core_move: "core r' = core r \<Longrightarrow> ride_move r r'"
  by (simp add: core_def ride_move_def same_ride_def outcome_def unstarted_wait_def)

lemma move_refl [simp]: "ride_move r r"
  by (rule core_move) simp

lemma transition_core:
  assumes "transition s now m r = Inr r'"
  shows "rd_status r' = s \<and> same_ride r r' \<and> rd_driver_id r' = rd_driver_id r
    \<and> rd_platform_commission r' = rd_platform_commission r
    \<and> rd_driver_payout_estimate r' = rd_driver_payout_estimate r
    \<and> rd_commission_rate r' = rd_commission_rate r \<and> rd_waiting_started_at r' = rd_waiting_started_at r
    \<and> rd_supplements_total r' = rd_supplements_total r
    \<and> rd_share_token r' = rd_share_token r \<and> rd_completion_reason r' = rd_completion_reason r
    \<and> rd_waiting_fee r' = rd_waiting_fee r \<and> rd_pre_ride_wait_fee r' = rd_pre_ride_wait_fee r
    \<and> (s \<noteq> COMPLETED \<or> rd_final_fare r \<noteq> None \<longrightarrow> rd_final_fare r' = rd_final_fare r)
    \<and> (s = rd_status r \<or> is_active r \<and> s \<in> set (allowed_transitions (rd_status r)))"
proof -
  from assms consider "s = rd_status r" "r' = r"
    | "s \<in> set (allowed_transitions (rd_status r))" "r' = moved_to s now m r"
    unfolding transition_def by (metis Inr_inject sum.distinct(1))
  then show ?thesis
  proof cases
    case 1
    then show ?thesis by (simp add: same_ride_def)
  next
    case 2
    have "allowed_transitions (rd_status r) \<noteq> []" using 2(1) by auto
    then have "is_active r" by (simp add: is_active_def is_active_iff)
    with 2 show ?thesis by (simp add: moved_to_def same_ride_def)
  qed
qed

lemma reaches_step: "s = t \<or> t \<in> set (allowed_transitions s) \<Longrightarrow> ride_life.reaches s t"
  by (elim disjE) (simp, rule r_into_rtranclp, assumption)

text \<open>A transition from a row whose core is unchanged, to anything but a completed ride.\<close>

lemma transition_move:
  assumes t: "transition s now m r0 = Inr r'" and c: "core r0 = core r" and s: "s \<noteq> COMPLETED"
    and w: "unstarted_wait r \<Longrightarrow> s \<in> {WAITING, CANCELLED_BY_PASSENGER, CANCELLED_BY_DRIVER}"
  shows "ride_move r r'"
proof -
  note f = transition_core [OF t]
  have r: "rd_status r0 = rd_status r" "is_active r0 = is_active r" "rd_waiting_started_at r0 = rd_waiting_started_at r"
    using c by (simp_all add: core_def is_active_def)
  have "ride_life.reaches (rd_status r) (rd_status r')"
    using f r by (intro reaches_step) auto
  moreover have "\<not> is_active r \<longrightarrow> outcome r' = outcome r"
    using f c r s by (auto simp: outcome_def core_def same_ride_def)
  ultimately show ?thesis
    using f c r s w by (auto simp: ride_move_def core_def same_ride_def unstarted_wait_def)
qed

lemma ride_row_core [simp]: "core (ride_row now old r) = core r"
  by (simp add: ride_row_def core_def)

lemma ride_row_fields [simp]:
  "rd_id (ride_row now old r) = rd_id r" "rd_status (ride_row now old r) = rd_status r"
  "rd_supplements_total (ride_row now old r) = rd_supplements_total r"
  "rd_share_token (ride_row now old r) = rd_share_token r"
  "rd_passenger_user_id (ride_row now old r) = rd_passenger_user_id r"
  "rd_driver_id (ride_row now old r) = rd_driver_id r"
  "rd_quote_id (ride_row now old r) = rd_quote_id r"
  "rd_start_code_hash (ride_row now old r) = rd_start_code_hash r"
  "rd_start_code_attempts (ride_row now old r) = rd_start_code_attempts r"
  "rd_start_code_blocked_at (ride_row now old r) = rd_start_code_blocked_at r"
  "rd_start_code_used_at (ride_row now old r) = rd_start_code_used_at r"
  "rd_final_fare (ride_row now old r) = rd_final_fare r"
  "rd_status_history (ride_row now old r) = []"
  by (simp_all add: ride_row_def)

lemma move_cong: "core a' = core a \<Longrightarrow> ride_move r a \<Longrightarrow> ride_move r a'"
  by (simp add: ride_move_def same_ride_def outcome_def unstarted_wait_def settled_fare_def core_def)

section \<open>The invariant of the tables\<close>

definition compatible :: "ride \<Rightarrow> ride \<Rightarrow> bool" where
  "compatible x y \<longleftrightarrow> \<not> (rd_passenger_user_id x = rd_passenger_user_id y \<and> is_active x \<and> is_active y)
     \<and> \<not> ride_clash x y"

definition apart :: "ride list \<Rightarrow> bool" where
  "apart rs \<longleftrightarrow> (\<forall>x \<in> set rs. \<forall>y \<in> set rs. rd_id x \<noteq> rd_id y \<longrightarrow> compatible x y)"

definition row_ok :: "ride_db \<Rightarrow> ride \<Rightarrow> bool" where
  "row_ok db r \<longleftrightarrow> rd_id r < next_ride_id db \<and> (rd_status r = COMPLETED \<longrightarrow> settled_fare r)
     \<and> rd_supplements_total r = accepted_supplements_total (rd_id r) db"

definition ride_inv :: "ride_db \<Rightarrow> bool" where
  "ride_inv db \<longleftrightarrow> distinct (map rd_id (rides db)) \<and> apart (rides db) \<and> (\<forall>r \<in> set (rides db). row_ok db r)
     \<and> distinct (map su_id (supplements db))
     \<and> (\<forall>s \<in> set (supplements db). su_ride_id s < next_ride_id db \<and> su_id s < next_ride_id db)"

lemma ride_inv_empty: "ride_inv empty_ride_db"
  by (simp add: ride_inv_def empty_ride_db_def apart_def)

lemma compatible_sym: "compatible x y \<Longrightarrow> compatible y x"
  by (auto simp: compatible_def ride_clash_def some_clash_def)

lemma apart_put_row:
  assumes "apart rs" and "rd_id r = k" and "\<forall>x \<in> set rs. rd_id x \<noteq> k \<longrightarrow> compatible r x"
  shows "apart (put_row rd_id k r rs)"
  unfolding apart_def
proof (intro ballI impI)
  fix x y assume x: "x \<in> set (put_row rd_id k r rs)" and y: "y \<in> set (put_row rd_id k r rs)"
    and ne: "rd_id x \<noteq> rd_id y"
  note X = set_put_rowD [OF x] and Y = set_put_rowD [OF y]
  have new: "compatible r z" if "z \<in> set rs" "rd_id z \<noteq> k" for z using assms(3) that by blast
  show "compatible x y"
  proof (cases "rd_id x = k")
    case True
    with ne have "rd_id y \<noteq> k" by simp
    moreover from this Y assms(2) have "y \<in> set rs" by blast
    ultimately have "compatible r y" by (rule new [rotated])
    moreover from True X have "x = r" by blast
    ultimately show ?thesis by simp
  next
    case False
    with X assms(2) have xs: "x \<in> set rs" by blast
    show ?thesis
    proof (cases "rd_id y = k")
      case True
      with Y have "y = r" by blast
      with new [OF xs False] show ?thesis by (simp add: compatible_sym)
    next
      case False
      with Y assms(2) have "y \<in> set rs" by blast
      with xs ne assms(1) show ?thesis unfolding apart_def by blast
    qed
  qed
qed

lemma ride_inv_frame:
  assumes "ride_inv db" and "rides db' = rides db" and "supplements db' = supplements db"
    and "next_ride_id db \<le> next_ride_id db'"
  shows "ride_inv db'"
proof -
  have acc: "accepted_supplements_total i db' = accepted_supplements_total i db" for i
    unfolding accepted_supplements_total_def assms(3) by (rule refl)
  have "row_ok db' r" if "row_ok db r" for r
    using that less_le_trans [OF _ assms(4)] unfolding row_ok_def acc by blast
  moreover have "i < next_ride_id db'" if "i < next_ride_id db" for i using that assms(4) by simp
  ultimately show ?thesis using assms(1) unfolding ride_inv_def assms(2,3) by blast
qed

lemma find_ride_mem: "find_ride i db = Some r \<Longrightarrow> r \<in> set (rides db) \<and> rd_id r = i"
  unfolding find_ride_def by (rule get_row_Some)

lemma move_passenger: "ride_move r r' \<Longrightarrow> rd_passenger_user_id r' = rd_passenger_user_id r"
  unfolding ride_move_def same_ride_def by blast

lemma move_id: "ride_move r r' \<Longrightarrow> rd_id r' = rd_id r"
  unfolding ride_move_def same_ride_def by blast

lemma move_ended: "ride_move r r' \<Longrightarrow> \<not> is_active r \<Longrightarrow> outcome r' = outcome r"
  unfolding ride_move_def by blast

lemma move_active: "ride_move r r' \<Longrightarrow> is_active r' \<Longrightarrow> is_active r"
  using move_ended [of r r'] by (cases "is_active r") (simp_all add: outcome_def is_active_def)

lemma move_compatible:
  assumes m: "ride_move r r'" and c: "compatible r x" and n: "\<not> ride_clash r' x"
  shows "compatible r' x"
  using c n move_active [OF m] unfolding compatible_def move_passenger [OF m] by blast

lemma move_settled:
  assumes "ride_move r r'" and "rd_status r = COMPLETED \<longrightarrow> settled_fare r" and "rd_status r' = COMPLETED"
  shows "settled_fare r'"
proof (cases "settled_fare r'")
  case False
  with assms have "rd_status r = COMPLETED" "rd_commission_rate r' = rd_commission_rate r" "settled_fare r"
    by (auto simp: ride_move_def)
  moreover from this assms(1) have "outcome r' = outcome r"
    by (simp add: ride_move_def is_active_def is_active_status_def)
  ultimately show ?thesis by (simp add: settled_fare_def outcome_def)
qed simp

text \<open>What \<open>save_ride\<close> does to a row that exists, and to a new one.\<close>

lemma okR_save_ride:
  assumes "find_ride (rd_id r') db = Some r"
    and "\<And>row. core row = core r' \<Longrightarrow> rd_supplements_total row = rd_supplements_total r' \<Longrightarrow>
      row = ride_row now (Some r) r' \<Longrightarrow>
      \<forall>x \<in> set (rides db). rd_id x \<noteq> rd_id r' \<longrightarrow> \<not> ride_clash row x \<Longrightarrow>
      Q (db\<lparr>rides := put_row rd_id (rd_id r') row (rides db)\<rparr>)"
  shows "okR Q (save_ride now r' db)"
proof -
  let ?row = "ride_row now (Some r) r'"
  have "okR Q (bindR (update_row rd_id ride_clash ?row (rides db)) (\<lambda>rows. Inr (db\<lparr>rides := rows\<rparr>)))"
    using assms(2) [of ?row] by (auto simp: update_row_def list_ex_iff)
  with assms(1) show ?thesis by (simp add: save_ride_def find_ride_def Let_def)
qed

lemma okR_save_new:
  assumes "rd_id r \<notin> rd_id ` set (rides db)"
    and "\<And>row. core row = core r \<Longrightarrow> rd_supplements_total row = rd_supplements_total r \<Longrightarrow>
      \<forall>x \<in> set (rides db). \<not> ride_clash row x \<Longrightarrow> Q (db\<lparr>rides := rides db @ [row]\<rparr>)"
  shows "okR Q (save_ride now r db)"
proof -
  let ?row = "ride_row now None r"
  have "get_row rd_id (rd_id r) (rides db) = None" using assms(1) by (simp add: get_row_None)
  moreover have "okR Q (bindR (insert_row ride_clash ?row (rides db)) (\<lambda>rows. Inr (db\<lparr>rides := rows\<rparr>)))"
    using assms(2) [of ?row] by (simp add: insert_row_def list_ex_iff)
  ultimately show ?thesis by (simp add: save_ride_def Let_def)
qed

lemma inv_put_ride:
  assumes inv: "ride_inv db" and r: "find_ride (rd_id row) db = Some r" and m: "ride_move r row"
    and n: "\<forall>x \<in> set (rides db). rd_id x \<noteq> rd_id row \<longrightarrow> \<not> ride_clash row x"
    and t: "rd_supplements_total row = rd_supplements_total r"
  shows "ride_inv (db\<lparr>rides := put_row rd_id (rd_id row) row (rides db)\<rparr>)"
proof -
  note mem = find_ride_mem [OF r]
  from inv have I: "apart (rides db)" "\<forall>x \<in> set (rides db). row_ok db x" by (simp_all add: ride_inv_def)
  have "compatible row x" if "x \<in> set (rides db)" "rd_id x \<noteq> rd_id row" for x
  proof (rule move_compatible [OF m])
    show "compatible r x" using I(1) mem that unfolding apart_def by metis
    show "\<not> ride_clash row x" using n that by blast
  qed
  then have "apart (put_row rd_id (rd_id row) row (rides db))"
    by (intro apart_put_row I(1)) simp_all
  moreover have "row_ok db r" using I(2) mem by blast
  then have "row_ok db row"
    using mem t move_settled [OF m] by (simp add: row_ok_def)
  with I(2) have "\<forall>x \<in> set (put_row rd_id (rd_id row) row (rides db)). row_ok db x"
    using set_put_rowD by metis
  moreover have "row_ok (db\<lparr>rides := rs\<rparr>) x = row_ok db x" for rs x
    by (simp add: row_ok_def accepted_supplements_total_def)
  ultimately show ?thesis
    using inv by (simp add: ride_inv_def map_put_row)
qed

text \<open>After a save the row is there, with the core of what was saved.\<close>

lemma save_ride_find:
  assumes "save_ride now r db = Inr db'"
  shows "\<exists>row. find_ride (rd_id r) db' = Some row \<and> core row = core r
    \<and> rd_supplements_total row = rd_supplements_total r"
proof (cases "find_ride (rd_id r) db")
  case None
  then have "rd_id r \<notin> rd_id ` set (rides db)" by (simp add: find_ride_def get_row_None)
  then have "okR (\<lambda>db'. \<exists>row. find_ride (rd_id r) db' = Some row \<and> core row = core r
      \<and> rd_supplements_total row = rd_supplements_total r) (save_ride now r db)"
  proof (rule okR_save_new)
    fix row assume c: "core row = core r" and t: "rd_supplements_total row = rd_supplements_total r"
    have "rd_id row = rd_id r" using c by (simp add: core_def)
    then have "find_ride (rd_id r) (db\<lparr>rides := rides db @ [row]\<rparr>) = Some row"
      using None by (simp add: find_ride_def get_row_append)
    with c t show "\<exists>row'. find_ride (rd_id r) (db\<lparr>rides := rides db @ [row]\<rparr>) = Some row'
        \<and> core row' = core r \<and> rd_supplements_total row' = rd_supplements_total r" by blast
  qed
  with assms show ?thesis by simp
next
  case (Some old)
  then have "okR (\<lambda>db'. \<exists>row. find_ride (rd_id r) db' = Some row \<and> core row = core r
      \<and> rd_supplements_total row = rd_supplements_total r) (save_ride now r db)"
  proof (rule okR_save_ride)
    fix row assume c: "core row = core r" and t: "rd_supplements_total row = rd_supplements_total r"
    have "rd_id row = rd_id r" using c by (simp add: core_def)
    moreover from Some have "get_row rd_id (rd_id r) (rides db) = Some old" by (simp only: find_ride_def)
    ultimately have "find_ride (rd_id r) (db\<lparr>rides := put_row rd_id (rd_id r) row (rides db)\<rparr>) = Some row"
      by (simp add: find_ride_def get_put_same)
    with c t show "\<exists>row'. find_ride (rd_id r) (db\<lparr>rides := put_row rd_id (rd_id r) row (rides db)\<rparr>) = Some row'
        \<and> core row' = core r \<and> rd_supplements_total row' = rd_supplements_total r" by blast
  qed
  with assms show ?thesis by simp
qed

section \<open>The moves of the handlers\<close>

lemma active_move:
  assumes "is_active r" and "same_ride r r'"
    and "rd_status r' = rd_status r \<or> rd_status r' \<in> set (allowed_transitions (rd_status r))"
    and "rd_status r' = COMPLETED \<Longrightarrow> settled_fare r'"
    and "rd_driver_id r' = rd_driver_id r \<or> rd_status r = REQUESTED \<and> rd_status r' = MATCHED"
    and "unstarted_wait r \<Longrightarrow> unstarted_wait r' \<or> rd_status r' \<in> {CANCELLED_BY_PASSENGER, CANCELLED_BY_DRIVER}"
  shows "ride_move r r'"
proof -
  have "ride_life.reaches (rd_status r) (rd_status r')" using assms(3) by (intro reaches_step) auto
  with assms show ?thesis unfolding ride_move_def by blast
qed

text \<open>What the code between a load and a transition leaves alone.\<close>

definition kept :: "ride \<Rightarrow> ride \<Rightarrow> bool" where
  "kept r r' \<longleftrightarrow> same_ride r r' \<and> rd_status r' = rd_status r \<and> rd_driver_id r' = rd_driver_id r
     \<and> rd_waiting_started_at r' = rd_waiting_started_at r \<and> rd_supplements_total r' = rd_supplements_total r"

lemma kept_refl [simp]: "kept r r"
  by (simp add: kept_def same_ride_def)

lemma kept_trans: "kept a b \<Longrightarrow> kept b c \<Longrightarrow> kept a c"
  by (simp add: kept_def same_ride_def)

lemma kept_with_analysis: "kept r (with_analysis a r)"
  by (simp add: kept_def same_ride_def with_analysis_def)

lemma kept_with_actual_price: "kept r (with_actual_price env km secs r)"
  by (simp add: kept_def same_ride_def with_actual_price_def Let_def)

lemma kept_trace_status: "kept r (r\<lparr>rd_trace_analysis_status := x, rd_trace_analysis_error_code := y\<rparr>)"
  by (simp add: kept_def same_ride_def)

lemma kept_completed_fare: "kept r (completed_fare r)"
  by (simp add: kept_def same_ride_def completed_fare_def split_fare_def Let_def)

lemma kept_early_stop_fare: "kept r (early_stop_fare price now r)"
  by (simp add: kept_def same_ride_def early_stop_fare_def split_fare_def Let_def)

lemma kept_ensure_trace: "kept r (fst (ensure_map_trace_started env r))"
  by (auto simp: ensure_map_trace_started_def kept_def same_ride_def split: option.splits sum.splits)

lemma kept_pricing: "kept r (fst (apply_actual_pricing_if_possible env r now db))"
proof -
  have e: "kept r r1" if "ensure_map_trace_started env r = (r1, x)" for r1 x
    using kept_ensure_trace [of r env] that by simp
  have a: "kept r (with_analysis a r1)" if "ensure_map_trace_started env r = (r1, x)" for r1 x a
    by (rule kept_trans [OF e [OF that] kept_with_analysis])
  have p: "kept r (with_actual_price env km secs (with_analysis a r1))"
    if "ensure_map_trace_started env r = (r1, x)" for r1 x a km secs
    by (rule kept_trans [OF a [OF that] kept_with_actual_price])
  have i: "kept r ((with_analysis a r1)\<lparr>rd_trace_analysis_status := u, rd_trace_analysis_error_code := v\<rparr>)"
    if "ensure_map_trace_started env r = (r1, x)" for r1 x a u v
    by (rule kept_trans [OF a [OF that] kept_trace_status])
  show ?thesis
    unfolding apply_actual_pricing_if_possible_def Let_def
    by (auto split: prod.split option.split sum.split intro: e a p i kept_trace_status)
qed

lemma kept_priced:
  assumes "priced_for_completion env r now db = Inr r'"
  shows "kept r r'"
proof -
  obtain r1 x where a: "apply_actual_pricing_if_possible env r now db = (r1, x)" by fastforce
  with kept_pricing [of r env now db] have k: "kept r r1" by simp
  from assms a have "r' = r1 \<or> (\<exists>u v. r' = r1\<lparr>rd_trace_analysis_status := u, rd_trace_analysis_error_code := v\<rparr>)"
    by (auto simp: priced_for_completion_def split: option.splits exn.splits)
  with k show ?thesis using kept_trans [OF k kept_trace_status] by auto
qed

lemma kept_facts:
  assumes "kept r r'"
  shows "rd_status r' = rd_status r" "is_active r' = is_active r" "same_ride r r'"
    "rd_driver_id r' = rd_driver_id r" "rd_waiting_started_at r' = rd_waiting_started_at r"
    "rd_supplements_total r' = rd_supplements_total r"
  using assms by (simp_all add: kept_def is_active_def)

lemma same_ride_trans: "same_ride a b \<Longrightarrow> same_ride b c \<Longrightarrow> same_ride a c"
  by (simp add: same_ride_def)

text \<open>A change of status, with nothing else of the core but the start of a wait.\<close>

lemma transition_kept_move:
  assumes t: "transition s now m r0 = Inr r'" and k: "same_ride r r0" "rd_status r0 = rd_status r"
    "rd_driver_id r0 = rd_driver_id r \<or> rd_status r = REQUESTED \<and> s = MATCHED"
    "rd_supplements_total r0 = rd_supplements_total r"
    and a: "is_active r" and s: "s = COMPLETED \<Longrightarrow> settled_fare r'"
    and w: "rd_status r = WAITING \<Longrightarrow> s \<in> {IN_PROGRESS, COMPLETED, WAITING} \<Longrightarrow>
       rd_waiting_started_at r \<noteq> None"
  shows "ride_move r r' \<and> rd_supplements_total r' = rd_supplements_total r \<and> rd_id r' = rd_id r"
proof -
  note f = transition_core [OF t]
  have same: "same_ride r r'" using f k(1) same_ride_trans by blast
  have st: "rd_status r' = rd_status r \<or> rd_status r' \<in> set (allowed_transitions (rd_status r))"
    using f k(2) by auto
  have "ride_move r r'"
  proof (rule active_move [OF a same st])
    show "settled_fare r'" if "rd_status r' = COMPLETED" using s f that by blast
    show "rd_driver_id r' = rd_driver_id r \<or> rd_status r = REQUESTED \<and> rd_status r' = MATCHED"
      using k(3) f by metis
    show "unstarted_wait r' \<or> rd_status r' \<in> {CANCELLED_BY_PASSENGER, CANCELLED_BY_DRIVER}"
      if "unstarted_wait r"
      using that w st f by (auto simp: unstarted_wait_def)
  qed
  with f k(4) same show ?thesis by (simp add: same_ride_def)
qed

definition good_move :: "ride \<Rightarrow> ride \<Rightarrow> bool" where
  "good_move r r' \<longleftrightarrow> ride_move r r' \<and> rd_supplements_total r' = rd_supplements_total r \<and> rd_id r' = rd_id r"

lemma good_core: "core r' = core r \<Longrightarrow> rd_supplements_total r' = rd_supplements_total r \<Longrightarrow> good_move r r'"
  by (simp add: good_move_def core_move) (simp add: core_def)

lemmas transition_good = transition_kept_move [folded good_move_def]

lemma active_statuses:
  "rd_status r = REQUESTED \<Longrightarrow> is_active r" "rd_status r = MATCHED \<Longrightarrow> is_active r"
  "rd_status r = DRIVER_EN_ROUTE \<Longrightarrow> is_active r" "rd_status r = ARRIVED \<Longrightarrow> is_active r"
  "rd_status r = IN_PROGRESS \<Longrightarrow> is_active r" "rd_status r = WAITING \<Longrightarrow> is_active r"
  by (simp_all add: is_active_def is_active_status_def)

lemma stop_waiting_move:
  assumes "stop_waiting_ride env r reason now = Inr r'"
  shows "good_move r r' \<and> rd_status r' = IN_PROGRESS \<and> rd_status r = WAITING \<and> rd_waiting_started_at r \<noteq> None"
proof -
  from assms have w: "rd_waiting_started_at r \<noteq> None" "rd_status r = WAITING"
    by (auto simp: stop_waiting_ride_def split: option.splits if_splits)
  from assms w obtain d f m where t: "transition IN_PROGRESS now m
      (r\<lparr>rd_waiting_duration_seconds := d, rd_waiting_fee := f, rd_waiting_started_at := None\<rparr>) = Inr r'"
    by (auto simp: stop_waiting_ride_def Let_def)
  have "good_move r r'"
    by (rule transition_good [OF t]) (simp_all add: same_ride_def w active_statuses)
  with transition_status [OF t] w show ?thesis by simp
qed

lemma settled_completed: "settled_fare (completed_fare r)"
  by (simp add: settled_fare_def completed_fare_def split_fare_def Let_def)

lemma settled_early: "settled_fare (early_stop_fare price now r)"
  by (simp add: settled_fare_def early_stop_fare_def split_fare_def Let_def)

lemma completion_move:
  assumes k: "kept r r2" and t: "transition COMPLETED now m r2 = Inr r3"
    and a: "is_active r" and w: "rd_status r \<noteq> WAITING"
  shows "good_move r (completed_fare r3)"
proof -
  note f = transition_core [OF t] and k' = kept_facts [OF k]
  note c = kept_completed_fare [of r3] and cf = kept_facts [OF kept_completed_fare [of r3]]
  have same: "same_ride r (completed_fare r3)" using k'(3) f cf(3) same_ride_trans by metis
  have "ride_move r (completed_fare r3)"
  proof (rule active_move [OF a same])
    show "rd_status (completed_fare r3) = rd_status r \<or>
        rd_status (completed_fare r3) \<in> set (allowed_transitions (rd_status r))"
      using f k'(1) cf(1) by metis
    show "settled_fare (completed_fare r3)" by (rule settled_completed)
    show "rd_driver_id (completed_fare r3) = rd_driver_id r \<or>
        rd_status r = REQUESTED \<and> rd_status (completed_fare r3) = MATCHED"
      using f k'(4) cf(4) by simp
    assume "unstarted_wait r"
    then show "unstarted_wait (completed_fare r3) \<or>
        rd_status (completed_fare r3) \<in> {CANCELLED_BY_PASSENGER, CANCELLED_BY_DRIVER}"
      using w by (simp add: unstarted_wait_def)
  qed
  with f k'(6) cf(6) same show ?thesis by (simp add: good_move_def same_ride_def)
qed

lemma early_move:
  assumes k: "kept r r2" and t: "transition COMPLETED now m (early_stop_fare price now r2) = Inr r3"
    and a: "rd_status r = IN_PROGRESS"
  shows "good_move r r3"
proof -
  note e = kept_facts [OF kept_trans [OF k kept_early_stop_fare [of r2 price now]]]
  note f = transition_core [OF t]
  have rate: "rd_commission_rate r3 = rd_commission_rate (early_stop_fare price now r2)"
    "rd_platform_commission r3 = rd_platform_commission (early_stop_fare price now r2)"
    "rd_driver_payout_estimate r3 = rd_driver_payout_estimate (early_stop_fare price now r2)"
    using f by simp_all
  have "rd_final_fare (early_stop_fare price now r2) \<noteq> None"
    by (simp add: early_stop_fare_def Let_def)
  with f have "rd_final_fare r3 = rd_final_fare (early_stop_fare price now r2)" by blast
  with rate settled_early [of price now r2] have "settled_fare r3" unfolding settled_fare_def by presburger
  then show ?thesis
    by (intro transition_good [OF t e(3,1) _ e(6) active_statuses(5) [OF a]]) (simp_all add: e(4) a)
qed

end
