(* ===== verification/Ride_Requests.thy ===== *)
theory Ride_Requests
  imports Ride_Safety
begin

text \<open>
  The requests on rides as steps. The locale \<open>ride_guard\<close> is the contract of a predicate on the
  tables that the writing operations keep; inside it every handler of RideService and of
  MatchingService is shown to keep the predicate, once. \<open>ride_step\<close> is one request of any kind,
  \<open>ride_reachable\<close> the tables that a sequence of requests leads to.
\<close>

section \<open>Steps of a handler\<close>

lemma load_wp: "(\<And>r. find_ride rid db = Some r \<Longrightarrow> Q r) \<Longrightarrow> okR Q (load_ride rid db)"
  by (simp add: load_ride_def split: option.split)

lemma driver_wp:
  assumes "\<And>r. find_ride rid db = Some r \<Longrightarrow> Q r"
  shows "okR Q (driver_ride rid uid role db)"
  unfolding driver_ride_def by (intro wp load_wp assms)

lemma transition_wp:
  "(\<And>r'. transition s now m r = Inr r' \<Longrightarrow> Q r') \<Longrightarrow> okR Q (transition s now m r)"
  by (simp add: okR_iff)

lemma api_transition_wp:
  "(\<And>r'. transition s now None r = Inr r' \<Longrightarrow> Q r') \<Longrightarrow> okR Q (api_transition s now r)"
  by (simp add: api_transition_def split: sum.split)

lemma any_wp: "(\<And>x. m = Inr x \<Longrightarrow> Q x) \<Longrightarrow> okR Q m"
  by (simp add: okR_iff)

text \<open>What the tables other than rides and supplements may do.\<close>

definition framed :: "ride_db \<Rightarrow> ride_db \<Rightarrow> bool" where
  "framed db db' \<longleftrightarrow> rides db' = rides db \<and> supplements db' = supplements db
     \<and> next_ride_id db \<le> next_ride_id db'"

lemma framed_refl: "framed db db"
  by (simp add: framed_def)

lemma framed_trans: "framed a b \<Longrightarrow> framed b c \<Longrightarrow> framed a c"
  by (simp add: framed_def)

lemma framed_history: "framed db (record_history r db)"
proof -
  have "framed db (fold record_status_transition ts db)" for ts
  proof (induction ts arbitrary: db)
    case (Cons t ts)
    have "framed db (record_status_transition t db)" by (simp add: framed_def record_status_transition_def)
    with Cons show ?case using framed_trans by simp
  qed (simp add: framed_refl)
  then show ?thesis by (simp add: record_history_def)
qed

lemma framed_last: "framed db (record_last r db)"
  by (simp add: framed_def record_last_def record_status_transition_def)

lemma framed_priority: "framed db (record_priority_outcome env r now db)"
  by (simp add: framed_def record_priority_outcome_def)

lemma framed_find: "framed db db' \<Longrightarrow> find_ride i db' = find_ride i db"
  by (simp add: framed_def find_ride_def)

text \<open>The writes that leave rides and supplements alone.\<close>

lemma framed_fresh: "framed db (db\<lparr>next_ride_id := Suc (next_ride_id db)\<rparr>)"
  by (simp add: framed_def)

lemma save_rating_framed: "okR (framed db) (save_rating x db)"
  by (simp add: save_rating_def framed_def)

lemma save_profile_framed: "okR (framed db) (save_profile p db)"
  by (auto simp: save_profile_def Let_def okR_iff bindR_eq_Inr framed_def)

lemma refresh_driver_rating_framed: "okR (framed db) (refresh_driver_rating d db)"
  by (auto simp: refresh_driver_rating_def framed_refl save_profile_framed split: option.splits prod.splits)

lemma save_emergency_framed: "okR (framed db) (save_emergency_event e db)"
  by (auto simp: save_emergency_event_def okR_iff bindR_eq_Inr framed_def)

lemma save_ride_quote_framed: "okR (framed db) (save_ride_quote q db)"
  by (auto simp: save_ride_quote_def okR_iff bindR_eq_Inr framed_def)

lemma consume_quote_framed: "okR (framed db) (consume_ride_quote q r t db)"
  by (auto simp: consume_ride_quote_def okR_iff bindR_eq_Inr framed_def split: option.splits)

lemma batch_framed: "framed db (snd (save_route_point_batch b u h ps db))"
  by (auto simp: save_route_point_batch_def save_route_points_def framed_def Let_def split: list.splits option.splits)

section \<open>The moves\<close>

lemma start_waiting_move:
  assumes "transition WAITING now m (r\<lparr>rd_waiting_started_at := a, rd_waiting_rate_per_minute := b\<rparr>) = Inr r'"
    and "rd_status r = IN_PROGRESS"
  shows "good_move r r'"
  using assms(2) by (intro transition_good [OF assms(1)]) (simp_all add: same_ride_def active_statuses)

lemma arrived_move:
  assumes "transition ARRIVED now m (r\<lparr>rd_start_code_hash := a, rd_pre_ride_wait_started_at := b\<rparr>) = Inr r'"
    and "rd_status r = DRIVER_EN_ROUTE"
  shows "good_move r r'"
  using assms(2) by (intro transition_good [OF assms(1)]) (simp_all add: same_ride_def active_statuses)

lemma no_show_move:
  assumes "transition CANCELLED_BY_DRIVER now m (r\<lparr>rd_pre_ride_wait_seconds := a,
      rd_pre_ride_wait_fee := b, rd_cancellation_reason := c\<rparr>) = Inr r'" and "rd_status r = ARRIVED"
  shows "good_move r r'"
  using assms(2) by (intro transition_good [OF assms(1)]) (simp_all add: same_ride_def active_statuses)

lemma assign_move:
  assumes "transition MATCHED now m (r\<lparr>rd_driver_id := a, rd_vehicle_id := b\<rparr>) = Inr r'"
    and "rd_status r = REQUESTED"
  shows "good_move r r'"
  using assms(2) by (intro transition_good [OF assms(1)]) (simp_all add: same_ride_def active_statuses)

lemma give_up_move:
  assumes t: "transition NO_DRIVER_FOUND now m r1 = Inr r'" and s: "rd_status r1 = REQUESTED"
    and c: "core r = core r1" "rd_supplements_total r = rd_supplements_total r1"
  shows "good_move r r'"
proof -
  have f: "same_ride r r1" "rd_status r1 = rd_status r" "rd_driver_id r1 = rd_driver_id r" "rd_status r = REQUESTED"
    using c(1) s by (simp_all add: core_def same_ride_def)
  show ?thesis
    by (rule transition_good [OF t f(1,2) _ _ active_statuses(1) [OF f(4)]]) (use f c in auto)
qed

lemma cancel_move:
  assumes t: "transition s now m r1 = Inr r'" and s: "s = CANCELLED_BY_DRIVER \<or> s = CANCELLED_BY_PASSENGER"
    and a: "is_active r1" and c: "core r1 = core r" "rd_supplements_total r1 = rd_supplements_total r"
  shows "good_move r (r'\<lparr>rd_cancellation_reason := c\<rparr>)"
proof -
  have f: "same_ride r r1" "rd_status r1 = rd_status r" "rd_driver_id r1 = rd_driver_id r" "is_active r"
    using c(1) a by (simp_all add: core_def same_ride_def is_active_def)
  have "good_move r r'"
    by (rule transition_good [OF t f(1,2) _ c(2) f(4)]) (use s f(3) in auto)
  then show ?thesis
    using move_cong [of "r'\<lparr>rd_cancellation_reason := c\<rparr>" r' r] by (simp add: good_move_def core_def)
qed

lemma started_move:
  assumes "started_ride env r now = Inr r1" and "ensure_map_trace_started env r1 = (r2, None)"
    and "rd_status r = ARRIVED"
  shows "good_move r r2"
proof -
  obtain a b c m where t: "transition IN_PROGRESS now m (r\<lparr>rd_pre_ride_wait_seconds := a,
      rd_pre_ride_wait_fee := b, rd_start_code_used_at := c\<rparr>) = Inr r1"
    using assms(1) by (auto simp: started_ride_def Let_def)
  have g: "good_move r r1"
    using assms(3) by (intro transition_good [OF t]) (simp_all add: same_ride_def active_statuses)
  have "core r2 = core r1 \<and> rd_supplements_total r2 = rd_supplements_total r1"
    using assms(2) by (auto simp: ensure_map_trace_started_def core_def split: if_splits option.splits sum.splits)
  with g move_cong [of r2 r1 r] show ?thesis by (simp add: good_move_def core_def)
qed

lemma status_move:
  assumes t: "transition s now m r = Inr r'" and s: "s \<noteq> COMPLETED"
    and w: "rd_status r = WAITING \<Longrightarrow> s \<noteq> IN_PROGRESS"
  shows "good_move r r'"
proof (cases "s = rd_status r")
  case True
  with t have "r' = r" by (simp add: transition_def)
  then show ?thesis by (simp add: good_core)
next
  case False
  with transition_core [OF t] have a: "is_active r" by blast
  show ?thesis
  proof (rule transition_good [OF t])
    show "rd_waiting_started_at r \<noteq> None"
      if "rd_status r = WAITING" "s \<in> {IN_PROGRESS, COMPLETED, WAITING}"
      using that s w False by auto
  qed (use a s in \<open>simp_all add: same_ride_def\<close>)
qed

text \<open>A ride object that the database still agrees with.\<close>

definition as_saved :: "ride \<Rightarrow> ride_db \<Rightarrow> bool" where
  "as_saved ride db \<longleftrightarrow> (\<exists>row. find_ride (rd_id ride) db = Some row \<and> core row = core ride
     \<and> rd_supplements_total row = rd_supplements_total ride)"

lemma as_saved_find: "find_ride i db = Some r \<Longrightarrow> as_saved r db"
  using find_ride_mem [of i db r] unfolding as_saved_def by metis

section \<open>Requests as steps\<close>

text \<open>
  One request of any kind; the surroundings (environment, arguments, clock, Redis) may differ from
  one request to the next. \<open>step_other\<close> stands for the writers outside these services (driver
  onboarding, tariffs, priority boosts): they leave rides and supplements alone.
\<close>

inductive ride_step :: "ride_db \<Rightarrow> ride_db \<Rightarrow> bool" where
  step_other: "framed db db' \<Longrightarrow> ride_step db db'"
| step_quote: "ride_step db (snd (transact db (create_quote env p a aa d da cat comf now db)))"
| step_request: "ride_step db (snd (transact db (request_ride p review q method t now db)))"
| step_status: "ride_step db (snd (transact db (update_status env i s uid role now db)))"
| step_early_request: "ride_step db (snd (transact db (request_early_stop env i p now db)))"
| step_early_confirm: "ride_step db (snd (transact db (confirm_early_stop env i uid role now db)))"
| step_arrived: "ride_step db (snd (transact db (mark_arrived env i uid role pos now db)))"
| step_start: "ride_step db (snd (start_ride_with_code env i uid role code now db))"
| step_no_show: "ride_step db (snd (transact db (mark_passenger_no_show env i uid role now db)))"
| step_wait: "ride_step db (snd (transact db (start_waiting env i uid role speed now db)))"
| step_resume: "ride_step db (snd (transact db (stop_waiting env i uid role reason now db)))"
| step_stop: "ride_step db (snd (transact db (add_stop i uid role la lo addr note now db)))"
| step_supplement: "ride_step db (snd (transact db (add_supplement i uid role ty amount label now db)))"
| step_decide: "ride_step db (snd (transact db (decide_supplement i sid uid role decision now db)))"
| step_cancel: "ride_step db (snd (transact db (cancel_ride env i reason uid role now db)))"
| step_rate: "ride_step db (snd (transact db (rate i n comment uid role db)))"
| step_samples: "ride_step db (snd (transact db (add_location_samples env i samples uid batch now db)))"
| step_share: "ride_step db (snd (transact db (create_share_link env i uid role now db)))"
| step_emergency: "ride_step db (snd (transact db (request_emergency env i uid role note now db)))"
| step_match: "as_saved r (mt_rides m) \<Longrightarrow> try_match menv r now m = Inr (x, m') \<Longrightarrow>
    ride_step (mt_rides m) (mt_rides m')"
| step_accept: "ride_step (mt_rides m) (mt_rides (snd (accept i uid now m)))"
| step_decline: "ride_step (mt_rides m) (mt_rides (snd (decline menv i uid now m)))"
| step_advance: "advance_expired_offer menv i now m = Inr (x, m') \<Longrightarrow>
    ride_step (mt_rides m) (mt_rides m')"

abbreviation ride_later :: "ride_db \<Rightarrow> ride_db \<Rightarrow> bool" where
  "ride_later \<equiv> ride_step\<^sup>*\<^sup>*"

definition ride_reachable :: "ride_db \<Rightarrow> bool" where
  "ride_reachable db \<longleftrightarrow> ride_later empty_ride_db db"

section \<open>The contract\<close>

lemma stop_waiting_result:
  assumes "stop_waiting env rid uid role reason now db = Inr (v, db1)"
  obtains row where "find_ride rid db1 = Some row" "rd_status row = IN_PROGRESS"
proof -
  from assms obtain r r1 where f: "find_ride rid db = Some r" and m: "stop_waiting_ride env r reason now = Inr r1"
    and s: "save_ride now r1 db = Inr db1"
    by (auto simp: stop_waiting_def stop_waiting_saved_def driver_ride_def load_ride_def bindR_eq_Inr
        split: option.splits if_splits)
  from stop_waiting_move [OF m] find_ride_mem [OF f] have "rd_id r1 = rid" "rd_status r1 = IN_PROGRESS"
    by (simp_all add: good_move_def)
  with save_ride_find [OF s] that show ?thesis by (auto simp: core_def)
qed

locale ride_guard =
  fixes I :: "ride_db \<Rightarrow> bool"
  assumes g_save: "I db \<Longrightarrow> find_ride i db = Some r \<Longrightarrow> good_move r r' \<Longrightarrow> okR I (save_ride now r' db)"
    and g_frame: "I db \<Longrightarrow> rides db' = rides db \<Longrightarrow> supplements db' = supplements db \<Longrightarrow>
      next_ride_id db \<le> next_ride_id db' \<Longrightarrow> I db'"
    and g_request: "I db \<Longrightarrow> \<not> has_active_ride (rd_passenger_user_id r) db \<Longrightarrow>
      rd_id r = next_ride_id db \<Longrightarrow> rd_status r = REQUESTED \<Longrightarrow> rd_supplements_total r = 0 \<Longrightarrow>
      okR I (save_ride now r (db\<lparr>next_ride_id := Suc (next_ride_id db)\<rparr>))"
    and g_supplement: "I db \<Longrightarrow> find_ride (su_ride_id s) db = Some r \<Longrightarrow> su_status s = ''pending'' \<Longrightarrow>
      su_id s = next_ride_id db \<Longrightarrow>
      okR I (insert_supplement s (db\<lparr>next_ride_id := Suc (next_ride_id db)\<rparr>))"
    and g_decide: "I db \<Longrightarrow> find_ride i db = Some r \<Longrightarrow> find_supplement_for_update i sid db = Some s \<Longrightarrow>
      save_supplement (s\<lparr>su_status := decision, su_decided_by_user_id := u, su_decided_at := t\<rparr>) db = Inr db1 \<Longrightarrow>
      okR I (save_ride now (r\<lparr>rd_supplements_total := accepted_supplements_total i db1\<rparr>) db1)"
begin

text \<open>Rules for the pieces of a handler, in the shape that \<open>wp\<close> meets them.\<close>

lemma save_wp:
  assumes "I db" and "find_ride i db = Some r" and "good_move r r'"
    and "\<And>db'. I db' \<Longrightarrow> save_ride now r' db = Inr db' \<Longrightarrow> Q db'"
  shows "okR Q (save_ride now r' db)"
  using g_save [OF assms(1-3), of now] assms(4) by (auto simp: okR_iff)

lemma keep_framed: "I db \<Longrightarrow> framed db db' \<Longrightarrow> I db'"
  unfolding framed_def using g_frame by blast

text \<open>Handlers that load, check and save one ride.\<close>

lemma keep_stop_waiting_saved:
  assumes "I db" and "find_ride i db = Some r"
  shows "okR (\<lambda>(_, db'). I db') (stop_waiting_saved env r reason now db)"
  unfolding stop_waiting_saved_def
  by (intro wp any_wp [of "stop_waiting_ride env r reason now"] save_wp [OF assms]) (simp_all add: stop_waiting_move)

lemma keep_stop_waiting: "I db \<Longrightarrow> okR (\<lambda>(_, db'). I db') (stop_waiting env rid uid role reason now db)"
  unfolding stop_waiting_def
  by (intro wp driver_wp okR_mono [OF keep_stop_waiting_saved], assumption+) auto

lemma keep_start_waiting: "I db \<Longrightarrow> okR (\<lambda>(_, db'). I db') (start_waiting env rid uid role speed now db)"
  unfolding start_waiting_def
  by (intro wp driver_wp transition_wp save_wp) (assumption | (rule start_waiting_move, assumption) | simp)+

lemma keep_mark_arrived: "I db \<Longrightarrow> okR (\<lambda>(_, db'). I db') (mark_arrived env rid uid role pos now db)"
  unfolding mark_arrived_def Let_def
  by (intro wp driver_wp transition_wp save_wp)
    (assumption | (rule arrived_move, assumption) | simp add: keep_framed [OF _ framed_last])+

lemma keep_no_show: "I db \<Longrightarrow> okR (\<lambda>(_, db'). I db') (mark_passenger_no_show env rid uid role now db)"
  unfolding mark_passenger_no_show_def Let_def
  by (intro wp driver_wp transition_wp save_wp)
    (assumption | (rule no_show_move, assumption) | simp add: keep_framed [OF _ framed_last])+

lemma keep_share: "I db \<Longrightarrow> okR (\<lambda>(_, db'). I db') (create_share_link env rid uid role now db)"
  unfolding create_share_link_def Let_def
  by (intro wp load_wp save_wp) (assumption | (rule good_core; simp add: core_def; fail) | simp)+

lemma keep_request_early_stop: "I db \<Longrightarrow> okR (\<lambda>(_, db'). I db') (request_early_stop env rid p now db)"
  unfolding request_early_stop_def Let_def
  by (intro wp load_wp save_wp) (assumption | (rule good_core; simp add: core_def; fail) | simp)+

text \<open>
  Completion and early stop: a wait that is on is stopped and saved first, then the ride is
  loaded again.
\<close>

lemma keep_wait_ended_first:
  assumes "I db" and "find_ride rid db = Some r0"
  shows "okR (\<lambda>(r1, db1). I db1 \<and> find_ride rid db1 = Some r1
      \<and> (rd_status r1 = IN_PROGRESS \<or> \<not> waiting \<and> r1 = r0 \<and> db1 = db))
    (wait_ended_first env rid uid role reason waiting r0 now db)"
proof (cases waiting)
  case True
  have "okR (\<lambda>(v, db1). I db1 \<and> (\<exists>row. find_ride rid db1 = Some row \<and> rd_status row = IN_PROGRESS))
      (stop_waiting env rid uid role reason now db)"
    using keep_stop_waiting [OF assms(1), of env rid uid role reason now]
    by (auto simp: okR_iff elim: stop_waiting_result)
  then have "okR (\<lambda>x. okR (\<lambda>(r1, db1). I db1 \<and> find_ride rid db1 = Some r1
        \<and> (rd_status r1 = IN_PROGRESS \<or> \<not> waiting \<and> r1 = r0 \<and> db1 = db))
      (case x of (_, db1) \<Rightarrow> bindR (load_ride rid db1) (\<lambda>r. Inr (r, db1))))
      (stop_waiting env rid uid role reason now db)"
    by (rule okR_mono) (auto simp: load_ride_def)
  with True show ?thesis by (simp add: wait_ended_first_def okR_bindR)
qed (simp add: wait_ended_first_def assms)

lemma keep_finish_status:
  assumes I: "I db1" and f: "find_ride rid db1 = Some r1"
    and c: "s = COMPLETED \<Longrightarrow> rd_status r1 \<noteq> COMPLETED \<and> rd_status r1 \<noteq> WAITING" and w: "s \<noteq> IN_PROGRESS"
  shows "okR (\<lambda>(_, db'). I db') (finish_status env r1 s viewer now db1)"
proof (cases "s = COMPLETED")
  case True
  show ?thesis
    unfolding finish_status_def Let_def if_P [OF True]
  proof (intro wp any_wp [of "priced_for_completion env r1 now db1"] api_transition_wp save_wp [OF I f])
    fix r2 r3 assume k: "priced_for_completion env r1 now db1 = Inr r2" and t: "transition s now None r2 = Inr r3"
    have t': "transition COMPLETED now None r2 = Inr r3" using t unfolding True .
    from transition_core [OF t'] kept_facts [OF kept_priced [OF k]] c [OF True] have "is_active r1" by auto
    with c [OF True] show "good_move r1 (completed_fare r3)"
      by (intro completion_move [OF kept_priced [OF k] t']) auto
  qed (simp add: keep_framed [OF _ framed_trans [OF framed_history framed_priority]])
next
  case False
  show ?thesis
    unfolding finish_status_def Let_def if_not_P [OF False]
    by (intro wp api_transition_wp save_wp [OF I f] status_move [OF _ False])
      (assumption | simp add: w keep_framed [OF _ framed_trans [OF framed_history framed_priority]])+
qed

lemma keep_update_status:
  assumes "I db"
  shows "okR (\<lambda>(_, db'). I db') (update_status env rid s uid role now db)"
  unfolding update_status_def Let_def
proof (intro okR_bindR [where m = "driver_ride rid uid role db"] driver_wp okR_if okR_Inl okR_InrI)
  fix r0 assume f: "find_ride rid db = Some r0" and c: "\<not> (rd_status r0 = COMPLETED \<and> s = COMPLETED)"
    and w: "s \<noteq> IN_PROGRESS"
  let ?b = "s = COMPLETED \<and> rd_status r0 = WAITING"
  show "okR (\<lambda>(_, db'). I db') (bindR (wait_ended_first env rid uid role ''ride_completed'' ?b r0 now db)
     (\<lambda>(ride1, db1). finish_status env ride1 s (if role = ''admin'' then ''admin'' else ''driver'') now db1))"
  proof (rule okR_bindR, rule okR_mono [OF keep_wait_ended_first [OF assms f, where waiting = ?b]], clarify)
    fix r1 db1 assume I: "I db1" and f1: "find_ride rid db1 = Some r1"
      and r: "rd_status r1 = IN_PROGRESS \<or> \<not> ?b \<and> r1 = r0 \<and> db1 = db"
    show "okR (\<lambda>(_, db'). I db') (finish_status env r1 s (if role = ''admin'' then ''admin'' else ''driver'') now db1)"
      by (rule keep_finish_status [OF I f1 _ w]) (use r c in auto)
  qed
qed (use assms in simp)

lemma keep_finish_early_stop:
  assumes I: "I db" and f: "find_ride rid db = Some r" and s: "rd_status r = IN_PROGRESS"
  shows "okR (\<lambda>(_, db'). I db') (finish_early_stop env r now db)"
proof -
  obtain r2 x where a: "apply_actual_pricing_if_possible env r now db = (r2, x)" by fastforce
  with kept_pricing [of r env now db] have k: "kept r r2" by simp
  note m = early_move [OF k _ s]
  show ?thesis
    unfolding finish_early_stop_def a prod.case
    by (intro wp transition_wp save_wp [OF I f])
      ((erule m) | simp add: keep_framed [OF _ framed_trans [OF framed_history framed_priority]])+
qed

lemma keep_confirm_early_stop:
  assumes "I db"
  shows "okR (\<lambda>(_, db'). I db') (confirm_early_stop env rid uid role now db)"
  unfolding confirm_early_stop_def
proof (intro okR_bindR [where m = "driver_ride rid uid role db"] driver_wp okR_if okR_prod okR_option okR_Inl)
  fix r0 e assume f: "find_ride rid db = Some r0" and st: "\<not> rd_status r0 \<notin> {IN_PROGRESS, WAITING}"
  let ?b = "rd_status r0 = WAITING"
  show "okR (\<lambda>(_, db'). I db') (bindR (wait_ended_first env rid uid role ''early_stop'' ?b r0 now db)
     (\<lambda>(ride1, db1). finish_early_stop env ride1 now db1))"
  proof (rule okR_bindR, rule okR_mono [OF keep_wait_ended_first [OF assms f, where waiting = ?b]], clarify)
    fix r1 db1 assume I: "I db1" and f1: "find_ride rid db1 = Some r1"
      and r: "rd_status r1 = IN_PROGRESS \<or> \<not> ?b \<and> r1 = r0 \<and> db1 = db"
    show "okR (\<lambda>(_, db'). I db') (finish_early_stop env r1 now db1)"
      by (rule keep_finish_early_stop [OF I f1]) (use r st in auto)
  qed
qed

lemma keep_cancel_wait:
  assumes I: "I db" and f: "find_ride rid db = Some r" and a: "is_active r"
  shows "okR (\<lambda>(r1, db1). I db1 \<and> is_active r1 \<and> (\<exists>i r0. find_ride i db1 = Some r0 \<and> core r1 = core r0
      \<and> rd_supplements_total r1 = rd_supplements_total r0))
    (if rd_status r = WAITING then stop_waiting_saved env r ''ride_cancelled'' now db else Inr (r, db))"
proof (rule okR_if)
  show "okR (\<lambda>(r1, db1). I db1 \<and> is_active r1 \<and> (\<exists>i r0. find_ride i db1 = Some r0 \<and> core r1 = core r0
      \<and> rd_supplements_total r1 = rd_supplements_total r0)) (stop_waiting_saved env r ''ride_cancelled'' now db)"
    unfolding stop_waiting_saved_def
  proof (intro wp any_wp [of "stop_waiting_ride env r ''ride_cancelled'' now"] save_wp [OF I f])
    fix r1 db1 assume m: "stop_waiting_ride env r ''ride_cancelled'' now = Inr r1"
      and I1: "I db1" and s: "save_ride now r1 db = Inr db1"
    obtain row where row: "find_ride (rd_id r1) db1 = Some row" "core row = core r1"
      "rd_supplements_total row = rd_supplements_total r1"
      using save_ride_find [OF s] by blast
    have "is_active r1" using stop_waiting_move [OF m] active_statuses(5) by blast
    with I1 row show "case (r1, db1) of (r1, db1) \<Rightarrow> I db1 \<and> is_active r1 \<and> (\<exists>i r0. find_ride i db1 = Some r0
        \<and> core r1 = core r0 \<and> rd_supplements_total r1 = rd_supplements_total r0)"
      unfolding prod.case by metis
  qed (simp add: stop_waiting_move)
next
  show "okR (\<lambda>(r1, db1). I db1 \<and> is_active r1 \<and> (\<exists>i r0. find_ride i db1 = Some r0 \<and> core r1 = core r0
      \<and> rd_supplements_total r1 = rd_supplements_total r0)) (Inr (r, db))"
    using I f a unfolding okR_Inr prod.case by blast
qed

lemma keep_cancel:
  assumes "I db"
  shows "okR (\<lambda>(_, db'). I db') (cancel_ride env rid reason uid role now db)"
  unfolding cancel_ride_def Let_def
proof (intro okR_if okR_Inl okR_bindR [where m = "load_ride rid db"] load_wp)
  fix r assume f: "find_ride rid db = Some r" and st: "rd_status r \<noteq> COMPLETED"
    "rd_status r \<notin> {CANCELLED_BY_PASSENGER, CANCELLED_BY_DRIVER}" "rd_status r \<noteq> NO_DRIVER_FOUND"
  let ?s = "if reason = cancel_reason_value DRIVER_UNAVAILABLE \<or> is_assigned_driver r uid db \<and> role \<noteq> ''admin''
     then CANCELLED_BY_DRIVER else CANCELLED_BY_PASSENGER"
  have a: "is_active r" using st by (cases "rd_status r") (simp_all add: is_active_def is_active_status_def)
  have s: "?s = CANCELLED_BY_DRIVER \<or> ?s = CANCELLED_BY_PASSENGER" by simp
  show "okR (\<lambda>(_, db'). I db') (bindR
      (if rd_status r = WAITING then stop_waiting_saved env r ''ride_cancelled'' now db else Inr (r, db))
      (\<lambda>(ride1, db1). bindR (transition ?s now (Some [(''reason'', MStr reason)]) ride1) (\<lambda>ride2.
         bindR (save_ride now (ride2\<lparr>rd_cancellation_reason := Some reason\<rparr>) db1) (\<lambda>db2.
           Inr (VObj [(''id'', vid (rd_id (ride2\<lparr>rd_cancellation_reason := Some reason\<rparr>))),
                 (''status'', VStr (ride_status_value (rd_status (ride2\<lparr>rd_cancellation_reason := Some reason\<rparr>)))),
                 (''cancelled_at'', vopt VAt (rd_cancelled_at (ride2\<lparr>rd_cancellation_reason := Some reason\<rparr>)))],
             record_priority_outcome env (ride2\<lparr>rd_cancellation_reason := Some reason\<rparr>) now db2)))))"
  proof (rule okR_bindR, rule okR_mono [OF keep_cancel_wait [OF assms f a]], clarify, goal_cases)
    case (1 r1 db1 i r0)
    note r0 = 1(3-5) and I = 1(1) and a1 = 1(2)
    show ?case
      by (intro okR_bindR okR_InrI transition_wp save_wp [OF I r0(1)] cancel_move [OF _ s a1 r0(2,3)])
        (assumption | simp add: keep_framed [OF _ framed_priority])+
  qed
qed

text \<open>Handlers that leave rides and supplements alone, and those that add to them.\<close>

lemma keep_start_code: "I db \<Longrightarrow> I (snd (start_ride_with_code env rid uid role code now db))"
proof -
  assume I: "I db"
  have w: "I db1" if "find_ride rid db = Some r" "save_ride now (wrong_start_code env r now) db = Inr db1" for r db1
  proof -
    have "good_move r (wrong_start_code env r now)" by (rule good_core) (simp_all add: wrong_start_code_def core_def)
    from g_save [OF I that(1) this, of now] that(2) show ?thesis by simp
  qed
  have v: "okR (\<lambda>(_, db'). I db') (start_with_valid_code env r now db)"
    if f: "find_ride rid db = Some r" and s: "rd_status r = ARRIVED" for r
    unfolding start_with_valid_code_def
    by (intro wp any_wp [of "started_ride env r now"] save_wp [OF I f])
      ((rule started_move [OF _ _ s], assumption, simp) | simp add: keep_framed [OF _ framed_last])+
  show ?thesis
  proof (cases "driver_ride rid uid role db")
    case (Inl e)
    with I show ?thesis by (simp add: start_ride_with_code_def)
  next
    case (Inr r)
    have "okR (\<lambda>r. find_ride rid db = Some r) (driver_ride rid uid role db)" by (rule driver_wp)
    with Inr have f: "find_ride rid db = Some r" by simp
    show ?thesis
      using I w [OF f] transact_okR [OF I v [OF f]] unfolding start_ride_with_code_def Inr sum.case Let_def
      by (simp split: sum.split)
  qed
qed

lemma keep_add_stop: "I db \<Longrightarrow> okR (\<lambda>(_, db'). I db') (add_stop rid uid role la lo addr note now db)"
  unfolding add_stop_def require_active_ride_for_driver_def fresh_id_def Let_def
  by (intro wp driver_wp) (auto elim!: keep_framed simp: framed_def save_stop_def)

lemma keep_add_supplement:
  assumes "I db"
  shows "okR (\<lambda>(_, db'). I db') (add_supplement rid uid role type amount label now db)"
  unfolding add_supplement_def require_active_ride_for_driver_def fresh_id_def Let_def prod.case
  by (intro wp driver_wp okR_mono [OF g_supplement [OF assms]] any_wp [of "supplement_amount _ _"])
    (simp_all add: find_ride_mem)

lemma keep_decide:
  assumes "I db"
  shows "okR (\<lambda>(_, db'). I db') (decide_supplement rid sid uid role decision now db)"
  unfolding decide_supplement_def Let_def
proof (intro okR_bindR [where m = "load_ride rid db"] load_wp okR_if okR_Inl okR_option okR_InrI)
  fix r s assume r: "find_ride rid db = Some r" and s: "find_supplement_for_update (rd_id r) sid db = Some s"
  then have f: "find_ride (rd_id r) db = Some r" using find_ride_mem by metis
  show "okR (\<lambda>(_, db'). I db') (bindR (save_supplement (s\<lparr>su_status := decision,
        su_decided_by_user_id := Some uid, su_decided_at := Some now\<rparr>) db) (\<lambda>db1.
      bindR (save_ride now (r\<lparr>rd_supplements_total := accepted_supplements_total (rd_id r) db1\<rparr>) db1) (\<lambda>db2.
      Inr (supplement_payload (s\<lparr>su_status := decision, su_decided_by_user_id := Some uid,
        su_decided_at := Some now\<rparr>), db2))))"
    by (intro okR_bindR any_wp [of "save_supplement _ _"] okR_mono [OF g_decide [OF assms f s]]) simp_all
qed (use assms in simp)

lemma keep_rate:
  assumes "I db"
  shows "okR (\<lambda>(_, db'). I db') (rate rid n comment uid role db)"
proof -
  have f: "I db2" if "framed (db\<lparr>next_ride_id := Suc (next_ride_id db)\<rparr>) db2" for db2
    by (rule keep_framed [OF assms framed_trans [OF framed_fresh that]])
  show ?thesis
    unfolding rate_def fresh_id_def Let_def prod.case
    by (intro wp load_wp okR_mono [OF save_rating_framed] okR_mono [OF refresh_driver_rating_framed])
      (auto intro: f framed_trans)
qed

lemma keep_samples:
  assumes "I db"
  shows "okR (\<lambda>(_, db'). I db') (add_location_samples env rid samples uid batch now db)"
proof -
  have "I db'" if "save_route_point_batch batch uid h ps db = (x, db')" for h ps x db'
    using keep_framed [OF assms batch_framed [of db batch uid h ps]] that by simp
  then show ?thesis
    unfolding add_location_samples_def by (intro wp load_wp) auto
qed

lemma keep_emergency:
  assumes "I db"
  shows "okR (\<lambda>(_, db'). I db') (request_emergency env rid uid role note now db)"
proof -
  have f: "I db2" if "I db1" "framed (db1\<lparr>next_ride_id := Suc (next_ride_id db1)\<rparr>) db2" for db1 db2
    by (rule keep_framed [OF that(1) framed_trans [OF framed_fresh that(2)]])
  show ?thesis
    unfolding request_emergency_def fresh_id_def Let_def prod.case
    by (intro okR_bindR [where m = "load_ride rid db"] load_wp okR_if okR_Inl okR_bindR okR_InrI
        okR_mono [OF save_emergency_framed] save_wp [OF assms])
      (assumption | (rule good_core; simp add: core_def emergency_open_def; fail) | simp add: f)+
qed

lemma keep_create_quote:
  assumes "I db"
  shows "okR (\<lambda>(_, db'). I db') (create_quote env p a aa d da cat comf now db)"
proof -
  have f: "I db2" if "framed (db\<lparr>next_ride_id := Suc (next_ride_id db)\<rparr>) db2" for db2
    by (rule keep_framed [OF assms framed_trans [OF framed_fresh that]])
  show ?thesis
    unfolding create_quote_def fresh_id_def Let_def prod.case
    by (intro okR_bindR okR_InrI any_wp [of "vehicle_category_of _"] any_wp [of "comfort_level_of _"]
        any_wp [of "estimate_pricing _ _ _ _ _ _ _"] okR_mono [OF save_ride_quote_framed]) (simp add: f)
qed

lemma keep_request:
  assumes "I db"
  shows "okR (\<lambda>(_, db'). I db') (request_ride p review q method at' now db)"
proof -
  have g: "okR I (save_ride now (ride_of_quote (next_ride_id db) p review quote m at' now)
      (db\<lparr>next_ride_id := Suc (next_ride_id db)\<rparr>))" if "\<not> has_active_ride p db" for quote m
    using that by (intro g_request [OF assms]) (simp_all add: ride_of_quote_def new_ride_def)
  show ?thesis
    unfolding request_ride_def fresh_id_def Let_def prod.case
    by (intro okR_bindR okR_InrI okR_option okR_if okR_Inl any_wp [of "ride_payment_method_of _"]
        okR_mono [OF g] okR_mono [OF consume_quote_framed])
      (assumption | simp, rule keep_framed, assumption, erule framed_trans [OF _ framed_history])+
qed

text \<open>Matching.\<close>

lemma keep_give_up:
  assumes I: "I (mt_rides m)" and a: "as_saved ride (mt_rides m)" and s: "rd_status ride = REQUESTED"
  shows "okR (\<lambda>m'. I (mt_rides m')) (give_up ride now m)"
proof -
  obtain row where row: "find_ride (rd_id ride) (mt_rides m) = Some row" "core row = core ride"
    "rd_supplements_total row = rd_supplements_total ride"
    using a unfolding as_saved_def by blast
  show ?thesis
    unfolding give_up_def
    by (intro okR_bindR okR_InrI transition_wp save_wp [OF I row(1)] give_up_move [OF _ s row(2,3)])
      (assumption | simp add: keep_framed [OF _ framed_history])+
qed

lemma keep_try_match:
  assumes I: "I (mt_rides m)" and a: "as_saved ride (mt_rides m)"
  shows "okR (\<lambda>(_, m'). I (mt_rides m')) (try_match env ride now m)"
proof (cases "rd_status ride = REQUESTED")
  case True
  have g: "okR (\<lambda>m'. I (mt_rides m')) (give_up ride now (m\<lparr>mt_pay := p\<rparr>))" for p
    by (rule keep_give_up [OF _ _ True]) (simp_all add: I a)
  show ?thesis
    unfolding try_match_def Let_def
    by (intro okR_if okR_InrI okR_bindR okR_prod any_wp [of "next_candidates _ _ _ _"]
        okR_mono [OF keep_give_up [OF I a True]] okR_mono [OF g]) (simp_all add: I)
qed (simp add: try_match_def I)

lemma keep_accept:
  assumes I: "I (mt_rides m)"
  shows "I (mt_rides (snd (accept rid uid now m)))"
proof (cases "load_active_ride rid (mt_rides m)")
  case (Inr r)
  then have f: "find_ride rid (mt_rides m) = Some r" and s: "rd_status r = REQUESTED"
    by (auto simp: load_active_ride_def split: option.splits if_splits)
  have *: "okR (\<lambda>(_, db1). I db1) (assign_driver r d v now (mt_rides m))" for d v
    unfolding assign_driver_def
    by (intro okR_bindR okR_InrI transition_wp save_wp [OF I f])
      ((rule assign_move [OF _ s], assumption) | simp add: keep_framed [OF _ framed_history])+
  have "I db1" if "assign_driver r d v now (mt_rides m) = Inr (r1, db1)" for d v r1 db1
    using * [of d v] that by simp
  with I show ?thesis
    unfolding accept_def Inr sum.case Let_def
    by (auto split: if_split option.split sum.split prod.split bool.split)
qed (simp add: accept_def I)

lemma keep_decline:
  assumes I: "I (mt_rides m)"
  shows "I (mt_rides (snd (decline env rid uid now m)))"
proof (cases "load_active_ride rid (mt_rides m)")
  case (Inr r)
  then have f: "find_ride rid (mt_rides m) = Some r"
    by (auto simp: load_active_ride_def split: option.splits if_splits)
  have k: "I (mt_rides (snd (keep_redis m1 (try_match env r now m1))))" if "mt_rides m1 = mt_rides m" for m1
    using keep_try_match [of m1 r env now] as_saved_find [OF f] I that
    by (auto simp: keep_redis_def okR_iff split: sum.split)
  show ?thesis
    unfolding decline_def Inr sum.case Let_def
    using I by (auto split: prod.split intro: k)
qed (simp add: decline_def I)

lemma keep_advance:
  assumes I: "I (mt_rides m)"
  shows "okR (\<lambda>(_, m'). I (mt_rides m')) (advance_expired_offer env rid now m)"
  unfolding advance_expired_offer_def Let_def
  by (intro okR_if okR_InrI okR_option okR_mono [OF keep_try_match [OF I as_saved_find]])
    (assumption | simp add: I)+

lemma keep_transact: "I db \<Longrightarrow> okR (\<lambda>(_, db'). I db') m \<Longrightarrow> I (snd (transact db m))"
  by (rule transact_okR)

theorem step_keeps: "ride_step db db' \<Longrightarrow> I db \<Longrightarrow> I db'"
proof (induction rule: ride_step.induct)
  case (step_match r m menv now x m')
  with keep_try_match [of m r menv now] show ?case by simp
next
  case (step_advance menv i now m x m')
  with keep_advance [of m menv i now] show ?case by simp
qed (assumption | rule keep_framed keep_transact keep_create_quote keep_request keep_update_status
    keep_request_early_stop keep_confirm_early_stop keep_mark_arrived keep_start_code keep_no_show
    keep_start_waiting keep_stop_waiting keep_add_stop keep_add_supplement keep_decide keep_cancel
    keep_rate keep_samples keep_share keep_emergency keep_accept keep_decline)+

theorem later_keeps: "ride_later db db' \<Longrightarrow> I db \<Longrightarrow> I db'"
  by (induction rule: rtranclp_induct) (auto intro: step_keeps)

end

section \<open>The invariant is kept\<close>

lemma pending_not_counted:
  "su_status s = ''pending'' \<Longrightarrow> accepted_supplements_total i (db\<lparr>supplements := supplements db @ [s]\<rparr>)
    = accepted_supplements_total i db"
  by (simp add: accepted_supplements_total_def)

lemma inv_save:
  assumes I: "ride_inv db" and f: "find_ride i db = Some r" and g: "good_move r r'"
  shows "okR ride_inv (save_ride now r' db)"
proof -
  have i: "rd_id r' = i" using find_ride_mem [OF f] g by (simp add: good_move_def)
  show ?thesis
  proof (rule okR_save_ride)
    show f': "find_ride (rd_id r') db = Some r" using f i by simp
    fix row assume c: "core row = core r'" and t: "rd_supplements_total row = rd_supplements_total r'"
      and n: "\<forall>x \<in> set (rides db). rd_id x \<noteq> rd_id r' \<longrightarrow> \<not> ride_clash row x"
    have id: "rd_id row = rd_id r'" using c by (simp add: core_def)
    have m: "ride_move r row" by (rule move_cong [OF c]) (use g in \<open>simp add: good_move_def\<close>)
    have t': "rd_supplements_total row = rd_supplements_total r" using t g by (simp add: good_move_def)
    from inv_put_ride [OF I _ m _ t'] f' n id
    show "ride_inv (db\<lparr>rides := put_row rd_id (rd_id r') row (rides db)\<rparr>)" by simp
  qed
qed

lemma inv_request:
  assumes I: "ride_inv db" and a: "\<not> has_active_ride (rd_passenger_user_id r) db"
    and i: "rd_id r = next_ride_id db" and s: "rd_status r = REQUESTED" "rd_supplements_total r = 0"
  shows "okR ride_inv (save_ride now r (db\<lparr>next_ride_id := Suc (next_ride_id db)\<rparr>))"
proof (rule okR_save_new)
  let ?db = "db\<lparr>next_ride_id := Suc (next_ride_id db)\<rparr>"
  have ids: "\<forall>x \<in> set (rides db). rd_id x < next_ride_id db" using I by (auto simp: ride_inv_def row_ok_def)
  then show "rd_id r \<notin> rd_id ` set (rides ?db)" using i by auto
  fix row assume c: "core row = core r" and t: "rd_supplements_total row = rd_supplements_total r"
    and n: "\<forall>x \<in> set (rides ?db). \<not> ride_clash row x"
  have row: "rd_id row = next_ride_id db" "rd_status row = REQUESTED"
    "rd_passenger_user_id row = rd_passenger_user_id r" "rd_supplements_total row = 0"
    using c t i s by (simp_all add: core_def)
  have "compatible row x" if "x \<in> set (rides db)" for x
    using a n that row(3) by (auto simp: compatible_def has_active_ride_def list_ex_iff)
  then have ap: "apart (rides db @ [row])"
    using I compatible_sym unfolding apart_def ride_inv_def by auto
  have ok: "row_ok (?db\<lparr>rides := rides ?db @ [row]\<rparr>) x" if "row_ok db x" for x
    using that by (auto simp: row_ok_def accepted_supplements_total_def)
  have z: "accepted_supplements_total (next_ride_id db) db = 0"
  proof -
    have "filter (\<lambda>s. su_ride_id s = next_ride_id db \<and> su_status s = ''accepted'') (supplements db) = []"
      using I by (auto simp: ride_inv_def filter_empty_conv)
    then show ?thesis by (simp add: accepted_supplements_total_def)
  qed
  have "row_ok (?db\<lparr>rides := rides ?db @ [row]\<rparr>) row"
    using row z by (simp add: row_ok_def accepted_supplements_total_def)
  with I ap ok ids row(1) show "ride_inv (?db\<lparr>rides := rides ?db @ [row]\<rparr>)"
    by (auto simp: ride_inv_def)
qed

lemma inv_supplement:
  assumes I: "ride_inv db" and f: "find_ride (su_ride_id s) db = Some r" and p: "su_status s = ''pending''"
    and i: "su_id s = next_ride_id db"
  shows "okR ride_inv (insert_supplement s (db\<lparr>next_ride_id := Suc (next_ride_id db)\<rparr>))"
proof -
  have r: "su_ride_id s < next_ride_id db"
    using I find_ride_mem [OF f] by (auto simp: ride_inv_def row_ok_def)
  have "row_ok (db\<lparr>next_ride_id := Suc (next_ride_id db), supplements := supplements db @ [s]\<rparr>) x"
    if "row_ok db x" for x
    using that p by (auto simp: row_ok_def accepted_supplements_total_def)
  moreover have "next_ride_id db \<notin> su_id ` set (supplements db)" using I by (auto simp: ride_inv_def)
  ultimately have "ride_inv (db\<lparr>next_ride_id := Suc (next_ride_id db), supplements := supplements db @ [s]\<rparr>)"
    using I i r by (auto simp: ride_inv_def)
  then show ?thesis by (auto simp: insert_supplement_def okR_iff bindR_eq_Inr insert_row_def split: if_splits)
qed

lemma inv_decide:
  assumes I: "ride_inv db" and f: "find_ride i db = Some r"
    and s: "find_supplement_for_update i sid db = Some s"
    and w: "save_supplement (s\<lparr>su_status := decision, su_decided_by_user_id := u, su_decided_at := t\<rparr>) db = Inr db1"
  shows "okR ride_inv (save_ride now (r\<lparr>rd_supplements_total := accepted_supplements_total i db1\<rparr>) db1)"
proof -
  from s have s1: "get_row su_id sid (supplements db) = Some s" "su_ride_id s = i"
    by (auto simp: find_supplement_for_update_def split: option.splits if_splits)
  from get_row_Some [OF s1(1)] have s2: "su_id s = sid" "s \<in> set (supplements db)" by simp_all
  define s' where "s' = s\<lparr>su_status := decision, su_decided_by_user_id := u, su_decided_at := t\<rparr>"
  have db1: "db1 = db\<lparr>supplements := put_row su_id sid s' (supplements db)\<rparr>"
    using w s1 s2 by (auto simp: save_supplement_def s'_def split: if_splits)
  have other: "accepted_supplements_total j db1 = accepted_supplements_total j db" if "j \<noteq> i" for j
  proof -
    have "filter (\<lambda>x. su_ride_id x = j \<and> su_status x = ''accepted'') (put_row su_id sid s' xs)
        = filter (\<lambda>x. su_ride_id x = j \<and> su_status x = ''accepted'') xs"
      if "\<forall>x \<in> set xs. su_id x = sid \<longrightarrow> su_ride_id x = i" for xs
      using that \<open>j \<noteq> i\<close> s1(2) by (induction xs) (auto simp: s'_def)
    moreover have "\<forall>x \<in> set (supplements db). su_id x = sid \<longrightarrow> su_ride_id x = i"
      using I s2 s1(2) by (auto simp: ride_inv_def distinct_map inj_on_def)
    ultimately show ?thesis by (simp add: db1 accepted_supplements_total_def)
  qed
  have f1: "find_ride i db1 = Some r" using f by (simp add: db1 find_ride_def)
  note mem = find_ride_mem [OF f]
  let ?r' = "r\<lparr>rd_supplements_total := accepted_supplements_total i db1\<rparr>"
  have id: "rd_id ?r' = i" using mem by simp
  show ?thesis
  proof (rule okR_save_ride)
    show "find_ride (rd_id ?r') db1 = Some r" using f1 id by simp
    fix row assume c: "core row = core ?r'" and t: "rd_supplements_total row = rd_supplements_total ?r'"
      and n: "\<forall>x \<in> set (rides db1). rd_id x \<noteq> rd_id ?r' \<longrightarrow> \<not> ride_clash row x"
    have m: "ride_move r row" by (rule core_move) (use c in \<open>simp add: core_def\<close>)
    have row: "rd_id row = i" "rd_supplements_total row = accepted_supplements_total i db1"
      using c t id by (simp_all add: core_def)
    have I': "apart (rides db)" "\<forall>x \<in> set (rides db). row_ok db x" using I by (simp_all add: ride_inv_def)
    have "compatible row x" if "x \<in> set (rides db)" "rd_id x \<noteq> i" for x
    proof (rule move_compatible [OF m])
      show "compatible r x" using I'(1) mem that unfolding apart_def by metis
      show "\<not> ride_clash row x" using n that id by (simp add: db1)
    qed
    then have ap: "apart (put_row rd_id i row (rides db))"
      by (intro apart_put_row I' row) simp_all
    have "row_ok db r" using I'(2) mem by blast
    then have okr: "row_ok (db1\<lparr>rides := rs\<rparr>) row" for rs
      using mem row move_settled [OF m] by (simp add: row_ok_def db1 accepted_supplements_total_def)
    have okx: "row_ok (db1\<lparr>rides := rs\<rparr>) x" if "row_ok db x" "rd_id x \<noteq> i" for rs x
      using that other [OF that(2)] by (simp add: row_ok_def db1 accepted_supplements_total_def)
    have "row_ok (db1\<lparr>rides := put_row rd_id i row (rides db)\<rparr>) x" if "x \<in> set (put_row rd_id i row (rides db))" for x
      using set_put_rowD [OF that] okr okx I'(2) by blast
    moreover have "map su_id (supplements db1) = map su_id (supplements db)"
      using s2 by (simp add: db1 map_put_row s'_def)
    moreover have "su_ride_id x < next_ride_id db1 \<and> su_id x < next_ride_id db1" if "x \<in> set (supplements db1)" for x
    proof -
      have "x = s' \<or> x \<in> set (supplements db)" using that set_put_row by (fastforce simp: db1)
      then show ?thesis using I s2 by (auto simp: ride_inv_def db1 s'_def)
    qed
    ultimately have "ride_inv (db1\<lparr>rides := put_row rd_id i row (rides db)\<rparr>)"
      using I ap row(1) by (simp add: ride_inv_def map_put_row)
    then show "ride_inv (db1\<lparr>rides := put_row rd_id (rd_id ?r') row (rides db1)\<rparr>)" using id by (simp add: db1)
  qed
qed

interpretation inv_guard: ride_guard ride_inv
proof
  fix db db' :: ride_db
  show "ride_inv db \<Longrightarrow> rides db' = rides db \<Longrightarrow> supplements db' = supplements db \<Longrightarrow>
      next_ride_id db \<le> next_ride_id db' \<Longrightarrow> ride_inv db'"
    by (rule ride_inv_frame)
qed (fact inv_save inv_request inv_supplement inv_decide)+

lemma reachable_inv: "ride_reachable db \<Longrightarrow> ride_inv db"
  unfolding ride_reachable_def using inv_guard.later_keeps ride_inv_empty by blast

lemma reachable_later: "ride_reachable db \<Longrightarrow> ride_later db db' \<Longrightarrow> ride_reachable db'"
  unfolding ride_reachable_def by (rule rtranclp_trans)

section \<open>What a ride keeps along all requests\<close>

text \<open>
  \<open>traced i P\<close>: in a state of the invariant, ride \<open>i\<close> exists and satisfies \<open>P\<close>. A predicate on rows
  that the moves keep gives one that the requests keep.
\<close>

definition traced :: "uuid \<Rightarrow> (ride \<Rightarrow> bool) \<Rightarrow> ride_db \<Rightarrow> bool" where
  "traced i P db \<longleftrightarrow> ride_inv db \<and> (\<exists>r. find_ride i db = Some r \<and> P r)"

lemma find_after_put:
  assumes "find_ride j db = Some old" and "rd_id row = j"
  shows "find_ride i (db\<lparr>rides := put_row rd_id j row (rides db)\<rparr>)
    = (if i = j then Some row else find_ride i db)"
  using assms by (auto simp: find_ride_def get_put_same get_put_other)

lemma traced_save_row:
  assumes i: "find_ride i db = Some r" "P r" and j: "find_ride j db = Some r2" "rd_id r2' = j"
    and c: "\<And>row. core row = core r2' \<Longrightarrow> P r2 \<Longrightarrow> P row"
  shows "okR (\<lambda>db'. \<exists>r. find_ride i db' = Some r \<and> P r) (save_ride now r2' db)"
proof (rule okR_save_ride)
  show "find_ride (rd_id r2') db = Some r2" using j by simp
  fix row assume r: "core row = core r2'"
  then have id: "rd_id row = j" using j(2) by (simp add: core_def)
  show "\<exists>r. find_ride i (db\<lparr>rides := put_row rd_id (rd_id r2') row (rides db)\<rparr>) = Some r \<and> P r"
  proof (cases "i = j")
    case True
    with i(1) j(1) have "r2 = r" by simp
    with c [OF r] i(2) have "P row" by simp
    with True show ?thesis by (simp add: j(2) find_after_put [OF j(1) id])
  next
    case False
    with i show ?thesis by (simp add: j(2) find_after_put [OF j(1) id])
  qed
qed

lemma okR_and: "okR P m \<Longrightarrow> okR Q m \<Longrightarrow> okR (\<lambda>x. P x \<and> Q x) m"
  by (simp add: okR_iff)

locale ride_property =
  fixes P :: "ride \<Rightarrow> bool"
  assumes closed: "P r \<Longrightarrow> ride_move r r' \<Longrightarrow> P r'"
begin

lemma traced_save:
  assumes t: "traced i P db" and f: "find_ride j db = Some r" and g: "good_move r r'"
  shows "okR (traced i P) (save_ride now r' db)"
proof -
  from t obtain r0 where r0: "find_ride i db = Some r0" "P r0" and I: "ride_inv db"
    unfolding traced_def by blast
  have j: "rd_id r' = j" using find_ride_mem [OF f] g by (simp add: good_move_def)
  have m: "ride_move r r'" using g by (simp add: good_move_def)
  have "okR (\<lambda>db'. ride_inv db' \<and> (\<exists>r. find_ride i db' = Some r \<and> P r)) (save_ride now r' db)"
    by (intro okR_and inv_save [OF I f g] traced_save_row [where P = P, OF r0 f j])
      (rule closed, assumption, rule move_cong [OF _ m], assumption)
  then show ?thesis unfolding traced_def .
qed

lemma traced_request:
  assumes t: "traced i P db" and a: "\<not> has_active_ride (rd_passenger_user_id r) db"
    and n: "rd_id r = next_ride_id db" "rd_status r = REQUESTED" "rd_supplements_total r = 0"
  shows "okR (traced i P) (save_ride now r (db\<lparr>next_ride_id := Suc (next_ride_id db)\<rparr>))"
proof -
  from t obtain r0 where r0: "find_ride i db = Some r0" "P r0" and I: "ride_inv db"
    unfolding traced_def by blast
  have fresh: "rd_id r \<notin> rd_id ` set (rides (db\<lparr>next_ride_id := Suc (next_ride_id db)\<rparr>))"
    using I n(1) by (auto simp: ride_inv_def row_ok_def)
  have "okR (\<lambda>db'. \<exists>r. find_ride i db' = Some r \<and> P r)
      (save_ride now r (db\<lparr>next_ride_id := Suc (next_ride_id db)\<rparr>))"
    by (rule okR_save_new [OF fresh]) (use r0 in \<open>simp add: find_ride_def get_row_append\<close>)
  with inv_request [OF I a n, of now]
  have "okR (\<lambda>db'. ride_inv db' \<and> (\<exists>r. find_ride i db' = Some r \<and> P r))
      (save_ride now r (db\<lparr>next_ride_id := Suc (next_ride_id db)\<rparr>))"
    by (rule okR_and)
  then show ?thesis unfolding traced_def .
qed

lemma traced_supplement:
  assumes t: "traced i P db" and f: "find_ride (su_ride_id s) db = Some r" "su_status s = ''pending''"
    "su_id s = next_ride_id db"
  shows "okR (traced i P) (insert_supplement s (db\<lparr>next_ride_id := Suc (next_ride_id db)\<rparr>))"
proof -
  have "okR (\<lambda>db'. rides db' = rides db) (insert_supplement s (db\<lparr>next_ride_id := Suc (next_ride_id db)\<rparr>))"
    by (auto simp: insert_supplement_def okR_iff bindR_eq_Inr)
  moreover from t obtain r0 where r0: "find_ride i db = Some r0" "P r0" and I: "ride_inv db"
    unfolding traced_def by blast
  ultimately have "okR (\<lambda>db'. rides db' = rides db \<and> ride_inv db')
      (insert_supplement s (db\<lparr>next_ride_id := Suc (next_ride_id db)\<rparr>))"
    by (intro okR_and inv_supplement [OF I f])
  then show ?thesis
    by (rule okR_mono) (use r0 in \<open>simp add: traced_def find_ride_def\<close>)
qed

lemma traced_decide:
  assumes t: "traced i P db" and f: "find_ride j db = Some r"
    and s: "find_supplement_for_update j sid db = Some s"
    and w: "save_supplement (s\<lparr>su_status := decision, su_decided_by_user_id := u, su_decided_at := t'\<rparr>) db = Inr db1"
  shows "okR (traced i P) (save_ride now (r\<lparr>rd_supplements_total := accepted_supplements_total j db1\<rparr>) db1)"
proof -
  let ?r' = "r\<lparr>rd_supplements_total := accepted_supplements_total j db1\<rparr>"
  from t obtain r0 where r0: "find_ride i db = Some r0" "P r0" and I: "ride_inv db"
    unfolding traced_def by blast
  have rs: "rides db1 = rides db" using w by (auto simp: save_supplement_def split: option.splits if_splits)
  then have f1: "find_ride k db1 = find_ride k db" for k by (simp add: find_ride_def)
  have "okR (\<lambda>db'. ride_inv db' \<and> (\<exists>r. find_ride i db' = Some r \<and> P r)) (save_ride now ?r' db1)"
  proof (intro okR_and inv_decide [OF I f s w] traced_save_row)
    show "find_ride i db1 = Some r0" "P r0" "find_ride j db1 = Some r" using r0 f by (simp_all add: f1)
    show "rd_id ?r' = j" using find_ride_mem [OF f] by simp
    show "P row" if "core row = core ?r'" "P r" for row
      by (rule closed [OF that(2) core_move]) (use that(1) in \<open>simp add: core_def\<close>)
  qed
  then show ?thesis unfolding traced_def .
qed

lemma traced_frame:
  "traced i P db \<Longrightarrow> rides db' = rides db \<Longrightarrow> supplements db' = supplements db \<Longrightarrow>
    next_ride_id db \<le> next_ride_id db' \<Longrightarrow> traced i P db'"
  unfolding traced_def find_ride_def using ride_inv_frame by metis

end

sublocale ride_property \<subseteq> kept_by: ride_guard "traced i P" for i
  by unfold_locales (fact traced_save traced_frame traced_request traced_supplement traced_decide)+

context ride_property
begin

lemma lasts:
  assumes "ride_reachable db" and "find_ride i db = Some r" and "P r" and "ride_later db db'"
  shows "\<exists>r'. find_ride i db' = Some r' \<and> P r'"
proof -
  have "traced i P db" using assms(2,3) reachable_inv [OF assms(1)] unfolding traced_def by blast
  then have "traced i P db'" by (rule kept_by.later_keeps [OF assms(4)])
  then show ?thesis unfolding traced_def by blast
qed

end

text \<open>
  An ended ride keeps its outcome; a ride keeps its passenger, quote and payment method and only
  moves along its life cycle; a driver who took a ride keeps it; a wait that nothing started can
  only be cancelled.
\<close>

interpretation ended: ride_property "\<lambda>r. \<not> is_active r \<and> outcome r = out" for out
proof
  fix r r' assume r: "\<not> is_active r \<and> outcome r = out" and m: "ride_move r r'"
  then have o: "outcome r' = outcome r" by (blast intro: move_ended)
  then have "rd_status r' = rd_status r" by (simp add: outcome_def)
  with o r show "\<not> is_active r' \<and> outcome r' = out" by (simp add: is_active_def)
qed

interpretation onwards: ride_property
  "\<lambda>r. same_ride r0 r \<and> ride_life.reaches (rd_status r0) (rd_status r)" for r0
proof
  fix r r' assume r: "same_ride r0 r \<and> ride_life.reaches (rd_status r0) (rd_status r)" and m: "ride_move r r'"
  from m have "same_ride r r'" "ride_life.reaches (rd_status r) (rd_status r')" by (simp_all add: ride_move_def)
  with r show "same_ride r0 r' \<and> ride_life.reaches (rd_status r0) (rd_status r')"
    by (blast intro: same_ride_trans rtranclp_trans)
qed

interpretation stranded: ride_property
  "\<lambda>r. unstarted_wait r \<or> rd_status r \<in> {CANCELLED_BY_PASSENGER, CANCELLED_BY_DRIVER}"
proof
  fix r r' assume r: "unstarted_wait r \<or> rd_status r \<in> {CANCELLED_BY_PASSENGER, CANCELLED_BY_DRIVER}"
    and m: "ride_move r r'"
  show "unstarted_wait r' \<or> rd_status r' \<in> {CANCELLED_BY_PASSENGER, CANCELLED_BY_DRIVER}"
  proof (cases "unstarted_wait r")
    case False
    with r have c: "rd_status r \<in> {CANCELLED_BY_PASSENGER, CANCELLED_BY_DRIVER}" by blast
    then have "\<not> is_active r" by (auto simp: is_active_def is_active_status_def)
    from move_ended [OF m this] c show ?thesis by (auto simp: outcome_def)
  qed (use m in \<open>simp add: ride_move_def\<close>)
qed

lemma reaches_requested: "ride_life.reaches s REQUESTED \<Longrightarrow> s = REQUESTED"
  using ride_life.reaches_rank [of s REQUESTED] by (cases s) simp_all

interpretation hired: ride_property "\<lambda>r. rd_driver_id r = Some d \<and> rd_status r \<noteq> REQUESTED" for d
proof
  fix r r' assume r: "rd_driver_id r = Some d \<and> rd_status r \<noteq> REQUESTED" and m: "ride_move r r'"
  from m r have "rd_driver_id r' = Some d" "ride_life.reaches (rd_status r) (rd_status r')"
    by (auto simp: ride_move_def)
  with r reaches_requested show "rd_driver_id r' = Some d \<and> rd_status r' \<noteq> REQUESTED" by metis
qed

end
