(* ===== verification/Ride_Trip.thy ===== *)
theory Ride_Trip
  imports Ride_Requests
begin

text \<open>
  One concrete trip, from the request to the completion, run through the handlers themselves: the
  states on which the properties of the next theory are exercised. Ride 10 of passenger 7 on quote
  4, taken by driver 2 (user 8), 1500 XOF, commission 20 percent.
\<close>

section \<open>The surroundings\<close>

definition trip_point :: "rat \<Rightarrow> geo_point" where "trip_point x = \<lparr>lat = x, lng = x\<rparr>"

definition trip_config :: dispatch_config where
  "trip_config = \<lparr>dc_search_radius_km = 3, dc_search_radius_step_km = 2, dc_search_radius_max_km = 10,
     dc_offer_wave_size = 2, dc_search_budget_seconds = 300, dc_eta_shortlist_size = 4,
     dc_priority_window_days = 7, dc_priority_cap_seconds = 120, dc_priority_seconds_per_point = 10,
     dc_points_ride_completed = 2, dc_points_ride_cancelled_by_driver = - 5\<rparr>"

definition trip_env :: ride_env where
  "trip_env = \<lparr>re_estimate = (\<lambda>_ _. Inr (5, 600)), re_start_trace = (\<lambda>_ _ _ _ _. Inr ''trace''),
     re_append_trace = (\<lambda>_ _. Inr ()), re_finish_trace = (\<lambda>_ _. Inr ()),
     re_analyze_trace = (\<lambda>_. Inl (ApiError 503 ''DIDDIMAP_UNAVAILABLE'')),
     re_distance_meters = (\<lambda>p q. \<bar>lat p - lat q\<bar> * 1000), re_hmac_sha256 = (\<lambda>_ _. [1, 2, 3, 4, 5, 6, 7, 8]),
     re_sha256_hex = (\<lambda>s. s), re_samples_hash = (\<lambda>_. ''hash''), re_notify = (\<lambda>_ _ _ _ _. []),
     re_user = (\<lambda>_. None), re_photo_url = (\<lambda>_. None), re_share_token = ''token'',
     re_dispatch = trip_config, re_commission_rate = 1 / 5, re_tariff_version = ''v1'', re_quote_ttl = 600,
     re_arrival_max_meters = 200, re_start_code_secret = ''secret'', re_start_code_max_attempts = 2,
     re_wait_free_seconds = 180, re_wait_price = 50, re_no_show_seconds = 600, re_waiting_price = 50,
     re_speed_threshold = 5, re_emergency_rate_limit = 30, re_emergency_notify_once = True\<rparr>"

definition trip_quote :: ride_quote where
  "trip_quote = \<lparr>rq_id = 4, rq_passenger_user_id = 7, rq_pickup_location = trip_point 5,
     rq_dropoff_location = trip_point 6, rq_vehicle_category = VC_STANDARD, rq_comfort_level = CL_STANDARD,
     rq_estimated_fare = 1500, rq_distance_km = 5, rq_duration_seconds = 600, rq_base_fare = 250,
     rq_distance_fare = 1200, rq_duration_fare = 0, rq_surge_multiplier = 1, rq_surge_cap = 8 / 5,
     rq_commission_rate = 1 / 5, rq_platform_commission = 300, rq_driver_payout_estimate = 1200,
     rq_tariff_version = ''v1'', rq_expires_at = 600000000, rq_pickup_address = None,
     rq_dropoff_address = None, rq_consumed_at = None, rq_ride_id = None, rq_created_at = 0\<rparr>"

definition trip_driver :: driver_profile where
  "trip_driver = (new_driver_profile 2 8 ''L1'')\<lparr>dp_status := DR_ACTIVE, dp_kyc_status := KYC_APPROVED\<rparr>"

definition trip_vehicle :: vehicle where
  "trip_vehicle = (new_vehicle 3 2 ''AB1'')\<lparr>ve_verification_status := VV_ACTIVE\<rparr>"

definition trip_fleet :: ride_db where
  "trip_fleet = empty_ride_db\<lparr>ride_quotes := [trip_quote], profiles := [trip_driver],
     vehicles := [trip_vehicle], next_ride_id := 10\<rparr>"

definition trip_asked :: ride_db where
  "trip_asked = snd (transact trip_fleet (request_ride 7 False 4 ''cash'' None 0 trip_fleet))"

definition trip_world :: matching where
  "trip_world = \<lparr>mt_rides = trip_asked, mt_pay = empty_pay_db,
     mt_offers = open_offers 1 10 [8] no_offers, mt_locations = no_drivers\<rparr>"

definition trip_matched :: ride_db where
  "trip_matched = mt_rides (snd (accept 10 8 2 trip_world))"

definition trip_coming :: ride_db where
  "trip_coming = snd (transact trip_matched (update_status trip_env 10 DRIVER_EN_ROUTE 8 ''driver'' 3 trip_matched))"

definition trip_there :: ride_db where
  "trip_there = snd (transact trip_coming (mark_arrived trip_env 10 8 ''driver'' (Some (trip_point 5)) 4 trip_coming))"

definition trip_going :: ride_db where
  "trip_going = snd (start_ride_with_code trip_env 10 8 ''driver'' (ride_start_code trip_env 10) 5 trip_there)"

definition trip_done :: ride_db where
  "trip_done = snd (transact trip_going (update_status trip_env 10 COMPLETED 8 ''driver'' 6 trip_going))"

definition trip_ride :: ride where
  "trip_ride = ride_of_quote 10 7 False trip_quote CASH None 0"

lemma trip_ride_fields [simp]:
  "rd_id trip_ride = 10" "rd_status trip_ride = REQUESTED" "rd_passenger_user_id trip_ride = 7"
  "rd_driver_id trip_ride = None" "rd_quote_id trip_ride = Some 4" "rd_share_token trip_ride = None"
  "rd_pickup_location trip_ride = Some (trip_point 5)" "rd_dropoff_location trip_ride = Some (trip_point 6)"
  "rd_requested_at trip_ride = Some 0" "rd_status_history trip_ride = []" "rd_payment_method trip_ride = CASH"
  "rd_final_fare trip_ride = None" "rd_estimated_fare trip_ride = Some 1500" "rd_commission_rate trip_ride = 1 / 5"
  "rd_waiting_started_at trip_ride = None" "rd_supplements_total trip_ride = 0" "rd_waiting_fee trip_ride = 0"
  "rd_pre_ride_wait_fee trip_ride = 0" "rd_is_review_account trip_ride = False"
  "rd_start_code_used_at trip_ride = None" "rd_start_code_blocked_at trip_ride = None"
  "rd_start_code_attempts trip_ride = 0" "rd_start_code_hash trip_ride = None" "rd_map_trace_id trip_ride = None"
  "rd_pre_ride_wait_started_at trip_ride = None" "rd_completion_reason trip_ride = None"
  "rd_completed_at trip_ride = None" "rd_matched_at trip_ride = None" "rd_arrived_at trip_ride = None" "rd_started_at trip_ride = None"
  by (simp_all add: trip_ride_def ride_of_quote_def new_ride_def trip_quote_def)

lemma trip_row [simp]: "ride_row 0 None trip_ride = trip_ride"
  by (simp add: ride_row_def trip_ride_def ride_of_quote_def new_ride_def)

lemma trip_quote_fields [simp]:
  "rq_id trip_quote = 4" "rq_passenger_user_id trip_quote = 7" "rq_consumed_at trip_quote = None"
  "rq_expires_at trip_quote = 600000000" "rq_ride_id trip_quote = None"
  by (simp_all add: trip_quote_def)

lemma trip_fleet_fields [simp]:
  "rides trip_fleet = []" "ride_quotes trip_fleet = [trip_quote]" "next_ride_id trip_fleet = 10"
  "profiles trip_fleet = [trip_driver]" "vehicles trip_fleet = [trip_vehicle]" "supplements trip_fleet = []"
  "history trip_fleet = []" "priority_events trip_fleet = []" "route_points trip_fleet = []"
  "ratings trip_fleet = []"
  by (simp_all add: trip_fleet_def empty_ride_db_def)

lemma trip_asked_value: "trip_asked = trip_fleet\<lparr>rides := [trip_ride],
     ride_quotes := [trip_quote\<lparr>rq_ride_id := Some 10, rq_consumed_at := Some 0\<rparr>], next_ride_id := 11\<rparr>"
  by (simp add: trip_asked_def request_ride_def ride_payment_method_of_def find_ride_quote_def
      has_active_ride_def fresh_id_def save_ride_def trip_ride_def [symmetric] Let_def insert_row_def
      consume_ride_quote_def update_row_def record_history_def)

lemma moved_to_rest [simp]:
  "rd_pickup_location (moved_to s now m r) = rd_pickup_location r"
  "rd_dropoff_location (moved_to s now m r) = rd_dropoff_location r"
  "rd_requested_at (moved_to s now m r) = rd_requested_at r"
  "rd_share_token (moved_to s now m r) = rd_share_token r"
  "rd_quote_id (moved_to s now m r) = rd_quote_id r"
  "rd_estimated_fare (moved_to s now m r) = rd_estimated_fare r"
  "rd_commission_rate (moved_to s now m r) = rd_commission_rate r"
  "rd_payment_method (moved_to s now m r) = rd_payment_method r"
  "rd_start_code_hash (moved_to s now m r) = rd_start_code_hash r"
  "rd_start_code_used_at (moved_to s now m r) = rd_start_code_used_at r"
  "rd_start_code_blocked_at (moved_to s now m r) = rd_start_code_blocked_at r"
  "rd_start_code_attempts (moved_to s now m r) = rd_start_code_attempts r"
  "rd_map_trace_id (moved_to s now m r) = rd_map_trace_id r"
  "rd_supplements_total (moved_to s now m r) = rd_supplements_total r"
  "rd_waiting_fee (moved_to s now m r) = rd_waiting_fee r"
  "rd_pre_ride_wait_fee (moved_to s now m r) = rd_pre_ride_wait_fee r"
  "rd_waiting_started_at (moved_to s now m r) = rd_waiting_started_at r"
  "rd_pre_ride_wait_started_at (moved_to s now m r) = rd_pre_ride_wait_started_at r"
  "rd_completion_reason (moved_to s now m r) = rd_completion_reason r"
  "rd_waiting_rate_per_minute (moved_to s now m r) = rd_waiting_rate_per_minute r"
  "rd_platform_commission (moved_to s now m r) = rd_platform_commission r"
  "rd_driver_payout_estimate (moved_to s now m r) = rd_driver_payout_estimate r"
  "rd_early_stop_requested_at (moved_to s now m r) = rd_early_stop_requested_at r"
  "rd_early_stop_expires_at (moved_to s now m r) = rd_early_stop_expires_at r"
  "rd_currency (moved_to s now m r) = rd_currency r"
  "rd_base_fare (moved_to s now m r) = rd_base_fare r"
  by (simp_all add: moved_to_def)

lemma ride_row_rest [simp]:
  "rd_estimated_fare (ride_row now old r) = rd_estimated_fare r"
  "rd_commission_rate (ride_row now old r) = rd_commission_rate r"
  "rd_payment_method (ride_row now old r) = rd_payment_method r"
  "rd_map_trace_id (ride_row now old r) = rd_map_trace_id r"
  "rd_waiting_fee (ride_row now old r) = rd_waiting_fee r"
  "rd_pre_ride_wait_fee (ride_row now old r) = rd_pre_ride_wait_fee r"
  "rd_waiting_started_at (ride_row now old r) = rd_waiting_started_at r"
  "rd_pre_ride_wait_started_at (ride_row now old r) = rd_pre_ride_wait_started_at r"
  "rd_completion_reason (ride_row now old r) = rd_completion_reason r"
  "rd_waiting_rate_per_minute (ride_row now old r) = rd_waiting_rate_per_minute r"
  "rd_platform_commission (ride_row now old r) = rd_platform_commission r"
  "rd_driver_payout_estimate (ride_row now old r) = rd_driver_payout_estimate r"
  "rd_early_stop_requested_at (ride_row now old r) = rd_early_stop_requested_at r"
  "rd_early_stop_expires_at (ride_row now old r) = rd_early_stop_expires_at r"
  "rd_currency (ride_row now old r) = rd_currency r"
  "rd_base_fare (ride_row now old r) = rd_base_fare r"
  "rd_completed_at (ride_row now old r) = rd_completed_at r" "rd_started_at (ride_row now old r) = rd_started_at r"
  "rd_matched_at (ride_row now old r) = rd_matched_at r" "rd_arrived_at (ride_row now old r) = rd_arrived_at r"
  by (simp_all add: ride_row_def)

lemma ride_row_points [simp]:
  "rd_pickup_location r = Some p \<Longrightarrow> rd_pickup_location (ride_row now old r) = Some p"
  "rd_dropoff_location r = Some q \<Longrightarrow> rd_dropoff_location (ride_row now old r) = Some q"
  by (simp_all add: ride_row_def)

definition trip_state :: "ride \<Rightarrow> status_transition list \<Rightarrow> priority_event list \<Rightarrow> ride_db" where
  "trip_state r h es = trip_fleet\<lparr>rides := [r], history := h,
     ride_quotes := [trip_quote\<lparr>rq_ride_id := Some 10, rq_consumed_at := Some 0\<rparr>],
     priority_events := es, next_ride_id := 11\<rparr>"

lemma trip_state_fields [simp]:
  "rides (trip_state r h es) = [r]" "history (trip_state r h es) = h" "priority_events (trip_state r h es) = es"
  "profiles (trip_state r h es) = [trip_driver]" "vehicles (trip_state r h es) = [trip_vehicle]"
  "supplements (trip_state r h es) = []" "route_points (trip_state r h es) = []"
  "ratings (trip_state r h es) = []" "next_ride_id (trip_state r h es) = 11"
  by (simp_all add: trip_state_def)

lemma trip_asked_state: "trip_asked = trip_state trip_ride [] []"
  by (simp add: trip_asked_value trip_state_def trip_fleet_def empty_ride_db_def)

lemma trip_find [simp]: "rd_id r = 10 \<Longrightarrow> find_ride 10 (trip_state r h es) = Some r"
  by (simp add: find_ride_def)

lemma trip_save [simp]:
  assumes "rd_id r = 10" "rd_id r' = 10" "rd_pickup_location r' \<noteq> None" "rd_dropoff_location r' \<noteq> None"
  shows "save_ride now r' (trip_state r h es) = Inr (trip_state (ride_row now None r') h es)"
proof -
  have "ride_row now (Some r) r' = ride_row now None r'"
    using assms(3,4) by (auto simp: ride_row_def)
  moreover have "rd_pickup_location (ride_row now None r') \<noteq> None" "rd_dropoff_location (ride_row now None r') \<noteq> None"
    using assms(3,4) by (auto simp: ride_row_def)
  ultimately show ?thesis
    using assms(1,2) by (simp add: save_ride_def update_row_def trip_state_def Let_def)
qed

lemma trip_record [simp]: "record_status_transition t (trip_state r h es) = trip_state r (h @ [t]) es"
  by (simp add: record_status_transition_def trip_state_def trip_fleet_def empty_ride_db_def)

lemma trip_history [simp]: "record_history r' (trip_state r h es) = trip_state r (h @ rd_status_history r') es"
proof -
  have "fold record_status_transition ts (trip_state r h es) = trip_state r (h @ ts) es" for ts
    by (induction ts arbitrary: h) simp_all
  then show ?thesis by (simp add: record_history_def)
qed

lemma trip_driver_user [simp]: "find_profile_by_user 8 (trip_state r h es) = Some trip_driver"
  by (simp add: find_profile_by_user_def trip_driver_def new_driver_profile_def)

lemma trip_driver_of [simp]: "rd_driver_id r = Some 2 \<Longrightarrow> is_assigned_driver r 8 (trip_state r' h es)"
  by (simp add: is_assigned_driver_def driver_profile_id_for_user_def) (simp add: trip_driver_def new_driver_profile_def)

lemma trip_driver_ride [simp]:
  "rd_id r = 10 \<Longrightarrow> rd_driver_id r = Some 2 \<Longrightarrow> driver_ride 10 8 ''driver'' (trip_state r h es) = Inr r"
  by (simp add: driver_ride_def load_ride_def)

definition trip_ride1 :: ride where
  "trip_ride1 = ride_row 2 None (moved_to MATCHED 2 None
     (trip_ride\<lparr>rd_driver_id := Some 2, rd_vehicle_id := Some 3\<rparr>))"

lemma trip_ride1_fields [simp]:
  "rd_id trip_ride1 = 10" "rd_status trip_ride1 = MATCHED" "rd_driver_id trip_ride1 = Some 2"
  "rd_passenger_user_id trip_ride1 = 7" "rd_pickup_location trip_ride1 = Some (trip_point 5)"
  "rd_dropoff_location trip_ride1 = Some (trip_point 6)" "rd_status_history trip_ride1 = []"
  "rd_start_code_hash trip_ride1 = None" "rd_start_code_used_at trip_ride1 = None"
  "rd_start_code_blocked_at trip_ride1 = None" "rd_start_code_attempts trip_ride1 = 0"
  "rd_pre_ride_wait_started_at trip_ride1 = None" "rd_map_trace_id trip_ride1 = None"
  "rd_completed_at trip_ride1 = None" "rd_final_fare trip_ride1 = None" "rd_estimated_fare trip_ride1 = Some 1500"
  "rd_commission_rate trip_ride1 = 1 / 5" "rd_supplements_total trip_ride1 = 0"
  "rd_waiting_fee trip_ride1 = 0" "rd_pre_ride_wait_fee trip_ride1 = 0" "rd_completion_reason trip_ride1 = None"
  "rd_waiting_started_at trip_ride1 = None" "rd_payment_method trip_ride1 = CASH"
  by (simp_all add: trip_ride1_def ride_row_def moved_to_def first_visit_def)

definition trip_hops :: "status_transition list" where
  "trip_hops = map (\<lambda>(a, b, t, m). \<lparr>st_ride_id = 10, st_from_status = a, st_to_status = b,
     st_changed_at = t, st_metadata = m\<rparr>) [(REQUESTED, MATCHED, 2, None), (MATCHED, DRIVER_EN_ROUTE, 3, None),
     (DRIVER_EN_ROUTE, ARRIVED, 4, Some [(''distance_meters'', MReal 0)]),
     (ARRIVED, IN_PROGRESS, 5, Some [(''start_code_verified'', MBool True)]),
     (IN_PROGRESS, COMPLETED, 6, None)]"

lemma trip_matched_state: "trip_matched = trip_state trip_ride1 (take 1 trip_hops) []"
  by (simp add: trip_matched_def accept_def load_active_ride_def trip_world_def trip_asked_state
      current_offers_def open_offers_def no_offers_def find_active_vehicle_def trip_vehicle_def new_vehicle_def
      claim_def assign_driver_def transition_def trip_ride1_def seconds_def OFFER_TTL_SECONDS_def Let_def
      trip_hops_def)
   (simp add: trip_driver_def new_driver_profile_def)

definition trip_ride2 :: ride where
  "trip_ride2 = ride_row 3 None (moved_to DRIVER_EN_ROUTE 3 None trip_ride1)"

lemma trip_ride2_fields [simp]:
  "rd_id trip_ride2 = 10" "rd_status trip_ride2 = DRIVER_EN_ROUTE" "rd_driver_id trip_ride2 = Some 2"
  "rd_passenger_user_id trip_ride2 = 7" "rd_pickup_location trip_ride2 = Some (trip_point 5)"
  "rd_dropoff_location trip_ride2 = Some (trip_point 6)" "rd_status_history trip_ride2 = []"
  "rd_start_code_hash trip_ride2 = None" "rd_start_code_used_at trip_ride2 = None"
  "rd_start_code_blocked_at trip_ride2 = None" "rd_start_code_attempts trip_ride2 = 0"
  "rd_pre_ride_wait_started_at trip_ride2 = None" "rd_map_trace_id trip_ride2 = None"
  "rd_completed_at trip_ride2 = None" "rd_final_fare trip_ride2 = None" "rd_estimated_fare trip_ride2 = Some 1500"
  "rd_commission_rate trip_ride2 = 1 / 5" "rd_supplements_total trip_ride2 = 0"
  "rd_waiting_fee trip_ride2 = 0" "rd_pre_ride_wait_fee trip_ride2 = 0" "rd_completion_reason trip_ride2 = None"
  "rd_waiting_started_at trip_ride2 = None" "rd_payment_method trip_ride2 = CASH"
  by (simp_all add: trip_ride2_def ride_row_def moved_to_def first_visit_def)

lemma trip_coming_state: "trip_coming = trip_state trip_ride2 (take 2 trip_hops) []"
  by (simp add: trip_coming_def trip_matched_state update_status_def wait_ended_first_def finish_status_def
      api_transition_def transition_def trip_ride2_def record_priority_outcome_def record_ride_outcome_def
      trip_hops_def)

lemma trip_priority [simp]: "record_priority_outcome trip_env r' now (trip_state r h es)
    = trip_state r h (record_ride_outcome trip_config r' now es)"
  by (simp add: record_priority_outcome_def trip_state_def trip_env_def)

lemma trip_env_fields [simp]:
  "re_distance_meters trip_env p q = \<bar>lat p - lat q\<bar> * 1000" "re_arrival_max_meters trip_env = 200"
  "re_wait_price trip_env = 50" "re_wait_free_seconds trip_env = 180" "re_start_code_max_attempts trip_env = 2"
  "re_start_trace trip_env a b c d e = Inr ''trace''" "re_dispatch trip_env = trip_config"
  "re_commission_rate trip_env = 1 / 5" "re_waiting_price trip_env = 50"
  by (simp_all add: trip_env_def)

definition trip_code :: string where
  "trip_code = hash_start_code trip_env 10 (ride_start_code trip_env 10)"

definition trip_ride3 :: ride where
  "trip_ride3 = ride_row 4 None (moved_to ARRIVED 4 (Some [(''distance_meters'', MReal 0)])
     (trip_ride2\<lparr>rd_start_code_hash := Some trip_code, rd_pre_ride_wait_started_at := Some 4\<rparr>))"

lemma trip_ride3_fields [simp]:
  "rd_id trip_ride3 = 10" "rd_status trip_ride3 = ARRIVED" "rd_driver_id trip_ride3 = Some 2"
  "rd_passenger_user_id trip_ride3 = 7" "rd_pickup_location trip_ride3 = Some (trip_point 5)"
  "rd_dropoff_location trip_ride3 = Some (trip_point 6)" "rd_status_history trip_ride3 = []"
  "rd_start_code_hash trip_ride3 = Some trip_code" "rd_start_code_used_at trip_ride3 = None"
  "rd_start_code_blocked_at trip_ride3 = None" "rd_start_code_attempts trip_ride3 = 0"
  "rd_pre_ride_wait_started_at trip_ride3 = Some 4" "rd_map_trace_id trip_ride3 = None"
  "rd_completed_at trip_ride3 = None" "rd_final_fare trip_ride3 = None" "rd_estimated_fare trip_ride3 = Some 1500"
  "rd_commission_rate trip_ride3 = 1 / 5" "rd_supplements_total trip_ride3 = 0"
  "rd_waiting_fee trip_ride3 = 0" "rd_pre_ride_wait_fee trip_ride3 = 0" "rd_completion_reason trip_ride3 = None"
  "rd_waiting_started_at trip_ride3 = None" "rd_payment_method trip_ride3 = CASH"
  by (simp_all add: trip_ride3_def ride_row_def moved_to_def first_visit_def)

lemma trip_there_state: "trip_there = trip_state trip_ride3 (take 3 trip_hops) []"
  by (simp add: trip_there_def trip_coming_state mark_arrived_def trip_ride3_def transition_def record_last_def
      trip_hops_def trip_code_def)
   (simp add: tenths_def round_half_even_def)

definition trip_ride4 :: ride where
  "trip_ride4 = ride_row 5 None ((moved_to IN_PROGRESS 5 (Some [(''start_code_verified'', MBool True)])
     (trip_ride3\<lparr>rd_pre_ride_wait_seconds := 0, rd_pre_ride_wait_fee := 0, rd_start_code_used_at := Some 5\<rparr>))
       \<lparr>rd_map_trace_id := Some ''trace''\<rparr>)"

lemma trip_ride4_fields [simp]:
  "rd_id trip_ride4 = 10" "rd_status trip_ride4 = IN_PROGRESS" "rd_driver_id trip_ride4 = Some 2"
  "rd_passenger_user_id trip_ride4 = 7" "rd_pickup_location trip_ride4 = Some (trip_point 5)"
  "rd_dropoff_location trip_ride4 = Some (trip_point 6)" "rd_status_history trip_ride4 = []"
  "rd_start_code_hash trip_ride4 = Some trip_code" "rd_start_code_used_at trip_ride4 = Some 5"
  "rd_start_code_blocked_at trip_ride4 = None" "rd_start_code_attempts trip_ride4 = 0"
  "rd_pre_ride_wait_started_at trip_ride4 = Some 4" "rd_map_trace_id trip_ride4 = Some ''trace''"
  "rd_completed_at trip_ride4 = None" "rd_final_fare trip_ride4 = None" "rd_estimated_fare trip_ride4 = Some 1500"
  "rd_commission_rate trip_ride4 = 1 / 5" "rd_supplements_total trip_ride4 = 0"
  "rd_waiting_fee trip_ride4 = 0" "rd_pre_ride_wait_fee trip_ride4 = 0" "rd_completion_reason trip_ride4 = None"
  "rd_waiting_started_at trip_ride4 = None" "rd_payment_method trip_ride4 = CASH"
  by (simp_all add: trip_ride4_def ride_row_def moved_to_def first_visit_def)

lemma str_or_None: "str_or None x = x"
  by (simp add: str_or_def)

lemma trip_code_ok: "str_or (Some trip_code) [] = hash_start_code trip_env 10 (ride_start_code trip_env 10)"
  by (simp add: trip_code_def str_or_def hash_start_code_def trip_env_def)

lemma trip_no_fee: "pre_ride_fee 50 180 0 = 0"
  by code_simp

lemma trip_going_state: "trip_going = trip_state trip_ride4 (take 4 trip_hops) []"
  by (simp add: trip_going_def trip_there_state start_ride_with_code_def trip_code_ok start_with_valid_code_def
     started_ride_def transition_def ensure_map_trace_started_def record_last_def trip_no_fee Let_def
     int_seconds_def trip_ride4_def seconds_def str_or_None trip_hops_def)

definition trip_ride5 :: ride where
  "trip_ride5 = ride_row 6 None (completed_fare (moved_to COMPLETED 6 None
     (trip_ride4\<lparr>rd_trace_analysis_status := Some ''no_samples'', rd_trace_analysis_error_code := None\<rparr>)))"

lemma completed_fare_rest [simp]:
  "rd_id (completed_fare r) = rd_id r" "rd_status (completed_fare r) = rd_status r"
  "rd_pickup_location (completed_fare r) = rd_pickup_location r"
  "rd_dropoff_location (completed_fare r) = rd_dropoff_location r"
  "rd_status_history (completed_fare r) = rd_status_history r"
  "rd_driver_id (completed_fare r) = rd_driver_id r" "rd_payment_method (completed_fare r) = rd_payment_method r"
  "rd_passenger_user_id (completed_fare r) = rd_passenger_user_id r"
  by (simp_all add: completed_fare_def split_fare_def Let_def)

lemma trip_done_state: "trip_done = trip_state trip_ride5 trip_hops
    (record_ride_outcome trip_config trip_ride5 6 [])"
  by (simp add: trip_done_def trip_going_state update_status_def wait_ended_first_def finish_status_def
     priced_for_completion_def apply_actual_pricing_if_possible_def list_route_points_def api_transition_def
     transition_def trip_ride5_def trip_hops_def Let_def record_ride_outcome_def)

section \<open>Every state of the trip is reachable\<close>

lemma reach_fleet: "ride_reachable trip_fleet"
  unfolding ride_reachable_def
  by (rule r_into_rtranclp, rule step_other) (simp add: framed_def empty_ride_db_def)

lemma reach_step: "ride_reachable db \<Longrightarrow> ride_step db db' \<Longrightarrow> ride_reachable db'"
  using reachable_later by blast

lemma reach_asked: "ride_reachable trip_asked"
  unfolding trip_asked_def by (rule reach_step [OF reach_fleet step_request])

lemma trip_matched_step: "ride_step trip_asked trip_matched"
  using step_accept [of trip_world 10 8 2] by (simp add: trip_matched_def trip_world_def)

lemma reach_matched: "ride_reachable trip_matched"
  by (rule reach_step [OF reach_asked trip_matched_step])

lemma reach_coming: "ride_reachable trip_coming"
  unfolding trip_coming_def by (rule reach_step [OF reach_matched step_status])

lemma reach_there: "ride_reachable trip_there"
  unfolding trip_there_def by (rule reach_step [OF reach_coming step_arrived])

lemma reach_going: "ride_reachable trip_going"
  unfolding trip_going_def by (rule reach_step [OF reach_there step_start])

lemma reach_done: "ride_reachable trip_done"
  unfolding trip_done_def by (rule reach_step [OF reach_going step_status])

lemma trip_ride5_fields [simp]:
  "rd_id trip_ride5 = 10" "rd_status trip_ride5 = COMPLETED" "rd_driver_id trip_ride5 = Some 2"
  "rd_passenger_user_id trip_ride5 = 7" "rd_final_fare trip_ride5 = Some 1500"
  "rd_platform_commission trip_ride5 = Some 300" "rd_driver_payout_estimate trip_ride5 = Some 1200"
  "rd_payment_method trip_ride5 = CASH" "rd_currency trip_ride5 = ''XOF''"
proof -
  have "round_half_even (1500 * (1 / 5)) = 300" by code_simp
  then show "rd_final_fare trip_ride5 = Some 1500" "rd_platform_commission trip_ride5 = Some 300"
    "rd_driver_payout_estimate trip_ride5 = Some 1200"
    by (simp_all add: trip_ride5_def ride_row_def completed_fare_def extras_def Let_def split_fare_def
        moved_to_def first_visit_def)
qed (simp_all add: trip_ride5_def ride_row_def completed_fare_def split_fare_def Let_def moved_to_def
    trip_ride4_def trip_ride3_def trip_ride2_def trip_ride1_def trip_ride_def ride_of_quote_def new_ride_def)

end
