(* ===== verification/Ride_Properties.thy ===== *)
theory Ride_Properties
  imports Ride_Trip
begin

text \<open>
  The properties of rides, fares and positions. Those over all reachable states rest on the
  interpretations of Ride\_Requests; those of one handler follow its branches.
\<close>

section \<open>All reachable states\<close>

lemma one_step: "ride_step db db' \<Longrightarrow> ride_later db db'"
  by blast

lemma active_unique:
  assumes "apart rs" and "distinct (map rd_id rs)"
  shows "length (filter (\<lambda>r. rd_passenger_user_id r = p \<and> is_active r) rs) \<le> 1"
  using assms
proof (induction rs)
  case (Cons x xs)
  have "apart xs" using Cons.prems(1) by (auto simp: apart_def)
  with Cons have IH: "length (filter (\<lambda>r. rd_passenger_user_id r = p \<and> is_active r) xs) \<le> 1" by simp
  show ?case
  proof (cases "rd_passenger_user_id x = p \<and> is_active x")
    case True
    have "\<not> (rd_passenger_user_id y = p \<and> is_active y)" if "y \<in> set xs" for y
    proof -
      have "rd_id x \<noteq> rd_id y" using Cons.prems(2) that by auto
      with Cons.prems(1) that have "compatible x y" by (simp add: apart_def)
      with True show ?thesis by (auto simp: compatible_def)
    qed
    then have "filter (\<lambda>r. rd_passenger_user_id r = p \<and> is_active r) xs = []"
      by (simp add: filter_empty_conv)
    with True show ?thesis by simp
  qed (use IH in auto)
qed simp

text \<open>
  C9: In every state that requests can reach, a passenger has at most one ride that is not ended,
  and a driver at most one ride between the match and the end.
\<close>

theorem one_active_ride:
  assumes "ride_reachable db"
  shows "length (filter (\<lambda>r. rd_passenger_user_id r = p \<and> is_active r) (rides db)) \<le> 1
    \<and> (\<forall>x \<in> set (rides db). \<forall>y \<in> set (rides db). on_duty (rd_status x) \<and> on_duty (rd_status y)
        \<and> rd_driver_id x = Some d \<and> rd_driver_id y = Some d \<longrightarrow> rd_id x = rd_id y)"
proof -
  from reachable_inv [OF assms] have "apart (rides db)" "distinct (map rd_id (rides db))"
    by (simp_all add: ride_inv_def)
  then have one: "length (filter (\<lambda>r. rd_passenger_user_id r = p \<and> is_active r) (rides db)) \<le> 1"
    by (rule active_unique)
  have "rd_id x = rd_id y" if m: "x \<in> set (rides db)" "y \<in> set (rides db)"
    and d: "on_duty (rd_status x)" "on_duty (rd_status y)" "rd_driver_id x = Some d" "rd_driver_id y = Some d" for x y
  proof (rule ccontr)
    assume "rd_id x \<noteq> rd_id y"
    with \<open>apart (rides db)\<close> m have "\<not> ride_clash x y" by (auto simp: apart_def compatible_def)
    with d show False by (simp add: ride_clash_def some_clash_def)
  qed
  with one show ?thesis by blast
qed

theorem one_active_ride_witness:
  "length (filter (\<lambda>r. rd_passenger_user_id r = 7 \<and> is_active r) (rides trip_going)) \<le> 1
    \<and> length (filter (\<lambda>r. rd_passenger_user_id r = 7 \<and> is_active r) (rides trip_going)) = 1"
  using one_active_ride [OF reach_going, of 7 2]
  by (simp add: trip_going_state is_active_def is_active_status_def)

text \<open>
  C10: In every reachable state a completed ride has its fare split: the commission is the fare
  times its rate, rounded, the payout is the rest, and the supplements charged are exactly the
  accepted ones.
\<close>

theorem completed_is_split:
  assumes "ride_reachable db" and "r \<in> set (rides db)"
  shows "rd_supplements_total r = accepted_supplements_total (rd_id r) db
    \<and> (rd_status r = COMPLETED \<longrightarrow> (\<exists>fare commission payout. rd_final_fare r = Some fare
        \<and> rd_platform_commission r = Some commission \<and> rd_driver_payout_estimate r = Some payout
        \<and> commission + payout = fare \<and> commission = of_int (round_half_even (fare * rd_commission_rate r))))"
proof -
  have "row_ok db r" using reachable_inv [OF assms(1)] assms(2) by (simp add: ride_inv_def)
  then have s: "rd_supplements_total r = accepted_supplements_total (rd_id r) db"
    and f: "rd_status r = COMPLETED \<longrightarrow> settled_fare r" unfolding row_ok_def by blast+
  have "\<exists>fare commission payout. rd_final_fare r = Some fare
      \<and> rd_platform_commission r = Some commission \<and> rd_driver_payout_estimate r = Some payout
      \<and> commission + payout = fare \<and> commission = of_int (round_half_even (fare * rd_commission_rate r))"
    if "settled_fare r" using that unfolding settled_fare_def by force
  with s f show ?thesis by blast
qed

theorem completed_is_split_witness:
  "trip_ride5 \<in> set (rides trip_done) \<and> rd_status trip_ride5 = COMPLETED
    \<and> (\<exists>fare commission payout. rd_final_fare trip_ride5 = Some fare
        \<and> rd_platform_commission trip_ride5 = Some commission \<and> rd_driver_payout_estimate trip_ride5 = Some payout
        \<and> commission + payout = fare)"
proof -
  have m: "trip_ride5 \<in> set (rides trip_done)" by (simp add: trip_done_state)
  from completed_is_split [OF reach_done m] m show ?thesis by (metis trip_ride5_fields(2))
qed

text \<open>
  C11: A ride that ended keeps its outcome under every further request: status, fare, commission,
  payout, driver and payment method never change again.
\<close>

theorem ended_ride_is_final:
  assumes "ride_reachable db" and "find_ride i db = Some r" and "\<not> is_active r" and "ride_later db db'"
  shows "\<exists>r'. find_ride i db' = Some r' \<and> outcome r' = outcome r"
  using ended.lasts [OF assms(1,2) _ assms(4), of "outcome r"] assms(3) by blast

theorem ended_ride_is_final_witness:
  "\<exists>r'. find_ride 10 (snd (transact trip_done (cancel_ride trip_env 10 ''other'' 7 ''passenger'' 9 trip_done))) = Some r'
    \<and> outcome r' = outcome trip_ride5"
  by (rule ended_ride_is_final [OF reach_done _ _ one_step [OF step_cancel]])
    (simp_all add: trip_done_state is_active_def is_active_status_def)

text \<open>
  C12: Requests refine the life cycle of a ride: whatever requests follow, its status is one that the
  transition table leads to, and its passenger, quote and payment method stay.
\<close>

theorem requests_follow_life_cycle:
  assumes "ride_reachable db" and "find_ride i db = Some r" and "ride_later db db'"
  shows "\<exists>r'. find_ride i db' = Some r' \<and> ride_life.reaches (rd_status r) (rd_status r')
    \<and> rd_passenger_user_id r' = rd_passenger_user_id r \<and> rd_quote_id r' = rd_quote_id r
    \<and> rd_payment_method r' = rd_payment_method r"
  using onwards.lasts [OF assms(1,2) _ assms(3), of r] by (auto simp: same_ride_def)

theorem requests_follow_life_cycle_witness:
  "\<exists>r'. find_ride 10 trip_matched = Some r' \<and> ride_life.reaches REQUESTED (rd_status r')
    \<and> rd_passenger_user_id r' = 7"
proof -
  have "find_ride 10 trip_asked = Some trip_ride" by (simp add: trip_asked_state)
  from requests_follow_life_cycle [OF reach_asked this one_step [OF trip_matched_step]]
  show ?thesis by auto
qed

text \<open>
  A driver who took a ride keeps it: no request hands a ride that left \<open>requested\<close> to another
  driver.
\<close>

theorem driver_keeps_ride:
  assumes "ride_reachable db" and "find_ride i db = Some r" and "rd_driver_id r = Some d"
    and "rd_status r \<noteq> REQUESTED" and "ride_later db db'"
  shows "\<exists>r'. find_ride i db' = Some r' \<and> rd_driver_id r' = Some d \<and> rd_status r' \<noteq> REQUESTED"
  using hired.lasts [OF assms(1,2) _ assms(5), of d] assms(3,4) by blast

theorem driver_keeps_ride_witness:
  "\<exists>r'. find_ride 10 trip_coming = Some r' \<and> rd_driver_id r' = Some 2 \<and> rd_status r' \<noteq> REQUESTED"
proof -
  have f: "find_ride 10 trip_matched = Some trip_ride1" by (simp add: trip_matched_state)
  show ?thesis
    using driver_keeps_ride [OF reach_matched f _ _ one_step [OF step_status], where d = 2]
    unfolding trip_coming_def by simp
qed

text \<open>
  C13: A wait that no \<open>start_waiting\<close> opened, which \<open>PATCH /status\<close> with \<open>waiting\<close> produces, never
  ends in a completed ride: the ride can only stay there or be cancelled, and stopping the wait,
  completing and early stop are refused.
\<close>

theorem patched_wait_is_stuck:
  assumes "ride_reachable db" and "find_ride i db = Some r" and "unstarted_wait r" and "ride_later db db'"
  shows "\<exists>r'. find_ride i db' = Some r' \<and> rd_status r' \<in> {WAITING, CANCELLED_BY_PASSENGER, CANCELLED_BY_DRIVER}"
  using stranded.lasts [OF assms(1,2) _ assms(4)] assms(3) by (auto simp: unstarted_wait_def)

definition trip_stuck :: ride_db where
  "trip_stuck = snd (transact trip_going (update_status trip_env 10 WAITING 8 ''driver'' 7 trip_going))"

definition trip_stuck_ride :: ride where
  "trip_stuck_ride = ride_row 7 None (moved_to WAITING 7 None trip_ride4)"

lemma reach_stuck: "ride_reachable trip_stuck"
  unfolding trip_stuck_def by (rule reach_step [OF reach_going step_status])

lemma trip_stuck_find: "find_ride 10 trip_stuck = Some trip_stuck_ride"
  by (simp add: trip_stuck_def trip_going_state update_status_def wait_ended_first_def finish_status_def
     api_transition_def transition_def trip_stuck_ride_def record_ride_outcome_def Let_def)

theorem patched_wait_is_stuck_witness:
  "unstarted_wait trip_stuck_ride \<and> (\<exists>r'. find_ride 10 (snd (transact trip_stuck
      (update_status trip_env 10 COMPLETED 8 ''driver'' 9 trip_stuck))) = Some r'
    \<and> rd_status r' \<in> {WAITING, CANCELLED_BY_PASSENGER, CANCELLED_BY_DRIVER})"
proof -
  have "unstarted_wait trip_stuck_ride" by (simp add: trip_stuck_ride_def unstarted_wait_def)
  with patched_wait_is_stuck [OF reach_stuck trip_stuck_find this one_step [OF step_status]] show ?thesis by blast
qed

section \<open>The fare of a completion\<close>

text \<open>What a ride is charged by: the locked fare and the extras.\<close>

definition charge :: "ride \<Rightarrow> rat option \<times> rat \<times> uuid" where
  "charge r = (dec_or (rd_final_fare r) (rd_estimated_fare r), extras r, rd_id r)"

definition locked_fare :: "ride \<Rightarrow> rat" where
  "locked_fare r = (case dec_or (rd_final_fare r) (rd_estimated_fare r) of None \<Rightarrow> 0 | Some f \<Rightarrow> f)"

lemma dec_or_again: "dec_or (dec_or a b) b = dec_or a b"
  by (cases a; cases b) auto

lemma api_transition_Inr: "api_transition s now r = Inr r' \<longleftrightarrow> transition s now None r = Inr r'"
  by (simp add: api_transition_def split: sum.split)

lemma charge_steps:
  "charge (with_analysis a r) = charge r"
  "charge (r\<lparr>rd_trace_analysis_status := x, rd_trace_analysis_error_code := y\<rparr>) = charge r"
  "charge (fst (ensure_map_trace_started env r)) = charge r"
  "charge (with_actual_price env km secs r) = charge r"
proof -
  show "charge (with_analysis a r) = charge r" by (simp add: charge_def with_analysis_def extras_def)
  show "charge (r\<lparr>rd_trace_analysis_status := x, rd_trace_analysis_error_code := y\<rparr>) = charge r"
    by (simp add: charge_def extras_def)
  show "charge (fst (ensure_map_trace_started env r)) = charge r"
    by (auto simp: ensure_map_trace_started_def charge_def extras_def split: option.splits sum.splits)
  show "charge (with_actual_price env km secs r) = charge r"
    by (simp add: charge_def extras_def with_actual_price_def Let_def dec_or_again)
qed

lemma charge_priced:
  assumes "priced_for_completion env r now db = Inr r'"
  shows "charge r' = charge r"
proof -
  obtain r1 x where a: "apply_actual_pricing_if_possible env r now db = (r1, x)" by fastforce
  have e: "charge r0 = charge r" if "ensure_map_trace_started env r = (r0, y)" for r0 y
    using charge_steps(3) [of env r] that by simp
  have "charge (fst (apply_actual_pricing_if_possible env r now db)) = charge r"
    unfolding apply_actual_pricing_if_possible_def Let_def
    by (auto simp: charge_steps e split: prod.split option.split sum.split)
  with a have "charge r1 = charge r" by simp
  moreover from assms a have "r' = r1 \<or> (\<exists>u v. r' = r1\<lparr>rd_trace_analysis_status := u, rd_trace_analysis_error_code := v\<rparr>)"
    by (auto simp: priced_for_completion_def split: option.splits exn.splits)
  ultimately show ?thesis using charge_steps(2) by metis
qed

lemma charge_completed:
  assumes "transition COMPLETED now m r = Inr r'" and "rd_status r \<noteq> COMPLETED"
  shows "rd_final_fare (completed_fare r') = Some (locked_fare r + extras r)"
proof -
  have r': "r' = moved_to COMPLETED now m r" using assms by (auto simp: transition_def split: if_splits)
  have "extras r' = extras r" by (simp add: r' extras_def)
  moreover have "(case dec_or (dec_or (rd_final_fare r') (rd_estimated_fare r')) (Some 0) of None \<Rightarrow> 0 | Some b \<Rightarrow> b)
      = locked_fare r"
    by (cases "rd_final_fare r"; cases "rd_estimated_fare r") (auto simp: r' locked_fare_def)
  ultimately show ?thesis by (simp add: completed_fare_def Let_def extras_def)
qed

lemma core_final: "core a = core b \<Longrightarrow> rd_final_fare a = rd_final_fare b \<and> rd_status a = rd_status b
    \<and> rd_id a = rd_id b \<and> rd_driver_id a = rd_driver_id b"
  by (simp add: core_def)

text \<open>
  C14: Completing a ride in progress charges the fare locked at the request plus the waiting fees and
  the accepted supplements, whatever the GPS trace and DiddiMap say.
\<close>

theorem completion_charges_locked_fare:
  assumes "find_ride rid db = Some r" and "rd_status r = IN_PROGRESS"
    and "update_status env rid COMPLETED uid role now db = Inr (v, db')"
  shows "\<exists>row. find_ride rid db' = Some row \<and> rd_status row = COMPLETED
    \<and> rd_final_fare row = Some (locked_fare r + rd_pre_ride_wait_fee r + rd_waiting_fee r + rd_supplements_total r)"
proof -
  have "driver_ride rid uid role db = Inr r"
    using assms(1,3) by (auto simp: update_status_def driver_ride_def load_ride_def Let_def split: if_splits)
  with assms(2,3) have "finish_status env r COMPLETED (if role = ''admin'' then ''admin'' else ''driver'') now db
      = Inr (v, db')"
    by (simp add: update_status_def wait_ended_first_def Let_def)
  then obtain r2 r3 db2 where p: "priced_for_completion env r now db = Inr r2"
    and t: "transition COMPLETED now None r2 = Inr r3" and s: "save_ride now (completed_fare r3) db = Inr db2"
    and db': "db' = record_priority_outcome env (completed_fare r3) now (record_history (completed_fare r3) db2)"
    by (auto simp: finish_status_def bindR_eq_Inr api_transition_Inr Let_def)
  have st: "rd_status r2 \<noteq> COMPLETED" using kept_facts(1) [OF kept_priced [OF p]] assms(2) by simp
  have c: "charge r2 = charge r" by (rule charge_priced [OF p])
  then have fare: "rd_final_fare (completed_fare r3) = Some (locked_fare r + extras r)"
    using charge_completed [OF t st] by (simp add: charge_def locked_fare_def)
  have id: "rd_id (completed_fare r3) = rid"
    using transition_core [OF t] c find_ride_mem [OF assms(1)] by (simp add: same_ride_def charge_def)
  have st3: "rd_status (completed_fare r3) = COMPLETED" using transition_status [OF t] by simp
  obtain row where row: "find_ride rid db2 = Some row" "core row = core (completed_fare r3)"
    using save_ride_find [OF s] id by auto
  have "find_ride rid db' = Some row"
    using framed_find [OF framed_trans [OF framed_history framed_priority], of rid] row(1) by (simp add: db')
  with core_final [OF row(2)] fare st3 show ?thesis by (simp add: extras_def add.assoc)
qed

theorem completion_charges_locked_fare_witness:
  "\<exists>row. find_ride 10 trip_done = Some row \<and> rd_final_fare row = Some 1500"
proof -
  have f: "find_ride 10 trip_going = Some trip_ride4" by (simp add: trip_going_state)
  obtain v where u: "update_status trip_env 10 COMPLETED 8 ''driver'' 6 trip_going = Inr (v, trip_done)"
  proof (cases "update_status trip_env 10 COMPLETED 8 ''driver'' 6 trip_going")
    case (Inl e)
    then have "trip_done = trip_going" by (simp add: trip_done_def)
    then have "rides trip_done = rides trip_going" by simp
    then have "rd_status trip_ride5 = rd_status trip_ride4" by (simp add: trip_done_state trip_going_state)
    then show thesis by simp
  next
    case (Inr x)
    with that show thesis by (cases x) (simp add: trip_done_def)
  qed
  from completion_charges_locked_fare [OF f _ u] show ?thesis by (auto simp: locked_fare_def)
qed

section \<open>Start codes\<close>

lemma save_unclashed:
  assumes I: "ride_inv db" and f: "find_ride i db = Some r"
    and same: "rd_id r' = i" "rd_status r' = rd_status r" "rd_driver_id r' = rd_driver_id r"
      "rd_quote_id r' = rd_quote_id r" "rd_share_token r' = rd_share_token r"
    and there: "rd_pickup_location r' \<noteq> None" "rd_dropoff_location r' \<noteq> None"
  shows "save_ride now r' db = Inr (db\<lparr>rides := put_row rd_id i (ride_row now (Some r) r') (rides db)\<rparr>)"
proof -
  let ?row = "ride_row now (Some r) r'"
  have loc: "rd_pickup_location ?row \<noteq> None" "rd_dropoff_location ?row \<noteq> None"
    using there by (auto simp: ride_row_def)
  have "\<not> ride_clash ?row x" if "x \<in> set (rides db)" "rd_id x \<noteq> i" for x
  proof -
    have "compatible r x"
      using I that find_ride_mem [OF f] unfolding ride_inv_def apart_def by metis
    then show ?thesis by (simp add: compatible_def ride_clash_def same)
  qed
  then have "\<not> list_ex (\<lambda>x. rd_id x \<noteq> i \<and> ride_clash ?row x) (rides db)" by (auto simp: list_ex_iff)
  with f loc same(1) show ?thesis
    by (simp add: save_ride_def find_ride_def update_row_def Let_def)
qed

text \<open>A driver who enters codes, one after another.\<close>

fun enter_codes :: "ride_env \<Rightarrow> uuid \<Rightarrow> uuid \<Rightarrow> string \<Rightarrow> (string \<times> datetime) list \<Rightarrow> ride_db \<Rightarrow> ride_db" where
  "enter_codes env rid uid role [] db = db"
| "enter_codes env rid uid role ((c, t) # cs) db =
     enter_codes env rid uid role cs (snd (start_ride_with_code env rid uid role c t db))"

lemma wrong_code_saved:
  assumes I: "ride_inv db" and f: "find_ride rid db = Some r" and st: "rd_status r = ARRIVED"
    and u: "rd_start_code_used_at r = None" and b: "rd_start_code_blocked_at r = None"
    and loc: "rd_pickup_location r \<noteq> None" "rd_dropoff_location r \<noteq> None"
    and a: "role = ''admin'' \<or> is_assigned_driver r uid db"
    and w: "hash_start_code env rid c \<noteq> str_or (rd_start_code_hash r) []"
  shows "start_ride_with_code env rid uid role c t db =
    (Inl (if re_start_code_max_attempts env \<le> rd_start_code_attempts r + 1
          then ApiError 423 ''RIDE_START_CODE_BLOCKED'' else ApiError 422 ''INVALID_RIDE_START_CODE''),
     db\<lparr>rides := put_row rd_id rid (ride_row t (Some r) (wrong_start_code env r t)) (rides db)\<rparr>)"
proof -
  have d: "driver_ride rid uid role db = Inr r" using a f by (simp add: driver_ride_def load_ride_def)
  have id: "rd_id r = rid" using find_ride_mem [OF f] ..
  have "save_ride t (wrong_start_code env r t) db =
      Inr (db\<lparr>rides := put_row rd_id rid (ride_row t (Some r) (wrong_start_code env r t)) (rides db)\<rparr>)"
    by (rule save_unclashed [OF I f]) (simp_all add: wrong_start_code_def id loc)
  with d st u b w id show ?thesis
    by (simp add: start_ride_with_code_def Let_def) (simp add: wrong_start_code_def b)
qed

text \<open>
  C15: Wrong start codes are counted durably: once as many were entered as the setting allows, the ride
  is blocked and even the right code is refused.
\<close>

theorem start_code_guesses_bounded:
  assumes "ride_reachable db" and "find_ride rid db = Some r" and "rd_status r = ARRIVED"
    and "rd_start_code_used_at r = None" and "rd_pickup_location r \<noteq> None" and "rd_dropoff_location r \<noteq> None"
    and "role = ''admin'' \<or> is_assigned_driver r uid db"
    and "\<forall>(c, t) \<in> set guesses. hash_start_code env rid c \<noteq> str_or (rd_start_code_hash r) []"
    and "guesses \<noteq> []" and "re_start_code_max_attempts env \<le> rd_start_code_attempts r + int (length guesses)"
  shows "fst (start_ride_with_code env rid uid role code now (enter_codes env rid uid role guesses db))
    = Inl (ApiError 423 ''RIDE_START_CODE_BLOCKED'')"
proof -
  have "fst (start_ride_with_code env rid uid role code now (enter_codes env rid uid role guesses db))
      = Inl (ApiError 423 ''RIDE_START_CODE_BLOCKED'')"
    if "ride_reachable db" "find_ride rid db = Some r" "rd_status r = ARRIVED" "rd_start_code_used_at r = None"
      "rd_pickup_location r \<noteq> None" "rd_dropoff_location r \<noteq> None"
      "role = ''admin'' \<or> is_assigned_driver r uid db"
      "\<forall>(c, t) \<in> set guesses. hash_start_code env rid c \<noteq> str_or (rd_start_code_hash r) []"
      "rd_start_code_blocked_at r \<noteq> None
        \<or> guesses \<noteq> [] \<and> re_start_code_max_attempts env \<le> rd_start_code_attempts r + int (length guesses)" for db r
    using that
  proof (induction guesses arbitrary: db r)
    case Nil
    then show ?case by (auto simp: start_ride_with_code_def driver_ride_def load_ride_def)
  next
    case (Cons g gs)
    obtain c t where g: "g = (c, t)" by fastforce
    let ?db' = "snd (start_ride_with_code env rid uid role c t db)"
    have reach: "ride_reachable ?db'" using reach_step [OF Cons.prems(1) step_start] .
    show ?case
    proof (cases "rd_start_code_blocked_at r")
      case (Some b)
      then have "?db' = db"
        using Cons.prems(2-4,7) by (auto simp: start_ride_with_code_def driver_ride_def load_ride_def)
      with Cons.IH [OF Cons.prems(1-7)] Cons.prems(8) Some show ?thesis by (simp add: g)
    next
      case None
      let ?row = "ride_row t (Some r) (wrong_start_code env r t)"
      have w: "hash_start_code env rid c \<noteq> str_or (rd_start_code_hash r) []" using Cons.prems(8) g by auto
      note out = wrong_code_saved [OF reachable_inv [OF Cons.prems(1)] Cons.prems(2-4) None Cons.prems(5-7) w, of t]
      have id: "rd_id ?row = rid" using find_ride_mem [OF Cons.prems(2)] by (simp add: wrong_start_code_def)
      have f: "find_ride rid ?db' = Some ?row" unfolding out snd_conv
        using find_after_put [OF Cons.prems(2) id] by simp
      have "is_assigned_driver ?row uid ?db' = is_assigned_driver r uid db"
        unfolding out snd_conv
        by (simp add: is_assigned_driver_def driver_profile_id_for_user_def find_profile_by_user_def wrong_start_code_def)
      moreover have "rd_start_code_blocked_at ?row \<noteq> None \<or> gs \<noteq> [] \<and>
          re_start_code_max_attempts env \<le> rd_start_code_attempts ?row + int (length gs)"
        using Cons.prems(9) None by (cases gs) (auto simp: wrong_start_code_def)
      moreover have "rd_pickup_location ?row \<noteq> None" "rd_dropoff_location ?row \<noteq> None"
        using Cons.prems(5,6) by (auto simp: ride_row_def wrong_start_code_def)
      ultimately show ?thesis
        using Cons.IH [OF reach f] Cons.prems(3,4,7,8) by (simp add: g wrong_start_code_def)
    qed
  qed
  from this [OF assms(1-8)] assms(9,10) show ?thesis by blast
qed

lemma trip_start_code: "ride_start_code trip_env 10 = ''382856''"
proof -
  have "re_hmac_sha256 trip_env k x = [1, 2, 3, 4, 5, 6, 7, 8]" for k x by (simp add: trip_env_def)
  moreover have "zero_pad 6 (nat_str (foldl (\<lambda>acc b. acc * 256 + b) 0 (take 8 [1, 2, 3, 4, 5, 6, 7, 8]) mod 1000000))
      = ''382856''" by (simp add: zero_pad_def nat_str.simps char_of_def bit_0)
  ultimately show ?thesis by (simp only: ride_start_code_def)
qed

lemma trip_code_other: "c \<noteq> ''382856'' \<Longrightarrow> hash_start_code trip_env 10 c \<noteq> trip_code"
  by (simp add: hash_start_code_def trip_code_def trip_start_code) (simp add: trip_env_def)

theorem start_code_guesses_bounded_witness:
  "fst (start_ride_with_code trip_env 10 8 ''driver'' (ride_start_code trip_env 10) 9
     (enter_codes trip_env 10 8 ''driver'' [(''000000'', 7), (''111111'', 8)] trip_there))
    = Inl (ApiError 423 ''RIDE_START_CODE_BLOCKED'')"
proof (rule start_code_guesses_bounded [OF reach_there, where r = trip_ride3])
  have "hash_start_code trip_env 10 ''000000'' \<noteq> trip_code" "hash_start_code trip_env 10 ''111111'' \<noteq> trip_code"
    by (rule trip_code_other, simp)+
  moreover have "str_or (Some trip_code) [] = trip_code"
    using trip_code_ok by (simp add: trip_code_def)
  ultimately show "\<forall>(c, t) \<in> set [(''000000'', 7), (''111111'', 8)].
      hash_start_code trip_env 10 c \<noteq> str_or (rd_start_code_hash trip_ride3) []" by simp
qed (simp_all add: trip_there_state)

section \<open>What a reader of a ride sees\<close>

fun vfield :: "view \<Rightarrow> string \<Rightarrow> view" where
  "vfield (VObj fs) k = (case map_of fs k of None \<Rightarrow> VNone | Some v \<Rightarrow> v)"
| "vfield _ _ = VNone"

lemma get_ride_payload:
  assumes "get_ride env rid uid role db = Inr p"
  obtains r where "find_ride rid db = Some r"
    "p = ride_detail_payload env r (driver_payload env r db)
       (if role = ''admin'' then ''admin'' else if is_assigned_driver r uid db then ''driver'' else ''passenger'')"
    "role = ''admin'' \<or> is_assigned_driver r uid db \<or> rd_passenger_user_id r = uid"
proof (cases "find_ride rid db")
  case (Some r)
  from assms that [OF Some] show thesis
    by (auto simp: get_ride_def load_ride_def Some Let_def split: if_splits)
qed (use assms in \<open>simp add: get_ride_def load_ride_def\<close>)

lemma detail_authorization: "vfield (ride_detail_payload env r d viewer) ''start_authorization'' = authorization_view env r viewer"
  by (simp add: ride_detail_payload_def Let_def)

text \<open>
  The start code of a ride is shown to its passenger only: neither an admin nor the driver who has
  to ask for it can read it, and nobody can once the ride started.
\<close>

theorem start_code_private:
  assumes "get_ride env rid uid role db = Inr p"
    and "vfield (vfield p ''start_authorization'') ''code'' \<noteq> VNone"
  shows "\<exists>r. find_ride rid db = Some r \<and> rd_passenger_user_id r = uid \<and> role \<noteq> ''admin''
    \<and> \<not> is_assigned_driver r uid db \<and> rd_start_code_used_at r = None"
proof -
  obtain r where r: "find_ride rid db = Some r"
    and p: "p = ride_detail_payload env r (driver_payload env r db)
       (if role = ''admin'' then ''admin'' else if is_assigned_driver r uid db then ''driver'' else ''passenger'')"
    and who: "role = ''admin'' \<or> is_assigned_driver r uid db \<or> rd_passenger_user_id r = uid"
    using get_ride_payload [OF assms(1)] .
  let ?viewer = "if role = ''admin'' then ''admin'' else if is_assigned_driver r uid db then ''driver'' else ''passenger''"
  have "vfield (authorization_view env r ?viewer) ''code'' \<noteq> VNone"
    using assms(2) unfolding p detail_authorization .
  then have "code_shown r ?viewer"
    unfolding authorization_view_def Let_def vfield.simps by (simp split: if_splits)
  with r who show ?thesis by (auto simp: code_shown_def split: if_splits)
qed

theorem start_code_private_witness:
  "\<exists>p. get_ride trip_env 10 7 ''user'' trip_there = Inr p
    \<and> vfield (vfield p ''start_authorization'') ''code'' = VStr ''382856''
    \<and> (\<exists>r. find_ride 10 trip_there = Some r \<and> rd_passenger_user_id r = 7)"
proof -
  have a: "\<not> is_assigned_driver trip_ride3 7 trip_there"
    by (simp add: trip_there_state is_assigned_driver_def driver_profile_id_for_user_def find_profile_by_user_def
        trip_driver_def new_driver_profile_def)
  define p where "p = ride_detail_payload trip_env trip_ride3 (driver_payload trip_env trip_ride3 trip_there) ''passenger''"
  have g: "get_ride trip_env 10 7 ''user'' trip_there = Inr p"
    using a by (simp add: get_ride_def load_ride_def p_def Let_def) (simp add: trip_there_state)
  have "str_or (Some trip_code) [] = trip_code" using trip_code_ok by (simp only: trip_code_def)
  moreover have "trip_code \<noteq> []"
    unfolding trip_code_def hash_start_code_def by (simp add: trip_env_def del: trip_env_fields)
  ultimately have "str_or (Some trip_code) [] \<noteq> []" by simp
  then have c: "vfield (vfield p ''start_authorization'') ''code'' = VStr ''382856''"
    unfolding p_def detail_authorization by (simp add: authorization_view_def code_shown_def trip_start_code Let_def)
  with start_code_private [OF g] g show ?thesis by fastforce
qed

text \<open>
  Before the ride is under way its driver sees no amount: neither the fares nor the parts of the
  price, the commission or the payout, nor the waiting fees.
\<close>

theorem money_hidden_from_driver:
  assumes "get_ride env rid uid role db = Inr p" and "find_ride rid db = Some r"
    and "is_assigned_driver r uid db" and "role \<noteq> ''admin''" and "rd_status r \<notin> {IN_PROGRESS, COMPLETED}"
  shows "vfield p ''estimated_fare'' = VNone \<and> vfield p ''final_fare'' = VNone
    \<and> (\<forall>k \<in> {''base_fare'', ''distance_fare'', ''duration_fare'', ''platform_commission'',
        ''driver_payout_estimate'', ''actual_pricing_fare'', ''pricing_delta'', ''waiting_fee''}.
        vfield (vfield p ''pricing'') k = VNone)
    \<and> vfield (vfield p ''waiting'') ''fee'' = VNone \<and> vfield (vfield p ''arrival'') ''waiting_fee'' = VNone"
proof -
  have p: "p = ride_detail_payload env r (driver_payload env r db) ''driver''"
  proof (rule get_ride_payload [OF assms(1)])
    fix r1 assume f: "find_ride rid db = Some r1" and q: "p = ride_detail_payload env r1 (driver_payload env r1 db)
       (if role = ''admin'' then ''admin'' else if is_assigned_driver r1 uid db then ''driver'' else ''passenger'')"
    have "r1 = r" using f assms(2) by simp
    show ?thesis unfolding q \<open>r1 = r\<close> using assms(3,4) by simp
  qed
  have m: "money_visible r ''driver'' = False" using assms(5) by (simp add: money_visible_def)
  show ?thesis
    unfolding p ride_detail_payload_def m Let_def
    by (simp add: vmoney_def pricing_view_def waiting_view_def)
qed

theorem money_hidden_from_driver_witness:
  "\<exists>p. get_ride trip_env 10 8 ''driver'' trip_there = Inr p \<and> vfield p ''estimated_fare'' = VNone"
proof -
  have f: "find_ride 10 trip_there = Some trip_ride3" by (simp add: trip_there_state)
  have a: "is_assigned_driver trip_ride3 8 trip_there" by (simp add: trip_there_state)
  obtain p where g: "get_ride trip_env 10 8 ''driver'' trip_there = Inr p"
    using f a by (simp add: get_ride_def load_ride_def Let_def)
  from money_hidden_from_driver [OF g f a] g show ?thesis by simp
qed

section \<open>Ratings, positions, supplements, waiting\<close>

lemma assigned_cong: "profiles db' = profiles db \<Longrightarrow> is_assigned_driver r uid db' = is_assigned_driver r uid db"
  by (simp only: is_assigned_driver_def driver_profile_id_for_user_def find_profile_by_user_def)

text \<open>
  A rating that is accepted is between 1 and 5, is the first of its side, and the same actor cannot
  rate the ride again.
\<close>

theorem rated_once:
  assumes "rate rid n comment uid role db = Inr (v, db')"
  shows "1 \<le> n \<and> n \<le> 5
    \<and> (\<exists>x. ratings db' = ratings db @ [x] \<and> rr_ride_id x = rid \<and> rr_rating x = n
        \<and> \<not> has_rated rid (rr_rater_role x) db)
    \<and> rate rid n2 comment2 uid role db' = Inl (ApiError 409 ''RATING_ALREADY_SUBMITTED'')"
proof -
  obtain r side where r: "find_ride rid db = Some r" and side: "rating_role_for_actor r uid role db = Some side"
    and st: "rd_status r = COMPLETED" and new: "\<not> has_rated rid side db" and n: "1 \<le> n" "n \<le> 5"
    using assms by (auto simp: rate_def load_ride_def bindR_eq_Inr split: option.splits if_splits)
  define x where "x = \<lparr>rr_id = next_ride_id db, rr_ride_id = rid, rr_rater_role = side, rr_rating = n, rr_comment = comment\<rparr>"
  define db1 where "db1 = db\<lparr>next_ride_id := Suc (next_ride_id db), ratings := ratings db @ [x]\<rparr>"
  have sv: "save_rating x (db\<lparr>next_ride_id := Suc (next_ride_id db)\<rparr>) = Inr db1"
    using n new by (auto simp: save_rating_def has_rated_def x_def db1_def)
  have fin: "(case rd_driver_id r of None \<Rightarrow> Inr db1
      | Some d \<Rightarrow> if side = ''passenger'' then refresh_driver_rating d db1 else Inr db1) = Inr db'"
    using assms r side st new n sv
    by (auto simp: rate_def load_ride_def fresh_id_def Let_def bindR_eq_Inr x_def [symmetric])
  have "ratings db' = ratings db1 \<and> rides db' = rides db1 \<and> (side \<noteq> ''passenger'' \<longrightarrow> profiles db' = profiles db1)"
    using fin by (auto simp: refresh_driver_rating_def save_profile_def Let_def bindR_eq_Inr split: option.splits if_splits prod.splits)
  then have after: "ratings db' = ratings db @ [x]" "find_ride rid db' = Some r"
    "side \<noteq> ''passenger'' \<longrightarrow> profiles db' = profiles db"
    using r by (simp_all add: db1_def find_ride_def)
  have "rating_role_for_actor r uid role db' = Some side"
    using side after(3) assigned_cong [of db' db r uid] by (auto simp: rating_role_for_actor_def split: if_splits)
  moreover have "has_rated rid side db'" by (simp add: has_rated_def after(1) x_def)
  ultimately have "rate rid n2 comment2 uid role db' = Inl (ApiError 409 ''RATING_ALREADY_SUBMITTED'')"
    using after(2) st by (simp add: rate_def load_ride_def)
  with n after(1) new show ?thesis by (auto simp: x_def)
qed

theorem rated_once_witness:
  "\<exists>v db'. rate 10 5 None 7 ''user'' trip_done = Inr (v, db') \<and> rate 10 1 None 7 ''user'' db'
    = Inl (ApiError 409 ''RATING_ALREADY_SUBMITTED'')"
proof -
  have f: "find_ride 10 trip_done = Some trip_ride5" by (simp add: trip_done_state)
  have p: "find_profile 2 (db\<lparr>next_ride_id := a, ratings := b\<rparr>) = find_profile 2 db" for db :: ride_db and a b
    by (simp add: find_profile_def)
  have "\<exists>v db'. rate 10 5 None 7 ''user'' trip_done = Inr (v, db')"
    by (simp add: rate_def load_ride_def f rating_role_for_actor_def has_rated_def fresh_id_def save_rating_def
        refresh_driver_rating_def driver_rating_summary_def ratings_of_def average_def save_profile_def profile_row_def json_column_def Let_def)
      (simp add: trip_done_state find_profile_def trip_driver_def new_driver_profile_def find_ride_def update_row_def driver_rating_summary_def
        ratings_of_def average_def save_profile_def profile_row_def json_column_def Let_def)
  then obtain v db' where r: "rate 10 5 None 7 ''user'' trip_done = Inr (v, db')" by blast
  from rated_once [OF r, of 1 None] r show ?thesis by blast
qed

lemma find_snoc: "find P xs = None \<Longrightarrow> P x \<Longrightarrow> find P (xs @ [x]) = Some x"
  by (induction xs) (auto split: if_splits)

text \<open>
  A batch of GPS samples sent again is acknowledged as a replay and adds nothing; the same batch id
  with other content is refused.
\<close>

theorem gps_batch_replay:
  assumes "add_location_samples env rid samples uid batch now db = Inr (v, db1)" and "samples \<noteq> []"
  shows "(\<exists>v'. add_location_samples env rid samples uid batch later db1 = Inr (v', db1)
      \<and> vfield v' ''replayed'' = VBool True)
    \<and> (re_samples_hash env other \<noteq> re_samples_hash env samples \<and> other \<noteq> [] \<longrightarrow>
        add_location_samples env rid other uid batch later db1 = Inl (ApiError 409 ''GPS_BATCH_IDEMPOTENCY_CONFLICT''))"
proof -
  obtain r where r: "find_ride rid db = Some r" "is_assigned_driver r uid db"
    using assms(1) by (auto simp: add_location_samples_def load_ride_def bindR_eq_Inr split: option.splits if_splits)
  obtain s ss where s: "samples = s # ss" using assms(2) by (cases samples) auto
  let ?h = "re_samples_hash env samples"
  have "\<exists>b. find (\<lambda>b. lb_ride_id b = rid \<and> lb_batch_id b = batch) (batches db1) = Some b \<and> lb_payload_hash b = ?h
      \<and> rides db1 = rides db \<and> profiles db1 = profiles db"
  proof (cases "find (\<lambda>b. lb_ride_id b = rid \<and> lb_batch_id b = batch) (batches db)")
    case None
    with assms(1) r s show ?thesis
      by (auto simp: add_location_samples_def load_ride_def save_route_point_batch_def save_route_points_def
          point_of_sample_def Let_def find_snoc)
  next
    case (Some b)
    with assms(1) r s show ?thesis
      by (auto simp: add_location_samples_def load_ride_def save_route_point_batch_def
          point_of_sample_def Let_def split: if_splits)
  qed
  then obtain b where b: "find (\<lambda>b. lb_ride_id b = rid \<and> lb_batch_id b = batch) (batches db1) = Some b"
    "lb_payload_hash b = ?h" and same: "rides db1 = rides db" "profiles db1 = profiles db" by blast
  have a: "find_ride rid db1 = Some r" "is_assigned_driver r uid db1"
    using r same assigned_cong [OF same(2)] by (simp_all add: find_ride_def)
  have out: "save_route_point_batch batch uid h (map (point_of_sample rid later) xs) db1
      = ((lb_samples_count b, True, lb_payload_hash b \<noteq> h), db1)" if "xs \<noteq> []" for xs h
    using b that by (cases xs) (simp_all add: save_route_point_batch_def point_of_sample_def)
  show ?thesis
    using a assms(2) b(2) by (auto simp: add_location_samples_def load_ride_def out)
qed

theorem gps_batch_replay_witness:
  "\<exists>v db1 v'. add_location_samples trip_env 10 [\<lparr>sa_lat = 5, sa_lng = 5, sa_recorded_at = None, sa_heading = None,
      sa_speed_kmh = None, sa_accuracy_m = None, sa_source = None\<rparr>] 8 77 6 trip_going = Inr (v, db1)
    \<and> add_location_samples trip_env 10 [\<lparr>sa_lat = 5, sa_lng = 5, sa_recorded_at = None, sa_heading = None,
      sa_speed_kmh = None, sa_accuracy_m = None, sa_source = None\<rparr>] 8 77 9 db1 = Inr (v', db1)
    \<and> vfield v' ''replayed'' = VBool True"
proof -
  let ?s = "\<lparr>sa_lat = 5, sa_lng = 5, sa_recorded_at = None, sa_heading = None,
      sa_speed_kmh = None, sa_accuracy_m = None, sa_source = None\<rparr>"
  have "batches (trip_state r h es) = []" for r h es
    by (simp add: trip_state_def trip_fleet_def empty_ride_db_def)
  then have "\<exists>v db1. add_location_samples trip_env 10 [?s] 8 77 6 trip_going = Inr (v, db1)"
    by (simp add: add_location_samples_def load_ride_def trip_going_state save_route_point_batch_def)
  then obtain v db1 where a: "add_location_samples trip_env 10 [?s] 8 77 6 trip_going = Inr (v, db1)" by blast
  show ?thesis
    using gps_batch_replay [OF a, where later = 9 and other = "[]"] a by blast
qed

text \<open>
  A supplement that is added is between 1 and 1000 XOF, on a ride under way, and charges nothing
  until it is accepted.
\<close>

theorem supplement_added:
  assumes "add_supplement rid uid role kind amount label now db = Inr (v, db')"
  shows "\<exists>r s. find_ride rid db = Some r \<and> rd_status r \<in> {IN_PROGRESS, WAITING}
    \<and> supplements db' = supplements db @ [s] \<and> su_ride_id s = rid \<and> 0 < su_amount s \<and> su_amount s \<le> 1000
    \<and> su_status s = ''pending'' \<and> rides db' = rides db
    \<and> accepted_supplements_total i db' = accepted_supplements_total i db"
proof -
  obtain r x where r: "find_ride rid db = Some r" "rd_status r \<in> {IN_PROGRESS, WAITING}"
    and x: "supplement_amount (lower (strip kind)) amount = Inr x"
    using assms by (auto simp: add_supplement_def require_active_ride_for_driver_def driver_ride_def load_ride_def
        bindR_eq_Inr Let_def split: option.splits if_splits)
  have bound: "0 < x \<and> x \<le> 1000"
    using x by (auto simp: supplement_amount_def SUPPLEMENT_FIXED_AMOUNTS_def SUPPLEMENT_OTHER_MAX_def
        split: if_splits option.splits)
  obtain s where s: "insert_supplement s (db\<lparr>next_ride_id := Suc (next_ride_id db)\<rparr>) = Inr db'"
    "su_ride_id s = rid" "su_amount s = x" "su_status s = ''pending''"
    using assms r x find_ride_mem [OF r(1)]
    by (auto simp: add_supplement_def require_active_ride_for_driver_def driver_ride_def load_ride_def
        bindR_eq_Inr fresh_id_def Let_def split: if_splits)
  then have "supplements db' = supplements db @ [s]" "rides db' = rides db"
    by (auto simp: insert_supplement_def bindR_eq_Inr insert_row_def split: if_splits)
  with r s bound show ?thesis by (auto simp: accepted_supplements_total_def)
qed

theorem supplement_added_witness:
  "\<exists>v db' s. add_supplement 10 8 ''driver'' ''Toll '' None None 6 trip_going = Inr (v, db')
    \<and> supplements db' = [s] \<and> su_amount s \<le> 1000"
proof -
  have k: "lower (strip ''Toll '') = ''toll''" by code_simp
  have "\<exists>v db'. add_supplement 10 8 ''driver'' ''Toll '' None None 6 trip_going = Inr (v, db')"
    by (simp add: add_supplement_def require_active_ride_for_driver_def k trip_going_state supplement_amount_def
        SUPPLEMENT_FIXED_AMOUNTS_def fresh_id_def insert_supplement_def insert_row_def Let_def)
  then obtain v db' where a: "add_supplement 10 8 ''driver'' ''Toll '' None None 6 trip_going = Inr (v, db')" by blast
  from supplement_added [OF a, of 10] a show ?thesis by (auto simp: trip_going_state)
qed

lemma save_ride_row:
  assumes "save_ride now r db = Inr db'"
  shows "\<exists>old. find_ride (rd_id r) db' = Some (ride_row now old r)"
proof (cases "find_ride (rd_id r) db")
  case None
  then have "get_row rd_id (rd_id r) (rides db) = None" by (simp add: find_ride_def)
  with assms have "db' = db\<lparr>rides := rides db @ [ride_row now None r]\<rparr>"
    by (auto simp: save_ride_def bindR_eq_Inr insert_row_def Let_def split: if_splits)
  with None show ?thesis by (auto simp: find_ride_def get_row_append)
next
  case (Some old)
  then have g: "get_row rd_id (rd_id r) (rides db) = Some old" by (simp add: find_ride_def)
  with assms have "db' = db\<lparr>rides := put_row rd_id (rd_id r) (ride_row now (Some old) r) (rides db)\<rparr>"
    by (auto simp: save_ride_def bindR_eq_Inr update_row_def Let_def split: if_splits)
  with get_put_same [OF g] show ?thesis by (auto simp: find_ride_def)
qed

lemma billed_minutes_bounds:
  "1 \<le> billed_minutes e \<and> e \<le> 60 * billed_minutes e \<and> (billed_minutes e = 1 \<or> 60 * (billed_minutes e - 1) < e)"
  by (simp add: billed_minutes_def max_def) linarith

text \<open>
  Stopping a wait charges its whole minutes, rounded up and never less than one, at the rate fixed
  when it started, and puts the ride back in progress.
\<close>

theorem wait_charged_by_minute:
  assumes "stop_waiting env rid uid role reason now db = Inr (v, db')" and "find_ride rid db = Some r"
    and "rd_waiting_started_at r = Some t" and "rd_waiting_rate_per_minute r = Some price" and "price \<noteq> 0"
  shows "\<exists>row minutes. find_ride rid db' = Some row \<and> rd_status row = IN_PROGRESS
    \<and> rd_waiting_fee row = rd_waiting_fee r + price * of_int minutes
    \<and> rd_waiting_duration_seconds row = rd_waiting_duration_seconds r + waiting_elapsed t now
    \<and> 1 \<le> minutes \<and> waiting_elapsed t now \<le> 60 * minutes
    \<and> (minutes = 1 \<or> 60 * (minutes - 1) < waiting_elapsed t now)"
proof -
  have d: "driver_ride rid uid role db = Inr r"
    using assms(1,2) by (auto simp: stop_waiting_def driver_ride_def load_ride_def split: if_splits)
  obtain r1 where m: "stop_waiting_ride env r reason now = Inr r1" and s: "save_ride now r1 db = Inr db'"
    using assms(1) d by (auto simp: stop_waiting_def stop_waiting_saved_def bindR_eq_Inr)
  have st: "rd_status r = WAITING" and id: "rd_id r1 = rid" and st1: "rd_status r1 = IN_PROGRESS"
    using stop_waiting_move [OF m] find_ride_mem [OF assms(2)] by (simp_all add: good_move_def)
  have "rd_waiting_fee r1 = rd_waiting_fee r + price * of_int (billed_minutes (waiting_elapsed t now))"
    "rd_waiting_duration_seconds r1 = rd_waiting_duration_seconds r + waiting_elapsed t now"
    using m st assms(3-5) by (auto simp: stop_waiting_ride_def transition_def Let_def moved_to_def)
  moreover obtain old where "find_ride rid db' = Some (ride_row now old r1)" using save_ride_row [OF s] id by blast
  ultimately show ?thesis
    using st1 billed_minutes_bounds [of "waiting_elapsed t now"] by (force simp: ride_row_def)
qed

definition trip_waiting :: ride_db where
  "trip_waiting = snd (transact trip_going (start_waiting trip_env 10 8 ''driver'' (Some 0) 7 trip_going))"

definition trip_waiting_ride :: ride where
  "trip_waiting_ride = ride_row 7 None (moved_to WAITING 7 (Some [(''reason'', MStr ''manual'')])
     (trip_ride4\<lparr>rd_waiting_started_at := Some 7, rd_waiting_rate_per_minute := Some 50\<rparr>))"

lemma trip_waiting_state: "trip_waiting = trip_state trip_waiting_ride (take 4 trip_hops) []"
  by (simp add: trip_waiting_def trip_going_state start_waiting_def transition_def trip_waiting_ride_def)
    (simp add: trip_env_def)

theorem wait_charged_by_minute_witness:
  "\<exists>v db' row. stop_waiting trip_env 10 8 ''driver'' ''manual'' 90000007 trip_waiting = Inr (v, db')
    \<and> find_ride 10 db' = Some row \<and> rd_status row = IN_PROGRESS \<and> rd_waiting_fee row = 100"
proof -
  have f: "find_ride 10 trip_waiting = Some trip_waiting_ride" by (simp add: trip_waiting_state trip_waiting_ride_def)
  have w: "rd_waiting_started_at trip_waiting_ride = Some 7" "rd_waiting_rate_per_minute trip_waiting_ride = Some 50"
    "rd_status trip_waiting_ride = WAITING" "rd_waiting_fee trip_waiting_ride = 0"
    by (simp_all add: trip_waiting_ride_def)
  have e: "waiting_elapsed 7 90000007 = 90" by code_simp
  have "\<exists>v db'. stop_waiting trip_env 10 8 ''driver'' ''manual'' 90000007 trip_waiting = Inr (v, db')"
    by (simp add: stop_waiting_def trip_waiting_state trip_waiting_ride_def stop_waiting_saved_def
        stop_waiting_ride_def transition_def Let_def)
  then obtain v db' where s: "stop_waiting trip_env 10 8 ''driver'' ''manual'' 90000007 trip_waiting = Inr (v, db')"
    by blast
  obtain row minutes where row: "find_ride 10 db' = Some row" "rd_status row = IN_PROGRESS"
    "rd_waiting_fee row = 0 + 50 * of_int minutes" and m: "90 \<le> 60 * minutes" "minutes = 1 \<or> 60 * (minutes - 1) < 90"
    using wait_charged_by_minute [OF s f w(1,2)] by (auto simp: w(4) e)
  from m have "minutes = 2" by arith
  with row s show ?thesis by simp
qed

end
