(* ===== verification/Auth_Service.thy ===== *)
theory Auth_Service
  imports Ride_Views
begin

text \<open>
  app\_base/modules/auth (accounts and one-time codes by phone), core/security.py (tokens) and the
  authentication of core/auth\_deps.py and core/identity.py. PyJWT, the key server, the profile service and
  SHA-256 are parameters; a claim set is the JSON object that the token carries.
\<close>

section \<open>Accounts and codes\<close>

datatype user_role = UR_PASSENGER | UR_DRIVER | UR_ADMIN

datatype user_status = US_ACTIVE | US_SUSPENDED | US_PENDING_VERIFICATION

fun user_role_value :: "user_role \<Rightarrow> string" where
  "user_role_value UR_PASSENGER = ''passenger''"
| "user_role_value UR_DRIVER = ''driver''"
| "user_role_value UR_ADMIN = ''admin''"

fun user_status_value :: "user_status \<Rightarrow> string" where
  "user_status_value US_ACTIVE = ''active''"
| "user_status_value US_SUSPENDED = ''suspended''"
| "user_status_value US_PENDING_VERIFICATION = ''pending_verification''"

record user =
  us_id :: uuid
  us_phone :: string
  us_role :: user_role
  us_status :: user_status
  us_full_name :: "string option"
  us_is_review_account :: bool
  us_created_at :: "datetime option"
  us_updated_at :: "datetime option"

record otp_code =
  ot_id :: uuid
  ot_phone :: string
  ot_code_hash :: string
  ot_expires_at :: datetime
  ot_created_at :: datetime
  ot_consumed_at :: "datetime option"

record auth_db =
  users :: "user list"
  otp_codes :: "otp_code list"
  next_auth_id :: nat

definition auth_uuid :: "auth_db \<Rightarrow> uuid \<times> auth_db" where
  "auth_uuid db = (next_auth_id db, db\<lparr>next_auth_id := Suc (next_auth_id db)\<rparr>)"

text \<open>The phone of a row never changes; a new row must have a phone of its own.\<close>

definition user_clash :: "user \<Rightarrow> user \<Rightarrow> bool" where
  "user_clash a b \<longleftrightarrow> us_id a = us_id b \<or> us_phone a = us_phone b"

definition save_user :: "user \<Rightarrow> datetime \<Rightarrow> auth_db \<Rightarrow> exn + auth_db" where
  "save_user u now db =
     (case get_row us_id (us_id u) (users db) of
        None \<Rightarrow> bindR (insert_row user_clash
            (u\<lparr>us_created_at := Some (case us_created_at u of None \<Rightarrow> now | Some t \<Rightarrow> t),
               us_updated_at := Some (case us_updated_at u of None \<Rightarrow> now | Some t \<Rightarrow> t)\<rparr>) (users db))
          (\<lambda>rows. Inr (db\<lparr>users := rows\<rparr>))
      | Some row \<Rightarrow> Inr (db\<lparr>users := put_row us_id (us_id u)
            (row\<lparr>us_full_name := us_full_name u, us_role := us_role u, us_status := us_status u,
               us_is_review_account := us_is_review_account u, us_updated_at := Some now\<rparr>) (users db)\<rparr>))"

definition find_user :: "uuid \<Rightarrow> auth_db \<Rightarrow> user option" where
  "find_user uid db = get_row us_id uid (users db)"

definition find_by_phone :: "string \<Rightarrow> auth_db \<Rightarrow> user option" where
  "find_by_phone phone db = get_row us_phone phone (users db)"

definition save_otp :: "otp_code \<Rightarrow> auth_db \<Rightarrow> exn + auth_db" where
  "save_otp otp db = bindR (insert_row (\<lambda>a b. ot_id a = ot_id b) otp (otp_codes db))
     (\<lambda>rows. Inr (db\<lparr>otp_codes := rows\<rparr>))"

definition find_latest_unconsumed :: "string \<Rightarrow> auth_db \<Rightarrow> otp_code option" where
  "find_latest_unconsumed phone db =
     (case rev (sort_key ot_created_at
        (filter (\<lambda>x. ot_phone x = phone \<and> ot_consumed_at x = None) (otp_codes db))) of
        [] \<Rightarrow> None | x # _ \<Rightarrow> Some x)"

definition mark_consumed :: "uuid \<Rightarrow> datetime \<Rightarrow> auth_db \<Rightarrow> auth_db" where
  "mark_consumed otp_id now db =
     (case get_row ot_id otp_id (otp_codes db) of
        None \<Rightarrow> db
      | Some row \<Rightarrow> if ot_consumed_at row \<noteq> None then db
          else db\<lparr>otp_codes := put_row ot_id otp_id (row\<lparr>ot_consumed_at := Some now\<rparr>) (otp_codes db)\<rparr>)"

section \<open>Tokens\<close>

type_synonym claims = "(string \<times> json) list"

datatype jwt_error = EXPIRED_SIGNATURE | INVALID_TOKEN

datatype jwks_error = JWKS_UNAVAILABLE | JWKS_UNKNOWN_KEY | TOKEN_REFUSED jwt_error

text \<open>
  \<open>au_decode\<close> is \<open>jwt.decode\<close> with the local secret, which asks for \<open>exp\<close>, \<open>sub\<close> and \<open>typ\<close>;
  \<open>au_identity_decode\<close> and \<open>au_service_decode\<close> are the two decodings with the keys of DiddiFreeID, the
  second for one audience; \<open>au_profile\<close> is the answer of its profile endpoint, where configured. \<open>au_code\<close>
  is the draw of \<open>randbelow(1_000_000)\<close>.
\<close>

record auth_env =
  au_encode :: "claims \<Rightarrow> string"
  au_decode :: "datetime \<Rightarrow> string \<Rightarrow> jwt_error + claims"
  au_identity_mode :: bool
  au_identity_decode :: "datetime \<Rightarrow> string \<Rightarrow> jwks_error + claims"
  au_service_decode :: "datetime \<Rightarrow> string \<Rightarrow> string \<Rightarrow> jwks_error + claims"
  au_profile :: "(string \<Rightarrow> exn + int \<times> claims) option"
  au_sha256_hex :: "string \<Rightarrow> string"
  au_code :: nat
  au_access_minutes :: int
  au_refresh_days :: int
  au_rate_limit_seconds :: int
  au_code_lifetime_seconds :: int

text \<open>A \<open>datetime\<close> claim is written in whole seconds.\<close>

definition numeric_date :: "datetime \<Rightarrow> json" where
  "numeric_date t = JInt (t div 1000000)"

definition issue_access_token :: "auth_env \<Rightarrow> uuid \<Rightarrow> string \<Rightarrow> datetime \<Rightarrow> string" where
  "issue_access_token env uid role now = au_encode env [
     (''sub'', juuid uid), (''role'', JStr role), (''typ'', JStr ''access''), (''iat'', numeric_date now),
     (''exp'', numeric_date (now + seconds (60 * au_access_minutes env)))]"

definition issue_refresh_token :: "auth_env \<Rightarrow> uuid \<Rightarrow> datetime \<Rightarrow> string" where
  "issue_refresh_token env uid now = au_encode env [
     (''sub'', juuid uid), (''typ'', JStr ''refresh''), (''iat'', numeric_date now),
     (''exp'', numeric_date (now + seconds (86400 * au_refresh_days env)))]"

definition decode_token :: "auth_env \<Rightarrow> string \<Rightarrow> string \<Rightarrow> datetime \<Rightarrow> exn + claims" where
  "decode_token env expected_typ token now =
     (case au_decode env now token of
        Inl EXPIRED_SIGNATURE \<Rightarrow> Inl (ApiError 401 ''TOKEN_EXPIRED'')
      | Inl INVALID_TOKEN \<Rightarrow> Inl (ApiError 401 ''TOKEN_INVALID'')
      | Inr payload \<Rightarrow> if jget payload ''typ'' \<noteq> JStr expected_typ then Inl (ApiError 401 ''TOKEN_INVALID'')
          else Inr payload)"

definition user_id_from_token :: "claims \<Rightarrow> exn + uuid" where
  "user_id_from_token payload =
     (case jget payload ''sub'' of
        JStr s \<Rightarrow> (case uuid_parse s of None \<Rightarrow> Inl (ApiError 401 ''TOKEN_INVALID'') | Some u \<Rightarrow> Inr u)
      | _ \<Rightarrow> Inl (ApiError 401 ''TOKEN_INVALID''))"

section \<open>AuthService\<close>

text \<open>\<open>^\+[1-9]\d{7,14}$\<close> once the blanks are gone.\<close>

definition validate_phone :: "string \<Rightarrow> exn + string" where
  "validate_phone phone =
     (let normalised = filter (\<lambda>c. \<not> is_space c) phone in
      case normalised of
        sign # first # others \<Rightarrow>
          if sign = CHR ''+'' \<and> is_digit first \<and> first \<noteq> CHR ''0'' \<and> list_all is_digit others
             \<and> 7 \<le> length others \<and> length others \<le> 14
          then Inr normalised else Inl (ApiError 422 ''INVALID_PHONE_FORMAT'')
      | _ \<Rightarrow> Inl (ApiError 422 ''INVALID_PHONE_FORMAT''))"

definition user_role_of :: "string \<Rightarrow> user_role option" where
  "user_role_of r = (if r = ''passenger'' then Some UR_PASSENGER else if r = ''driver'' then Some UR_DRIVER
     else if r = ''admin'' then Some UR_ADMIN else None)"

definition new_user :: "uuid \<Rightarrow> string \<Rightarrow> user_role \<Rightarrow> user_status \<Rightarrow> string option \<Rightarrow> user" where
  "new_user i phone role status full_name = \<lparr>us_id = i, us_phone = phone, us_role = role, us_status = status,
     us_full_name = full_name, us_is_review_account = False, us_created_at = None, us_updated_at = None\<rparr>"

record registration =
  rg_user_id :: uuid
  rg_phone :: string
  rg_status :: user_status

definition register ::
  "string \<Rightarrow> string option \<Rightarrow> string \<Rightarrow> datetime \<Rightarrow> auth_db \<Rightarrow> exn + registration \<times> auth_db" where
  "register phone full_name role now db =
     bindR (validate_phone phone) (\<lambda>ph.
     case user_role_of role of
       None \<Rightarrow> Inl (ApiError 422 ''INVALID_ROLE'')
     | Some r \<Rightarrow>
       if find_by_phone ph db \<noteq> None then Inl (ApiError 409 ''PHONE_ALREADY_REGISTERED'')
       else
         let (i, db1) = auth_uuid db;
             u = (new_user i ph r US_PENDING_VERIFICATION (if str_or full_name [] = [] then None else full_name))
               \<lparr>us_created_at := Some now\<rparr>
         in bindR (save_user u now db1) (\<lambda>db2.
            Inr (\<lparr>rg_user_id = i, rg_phone = ph, rg_status = us_status u\<rparr>, db2)))"

text \<open>The code goes out with the answer: the SMS is a log line.\<close>

definition request_otp :: "auth_env \<Rightarrow> string \<Rightarrow> datetime \<Rightarrow> auth_db \<Rightarrow> exn + string \<times> auth_db" where
  "request_otp env phone now db =
     bindR (validate_phone phone) (\<lambda>ph.
     if (case find_latest_unconsumed ph db of None \<Rightarrow> False
         | Some latest \<Rightarrow> ot_consumed_at latest = None \<and> now < ot_expires_at latest
             \<and> now - ot_created_at latest < seconds (au_rate_limit_seconds env))
     then Inl (ApiError 429 ''OTP_RATE_LIMITED'')
     else
       let code = zero_pad 6 (nat_str (au_code env));
           (i, db1) = auth_uuid db
       in bindR (save_otp \<lparr>ot_id = i, ot_phone = ph, ot_code_hash = au_sha256_hex env code,
              ot_expires_at = now + seconds (au_code_lifetime_seconds env), ot_created_at = now,
              ot_consumed_at = None\<rparr> db1)
            (\<lambda>db2. Inr (code, db2)))"

record session =
  se_access_token :: string
  se_refresh_token :: string
  se_user :: "user option"

definition session_of :: "auth_env \<Rightarrow> user \<Rightarrow> datetime \<Rightarrow> session" where
  "session_of env u now = \<lparr>se_access_token = issue_access_token env (us_id u) (user_role_value (us_role u)) now,
     se_refresh_token = issue_refresh_token env (us_id u) now, se_user = Some u\<rparr>"

definition verified_user :: "string \<Rightarrow> datetime \<Rightarrow> auth_db \<Rightarrow> exn + user \<times> auth_db" where
  "verified_user phone now db =
     (case find_by_phone phone db of
        None \<Rightarrow>
          let (i, db1) = auth_uuid db;
              u = (new_user i phone UR_PASSENGER US_ACTIVE None)\<lparr>us_created_at := Some now\<rparr>
          in bindR (save_user u now db1) (\<lambda>db2. Inr (u, db2))
      | Some u \<Rightarrow> if us_status u = US_PENDING_VERIFICATION
          then bindR (save_user (u\<lparr>us_status := US_ACTIVE\<rparr>) now db) (\<lambda>db1. Inr (u\<lparr>us_status := US_ACTIVE\<rparr>, db1))
          else Inr (u, db))"

definition verify_otp ::
  "auth_env \<Rightarrow> string \<Rightarrow> string \<Rightarrow> string option \<Rightarrow> datetime \<Rightarrow> auth_db \<Rightarrow> exn + session \<times> auth_db" where
  "verify_otp env phone code test_override_code now db =
     bindR (validate_phone phone) (\<lambda>ph.
     case find_latest_unconsumed ph db of
       None \<Rightarrow> Inl (ApiError 400 ''OTP_INVALID'')
     | Some otp \<Rightarrow>
       if ot_expires_at otp \<le> now then Inl (ApiError 410 ''OTP_EXPIRED'')
       else if (case test_override_code of Some c \<Rightarrow> code \<noteq> c
                | None \<Rightarrow> au_sha256_hex env code \<noteq> ot_code_hash otp)
       then Inl (ApiError 400 ''OTP_INVALID'')
       else bindR (verified_user ph now (mark_consumed (ot_id otp) now db)) (\<lambda>(u, db1).
         Inr (session_of env u now, db1)))"

definition refresh :: "auth_env \<Rightarrow> string \<Rightarrow> datetime \<Rightarrow> auth_db \<Rightarrow> exn + session" where
  "refresh env refresh_token now db =
     bindR (decode_token env ''refresh'' refresh_token now) (\<lambda>payload.
     bindR (user_id_from_token payload) (\<lambda>uid.
     case find_user uid db of
       None \<Rightarrow> Inl (ApiError 401 ''REFRESH_TOKEN_INVALID'')
     | Some u \<Rightarrow> Inr ((session_of env u now)\<lparr>se_user := None\<rparr>)))"

section \<open>Who calls\<close>

text \<open>\<open>request.state.current_user\<close>: a row of the table, or what DiddiFreeID says of its user.\<close>

record identity =
  iu_id :: uuid
  iu_phone :: string
  iu_full_name :: "string option"
  iu_role :: string
  iu_status :: string
  iu_is_review_account :: bool

definition identity_of :: "user \<Rightarrow> identity" where
  "identity_of u = \<lparr>iu_id = us_id u, iu_phone = us_phone u, iu_full_name = us_full_name u,
     iu_role = user_role_value (us_role u), iu_status = user_status_value (us_status u),
     iu_is_review_account = us_is_review_account u\<rparr>"

definition decode_access_token :: "auth_env \<Rightarrow> string \<Rightarrow> datetime \<Rightarrow> exn + claims" where
  "decode_access_token env token now =
     (case au_identity_decode env now token of
        Inl (TOKEN_REFUSED EXPIRED_SIGNATURE) \<Rightarrow> Inl (ApiError 401 ''TOKEN_EXPIRED'')
      | Inl (TOKEN_REFUSED INVALID_TOKEN) \<Rightarrow> Inl (ApiError 401 ''TOKEN_INVALID'')
      | Inl _ \<Rightarrow> Inl RuntimeError
      | Inr payload \<Rightarrow> if jget payload ''status'' \<noteq> JStr ''active'' then Inl (ApiError 403 ''USER_NOT_VERIFIED'')
          else Inr payload)"

definition fetch_identity_profile :: "auth_env \<Rightarrow> string \<Rightarrow> exn + claims option" where
  "fetch_identity_profile env token =
     (case au_profile env of
        None \<Rightarrow> Inr None
      | Some get \<Rightarrow> bindR (get token) (\<lambda>(status, body).
          if status = 404 then Inr None
          else if 400 \<le> status then Inl (ApiError status ''IDENTITY_PROFILE_ERROR'')
          else Inr (Some body)))"

text \<open>
  The phone of a profile is text. A stamp is text too, which the driver of the database refuses in a new row
  (\<open>identity_stamped\<close>); missing ones become now.
\<close>

definition identity_stamped :: "claims \<Rightarrow> bool" where
  "identity_stamped profile \<longleftrightarrow> truthy (jget profile ''created_at'') \<or> truthy (jget profile ''updated_at'')"

definition identity_user :: "claims \<Rightarrow> claims \<Rightarrow> exn + identity" where
  "identity_user payload profile =
     bindR (user_id_from_token payload) (\<lambda>uid.
     let role = py_str (jor (jor (jget payload ''role'') (jget profile ''role'')) (JStr ''user''))
     in case (case map_of (rev payload) ''is_review_account'' of None \<Rightarrow> JBool False | Some v \<Rightarrow> v) of
          JBool flag \<Rightarrow>
            bindR (as_text (jor (jget profile ''phone'') (JStr []))) (\<lambda>phone.
            bindR (as_text (jget profile ''full_name'')) (\<lambda>name.
            Inr \<lparr>iu_id = uid, iu_phone = str_or phone [], iu_full_name = name,
              iu_role = (if role = ''user'' then ''passenger'' else role),
              iu_status = py_str (jor (jor (jget payload ''status'') (jget profile ''status'')) (JStr ''active'')),
              iu_is_review_account = flag\<rparr>))
        | _ \<Rightarrow> Inl (ApiError 401 ''TOKEN_INVALID''))"

definition shadow_phone :: "uuid \<Rightarrow> string" where
  "shadow_phone uid = ''+000'' @ zero_pad 12 (nat_str (uid mod 1000000000000))"

definition upsert_identity_shadow_user ::
  "identity \<Rightarrow> bool \<Rightarrow> datetime \<Rightarrow> auth_db \<Rightarrow> exn + auth_db" where
  "upsert_identity_shadow_user u stamped now db =
     (if stamped \<and> find_user (iu_id u) db = None then Inl DataError
      else save_user ((new_user (iu_id u) (if iu_phone u = [] then shadow_phone (iu_id u) else iu_phone u)
            (if iu_role u = ''admin'' then UR_ADMIN else UR_PASSENGER)
            (if iu_status u = ''active'' then US_ACTIVE else US_SUSPENDED) (iu_full_name u))
          \<lparr>us_is_review_account := iu_is_review_account u, us_created_at := Some now, us_updated_at := Some now\<rparr>)
        now db)"

definition get_current_user ::
  "auth_env \<Rightarrow> string option \<Rightarrow> datetime \<Rightarrow> auth_db \<Rightarrow> exn + identity \<times> auth_db" where
  "get_current_user env token now db =
     (if str_or token [] = [] then Inl (ApiError 401 ''TOKEN_MISSING'')
      else if au_identity_mode env then
        bindR (decode_access_token env (str_or token []) now) (\<lambda>payload.
        bindR (fetch_identity_profile env (str_or token [])) (\<lambda>profile.
        let data = (case profile of None \<Rightarrow> [] | Some p \<Rightarrow> p)
        in bindR (identity_user payload data) (\<lambda>u.
           bindR (upsert_identity_shadow_user u (identity_stamped data) now db) (\<lambda>db1. Inr (u, db1)))))
      else
        bindR (decode_token env ''access'' (str_or token []) now) (\<lambda>payload.
        bindR (user_id_from_token payload) (\<lambda>uid.
        case find_user uid db of
          None \<Rightarrow> Inl (ApiError 401 ''TOKEN_INVALID'')
        | Some u \<Rightarrow> if us_status u \<noteq> US_ACTIVE then Inl (ApiError 403 ''USER_SUSPENDED'')
                   else Inr (identity_of u, db))))"

definition get_current_active_user ::
  "auth_env \<Rightarrow> string option \<Rightarrow> datetime \<Rightarrow> auth_db \<Rightarrow> exn + identity \<times> auth_db" where
  "get_current_active_user env token now db =
     bindR (get_current_user env token now db) (\<lambda>(u, db1).
     if iu_status u \<noteq> ''active'' then Inl (ApiError 403 ''USER_SUSPENDED'') else Inr (u, db1))"

definition require_role ::
  "auth_env \<Rightarrow> string list \<Rightarrow> string option \<Rightarrow> datetime \<Rightarrow> auth_db \<Rightarrow> exn + identity \<times> auth_db" where
  "require_role env roles token now db =
     bindR (get_current_active_user env token now db) (\<lambda>(u, db1).
     if iu_role u \<notin> set roles then Inl (ApiError 403 ''FORBIDDEN_ROLE'') else Inr (u, db1))"

definition require_s2s_admin_actor :: "uuid option \<Rightarrow> uuid option \<Rightarrow> auth_db \<Rightarrow> exn + user" where
  "require_s2s_admin_actor backoffice_actor_id actor_user_id db =
     (if backoffice_actor_id = None \<and> actor_user_id = None
      then Inl (ApiError 422 ''SERVICE_ACTOR_REQUIRED'')
      else if backoffice_actor_id \<noteq> None \<and> actor_user_id \<noteq> None \<and> backoffice_actor_id \<noteq> actor_user_id
      then Inl (ApiError 400 ''SERVICE_ACTOR_HEADER_MISMATCH'')
      else case find_user (the (if backoffice_actor_id \<noteq> None then backoffice_actor_id else actor_user_id)) db of
          None \<Rightarrow> Inl (ApiError 403 ''SERVICE_ACTOR_FORBIDDEN'')
        | Some a \<Rightarrow> if us_role a \<noteq> UR_ADMIN \<or> us_status a \<noteq> US_ACTIVE
                   then Inl (ApiError 403 ''SERVICE_ACTOR_FORBIDDEN'') else Inr a)"

section \<open>Calls between services\<close>

definition canonicalize_scopes :: "string set \<Rightarrow> string set" where
  "canonicalize_scopes scopes =
     (\<lambda>s. if s = ''ride-summary:read'' then ''diddigo:ride-summary:read'' else s) ` scopes"

text \<open>\<open>str.split()\<close>\<close>

fun words :: "string \<Rightarrow> string \<Rightarrow> string list" where
  "words acc [] = (if acc = [] then [] else [rev acc])"
| "words acc (c # cs) = (if is_space c then (if acc = [] then [] else [rev acc]) @ words [] cs
     else words (c # acc) cs)"

definition decode_service_token ::
  "auth_env \<Rightarrow> string \<Rightarrow> string list \<Rightarrow> string option \<Rightarrow> string option \<Rightarrow> string \<Rightarrow> datetime \<Rightarrow> exn + claims" where
  "decode_service_token env audience required_scopes client_id expected_subject token now =
     (case au_service_decode env now audience token of
        Inl JWKS_UNAVAILABLE \<Rightarrow> Inl (ApiError 503 ''SERVICE_JWKS_UNAVAILABLE'')
      | Inl JWKS_UNKNOWN_KEY \<Rightarrow> Inl (ApiError 401 ''SERVICE_TOKEN_INVALID'')
      | Inl (TOKEN_REFUSED EXPIRED_SIGNATURE) \<Rightarrow> Inl (ApiError 401 ''SERVICE_TOKEN_EXPIRED'')
      | Inl (TOKEN_REFUSED INVALID_TOKEN) \<Rightarrow> Inl (ApiError 401 ''SERVICE_TOKEN_INVALID'')
      | Inr payload \<Rightarrow>
        if jget payload ''role'' \<noteq> JStr ''service'' \<or> jget payload ''token_type'' \<noteq> JStr ''service''
        then Inl (ApiError 401 ''SERVICE_TOKEN_INVALID'')
        else if (case expected_subject of None \<Rightarrow> False | Some s \<Rightarrow> jget payload ''sub'' \<noteq> JStr s)
        then Inl (ApiError 403 ''SERVICE_SUBJECT_INVALID'')
        else if jget payload ''status'' \<noteq> JStr ''active''
        then Inl (ApiError 403 ''SERVICE_TOKEN_INACTIVE'')
        else if (case client_id of None \<Rightarrow> False | Some c \<Rightarrow> jget payload ''client_id'' \<noteq> JStr c)
        then Inl (ApiError 401 ''SERVICE_CLIENT_ID_INVALID'')
        else if \<not> set required_scopes \<subseteq> canonicalize_scopes (set (words []
             (case map_of (rev payload) ''scope'' of None \<Rightarrow> [] | Some v \<Rightarrow> py_str v)))
        then Inl (ApiError 403 ''SERVICE_SCOPE_INVALID'')
        else Inr payload)"

definition require_identity_service_token ::
  "auth_env \<Rightarrow> string \<Rightarrow> string \<Rightarrow> string option \<Rightarrow> string option \<Rightarrow> string option \<Rightarrow> string option
    \<Rightarrow> datetime \<Rightarrow> exn + claims" where
  "require_identity_service_token env audience required_scope expected_subject expected_client_id token client now =
     (if str_or token [] = [] then Inl (ApiError 401 ''TOKEN_MISSING'')
      else if str_or client [] = [] then Inl (ApiError 401 ''SERVICE_CLIENT_ID_MISSING'')
      else if expected_client_id \<noteq> None \<and> client \<noteq> expected_client_id
      then Inl (ApiError 403 ''SERVICE_CLIENT_FORBIDDEN'')
      else if \<not> au_identity_mode env then Inl (ApiError 500 ''IDENTITY_NOT_CONFIGURED'')
      else decode_service_token env audience [required_scope] client expected_subject (str_or token []) now)"

definition require_backoffice_service_token ::
  "auth_env \<Rightarrow> string \<Rightarrow> string option \<Rightarrow> string option \<Rightarrow> datetime \<Rightarrow> exn + claims" where
  "require_backoffice_service_token env required_scope =
     require_identity_service_token env ''diddigo'' required_scope (Some ''service:backoffice'') None"

end
