(* ===== verification/Matching_Properties.thy ===== *)
theory Matching_Properties
  imports Ride_Trip "HOL-Library.Multiset"
begin

text \<open>
  The properties of dispatch: claims, accepting an offer, the candidates of a wave, their ranking, and
  the sequence of waves of one search.
\<close>

section \<open>Claims\<close>

text \<open>The drivers who win, of a sequence of attempts to claim one ride.\<close>

definition claim_winners :: "uuid \<Rightarrow> (datetime \<times> uuid) list \<Rightarrow> offer_store \<Rightarrow> uuid list" where
  "claim_winners rid attempts st = fst (ride_claim.winners rid attempts st)"

lemma first_attempt_wins:
  assumes "live t (os_claims st rid) = None"
  shows "claim_winners rid ((t, d) # as) st \<noteq> []"
proof -
  have "fst (claim t rid d st)" using assms by (simp add: claim_def)
  then show ?thesis by (auto simp: claim_winners_def case_prod_beta)
qed

text \<open>
  C16: Of any number of drivers who claim a ride within the life of a claim, exactly one wins when the
  ride was free, and at most one in any case.
\<close>

theorem one_driver_claims:
  assumes "\<forall>(t, d) \<in> set attempts. t0 \<le> t \<and> t < t0 + seconds TRIED_TTL_SECONDS"
  shows "length (claim_winners rid attempts st) \<le> 1
    \<and> (attempts \<noteq> [] \<and> live (fst (hd attempts)) (os_claims st rid) = None \<longrightarrow>
        length (claim_winners rid attempts st) = 1)"
proof -
  let ?h = "t0 + seconds TRIED_TTL_SECONDS - 1"
  have "\<forall>(t, d) \<in> set attempts. t0 \<le> t \<and> t \<le> ?h" using assms by fastforce
  then have one: "length (claim_winners rid attempts st) \<le> 1"
    unfolding claim_winners_def by (rule ride_claim.one_winner) simp
  have "length (claim_winners rid attempts st) = 1"
    if ne: "attempts \<noteq> []" and free: "live (fst (hd attempts)) (os_claims st rid) = None"
  proof -
    obtain t d as where a: "attempts = (t, d) # as" using ne by (cases attempts) auto
    with first_attempt_wins [of t st rid d as] free one show ?thesis by (cases "claim_winners rid attempts st") auto
  qed
  with one show ?thesis by blast
qed

theorem one_driver_claims_witness:
  "length (claim_winners 10 [(1, 8), (2, 9), (3, 8)] no_offers) = 1"
  using one_driver_claims [of "[(1, 8), (2, 9), (3, 8)]" 0 10 no_offers]
  by (simp add: seconds_def TRIED_TTL_SECONDS_def no_offers_def)

section \<open>Accepting an offer\<close>

lemma accept_cases:
  assumes "accept rid uid now m = (Inr ride1, m')"
  obtains r p v db1 where "find_ride rid (mt_rides m) = Some r" "rd_status r = REQUESTED"
    "uid \<in> set (current_offers now rid (mt_offers m))" "find_profile_by_user uid (mt_rides m) = Some p"
    "dp_status p = DR_ACTIVE" "dp_is_review_account p = rd_is_review_account r"
    "find_active_vehicle (dp_id p) (mt_rides m) = Some v"
    "assign_driver r (dp_id p) (ve_id v) now (mt_rides m) = Inr (ride1, db1)"
    "m' = m\<lparr>mt_rides := db1, mt_offers := close_offer rid (snd (claim now rid uid (mt_offers m))),
       mt_locations := set_available uid False now (mt_locations m)\<rparr>"
proof -
  from assms obtain r where l: "load_active_ride rid (mt_rides m) = Inr r"
    by (cases "load_active_ride rid (mt_rides m)") (auto simp: accept_def)
  then have r: "find_ride rid (mt_rides m) = Some r" "rd_status r = REQUESTED"
    by (auto simp: load_active_ride_def split: option.splits if_splits)
  have "\<exists>p v db1. uid \<in> set (current_offers now rid (mt_offers m)) \<and> find_profile_by_user uid (mt_rides m) = Some p
    \<and> dp_status p = DR_ACTIVE \<and> dp_is_review_account p = rd_is_review_account r
    \<and> find_active_vehicle (dp_id p) (mt_rides m) = Some v
    \<and> assign_driver r (dp_id p) (ve_id v) now (mt_rides m) = Inr (ride1, db1)
    \<and> m' = m\<lparr>mt_rides := db1, mt_offers := close_offer rid (snd (claim now rid uid (mt_offers m))),
       mt_locations := set_available uid False now (mt_locations m)\<rparr>"
    using assms unfolding accept_def l sum.case Let_def
    by (auto split: if_splits option.splits sum.splits prod.splits bool.splits)
  with r that show thesis by blast
qed

text \<open>Writing a ride that the table has, with its history: its row is the one written.\<close>

lemma saved_row:
  assumes "find_ride rid db = Some r" and "rd_id r' = rid" and "save_ride now r' db = Inr db1"
  shows "find_ride rid (record_history x db1) = Some (ride_row now (Some r) r')
    \<and> profiles (record_history x db1) = profiles db \<and> vehicles (record_history x db1) = vehicles db"
proof -
  have g: "get_row rd_id (rd_id r') (rides db) = Some r" using assms(1,2) by (simp add: find_ride_def)
  with assms(3) have d: "db1 = db\<lparr>rides := put_row rd_id (rd_id r') (ride_row now (Some r) r') (rides db)\<rparr>"
    by (auto simp: save_ride_def bindR_eq_Inr update_row_def Let_def split: if_splits)
  have "find_ride rid db1 = Some (ride_row now (Some r) r')"
    using get_put_same [OF g, of "ride_row now (Some r) r'"] assms(2) by (simp add: d find_ride_def)
  moreover have "profiles (fold record_status_transition ts db) = profiles db
      \<and> vehicles (fold record_status_transition ts db) = vehicles db" for ts db
    by (induction ts arbitrary: db) (simp_all add: record_status_transition_def)
  ultimately show ?thesis using framed_find [OF framed_history] by (simp add: record_history_def d)
qed

lemma assign_driver_row:
  assumes "find_ride rid db = Some r" and "rd_status r = REQUESTED" and "assign_driver r d v now db = Inr (r1, db1)"
  shows "\<exists>row. find_ride rid db1 = Some row \<and> rd_status row = MATCHED \<and> rd_driver_id row = Some d
    \<and> rd_vehicle_id row = Some v \<and> profiles db1 = profiles db \<and> vehicles db1 = vehicles db"
proof -
  from assms obtain db2 where t: "transition MATCHED now None (r\<lparr>rd_driver_id := Some d, rd_vehicle_id := Some v\<rparr>) = Inr r1"
    and s: "save_ride now r1 db = Inr db2" and h: "db1 = record_history r1 db2"
    by (auto simp: assign_driver_def bindR_eq_Inr)
  have r1: "r1 = moved_to MATCHED now None (r\<lparr>rd_driver_id := Some d, rd_vehicle_id := Some v\<rparr>)"
    using t assms(2) by (auto simp: transition_def split: if_splits)
  have id: "rd_id r1 = rid" using r1 find_ride_mem [OF assms(1)] by simp
  from saved_row [OF assms(1) id s, of r1] show ?thesis
    by (auto simp: h r1 ride_row_def moved_to_def)
qed

text \<open>
  C17: A driver who accepts was offered the ride, is active and has an active vehicle; the ride is then
  matched to that driver and vehicle, the driver is no longer available, and every other answer to the
  same ride is refused as already matched.
\<close>

theorem accept_matches:
  assumes "accept rid uid now m = (Inr ride1, m')"
  shows "uid \<in> set (current_offers now rid (mt_offers m))
    \<and> (\<exists>p v row. find_profile_by_user uid (mt_rides m) = Some p \<and> dp_status p = DR_ACTIVE
        \<and> find_active_vehicle (dp_id p) (mt_rides m) = Some v \<and> find_ride rid (mt_rides m') = Some row
        \<and> rd_status row = MATCHED \<and> rd_driver_id row = Some (dp_id p) \<and> rd_vehicle_id row = Some (ve_id v))
    \<and> \<not> is_available uid t (mt_locations m')
    \<and> accept rid other t m' = (Inl (ApiError 409 ''RIDE_ALREADY_MATCHED''), m')"
proof -
  obtain r p v db1 where r: "find_ride rid (mt_rides m) = Some r" "rd_status r = REQUESTED"
    and o: "uid \<in> set (current_offers now rid (mt_offers m))" and p: "find_profile_by_user uid (mt_rides m) = Some p"
    "dp_status p = DR_ACTIVE" and v: "find_active_vehicle (dp_id p) (mt_rides m) = Some v"
    and a: "assign_driver r (dp_id p) (ve_id v) now (mt_rides m) = Inr (ride1, db1)"
    and m': "m' = m\<lparr>mt_rides := db1, mt_offers := close_offer rid (snd (claim now rid uid (mt_offers m))),
       mt_locations := set_available uid False now (mt_locations m)\<rparr>"
    using accept_cases [OF assms] by metis
  obtain row where row: "find_ride rid db1 = Some row" "rd_status row = MATCHED" "rd_driver_id row = Some (dp_id p)"
    "rd_vehicle_id row = Some (ve_id v)"
    using assign_driver_row [OF r a] by blast
  have "accept rid other t m' = (Inl (ApiError 409 ''RIDE_ALREADY_MATCHED''), m')"
    using row(1,2) by (simp add: accept_def load_active_ride_def m')
  moreover have "\<not> is_available uid t (mt_locations m')"
    by (simp add: m' is_available_def set_available_def alive_def)
  ultimately show ?thesis using o p v row by (simp add: m')
qed

theorem accept_matches_witness:
  "\<exists>ride1 m'. accept 10 8 2 trip_world = (Inr ride1, m') \<and> \<not> is_available 8 3 (mt_locations m')
    \<and> accept 10 9 3 m' = (Inl (ApiError 409 ''RIDE_ALREADY_MATCHED''), m')"
proof -
  obtain x m' where a: "accept 10 8 2 trip_world = (x, m')" by fastforce
  have "mt_rides m' = trip_matched" by (simp add: trip_matched_def a)
  moreover have "rides (mt_rides m') = rides (mt_rides trip_world)" if "x = Inl e" for e
  proof -
    have "mt_rides (snd (accept 10 8 2 trip_world)) = mt_rides trip_world" if "fst (accept 10 8 2 trip_world) = Inl e"
      using that unfolding accept_def Let_def
      by (auto split: sum.splits if_splits option.splits prod.splits bool.splits)
    with that a show ?thesis by simp
  qed
  ultimately obtain ride1 where "x = Inr ride1"
    using trip_ride1_fields(2) trip_ride_fields(2)
    by (cases x) (auto simp: trip_matched_state trip_world_def trip_asked_state simp del: trip_ride1_fields trip_ride_fields)
  with a have acc: "accept 10 8 2 trip_world = (Inr ride1, m')" by simp
  from accept_matches [OF acc, of 3 9] acc show ?thesis by blast
qed

text \<open>
  C18: An accept that fails, whatever the reason, leaves the tables, the offers, the drivers tried and
  their availability as they were, and holds no claim that was not held before.
\<close>

theorem failed_accept_restores:
  assumes "accept rid uid now m = (Inl e, m')"
  shows "mt_rides m' = mt_rides m \<and> mt_locations m' = mt_locations m
    \<and> os_offers (mt_offers m') = os_offers (mt_offers m) \<and> os_tried (mt_offers m') = os_tried (mt_offers m)
    \<and> (live t (os_claims (mt_offers m) rid) = None \<longrightarrow> live t (os_claims (mt_offers m') rid) = None)
    \<and> (\<forall>k. k \<noteq> rid \<longrightarrow> os_claims (mt_offers m') k = os_claims (mt_offers m) k)"
proof -
  have c: "os_offers (snd (claim now rid uid st)) = os_offers st" "os_tried (snd (claim now rid uid st)) = os_tried st"
    "k \<noteq> rid \<Longrightarrow> os_claims (snd (claim now rid uid st)) k = os_claims st k"
    "\<not> fst (claim now rid uid st) \<Longrightarrow> snd (claim now rid uid st) = st" for st k
    by (auto simp: claim_def)
  consider "m' = m" | "m' = m\<lparr>mt_offers := snd (claim now rid uid (mt_offers m))\<rparr>" "\<not> fst (claim now rid uid (mt_offers m))"
    | "m' = m\<lparr>mt_offers := release_claim rid (snd (claim now rid uid (mt_offers m)))\<rparr>"
    using assms unfolding accept_def Let_def
    by (auto split: sum.splits if_splits option.splits prod.splits bool.splits)
  then show ?thesis
  proof cases
    case 3
    then show ?thesis by (simp add: release_claim_def c)
  qed (simp_all add: c)
qed

theorem failed_accept_restores_witness:
  "\<exists>e m'. accept 10 9 2 trip_world = (Inl e, m') \<and> mt_rides m' = trip_asked"
proof -
  have "\<exists>e m'. accept 10 9 2 trip_world = (Inl e, m')"
    by (simp add: accept_def load_active_ride_def trip_world_def trip_asked_state current_offers_def
        open_offers_def seconds_def OFFER_TTL_SECONDS_def Let_def)
  then obtain e m' where a: "accept 10 9 2 trip_world = (Inl e, m')" by blast
  from failed_accept_restores [OF a, of 3] a show ?thesis by (auto simp: trip_world_def)
qed

section \<open>The candidates of a wave\<close>

text \<open>\<open>fit env ride db u\<close>: some state of the wallets lets driver \<open>u\<close> take the ride.\<close>

definition fit :: "match_env \<Rightarrow> ride \<Rightarrow> ride_db \<Rightarrow> uuid \<Rightarrow> bool" where
  "fit env ride db u \<longleftrightarrow> (\<exists>pay. fst (can_take_ride env u ride db pay) = None)"

lemma fit_facts:
  assumes "fit env ride db u"
  shows "\<exists>p v. find_profile_by_user u db = Some p \<and> dp_status p = DR_ACTIVE
    \<and> dp_is_review_account p = rd_is_review_account ride \<and> find_active_vehicle (dp_id p) db = Some v
    \<and> ve_category v = rd_vehicle_category ride \<and> comfort_can_serve (ve_comfort_level v) (rd_comfort_level ride)
    \<and> \<not> fst (me_blocked_by_partner env (dp_id p))"
proof -
  from assms obtain pay where f: "fst (can_take_ride env u ride db pay) = None" unfolding fit_def by blast
  then obtain p where p: "find_profile_by_user u db = Some p"
    by (cases "find_profile_by_user u db") (simp_all add: can_take_ride_def)
  with f obtain v where v: "find_active_vehicle (dp_id p) db = Some v"
    and q: "dp_status p = DR_ACTIVE" "dp_is_review_account p = rd_is_review_account ride"
    by (cases "find_active_vehicle (dp_id p) db") (auto simp: can_take_ride_def split: if_splits)
  obtain blocked reason where b: "me_blocked_by_partner env (dp_id p) = (blocked, reason)" by fastforce
  obtain w pay1 where w: "get_or_create_wallet (dp_id p) ''XOF'' pay = (w, pay1)" by fastforce
  from f p v q b w have "\<not> blocked" "ve_category v = rd_vehicle_category ride"
    "comfort_can_serve (ve_comfort_level v) (rd_comfort_level ride)"
    by (auto simp: can_take_ride_def split: if_splits bool.splits)
  with p v q b show ?thesis by simp
qed

lemma shortlist_prop:
  "fst (shortlist env ride db tried most us eligible pay) = eligible @ xs \<Longrightarrow>
   (\<forall>u \<in> set xs. u \<in> set us \<and> u \<notin> set tried \<and> fit env ride db u)
   \<and> (distinct us \<longrightarrow> distinct xs)"
proof (induction env ride db tried most us eligible pay arbitrary: xs rule: shortlist.induct)
  case (2 env ride db tried most u us eligible pay)
  show ?case
  proof (cases "u \<in> set tried")
    case True
    with "2.prems" "2.IH"(1) [OF True, of xs] show ?thesis by auto
  next
    case False
    obtain out pay1 where c: "can_take_ride env u ride db pay = (out, pay1)" by fastforce
    show ?thesis
    proof (cases out)
      case (Some x)
      with "2.prems" "2.IH"(3) [OF False c [symmetric] Some, of xs] False c show ?thesis by auto
    next
      case None
      have fit: "fit env ride db u" using c None unfolding fit_def by (intro exI [of _ pay]) simp
      show ?thesis
      proof (cases "most \<le> int (length (eligible @ [u]))")
        case True
        with "2.prems" False c None fit show ?thesis by auto
      next
        case more: False
        have out: "fst (shortlist env ride db tried most us (eligible @ [u]) pay1) = eligible @ xs"
          using "2.prems" False c None more by simp
        have "\<exists>zs. fst (shortlist env ride db tried most us el p) = el @ zs" for us el p
        proof (induction us arbitrary: el p)
          case (Cons v vs)
          obtain o2 p2 where c2: "can_take_ride env v ride db p = (o2, p2)" by fastforce
          show ?case
            using Cons.IH [of el p] Cons.IH [of el p2] Cons.IH [of "el @ [v]" p2]
            by (cases o2) (auto simp: c2)
        qed simp
        then obtain zs where zs: "fst (shortlist env ride db tried most us (eligible @ [u]) pay1) = (eligible @ [u]) @ zs"
          by blast
        with out have xs: "xs = u # zs" by simp
        from "2.IH"(2) [OF False c [symmetric] None more zs] show ?thesis using False fit by (auto simp: xs)
      qed
    qed
  qed
qed simp

lemma rank_mset: "mset (rank_by_eta env ride us now db locs) = mset us"
proof -
  have "mset (filter P xs) + mset (filter (\<lambda>u. \<not> P u) xs) = mset xs" for P and xs :: "uuid list"
    by (induction xs) auto
  from this [of "\<lambda>u. eta_of env q locs us u \<noteq> None" us for q] show ?thesis
    by (auto simp: rank_by_eta_def Let_def split: option.split)
qed

lemma rank_set: "set (rank_by_eta env ride us now db locs) = set us"
  using rank_mset by (rule mset_eq_setD)

lemma set_py_take: "set (py_take n xs) \<subseteq> set xs"
  by (simp add: py_take_def set_take_subset)

text \<open>What the candidates of a wave are.\<close>

lemma candidates_facts:
  assumes "next_candidates env ride now m = Inr (ds, pay1)"
  shows "(\<forall>u \<in> set ds. u \<notin> set (already_tried now (rd_id ride) (mt_offers m))
      \<and> is_online_and_available u now (mt_locations m) \<and> fit env ride (mt_rides m) u)
    \<and> ((\<forall>ps p r n. distinct (me_geosearch env ps p r n)) \<longrightarrow> distinct ds)
    \<and> (0 < dc_offer_wave_size (me_config env) \<longrightarrow> int (length ds) \<le> dc_offer_wave_size (me_config env))"
proof (cases "rd_pickup_location ride")
  case None
  with assms show ?thesis by (auto simp: next_candidates_def)
next
  case (Some pickup)
  obtain radius el where ds: "ds = py_take (dc_offer_wave_size (me_config env))
        (rank_by_eta env ride el now (mt_rides m) (mt_locations m))"
    and el: "el = fst (shortlist env ride (mt_rides m) (already_tried now (rd_id ride) (mt_offers m))
       (max (dc_offer_wave_size (me_config env)) (dc_eta_shortlist_size (me_config env)))
       (find_available_nearby (me_geosearch env) pickup radius MAX_CANDIDATES now (mt_locations m)) [] (mt_pay m))"
    using assms Some by (auto simp: next_candidates_def Let_def case_prod_beta split: if_splits)
  have e: "(\<forall>u \<in> set el. u \<in> set (find_available_nearby (me_geosearch env) pickup radius MAX_CANDIDATES now (mt_locations m))
      \<and> u \<notin> set (already_tried now (rd_id ride) (mt_offers m)) \<and> fit env ride (mt_rides m) u)
    \<and> (distinct (find_available_nearby (me_geosearch env) pickup radius MAX_CANDIDATES now (mt_locations m)) \<longrightarrow> distinct el)"
    using shortlist_prop [of env ride "mt_rides m" _ _ _ "[]" "mt_pay m" el] el by simp
  have "0 < dc_offer_wave_size (me_config env) \<longrightarrow> length ds \<le> nat (dc_offer_wave_size (me_config env))"
    by (simp add: ds py_take_def)
  moreover have "set ds \<subseteq> set el"
    unfolding ds using set_py_take rank_set by fastforce
  moreover have "distinct el \<longrightarrow> distinct ds"
    unfolding ds py_take_def using mset_eq_imp_distinct_iff [OF rank_mset] by auto
  moreover have "(\<forall>ps p r n. distinct (me_geosearch env ps p r n)) \<longrightarrow>
      distinct (find_available_nearby (me_geosearch env) pickup radius MAX_CANDIDATES now (mt_locations m))"
    by (simp add: find_available_nearby_def search_drivers_def)
  ultimately show ?thesis using e found_available by (fastforce simp: nat_le_iff)
qed

text \<open>
  C19: Every driver of a new wave is nearby, online and free, was not tried before, is active, in the
  right cohort and not blocked by a partner, and drives a vehicle of the asked category and a sufficient
  comfort; a wave has at most the configured number of drivers.
\<close>

theorem candidates_can_serve:
  assumes "next_candidates env ride now m = Inr (ds, pay1)" and "0 < dc_offer_wave_size (me_config env)"
  shows "int (length ds) \<le> dc_offer_wave_size (me_config env)
    \<and> (\<forall>u \<in> set ds. u \<notin> set (already_tried now (rd_id ride) (mt_offers m))
        \<and> is_online_and_available u now (mt_locations m)
        \<and> (\<exists>p v. find_profile_by_user u (mt_rides m) = Some p \<and> dp_status p = DR_ACTIVE
            \<and> dp_is_review_account p = rd_is_review_account ride
            \<and> \<not> fst (me_blocked_by_partner env (dp_id p))
            \<and> find_active_vehicle (dp_id p) (mt_rides m) = Some v \<and> ve_category v = rd_vehicle_category ride
            \<and> comfort_can_serve (ve_comfort_level v) (rd_comfort_level ride)))"
  using candidates_facts [OF assms(1)] fit_facts [of env ride "mt_rides m"] assms(2) by fast

definition trip_match_env :: match_env where
  "trip_match_env = \<lparr>me_geosearch = (\<lambda>_ _ _ _. [8]), me_eta = (\<lambda>p q. Inr (py_trunc (60 * \<bar>lat p - lat q\<bar>))),
     me_has_routing = True, me_eta_ranking_enabled = True, me_blocked_by_partner = (\<lambda>_. (False, None)),
     me_min_balance = 0, me_max_commission = 0, me_config = trip_config\<rparr>"

definition trip_online :: driver_locations where
  "trip_online = set_available 8 True 0 (update_position 60 8 (trip_point 5) None 0 no_drivers)"

definition trip_search :: matching where
  "trip_search = \<lparr>mt_rides = trip_asked, mt_pay = empty_pay_db, mt_offers = no_offers, mt_locations = trip_online\<rparr>"

lemma trip_found: "find_available_nearby (me_geosearch trip_match_env) p r MAX_CANDIDATES 1 trip_online = [8]"
  by (simp add: find_available_nearby_def search_drivers_def trip_match_env_def trip_online_def MAX_CANDIDATES_def
      set_available_def update_position_def alive_def seconds_def PRESENCE_TTL_SECONDS_def AVAILABILITY_TTL_SECONDS_def)

lemma trip_ride_kind [simp]:
  "rd_vehicle_category trip_ride = VC_STANDARD" "rd_comfort_level trip_ride = CL_STANDARD"
  "rd_platform_commission trip_ride = Some 300"
  by (simp_all add: trip_ride_def ride_of_quote_def new_ride_def trip_quote_def)

lemma trip_candidates: "\<exists>pay. next_candidates trip_match_env trip_ride 1 trip_search = Inr ([8], pay)"
proof -
  have c: "fst (can_take_ride trip_match_env 8 trip_ride (trip_state r h es) empty_pay_db) = None" for r h es
    by (simp add: can_take_ride_def)
      (simp add: trip_driver_def new_driver_profile_def find_active_vehicle_def trip_vehicle_def new_vehicle_def trip_match_env_def
        get_or_create_wallet_def empty_pay_db_def new_id_def insert_do_nothing_def comfort_can_serve_def Let_def)
  then obtain pay where c': "can_take_ride trip_match_env 8 trip_ride (trip_state trip_ride [] []) empty_pay_db = (None, pay)"
    by (metis prod.collapse)
  show ?thesis
    using c' trip_found
    by (simp add: next_candidates_def trip_search_def trip_asked_state already_tried_def no_offers_def rank_by_eta_def Let_def)
      (simp add: trip_match_env_def trip_config_def py_take_def)
qed

theorem candidates_can_serve_witness:
  "\<exists>pay. next_candidates trip_match_env trip_ride 1 trip_search = Inr ([8], pay)
    \<and> is_online_and_available 8 1 trip_online \<and> (\<exists>p. find_profile_by_user 8 trip_asked = Some p \<and> dp_status p = DR_ACTIVE)"
proof -
  obtain pay where n: "next_candidates trip_match_env trip_ride 1 trip_search = Inr ([8], pay)"
    using trip_candidates by blast
  have w: "0 < dc_offer_wave_size (me_config trip_match_env)" by (simp add: trip_match_env_def trip_config_def)
  from candidates_can_serve [OF n w] n show ?thesis by (auto simp: trip_search_def)
qed

section \<open>Ranking\<close>

text \<open>The score of the ranking: travel time less the capped priority bonus.\<close>

definition wave_score :: "match_env \<Rightarrow> geo_point \<Rightarrow> uuid list \<Rightarrow> datetime \<Rightarrow> ride_db \<Rightarrow> driver_locations \<Rightarrow> uuid \<Rightarrow> int" where
  "wave_score env pickup us now db locs u =
     (case eta_of env pickup locs us u of None \<Rightarrow> 0 | Some t \<Rightarrow> t)
       - bonus_of (priority_bonuses env (filter (\<lambda>u. eta_of env pickup locs us u \<noteq> None) us) now db) u"

lemma bonus_capped:
  assumes "0 \<le> dc_priority_cap_seconds (me_config env)"
  shows "bonus_of (priority_bonuses env us now db) u \<le> dc_priority_cap_seconds (me_config env)"
  using assms by (auto simp: bonus_of_def priority_bonuses_def Let_def split: option.split)

text \<open>
  C20: Ranking is a permutation of the shortlist. When travel times are known it puts the drivers that
  have one first, in the order of their score, and the others after them; a driver can overtake another
  whose bonus is not negative by at most the cap.
\<close>

theorem ranking_by_score:
  assumes "me_has_routing env" and "me_eta_ranking_enabled env" and "1 < length us"
    and "rd_pickup_location ride = Some pickup" and "0 \<le> dc_priority_cap_seconds (me_config env)"
  shows "mset (rank_by_eta env ride us now db locs) = mset us
    \<and> (\<exists>timed untimed. rank_by_eta env ride us now db locs = timed @ untimed
        \<and> (\<forall>u \<in> set timed. eta_of env pickup locs us u \<noteq> None) \<and> (\<forall>u \<in> set untimed. eta_of env pickup locs us u = None)
        \<and> sorted (map (wave_score env pickup us now db locs) timed)
        \<and> (\<forall>i j. i < j \<and> j < length timed
            \<and> 0 \<le> bonus_of (priority_bonuses env (filter (\<lambda>u. eta_of env pickup locs us u \<noteq> None) us) now db) (timed ! j)
            \<longrightarrow> the (eta_of env pickup locs us (timed ! i))
              \<le> the (eta_of env pickup locs us (timed ! j)) + dc_priority_cap_seconds (me_config env)))"
proof -
  let ?eta = "eta_of env pickup locs us"
  let ?timed = "filter (\<lambda>u. ?eta u \<noteq> None) us" and ?un = "filter (\<lambda>u. ?eta u = None) us"
  let ?bonus = "bonus_of (priority_bonuses env ?timed now db)"
  let ?key = "\<lambda>u. the (?eta u) - ?bonus u"
  let ?s = "sort_key ?key ?timed"
  have r: "rank_by_eta env ride us now db locs = ?s @ ?un"
  proof (cases "?timed = []")
    case True
    then have "?un = us" by (auto simp: filter_empty_conv intro: filter_True)
    with True assms(1-4) show ?thesis by (simp add: rank_by_eta_def Let_def)
  qed (use assms(1-4) in \<open>simp add: rank_by_eta_def Let_def\<close>)
  have t: "\<forall>u \<in> set ?s. ?eta u \<noteq> None" by simp
  have "map (wave_score env pickup us now db locs) ?s = map ?key ?s"
    by (rule map_cong [OF refl]) (auto simp: wave_score_def)
  moreover have "sorted (map ?key ?s)" by (rule sorted_sort_key)
  ultimately have sorted: "sorted (map (wave_score env pickup us now db locs) ?s)" by (simp only:)
  have cap: "the (?eta (?s ! i)) \<le> the (?eta (?s ! j)) + dc_priority_cap_seconds (me_config env)"
    if "i < j" "j < length ?s" "0 \<le> ?bonus (?s ! j)" for i j
  proof -
    have "?key (?s ! i) \<le> ?key (?s ! j)"
      using sorted_nth_mono [of "map ?key ?s" i j] that(1,2) by (simp del: length_sort)
    moreover have "?bonus (?s ! i) \<le> dc_priority_cap_seconds (me_config env)" by (rule bonus_capped [OF assms(5)])
    ultimately show ?thesis using that(3) by linarith
  qed
  show ?thesis
    by (intro conjI exI [of _ ?s] exI [of _ ?un] rank_mset r t sorted)
      (use cap in \<open>auto simp del: length_sort\<close>)
qed

text \<open>
  Two drivers: 9 one minute from the pickup, 8 two and a half minutes away with 12 priority points.
\<close>

definition trip_boosted :: ride_db where
  "trip_boosted = trip_fleet\<lparr>priority_events := record_boost 2 12 9 ''zone'' None 0 []\<rparr>"

definition trip_pair :: driver_locations where
  "trip_pair = no_drivers\<lparr>dl_positions := [8 \<mapsto> trip_point (15 / 2), 9 \<mapsto> trip_point 6]\<rparr>"

lemma trip_etas:
  "eta_of trip_match_env (trip_point 5) trip_pair [9, 8] 8 = Some 150"
  "eta_of trip_match_env (trip_point 5) trip_pair [9, 8] 9 = Some 60"
  by code_simp+

lemma trip_bonuses:
  "bonus_of (priority_bonuses trip_match_env [9, 8] 1 trip_boosted) 8 = 120"
  "bonus_of (priority_bonuses trip_match_env [9, 8] 1 trip_boosted) 9 = 0"
  by code_simp+

text \<open>
  The comment at the ranking promises that the cap keeps a far driver from ever outranking a nearer one;
  with the default cap of two minutes the driver at 150 seconds comes before the one at 60 seconds.
\<close>

theorem farther_driver_first:
  "rank_by_eta trip_match_env trip_ride [9, 8] 1 trip_boosted trip_pair = [8, 9]
    \<and> the (eta_of trip_match_env (trip_point 5) trip_pair [9, 8] 9)
      < the (eta_of trip_match_env (trip_point 5) trip_pair [9, 8] 8)"
  by (simp add: rank_by_eta_def trip_etas trip_bonuses Let_def)
    (simp add: trip_match_env_def)

theorem ranking_by_score_witness:
  "mset (rank_by_eta trip_match_env trip_ride [9, 8] 1 trip_boosted trip_pair) = {#9, 8#}
    \<and> (\<exists>timed untimed. timed @ untimed = [8, 9]
        \<and> sorted (map (wave_score trip_match_env (trip_point 5) [9, 8] 1 trip_boosted trip_pair) timed))"
proof -
  have a: "me_has_routing trip_match_env" "me_eta_ranking_enabled trip_match_env" "1 < length [9 :: uuid, 8]"
    "rd_pickup_location trip_ride = Some (trip_point 5)" "0 \<le> dc_priority_cap_seconds (me_config trip_match_env)"
    by (simp_all add: trip_match_env_def trip_config_def)
  have r: "rank_by_eta trip_match_env trip_ride [9, 8] 1 trip_boosted trip_pair = [8, 9]"
    by (simp add: rank_by_eta_def trip_etas trip_bonuses Let_def) (simp add: trip_match_env_def)
  from ranking_by_score [OF a, of 1 trip_boosted trip_pair] show ?thesis
    by (simp only: r mset.simps eq_commute [of "[8, 9]"]) blast
qed

section \<open>The waves of one search\<close>

text \<open>A search is driven by declines and by the timer that finds an offer expired.\<close>

datatype dispatch_event = Expired | Declined uuid

fun dispatch_step ::
  "match_env \<Rightarrow> uuid \<Rightarrow> datetime \<Rightarrow> dispatch_event \<Rightarrow> matching \<Rightarrow> (exn + matching_dispatch) \<times> matching" where
  "dispatch_step env rid now Expired m = keep_redis m (advance_expired_offer env rid now m)"
| "dispatch_step env rid now (Declined uid) m = decline env rid uid now m"

definition new_wave :: "exn + matching_dispatch \<Rightarrow> uuid list" where
  "new_wave r = (case r of Inl _ \<Rightarrow> [] | Inr d \<Rightarrow> if md_new_wave d then md_drivers d else [])"

fun offer_waves :: "match_env \<Rightarrow> uuid \<Rightarrow> (datetime \<times> dispatch_event) list \<Rightarrow> matching \<Rightarrow> uuid list list" where
  "offer_waves env rid [] m = []"
| "offer_waves env rid ((t, a) # as) m =
     (let (r, m') = dispatch_step env rid t a m in new_wave r # offer_waves env rid as m')"

text \<open>The drivers of \<open>X\<close> are remembered up to \<open>h\<close>, or the ride no longer looks for one.\<close>

definition remembered :: "uuid \<Rightarrow> datetime \<Rightarrow> uuid set \<Rightarrow> matching \<Rightarrow> bool" where
  "remembered rid h X m \<longleftrightarrow> (\<exists>r. find_ride rid (mt_rides m) = Some r \<and> rd_status r \<noteq> REQUESTED)
     \<or> X = {} \<or> (\<exists>ds e. os_tried (mt_offers m) rid = Some (ds, e) \<and> X \<subseteq> set ds \<and> h \<le> e)"

text \<open>One event: its wave has nobody of \<open>X\<close>, and afterwards \<open>X\<close> and the wave are remembered.\<close>

definition good_wave :: "match_env \<Rightarrow> uuid \<Rightarrow> datetime \<Rightarrow> uuid set \<Rightarrow> matching \<Rightarrow> uuid list \<Rightarrow> matching \<Rightarrow> bool" where
  "good_wave env rid h X m ds m' \<longleftrightarrow> distinct ds \<and> set ds \<inter> X = {} \<and> remembered rid h (X \<union> set ds) m'
     \<and> profiles (mt_rides m') = profiles (mt_rides m) \<and> set ds \<subseteq> dp_user_id ` set (profiles (mt_rides m))"

lemma good_wave_same: "remembered rid h X m \<Longrightarrow> good_wave env rid h X m [] m"
  by (simp add: good_wave_def)

lemma gave_up:
  assumes "find_ride rid (mt_rides m) = Some r" and "rd_status r = REQUESTED" and "give_up r now m = Inr m'"
  shows "good_wave env rid h X m [] m'"
proof -
  from assms(3) obtain r1 db1 where t: "transition NO_DRIVER_FOUND now None r = Inr r1"
    and s: "save_ride now r1 (mt_rides m) = Inr db1" and m': "mt_rides m' = record_history r1 db1"
    by (auto simp: give_up_def bindR_eq_Inr)
  have r1: "r1 = moved_to NO_DRIVER_FOUND now None r"
    using t assms(2) by (auto simp: transition_def split: if_splits)
  have id: "rd_id r1 = rid" using r1 find_ride_mem [OF assms(1)] by simp
  from saved_row [OF assms(1) id s, of r1] show ?thesis
    by (auto simp: good_wave_def remembered_def m' r1 ride_row_def moved_to_def)
qed

lemma fit_user: "fit env ride db u \<Longrightarrow> u \<in> dp_user_id ` set (profiles db)"
  by (drule fit_facts) (auto simp: find_profile_by_user_def dest!: get_row_Some)

lemma opened_wave:
  assumes "remembered rid h X m" and "rd_id r = rid" and "rd_status r = REQUESTED" and "find_ride rid (mt_rides m) = Some r"
    and "now < h" and "h \<le> now + seconds TRIED_TTL_SECONDS" and "\<forall>ps p r n. distinct (me_geosearch env ps p r n)"
    and "next_candidates env r now m = Inr (ds, pay1)" and "ds \<noteq> []"
  shows "good_wave env rid h X m ds (m\<lparr>mt_pay := pay1, mt_offers := open_offers now rid ds (mt_offers m)\<rparr>)"
proof -
  note c = candidates_facts [OF assms(8)]
  have X: "X \<subseteq> set (already_tried now rid (mt_offers m))"
    using assms(1,3,4,5) by (auto simp: remembered_def already_tried_def)
  have "distinct ds" using c assms(7) by blast
  moreover have "set ds \<inter> X = {}" using c X assms(2) by blast
  moreover have "set ds \<subseteq> dp_user_id ` set (profiles (mt_rides m))" using c fit_user by blast
  ultimately show ?thesis
    using X assms(6,9) by (auto simp: good_wave_def remembered_def open_offers_def)
qed

lemma try_match_wave:
  assumes "remembered rid h X m" and "find_ride rid (mt_rides m) = Some r" and "now < h"
    and "h \<le> now + seconds TRIED_TTL_SECONDS" and "\<forall>ps p r n. distinct (me_geosearch env ps p r n)"
    and "try_match env r now m = Inr (d, m')"
  shows "good_wave env rid h X m (new_wave (Inr d)) m'"
proof (cases "rd_status r = REQUESTED")
  case False
  with assms(6) good_wave_same [OF assms(1)] show ?thesis by (auto simp: try_match_def new_wave_def no_dispatch_def)
next
  case True
  have id: "rd_id r = rid" using find_ride_mem [OF assms(2)] by simp
  have gu: "good_wave env rid h X m [] m2" if "give_up r now (m\<lparr>mt_pay := p\<rparr>) = Inr m2" for p m2
    using gave_up [of rid "m\<lparr>mt_pay := p\<rparr>" r now m2 env h X] that assms(2) True by (simp add: good_wave_def)
  consider (stop) "give_up r now m = Inr m'" "d = given_up"
    | (wait) "md_new_wave d = False" "m' = m"
    | (none) p where "give_up r now (m\<lparr>mt_pay := p\<rparr>) = Inr m'" "d = given_up"
    | (wave) p ds where "next_candidates env r now m = Inr (ds, p)" "ds \<noteq> []" "new_wave (Inr d) = ds"
        "m' = m\<lparr>mt_pay := p, mt_offers := open_offers now rid ds (mt_offers m)\<rparr>"
  proof (cases "search_budget_exceeded env r now \<or> (0 < me_max_commission env
      \<and> (case rd_platform_commission r of None \<Rightarrow> False | Some c \<Rightarrow> me_max_commission env < c))")
    case b: True
    have "try_match env r now m = bindR (give_up r now m) (\<lambda>m1. Inr (given_up, m1))"
      by (simp only: try_match_def True b simp_thms if_True if_False)
    with assms(6) show thesis by (auto simp: bindR_eq_Inr intro: stop)
  next
    case b: False
    have m: "try_match env r now m = (if current_offers now rid (mt_offers m) \<noteq> []
        then Inr (no_dispatch\<lparr>md_drivers := current_offers now rid (mt_offers m)\<rparr>, m)
        else bindR (next_candidates env r now m) (\<lambda>(ds, p).
          if ds = [] then bindR (give_up r now (m\<lparr>mt_pay := p\<rparr>)) (\<lambda>m2. Inr (given_up, m2))
          else Inr (no_dispatch\<lparr>md_drivers := ds, md_new_wave := True\<rparr>,
            m\<lparr>mt_pay := p, mt_offers := open_offers now rid ds (mt_offers (m\<lparr>mt_pay := p\<rparr>))\<rparr>)))"
      by (simp only: try_match_def True b id simp_thms if_True if_False Let_def)
    show thesis
    proof (cases "current_offers now rid (mt_offers m) = []")
      case o: False
      with assms(6) m show thesis by (intro wait) (auto simp: no_dispatch_def)
    next
      case o: True
      from assms(6) m o obtain ds p where n: "next_candidates env r now m = Inr (ds, p)"
        by (cases "next_candidates env r now m") auto
      show thesis
      proof (cases "ds = []")
        case e: True
        show thesis
        proof (rule none)
          show "give_up r now (m\<lparr>mt_pay := p\<rparr>) = Inr m'" "d = given_up"
            using assms(6) m o n e by (auto simp: bindR_eq_Inr)
        qed
      next
        case e: False
        have "d = no_dispatch\<lparr>md_drivers := ds, md_new_wave := True\<rparr>
            \<and> m' = m\<lparr>mt_pay := p, mt_offers := open_offers now rid ds (mt_offers m)\<rparr>"
          using assms(6) m o n e by simp
        with n e show thesis by (intro wave) (simp_all add: new_wave_def)
      qed
    qed
  qed
  then show ?thesis
  proof cases
    case stop
    with gu [of "mt_pay m" m'] show ?thesis by (simp add: new_wave_def given_up_def)
  next
    case wait
    with good_wave_same [OF assms(1)] show ?thesis by (simp add: new_wave_def)
  next
    case none
    with gu show ?thesis by (simp add: new_wave_def given_up_def)
  next
    case wave
    with opened_wave [OF assms(1) id True assms(2-5)] show ?thesis by simp
  qed
qed

lemma dispatch_step_wave:
  assumes "remembered rid h X m" and "now < h" and "h \<le> now + seconds TRIED_TTL_SECONDS"
    and "\<forall>ps p r n. distinct (me_geosearch env ps p r n)" and "dispatch_step env rid now a m = (r, m')"
  shows "good_wave env rid h X m (new_wave r) m'"
proof -
  have keep: "good_wave env rid h X m (new_wave r) m'"
    if step: "keep_redis m1 (try_match env ride now m1) = (r, m')" and m1: "m1 = m\<lparr>mt_offers := offers1\<rparr>"
      and tried: "os_tried offers1 = os_tried (mt_offers m)" and f: "find_ride rid (mt_rides m) = Some ride" for m1 offers1 ride
  proof -
    have rem: "remembered rid h X m1" using assms(1) tried by (simp add: remembered_def m1)
    show ?thesis
    proof (cases "try_match env ride now m1")
      case (Inl e)
      with step good_wave_same [OF rem, of env] show ?thesis by (auto simp: keep_redis_def new_wave_def good_wave_def m1)
    next
      case (Inr q)
      obtain d m2 where q: "q = (d, m2)" by fastforce
      with Inr try_match_wave [OF rem _ assms(2-4), of ride d m2] f
      have "good_wave env rid h X m1 (new_wave (Inr d)) m2" by (simp add: m1)
      with step Inr q show ?thesis by (auto simp: keep_redis_def good_wave_def m1)
    qed
  qed
  have same: "good_wave env rid h X m [] m" by (rule good_wave_same [OF assms(1)])
  show ?thesis
  proof (cases a)
    case Expired
    show ?thesis
    proof (cases "current_offers now rid (mt_offers m) \<noteq> [] \<or> find_ride rid (mt_rides m) = None
        \<or> rd_status (the (find_ride rid (mt_rides m))) \<noteq> REQUESTED")
      case True
      with assms(5) same Expired show ?thesis
        by (auto simp: advance_expired_offer_def keep_redis_def Let_def new_wave_def no_dispatch_def split: if_splits option.splits)
    next
      case False
      with assms(5) Expired obtain ride where "find_ride rid (mt_rides m) = Some ride"
        "keep_redis m (try_match env ride now m) = (r, m')"
        by (auto simp: advance_expired_offer_def Let_def)
      with keep [of m ride "mt_offers m"] show ?thesis by simp
    qed
  next
    case (Declined uid)
    have tried: "os_tried (snd (decline_offer now rid uid st)) = os_tried st" for st
      by (simp add: decline_offer_def close_offer_def Let_def split: option.split offer_value.split)
    have kept: "good_wave env rid h X m [] (m\<lparr>mt_offers := snd (decline_offer now rid uid (mt_offers m))\<rparr>)"
      using assms(1) by (simp add: good_wave_def remembered_def tried)
    show ?thesis
    proof (cases "load_active_ride rid (mt_rides m)")
      case (Inl e)
      with assms(5) same Declined show ?thesis by (auto simp: decline_def new_wave_def)
    next
      case (Inr ride)
      then have f: "find_ride rid (mt_rides m) = Some ride" by (auto simp: load_active_ride_def split: option.splits if_splits)
      obtain still offers1 where d: "decline_offer now rid uid (mt_offers m) = (still, offers1)" by fastforce
      from assms(5) Declined Inr d consider "new_wave r = []" "m' = m" | "new_wave r = []" "m' = m\<lparr>mt_offers := offers1\<rparr>"
        | "keep_redis (m\<lparr>mt_offers := offers1\<rparr>) (try_match env ride now (m\<lparr>mt_offers := offers1\<rparr>)) = (r, m')"
        by (auto simp: decline_def Let_def new_wave_def no_dispatch_def split: if_splits)
      then show ?thesis
        by cases (use same kept keep [OF _ refl _ f, of offers1] tried [of "mt_offers m"] in \<open>simp_all add: d\<close>)
    qed
  qed
qed

lemma waves_remembered:
  assumes "\<forall>ps p r n. distinct (me_geosearch env ps p r n)"
    and "\<forall>(t, a) \<in> set as. t < h \<and> h \<le> t + seconds TRIED_TTL_SECONDS"
  shows "remembered rid h X m \<Longrightarrow> distinct (concat (offer_waves env rid as m))
    \<and> set (concat (offer_waves env rid as m)) \<inter> X = {}
    \<and> set (concat (offer_waves env rid as m)) \<subseteq> dp_user_id ` set (profiles (mt_rides m))"
  using assms(2)
proof (induction as arbitrary: X m)
  case (Cons x as)
  obtain t a where x: "x = (t, a)" by fastforce
  obtain r m' where s: "dispatch_step env rid t a m = (r, m')" by fastforce
  have g: "good_wave env rid h X m (new_wave r) m'"
    using dispatch_step_wave [OF Cons.prems(1) _ _ assms(1) s] Cons.prems(2) by (simp add: x)
  with Cons.IH [of "X \<union> set (new_wave r)" m'] Cons.prems(2) show ?case
    by (auto simp: x s good_wave_def)
qed simp

lemma nonempty_waves: "length (filter (\<lambda>w. w \<noteq> []) ws) \<le> length (concat ws)"
proof (induction ws)
  case (Cons w ws)
  then show ?case by (cases w) auto
qed simp

text \<open>
  C21: While a search lasts less than the memory of the drivers tried, however declines and expiries
  follow each other, no driver is offered the ride twice, and at most as many waves are opened as there
  are driver profiles.
\<close>

theorem nobody_asked_twice:
  assumes "\<forall>ps p r n. distinct (me_geosearch env ps p r n)"
    and "\<forall>(t, a) \<in> set events. t0 \<le> t \<and> t < t0 + seconds TRIED_TTL_SECONDS"
  shows "distinct (concat (offer_waves env rid events m))
    \<and> set (concat (offer_waves env rid events m)) \<subseteq> dp_user_id ` set (profiles (mt_rides m))
    \<and> length (filter (\<lambda>w. w \<noteq> []) (offer_waves env rid events m)) \<le> length (profiles (mt_rides m))"
proof -
  let ?ds = "concat (offer_waves env rid events m)"
  have "\<forall>(t, a) \<in> set events. t < t0 + seconds TRIED_TTL_SECONDS
      \<and> t0 + seconds TRIED_TTL_SECONDS \<le> t + seconds TRIED_TTL_SECONDS"
    using assms(2) by auto
  from waves_remembered [OF assms(1) this, of rid "{}" m]
  have d: "distinct ?ds" "set ?ds \<subseteq> dp_user_id ` set (profiles (mt_rides m))"
    by (simp_all add: remembered_def)
  have "length ?ds = card (set ?ds)" by (rule distinct_card [OF d(1), symmetric])
  also have "\<dots> \<le> card (set (map dp_user_id (profiles (mt_rides m))))"
    using d(2) by (intro card_mono) auto
  also have "\<dots> \<le> length (profiles (mt_rides m))" using card_length [of "map dp_user_id (profiles (mt_rides m))"] by simp
  finally show ?thesis using d nonempty_waves [of "offer_waves env rid events m"] by linarith
qed

theorem nobody_asked_twice_witness:
  "(\<exists>m. dispatch_step trip_match_env 10 1 Expired trip_search = (Inr (no_dispatch\<lparr>md_drivers := [8], md_new_wave := True\<rparr>), m))
    \<and> distinct (concat (offer_waves trip_match_env 10 [(1, Expired), (2, Declined 8), (20000000, Expired)] trip_search))
    \<and> length (filter (\<lambda>w. w \<noteq> []) (offer_waves trip_match_env 10 [(1, Expired), (2, Declined 8), (20000000, Expired)] trip_search)) \<le> 1"
proof
  obtain pay where n: "next_candidates trip_match_env trip_ride 1 trip_search = Inr ([8], pay)"
    using trip_candidates by blast
  have o: "current_offers 1 10 (mt_offers trip_search) = []" by (simp add: trip_search_def current_offers_def no_offers_def)
  have f: "find_ride 10 (mt_rides trip_search) = Some trip_ride" by (simp add: trip_search_def trip_asked_state find_ride_def)
  have b: "\<not> search_budget_exceeded trip_match_env trip_ride 1" "me_max_commission trip_match_env = 0"
    by (simp_all add: search_budget_exceeded_def trip_match_env_def trip_config_def seconds_def)
  show "\<exists>m. dispatch_step trip_match_env 10 1 Expired trip_search = (Inr (no_dispatch\<lparr>md_drivers := [8], md_new_wave := True\<rparr>), m)"
    using o n b by (simp add: advance_expired_offer_def f try_match_def keep_redis_def)
next
  have g: "\<forall>ps p r n. distinct (me_geosearch trip_match_env ps p r n)" by (simp add: trip_match_env_def)
  have p: "profiles (mt_rides trip_search) = [trip_driver]" by (simp add: trip_search_def trip_asked_state)
  have t: "\<forall>(t, a) \<in> set [(1, Expired), (2, Declined 8), (20000000, Expired)]. 0 \<le> t \<and> t < 0 + seconds TRIED_TTL_SECONDS"
    by (simp add: seconds_def TRIED_TTL_SECONDS_def)
  from nobody_asked_twice [OF g t, of 10 trip_search]
  show "distinct (concat (offer_waves trip_match_env 10 [(1, Expired), (2, Declined 8), (20000000, Expired)] trip_search))
    \<and> length (filter (\<lambda>w. w \<noteq> []) (offer_waves trip_match_env 10 [(1, Expired), (2, Declined 8), (20000000, Expired)] trip_search)) \<le> 1"
    by (simp add: p)
qed

section \<open>Penalties\<close>

text \<open>
  The ledger of points is not idempotent: the status already being the one asked for is no refusal, so
  a cancellation by the driver that is sent again takes the points again.
\<close>

theorem penalty_again:
  assumes "find_ride rid db = Some r" and "rd_status r = CANCELLED_BY_DRIVER" and "rd_driver_id r = Some d"
    and "update_status env rid CANCELLED_BY_DRIVER uid role now db = Inr (v, db')"
  shows "\<exists>e. priority_events db' = priority_events db @ [e] \<and> pv_driver_id e = d
    \<and> pv_points e = dc_points_ride_cancelled_by_driver (re_dispatch env)"
proof -
  have "driver_ride rid uid role db = Inr r"
    using assms(1,4) by (auto simp: update_status_def driver_ride_def load_ride_def Let_def split: if_splits)
  with assms(2,4) have "finish_status env r CANCELLED_BY_DRIVER (if role = ''admin'' then ''admin'' else ''driver'') now db
      = Inr (v, db')"
    by (simp add: update_status_def wait_ended_first_def Let_def)
  then obtain db2 where s: "save_ride now r db = Inr db2"
    and db': "db' = record_priority_outcome env r now (record_history r db2)"
    using assms(2) by (auto simp: finish_status_def bindR_eq_Inr api_transition_def transition_def Let_def)
  have "priority_events (fold record_status_transition ts db) = priority_events db" for ts db
    by (induction ts arbitrary: db) (simp_all add: record_status_transition_def)
  moreover have "priority_events db2 = priority_events db"
    using s by (auto simp: save_ride_def bindR_eq_Inr Let_def split: if_splits)
  ultimately have p: "priority_events (record_history r db2) = priority_events db" by (simp add: record_history_def)
  show ?thesis
    using assms(2,3)
    by (simp add: db' record_priority_outcome_def record_ride_outcome_def p)
qed

end
