(* ===== verification/Live_Hub.thy ===== *)
theory Live_Hub
  imports Auth_Service Matching_Properties
begin

text \<open>
  The socket of app\_base/modules/ride/presentation/websocket.py: the \<open>ConnectionManager\<close> (\<open>hub\<close>), the
  messages of a client and the life of one connection, over rides, offers and positions together. Sockets
  are numbers, a message is a JSON value, the frames that went out are logged, and sets iterate in the order
  of insertion. A peer that no longer answers is a parameter. GEOADD refuses a position outside its range,
  as Redis documents. Numbers that no finite float holds and
  texts of numbers with underscores are left out.
\<close>

section \<open>Connections\<close>

record hub =
  hb_by_user :: "uuid \<Rightarrow> nat list"
  hb_by_ride :: "uuid \<Rightarrow> nat list"
  hb_sockets :: "nat \<Rightarrow> uuid option"
  hb_sent :: "(nat \<times> view) list"

definition empty_hub :: hub where
  "empty_hub = \<lparr>hb_by_user = (\<lambda>_. []), hb_by_ride = (\<lambda>_. []), hb_sockets = Map.empty, hb_sent = []\<rparr>"

definition add_once :: "'a \<Rightarrow> 'a list \<Rightarrow> 'a list" where
  "add_once x xs = (if x \<in> set xs then xs else xs @ [x])"

definition connect :: "nat \<Rightarrow> uuid \<Rightarrow> hub \<Rightarrow> hub" where
  "connect s user_id h = h\<lparr>hb_by_user := (hb_by_user h)(user_id := add_once s (hb_by_user h user_id)),
     hb_sockets := (hb_sockets h)(s \<mapsto> user_id)\<rparr>"

definition disconnect :: "nat \<Rightarrow> hub \<Rightarrow> hub" where
  "disconnect s h =
     (let h1 = (case hb_sockets h s of
          None \<Rightarrow> h
        | Some u \<Rightarrow> h\<lparr>hb_by_user := (hb_by_user h)(u := removeAll s (hb_by_user h u)),
            hb_sockets := (hb_sockets h)(s := None)\<rparr>)
      in h1\<lparr>hb_by_ride := (\<lambda>r. removeAll s (hb_by_ride h1 r))\<rparr>)"

definition subscribe_to_ride :: "nat \<Rightarrow> uuid \<Rightarrow> hub \<Rightarrow> hub" where
  "subscribe_to_ride s ride_id h =
     h\<lparr>hb_by_ride := (hb_by_ride h)(ride_id := add_once s (hb_by_ride h ride_id))\<rparr>"

text \<open>A frame goes out, or the peer is dropped and the others are served.\<close>

definition send_frame :: "(nat \<Rightarrow> bool) \<Rightarrow> view \<Rightarrow> nat \<Rightarrow> hub \<Rightarrow> hub" where
  "send_frame reaches payload s h =
     (if reaches s then h\<lparr>hb_sent := hb_sent h @ [(s, payload)]\<rparr> else disconnect s h)"

definition fan_out :: "(nat \<Rightarrow> bool) \<Rightarrow> nat list \<Rightarrow> view \<Rightarrow> hub \<Rightarrow> hub" where
  "fan_out reaches sockets payload h = fold (send_frame reaches payload) sockets h"

definition send_to_user :: "(nat \<Rightarrow> bool) \<Rightarrow> uuid \<Rightarrow> view \<Rightarrow> hub \<Rightarrow> hub" where
  "send_to_user reaches user_id payload h = fan_out reaches (hb_by_user h user_id) payload h"

definition send_to_ride :: "(nat \<Rightarrow> bool) \<Rightarrow> uuid \<Rightarrow> view \<Rightarrow> hub \<Rightarrow> hub" where
  "send_to_ride reaches ride_id payload h = fan_out reaches (hb_by_ride h ride_id) payload h"

definition ride_event :: "string \<Rightarrow> (string \<times> view) list \<Rightarrow> view" where
  "ride_event name items = VObj ((''event'', VStr name) # items)"

definition broadcast_status_changed :: "(nat \<Rightarrow> bool) \<Rightarrow> uuid \<Rightarrow> string \<Rightarrow> datetime \<Rightarrow> hub \<Rightarrow> hub" where
  "broadcast_status_changed reaches ride_id status now = send_to_ride reaches ride_id
     (ride_event ''ride.status_changed''
       [(''ride_id'', vid ride_id), (''status'', VStr status), (''at'', VAt now)])"

definition broadcast_driver_location ::
  "(nat \<Rightarrow> bool) \<Rightarrow> uuid \<Rightarrow> geo_point \<Rightarrow> view \<Rightarrow> datetime \<Rightarrow> hub \<Rightarrow> hub" where
  "broadcast_driver_location reaches ride_id location heading now = send_to_ride reaches ride_id
     (ride_event ''ride.driver_location''
       [(''ride_id'', vid ride_id),
        (''location'', VObj [(''lat'', VNum (lat location)), (''lng'', VNum (lng location))]),
        (''heading'', heading), (''at'', VAt now)])"

definition broadcast_no_driver_found :: "(nat \<Rightarrow> bool) \<Rightarrow> uuid \<Rightarrow> hub \<Rightarrow> hub" where
  "broadcast_no_driver_found reaches ride_id = send_to_ride reaches ride_id
     (ride_event ''ride.no_driver_found'' [(''ride_id'', vid ride_id)])"

definition view_fields :: "view \<Rightarrow> (string \<times> view) list" where
  "view_fields v = (case v of VObj items \<Rightarrow> items | _ \<Rightarrow> [])"

definition send_new_request :: "(nat \<Rightarrow> bool) \<Rightarrow> uuid \<Rightarrow> view \<Rightarrow> hub \<Rightarrow> hub" where
  "send_new_request reaches driver_user_id payload =
     send_to_user reaches driver_user_id (ride_event ''ride.new_request'' (view_fields payload))"

definition broadcast_waiting_changed :: "(nat \<Rightarrow> bool) \<Rightarrow> uuid \<Rightarrow> view \<Rightarrow> datetime \<Rightarrow> hub \<Rightarrow> hub" where
  "broadcast_waiting_changed reaches ride_id payload now = send_to_ride reaches ride_id
     (ride_event ''ride.waiting_changed'' (view_fields payload @ [(''at'', VAt now)]))"

definition broadcast_supplement_changed :: "(nat \<Rightarrow> bool) \<Rightarrow> uuid \<Rightarrow> view \<Rightarrow> datetime \<Rightarrow> hub \<Rightarrow> hub" where
  "broadcast_supplement_changed reaches ride_id payload now = send_to_ride reaches ride_id
     (ride_event ''ride.supplement_changed'' [(''supplement'', payload), (''at'', VAt now)])"

section \<open>Reading a message\<close>

definition field_of :: "string \<Rightarrow> view \<Rightarrow> view" where
  "field_of k v = (case map_of (rev (view_fields v)) k of None \<Rightarrow> VNone | Some x \<Rightarrow> x)"

fun view_truthy :: "view \<Rightarrow> bool" where
  "view_truthy VNone = False"
| "view_truthy (VBool b) = b"
| "view_truthy (VInt i) = (i \<noteq> 0)"
| "view_truthy (VNum x) = (x \<noteq> 0)"
| "view_truthy (VStr s) = (s \<noteq> [])"
| "view_truthy (VAt _) = True"
| "view_truthy (VObj items) = (items \<noteq> [])"
| "view_truthy (VList xs) = (xs \<noteq> [])"

text \<open>\<open>UUID(str(v))\<close>: the text of a fraction, a list or an object is never one.\<close>

fun view_uuid :: "view \<Rightarrow> uuid option" where
  "view_uuid (VStr s) = uuid_parse s"
| "view_uuid (VInt i) = uuid_parse (int_str i)"
| "view_uuid _ = None"

text \<open>\<open>float(text)\<close>: an optional sign, digits with an optional fraction, an optional exponent.\<close>

definition split_digits :: "string \<Rightarrow> string \<times> string" where
  "split_digits s = (takeWhile is_digit s, dropWhile is_digit s)"

definition signed_text :: "string \<Rightarrow> int \<times> string" where
  "signed_text s = (case s of [] \<Rightarrow> (1, []) | c # cs \<Rightarrow>
     if c = CHR ''-'' then (- 1, cs) else if c = CHR ''+'' then (1, cs) else (1, s))"

definition exponent_of :: "string \<Rightarrow> int option" where
  "exponent_of s = (case s of [] \<Rightarrow> Some 0 | c # cs \<Rightarrow>
     let (sg, ds) = signed_text cs
     in if lower_char c = CHR ''e'' \<and> ds \<noteq> [] \<and> list_all is_digit ds then Some (sg * digits_val 0 ds) else None)"

definition float_of_str :: "string \<Rightarrow> rat option" where
  "float_of_str text =
     (let (sg, body) = signed_text (strip text);
          (whole, rest) = split_digits body;
          (fraction, rest') = (case rest of c # cs \<Rightarrow> if c = CHR ''.'' then split_digits cs else ([], rest)
                               | [] \<Rightarrow> ([], rest))
      in if whole = [] \<and> fraction = [] then None
         else case exponent_of rest' of
             None \<Rightarrow> None
           | Some e \<Rightarrow>
             let x = of_int (sg * digits_val 0 (whole @ fraction)) / 10 ^ length fraction
             in Some (if 0 \<le> e then x * 10 ^ nat e else x / 10 ^ nat (- e)))"

fun view_float :: "view \<Rightarrow> rat option" where
  "view_float (VInt i) = Some (of_int i)"
| "view_float (VNum x) = Some x"
| "view_float (VBool b) = Some (if b then 1 else 0)"
| "view_float (VStr s) = float_of_str s"
| "view_float _ = None"

definition parse_location :: "view \<Rightarrow> geo_point option" where
  "parse_location raw = (case (view_float (field_of ''lat'' raw), view_float (field_of ''lng'' raw)) of
     (Some la, Some lo) \<Rightarrow> Some \<lparr>lat = la, lng = lo\<rparr> | _ \<Rightarrow> None)"

definition parse_speed :: "view \<Rightarrow> rat option" where
  "parse_speed raw = map_option (max 0) (view_float raw)"

section \<open>The messages of a client\<close>

text \<open>How a handler ends early: the peer is gone, Redis refuses a command, anything else is raised.\<close>

datatype ws_error = PEER_GONE | CACHE_DOWN | FAILED exn

record ws_env =
  wv_reaches :: "nat \<Rightarrow> bool"
  wv_ride :: ride_env
  wv_telemetry_ttl :: int
  wv_stationary_speed :: rat
  wv_match :: match_env

text \<open>The tables and Redis, the hub, and the user and role each running connection works for.\<close>

record live =
  lv_matching :: matching
  lv_hub :: hub
  lv_sessions :: "nat \<Rightarrow> (uuid \<times> string) option"

type_synonym ws_result = "(ws_error + unit) \<times> live"

definition and_then :: "ws_result \<Rightarrow> (live \<Rightarrow> ws_result) \<Rightarrow> ws_result" where
  "and_then r f = (case r of (Inl e, lv) \<Rightarrow> (Inl e, lv) | (Inr _, lv) \<Rightarrow> f lv)"

definition reply :: "ws_env \<Rightarrow> nat \<Rightarrow> view \<Rightarrow> live \<Rightarrow> ws_result" where
  "reply env s frame lv =
     (if wv_reaches env s
      then (Inr (), lv\<lparr>lv_hub := (lv_hub lv)\<lparr>hb_sent := hb_sent (lv_hub lv) @ [(s, frame)]\<rparr>\<rparr>)
      else (Inl PEER_GONE, lv))"

definition reply_error :: "ws_env \<Rightarrow> nat \<Rightarrow> string \<Rightarrow> live \<Rightarrow> ws_result" where
  "reply_error env s code = reply env s (VObj [(''event'', VStr ''error''), (''code'', VStr code)])"

definition has_active_driver_profile :: "uuid \<Rightarrow> ride_db \<Rightarrow> bool" where
  "has_active_driver_profile user_id db = (case find_profile_by_user user_id db of
     None \<Rightarrow> False | Some p \<Rightarrow> dp_status p = DR_ACTIVE)"

definition can_access_ride :: "uuid \<Rightarrow> uuid \<Rightarrow> string \<Rightarrow> bool \<Rightarrow> ride_db \<Rightarrow> bool" where
  "can_access_ride ride_id user_id role assigned_driver_required db =
     (case find_ride ride_id db of
        None \<Rightarrow> False
      | Some ride \<Rightarrow>
        role = ''admin''
        \<or> (if assigned_driver_required then is_assigned_driver ride user_id db
           else rd_passenger_user_id ride = user_id \<or> is_assigned_driver ride user_id db))"

text \<open>A refused GEOADD leaves the position; the markers of the same pipeline are set all the same.\<close>

definition geoadd_accepts :: "geo_point \<Rightarrow> bool" where
  "geoadd_accepts p \<longleftrightarrow> \<bar>lng p\<bar> \<le> 180 \<and> \<bar>lat p\<bar> \<le> 8505112878 / 100000000"

definition record_position ::
  "ws_env \<Rightarrow> uuid \<Rightarrow> geo_point \<Rightarrow> rat option \<Rightarrow> datetime \<Rightarrow> live \<Rightarrow> ws_result" where
  "record_position env user_id location speed_kmh now lv =
     (let m = lv_matching lv;
          l = update_position (wv_telemetry_ttl env) user_id location speed_kmh now (mt_locations m);
          l1 = (if geoadd_accepts location then l else l\<lparr>dl_positions := dl_positions (mt_locations m)\<rparr>)
      in (if geoadd_accepts location then Inr () else Inl CACHE_DOWN,
          lv\<lparr>lv_matching := m\<lparr>mt_locations := l1\<rparr>\<rparr>))"

text \<open>The stop is a transaction of its own; what it raises ends the connection.\<close>

definition stop_waiting_if_vehicle_moves :: "ws_env \<Rightarrow> uuid \<Rightarrow> datetime \<Rightarrow> live \<Rightarrow> ws_result" where
  "stop_waiting_if_vehicle_moves env user_id now lv =
     (let m = lv_matching lv in
      case find_active_by_driver_user_id user_id (mt_rides m) of
        None \<Rightarrow> (Inr (), lv)
      | Some ride \<Rightarrow>
        if rd_status ride \<noteq> WAITING then (Inr (), lv)
        else case transact (mt_rides m) (stop_waiting (wv_ride env) (rd_id ride) user_id ''driver'' ''vehicle_moved''
               now (mt_rides m)) of
            (Inl e, _) \<Rightarrow> (Inl (FAILED e), lv)
          | (Inr payload, db1) \<Rightarrow>
            (Inr (), lv\<lparr>lv_matching := m\<lparr>mt_rides := db1\<rparr>,
               lv_hub := broadcast_waiting_changed (wv_reaches env) (rd_id ride) payload now
                 (broadcast_status_changed (wv_reaches env) (rd_id ride) ''in_progress'' now (lv_hub lv))\<rparr>))"

definition ack :: "string \<Rightarrow> (string \<times> view) list \<Rightarrow> view" where
  "ack name items = VObj ([(''event'', VStr ''ack''), (''received_event'', VStr name)] @ items)"

definition handle_location_push ::
  "ws_env \<Rightarrow> nat \<Rightarrow> view \<Rightarrow> uuid \<Rightarrow> string \<Rightarrow> datetime \<Rightarrow> live \<Rightarrow> ws_result" where
  "handle_location_push env s message user_id role now lv =
     (if role \<notin> {''admin'', ''driver''} \<and> \<not> has_active_driver_profile user_id (mt_rides (lv_matching lv))
      then reply_error env s ''FORBIDDEN_ROLE'' lv
      else case parse_location (field_of ''location'' message) of
          None \<Rightarrow> reply_error env s ''INVALID_LOCATION'' lv
        | Some location \<Rightarrow>
          let speed_kmh = parse_speed (field_of ''speed_kmh'' message);
              ride_id = field_of ''ride_id'' message;
              acknowledged = reply env s (ack ''driver.location_push'' [])
          in and_then (record_position env user_id location speed_kmh now lv) (\<lambda>lv1.
             and_then (if (case speed_kmh of None \<Rightarrow> False | Some v \<Rightarrow> wv_stationary_speed env < v)
                       then stop_waiting_if_vehicle_moves env user_id now lv1 else (Inr (), lv1)) (\<lambda>lv2.
             if \<not> view_truthy ride_id then acknowledged lv2
             else case view_uuid ride_id of
                 None \<Rightarrow> reply_error env s ''INVALID_RIDE_ID'' lv2
               | Some i \<Rightarrow>
                 if \<not> can_access_ride i user_id role True (mt_rides (lv_matching lv2))
                 then reply_error env s ''RIDE_NOT_OWNED_BY_USER'' lv2
                 else acknowledged (lv2\<lparr>lv_hub := broadcast_driver_location (wv_reaches env) i location
                        (field_of ''heading'' message) now (lv_hub lv2)\<rparr>))))"

definition handle_subscribe ::
  "ws_env \<Rightarrow> nat \<Rightarrow> view \<Rightarrow> uuid \<Rightarrow> string \<Rightarrow> live \<Rightarrow> ws_result" where
  "handle_subscribe env s message user_id role lv =
     (case view_uuid (field_of ''ride_id'' message) of
        None \<Rightarrow> reply_error env s ''INVALID_RIDE_ID'' lv
      | Some i \<Rightarrow>
        if \<not> can_access_ride i user_id role False (mt_rides (lv_matching lv))
        then reply_error env s ''RIDE_NOT_OWNED_BY_USER'' lv
        else reply env s (ack ''ride.subscribe'' [(''ride_id'', vid i)])
               (lv\<lparr>lv_hub := subscribe_to_ride s i (lv_hub lv)\<rparr>))"

definition handle_message ::
  "ws_env \<Rightarrow> nat \<Rightarrow> view \<Rightarrow> uuid \<Rightarrow> string \<Rightarrow> datetime \<Rightarrow> live \<Rightarrow> ws_result" where
  "handle_message env s message user_id role now lv =
     (case message of
        VObj _ \<Rightarrow>
          let event = field_of ''event'' message in
          if event = VStr ''ping'' then reply env s (VObj [(''event'', VStr ''pong''), (''at'', VAt now)]) lv
          else if event = VStr ''driver.location_push'' then handle_location_push env s message user_id role now lv
          else if event = VStr ''ride.subscribe'' then handle_subscribe env s message user_id role lv
          else reply env s (VObj [(''event'', VStr ''ignored''), (''received_event'', event)]) lv
      | _ \<Rightarrow> reply_error env s ''MALFORMED_MESSAGE'' lv)"

section \<open>The life of a connection\<close>

definition WS_UNAUTHORIZED :: int where "WS_UNAUTHORIZED = 4401"

fun normalise_role :: "json \<Rightarrow> exn + string" where
  "normalise_role (JList _) = Inl PyTypeError"
| "normalise_role (JObj _) = Inl PyTypeError"
| "normalise_role r = Inr (if r = JNull \<or> r = JStr ''user'' then ''passenger'' else py_str r)"

definition decode_ws_access_token :: "auth_env \<Rightarrow> string \<Rightarrow> datetime \<Rightarrow> exn + uuid \<times> string" where
  "decode_ws_access_token env token now =
     bindR (if au_identity_mode env then decode_access_token env token now
            else decode_token env ''access'' token now) (\<lambda>payload.
     bindR (user_id_from_token payload) (\<lambda>user_id.
     bindR (normalise_role (jget payload ''role'')) (\<lambda>role. Inr (user_id, role))))"

text \<open>A handshake is refused with a close code, fails before the socket is open, or opens it.\<close>

definition ws_open ::
  "auth_env \<Rightarrow> nat \<Rightarrow> string option \<Rightarrow> datetime \<Rightarrow> live \<Rightarrow> (exn + (int \<times> string) option) \<times> live" where
  "ws_open env s token now lv =
     (if str_or token [] = [] then (Inr (Some (WS_UNAUTHORIZED, ''Missing token'')), lv)
      else case decode_ws_access_token env (str_or token []) now of
          Inl (ApiError _ code) \<Rightarrow> (Inr (Some (WS_UNAUTHORIZED, code)), lv)
        | Inl e \<Rightarrow> (Inl e, lv)
        | Inr (user_id, role) \<Rightarrow> (Inr None, lv\<lparr>lv_hub := connect s user_id (lv_hub lv),
            lv_sessions := (lv_sessions lv)(s \<mapsto> (user_id, role))\<rparr>))"

text \<open>The \<open>finally\<close> of the endpoint.\<close>

definition ws_end :: "nat \<Rightarrow> uuid \<Rightarrow> string \<Rightarrow> live \<Rightarrow> live" where
  "ws_end s user_id role lv =
     (let m = lv_matching lv in lv\<lparr>
        lv_matching := (if role = ''driver'' then m\<lparr>mt_locations := go_offline user_id (mt_locations m)\<rparr> else m),
        lv_hub := disconnect s (lv_hub lv), lv_sessions := (lv_sessions lv)(s := None)\<rparr>)"

definition ws_receive :: "ws_env \<Rightarrow> nat \<Rightarrow> view \<Rightarrow> datetime \<Rightarrow> live \<Rightarrow> live" where
  "ws_receive env s message now lv =
     (case lv_sessions lv s of
        None \<Rightarrow> lv
      | Some (user_id, role) \<Rightarrow>
        (case handle_message env s message user_id role now lv of
           (Inr _, lv1) \<Rightarrow> lv1
         | (Inl CACHE_DOWN, lv1) \<Rightarrow> ws_end s user_id role (snd (reply env s
             (VObj [(''event'', VStr ''error''), (''code'', VStr ''CACHE_UNAVAILABLE''), (''retryable'', VBool True)]) lv1))
         | (Inl _, lv1) \<Rightarrow> ws_end s user_id role lv1))"

definition ws_close :: "nat \<Rightarrow> live \<Rightarrow> live" where
  "ws_close s lv = (case lv_sessions lv s of
     None \<Rightarrow> lv | Some (user_id, role) \<Rightarrow> ws_end s user_id role lv)"

end
