(* ===== verification/Capability_Outbox.thy ===== *)
theory Capability_Outbox
  imports Driver_Locations
begin

text \<open>
  The outbox that tells the identity service what a driver can do:
  app\_base/modules/ride/infra/capability\_projection\_repository.py (the tables \<open>capability_states\<close>
  and \<open>capability_events\<close> of \<open>ride_db\<close>), app\_base/modules/ride/application/capability\_projection.py
  (publisher, delivery with back-off, reconciliation) and one iteration of the loop of
  capability\_projection\_worker.py. The HTTP client is a parameter: whether sending an event fails,
  and how.
\<close>

section \<open>Wire values\<close>

fun driver_status_value :: "driver_status \<Rightarrow> string" where
  "driver_status_value DR_PENDING_VERIFICATION = ''pending_verification''"
| "driver_status_value DR_ACTIVE = ''active''"
| "driver_status_value DR_SUSPENDED = ''suspended''"
| "driver_status_value DR_OFFLINE = ''offline''"

fun kyc_status_value :: "kyc_status \<Rightarrow> string" where
  "kyc_status_value KYC_PENDING_VERIFICATION = ''pending_verification''"
| "kyc_status_value KYC_APPROVED = ''approved''"
| "kyc_status_value KYC_REJECTED = ''rejected''"

fun vehicle_status_value :: "vehicle_verification_status \<Rightarrow> string" where
  "vehicle_status_value VV_PENDING_VERIFICATION = ''pending_verification''"
| "vehicle_status_value VV_ACTIVE = ''active''"
| "vehicle_status_value VV_SUSPENDED = ''suspended''"
| "vehicle_status_value VV_REJECTED = ''rejected''"

section \<open>The tables\<close>

text \<open>\<open>list(dict.fromkeys(xs))\<close>\<close>

definition unique_in_order :: "'a list \<Rightarrow> 'a list" where
  "unique_in_order xs = rev (remdups (rev xs))"

definition capability_clash :: "capability_event \<Rightarrow> capability_event \<Rightarrow> bool" where
  "capability_clash a b \<longleftrightarrow> ce_id a = ce_id b \<or> ce_event_id a = ce_event_id b
     \<or> (ce_user_id a = ce_user_id b \<and> ce_projection_version a = ce_projection_version b)"

definition new_capability_state :: "uuid \<Rightarrow> capability_state" where
  "new_capability_state user_id = \<lparr>cs_user_id = user_id, cs_projection_version = 0,
     cs_desired_operational_status = None, cs_desired_actions = [], cs_last_event_id = None,
     cs_sync_status = ''pending'', cs_last_attempt_at = None, cs_last_succeeded_at = None,
     cs_next_refresh_at = None, cs_last_error = None\<rparr>"

definition put_state :: "capability_state \<Rightarrow> ride_db \<Rightarrow> ride_db" where
  "put_state s db = db\<lparr>capability_states := put_row cs_user_id (cs_user_id s) s (capability_states db)\<rparr>"

definition put_event :: "capability_event \<Rightarrow> ride_db \<Rightarrow> ride_db" where
  "put_event e db = db\<lparr>capability_events := put_row ce_id (ce_id e) e (capability_events db)\<rparr>"

text \<open>The row of a user, inserted when missing.\<close>

definition state_for_update :: "uuid \<Rightarrow> ride_db \<Rightarrow> capability_state \<times> ride_db" where
  "state_for_update user_id db =
     (let db1 = db\<lparr>capability_states := snd (insert_do_nothing cs_user_id (new_capability_state user_id)
                (capability_states db))\<rparr>
      in (case get_row cs_user_id user_id (capability_states db1) of
            None \<Rightarrow> new_capability_state user_id | Some s \<Rightarrow> s, db1))"

definition event_id_of :: "uuid \<Rightarrow> int \<Rightarrow> uuid \<Rightarrow> string" where
  "event_id_of user_id version event_uuid =
     ''diddigo:driver:'' @ uuid_str user_id @ '':'' @ int_str version @ '':'' @ uuid_str event_uuid"

definition enqueue ::
  "uuid \<Rightarrow> string \<Rightarrow> string list \<Rightarrow> string option \<Rightarrow> datetime \<Rightarrow> ride_db
    \<Rightarrow> exn + capability_event option \<times> ride_db" where
  "enqueue user_id operational_status actions request_id now db =
     (let (state, db1) = state_for_update user_id db;
          normalized = unique_in_order actions in
      if cs_desired_operational_status state = Some operational_status \<and> cs_desired_actions state = normalized
         \<and> str_or (cs_last_event_id state) [] \<noteq> []
      then Inr (None, db1)
      else
        let version = cs_projection_version state + 1;
            (event_uuid, db2) = fresh_id db1;
            event_id = event_id_of user_id version event_uuid;
            row = \<lparr>ce_id = event_uuid, ce_event_id = event_id, ce_user_id = user_id,
              ce_projection_version = version, ce_operational_status = operational_status,
              ce_actions = normalized, ce_request_id = request_id, ce_status = ''pending'',
              ce_attempts = 0, ce_next_attempt_at = now, ce_last_attempt_at = None,
              ce_delivered_at = None, ce_last_error = None, ce_created_at = now\<rparr>
        in bindR (insert_row capability_clash row (capability_events db2)) (\<lambda>rows.
           Inr (Some row, put_state (state\<lparr>cs_projection_version := version,
               cs_desired_operational_status := Some operational_status, cs_desired_actions := normalized,
               cs_last_event_id := Some event_id, cs_sync_status := ''pending'', cs_last_error := None\<rparr>)
             (db2\<lparr>capability_events := rows\<rparr>))))"

definition list_due :: "datetime \<Rightarrow> nat \<Rightarrow> ride_db \<Rightarrow> capability_event list" where
  "list_due now limit db = take limit (sort_key ce_next_attempt_at
     (filter (\<lambda>e. ce_status e \<in> {''pending'', ''retry''} \<and> ce_next_attempt_at e \<le> now) (capability_events db)))"

definition locked :: "capability_event \<Rightarrow> ride_db \<Rightarrow> exn + capability_event \<times> capability_state" where
  "locked event db =
     (case (get_row ce_id (ce_id event) (capability_events db),
            get_row cs_user_id (ce_user_id event) (capability_states db)) of
        (Some row, Some state) \<Rightarrow> Inr (row, state)
      | _ \<Rightarrow> Inl NoResultFound)"

definition mark_succeeded :: "capability_event \<Rightarrow> datetime \<Rightarrow> ride_db \<Rightarrow> exn + ride_db" where
  "mark_succeeded event now db =
     bindR (locked event db) (\<lambda>(row, state).
     let db1 = put_event (row\<lparr>ce_status := ''succeeded'', ce_attempts := ce_attempts row + 1,
           ce_last_attempt_at := Some now, ce_delivered_at := Some now, ce_last_error := None\<rparr>) db
     in Inr (if cs_last_event_id state = Some (ce_event_id event)
        then put_state (state\<lparr>cs_sync_status := ''succeeded'', cs_last_attempt_at := Some now,
           cs_last_succeeded_at := Some now, cs_next_refresh_at := None, cs_last_error := None\<rparr>) db1
        else db1))"

definition mark_retry :: "capability_event \<Rightarrow> datetime \<Rightarrow> datetime \<Rightarrow> string \<Rightarrow> ride_db \<Rightarrow> exn + ride_db" where
  "mark_retry event now next_attempt_at error db =
     bindR (locked event db) (\<lambda>(row, state).
     let db1 = put_event (row\<lparr>ce_status := ''retry'', ce_attempts := ce_attempts row + 1,
           ce_last_attempt_at := Some now, ce_next_attempt_at := next_attempt_at,
           ce_last_error := Some (take 2000 error)\<rparr>) db
     in Inr (if cs_last_event_id state = Some (ce_event_id event)
        then put_state (state\<lparr>cs_sync_status := ''retry'', cs_last_attempt_at := Some now,
           cs_last_error := Some (take 2000 error)\<rparr>) db1
        else db1))"

definition mark_conflict :: "capability_event \<Rightarrow> datetime \<Rightarrow> string \<Rightarrow> ride_db \<Rightarrow> exn + ride_db" where
  "mark_conflict event now error db =
     bindR (locked event db) (\<lambda>(row, state).
     let db1 = put_event (row\<lparr>ce_status := ''conflict'', ce_attempts := ce_attempts row + 1,
           ce_last_attempt_at := Some now, ce_last_error := Some (take 2000 error)\<rparr>) db
     in Inr (if cs_last_event_id state = Some (ce_event_id event)
        then put_state (state\<lparr>cs_sync_status := ''conflict'', cs_last_attempt_at := Some now,
           cs_last_error := Some (take 2000 error)\<rparr>) db1
        else db1))"

definition mark_dead_letter :: "capability_event \<Rightarrow> datetime \<Rightarrow> string \<Rightarrow> ride_db \<Rightarrow> exn + ride_db" where
  "mark_dead_letter event now error db =
     bindR (locked event db) (\<lambda>(row, state).
     let db1 = put_event (row\<lparr>ce_status := ''dead_letter'', ce_attempts := ce_attempts row + 1,
           ce_last_attempt_at := Some now, ce_last_error := Some (take 2000 error)\<rparr>) db
     in Inr (if cs_last_event_id state = Some (ce_event_id event)
        then put_state (state\<lparr>cs_sync_status := ''dead_letter'', cs_last_attempt_at := Some now,
           cs_last_error := Some (take 2000 error)\<rparr>) db1
        else db1))"

text \<open>
  A stale state is one whose last success is old: its event is sent again. The event of one state is
  never that of another, so the states can be read up front.
\<close>

definition stale_states :: "datetime \<Rightarrow> nat \<Rightarrow> ride_db \<Rightarrow> capability_state list" where
  "stale_states before limit db = take limit (sort_key (\<lambda>s. stamp_or_0 (cs_last_succeeded_at s))
     (filter (\<lambda>s. cs_sync_status s = ''succeeded''
        \<and> (case cs_last_succeeded_at s of None \<Rightarrow> False | Some t \<Rightarrow> t \<le> before)) (capability_states db)))"

fun refresh_states :: "datetime \<Rightarrow> capability_state list \<Rightarrow> nat \<times> ride_db \<Rightarrow> nat \<times> ride_db" where
  "refresh_states now [] (n, db) = (n, db)"
| "refresh_states now (s # ss) (n, db) =
     (case find (\<lambda>e. Some (ce_event_id e) = cs_last_event_id s) (capability_events db) of
        None \<Rightarrow> refresh_states now ss (n, db)
      | Some row \<Rightarrow> refresh_states now ss (Suc n,
          put_state (s\<lparr>cs_sync_status := ''pending'', cs_next_refresh_at := Some now\<rparr>)
            (put_event (row\<lparr>ce_status := ''pending'', ce_next_attempt_at := now\<rparr>) db)))"

definition schedule_stale_refresh :: "datetime \<Rightarrow> datetime \<Rightarrow> nat \<Rightarrow> ride_db \<Rightarrow> nat \<times> ride_db" where
  "schedule_stale_refresh before now limit db = refresh_states now (stale_states before limit db) (0, db)"

text \<open>What a driver profile and its vehicle look like to the projection.\<close>

record projection_candidate =
  pc_user_id :: uuid
  pc_profile_status :: string
  pc_kyc_status :: string
  pc_vehicle_status :: "string option"
  pc_vehicle_active :: "bool option"

text \<open>\<open>ORDER BY active DESC, created_at DESC LIMIT 1\<close>\<close>

definition newest_vehicle :: "uuid \<Rightarrow> ride_db \<Rightarrow> vehicle option" where
  "newest_vehicle driver_id db =
     (case rev (sort_key (\<lambda>v. if ve_active v then 1 else 0 :: nat)
         (asc_by False ve_created_at (filter (\<lambda>v. ve_driver_id v = driver_id) (vehicles db)))) of
        [] \<Rightarrow> None | v # _ \<Rightarrow> Some v)"

definition candidate_of :: "ride_db \<Rightarrow> driver_profile \<Rightarrow> projection_candidate" where
  "candidate_of db p = (let v = newest_vehicle (dp_id p) db in
     \<lparr>pc_user_id = dp_user_id p, pc_profile_status = driver_status_value (dp_status p),
      pc_kyc_status = kyc_status_value (dp_kyc_status p),
      pc_vehicle_status = map_option (\<lambda>v. vehicle_status_value (ve_verification_status v)) v,
      pc_vehicle_active = map_option ve_active v\<rparr>)"

definition list_candidates :: "nat \<Rightarrow> nat \<Rightarrow> ride_db \<Rightarrow> projection_candidate list" where
  "list_candidates limit offset db =
     map (candidate_of db) (take limit (drop offset (sort_key dp_user_id (profiles db))))"

definition projection_metrics :: "datetime \<Rightarrow> ride_db \<Rightarrow> (string \<times> nat) list \<times> rat" where
  "projection_metrics now db =
     (map (\<lambda>s. (s, length (filter (\<lambda>e. ce_status e = s) (capability_events db))))
        (unique_in_order (map ce_status (capability_events db))),
      case List.map_filter cs_last_succeeded_at (capability_states db) of
        [] \<Rightarrow> - 1 | t # ts \<Rightarrow> max (of_int (now - fold max ts t) / 1000000) 0)"

section \<open>Publisher\<close>

text \<open>
  \<open>_operational_status\<close> and \<open>_candidate_status\<close>: what a driver can do next, and how to get further.
\<close>

definition operational_status :: "driver_profile \<Rightarrow> vehicle option \<Rightarrow> string \<times> string list" where
  "operational_status p vehicle =
     (if dp_kyc_status p = KYC_REJECTED then (''kyc_rejected'', [''resubmit_kyc''])
      else if dp_status p = DR_PENDING_VERIFICATION then (''pending_verification'', [''await_kyc_review''])
      else if dp_status p = DR_SUSPENDED then (''suspended'', [''contact_support''])
      else case vehicle of
          None \<Rightarrow> (''vehicle_missing'', [''add_vehicle''])
        | Some v \<Rightarrow>
          if ve_verification_status v = VV_PENDING_VERIFICATION
          then (''vehicle_pending_verification'', [''await_vehicle_review''])
          else if ve_verification_status v = VV_REJECTED then (''vehicle_rejected'', [''resubmit_vehicle''])
          else if ve_verification_status v \<noteq> VV_ACTIVE \<or> \<not> ve_active v
          then (''vehicle_unavailable'', [''contact_support''])
          else (''offline'', [''go_online'']))"

definition candidate_status :: "projection_candidate \<Rightarrow> string \<times> string list" where
  "candidate_status c =
     (if pc_kyc_status c = ''rejected'' then (''kyc_rejected'', [''resubmit_kyc''])
      else if pc_profile_status c = ''pending_verification'' then (''pending_verification'', [''await_kyc_review''])
      else if pc_profile_status c = ''suspended'' then (''suspended'', [''contact_support''])
      else if pc_vehicle_status c = None then (''vehicle_missing'', [''add_vehicle''])
      else if pc_vehicle_status c = Some ''pending_verification''
      then (''vehicle_pending_verification'', [''await_vehicle_review''])
      else if pc_vehicle_status c = Some ''rejected'' then (''vehicle_rejected'', [''resubmit_vehicle''])
      else if pc_vehicle_status c \<noteq> Some ''active'' \<or> pc_vehicle_active c \<noteq> Some True
      then (''vehicle_unavailable'', [''contact_support''])
      else (''offline'', [''go_online'']))"

definition publish_driver_status ::
  "uuid \<Rightarrow> string \<times> string list \<Rightarrow> string option \<Rightarrow> datetime \<Rightarrow> ride_db \<Rightarrow> exn + bool \<times> ride_db" where
  "publish_driver_status user_id status request_id now db =
     bindR (enqueue user_id (fst status) (snd status) request_id now db) (\<lambda>(_, db1). Inr (True, db1))"

section \<open>Delivery\<close>

record delivery_error =
  de_message :: string
  de_status_code :: "int option"
  de_conflict :: bool

type_synonym capability_client = "capability_event \<Rightarrow> delivery_error option"

definition retry_delay :: "nat \<Rightarrow> nat \<Rightarrow> nat \<Rightarrow> nat" where
  "retry_delay base maximum attempts = min (base * 2 ^ min attempts 8) maximum"

definition deliver_one ::
  "capability_client \<Rightarrow> nat \<Rightarrow> nat \<Rightarrow> datetime \<Rightarrow> capability_event \<Rightarrow> ride_db \<Rightarrow> exn + ride_db" where
  "deliver_one client base maximum now event db =
     (case client event of
        None \<Rightarrow> mark_succeeded event now db
      | Some err \<Rightarrow>
        if de_conflict err then mark_conflict event now (de_message err) db
        else if de_status_code err = Some 404 then mark_dead_letter event now (de_message err) db
        else mark_retry event now (now + seconds (int (retry_delay base maximum (ce_attempts event))))
               (de_message err) db)"

definition deliver_due ::
  "capability_client \<Rightarrow> nat \<Rightarrow> nat \<Rightarrow> nat \<Rightarrow> datetime \<Rightarrow> ride_db \<Rightarrow> exn + nat \<times> ride_db" where
  "deliver_due client base maximum batch_size now db =
     (let events = list_due now batch_size db in
      bindR (foldR (deliver_one client base maximum now) events db) (\<lambda>db1. Inr (length events, db1)))"

section \<open>Reconciliation\<close>

definition reconcile_one ::
  "(uuid \<Rightarrow> bool) \<Rightarrow> datetime \<Rightarrow> projection_candidate \<Rightarrow> nat \<times> ride_db \<Rightarrow> exn + nat \<times> ride_db" where
  "reconcile_one online now c ndb =
     (let status = candidate_status c;
          shown = (if fst status = ''offline'' \<and> online (pc_user_id c) then (''online'', [''go_offline'']) else status)
      in bindR (enqueue (pc_user_id c) (fst shown) (snd shown) (Some ''capability-reconciliation'') now (snd ndb))
        (\<lambda>(event, db1). Inr (if event = None then fst ndb else Suc (fst ndb), db1)))"

definition reconcile ::
  "projection_candidate list \<Rightarrow> (uuid \<Rightarrow> bool) \<Rightarrow> datetime \<Rightarrow> nat \<Rightarrow> datetime \<Rightarrow> ride_db
    \<Rightarrow> exn + (nat \<times> nat) \<times> ride_db" where
  "reconcile candidates online refresh_before batch_size now db =
     bindR (foldR (reconcile_one online now) candidates (0, db)) (\<lambda>(enqueued, db1).
     let (refreshed, db2) = schedule_stale_refresh refresh_before now batch_size db1
     in Inr ((enqueued, refreshed), db2))"

text \<open>The pages of \<open>_reconcile\<close>: a batch size of 0 would read empty pages for ever.\<close>

partial_function (option) all_candidates :: "nat \<Rightarrow> nat \<Rightarrow> ride_db \<Rightarrow> projection_candidate list option" where
  "all_candidates batch_size offset db =
     (let page = list_candidates batch_size offset db in
      if length page < batch_size then Some page
      else Option.bind (all_candidates batch_size (offset + length page) db) (\<lambda>rest. Some (page @ rest)))"

definition reconcile_all ::
  "nat \<Rightarrow> int \<Rightarrow> driver_locations \<Rightarrow> datetime \<Rightarrow> ride_db \<Rightarrow> (exn + (nat \<times> nat) \<times> ride_db) option" where
  "reconcile_all batch_size refresh_seconds locations now db =
     map_option (\<lambda>candidates. reconcile candidates (\<lambda>u. is_online_and_available u now locations)
         (now - seconds refresh_seconds) batch_size now db)
       (all_candidates batch_size 0 db)"

text \<open>
  One iteration of the worker: a failed transaction is logged and dropped. The result is the time of
  the next reconciliation and the database; None, when the pages never end.
\<close>

record projection_settings =
  ps_batch_size :: nat
  ps_retry_base_seconds :: nat
  ps_retry_max_seconds :: nat
  ps_refresh_seconds :: int
  ps_reconciliation_interval_seconds :: int

definition projection_iteration ::
  "projection_settings \<Rightarrow> capability_client \<Rightarrow> driver_locations \<Rightarrow> datetime \<Rightarrow> datetime \<times> ride_db
    \<Rightarrow> (datetime \<times> ride_db) option" where
  "projection_iteration cfg client locations now state =
     (case deliver_due client (ps_retry_base_seconds cfg) (ps_retry_max_seconds cfg) (ps_batch_size cfg) now
         (snd state) of
        Inl _ \<Rightarrow> Some state
      | Inr (_, db1) \<Rightarrow>
        if now < fst state then Some (fst state, db1)
        else map_option (\<lambda>r. case r of
            Inl _ \<Rightarrow> (fst state, db1)
          | Inr (_, db2) \<Rightarrow> (now + seconds (ps_reconciliation_interval_seconds cfg), db2))
          (reconcile_all (ps_batch_size cfg) (ps_refresh_seconds cfg) locations now db1))"

end
