(* ===== verification/Driver_Documents.thy ===== *)
theory Driver_Documents
  imports Driver_Locations
begin

text \<open>
  The review of the documents of a driver and of a vehicle, from
  app\_base/modules/ride/application/driver\_service.py: the verdicts by document type, the history of
  verdicts, and when a file is complete. The iteration order of Python sets is taken to be that of the
  literals.
\<close>

definition KYC_DOCUMENT_TYPES :: "string list" where
  "KYC_DOCUMENT_TYPES = [''license_front'', ''license_back'', ''national_id_front'', ''national_id_back'', ''selfie'']"

definition VEHICLE_DOCUMENT_TYPES :: "string list" where
  "VEHICLE_DOCUMENT_TYPES = [''registration'', ''insurance'', ''technical_inspection'', ''transport_authorization'',
     ''vehicle_front'', ''vehicle_back'', ''vehicle_left'', ''vehicle_right'', ''vehicle_interior'', ''vehicle_plate'']"

definition REQUIRED_VEHICLE_DOCUMENT_TYPES :: "string list" where
  "REQUIRED_VEHICLE_DOCUMENT_TYPES = filter (\<lambda>t. t \<noteq> ''transport_authorization'') VEHICLE_DOCUMENT_TYPES"

section \<open>Text and attachments\<close>

definition blank_to_none :: "string option \<Rightarrow> string option" where
  "blank_to_none value = (case value of None \<Rightarrow> None | Some s \<Rightarrow> if strip s = [] then None else Some (strip s))"

definition review_note :: "string option \<Rightarrow> uuid \<Rightarrow> string" where
  "review_note notes reviewed_by_user_id =
     (let suffix = ''reviewed_by='' @ uuid_str reviewed_by_user_id
      in case blank_to_none notes of None \<Rightarrow> suffix | Some cleaned \<Rightarrow> cleaned @ '' ('' @ suffix @ '')'')"

text \<open>An attachment as it is first stored, and as a later request changes it.\<close>

definition new_attachment :: "attachment \<Rightarrow> attachment" where
  "new_attachment a = a\<lparr>at_url := blank_to_none (at_url a)\<rparr>"

definition update_attachment :: "attachment \<Rightarrow> attachment \<Rightarrow> attachment" where
  "update_attachment given a = \<lparr>at_file_id = (if at_file_id given = None then at_file_id a else at_file_id given),
     at_url = (if at_url given = None then at_url a else blank_to_none (at_url given))\<rparr>"

definition attached :: "attachment \<Rightarrow> bool" where
  "attached a \<longleftrightarrow> at_file_id a \<noteq> None \<or> str_or (at_url a) [] \<noteq> []"

definition submitted :: "attachment \<Rightarrow> bool" where
  "submitted given \<longleftrightarrow> at_file_id given \<noteq> None \<or> at_url given \<noteq> None"

section \<open>Verdicts\<close>

text \<open>One decision of a reviewer, as the request has it: any key may be missing.\<close>

record document_decision =
  dd_document_type :: "string option"
  dd_decision :: "string option"
  dd_reason_code :: "string option"
  dd_reason :: "string option"
  dd_expected_correction :: "string option"

type_synonym dossier = "document_review list \<times> review_event list"

definition approved_decision :: "string \<Rightarrow> document_decision" where
  "approved_decision t = \<lparr>dd_document_type = Some t, dd_decision = Some ''approved'', dd_reason_code = None,
     dd_reason = None, dd_expected_correction = None\<rparr>"

text \<open>\<open>current[document_type] = decision\<close>: a dict keeps the place of a key it has.\<close>

definition set_review :: "document_review \<Rightarrow> document_review list \<Rightarrow> document_review list" where
  "set_review r rs = (if get_row dr_document_type (dr_document_type r) rs = None then rs @ [r]
     else put_row dr_document_type (dr_document_type r) r rs)"

definition review_status :: "string \<Rightarrow> document_review list \<Rightarrow> string option" where
  "review_status t rs = map_option dr_status (get_row dr_document_type t rs)"

fun apply_document_decisions ::
  "string list \<Rightarrow> uuid \<Rightarrow> datetime \<Rightarrow> string list \<Rightarrow> document_decision list \<Rightarrow> dossier \<Rightarrow> exn + dossier" where
  "apply_document_decisions allowed reviewer now seen [] d = Inr d"
| "apply_document_decisions allowed reviewer now seen (item # items) (current, hist) =
     (let document_type = str_or (dd_document_type item) [] in
      if document_type \<notin> set allowed then Inl (ApiError 422 ''INVALID_DOCUMENT_TYPE'')
      else if document_type \<in> set seen then Inl (ApiError 422 ''DUPLICATE_DOCUMENT_DECISION'')
      else case dd_decision item of
          None \<Rightarrow> Inl PyKeyError
        | Some status \<Rightarrow>
          let decision = \<lparr>dr_document_type = document_type, dr_status = status,
                dr_reason_code = dd_reason_code item, dr_reason = dd_reason item,
                dr_expected_correction = dd_expected_correction item, dr_reviewed_at = Some now\<rparr>
          in apply_document_decisions allowed reviewer now (document_type # seen) items
               (set_review decision current,
                hist @ [\<lparr>rv_review = decision, rv_reviewed_by_user_id = Some reviewer,
                  rv_resubmitted_at = None\<rparr>]))"

definition rejected_item :: "document_decision \<Rightarrow> bool" where
  "rejected_item item \<longleftrightarrow> dd_decision item = Some ''rejected''"

definition explained :: "document_decision \<Rightarrow> bool" where
  "explained item \<longleftrightarrow> str_or (dd_reason_code item) [] \<noteq> [] \<and> str_or (dd_reason item) [] \<noteq> []
     \<and> str_or (dd_expected_correction item) [] \<noteq> []"

definition apply_rejection_decisions ::
  "string list \<Rightarrow> uuid \<Rightarrow> datetime \<Rightarrow> document_decision list \<Rightarrow> dossier \<Rightarrow> exn + dossier" where
  "apply_rejection_decisions allowed reviewer now decisions d =
     (if \<not> list_ex rejected_item decisions
         \<or> list_ex (\<lambda>item. rejected_item item \<and> \<not> explained item) decisions
      then Inl (ApiError 422 ''DOCUMENT_REJECTION_DETAILS_REQUIRED'')
      else apply_document_decisions allowed reviewer now [] decisions d)"

definition ensure_all_documents_approved :: "document_review list \<Rightarrow> string list \<Rightarrow> exn + unit" where
  "ensure_all_documents_approved current required =
     (if list_all (\<lambda>t. review_status t current = Some ''approved'') required then Inr ()
      else Inl (ApiError 422 ''DOCUMENT_DECISIONS_INCOMPLETE''))"

fun mark_resubmitted_documents_pending :: "datetime \<Rightarrow> string list \<Rightarrow> dossier \<Rightarrow> dossier" where
  "mark_resubmitted_documents_pending now [] d = d"
| "mark_resubmitted_documents_pending now (t # ts) (current, hist) =
     (let decision = \<lparr>dr_document_type = t, dr_status = ''pending'', dr_reason_code = None, dr_reason = None,
            dr_expected_correction = None, dr_reviewed_at = None\<rparr>
      in mark_resubmitted_documents_pending now ts (set_review decision current,
           hist @ [\<lparr>rv_review = decision, rv_reviewed_by_user_id = None, rv_resubmitted_at = Some now\<rparr>]))"

section \<open>What a review leaves\<close>

lemma review_status_set [simp]:
  "review_status t (set_review r rs) = (if t = dr_document_type r then Some (dr_status r) else review_status t rs)"
proof (cases "get_row dr_document_type (dr_document_type r) rs")
  case None
  then show ?thesis
    by (auto simp: review_status_def set_review_def get_row_append split: option.splits)
next
  case (Some x)
  then show ?thesis
    using get_put_same [OF Some, of r] get_put_other [of dr_document_type r "dr_document_type r" t rs]
    by (auto simp: review_status_def set_review_def)
qed

text \<open>Every decision of a list that is accepted is the status of its document; others stay.\<close>

lemma decisions_applied:
  "apply_document_decisions allowed reviewer now seen items (current, hist) = Inr (current', hist') \<Longrightarrow>
     (\<forall>item \<in> set items. str_or (dd_document_type item) [] \<in> set allowed - set seen
        \<and> review_status (str_or (dd_document_type item) []) current' = dd_decision item)
     \<and> (\<forall>t. t \<notin> (\<lambda>item. str_or (dd_document_type item) []) ` set items \<longrightarrow>
          review_status t current' = review_status t current)
     \<and> (\<exists>es. hist' = hist @ es \<and> length es = length items)"
proof (induction items arbitrary: seen current hist)
  case (Cons item items)
  let ?t = "str_or (dd_document_type item) []"
  from Cons.prems obtain status where ok: "?t \<in> set allowed" "?t \<notin> set seen" and st: "dd_decision item = Some status"
    by (auto simp: Let_def split: if_splits option.splits)
  define r where "r = \<lparr>dr_document_type = ?t, dr_status = status, dr_reason_code = dd_reason_code item,
    dr_reason = dd_reason item, dr_expected_correction = dd_expected_correction item, dr_reviewed_at = Some now\<rparr>"
  have "apply_document_decisions allowed reviewer now (?t # seen) items (set_review r current,
      hist @ [\<lparr>rv_review = r, rv_reviewed_by_user_id = Some reviewer, rv_resubmitted_at = None\<rparr>])
      = Inr (current', hist')"
    using Cons.prems ok st by (simp add: Let_def r_def)
  from Cons.IH [OF this] have ih: "\<forall>i \<in> set items. str_or (dd_document_type i) [] \<in> set allowed - set (?t # seen)
        \<and> review_status (str_or (dd_document_type i) []) current' = dd_decision i"
      "\<forall>t. t \<notin> (\<lambda>i. str_or (dd_document_type i) []) ` set items \<longrightarrow>
          review_status t current' = review_status t (set_review r current)"
      "\<exists>es. hist' = (hist @ [\<lparr>rv_review = r, rv_reviewed_by_user_id = Some reviewer, rv_resubmitted_at = None\<rparr>]) @ es
          \<and> length es = length items"
    by blast+
  have "?t \<notin> (\<lambda>i. str_or (dd_document_type i) []) ` set items" using ih(1) by auto
  then have "review_status ?t current' = dd_decision item" using ih(2) st by (simp add: r_def)
  moreover have "\<exists>es. hist' = hist @ es \<and> length es = Suc (length items)" using ih(3) by force
  ultimately show ?case using ih(1,2) ok by (auto simp: r_def)
qed simp

lemma pending_marked:
  "mark_resubmitted_documents_pending now ts (current, hist) = (current', hist') \<Longrightarrow>
     (\<forall>t. review_status t current' = (if t \<in> set ts then Some ''pending'' else review_status t current))
     \<and> (\<exists>es. hist' = hist @ es \<and> length es = length ts)"
proof (induction ts arbitrary: current hist)
  case (Cons t ts)
  then show ?case by (fastforce simp: Let_def)
qed simp

end
