(* ===== verification/Driver_Service.thy ===== *)
theory Driver_Service
  imports Capability_Outbox Driver_Documents
begin

text \<open>
  app\_base/modules/ride/application/driver\_service.py: driver profiles with their KYC file, vehicles
  with their KYV file, and what each handler publishes to the capability outbox. A handler saves the
  object it loaded; the payload shows that object, the row follows \<open>save_profile\<close> and
  \<open>save_vehicle\<close>.
\<close>

record driver_env =
  dv_publisher :: bool
  dv_request_id :: "string option"

definition upper_char :: "char \<Rightarrow> char" where
  "upper_char c = (let n = of_char c :: nat in if 97 \<le> n \<and> n \<le> 122 then char_of (n - 32) else c)"

definition upper :: "string \<Rightarrow> string" where
  "upper s = map upper_char s"

section \<open>Submissions\<close>

record kyc_submission =
  ks_legal_name :: "string option"
  ks_birth_date :: "datetime option"
  ks_residence_address :: "string option"
  ks_license_document :: attachment
  ks_license_back_document :: attachment
  ks_national_id_document :: attachment
  ks_national_id_back_document :: attachment
  ks_selfie_document :: attachment
  ks_profile_photo_file_id :: "uuid option"
  ks_license_expires_at :: "datetime option"
  ks_national_id_expires_at :: "datetime option"

record vehicle_submission =
  vs_registration_document :: attachment
  vs_insurance_document :: attachment
  vs_technical_inspection_document :: attachment
  vs_transport_authorization_document :: attachment
  vs_vehicle_photo :: attachment
  vs_vehicle_front_photo :: attachment
  vs_vehicle_back_photo :: attachment
  vs_vehicle_left_photo :: attachment
  vs_vehicle_right_photo :: attachment
  vs_vehicle_interior_photo :: attachment
  vs_vehicle_plate_photo :: attachment

definition or_else :: "'a option \<Rightarrow> 'a option \<Rightarrow> 'a option" where
  "or_else given old = (if given = None then old else given)"

definition kyc_profile :: "kyc_submission \<Rightarrow> driver_profile \<Rightarrow> driver_profile" where
  "kyc_profile s p = p\<lparr>dp_legal_name := blank_to_none (ks_legal_name s), dp_birth_date := ks_birth_date s,
     dp_residence_address := blank_to_none (ks_residence_address s),
     dp_license_document := new_attachment (ks_license_document s),
     dp_license_back_document := new_attachment (ks_license_back_document s),
     dp_national_id_document := new_attachment (ks_national_id_document s),
     dp_national_id_back_document := new_attachment (ks_national_id_back_document s),
     dp_selfie_document := new_attachment (ks_selfie_document s),
     dp_profile_photo_file_id := ks_profile_photo_file_id s,
     dp_license_expires_at := ks_license_expires_at s,
     dp_national_id_expires_at := ks_national_id_expires_at s\<rparr>"

definition update_optional_kyc_fields :: "kyc_submission \<Rightarrow> driver_profile \<Rightarrow> driver_profile" where
  "update_optional_kyc_fields s p = p\<lparr>
     dp_legal_name := (if ks_legal_name s = None then dp_legal_name p else blank_to_none (ks_legal_name s)),
     dp_birth_date := or_else (ks_birth_date s) (dp_birth_date p),
     dp_residence_address := (if ks_residence_address s = None then dp_residence_address p
        else blank_to_none (ks_residence_address s)),
     dp_license_document := update_attachment (ks_license_document s) (dp_license_document p),
     dp_license_back_document := update_attachment (ks_license_back_document s) (dp_license_back_document p),
     dp_national_id_document := update_attachment (ks_national_id_document s) (dp_national_id_document p),
     dp_national_id_back_document := update_attachment (ks_national_id_back_document s) (dp_national_id_back_document p),
     dp_selfie_document := update_attachment (ks_selfie_document s) (dp_selfie_document p),
     dp_profile_photo_file_id := or_else (ks_profile_photo_file_id s) (dp_profile_photo_file_id p),
     dp_license_expires_at := or_else (ks_license_expires_at s) (dp_license_expires_at p),
     dp_national_id_expires_at := or_else (ks_national_id_expires_at s) (dp_national_id_expires_at p)\<rparr>"

definition submitted_kyc_document_types :: "kyc_submission \<Rightarrow> string list" where
  "submitted_kyc_document_types s = map fst (filter snd [
     (''license_front'', submitted (ks_license_document s)),
     (''license_back'', submitted (ks_license_back_document s)),
     (''national_id_front'', submitted (ks_national_id_document s)),
     (''national_id_back'', submitted (ks_national_id_back_document s)),
     (''selfie'', submitted (ks_selfie_document s))])"

definition ensure_kyc_documents_complete :: "driver_profile \<Rightarrow> exn + unit" where
  "ensure_kyc_documents_complete p = (if list_all attached [
     dp_license_document p, dp_license_back_document p, dp_national_id_document p,
     dp_national_id_back_document p, dp_selfie_document p] then Inr ()
     else Inl (ApiError 422 ''INVALID_KYC_DOCUMENTS''))"

definition kyv_vehicle :: "vehicle_submission \<Rightarrow> vehicle \<Rightarrow> vehicle" where
  "kyv_vehicle s v = v\<lparr>
     ve_registration_document := new_attachment (vs_registration_document s),
     ve_insurance_document := new_attachment (vs_insurance_document s),
     ve_technical_inspection_document := new_attachment (vs_technical_inspection_document s),
     ve_transport_authorization_document := new_attachment (vs_transport_authorization_document s),
     ve_vehicle_photo := new_attachment (vs_vehicle_photo s),
     ve_vehicle_front_photo := new_attachment (vs_vehicle_front_photo s),
     ve_vehicle_back_photo := new_attachment (vs_vehicle_back_photo s),
     ve_vehicle_left_photo := new_attachment (vs_vehicle_left_photo s),
     ve_vehicle_right_photo := new_attachment (vs_vehicle_right_photo s),
     ve_vehicle_interior_photo := new_attachment (vs_vehicle_interior_photo s),
     ve_vehicle_plate_photo := new_attachment (vs_vehicle_plate_photo s)\<rparr>"

definition update_vehicle_kyv_fields :: "vehicle_submission \<Rightarrow> vehicle \<Rightarrow> vehicle" where
  "update_vehicle_kyv_fields s v = v\<lparr>
     ve_registration_document := update_attachment (vs_registration_document s) (ve_registration_document v),
     ve_insurance_document := update_attachment (vs_insurance_document s) (ve_insurance_document v),
     ve_technical_inspection_document := update_attachment (vs_technical_inspection_document s) (ve_technical_inspection_document v),
     ve_transport_authorization_document := update_attachment (vs_transport_authorization_document s) (ve_transport_authorization_document v),
     ve_vehicle_photo := update_attachment (vs_vehicle_photo s) (ve_vehicle_photo v),
     ve_vehicle_front_photo := update_attachment (vs_vehicle_front_photo s) (ve_vehicle_front_photo v),
     ve_vehicle_back_photo := update_attachment (vs_vehicle_back_photo s) (ve_vehicle_back_photo v),
     ve_vehicle_left_photo := update_attachment (vs_vehicle_left_photo s) (ve_vehicle_left_photo v),
     ve_vehicle_right_photo := update_attachment (vs_vehicle_right_photo s) (ve_vehicle_right_photo v),
     ve_vehicle_interior_photo := update_attachment (vs_vehicle_interior_photo s) (ve_vehicle_interior_photo v),
     ve_vehicle_plate_photo := update_attachment (vs_vehicle_plate_photo s) (ve_vehicle_plate_photo v)\<rparr>"

text \<open>\<open>vehicle_photo\<close> is no document type: it is neither reviewed nor required.\<close>

definition submitted_vehicle_document_types :: "vehicle_submission \<Rightarrow> string list" where
  "submitted_vehicle_document_types s = map fst (filter snd [
     (''registration'', submitted (vs_registration_document s)),
     (''insurance'', submitted (vs_insurance_document s)),
     (''technical_inspection'', submitted (vs_technical_inspection_document s)),
     (''transport_authorization'', submitted (vs_transport_authorization_document s)),
     (''vehicle_front'', submitted (vs_vehicle_front_photo s)),
     (''vehicle_back'', submitted (vs_vehicle_back_photo s)),
     (''vehicle_left'', submitted (vs_vehicle_left_photo s)),
     (''vehicle_right'', submitted (vs_vehicle_right_photo s)),
     (''vehicle_interior'', submitted (vs_vehicle_interior_photo s)),
     (''vehicle_plate'', submitted (vs_vehicle_plate_photo s))])"

definition ensure_vehicle_kyv_documents_complete :: "vehicle \<Rightarrow> exn + unit" where
  "ensure_vehicle_kyv_documents_complete v = (if list_all attached [
     ve_registration_document v,
     ve_insurance_document v,
     ve_technical_inspection_document v,
     ve_vehicle_front_photo v,
     ve_vehicle_back_photo v,
     ve_vehicle_left_photo v,
     ve_vehicle_right_photo v,
     ve_vehicle_interior_photo v,
     ve_vehicle_plate_photo v] then Inr ()
     else Inl (ApiError 422 ''INVALID_VEHICLE_KYV_DOCUMENTS''))"

section \<open>Payloads\<close>

definition vfile :: "attachment \<Rightarrow> view" where "vfile a = vopt vid (at_file_id a)"

definition vlink :: "attachment \<Rightarrow> view" where "vlink a = vopt VStr (at_url a)"

definition review_view :: "document_review \<Rightarrow> view" where
  "review_view r = VObj [(''document_type'', VStr (dr_document_type r)), (''status'', VStr (dr_status r)),
     (''reason_code'', vopt VStr (dr_reason_code r)), (''reason'', vopt VStr (dr_reason r)),
     (''expected_correction'', vopt VStr (dr_expected_correction r)),
     (''reviewed_at'', vopt VAt (dr_reviewed_at r))]"

definition documents_expiry_status :: "datetime \<Rightarrow> driver_profile \<Rightarrow> string" where
  "documents_expiry_status now p =
     (case List.map_filter id [dp_license_expires_at p, dp_national_id_expires_at p] of
        [] \<Rightarrow> ''valid''
      | t # ts \<Rightarrow>
        let soonest = fold min ts t in
        if soonest \<le> now then ''expired''
        else if soonest \<le> now + seconds (30 * 86400) then ''expiring_soon'' else ''valid'')"

definition profile_payload :: "datetime \<Rightarrow> driver_profile \<Rightarrow> view" where
  "profile_payload now p = VObj [
     (''id'', vid (dp_id p)), (''user_id'', vid (dp_user_id p)),
     (''license_number'', VStr (dp_license_number p)), (''status'', VStr (driver_status_value (dp_status p))),
     (''rating_avg'', VNum (dp_rating_avg p)), (''rating_count'', VInt (dp_rating_count p)),
     (''rating_status'', VStr (if dp_rating_count p = 0 then ''new'' else ''rated'')),
     (''profile_photo_file_id'', vopt vid (dp_profile_photo_file_id p)),
     (''kyc'', VObj [
        (''status'', VStr (kyc_status_value (dp_kyc_status p))), (''legal_name'', vopt VStr (dp_legal_name p)),
        (''birth_date'', vopt VAt (dp_birth_date p)),
        (''residence_address'', vopt VStr (dp_residence_address p)),
        (''license_document_file_id'', vfile (dp_license_document p)),
        (''license_back_document_file_id'', vfile (dp_license_back_document p)),
        (''national_id_document_file_id'', vfile (dp_national_id_document p)),
        (''national_id_back_document_file_id'', vfile (dp_national_id_back_document p)),
        (''selfie_document_file_id'', vfile (dp_selfie_document p)),
        (''license_document_url'', vlink (dp_license_document p)),
        (''license_back_document_url'', vlink (dp_license_back_document p)),
        (''national_id_document_url'', vlink (dp_national_id_document p)),
        (''national_id_back_document_url'', vlink (dp_national_id_back_document p)),
        (''selfie_document_url'', vlink (dp_selfie_document p)),
        (''submitted_at'', vopt VAt (dp_kyc_submitted_at p)),
        (''reviewed_at'', vopt VAt (dp_kyc_reviewed_at p)),
        (''review_notes'', vopt VStr (dp_kyc_review_notes p)),
        (''document_reviews'', VList (map review_view (dp_kyc_document_reviews p))),
        (''license_expires_at'', vopt VAt (dp_license_expires_at p)),
        (''national_id_expires_at'', vopt VAt (dp_national_id_expires_at p)),
        (''documents_expiry_status'', VStr (documents_expiry_status now p))])]"

definition vehicle_payload :: "vehicle \<Rightarrow> view" where
  "vehicle_payload v = VObj [
     (''id'', vid (ve_id v)), (''driver_id'', vid (ve_driver_id v)),
     (''plate_number'', VStr (ve_plate_number v)), (''make'', vopt VStr (ve_make v)),
     (''model'', vopt VStr (ve_model v)), (''color'', vopt VStr (ve_color v)),
     (''category'', VStr (vehicle_category_value (ve_category v))),
     (''comfort_level'', VStr (comfort_level_value (ve_comfort_level v))),
     (''registration_document_file_id'', vfile (ve_registration_document v)),
     (''insurance_document_file_id'', vfile (ve_insurance_document v)),
     (''technical_inspection_document_file_id'', vfile (ve_technical_inspection_document v)),
     (''transport_authorization_document_file_id'', vfile (ve_transport_authorization_document v)),
     (''vehicle_photo_file_id'', vfile (ve_vehicle_photo v)),
     (''vehicle_front_photo_file_id'', vfile (ve_vehicle_front_photo v)),
     (''vehicle_back_photo_file_id'', vfile (ve_vehicle_back_photo v)),
     (''vehicle_left_photo_file_id'', vfile (ve_vehicle_left_photo v)),
     (''vehicle_right_photo_file_id'', vfile (ve_vehicle_right_photo v)),
     (''vehicle_interior_photo_file_id'', vfile (ve_vehicle_interior_photo v)),
     (''vehicle_plate_photo_file_id'', vfile (ve_vehicle_plate_photo v)),
     (''registration_document_url'', vlink (ve_registration_document v)),
     (''insurance_document_url'', vlink (ve_insurance_document v)),
     (''technical_inspection_document_url'', vlink (ve_technical_inspection_document v)),
     (''transport_authorization_document_url'', vlink (ve_transport_authorization_document v)),
     (''vehicle_photo_url'', vlink (ve_vehicle_photo v)),
     (''vehicle_front_photo_url'', vlink (ve_vehicle_front_photo v)),
     (''vehicle_back_photo_url'', vlink (ve_vehicle_back_photo v)),
     (''vehicle_left_photo_url'', vlink (ve_vehicle_left_photo v)),
     (''vehicle_right_photo_url'', vlink (ve_vehicle_right_photo v)),
     (''vehicle_interior_photo_url'', vlink (ve_vehicle_interior_photo v)),
     (''vehicle_plate_photo_url'', vlink (ve_vehicle_plate_photo v)),
     (''verification_status'', VStr (vehicle_status_value (ve_verification_status v))),
     (''verified_at'', vopt VAt (ve_verified_at v)), (''reviewed_at'', vopt VAt (ve_reviewed_at v)),
     (''review_notes'', vopt VStr (ve_review_notes v)),
     (''document_reviews'', VList (map review_view (ve_document_reviews v))),
     (''owner_type'', VStr (ve_owner_type v)), (''partner_id'', vopt vid (ve_partner_id v)),
     (''active'', VBool (ve_active v))]"

section \<open>Publishing and lookups\<close>

definition publish_profile_status :: "driver_env \<Rightarrow> driver_profile \<Rightarrow> datetime \<Rightarrow> ride_db \<Rightarrow> exn + ride_db" where
  "publish_profile_status env p now db =
     (if \<not> dv_publisher env then Inr db
      else bindR (publish_driver_status (dp_user_id p)
          (operational_status p (find_active_vehicle (dp_id p) db)) (dv_request_id env) now db)
        (\<lambda>(_, db1). Inr db1))"

definition publish_status_for_driver_id :: "driver_env \<Rightarrow> uuid \<Rightarrow> datetime \<Rightarrow> ride_db \<Rightarrow> exn + ride_db" where
  "publish_status_for_driver_id env driver_id now db =
     (case find_profile driver_id db of None \<Rightarrow> Inr db | Some p \<Rightarrow> publish_profile_status env p now db)"

definition require_profile :: "uuid \<Rightarrow> ride_db \<Rightarrow> exn + driver_profile" where
  "require_profile user_id db = (case find_profile_by_user user_id db of
     None \<Rightarrow> Inl (ApiError 404 ''DRIVER_PROFILE_NOT_FOUND'') | Some p \<Rightarrow> Inr p)"

definition require_profile_by_id :: "uuid \<Rightarrow> ride_db \<Rightarrow> exn + driver_profile" where
  "require_profile_by_id driver_id db = (case find_profile driver_id db of
     None \<Rightarrow> Inl (ApiError 404 ''DRIVER_PROFILE_NOT_FOUND'') | Some p \<Rightarrow> Inr p)"

definition require_vehicle :: "uuid \<Rightarrow> ride_db \<Rightarrow> exn + vehicle" where
  "require_vehicle vehicle_id db = (case find_vehicle vehicle_id db of
     None \<Rightarrow> Inl (ApiError 404 ''VEHICLE_NOT_FOUND'') | Some v \<Rightarrow> Inr v)"

text \<open>
  \<open>except Exception as exc: if "plate_number" in str(exc)\<close>: the text of an integrity error holds the
  statement, which names the column.
\<close>

definition save_plate :: "vehicle \<Rightarrow> ride_db \<Rightarrow> exn + ride_db" where
  "save_plate v db = (case save_vehicle v db of
     Inl IntegrityError \<Rightarrow> Inl (ApiError 409 ''PLATE_ALREADY_REGISTERED'') | r \<Rightarrow> r)"

section \<open>The KYC file of a driver\<close>

definition create_profile ::
  "driver_env \<Rightarrow> uuid \<Rightarrow> string \<Rightarrow> kyc_submission \<Rightarrow> datetime \<Rightarrow> ride_db \<Rightarrow> exn + view \<times> ride_db" where
  "create_profile env user_id license_number s now db =
     (if strip license_number = [] then Inl (ApiError 422 ''INVALID_LICENSE_NUMBER'')
      else if find_profile_by_user user_id db \<noteq> None then Inl (ApiError 409 ''DRIVER_PROFILE_ALREADY_EXISTS'')
      else
        let (i, db1) = fresh_id db;
            profile = (kyc_profile s (new_driver_profile i user_id (strip license_number)))
              \<lparr>dp_kyc_submitted_at := Some now, dp_created_at := Some now\<rparr>
        in bindR (save_profile profile db1) (\<lambda>db2.
           bindR (publish_profile_status env profile now db2) (\<lambda>db3.
           Inr (profile_payload now profile, db3))))"

text \<open>A new submission puts the profile and the documents it brings back under review.\<close>

definition resubmitted_profile :: "kyc_submission \<Rightarrow> datetime \<Rightarrow> driver_profile \<Rightarrow> driver_profile" where
  "resubmitted_profile s now p0 =
     (let p = update_optional_kyc_fields s p0;
          (reviews, events) = mark_resubmitted_documents_pending now (submitted_kyc_document_types s)
            (dp_kyc_document_reviews p, dp_kyc_review_history p)
      in p\<lparr>dp_status := DR_PENDING_VERIFICATION, dp_kyc_status := KYC_PENDING_VERIFICATION,
           dp_kyc_document_reviews := reviews, dp_kyc_review_history := events,
           dp_license_verified_at := None, dp_kyc_submitted_at := Some now, dp_kyc_reviewed_at := None,
           dp_kyc_review_notes := None\<rparr>)"

definition resubmit_kyc ::
  "driver_env \<Rightarrow> uuid \<Rightarrow> string option \<Rightarrow> kyc_submission \<Rightarrow> datetime \<Rightarrow> ride_db \<Rightarrow> exn + view \<times> ride_db" where
  "resubmit_kyc env user_id license_number s now db =
     bindR (require_profile user_id db) (\<lambda>p0.
     bindR (case license_number of
         None \<Rightarrow> Inr p0
       | Some l \<Rightarrow> if strip l = [] then Inl (ApiError 422 ''INVALID_LICENSE_NUMBER'')
                  else Inr (p0\<lparr>dp_license_number := strip l\<rparr>)) (\<lambda>p1.
     let profile = resubmitted_profile s now p1
     in bindR (save_profile profile db) (\<lambda>db1.
        bindR (publish_profile_status env profile now db1) (\<lambda>db2.
        Inr (profile_payload now profile, db2)))))"

definition approve_kyc ::
  "driver_env \<Rightarrow> uuid \<Rightarrow> uuid \<Rightarrow> string option \<Rightarrow> document_decision list \<Rightarrow> datetime \<Rightarrow> ride_db
    \<Rightarrow> exn + view \<times> ride_db" where
  "approve_kyc env driver_id reviewed_by notes documents now db =
     bindR (require_profile_by_id driver_id db) (\<lambda>p.
     bindR (ensure_kyc_documents_complete p) (\<lambda>_.
     let decisions = (if documents = [] then map approved_decision KYC_DOCUMENT_TYPES else documents)
     in bindR (apply_document_decisions KYC_DOCUMENT_TYPES reviewed_by now [] decisions
            (dp_kyc_document_reviews p, dp_kyc_review_history p)) (\<lambda>(reviews, events).
        bindR (ensure_all_documents_approved reviews KYC_DOCUMENT_TYPES) (\<lambda>_.
        let profile = p\<lparr>dp_kyc_document_reviews := reviews, dp_kyc_review_history := events,
              dp_status := DR_ACTIVE, dp_kyc_status := KYC_APPROVED, dp_license_verified_at := Some now,
              dp_kyc_reviewed_at := Some now, dp_kyc_review_notes := Some (review_note notes reviewed_by)\<rparr>
        in bindR (save_profile profile db) (\<lambda>db1.
           bindR (publish_profile_status env profile now db1) (\<lambda>db2.
           Inr (profile_payload now profile, db2)))))))"

definition reject_kyc ::
  "driver_env \<Rightarrow> uuid \<Rightarrow> uuid \<Rightarrow> string option \<Rightarrow> document_decision list \<Rightarrow> datetime \<Rightarrow> ride_db
    \<Rightarrow> exn + view \<times> ride_db" where
  "reject_kyc env driver_id reviewed_by notes documents now db =
     bindR (require_profile_by_id driver_id db) (\<lambda>p.
     bindR (apply_rejection_decisions KYC_DOCUMENT_TYPES reviewed_by now documents
         (dp_kyc_document_reviews p, dp_kyc_review_history p)) (\<lambda>(reviews, events).
     let profile = p\<lparr>dp_kyc_document_reviews := reviews, dp_kyc_review_history := events,
           dp_status := DR_PENDING_VERIFICATION, dp_kyc_status := KYC_REJECTED, dp_license_verified_at := None,
           dp_kyc_reviewed_at := Some now, dp_kyc_review_notes := Some (review_note notes reviewed_by)\<rparr>
     in bindR (save_profile profile db) (\<lambda>db1.
        bindR (publish_profile_status env profile now db1) (\<lambda>db2.
        Inr (profile_payload now profile, db2)))))"

definition update_my_profile_photo :: "uuid \<Rightarrow> uuid \<Rightarrow> datetime \<Rightarrow> ride_db \<Rightarrow> exn + view \<times> ride_db" where
  "update_my_profile_photo user_id file_id now db =
     bindR (require_profile user_id db) (\<lambda>p.
     let profile = p\<lparr>dp_profile_photo_file_id := Some file_id\<rparr>
     in bindR (save_profile profile db) (\<lambda>db1. Inr (profile_payload now profile, db1)))"

definition update_profile_photo :: "uuid \<Rightarrow> uuid \<Rightarrow> datetime \<Rightarrow> ride_db \<Rightarrow> exn + view \<times> ride_db" where
  "update_profile_photo driver_id file_id now db =
     bindR (require_profile_by_id driver_id db) (\<lambda>p.
     let profile = p\<lparr>dp_profile_photo_file_id := Some file_id\<rparr>
     in bindR (save_profile profile db) (\<lambda>db1. Inr (profile_payload now profile, db1)))"

section \<open>The KYV file of a vehicle\<close>

definition register_vehicle ::
  "driver_env \<Rightarrow> uuid \<Rightarrow> string \<Rightarrow> string option \<Rightarrow> string option \<Rightarrow> string option \<Rightarrow> string \<Rightarrow> string
    \<Rightarrow> vehicle_submission \<Rightarrow> datetime \<Rightarrow> ride_db \<Rightarrow> exn + view \<times> ride_db" where
  "register_vehicle env user_id plate brand model color category comfort_level s now db =
     bindR (vehicle_category_of category) (\<lambda>vc.
     bindR (comfort_level_of comfort_level) (\<lambda>cl.
     bindR (require_profile user_id db) (\<lambda>p.
     let (i, db1) = fresh_id db;
         v = (kyv_vehicle s (new_vehicle i (dp_id p) (upper (strip plate))))
           \<lparr>ve_make := brand, ve_model := model, ve_color := color, ve_category := vc, ve_comfort_level := cl,
            ve_created_at := Some now\<rparr>
     in bindR (save_plate v db1) (\<lambda>db2.
        bindR (publish_profile_status env p now db2) (\<lambda>db3.
        Inr (vehicle_payload v, db3))))))"

definition update_vehicle ::
  "uuid \<Rightarrow> string \<Rightarrow> string option \<Rightarrow> string option \<Rightarrow> string option \<Rightarrow> string \<Rightarrow> ride_db
    \<Rightarrow> exn + view \<times> ride_db" where
  "update_vehicle user_id plate brand model color category db =
     bindR (vehicle_category_of category) (\<lambda>vc.
     bindR (require_profile user_id db) (\<lambda>p.
     case find_active_vehicle (dp_id p) db of
       None \<Rightarrow> Inl (ApiError 404 ''VEHICLE_NOT_FOUND'')
     | Some v0 \<Rightarrow>
       let v = v0\<lparr>ve_plate_number := upper (strip plate), ve_make := brand, ve_model := model,
             ve_color := color, ve_category := vc\<rparr>
       in bindR (save_plate v db) (\<lambda>db1. Inr (vehicle_payload v, db1))))"

definition resubmitted_vehicle :: "vehicle_submission \<Rightarrow> datetime \<Rightarrow> vehicle \<Rightarrow> vehicle" where
  "resubmitted_vehicle s now v0 =
     (let v = update_vehicle_kyv_fields s v0;
          (reviews, events) = mark_resubmitted_documents_pending now (submitted_vehicle_document_types s)
            (ve_document_reviews v, ve_review_history v)
      in v\<lparr>ve_verification_status := VV_PENDING_VERIFICATION, ve_document_reviews := reviews,
           ve_review_history := events, ve_verified_at := None, ve_reviewed_at := None,
           ve_review_notes := None\<rparr>)"

definition resubmit_vehicle_kyv ::
  "driver_env \<Rightarrow> uuid \<Rightarrow> uuid \<Rightarrow> vehicle_submission \<Rightarrow> datetime \<Rightarrow> ride_db \<Rightarrow> exn + view \<times> ride_db" where
  "resubmit_vehicle_kyv env vehicle_id user_id s now db =
     bindR (require_profile user_id db) (\<lambda>p.
     bindR (require_vehicle vehicle_id db) (\<lambda>v0.
     if ve_driver_id v0 \<noteq> dp_id p then Inl (ApiError 403 ''RIDE_NOT_OWNED_BY_USER'')
     else
       let v = resubmitted_vehicle s now v0
       in bindR (save_vehicle v db) (\<lambda>db1.
          bindR (publish_profile_status env p now db1) (\<lambda>db2. Inr (vehicle_payload v, db2)))))"

definition approve_vehicle_kyv ::
  "driver_env \<Rightarrow> uuid \<Rightarrow> uuid \<Rightarrow> string option \<Rightarrow> document_decision list \<Rightarrow> datetime \<Rightarrow> ride_db
    \<Rightarrow> exn + view \<times> ride_db" where
  "approve_vehicle_kyv env vehicle_id reviewed_by notes documents now db =
     bindR (require_vehicle vehicle_id db) (\<lambda>v0.
     bindR (ensure_vehicle_kyv_documents_complete v0) (\<lambda>_.
     let decisions = (if documents = [] then map approved_decision REQUIRED_VEHICLE_DOCUMENT_TYPES else documents)
     in bindR (apply_document_decisions VEHICLE_DOCUMENT_TYPES reviewed_by now [] decisions
            (ve_document_reviews v0, ve_review_history v0)) (\<lambda>(reviews, events).
        bindR (ensure_all_documents_approved reviews REQUIRED_VEHICLE_DOCUMENT_TYPES) (\<lambda>_.
        let v = v0\<lparr>ve_document_reviews := reviews, ve_review_history := events,
              ve_verification_status := VV_ACTIVE, ve_verified_at := Some now, ve_reviewed_at := Some now,
              ve_review_notes := Some (review_note notes reviewed_by), ve_active := True\<rparr>
        in bindR (save_vehicle v db) (\<lambda>db1.
           bindR (publish_status_for_driver_id env (ve_driver_id v) now db1) (\<lambda>db2.
           Inr (vehicle_payload v, db2)))))))"

text \<open>
  A rejection of the optional document alone does not take a vehicle out of service.
\<close>

definition rejected_required :: "document_review list \<Rightarrow> bool" where
  "rejected_required reviews =
     list_ex (\<lambda>t. review_status t reviews = Some ''rejected'') REQUIRED_VEHICLE_DOCUMENT_TYPES"

definition reviewed_vehicle :: "document_review list \<Rightarrow> vehicle \<Rightarrow> vehicle" where
  "reviewed_vehicle reviews v =
     (if rejected_required reviews then v\<lparr>ve_verification_status := VV_REJECTED, ve_verified_at := None\<rparr>
      else if ve_verification_status v \<noteq> VV_ACTIVE
      then v\<lparr>ve_verification_status := VV_PENDING_VERIFICATION\<rparr>
      else v)"

definition reject_vehicle_kyv ::
  "driver_env \<Rightarrow> uuid \<Rightarrow> uuid \<Rightarrow> string option \<Rightarrow> document_decision list \<Rightarrow> datetime \<Rightarrow> ride_db
    \<Rightarrow> exn + view \<times> ride_db" where
  "reject_vehicle_kyv env vehicle_id reviewed_by notes documents now db =
     bindR (require_vehicle vehicle_id db) (\<lambda>v0.
     bindR (apply_rejection_decisions VEHICLE_DOCUMENT_TYPES reviewed_by now documents
         (ve_document_reviews v0, ve_review_history v0)) (\<lambda>(reviews, events).
     let v = (reviewed_vehicle reviews v0)\<lparr>ve_document_reviews := reviews, ve_review_history := events,
           ve_reviewed_at := Some now, ve_review_notes := Some (review_note notes reviewed_by), ve_active := True\<rparr>
     in bindR (save_vehicle v db) (\<lambda>db1.
        bindR (publish_status_for_driver_id env (ve_driver_id v) now db1) (\<lambda>db2.
        Inr (vehicle_payload v, db2)))))"

section \<open>Reads\<close>

definition profile_with_vehicle :: "datetime \<Rightarrow> driver_profile \<Rightarrow> ride_db \<Rightarrow> view" where
  "profile_with_vehicle now p db = (case profile_payload now p of
     VObj items \<Rightarrow> VObj (items @ [(''vehicle'', vopt vehicle_payload (find_active_vehicle (dp_id p) db))])
   | v \<Rightarrow> v)"

definition get_profile :: "uuid \<Rightarrow> datetime \<Rightarrow> ride_db \<Rightarrow> exn + view" where
  "get_profile user_id now db = bindR (require_profile user_id db) (\<lambda>p. Inr (profile_with_vehicle now p db))"

definition get_kyc_detail :: "uuid \<Rightarrow> datetime \<Rightarrow> ride_db \<Rightarrow> exn + view" where
  "get_kyc_detail driver_id now db = bindR (require_profile_by_id driver_id db) (\<lambda>p. Inr (profile_with_vehicle now p db))"

definition page_view :: "view list \<Rightarrow> nat \<Rightarrow> nat \<Rightarrow> nat \<Rightarrow> view" where
  "page_view items page page_size count_all = VObj [(''data'', VList items),
     (''pagination'', VObj [(''page'', VInt (int page)), (''page_size'', VInt (int page_size)),
        (''total'', VInt (int count_all))])]"

definition list_kyc_queue :: "string \<Rightarrow> nat \<Rightarrow> nat \<Rightarrow> datetime \<Rightarrow> ride_db \<Rightarrow> exn + view" where
  "list_kyc_queue status page page_size now db =
     (let all_statuses = [KYC_APPROVED, KYC_PENDING_VERIFICATION, KYC_REJECTED];
          statuses = (if status = ''all'' then all_statuses
            else filter (\<lambda>s. kyc_status_value s = status) all_statuses)
      in if statuses = [] then Inl (ApiError 422 ''DRIVER_KYC_STATUS_INVALID'')
         else let (rows, count_all) = list_by_kyc_status statuses page page_size db
              in Inr (page_view (map (profile_payload now) rows) page page_size count_all))"

definition list_vehicle_kyv_queue :: "string \<Rightarrow> nat \<Rightarrow> nat \<Rightarrow> ride_db \<Rightarrow> exn + view" where
  "list_vehicle_kyv_queue status page page_size db =
     (let all_statuses = [VV_PENDING_VERIFICATION, VV_ACTIVE, VV_SUSPENDED, VV_REJECTED];
          statuses = (if status = ''all'' then all_statuses
            else filter (\<lambda>s. vehicle_status_value s = status) all_statuses)
      in if statuses = [] then Inl (ApiError 422 ''INVALID_VEHICLE_STATUS'')
         else let (rows, count_all) = list_by_verification_status statuses page page_size db
              in Inr (page_view (map vehicle_payload rows) page page_size count_all))"

definition get_vehicle_kyv_detail :: "uuid \<Rightarrow> ride_db \<Rightarrow> exn + view" where
  "get_vehicle_kyv_detail vehicle_id db = bindR (require_vehicle vehicle_id db) (\<lambda>v. Inr (vehicle_payload v))"

section \<open>Capabilities\<close>

definition vehicle_capability_payload :: "vehicle option \<Rightarrow> view" where
  "vehicle_capability_payload vehicle = vopt (\<lambda>v. VObj [
     (''id'', vid (ve_id v)), (''status'', VStr (vehicle_status_value (ve_verification_status v))),
     (''active'', VBool (ve_active v)), (''category'', VStr (vehicle_category_value (ve_category v))),
     (''comfort_level'', VStr (comfort_level_value (ve_comfort_level v))),
     (''owner_type'', VStr (ve_owner_type v)), (''partner_id'', vopt vid (ve_partner_id v))]) vehicle"

text \<open>Why a profile with its vehicle cannot go online, whoever else may object.\<close>

definition profile_blocking_reasons :: "driver_profile \<Rightarrow> vehicle option \<Rightarrow> string list" where
  "profile_blocking_reasons p vehicle =
     (if dp_status p \<noteq> DR_ACTIVE then [''driver_not_verified''] else [])
     @ (case vehicle of
          None \<Rightarrow> [''no_active_vehicle'']
        | Some v \<Rightarrow> if ve_verification_status v \<noteq> VV_ACTIVE then [''vehicle_not_verified''] else [])"

definition capability_status :: "driver_profile \<Rightarrow> string" where
  "capability_status p =
     (if dp_kyc_status p = KYC_REJECTED then ''kyc_rejected'' else driver_status_value (dp_status p))"

text \<open>
  Profile and vehicle of a driver about to go online. The review flag of the account is copied to the
  profile first; a refusal rolls that back with the rest.
\<close>

definition resolve_driver ::
  "uuid \<Rightarrow> bool option \<Rightarrow> ride_db \<Rightarrow> exn + (driver_profile \<times> vehicle) \<times> ride_db" where
  "resolve_driver user_id is_review_account db =
     bindR (require_profile user_id db) (\<lambda>p0.
     bindR (if is_review_account \<noteq> None \<and> is_review_account \<noteq> Some (dp_is_review_account p0)
            then let p = p0\<lparr>dp_is_review_account := the is_review_account\<rparr>
                 in bindR (save_profile p db) (\<lambda>db1. Inr (p, db1))
            else Inr (p0, db)) (\<lambda>(p, db1).
     if dp_status p \<noteq> DR_ACTIVE then Inl (ApiError 403 ''DRIVER_NOT_VERIFIED'')
     else case find_active_vehicle (dp_id p) db1 of
         None \<Rightarrow> Inl (ApiError 409 ''NO_ACTIVE_VEHICLE'')
       | Some v \<Rightarrow> if ve_verification_status v \<noteq> VV_ACTIVE then Inl (ApiError 403 ''VEHICLE_NOT_VERIFIED'')
                  else Inr ((p, v), db1)))"

end
