(* ===== verification/Partner_Tables.thy ===== *)
theory Partner_Tables
  imports Driver_Service
begin

text \<open>
  The partners of DiddiGo (fleets and companies): the dataclasses of
  app\_base/modules/partner/domain/entities.py and the tables of
  app\_base/modules/partner/infra/repositories.py. A driver has one active link and a vehicle one active
  assignment (partial unique indexes of the migration); links and assignments refer to existing rows.
\<close>

section \<open>Entities\<close>

datatype partner_type = COMPANY | FLEET_OWNER

datatype partner_status = PS_PENDING_VERIFICATION | PS_ACTIVE | PS_SUSPENDED | PS_REJECTED

datatype partner_member_role = MANAGER | OPERATOR | VIEWER

datatype partner_commission_mode = PERCENTAGE | FIXED

fun partner_type_value :: "partner_type \<Rightarrow> string" where
  "partner_type_value COMPANY = ''company''"
| "partner_type_value FLEET_OWNER = ''fleet_owner''"

fun partner_status_value :: "partner_status \<Rightarrow> string" where
  "partner_status_value PS_PENDING_VERIFICATION = ''pending_verification''"
| "partner_status_value PS_ACTIVE = ''active''"
| "partner_status_value PS_SUSPENDED = ''suspended''"
| "partner_status_value PS_REJECTED = ''rejected''"

fun member_role_value :: "partner_member_role \<Rightarrow> string" where
  "member_role_value MANAGER = ''partner_manager''"
| "member_role_value OPERATOR = ''partner_operator''"
| "member_role_value VIEWER = ''partner_viewer''"

fun commission_mode_value :: "partner_commission_mode \<Rightarrow> string" where
  "commission_mode_value PERCENTAGE = ''percentage''"
| "commission_mode_value FIXED = ''fixed''"

record partner =
  pa_id :: uuid
  pa_name :: string
  pa_partner_type :: partner_type
  pa_status :: partner_status
  pa_legal_name :: "string option"
  pa_contact_phone :: "string option"
  pa_contact_email :: "string option"
  pa_commission_enabled :: bool
  pa_commission_mode :: partner_commission_mode
  pa_commission_rate :: rat
  pa_registration_document :: attachment
  pa_tax_document :: attachment
  pa_representative_id_document :: attachment
  pa_fleet_ownership_document :: attachment
  pa_kyc_submitted_at :: "datetime option"
  pa_kyc_reviewed_at :: "datetime option"
  pa_kyc_review_notes :: "string option"
  pa_created_at :: "datetime option"
  pa_updated_at :: "datetime option"

record partner_member =
  pm_id :: uuid
  pm_partner_id :: uuid
  pm_user_id :: uuid
  pm_role :: partner_member_role
  pm_active :: bool
  pm_created_at :: "datetime option"
  pm_updated_at :: "datetime option"

record partner_driver_link =
  pl_id :: uuid
  pl_partner_id :: uuid
  pl_driver_id :: uuid
  pl_active :: bool
  pl_created_at :: "datetime option"
  pl_ended_at :: "datetime option"

record vehicle_assignment =
  va_id :: uuid
  va_partner_id :: uuid
  va_vehicle_id :: uuid
  va_driver_id :: uuid
  va_active :: bool
  va_created_at :: "datetime option"
  va_ended_at :: "datetime option"

text \<open>The partner schema beside the ride schema, whose vehicles and profiles it refers to.\<close>

record fleet =
  partners :: "partner list"
  members :: "partner_member list"
  driver_links :: "partner_driver_link list"
  assignments :: "vehicle_assignment list"
  next_partner_id :: nat
  fleet_rides :: ride_db

definition partner_uuid :: "fleet \<Rightarrow> uuid \<times> fleet" where
  "partner_uuid db = (next_partner_id db, db\<lparr>next_partner_id := Suc (next_partner_id db)\<rparr>)"

section \<open>Partners\<close>

text \<open>
  \<open>Numeric(6, 4)\<close>: four decimals, rounded half away from zero, and two digits before the point.
\<close>

definition numeric_6_4 :: "rat \<Rightarrow> exn + rat" where
  "numeric_6_4 x = (let y = of_int (floor (\<bar>x\<bar> * 10000 + 1 / 2)) / 10000
     in if 100 \<le> y then Inl DataError else Inr (if x < 0 then - y else y))"

text \<open>
  \<open>save\<close> stores the rate in its column; the partner in hand keeps its rate and gets the stamps of the
  row.
\<close>

definition save_partner :: "partner \<Rightarrow> datetime \<Rightarrow> fleet \<Rightarrow> exn + partner \<times> fleet" where
  "save_partner p now db =
     bindR (numeric_6_4 (pa_commission_rate p)) (\<lambda>rate.
     let old = get_row pa_id (pa_id p) (partners db);
         stamped = p\<lparr>pa_created_at := (case old of None \<Rightarrow> Some now | Some row \<Rightarrow> pa_created_at row),
           pa_updated_at := Some now\<rparr>;
         row = stamped\<lparr>pa_commission_rate := rate\<rparr>
     in Inr (stamped, db\<lparr>partners := (if old = None then partners db @ [row]
          else put_row pa_id (pa_id p) row (partners db))\<rparr>))"

definition find_partner :: "uuid \<Rightarrow> fleet \<Rightarrow> partner option" where
  "find_partner i db = get_row pa_id i (partners db)"

definition list_partners_by ::
  "partner_status option \<Rightarrow> partner_type option \<Rightarrow> nat \<Rightarrow> nat \<Rightarrow> fleet \<Rightarrow> partner list \<times> nat" where
  "list_partners_by status kind page page_size db =
     (let rows = filter (\<lambda>p. matches status (\<lambda>s. pa_status p = s) \<and> matches kind (\<lambda>k. pa_partner_type p = k))
            (partners db)
      in (page_desc (\<lambda>p. stamp_or_0 (pa_created_at p)) page page_size rows, length rows))"

section \<open>Members\<close>

definition member_clash :: "partner_member \<Rightarrow> partner_member \<Rightarrow> bool" where
  "member_clash a b \<longleftrightarrow> pm_partner_id a = pm_partner_id b \<and> pm_user_id a = pm_user_id b"

definition save_member :: "partner_member \<Rightarrow> datetime \<Rightarrow> fleet \<Rightarrow> exn + partner_member \<times> fleet" where
  "save_member m now db =
     (let old = get_row pm_id (pm_id m) (members db);
          row = m\<lparr>pm_created_at := (case old of None \<Rightarrow> Some now | Some r \<Rightarrow> pm_created_at r),
            pm_updated_at := Some now\<rparr>
      in bindR (if old = None then insert_row member_clash row (members db)
           else update_row pm_id member_clash row (members db)) (\<lambda>rows. Inr (row, db\<lparr>members := rows\<rparr>)))"

definition list_members_of :: "uuid \<Rightarrow> fleet \<Rightarrow> partner_member list" where
  "list_members_of partner_id db =
     asc_by False pm_created_at (filter (\<lambda>m. pm_partner_id m = partner_id) (members db))"

definition find_active_memberships_by_user_id :: "uuid \<Rightarrow> fleet \<Rightarrow> (partner \<times> partner_member) list" where
  "find_active_memberships_by_user_id user_id db =
     rev (sort_key (\<lambda>(p, m). stamp_or_0 (pa_created_at p))
       (concat (map (\<lambda>m. case find_partner (pm_partner_id m) db of None \<Rightarrow> [] | Some p \<Rightarrow> [(p, m)])
          (filter (\<lambda>m. pm_user_id m = user_id \<and> pm_active m) (members db)))))"

definition deactivate_member_row :: "uuid \<Rightarrow> datetime \<Rightarrow> fleet \<Rightarrow> bool \<times> fleet" where
  "deactivate_member_row member_id now db =
     (case get_row pm_id member_id (members db) of
        None \<Rightarrow> (False, db)
      | Some row \<Rightarrow> (True, db\<lparr>members := put_row pm_id member_id
          (row\<lparr>pm_active := False, pm_updated_at := Some now\<rparr>) (members db)\<rparr>))"

section \<open>Links and assignments\<close>

definition link_clash :: "partner_driver_link \<Rightarrow> partner_driver_link \<Rightarrow> bool" where
  "link_clash a b \<longleftrightarrow> pl_active a \<and> pl_active b \<and> pl_driver_id a = pl_driver_id b"

definition save_driver_link :: "partner_driver_link \<Rightarrow> datetime \<Rightarrow> fleet \<Rightarrow> exn + partner_driver_link \<times> fleet" where
  "save_driver_link l now db =
     (if find_partner (pl_partner_id l) db = None \<or> find_profile (pl_driver_id l) (fleet_rides db) = None
      then Inl IntegrityError
      else
        let old = get_row pl_id (pl_id l) (driver_links db);
            row = l\<lparr>pl_created_at := (case old of None \<Rightarrow> Some now | Some r \<Rightarrow> pl_created_at r)\<rparr>
        in bindR (if old = None then insert_row link_clash row (driver_links db)
             else update_row pl_id link_clash row (driver_links db))
           (\<lambda>rows. Inr (row, db\<lparr>driver_links := rows\<rparr>)))"

definition find_active_driver_link :: "uuid \<Rightarrow> fleet \<Rightarrow> (partner \<times> partner_driver_link) option" where
  "find_active_driver_link driver_id db =
     (case concat (map (\<lambda>l. case find_partner (pl_partner_id l) db of None \<Rightarrow> [] | Some p \<Rightarrow> [(p, l)])
        (filter (\<lambda>l. pl_driver_id l = driver_id \<and> pl_active l) (driver_links db))) of
        [] \<Rightarrow> None | x # _ \<Rightarrow> Some x)"

definition list_driver_links :: "uuid \<Rightarrow> bool \<Rightarrow> fleet \<Rightarrow> partner_driver_link list" where
  "list_driver_links partner_id active_only db =
     rev (sort_key (\<lambda>l. stamp_or_0 (pl_created_at l))
       (filter (\<lambda>l. pl_partner_id l = partner_id \<and> (active_only \<longrightarrow> pl_active l)) (driver_links db)))"

definition end_driver_link :: "uuid \<Rightarrow> uuid \<Rightarrow> datetime \<Rightarrow> fleet \<Rightarrow> bool \<times> fleet" where
  "end_driver_link partner_id driver_id now db =
     (let hit = (\<lambda>l. pl_partner_id l = partner_id \<and> pl_driver_id l = driver_id \<and> pl_active l) in
      (list_ex hit (driver_links db),
       db\<lparr>driver_links := map (\<lambda>l. if hit l then l\<lparr>pl_active := False, pl_ended_at := Some now\<rparr> else l)
         (driver_links db)\<rparr>))"

text \<open>A vehicle that is not verified goes back to verification and out of service.\<close>

definition set_vehicle_partner_owner :: "uuid \<Rightarrow> uuid \<Rightarrow> uuid \<Rightarrow> fleet \<Rightarrow> bool \<times> fleet" where
  "set_vehicle_partner_owner vehicle_id partner_id driver_id db =
     (case find_vehicle vehicle_id (fleet_rides db) of
        None \<Rightarrow> (False, db)
      | Some row \<Rightarrow>
        let owned = row\<lparr>ve_owner_type := ''partner'', ve_partner_id := Some partner_id, ve_driver_id := driver_id\<rparr>;
            row1 = (if ve_verification_status row \<noteq> VV_ACTIVE
              then owned\<lparr>ve_verification_status := VV_PENDING_VERIFICATION, ve_active := False\<rparr> else owned)
        in (True, db\<lparr>fleet_rides := (fleet_rides db)
             \<lparr>vehicles := put_row ve_id vehicle_id row1 (vehicles (fleet_rides db))\<rparr>\<rparr>))"

definition assignment_clash :: "vehicle_assignment \<Rightarrow> vehicle_assignment \<Rightarrow> bool" where
  "assignment_clash a b \<longleftrightarrow> va_active a \<and> va_active b \<and> va_vehicle_id a = va_vehicle_id b"

definition save_vehicle_assignment :: "vehicle_assignment \<Rightarrow> datetime \<Rightarrow> fleet \<Rightarrow> exn + vehicle_assignment \<times> fleet" where
  "save_vehicle_assignment a now db =
     (if find_partner (va_partner_id a) db = None \<or> find_profile (va_driver_id a) (fleet_rides db) = None
         \<or> find_vehicle (va_vehicle_id a) (fleet_rides db) = None
      then Inl IntegrityError
      else
        let old = get_row va_id (va_id a) (assignments db);
            row = a\<lparr>va_created_at := (case old of None \<Rightarrow> Some now | Some r \<Rightarrow> va_created_at r)\<rparr>
        in bindR (if old = None then insert_row assignment_clash row (assignments db)
             else update_row va_id assignment_clash row (assignments db))
           (\<lambda>rows. Inr (row, db\<lparr>assignments := rows\<rparr>)))"

definition find_active_vehicle_assignment :: "uuid \<Rightarrow> fleet \<Rightarrow> vehicle_assignment option" where
  "find_active_vehicle_assignment vehicle_id db =
     find (\<lambda>a. va_vehicle_id a = vehicle_id \<and> va_active a) (assignments db)"

definition end_vehicle_assignment :: "uuid \<Rightarrow> datetime \<Rightarrow> fleet \<Rightarrow> bool \<times> fleet" where
  "end_vehicle_assignment vehicle_id now db =
     (let hit = (\<lambda>a. va_vehicle_id a = vehicle_id \<and> va_active a) in
      (list_ex hit (assignments db),
       db\<lparr>assignments := map (\<lambda>a. if hit a then a\<lparr>va_active := False, va_ended_at := Some now\<rparr> else a)
         (assignments db)\<rparr>))"

end
