(* ===== verification/Partner_Service.thy ===== *)
theory Partner_Service
  imports Partner_Tables
begin

text \<open>
  app\_base/modules/partner/application/services.py: partners with their KYC file and commission,
  members, affiliated drivers and vehicles. The request schemas give rates as decimals, so that parsing
  them cannot fail; users are not in the model, so that a member may be anyone.
\<close>

section \<open>Values of requests\<close>

definition partner_type_of :: "string \<Rightarrow> exn + partner_type" where
  "partner_type_of value = (if value = ''company'' then Inr COMPANY else if value = ''fleet_owner'' then Inr FLEET_OWNER
     else Inl (ApiError 422 ''INVALID_PARTNER_TYPE''))"

definition partner_status_of :: "string \<Rightarrow> exn + partner_status" where
  "partner_status_of value =
     (if value = ''pending_verification'' then Inr PS_PENDING_VERIFICATION
      else if value = ''active'' then Inr PS_ACTIVE
      else if value = ''suspended'' then Inr PS_SUSPENDED
      else if value = ''rejected'' then Inr PS_REJECTED
      else Inl (ApiError 422 ''INVALID_PARTNER_STATUS''))"

definition member_role_of :: "string \<Rightarrow> exn + partner_member_role" where
  "member_role_of value =
     (if value = ''partner_manager'' then Inr MANAGER
      else if value = ''partner_operator'' then Inr OPERATOR
      else if value = ''partner_viewer'' then Inr VIEWER
      else Inl (ApiError 422 ''INVALID_PARTNER_ROLE''))"

definition commission_mode_of :: "string \<Rightarrow> exn + partner_commission_mode" where
  "commission_mode_of value =
     (if value = ''percentage'' then Inr PERCENTAGE else if value = ''fixed'' then Inr FIXED
      else Inl (ApiError 422 ''INVALID_PARTNER_COMMISSION''))"

text \<open>\<open>x(value) if value else None\<close>\<close>

definition optional_value :: "(string \<Rightarrow> exn + 'a) \<Rightarrow> string option \<Rightarrow> exn + 'a option" where
  "optional_value f value = (if str_or value [] = [] then Inr None
     else bindR (f (str_or value [])) (\<lambda>x. Inr (Some x)))"

definition commission_rate_of :: "rat \<Rightarrow> string \<Rightarrow> exn + rat" where
  "commission_rate_of amount mode =
     (if amount < 0 then Inl (ApiError 422 ''INVALID_PARTNER_COMMISSION'')
      else if mode = commission_mode_value PERCENTAGE \<and> 1 < amount
      then Inl (ApiError 422 ''INVALID_PARTNER_COMMISSION'')
      else Inr amount)"

definition required_text :: "string \<Rightarrow> exn + string" where
  "required_text value = (case blank_to_none (Some value) of
     None \<Rightarrow> Inl (ApiError 422 ''VALIDATION_ERROR'') | Some cleaned \<Rightarrow> Inr cleaned)"

text \<open>The documents that a request brings.\<close>

record partner_documents =
  px_registration_document :: attachment
  px_tax_document :: attachment
  px_representative_id_document :: attachment
  px_fleet_ownership_document :: attachment

definition update_partner_kyc_fields :: "partner_documents \<Rightarrow> partner \<Rightarrow> partner" where
  "update_partner_kyc_fields s p = p\<lparr>
     pa_registration_document := update_attachment (px_registration_document s) (pa_registration_document p),
     pa_tax_document := update_attachment (px_tax_document s) (pa_tax_document p),
     pa_representative_id_document := update_attachment (px_representative_id_document s) (pa_representative_id_document p),
     pa_fleet_ownership_document := update_attachment (px_fleet_ownership_document s) (pa_fleet_ownership_document p)\<rparr>"

definition has_any_partner_kyc_document :: "partner_documents \<Rightarrow> bool" where
  "has_any_partner_kyc_document s = list_ex (\<lambda>a. at_file_id a \<noteq> None \<or> blank_to_none (at_url a) \<noteq> None)
     [px_registration_document s, px_tax_document s,
      px_representative_id_document s, px_fleet_ownership_document s]"

definition ensure_partner_kyc_complete :: "partner \<Rightarrow> exn + unit" where
  "ensure_partner_kyc_complete p =
     (if list_all attached [pa_registration_document p, pa_tax_document p, pa_representative_id_document p]
      then Inr () else Inl (ApiError 422 ''INVALID_PARTNER_KYC_DOCUMENTS''))"

section \<open>Payloads\<close>

definition partner_fields :: "partner \<Rightarrow> (string \<times> view) list" where
  "partner_fields p = [
     (''id'', vid (pa_id p)), (''name'', VStr (pa_name p)),
     (''partner_type'', VStr (partner_type_value (pa_partner_type p))),
     (''status'', VStr (partner_status_value (pa_status p))), (''legal_name'', vopt VStr (pa_legal_name p)),
     (''contact_phone'', vopt VStr (pa_contact_phone p)), (''contact_email'', vopt VStr (pa_contact_email p)),
     (''partner_commission_enabled'', VBool (pa_commission_enabled p)),
     (''partner_commission_mode'', VStr (commission_mode_value (pa_commission_mode p))),
     (''partner_commission_rate'', VNum (to_float (pa_commission_rate p))),
     (''kyc'', VObj [
        (''registration_document_file_id'', vfile (pa_registration_document p)),
        (''tax_document_file_id'', vfile (pa_tax_document p)),
        (''representative_id_document_file_id'', vfile (pa_representative_id_document p)),
        (''fleet_ownership_document_file_id'', vfile (pa_fleet_ownership_document p)),
        (''registration_document_url'', vlink (pa_registration_document p)),
        (''tax_document_url'', vlink (pa_tax_document p)),
        (''representative_id_document_url'', vlink (pa_representative_id_document p)),
        (''fleet_ownership_document_url'', vlink (pa_fleet_ownership_document p)),
        (''submitted_at'', vopt VAt (pa_kyc_submitted_at p)),
        (''reviewed_at'', vopt VAt (pa_kyc_reviewed_at p)),
        (''review_notes'', vopt VStr (pa_kyc_review_notes p))]),
     (''created_at'', vopt VAt (pa_created_at p)), (''updated_at'', vopt VAt (pa_updated_at p))]"

definition partner_payload :: "partner \<Rightarrow> view" where "partner_payload p = VObj (partner_fields p)"

definition member_payload :: "partner_member \<Rightarrow> view" where
  "member_payload m = VObj [(''id'', vid (pm_id m)), (''partner_id'', vid (pm_partner_id m)),
     (''user_id'', vid (pm_user_id m)), (''role'', VStr (member_role_value (pm_role m))),
     (''active'', VBool (pm_active m)), (''created_at'', vopt VAt (pm_created_at m)),
     (''updated_at'', vopt VAt (pm_updated_at m))]"

definition driver_link_payload :: "partner_driver_link \<Rightarrow> view" where
  "driver_link_payload l = VObj [(''id'', vid (pl_id l)), (''partner_id'', vid (pl_partner_id l)),
     (''driver_id'', vid (pl_driver_id l)), (''active'', VBool (pl_active l)),
     (''created_at'', vopt VAt (pl_created_at l)), (''ended_at'', vopt VAt (pl_ended_at l))]"

definition vehicle_assignment_payload :: "vehicle_assignment \<Rightarrow> view" where
  "vehicle_assignment_payload a = VObj [(''id'', vid (va_id a)), (''partner_id'', vid (va_partner_id a)),
     (''vehicle_id'', vid (va_vehicle_id a)), (''driver_id'', vid (va_driver_id a)),
     (''active'', VBool (va_active a)), (''created_at'', vopt VAt (va_created_at a)),
     (''ended_at'', vopt VAt (va_ended_at a))]"

text \<open>The payload of a vehicle here leaves out the reviews and shows its creation.\<close>

definition partner_vehicle_payload :: "vehicle \<Rightarrow> view" where
  "partner_vehicle_payload v = (case vehicle_payload v of
     VObj items \<Rightarrow> VObj (filter (\<lambda>(k, _). k \<noteq> ''document_reviews'') items
       @ [(''created_at'', vopt VAt (ve_created_at v))])
   | w \<Rightarrow> w)"

section \<open>Partners\<close>

definition require_partner :: "uuid \<Rightarrow> fleet \<Rightarrow> exn + partner" where
  "require_partner partner_id db = (case find_partner partner_id db of
     None \<Rightarrow> Inl (ApiError 404 ''PARTNER_NOT_FOUND'') | Some p \<Rightarrow> Inr p)"

definition require_active_partner :: "uuid \<Rightarrow> fleet \<Rightarrow> exn + partner" where
  "require_active_partner partner_id db = bindR (require_partner partner_id db) (\<lambda>p.
     if pa_status p \<noteq> PS_ACTIVE then Inl (ApiError 409 ''PARTNER_NOT_ACTIVE'') else Inr p)"

definition create_partner ::
  "string \<Rightarrow> string \<Rightarrow> string option \<Rightarrow> string option \<Rightarrow> string option \<Rightarrow> bool \<Rightarrow> string \<Rightarrow> rat
    \<Rightarrow> partner_documents \<Rightarrow> datetime \<Rightarrow> fleet \<Rightarrow> exn + view \<times> fleet" where
  "create_partner name kind legal_name phone email enabled mode amount s now db =
     bindR (required_text name) (\<lambda>name1.
     bindR (partner_type_of kind) (\<lambda>kind1.
     bindR (commission_mode_of mode) (\<lambda>mode1.
     bindR (commission_rate_of amount mode) (\<lambda>rate1.
     let (i, db1) = partner_uuid db;
         p = \<lparr>pa_id = i, pa_name = name1, pa_partner_type = kind1, pa_status = PS_PENDING_VERIFICATION,
           pa_legal_name = blank_to_none legal_name, pa_contact_phone = blank_to_none phone,
           pa_contact_email = blank_to_none email, pa_commission_enabled = enabled, pa_commission_mode = mode1,
           pa_commission_rate = rate1, pa_registration_document = new_attachment (px_registration_document s),
           pa_tax_document = new_attachment (px_tax_document s),
           pa_representative_id_document = new_attachment (px_representative_id_document s),
           pa_fleet_ownership_document = new_attachment (px_fleet_ownership_document s),
           pa_kyc_submitted_at = (if has_any_partner_kyc_document s then Some now else None),
           pa_kyc_reviewed_at = None, pa_kyc_review_notes = None, pa_created_at = None, pa_updated_at = None\<rparr>
     in bindR (save_partner p now db1) (\<lambda>(p1, db2). Inr (partner_payload p1, db2))))))"

definition list_partners ::
  "string option \<Rightarrow> string option \<Rightarrow> nat \<Rightarrow> nat \<Rightarrow> fleet \<Rightarrow> exn + view" where
  "list_partners status kind page page_size db =
     bindR (optional_value partner_status_of status) (\<lambda>s.
     bindR (optional_value partner_type_of kind) (\<lambda>k.
     let (rows, count_all) = list_partners_by s k page page_size db
     in Inr (page_view (map partner_payload rows) page page_size count_all)))"

definition get_partner :: "uuid \<Rightarrow> fleet \<Rightarrow> exn + view" where
  "get_partner partner_id db = bindR (require_partner partner_id db) (\<lambda>p. Inr (partner_payload p))"

text \<open>What an update may change; an absent field stays. A rate is checked against the mode in force.\<close>

record partner_update =
  pu_name :: "string option"
  pu_partner_type :: "string option"
  pu_legal_name :: "string option"
  pu_contact_phone :: "string option"
  pu_contact_email :: "string option"
  pu_commission_enabled :: "bool option"
  pu_commission_mode :: "string option"
  pu_commission_rate :: "rat option"
  pu_documents :: partner_documents

definition given :: "'a option \<Rightarrow> ('a \<Rightarrow> 'r \<Rightarrow> exn + 'r) \<Rightarrow> 'r \<Rightarrow> exn + 'r" where
  "given x f r = (case x of None \<Rightarrow> Inr r | Some a \<Rightarrow> f a r)"

definition updated_partner :: "partner_update \<Rightarrow> partner \<Rightarrow> exn + partner" where
  "updated_partner u p0 =
     bindR (given (pu_name u) (\<lambda>n p. bindR (required_text n) (\<lambda>n1. Inr (p\<lparr>pa_name := n1\<rparr>))) p0) (\<lambda>p1.
     bindR (given (pu_partner_type u) (\<lambda>k p. bindR (partner_type_of k) (\<lambda>k1. Inr (p\<lparr>pa_partner_type := k1\<rparr>))) p1) (\<lambda>p2.
     bindR (given (pu_legal_name u) (\<lambda>n p. Inr (p\<lparr>pa_legal_name := blank_to_none (Some n)\<rparr>)) p2) (\<lambda>p3.
     bindR (given (pu_contact_phone u) (\<lambda>n p. Inr (p\<lparr>pa_contact_phone := blank_to_none (Some n)\<rparr>)) p3) (\<lambda>p4.
     bindR (given (pu_contact_email u) (\<lambda>n p. Inr (p\<lparr>pa_contact_email := blank_to_none (Some n)\<rparr>)) p4) (\<lambda>p5.
     bindR (given (pu_commission_enabled u) (\<lambda>b p. Inr (p\<lparr>pa_commission_enabled := b\<rparr>)) p5) (\<lambda>p6.
     bindR (given (pu_commission_mode u) (\<lambda>m p. bindR (commission_mode_of m) (\<lambda>m1. Inr (p\<lparr>pa_commission_mode := m1\<rparr>))) p6) (\<lambda>p7.
     bindR (given (pu_commission_rate u) (\<lambda>r p. bindR (commission_rate_of r (commission_mode_value (pa_commission_mode p)))
         (\<lambda>r1. Inr (p\<lparr>pa_commission_rate := r1\<rparr>))) p7) (\<lambda>p8.
     Inr (update_partner_kyc_fields (pu_documents u) p8)))))))))"

definition saved_partner :: "partner \<Rightarrow> datetime \<Rightarrow> fleet \<Rightarrow> exn + view \<times> fleet" where
  "saved_partner p now db = bindR (save_partner p now db) (\<lambda>(p1, db1). Inr (partner_payload p1, db1))"

definition update_partner :: "uuid \<Rightarrow> partner_update \<Rightarrow> datetime \<Rightarrow> fleet \<Rightarrow> exn + view \<times> fleet" where
  "update_partner partner_id u now db =
     bindR (require_partner partner_id db) (\<lambda>p0.
     bindR (updated_partner u p0) (\<lambda>p. saved_partner p now db))"

definition submit_kyc :: "uuid \<Rightarrow> partner_documents \<Rightarrow> datetime \<Rightarrow> fleet \<Rightarrow> exn + view \<times> fleet" where
  "submit_kyc partner_id s now db =
     bindR (require_partner partner_id db) (\<lambda>p.
     saved_partner ((update_partner_kyc_fields s p)\<lparr>pa_status := PS_PENDING_VERIFICATION,
       pa_kyc_submitted_at := Some now, pa_kyc_reviewed_at := None, pa_kyc_review_notes := None\<rparr>) now db)"

definition activate_partner :: "uuid \<Rightarrow> datetime \<Rightarrow> fleet \<Rightarrow> exn + view \<times> fleet" where
  "activate_partner partner_id now db =
     bindR (require_partner partner_id db) (\<lambda>p.
     bindR (ensure_partner_kyc_complete p) (\<lambda>_.
     saved_partner (p\<lparr>pa_status := PS_ACTIVE, pa_kyc_reviewed_at := Some now\<rparr>) now db))"

definition partner_approve_kyc :: "uuid \<Rightarrow> uuid \<Rightarrow> string option \<Rightarrow> datetime \<Rightarrow> fleet \<Rightarrow> exn + view \<times> fleet" where
  "partner_approve_kyc partner_id reviewed_by notes now db =
     bindR (require_partner partner_id db) (\<lambda>p.
     bindR (ensure_partner_kyc_complete p) (\<lambda>_.
     saved_partner (p\<lparr>pa_status := PS_ACTIVE, pa_kyc_reviewed_at := Some now,
       pa_kyc_review_notes := Some (review_note notes reviewed_by)\<rparr>) now db))"

definition suspend_partner :: "uuid \<Rightarrow> datetime \<Rightarrow> fleet \<Rightarrow> exn + view \<times> fleet" where
  "suspend_partner partner_id now db =
     bindR (require_partner partner_id db) (\<lambda>p. saved_partner (p\<lparr>pa_status := PS_SUSPENDED\<rparr>) now db)"

definition reject_partner :: "uuid \<Rightarrow> datetime \<Rightarrow> fleet \<Rightarrow> exn + view \<times> fleet" where
  "reject_partner partner_id now db =
     bindR (require_partner partner_id db) (\<lambda>p.
     saved_partner (p\<lparr>pa_status := PS_REJECTED, pa_kyc_reviewed_at := Some now\<rparr>) now db)"

definition partner_reject_kyc :: "uuid \<Rightarrow> uuid \<Rightarrow> string option \<Rightarrow> datetime \<Rightarrow> fleet \<Rightarrow> exn + view \<times> fleet" where
  "partner_reject_kyc partner_id reviewed_by notes now db =
     bindR (require_partner partner_id db) (\<lambda>p.
     saved_partner (p\<lparr>pa_status := PS_REJECTED, pa_kyc_reviewed_at := Some now,
       pa_kyc_review_notes := Some (review_note notes reviewed_by)\<rparr>) now db)"

section \<open>Members\<close>

definition add_member :: "uuid \<Rightarrow> uuid \<Rightarrow> string \<Rightarrow> datetime \<Rightarrow> fleet \<Rightarrow> exn + view \<times> fleet" where
  "add_member partner_id user_id role now db =
     bindR (require_partner partner_id db) (\<lambda>_.
     bindR (member_role_of role) (\<lambda>r.
     let (i, db1) = partner_uuid db;
         m = \<lparr>pm_id = i, pm_partner_id = partner_id, pm_user_id = user_id, pm_role = r, pm_active = True,
           pm_created_at = None, pm_updated_at = None\<rparr>
     in case save_member m now db1 of
          Inl IntegrityError \<Rightarrow> Inl (ApiError 409 ''PARTNER_ALREADY_EXISTS'')
        | Inl e \<Rightarrow> Inl e
        | Inr (m1, db2) \<Rightarrow> Inr (member_payload m1, db2)))"

definition list_members :: "uuid \<Rightarrow> fleet \<Rightarrow> exn + view" where
  "list_members partner_id db = bindR (require_partner partner_id db) (\<lambda>_.
     Inr (VObj [(''data'', VList (map member_payload (list_members_of partner_id db)))]))"

text \<open>The member need not be one of the partner.\<close>

definition deactivate_member :: "uuid \<Rightarrow> uuid \<Rightarrow> datetime \<Rightarrow> fleet \<Rightarrow> exn + view \<times> fleet" where
  "deactivate_member partner_id member_id now db =
     bindR (require_partner partner_id db) (\<lambda>_.
     let (removed, db1) = deactivate_member_row member_id now db
     in if \<not> removed then Inl (ApiError 404 ''PARTNER_MEMBER_NOT_FOUND'')
        else Inr (VObj [(''status'', VStr ''deactivated''), (''member_id'', vid member_id)], db1))"

definition get_my_partners :: "uuid \<Rightarrow> fleet \<Rightarrow> view" where
  "get_my_partners user_id db = VObj [(''partners'', VList (map (\<lambda>(p, m). VObj (partner_fields p
     @ [(''role'', VStr (member_role_value (pm_role m))), (''membership_id'', vid (pm_id m))]))
       (find_active_memberships_by_user_id user_id db)))]"

section \<open>Drivers\<close>

definition new_link :: "uuid \<Rightarrow> uuid \<Rightarrow> uuid \<Rightarrow> partner_driver_link" where
  "new_link i partner_id driver_id = \<lparr>pl_id = i, pl_partner_id = partner_id, pl_driver_id = driver_id,
     pl_active = True, pl_created_at = None, pl_ended_at = None\<rparr>"

definition affiliate_driver :: "uuid \<Rightarrow> uuid \<Rightarrow> datetime \<Rightarrow> fleet \<Rightarrow> exn + view \<times> fleet" where
  "affiliate_driver partner_id driver_id now db =
     bindR (require_active_partner partner_id db) (\<lambda>p.
     if find_active_driver_link driver_id db \<noteq> None then Inl (ApiError 409 ''DRIVER_ALREADY_AFFILIATED'')
     else
       let (i, db1) = partner_uuid db
       in bindR (save_driver_link (new_link i (pa_id p) driver_id) now db1) (\<lambda>(l, db2).
          Inr (driver_link_payload l, db2)))"

definition list_drivers :: "uuid \<Rightarrow> fleet \<Rightarrow> exn + view" where
  "list_drivers partner_id db = bindR (require_partner partner_id db) (\<lambda>_.
     Inr (VObj [(''data'', VList (map driver_link_payload (list_driver_links partner_id True db)))]))"

definition unaffiliate_driver :: "uuid \<Rightarrow> uuid \<Rightarrow> datetime \<Rightarrow> fleet \<Rightarrow> exn + view \<times> fleet" where
  "unaffiliate_driver partner_id driver_id now db =
     bindR (require_partner partner_id db) (\<lambda>_.
     let (removed, db1) = end_driver_link partner_id driver_id now db
     in if \<not> removed then Inl (ApiError 404 ''DRIVER_NOT_AFFILIATED'')
        else Inr (VObj [(''status'', VStr ''ended''), (''partner_id'', vid partner_id), (''driver_id'', vid driver_id)], db1))"

definition ensure_driver_affiliated_to_partner :: "uuid \<Rightarrow> uuid \<Rightarrow> datetime \<Rightarrow> fleet \<Rightarrow> exn + fleet" where
  "ensure_driver_affiliated_to_partner partner_id driver_id now db =
     (case find_active_driver_link driver_id db of
        Some (existing, _) \<Rightarrow>
          if pa_id existing \<noteq> partner_id then Inl (ApiError 409 ''DRIVER_ALREADY_AFFILIATED'') else Inr db
      | None \<Rightarrow>
          let (i, db1) = partner_uuid db
          in bindR (save_driver_link (new_link i partner_id driver_id) now db1) (\<lambda>(_, db2). Inr db2))"

definition driver_is_blocked_by_partner :: "uuid \<Rightarrow> fleet \<Rightarrow> bool \<times> string option" where
  "driver_is_blocked_by_partner driver_id db =
     (case find_active_driver_link driver_id db of
        None \<Rightarrow> (False, None)
      | Some (p, _) \<Rightarrow> if pa_status p \<noteq> PS_ACTIVE
          then (True, Some (''partner_not_active:'' @ partner_status_value (pa_status p))) else (False, None))"

section \<open>Vehicles\<close>

definition assign_to :: "uuid \<Rightarrow> uuid \<Rightarrow> uuid \<Rightarrow> datetime \<Rightarrow> fleet \<Rightarrow> exn + vehicle_assignment \<times> fleet" where
  "assign_to partner_id vehicle_id driver_id now db =
     (let (i, db1) = partner_uuid db
      in save_vehicle_assignment \<lparr>va_id = i, va_partner_id = partner_id, va_vehicle_id = vehicle_id,
           va_driver_id = driver_id, va_active = True, va_created_at = None, va_ended_at = None\<rparr> now db1)"

definition assign_vehicle :: "uuid \<Rightarrow> uuid \<Rightarrow> uuid \<Rightarrow> datetime \<Rightarrow> fleet \<Rightarrow> exn + view \<times> fleet" where
  "assign_vehicle partner_id vehicle_id driver_id now db =
     bindR (require_active_partner partner_id db) (\<lambda>_.
     if (case find_active_driver_link driver_id db of None \<Rightarrow> True | Some (p, _) \<Rightarrow> pa_id p \<noteq> partner_id)
     then Inl (ApiError 409 ''DRIVER_NOT_AFFILIATED'')
     else if find_active_vehicle_assignment vehicle_id db \<noteq> None
     then Inl (ApiError 409 ''VEHICLE_ALREADY_ASSIGNED'')
     else
       let (found, db1) = set_vehicle_partner_owner vehicle_id partner_id driver_id db
       in if \<not> found then Inl (ApiError 404 ''VEHICLE_NOT_FOUND'')
          else bindR (assign_to partner_id vehicle_id driver_id now db1) (\<lambda>(a, db2).
            Inr (vehicle_assignment_payload a, db2)))"

definition partner_create_vehicle ::
  "uuid \<Rightarrow> uuid \<Rightarrow> string \<Rightarrow> string option \<Rightarrow> string option \<Rightarrow> string option \<Rightarrow> string \<Rightarrow> string
    \<Rightarrow> vehicle_submission \<Rightarrow> datetime \<Rightarrow> fleet \<Rightarrow> exn + view \<times> fleet" where
  "partner_create_vehicle partner_id driver_id plate brand model color category comfort_level s now db =
     bindR (require_active_partner partner_id db) (\<lambda>_.
     if find_profile driver_id (fleet_rides db) = None then Inl (ApiError 404 ''DRIVER_PROFILE_NOT_FOUND'')
     else
       bindR (ensure_driver_affiliated_to_partner partner_id driver_id now db) (\<lambda>db1.
       bindR (required_text plate) (\<lambda>plate1.
       bindR (vehicle_category_of category) (\<lambda>vc.
       bindR (comfort_level_of comfort_level) (\<lambda>cl.
       let (i, rides1) = fresh_id (fleet_rides db1);
           v = (kyv_vehicle s (new_vehicle i driver_id (upper plate1)))
             \<lparr>ve_make := blank_to_none brand, ve_model := blank_to_none model, ve_color := blank_to_none color,
              ve_owner_type := ''partner'', ve_partner_id := Some partner_id, ve_category := vc,
              ve_comfort_level := cl, ve_created_at := Some now\<rparr>
       in bindR (save_plate v rides1) (\<lambda>rides2.
          bindR (assign_to partner_id (ve_id v) driver_id now (db1\<lparr>fleet_rides := rides2\<rparr>)) (\<lambda>(a, db2).
          Inr (VObj [(''vehicle'', partner_vehicle_payload v), (''assignment'', vehicle_assignment_payload a)], db2))))))))"

text \<open>Ending an assignment leaves the vehicle with its driver; any partner will do.\<close>

definition unassign_vehicle :: "uuid \<Rightarrow> uuid \<Rightarrow> datetime \<Rightarrow> fleet \<Rightarrow> exn + view \<times> fleet" where
  "unassign_vehicle partner_id vehicle_id now db =
     bindR (require_partner partner_id db) (\<lambda>_.
     let (removed, db1) = end_vehicle_assignment vehicle_id now db
     in if \<not> removed then Inl (ApiError 404 ''VEHICLE_ASSIGNMENT_NOT_FOUND'')
        else Inr (VObj [(''status'', VStr ''ended''), (''partner_id'', vid partner_id), (''vehicle_id'', vid vehicle_id)], db1))"

end
