(* ===== verification/Driver_Online.thy ===== *)
theory Driver_Online
  imports Partner_Service Auth_Service Wallet_Service Matching_Properties
begin

text \<open>
  Going online: app\_base/modules/ride/application/driver\_online\_eligibility.py, the capabilities of
  application/driver\_service.py and the two handlers of presentation/driver\_router.py, over the tables of
  the fleet and of the wallets and the presence of drivers in Redis. A refusal rolls the tables back,
  never Redis.
\<close>

record driver_world =
  dw_fleet :: fleet
  dw_pay :: pay_db
  dw_locations :: driver_locations

record online_env =
  on_driver :: driver_env
  on_wallet :: wallet_env
  on_telemetry_ttl :: int

section \<open>Eligibility\<close>

record eligibility =
  el_blocking_reasons :: "string list"
  el_partner_reason :: "string option"
  el_partner_eligible :: bool
  el_wallet :: online_eligibility

definition el_eligible :: "eligibility \<Rightarrow> bool" where
  "el_eligible e = (el_blocking_reasons e = [])"

definition evaluate :: "wallet_env \<Rightarrow> uuid \<Rightarrow> fleet \<Rightarrow> pay_db \<Rightarrow> eligibility \<times> pay_db" where
  "evaluate env driver_id fl db =
     (let (blocked, reason) = driver_is_blocked_by_partner driver_id fl;
          (w, db1) = get_online_eligibility env driver_id db
      in (\<lparr>el_blocking_reasons = (if blocked then [''partner_suspended''] else [])
              @ (if \<not> oe_eligible w then [''driver_balance_too_low''] else []),
           el_partner_reason = reason, el_partner_eligible = (\<not> blocked), el_wallet = w\<rparr>, db1))"

definition ensure_can_go_online :: "wallet_env \<Rightarrow> uuid \<Rightarrow> fleet \<Rightarrow> pay_db \<Rightarrow> exn + unit \<times> pay_db" where
  "ensure_can_go_online env driver_id fl db =
     (let (e, db1) = evaluate env driver_id fl db
      in if \<not> el_partner_eligible e then Inl (ApiError 403 ''PARTNER_SUSPENDED'')
         else if \<not> oe_eligible (el_wallet e) then Inl (ApiError 403 ''DRIVER_BALANCE_TOO_LOW'')
         else Inr ((), db1))"

section \<open>Capabilities\<close>

record driver_capability =
  dc_profile_id :: "uuid option"
  dc_status :: string
  dc_verification_status :: string
  dc_can_go_online :: bool
  dc_blocking_reasons :: "string list"
  dc_vehicle :: "vehicle option"
  dc_online_requirements :: "eligibility option"

definition driver_capability_payload :: "driver_profile option \<Rightarrow> vehicle option \<Rightarrow> driver_capability" where
  "driver_capability_payload profile vehicle =
     (case profile of
        None \<Rightarrow> \<lparr>dc_profile_id = None, dc_status = ''not_created'', dc_verification_status = ''not_created'',
          dc_can_go_online = False, dc_blocking_reasons = [''driver_profile_not_created''],
          dc_vehicle = None, dc_online_requirements = None\<rparr>
      | Some p \<Rightarrow>
        let reasons = profile_blocking_reasons p vehicle
        in \<lparr>dc_profile_id = Some (dp_id p), dc_status = capability_status p,
            dc_verification_status = kyc_status_value (dp_kyc_status p), dc_can_go_online = (reasons = []),
            dc_blocking_reasons = reasons, dc_vehicle = vehicle, dc_online_requirements = None\<rparr>)"

text \<open>
  \<open>get_capabilities\<close> up to its payload: what the profile allows, with the reasons of \<open>evaluate\<close> added
  once each when the eligibility service is configured.
\<close>

definition driver_capabilities ::
  "wallet_env option \<Rightarrow> uuid \<Rightarrow> driver_world \<Rightarrow> driver_capability \<times> driver_world" where
  "driver_capabilities eligibility user_id w =
     (case find_profile_by_user user_id (fleet_rides (dw_fleet w)) of
        None \<Rightarrow> (driver_capability_payload None None, w)
      | Some p \<Rightarrow>
        let c = driver_capability_payload (Some p) (find_active_vehicle (dp_id p) (fleet_rides (dw_fleet w)))
        in case eligibility of
             None \<Rightarrow> (c, w)
           | Some env \<Rightarrow>
             let (e, pay1) = evaluate env (dp_id p) (dw_fleet w) (dw_pay w);
                 reasons = unique_in_order (dc_blocking_reasons c @ el_blocking_reasons e)
             in (c\<lparr>dc_blocking_reasons := reasons, dc_can_go_online := (reasons = []),
                   dc_online_requirements := Some e\<rparr>, w\<lparr>dw_pay := pay1\<rparr>))"

definition eligibility_view :: "eligibility \<Rightarrow> (string \<times> view) list" where
  "eligibility_view e = [(''online_requirements'', VObj [
     (''partner'', VObj [(''eligible'', VBool (el_partner_eligible e)), (''reason'', vopt VStr (el_partner_reason e))]),
     (''wallet'', VObj [(''eligible'', VBool (oe_eligible (el_wallet e))), (''balance'', VInt (oe_balance (el_wallet e))),
        (''min_balance'', VInt (oe_min_balance (el_wallet e))), (''currency'', VStr (oe_currency (el_wallet e)))])])]"

definition driver_capability_view :: "driver_capability \<Rightarrow> view" where
  "driver_capability_view c = VObj ([
     (''type'', VStr ''driver''), (''exists'', VBool (dc_profile_id c \<noteq> None)), (''status'', VStr (dc_status c)),
     (''verification_status'', VStr (dc_verification_status c)), (''can_go_online'', VBool (dc_can_go_online c)),
     (''blocking_reasons'', VList (map VStr (dc_blocking_reasons c))),
     (''driver_profile_id'', vopt vid (dc_profile_id c)), (''vehicle'', vehicle_capability_payload (dc_vehicle c)),
     (''score'', VNone)]
     @ (case dc_online_requirements c of None \<Rightarrow> [] | Some e \<Rightarrow> eligibility_view e))"

definition get_capabilities ::
  "wallet_env option \<Rightarrow> identity \<Rightarrow> driver_world \<Rightarrow> view \<times> driver_world" where
  "get_capabilities eligibility u w =
     (let (c, w1) = driver_capabilities eligibility (iu_id u) w;
          active = (iu_status u = ''active'');
          status = VStr (if active then ''active'' else ''blocked'');
          reasons = VList (if active then [] else [VStr ''identity_not_active''])
      in (VObj [(''user_id'', vid (iu_id u)),
            (''identity'', VObj [(''role'', VStr (iu_role u)), (''status'', VStr (iu_status u))]),
            (''service'', VStr ''diddigo''),
            (''consumer'', VObj [(''type'', VStr ''passenger''), (''enabled'', VBool active), (''status'', status),
               (''blocking_reasons'', reasons)]),
            (''professional_profiles'', VList [driver_capability_view c]),
            (''capabilities'', VList [
               VObj [(''service'', VStr ''diddigo''), (''type'', VStr ''passenger''), (''status'', status),
                 (''enabled'', VBool active), (''blocking_reasons'', reasons)],
               VObj [(''service'', VStr ''diddigo''), (''type'', VStr ''driver''), (''status'', VStr (dc_status c)),
                 (''enabled'', VBool (dc_can_go_online c)),
                 (''blocking_reasons'', VList (map VStr (dc_blocking_reasons c)))]])], w1))"

section \<open>The handlers\<close>

definition require_business_driver :: "identity \<Rightarrow> ride_db \<Rightarrow> exn + driver_profile option" where
  "require_business_driver u db =
     (if iu_role u = ''admin'' then Inr None
      else case find_profile_by_user (iu_id u) db of
          None \<Rightarrow> Inl (ApiError 404 ''DRIVER_PROFILE_NOT_FOUND'')
        | Some p \<Rightarrow> if dp_status p \<noteq> DR_ACTIVE then Inl (ApiError 403 ''DRIVER_NOT_VERIFIED'') else Inr (Some p))"

text \<open>The checks of the handler, with what they write; then Redis; then the capability event.\<close>

definition online_checks ::
  "online_env \<Rightarrow> identity \<Rightarrow> driver_world \<Rightarrow> exn + (driver_profile \<times> vehicle) \<times> driver_world" where
  "online_checks env u w =
     bindR (require_business_driver u (fleet_rides (dw_fleet w))) (\<lambda>_.
     bindR (resolve_driver (iu_id u) (Some (iu_is_review_account u)) (fleet_rides (dw_fleet w))) (\<lambda>(pv, rides1).
     bindR (ensure_can_go_online (on_wallet env) (dp_id (fst pv)) ((dw_fleet w)\<lparr>fleet_rides := rides1\<rparr>) (dw_pay w))
       (\<lambda>(_, pay1). Inr (pv, w\<lparr>dw_fleet := (dw_fleet w)\<lparr>fleet_rides := rides1\<rparr>, dw_pay := pay1\<rparr>))))"

definition publish_presence ::
  "online_env \<Rightarrow> uuid \<Rightarrow> string \<Rightarrow> string \<Rightarrow> datetime \<Rightarrow> driver_world \<Rightarrow> exn + driver_world" where
  "publish_presence env uid status action now w =
     bindR (publish_driver_status uid (status, [action]) (dv_request_id (on_driver env)) now (fleet_rides (dw_fleet w)))
       (\<lambda>(_, rides1). Inr (w\<lparr>dw_fleet := (dw_fleet w)\<lparr>fleet_rides := rides1\<rparr>\<rparr>))"

definition handle_go_online ::
  "online_env \<Rightarrow> identity \<Rightarrow> geo_point \<Rightarrow> datetime \<Rightarrow> driver_world \<Rightarrow> (exn + view) \<times> driver_world" where
  "handle_go_online env u position now w =
     (case online_checks env u w of
        Inl e \<Rightarrow> (Inl e, w)
      | Inr ((p, v), w1) \<Rightarrow>
        let l = set_available (iu_id u) True now
              (update_position (on_telemetry_ttl env) (iu_id u) position None now (dw_locations w))
        in case publish_presence env (iu_id u) ''online'' ''go_offline'' now (w1\<lparr>dw_locations := l\<rparr>) of
             Inl e \<Rightarrow> (Inl e, w\<lparr>dw_locations := l\<rparr>)
           | Inr w2 \<Rightarrow> (Inr (VObj [(''status'', VStr ''online''), (''driver_id'', vid (dp_id p)),
               (''vehicle_id'', vid (ve_id v)),
               (''location'', VObj [(''lat'', VNum (lat position)), (''lng'', VNum (lng position))])]), w2))"

definition handle_go_offline ::
  "online_env \<Rightarrow> identity \<Rightarrow> datetime \<Rightarrow> driver_world \<Rightarrow> (exn + view) \<times> driver_world" where
  "handle_go_offline env u now w =
     (case require_business_driver u (fleet_rides (dw_fleet w)) of
        Inl e \<Rightarrow> (Inl e, w)
      | Inr _ \<Rightarrow>
        let w1 = w\<lparr>dw_locations := go_offline (iu_id u) (dw_locations w)\<rparr>
        in case publish_presence env (iu_id u) ''offline'' ''go_online'' now w1 of
             Inl e \<Rightarrow> (Inl e, w1)
           | Inr w2 \<Rightarrow> (Inr (VObj [(''status'', VStr ''offline'')]), w2))"

end
