(* ===== verification/Driver_Scoring.thy ===== *)
theory Driver_Scoring
  imports Ride_Requests
begin

text \<open>
  app\_base/modules/ride/application/scoring\_service.py: scores of passengers, drivers and rides in
  \<open>Decimal\<close>s of 28 digits. The instant of the calculation is the request's.
\<close>

section \<open>Scores of people\<close>

text \<open>
  PostgreSQL's \<open>avg\<close> of integers keeps sixteen decimals here. \<open>Decimal("5.00")\<close> stands for a missing
  average; the sample is the number of eligible rides.
\<close>

definition stored_average :: "rat \<Rightarrow> rat" where
  "stored_average a = of_int \<lfloor>a * 10 ^ 16 + 1 / 2\<rfloor> / 10 ^ 16"

definition rating_value_of :: "rat option \<Rightarrow> rat" where
  "rating_value_of rating_avg = (case rating_avg of None \<Rightarrow> 5 | Some a \<Rightarrow> stored_average a)"

definition ratio :: "nat \<Rightarrow> nat \<Rightarrow> rat" where
  "ratio part whole = (if whole = 0 then 0 else ddiv (of_nat part) (of_nat whole))"

text \<open>\<open>max(1, min(5, score)).quantize(0.01)\<close>\<close>

definition cents :: "rat \<Rightarrow> rat" where
  "cents x = of_int (round_half_even (x * 100)) / 100"

definition clamped :: "rat \<Rightarrow> rat" where
  "clamped score = cents (max 1 (min 5 score))"

definition score_of :: "scoring_stats \<Rightarrow> rat" where
  "score_of s =
     clamped (dadd
       (dadd (dmul (rating_value_of (ss_rating_avg s)) (7 / 10))
             (dmul (dmul (ratio (ss_completed_rides s) (ss_eligible_rides s)) 5) (1 / 5)))
       (dmul (dmul (dsub 1 (ratio (ss_cancelled_rides s) (ss_eligible_rides s))) 5) (1 / 10)))"

definition score_level :: "rat \<Rightarrow> nat \<Rightarrow> string" where
  "score_level score sample_size =
     (if sample_size < 5 then ''new'' else if 47 / 10 \<le> score then ''excellent''
      else if 21 / 5 \<le> score then ''good'' else if 7 / 2 \<le> score then ''fair'' else ''risk'')"

definition rating_reasons :: "rat \<Rightarrow> string list" where
  "rating_reasons a = (if 47 / 10 \<le> a then [''good_ratings''] else if a < 7 / 2 then [''low_ratings''] else [])"

definition reason_codes :: "scoring_stats \<Rightarrow> string list" where
  "reason_codes s =
     (let cancellation = ratio (ss_cancelled_rides s) (ss_eligible_rides s);
          completion = ratio (ss_completed_rides s) (ss_eligible_rides s)
      in (if ss_total_rides s = 0 then [''no_activity''] else [])
         @ (if ss_eligible_rides s < 5 then [''insufficient_data''] else [])
         @ (if ss_rating_count s = 0 then [] else rating_reasons (rating_value_of (ss_rating_avg s)))
         @ (if ss_eligible_rides s = 0 then []
            else (if 1 / 5 < cancellation then [''high_cancellation'']
                  else if cancellation \<le> 1 / 20 then [''low_cancellation''] else [])
               @ (if 4 / 5 \<le> completion then [''reliable_completion'']
                  else if completion < 1 / 2 then [''low_completion''] else [])))"

text \<open>What a score payload says; \<open>float\<close> rounds to binary.\<close>

record score =
  sc_subject_type :: string
  sc_subject_id :: uuid
  sc_value :: rat
  sc_level :: string
  sc_status :: string
  sc_reason_codes :: "string list"
  sc_calculated_at :: datetime
  sc_sample_size :: nat
  sc_metrics :: "(string \<times> view) list"

definition score_view :: "score \<Rightarrow> view" where
  "score_view x = VObj ((if sc_subject_type x = ''trip''
       then [(''ride_id'', vid (sc_subject_id x)), (''subject_type'', VStr ''trip'')]
       else [(''subject_type'', VStr (sc_subject_type x)), (''subject_id'', vid (sc_subject_id x))])
     @ [(''score_value'', VNum (sc_value x)), (''score_level'', VStr (sc_level x)), (''score_status'', VStr (sc_status x)),
        (''reason_codes'', VList (map VStr (sc_reason_codes x))), (''last_calculated_at'', VAt (sc_calculated_at x)),
        (''sample_size'', VInt (int (sc_sample_size x))), (''metrics'', VObj (sc_metrics x))])"

definition score_payload :: "string \<Rightarrow> scoring_stats \<Rightarrow> uuid \<Rightarrow> datetime \<Rightarrow> score" where
  "score_payload subject_type s subject_id now = \<lparr>
     sc_subject_type = subject_type, sc_subject_id = subject_id, sc_value = to_float (score_of s),
     sc_level = score_level (score_of s) (ss_eligible_rides s),
     sc_status = (if ss_eligible_rides s < 5 then ''insufficient_data'' else ''stable''),
     sc_reason_codes = reason_codes s, sc_calculated_at = now, sc_sample_size = ss_eligible_rides s,
     sc_metrics = [
       (''total_rides'', VInt (int (ss_total_rides s))), (''eligible_rides'', VInt (int (ss_eligible_rides s))),
       (''completed_rides'', VInt (int (ss_completed_rides s))), (''cancelled_rides'', VInt (int (ss_cancelled_rides s))),
       (''emergency_reports'', VInt (int (ss_emergency_reports s))), (''rating_count'', VInt (int (ss_rating_count s))),
       (''rating_avg'', if ss_rating_count s = 0 then VNone else VNum (to_float (rating_value_of (ss_rating_avg s)))),
       (''completion_rate'', VNum (to_float (ratio (ss_completed_rides s) (ss_eligible_rides s)))),
       (''cancellation_rate'', VNum (to_float (ratio (ss_cancelled_rides s) (ss_eligible_rides s))))]\<rparr>"

section \<open>Scores of rides\<close>

definition base_trip_score :: "ride \<Rightarrow> rat" where
  "base_trip_score ride =
     (if rd_status ride = COMPLETED then 5
      else if rd_status ride \<in> {CANCELLED_BY_DRIVER, CANCELLED_BY_PASSENGER} then 11 / 4
      else if rd_status ride = NO_DRIVER_FOUND then 3 else 4)"

definition trip_score :: "ride \<Rightarrow> rat option \<Rightarrow> rat" where
  "trip_score ride rating_avg =
     clamped (case rating_avg of
         None \<Rightarrow> base_trip_score ride
       | Some a \<Rightarrow> cents (dadd (dmul (base_trip_score ride) (3 / 5)) (dmul (stored_average a) (2 / 5))))"

definition trip_reason_codes :: "ride \<Rightarrow> nat \<Rightarrow> rat option \<Rightarrow> string list" where
  "trip_reason_codes ride rating_count rating_avg =
     [''status_'' @ ride_status_value (rd_status ride)]
     @ (if rating_count = 0 then [''no_ratings'']
        else case rating_avg of None \<Rightarrow> [] | Some a \<Rightarrow> rating_reasons (stored_average a))
     @ (if str_or (rd_cancellation_reason ride) [] = [] then []
        else [''cancel_reason_'' @ str_or (rd_cancellation_reason ride) []])"

definition trip_score_payload :: "ride \<Rightarrow> nat \<times> rat option \<Rightarrow> datetime \<Rightarrow> score" where
  "trip_score_payload ride summary now =
     (let (rating_count, rating_avg) = summary; value = trip_score ride rating_avg
      in \<lparr>sc_subject_type = ''trip'', sc_subject_id = rd_id ride, sc_value = to_float value,
        sc_level = score_level value (max 1 rating_count),
        sc_status = (if rd_status ride = COMPLETED then ''stable'' else ''provisional''),
        sc_reason_codes = trip_reason_codes ride rating_count rating_avg, sc_calculated_at = now,
        sc_sample_size = rating_count,
        sc_metrics = [
          (''ride_status'', VStr (ride_status_value (rd_status ride))), (''rating_count'', VInt (int rating_count)),
          (''rating_avg'', vopt (\<lambda>a. VNum (to_float (stored_average a))) rating_avg),
          (''emergency_status'', vopt VStr (rd_emergency_status ride)),
          (''cancellation_reason'', vopt VStr (rd_cancellation_reason ride))]\<rparr>)"

section \<open>ScoringService\<close>

definition get_my_scores :: "uuid \<Rightarrow> datetime \<Rightarrow> ride_db \<Rightarrow> score \<times> score option" where
  "get_my_scores user_id now db =
     (score_payload ''passenger'' (passenger_scoring_stats user_id db) user_id now,
      map_option (\<lambda>p. score_payload ''driver'' (driver_scoring_stats (dp_id p) db) (dp_id p) now)
        (find_profile_by_user user_id db))"

definition my_scores_view :: "uuid \<Rightarrow> score \<times> score option \<Rightarrow> view" where
  "my_scores_view user_id scores = VObj [
     (''user_id'', vid user_id), (''service'', VStr ''diddigo''),
     (''passenger_score'', score_view (fst scores)), (''driver_score'', vopt score_view (snd scores))]"

definition can_view_ride_score :: "ride \<Rightarrow> uuid \<Rightarrow> string \<Rightarrow> ride_db \<Rightarrow> bool" where
  "can_view_ride_score ride actor_user_id actor_role db =
     (actor_role = ''admin'' \<or> rd_passenger_user_id ride = actor_user_id
      \<or> (case find_profile_by_user actor_user_id db of None \<Rightarrow> False | Some p \<Rightarrow> rd_driver_id ride = Some (dp_id p)))"

definition get_ride_score_for_internal :: "uuid \<Rightarrow> datetime \<Rightarrow> ride_db \<Rightarrow> exn + score" where
  "get_ride_score_for_internal ride_id now db =
     (case find_ride ride_id db of
        None \<Rightarrow> Inl (ApiError 404 ''RIDE_NOT_FOUND'')
      | Some r \<Rightarrow> Inr (trip_score_payload r (ride_rating_summary ride_id db) now))"

definition get_ride_score :: "uuid \<Rightarrow> uuid \<Rightarrow> string \<Rightarrow> datetime \<Rightarrow> ride_db \<Rightarrow> exn + score" where
  "get_ride_score ride_id actor_user_id actor_role now db =
     (case find_ride ride_id db of
        None \<Rightarrow> Inl (ApiError 404 ''RIDE_NOT_FOUND'')
      | Some r \<Rightarrow> if \<not> can_view_ride_score r actor_user_id actor_role db
                 then Inl (ApiError 403 ''RIDE_NOT_OWNED_BY_USER'')
                 else Inr (trip_score_payload r (ride_rating_summary ride_id db) now))"

section \<open>The shared score contract\<close>

text \<open>score\_contract\_adapter.py\<close>

definition normalized_level_of :: "string \<Rightarrow> exn + string" where
  "normalized_level_of level =
     (if level = ''new'' then Inr ''unknown'' else if level = ''excellent'' then Inr ''excellent''
      else if level = ''good'' then Inr ''good'' else if level = ''fair'' then Inr ''watch''
      else if level = ''risk'' then Inr ''risk'' else Inl PyKeyError)"

definition is_lower :: "char \<Rightarrow> bool" where
  "is_lower c = (let n = of_char c :: nat in 97 \<le> n \<and> n \<le> 122)"

definition contract_code :: "string \<Rightarrow> bool" where
  "contract_code code = (case code of
       [] \<Rightarrow> False | c # cs \<Rightarrow> is_lower c \<and> list_all (\<lambda>d. is_lower d \<or> is_digit d \<or> d = CHR ''_'') cs)"

text \<open>Codes outside the contract become \<open>reason_recorded\<close>; a code is listed once.\<close>

definition safe_reason_codes :: "string list \<Rightarrow> string list" where
  "safe_reason_codes values = foldl (\<lambda>codes value.
     let code = (if contract_code value then value else ''reason_recorded'')
     in if code \<in> set codes then codes else codes @ [code]) [] values"

record score_envelope =
  ev_kind :: string
  ev_user_id :: "uuid option"
  ev_score :: score
  ev_normalized_value :: rat
  ev_normalized_level :: string
  ev_calculation_version :: string

definition adapt_score :: "string \<Rightarrow> uuid option \<Rightarrow> string \<Rightarrow> score \<Rightarrow> exn + score_envelope" where
  "adapt_score kind user_id version x =
     bindR (normalized_level_of (sc_level x)) (\<lambda>level.
     Inr \<lparr>ev_kind = kind, ev_user_id = user_id,
       ev_score = x\<lparr>sc_reason_codes := safe_reason_codes (sc_reason_codes x)\<rparr>,
       ev_normalized_value = to_float (cents (to_float (sc_value x * 20))),
       ev_normalized_level = level, ev_calculation_version = version\<rparr>)"

definition adapt_personal_score :: "uuid \<Rightarrow> score \<Rightarrow> exn + score_envelope" where
  "adapt_personal_score user_id = adapt_score ''reliability'' (Some user_id) ''diddigo_reliability_v1''"

definition adapt_trip_score :: "score \<Rightarrow> exn + score_envelope" where
  "adapt_trip_score = adapt_score ''quality'' None ''diddigo_trip_quality_v1''"

definition envelope_view :: "score_envelope \<Rightarrow> view" where
  "envelope_view e = (let x = ev_score e in VObj [
     (''contract_version'', VStr ''diddi.score.v1''), (''service'', VStr ''diddigo''), (''kind'', VStr (ev_kind e)),
     (''subject_type'', VStr (sc_subject_type x)), (''subject_id'', vid (sc_subject_id x)),
     (''user_id'', vopt vid (ev_user_id e)),
     (''score'', VObj [
        (''value'', VNum (sc_value x)), (''scale'', VStr ''five''), (''normalized_value'', VNum (ev_normalized_value e)),
        (''local_level'', VStr (sc_level x)), (''normalized_level'', VStr (ev_normalized_level e)),
        (''data_status'', VStr (sc_status x)), (''sample_size'', VInt (int (sc_sample_size x))),
        (''reason_codes'', VList (map VStr (sc_reason_codes x))),
        (''calculation_version'', VStr (ev_calculation_version e)), (''calculated_at'', VAt (sc_calculated_at x))])])"

end
