(* ===== verification/Ride_Routes.thy ===== *)
theory Ride_Routes
  imports Live_Hub Driver_Online Driver_Scoring
begin

text \<open>
  The routes of app\_base/modules/ride/presentation/router.py: a request runs a service call in the request
  transaction, then frees the driver and tells the sockets what happened, and the timer that ends an offer
  wave. The user of a request is known (Auth\_Service); push notifications change no state and their errors
  are swallowed, so that they are left out, as are the schemas of the bodies.
\<close>

definition offer_payload :: "ride \<Rightarrow> view" where
  "offer_payload ride = VObj [
     (''ride_id'', vid (rd_id ride)),
     (''pickup'', VObj [
        (''lat'', vopt (\<lambda>p. VNum (lat p)) (rd_pickup_location ride)),
        (''lng'', vopt (\<lambda>p. VNum (lng p)) (rd_pickup_location ride)),
        (''address'', vopt VStr (rd_pickup_address ride))]),
     (''dropoff_address'', vopt VStr (rd_dropoff_address ride)),
     (''vehicle_category'', VStr (vehicle_category_value (rd_vehicle_category ride))),
     (''comfort_level'', VStr (comfort_level_value (rd_comfort_level ride))),
     (''payment_method'', VStr (ride_payment_method_value (rd_payment_method ride))),
     (''expires_in_seconds'', VInt OFFER_TTL_SECONDS)]"

definition tell :: "(hub \<Rightarrow> hub) \<Rightarrow> live \<Rightarrow> live" where
  "tell f lv = lv\<lparr>lv_hub := f (lv_hub lv)\<rparr>"

definition on_matching :: "(matching \<Rightarrow> matching) \<Rightarrow> live \<Rightarrow> live" where
  "on_matching f lv = lv\<lparr>lv_matching := f (lv_matching lv)\<rparr>"

definition live_rides :: "live \<Rightarrow> ride_db" where
  "live_rides lv = mt_rides (lv_matching lv)"

definition with_rides :: "ride_db \<Rightarrow> live \<Rightarrow> live" where
  "with_rides db = on_matching (\<lambda>m. m\<lparr>mt_rides := db\<rparr>)"

definition send_offer_wave :: "(nat \<Rightarrow> bool) \<Rightarrow> ride \<Rightarrow> uuid list \<Rightarrow> hub \<Rightarrow> hub" where
  "send_offer_wave reaches ride drivers h =
     fold (\<lambda>d. send_new_request reaches d (offer_payload ride)) drivers h"

text \<open>What follows a dispatch: the wave is sent, or the ride is over.\<close>

definition announce_dispatch :: "ws_env \<Rightarrow> ride option \<Rightarrow> uuid \<Rightarrow> matching_dispatch \<Rightarrow> live \<Rightarrow> live" where
  "announce_dispatch env ride ride_id d lv =
     (case (md_new_wave d \<and> md_drivers d \<noteq> [], ride) of
        (True, Some r) \<Rightarrow> tell (send_offer_wave (wv_reaches env) r (md_drivers d)) lv
      | _ \<Rightarrow> if md_no_driver_found d then tell (broadcast_no_driver_found (wv_reaches env) ride_id) lv else lv)"

section \<open>Asking for a ride\<close>

definition route_create_ride ::
  "ws_env \<Rightarrow> identity \<Rightarrow> uuid \<Rightarrow> string \<Rightarrow> datetime option \<Rightarrow> datetime \<Rightarrow> live \<Rightarrow> (exn + view) \<times> live" where
  "route_create_ride env u quote_id payment_method scheduled_at now lv =
     (case request_ride (iu_id u) (iu_is_review_account u) quote_id payment_method scheduled_at now (live_rides lv) of
        Inl e \<Rightarrow> (Inl e, lv)
      | Inr (ride, db1) \<Rightarrow>
        (case try_match (wv_match env) ride now ((lv_matching lv)\<lparr>mt_rides := db1\<rparr>) of
           Inl e \<Rightarrow> (Inl e, lv)
         | Inr (d, m1) \<Rightarrow> (Inr (ride_creation_payload ride),
             announce_dispatch env (Some ride) (rd_id ride) d (lv\<lparr>lv_matching := m1\<rparr>))))"

text \<open>A route for drivers: without a profile only an admin comes in.\<close>

definition as_driver :: "identity \<Rightarrow> live \<Rightarrow> (live \<Rightarrow> (exn + 'a) \<times> live) \<Rightarrow> (exn + 'a) \<times> live" where
  "as_driver u lv route = (case require_business_driver u (live_rides lv) of
     Inl e \<Rightarrow> (Inl e, lv) | Inr _ \<Rightarrow> route lv)"

definition route_accept_ride :: "ws_env \<Rightarrow> identity \<Rightarrow> uuid \<Rightarrow> datetime \<Rightarrow> live \<Rightarrow> (exn + view) \<times> live" where
  "route_accept_ride env u ride_id now lv = as_driver u lv (\<lambda>lv.
     case accept ride_id (iu_id u) now (lv_matching lv) of
       (Inl e, m1) \<Rightarrow> (Inl e, lv\<lparr>lv_matching := m1\<rparr>)
     | (Inr ride, m1) \<Rightarrow>
         (Inr (VObj [(''ride_id'', vid (rd_id ride)), (''status'', VStr (ride_status_value (rd_status ride))),
             (''driver_id'', vopt vid (rd_driver_id ride)), (''vehicle_id'', vopt vid (rd_vehicle_id ride)),
             (''matched_at'', vopt VAt (rd_matched_at ride))]),
          tell (broadcast_status_changed (wv_reaches env) (rd_id ride) (ride_status_value (rd_status ride)) now)
            (lv\<lparr>lv_matching := m1\<rparr>)))"

definition route_decline_ride :: "ws_env \<Rightarrow> identity \<Rightarrow> uuid \<Rightarrow> datetime \<Rightarrow> live \<Rightarrow> (exn + view) \<times> live" where
  "route_decline_ride env u ride_id now lv = as_driver u lv (\<lambda>lv.
     case decline (wv_match env) ride_id (iu_id u) now (lv_matching lv) of
       (Inl e, m1) \<Rightarrow> (Inl e, lv\<lparr>lv_matching := m1\<rparr>)
     | (Inr d, m1) \<Rightarrow>
         (Inr (VObj [(''ride_id'', vid ride_id), (''reoffered'', VBool (md_drivers d \<noteq> [])),
             (''offered_driver_count'', VInt (int (length (md_drivers d)))), (''new_wave'', VBool (md_new_wave d))]),
          announce_dispatch env (find_ride ride_id (mt_rides m1)) ride_id d (lv\<lparr>lv_matching := m1\<rparr>)))"

text \<open>The timer of a wave, on a transaction of its own.\<close>

definition wave_expired :: "ws_env \<Rightarrow> uuid \<Rightarrow> datetime \<Rightarrow> live \<Rightarrow> live" where
  "wave_expired env ride_id now lv =
     (case advance_expired_offer (wv_match env) ride_id now (lv_matching lv) of
        Inl _ \<Rightarrow> lv
      | Inr (d, m1) \<Rightarrow> announce_dispatch env (find_ride ride_id (mt_rides m1)) ride_id d (lv\<lparr>lv_matching := m1\<rparr>))"

section \<open>A ride under way\<close>

text \<open>One service call, then what follows from its result.\<close>

definition call_rides ::
  "(ride_db \<Rightarrow> exn + 'a \<times> ride_db) \<Rightarrow> ('a \<Rightarrow> live \<Rightarrow> live) \<Rightarrow> live \<Rightarrow> (exn + 'a) \<times> live" where
  "call_rides service after lv = (case transact (live_rides lv) (service (live_rides lv)) of
     (Inl e, _) \<Rightarrow> (Inl e, lv)
   | (Inr x, db1) \<Rightarrow> (Inr x, after x (with_rides db1 lv)))"

definition changed :: "ws_env \<Rightarrow> uuid \<Rightarrow> string \<Rightarrow> datetime \<Rightarrow> live \<Rightarrow> live" where
  "changed env ride_id status now = tell (broadcast_status_changed (wv_reaches env) ride_id status now)"

text \<open>\<open>matching.release_driver(await service.load_ride(ride_id))\<close>, for a ride that was just written.\<close>

definition release_driver_of :: "uuid \<Rightarrow> datetime \<Rightarrow> live \<Rightarrow> live" where
  "release_driver_of ride_id now lv = (case find_ride ride_id (live_rides lv) of
     None \<Rightarrow> lv | Some ride \<Rightarrow> on_matching (release_driver ride now) lv)"

definition ride_status_of :: "string \<Rightarrow> ride_status option" where
  "ride_status_of s = find (\<lambda>x. ride_status_value x = s) [REQUESTED, MATCHED, DRIVER_EN_ROUTE, ARRIVED,
     IN_PROGRESS, WAITING, COMPLETED, CANCELLED_BY_PASSENGER, CANCELLED_BY_DRIVER, NO_DRIVER_FOUND]"

definition route_update_status ::
  "ws_env \<Rightarrow> identity \<Rightarrow> uuid \<Rightarrow> string \<Rightarrow> datetime \<Rightarrow> live \<Rightarrow> (exn + view) \<times> live" where
  "route_update_status env u ride_id status now lv = as_driver u lv (\<lambda>lv.
     case ride_status_of status of
       None \<Rightarrow> (Inl (ApiError 422 ''INVALID_STATUS''), lv)
     | Some s \<Rightarrow> call_rides (update_status (wv_ride env) ride_id s (iu_id u) (iu_role u) now)
         (\<lambda>_ lv1. changed env ride_id (ride_status_value s) now
            (if s = COMPLETED then release_driver_of ride_id now lv1 else lv1)) lv)"

definition route_start_waiting :: "ws_env \<Rightarrow> identity \<Rightarrow> uuid \<Rightarrow> datetime \<Rightarrow> live \<Rightarrow> (exn + view) \<times> live" where
  "route_start_waiting env u ride_id now lv = as_driver u lv (\<lambda>lv.
     let speed_kmh = get_speed_kmh (iu_id u) now (mt_locations (lv_matching lv))
     in call_rides (start_waiting (wv_ride env) ride_id (iu_id u) (iu_role u) speed_kmh now)
          (\<lambda>result lv1. tell (broadcast_waiting_changed (wv_reaches env) ride_id result now)
             (changed env ride_id ''waiting'' now lv1)) lv)"

definition route_stop_waiting :: "ws_env \<Rightarrow> identity \<Rightarrow> uuid \<Rightarrow> datetime \<Rightarrow> live \<Rightarrow> (exn + view) \<times> live" where
  "route_stop_waiting env u ride_id now lv = as_driver u lv
     (call_rides (stop_waiting (wv_ride env) ride_id (iu_id u) (iu_role u) ''manual'' now)
       (\<lambda>result lv1. tell (broadcast_waiting_changed (wv_reaches env) ride_id result now)
          (changed env ride_id ''in_progress'' now lv1)))"

definition route_request_early_stop :: "ws_env \<Rightarrow> identity \<Rightarrow> uuid \<Rightarrow> datetime \<Rightarrow> live \<Rightarrow> (exn + view) \<times> live" where
  "route_request_early_stop env u ride_id now =
     call_rides (request_early_stop (wv_ride env) ride_id (iu_id u) now)
       (\<lambda>_. changed env ride_id ''early_stop_requested'' now)"

definition route_confirm_early_stop :: "ws_env \<Rightarrow> identity \<Rightarrow> uuid \<Rightarrow> datetime \<Rightarrow> live \<Rightarrow> (exn + view) \<times> live" where
  "route_confirm_early_stop env u ride_id now lv = as_driver u lv
     (call_rides (confirm_early_stop (wv_ride env) ride_id (iu_id u) (iu_role u) now)
       (\<lambda>_ lv1. changed env ride_id ''completed'' now (release_driver_of ride_id now lv1)))"

definition route_arrive :: "ws_env \<Rightarrow> identity \<Rightarrow> uuid \<Rightarrow> datetime \<Rightarrow> live \<Rightarrow> (exn + view) \<times> live" where
  "route_arrive env u ride_id now lv = as_driver u lv (\<lambda>lv.
     let position = get_position (iu_id u) (mt_locations (lv_matching lv))
     in call_rides (mark_arrived (wv_ride env) ride_id (iu_id u) (iu_role u) position now)
          (\<lambda>_. changed env ride_id ''arrived'' now) lv)"

text \<open>A wrong code is counted durably beside the error.\<close>

definition route_start_ride ::
  "ws_env \<Rightarrow> identity \<Rightarrow> uuid \<Rightarrow> string \<Rightarrow> datetime \<Rightarrow> live \<Rightarrow> (exn + view) \<times> live" where
  "route_start_ride env u ride_id code now lv = as_driver u lv (\<lambda>lv.
     case start_ride_with_code (wv_ride env) ride_id (iu_id u) (iu_role u) code now (live_rides lv) of
       (Inl e, db1) \<Rightarrow> (Inl e, with_rides db1 lv)
     | (Inr result, db1) \<Rightarrow> (Inr result, changed env ride_id ''in_progress'' now (with_rides db1 lv)))"

definition route_no_show :: "ws_env \<Rightarrow> identity \<Rightarrow> uuid \<Rightarrow> datetime \<Rightarrow> live \<Rightarrow> (exn + view) \<times> live" where
  "route_no_show env u ride_id now lv = as_driver u lv
     (call_rides (mark_passenger_no_show (wv_ride env) ride_id (iu_id u) (iu_role u) now)
       (\<lambda>_ lv1. changed env ride_id ''cancelled_by_driver'' now (release_driver_of ride_id now lv1)))"

definition view_text :: "view \<Rightarrow> string" where
  "view_text v = (case v of VStr s \<Rightarrow> s | _ \<Rightarrow> [])"

definition route_cancel ::
  "ws_env \<Rightarrow> identity \<Rightarrow> uuid \<Rightarrow> string \<Rightarrow> datetime \<Rightarrow> live \<Rightarrow> (exn + view) \<times> live" where
  "route_cancel env u ride_id reason now =
     call_rides (cancel_ride (wv_ride env) ride_id reason (iu_id u) (iu_role u) now)
       (\<lambda>result lv1. changed env ride_id (view_text (field_of ''status'' result)) now
          (release_driver_of ride_id now lv1))"

section \<open>Beside the life cycle\<close>

definition route_add_stop ::
  "ws_env \<Rightarrow> identity \<Rightarrow> uuid \<Rightarrow> rat \<Rightarrow> rat \<Rightarrow> string option \<Rightarrow> string option \<Rightarrow> datetime \<Rightarrow> live
    \<Rightarrow> (exn + view) \<times> live" where
  "route_add_stop env u ride_id latitude longitude address note now lv = as_driver u lv
     (call_rides (add_stop ride_id (iu_id u) (iu_role u) latitude longitude address note now) (\<lambda>_ lv1. lv1))"

definition supplement_changed :: "ws_env \<Rightarrow> uuid \<Rightarrow> datetime \<Rightarrow> view \<Rightarrow> live \<Rightarrow> live" where
  "supplement_changed env ride_id now result = tell (broadcast_supplement_changed (wv_reaches env) ride_id result now)"

definition route_add_supplement ::
  "ws_env \<Rightarrow> identity \<Rightarrow> uuid \<Rightarrow> string \<Rightarrow> rat option \<Rightarrow> string option \<Rightarrow> datetime \<Rightarrow> live
    \<Rightarrow> (exn + view) \<times> live" where
  "route_add_supplement env u ride_id supplement_type amount custom_label now lv = as_driver u lv
     (call_rides (add_supplement ride_id (iu_id u) (iu_role u) supplement_type amount custom_label now)
       (supplement_changed env ride_id now))"

text \<open>The pattern of the body lets two decisions through.\<close>

definition route_decide_supplement ::
  "ws_env \<Rightarrow> identity \<Rightarrow> uuid \<Rightarrow> uuid \<Rightarrow> string \<Rightarrow> datetime \<Rightarrow> live \<Rightarrow> (exn + view) \<times> live" where
  "route_decide_supplement env u ride_id supplement_id decision now lv =
     (if decision \<notin> {''accepted'', ''disputed''} then (Inl (ApiError 422 ''VALIDATION_ERROR''), lv)
      else call_rides (decide_supplement ride_id supplement_id (iu_id u) (iu_role u) decision now)
        (supplement_changed env ride_id now) lv)"

definition route_rate ::
  "ws_env \<Rightarrow> identity \<Rightarrow> uuid \<Rightarrow> int \<Rightarrow> string option \<Rightarrow> live \<Rightarrow> (exn + view) \<times> live" where
  "route_rate env u ride_id rating comment =
     call_rides (rate ride_id rating comment (iu_id u) (iu_role u)) (\<lambda>_ lv1. lv1)"

definition route_location_samples ::
  "ws_env \<Rightarrow> identity \<Rightarrow> uuid \<Rightarrow> location_sample list \<Rightarrow> uuid \<Rightarrow> datetime \<Rightarrow> live \<Rightarrow> (exn + view) \<times> live" where
  "route_location_samples env u ride_id samples batch_id now lv = as_driver u lv (\<lambda>lv.
     if samples = [] \<or> 120 < length samples then (Inl (ApiError 422 ''VALIDATION_ERROR''), lv)
     else call_rides (add_location_samples (wv_ride env) ride_id samples (iu_id u) batch_id now) (\<lambda>_ lv1. lv1) lv)"

definition route_share_link :: "ws_env \<Rightarrow> identity \<Rightarrow> uuid \<Rightarrow> datetime \<Rightarrow> live \<Rightarrow> (exn + view) \<times> live" where
  "route_share_link env u ride_id now =
     call_rides (create_share_link (wv_ride env) ride_id (iu_id u) (iu_role u) now) (\<lambda>_ lv1. lv1)"

definition route_emergency ::
  "ws_env \<Rightarrow> identity \<Rightarrow> uuid \<Rightarrow> string option \<Rightarrow> datetime \<Rightarrow> live \<Rightarrow> (exn + view) \<times> live" where
  "route_emergency env u ride_id note now =
     call_rides (request_emergency (wv_ride env) ride_id (iu_id u) (iu_role u) note now) (\<lambda>_ lv1. lv1)"

definition route_estimate ::
  "ws_env \<Rightarrow> identity \<Rightarrow> geo_point \<Rightarrow> string option \<Rightarrow> geo_point \<Rightarrow> string option \<Rightarrow> string \<Rightarrow> string \<Rightarrow> datetime
    \<Rightarrow> live \<Rightarrow> (exn + fare_estimate \<times> uuid \<times> string \<times> datetime) \<times> live" where
  "route_estimate env u pickup pickup_address dropoff dropoff_address category comfort now =
     call_rides (create_quote (wv_ride env) (iu_id u) pickup pickup_address dropoff dropoff_address category comfort now)
       (\<lambda>_ lv1. lv1)"

section \<open>Reads\<close>

definition route_get_ride :: "ws_env \<Rightarrow> identity \<Rightarrow> uuid \<Rightarrow> live \<Rightarrow> exn + view" where
  "route_get_ride env u ride_id lv = get_ride (wv_ride env) ride_id (iu_id u) (iu_role u) (live_rides lv)"

definition route_active_ride :: "ws_env \<Rightarrow> identity \<Rightarrow> string option \<Rightarrow> live \<Rightarrow> exn + view" where
  "route_active_ride env u as_role lv =
     (case as_role of
        None \<Rightarrow> get_active_ride (wv_ride env) (iu_id u) (iu_role u) (live_rides lv)
      | Some r \<Rightarrow> if r \<notin> {''passenger'', ''driver''} then Inl (ApiError 422 ''VALIDATION_ERROR'')
                 else get_active_ride (wv_ride env) (iu_id u) r (live_rides lv))"

text \<open>An unknown status raises outside of every handler of errors.\<close>

definition route_list_rides ::
  "identity \<Rightarrow> string option \<Rightarrow> string option \<Rightarrow> datetime option \<Rightarrow> datetime option \<Rightarrow> nat \<Rightarrow> nat \<Rightarrow> live
    \<Rightarrow> exn + view" where
  "route_list_rides u role status from_date to_date page page_size lv =
     (if page < 1 \<or> page_size < 1 \<or> 100 < page_size then Inl (ApiError 422 ''VALIDATION_ERROR'')
      else bindR (if str_or status [] = [] then Inr None
                  else case ride_status_of (str_or status []) of None \<Rightarrow> Inl PyValueError | Some s \<Rightarrow> Inr (Some s))
        (\<lambda>s. list_rides (iu_id u) (iu_role u) role None None s from_date to_date page page_size (live_rides lv)))"

definition route_shared_ride :: "string \<Rightarrow> datetime \<Rightarrow> live \<Rightarrow> exn + view" where
  "route_shared_ride token now lv = get_shared_ride token now (live_rides lv)"

definition route_ride_score :: "identity \<Rightarrow> uuid \<Rightarrow> datetime \<Rightarrow> live \<Rightarrow> exn + score" where
  "route_ride_score u ride_id now lv = get_ride_score ride_id (iu_id u) (iu_role u) now (live_rides lv)"

definition route_list_supplements :: "identity \<Rightarrow> uuid \<Rightarrow> live \<Rightarrow> exn + view" where
  "route_list_supplements u ride_id lv = list_supplements ride_id (iu_id u) (iu_role u) (live_rides lv)"

end
