(* ===== verification/Live_Safety.thy ===== *)
theory Live_Safety
  imports Ride_Routes
begin

text \<open>
  What one request, message or timer may do to the live state: \<open>live_grows\<close> (the rides move by requests, no
  subscription appears, connections stay), the locale \<open>ride_call\<close> (a service call that is one request on
  the rides) with its interpretations on the services behind the routes, and \<open>live_step\<close>.
\<close>

section \<open>Frames leave no subscription behind\<close>

definition quiet :: "(hub \<Rightarrow> hub) \<Rightarrow> bool" where
  "quiet f \<longleftrightarrow> (\<forall>h i. set (hb_by_ride (f h) i) \<subseteq> set (hb_by_ride h i))"

lemma disconnect_by_ride [simp]: "hb_by_ride (disconnect s h) i = removeAll s (hb_by_ride h i)"
  by (simp add: disconnect_def Let_def split: option.splits)

lemma quiet_fold: "(\<And>x. quiet (f x)) \<Longrightarrow> quiet (fold f xs)"
  by (induction xs) (simp_all add: quiet_def, blast)

lemma quiet_fan_out: "quiet (\<lambda>h. fan_out reaches (ss h) payload h)"
proof -
  have "quiet (fold (send_frame reaches payload) xs)" for xs
    by (rule quiet_fold) (auto simp: quiet_def send_frame_def)
  then show ?thesis by (simp add: quiet_def fan_out_def)
qed

lemma quiet_frames:
  "quiet (send_to_ride reaches i payload)" "quiet (send_to_user reaches u payload)"
  "quiet (broadcast_status_changed reaches i status now)" "quiet (broadcast_no_driver_found reaches i)"
  "quiet (broadcast_waiting_changed reaches i payload now)" "quiet (broadcast_supplement_changed reaches i payload now)"
  "quiet (broadcast_driver_location reaches i location heading now)" "quiet (send_new_request reaches u payload)"
  using quiet_fan_out [of reaches "\<lambda>h. hb_by_ride h i"] quiet_fan_out [of reaches "\<lambda>h. hb_by_user h u"]
  by (simp_all add: quiet_def send_to_ride_def send_to_user_def broadcast_status_changed_def
      broadcast_no_driver_found_def broadcast_waiting_changed_def broadcast_supplement_changed_def
      broadcast_driver_location_def send_new_request_def)

lemma quiet_wave: "quiet (send_offer_wave reaches ride ds)"
  using quiet_fold [of "\<lambda>d. send_new_request reaches d (offer_payload ride)" ds] quiet_frames(8)
  by (simp add: quiet_def send_offer_wave_def)

section \<open>Growing\<close>

definition live_grows :: "live \<Rightarrow> live \<Rightarrow> bool" where
  "live_grows lv lv' \<longleftrightarrow> ride_later (live_rides lv) (live_rides lv')
     \<and> (\<forall>i. set (hb_by_ride (lv_hub lv') i) \<subseteq> set (hb_by_ride (lv_hub lv) i))
     \<and> lv_sessions lv' = lv_sessions lv"

lemma grows_refl [simp]: "live_grows lv lv"
  by (simp add: live_grows_def)

lemma grows_trans: "live_grows a b \<Longrightarrow> live_grows b c \<Longrightarrow> live_grows a c"
  by (fastforce simp: live_grows_def)

lemma grows_tell: "quiet f \<Longrightarrow> live_grows lv (tell f lv)"
  by (simp add: live_grows_def quiet_def tell_def live_rides_def)

lemma grows_matching: "ride_later (live_rides lv) (mt_rides m) \<Longrightarrow> live_grows lv (lv\<lparr>lv_matching := m\<rparr>)"
  by (simp add: live_grows_def live_rides_def)

lemma grows_changed: "live_grows lv (changed env i status now lv)"
  unfolding changed_def by (rule grows_tell) (rule quiet_frames)

lemma grows_release: "live_grows lv (release_driver_of i now lv)"
  by (auto simp: release_driver_of_def live_grows_def on_matching_def live_rides_def release_driver_def Let_def
      split: option.splits)

lemma grows_announce: "live_grows lv (announce_dispatch env r i d lv)"
  by (auto simp: announce_dispatch_def intro!: grows_tell quiet_wave quiet_frames split: bool.splits option.splits)

locale ride_call =
  fixes service :: "ride_db \<Rightarrow> exn + 'a \<times> ride_db"
  assumes is_request: "ride_step db (snd (transact db (service db)))"
begin

lemma call_grows:
  assumes "\<And>x lv1. live_grows lv1 (after x lv1)"
  shows "live_grows lv (snd (call_rides service after lv))"
proof -
  obtain r db1 where t: "transact (live_rides lv) (service (live_rides lv)) = (r, db1)" by fastforce
  with is_request [of "live_rides lv"] have "ride_later (live_rides lv) db1" by simp
  then have "live_grows lv (with_rides db1 lv)" by (simp add: live_grows_def with_rides_def on_matching_def live_rides_def)
  then show ?thesis using t assms grows_trans by (cases r) (auto simp: call_rides_def)
qed

end

interpretation status_call: ride_call "update_status env i s uid role now" for env i s uid role now
  by unfold_locales (rule step_status)
interpretation wait_call: ride_call "start_waiting env i uid role speed now" for env i uid role speed now
  by unfold_locales (rule step_wait)
interpretation resume_call: ride_call "stop_waiting env i uid role reason now" for env i uid role reason now
  by unfold_locales (rule step_resume)
interpretation early_call: ride_call "request_early_stop env i p now" for env i p now
  by unfold_locales (rule step_early_request)
interpretation confirm_call: ride_call "confirm_early_stop env i uid role now" for env i uid role now
  by unfold_locales (rule step_early_confirm)
interpretation arrived_call: ride_call "mark_arrived env i uid role pos now" for env i uid role pos now
  by unfold_locales (rule step_arrived)
interpretation no_show_call: ride_call "mark_passenger_no_show env i uid role now" for env i uid role now
  by unfold_locales (rule step_no_show)
interpretation cancel_call: ride_call "cancel_ride env i reason uid role now" for env i reason uid role now
  by unfold_locales (rule step_cancel)
interpretation stop_call: ride_call "add_stop i uid role la lo addr memo now" for i uid role la lo addr memo now
  by unfold_locales (rule step_stop)
interpretation supplement_call: ride_call "add_supplement i uid role ty amount label now"
  for i uid role ty amount label now by unfold_locales (rule step_supplement)
interpretation decide_call: ride_call "decide_supplement i sid uid role decision now"
  for i sid uid role decision now by unfold_locales (rule step_decide)
interpretation rate_call: ride_call "rate i n comment uid role" for i n comment uid role
  by unfold_locales (rule step_rate)
interpretation samples_call: ride_call "add_location_samples env i samples uid batch now"
  for env i samples uid batch now by unfold_locales (rule step_samples)
interpretation share_call: ride_call "create_share_link env i uid role now" for env i uid role now
  by unfold_locales (rule step_share)
interpretation emergency_call: ride_call "request_emergency env i uid role memo now" for env i uid role memo now
  by unfold_locales (rule step_emergency)
interpretation quote_call: ride_call "create_quote env p a aa d da cat comf now" for env p a aa d da cat comf now
  by unfold_locales (rule step_quote)

section \<open>The routes grow\<close>

lemma grows_as_driver: "(\<And>lv. live_grows lv (snd (route lv))) \<Longrightarrow> live_grows lv (snd (as_driver u lv route))"
  by (simp add: as_driver_def split: sum.splits)

lemma grows_waiting:
  "live_grows lv (tell (broadcast_waiting_changed reaches i result now) (changed env i status now lv))"
  by (rule grows_trans [OF grows_changed grows_tell], rule quiet_frames)

lemma grows_freed: "live_grows lv (changed env i status now (release_driver_of i now lv))"
  by (rule grows_trans [OF grows_release grows_changed])

lemma grows_supplement: "live_grows lv (supplement_changed env i now result lv)"
  unfolding supplement_changed_def by (rule grows_tell, rule quiet_frames)

lemma grows_status: "live_grows lv (snd (route_update_status env u i status now lv))"
  unfolding route_update_status_def
proof (rule grows_as_driver)
  fix lv :: live
  have "live_grows lv1 (changed env i st now (if c then release_driver_of i now lv1 else lv1))" for lv1 st c
    using grows_freed grows_changed by simp
  then have "live_grows lv (snd (call_rides (update_status (wv_ride env) i s (iu_id u) (iu_role u) now)
      (\<lambda>_ lv1. changed env i (ride_status_value s) now (if s = COMPLETED then release_driver_of i now lv1 else lv1)) lv))"
    for s by (rule status_call.call_grows)
  then show "live_grows lv (snd (case ride_status_of status of
       None \<Rightarrow> (Inl (ApiError 422 ''INVALID_STATUS''), lv)
     | Some s \<Rightarrow> call_rides (update_status (wv_ride env) i s (iu_id u) (iu_role u) now)
         (\<lambda>_ lv1. changed env i (ride_status_value s) now
            (if s = COMPLETED then release_driver_of i now lv1 else lv1)) lv))"
    by (simp split: option.split)
qed

lemma grows_start: "live_grows lv (snd (route_start_ride env u i code now lv))"
  unfolding route_start_ride_def
proof (rule grows_as_driver)
  fix lv :: live
  obtain r db1 where t: "start_ride_with_code (wv_ride env) i (iu_id u) (iu_role u) code now (live_rides lv) = (r, db1)"
    by fastforce
  with step_start [of "live_rides lv" "wv_ride env" i "iu_id u" "iu_role u" code now]
  have "ride_later (live_rides lv) db1" by simp
  then have "live_grows lv (with_rides db1 lv)" by (simp add: live_grows_def with_rides_def on_matching_def live_rides_def)
  then show "live_grows lv (snd (case start_ride_with_code (wv_ride env) i (iu_id u) (iu_role u) code now (live_rides lv) of
       (Inl e, db1) \<Rightarrow> (Inl e, with_rides db1 lv)
     | (Inr result, db1) \<Rightarrow> (Inr result, changed env i ''in_progress'' now (with_rides db1 lv))))"
    using t grows_trans [OF _ grows_changed] by (cases r) auto
qed

lemma grows_accept: "live_grows lv (snd (route_accept_ride env u i now lv))"
  unfolding route_accept_ride_def
proof (rule grows_as_driver)
  fix lv :: live
  obtain r m1 where t: "accept i (iu_id u) now (lv_matching lv) = (r, m1)" by fastforce
  with step_accept [of "lv_matching lv" i "iu_id u" now] have "ride_later (live_rides lv) (mt_rides m1)"
    by (simp add: live_rides_def)
  then have "live_grows lv (lv\<lparr>lv_matching := m1\<rparr>)" by (rule grows_matching)
  then show "live_grows lv (snd (case accept i (iu_id u) now (lv_matching lv) of
       (Inl e, m1) \<Rightarrow> (Inl e, lv\<lparr>lv_matching := m1\<rparr>)
     | (Inr ride, m1) \<Rightarrow>
         (Inr (VObj [(''ride_id'', vid (rd_id ride)), (''status'', VStr (ride_status_value (rd_status ride))),
             (''driver_id'', vopt vid (rd_driver_id ride)), (''vehicle_id'', vopt vid (rd_vehicle_id ride)),
             (''matched_at'', vopt VAt (rd_matched_at ride))]),
          tell (broadcast_status_changed (wv_reaches env) (rd_id ride) (ride_status_value (rd_status ride)) now)
            (lv\<lparr>lv_matching := m1\<rparr>))))"
    using t grows_trans [OF _ grows_tell [OF quiet_frames(3)]] by (cases r) auto
qed

lemma grows_decline: "live_grows lv (snd (route_decline_ride env u i now lv))"
  unfolding route_decline_ride_def
proof (rule grows_as_driver)
  fix lv :: live
  obtain r m1 where t: "decline (wv_match env) i (iu_id u) now (lv_matching lv) = (r, m1)" by fastforce
  with step_decline [of "lv_matching lv" "wv_match env" i "iu_id u" now] have "ride_later (live_rides lv) (mt_rides m1)"
    by (simp add: live_rides_def)
  then have "live_grows lv (lv\<lparr>lv_matching := m1\<rparr>)" by (rule grows_matching)
  then show "live_grows lv (snd (case decline (wv_match env) i (iu_id u) now (lv_matching lv) of
       (Inl e, m1) \<Rightarrow> (Inl e, lv\<lparr>lv_matching := m1\<rparr>)
     | (Inr d, m1) \<Rightarrow>
         (Inr (VObj [(''ride_id'', vid i), (''reoffered'', VBool (md_drivers d \<noteq> [])),
             (''offered_driver_count'', VInt (int (length (md_drivers d)))), (''new_wave'', VBool (md_new_wave d))]),
          announce_dispatch env (find_ride i (mt_rides m1)) i d (lv\<lparr>lv_matching := m1\<rparr>))))"
    using t grows_trans [OF _ grows_announce] by (cases r) auto
qed

lemma grows_expired: "live_grows lv (wave_expired env i now lv)"
proof (cases "advance_expired_offer (wv_match env) i now (lv_matching lv)")
  case (Inr x)
  obtain d m1 where x: "x = (d, m1)" by fastforce
  from step_advance [OF Inr [unfolded x]] have "live_grows lv (lv\<lparr>lv_matching := m1\<rparr>)"
    by (intro grows_matching) (simp add: live_rides_def r_into_rtranclp)
  then show ?thesis using grows_trans [OF _ grows_announce] by (simp add: wave_expired_def Inr x)
qed (simp add: wave_expired_def)

text \<open>Every other route is one service call.\<close>

lemma grows_calls:
  "live_grows lv (snd (route_start_waiting env u i now lv))"
  "live_grows lv (snd (route_stop_waiting env u i now lv))"
  "live_grows lv (snd (route_request_early_stop env u i now lv))"
  "live_grows lv (snd (route_confirm_early_stop env u i now lv))"
  "live_grows lv (snd (route_arrive env u i now lv))"
  "live_grows lv (snd (route_no_show env u i now lv))"
  "live_grows lv (snd (route_cancel env u i reason now lv))"
  "live_grows lv (snd (route_add_stop env u i la lo addr note now lv))"
  "live_grows lv (snd (route_add_supplement env u i ty amount label now lv))"
  "live_grows lv (snd (route_decide_supplement env u i sid decision now lv))"
  "live_grows lv (snd (route_rate env u i n comment lv))"
  "live_grows lv (snd (route_location_samples env u i samples batch now lv))"
  "live_grows lv (snd (route_share_link env u i now lv))"
  "live_grows lv (snd (route_emergency env u i emergency_note now lv))"
  "live_grows lv (snd (route_estimate env u p a d da category comfort now lv))"
  unfolding route_start_waiting_def route_stop_waiting_def route_request_early_stop_def route_confirm_early_stop_def
    route_arrive_def route_no_show_def route_cancel_def route_add_stop_def route_add_supplement_def
    route_decide_supplement_def route_rate_def route_location_samples_def route_share_link_def route_emergency_def
    route_estimate_def Let_def
  by (auto intro!: grows_as_driver wait_call.call_grows resume_call.call_grows early_call.call_grows
      confirm_call.call_grows arrived_call.call_grows no_show_call.call_grows cancel_call.call_grows
      stop_call.call_grows supplement_call.call_grows decide_call.call_grows rate_call.call_grows
      samples_call.call_grows share_call.call_grows emergency_call.call_grows quote_call.call_grows
      grows_waiting grows_freed grows_changed grows_supplement)

text \<open>The ride that a request returns is the one it saved, under an id that was free.\<close>

lemma requested_ride:
  assumes "request_ride p review quote_id means scheduled now db = Inr (ride, db1)"
  shows "rd_id ride = next_ride_id db" and "rd_status ride = REQUESTED" and "as_saved ride db1"
proof -
  from assms obtain m where one: "(case find_ride_quote quote_id db of
       None \<Rightarrow> Inl (ApiError 404 ''QUOTE_NOT_FOUND'')
     | Some quote \<Rightarrow>
       if rq_passenger_user_id quote \<noteq> p then Inl (ApiError 404 ''QUOTE_NOT_FOUND'')
       else if rq_consumed_at quote \<noteq> None then Inl (ApiError 409 ''QUOTE_ALREADY_USED'')
       else if rq_expires_at quote \<le> now then Inl (ApiError 409 ''QUOTE_EXPIRED'')
       else if has_active_ride p db then Inl (ApiError 409 ''ACTIVE_RIDE_ALREADY_EXISTS'')
       else let (rid, db1) = fresh_id db; ride = ride_of_quote rid p review quote m scheduled now
         in bindR (save_ride now ride db1) (\<lambda>db2. bindR (consume_ride_quote (rq_id quote) rid now db2) (\<lambda>db3.
            Inr (ride, record_history ride db3)))) = Inr (ride, db1)"
    unfolding request_ride_def bindR_eq_Inr by blast
  then obtain quote where "(let (rid, db1) = fresh_id db; ride = ride_of_quote rid p review quote m scheduled now
         in bindR (save_ride now ride db1) (\<lambda>db2. bindR (consume_ride_quote (rq_id quote) rid now db2) (\<lambda>db3.
            Inr (ride, record_history ride db3)))) = Inr (ride, db1)"
    by (cases "find_ride_quote quote_id db") (auto simp del: Let_def split: if_splits)
  then obtain db2 db3 where ride: "ride = ride_of_quote (next_ride_id db) p review quote m scheduled now"
    and s: "save_ride now ride (db\<lparr>next_ride_id := Suc (next_ride_id db)\<rparr>) = Inr db2"
    and c: "consume_ride_quote (rq_id quote) (next_ride_id db) now db2 = Inr db3" and db1: "db1 = record_history ride db3"
    unfolding Let_def fresh_id_def prod.case bindR_eq_Inr by blast
  show "rd_id ride = next_ride_id db" "rd_status ride = REQUESTED"
    by (simp_all add: ride ride_of_quote_def new_ride_def)
  have "framed db2 db3" using consume_quote_framed [of db2 "rq_id quote" "next_ride_id db" now] c by simp
  then have "framed db2 db1" unfolding db1 by (rule framed_trans [OF _ framed_history])
  then show "as_saved ride db1"
    using save_ride_find [OF s] framed_find unfolding as_saved_def by metis
qed

lemma grows_create: "live_grows lv (snd (route_create_ride env u q means scheduled now lv))"
proof (cases "request_ride (iu_id u) (iu_is_review_account u) q means scheduled now (live_rides lv)")
  case (Inr x)
  obtain ride db1 where x: "x = (ride, db1)" by fastforce
  note r = Inr [unfolded x]
  have one: "ride_later (live_rides lv) db1"
    using step_request [of "live_rides lv" "iu_id u" "iu_is_review_account u" q means scheduled now] r by simp
  show ?thesis
  proof (cases "try_match (wv_match env) ride now ((lv_matching lv)\<lparr>mt_rides := db1\<rparr>)")
    case (Inr y)
    obtain d m1 where y: "y = (d, m1)" by fastforce
    have "ride_step db1 (mt_rides m1)"
      using step_match [of ride "(lv_matching lv)\<lparr>mt_rides := db1\<rparr>" "wv_match env" now d m1]
        requested_ride(3) [OF r] Inr [unfolded y] by simp
    with one have "live_grows lv (lv\<lparr>lv_matching := m1\<rparr>)"
      by (intro grows_matching) (rule rtranclp.rtrancl_into_rtrancl)
    then show ?thesis using grows_trans [OF _ grows_announce]
      by (simp add: route_create_ride_def r Inr y)
  qed (simp add: route_create_ride_def r)
qed (simp add: route_create_ride_def)

section \<open>Steps\<close>

text \<open>
  One request, message, timer or other writer. A new connection has a socket of its own; other writers
  (drivers going online, tariffs) leave rides and supplements, and the hub, alone.
\<close>

inductive live_step :: "live \<Rightarrow> live \<Rightarrow> bool" where
  live_other: "framed (live_rides lv) (mt_rides m) \<Longrightarrow> live_step lv (lv\<lparr>lv_matching := m\<rparr>)"
| live_create: "live_step lv (snd (route_create_ride env u q means scheduled now lv))"
| live_accept: "live_step lv (snd (route_accept_ride env u i now lv))"
| live_decline: "live_step lv (snd (route_decline_ride env u i now lv))"
| live_expired: "live_step lv (wave_expired env i now lv)"
| live_status: "live_step lv (snd (route_update_status env u i status now lv))"
| live_start: "live_step lv (snd (route_start_ride env u i code now lv))"
| live_wait: "live_step lv (snd (route_start_waiting env u i now lv))"
| live_resume: "live_step lv (snd (route_stop_waiting env u i now lv))"
| live_early_request: "live_step lv (snd (route_request_early_stop env u i now lv))"
| live_early_confirm: "live_step lv (snd (route_confirm_early_stop env u i now lv))"
| live_arrive: "live_step lv (snd (route_arrive env u i now lv))"
| live_no_show: "live_step lv (snd (route_no_show env u i now lv))"
| live_cancel: "live_step lv (snd (route_cancel env u i reason now lv))"
| live_stop: "live_step lv (snd (route_add_stop env u i la lo addr memo now lv))"
| live_supplement: "live_step lv (snd (route_add_supplement env u i ty amount label now lv))"
| live_decide: "live_step lv (snd (route_decide_supplement env u i sid decision now lv))"
| live_rate: "live_step lv (snd (route_rate env u i n comment lv))"
| live_samples: "live_step lv (snd (route_location_samples env u i samples batch now lv))"
| live_share: "live_step lv (snd (route_share_link env u i now lv))"
| live_emergency: "live_step lv (snd (route_emergency env u i emergency_note now lv))"
| live_estimate: "live_step lv (snd (route_estimate env u p a d da category comfort now lv))"
| live_open: "lv_sessions lv s = None \<Longrightarrow> live_step lv (snd (ws_open aenv s token now lv))"
| live_receive: "live_step lv (ws_receive env s message now lv)"
| live_close: "live_step lv (ws_close s lv)"

definition live_start_state :: live where
  "live_start_state = \<lparr>lv_matching = \<lparr>mt_rides = empty_ride_db, mt_pay = empty_pay_db, mt_offers = no_offers,
     mt_locations = no_drivers\<rparr>, lv_hub = empty_hub, lv_sessions = Map.empty\<rparr>"

definition live_reachable :: "live \<Rightarrow> bool" where
  "live_reachable lv \<longleftrightarrow> live_step\<^sup>*\<^sup>* live_start_state lv"

section \<open>Subscriptions\<close>

text \<open>Every subscription belongs to a running connection that could see the ride when it subscribed.\<close>

definition entitled :: "live \<Rightarrow> nat \<Rightarrow> uuid \<Rightarrow> bool" where
  "entitled lv s i \<longleftrightarrow> (\<exists>u role db0. lv_sessions lv s = Some (u, role) \<and> ride_reachable db0
     \<and> ride_later db0 (live_rides lv) \<and> can_access_ride i u role False db0)"

definition live_inv :: "live \<Rightarrow> bool" where
  "live_inv lv \<longleftrightarrow> ride_reachable (live_rides lv)
     \<and> (\<forall>i. \<forall>s \<in> set (hb_by_ride (lv_hub lv) i). entitled lv s i)"

lemma entitled_later:
  "entitled lv s i \<Longrightarrow> lv_sessions lv' s = lv_sessions lv s \<Longrightarrow> ride_later (live_rides lv) (live_rides lv') \<Longrightarrow>
     entitled lv' s i"
  unfolding entitled_def by (metis rtranclp_trans)

lemma grows_inv: "live_grows lv lv' \<Longrightarrow> live_inv lv \<Longrightarrow> live_inv lv'"
  unfolding live_grows_def live_inv_def
  by (metis entitled_later reachable_later subsetD)

text \<open>The messages.\<close>

lemma grows_reply: "live_grows lv (snd (reply env s frame lv))"
  by (simp add: reply_def live_grows_def live_rides_def)

lemma grows_reply_error: "live_grows lv (snd (reply_error env s code lv))"
  unfolding reply_error_def by (rule grows_reply)

lemma grows_position: "live_grows lv (snd (record_position env u p v now lv))"
  by (simp add: record_position_def Let_def live_grows_def live_rides_def)

lemma grows_moves: "live_grows lv (snd (stop_waiting_if_vehicle_moves env u now lv))"
proof -
  have one: "live_grows lv (lv\<lparr>lv_matching := (lv_matching lv)\<lparr>mt_rides := db1\<rparr>, lv_hub :=
      broadcast_waiting_changed (wv_reaches env) i payload now
        (broadcast_status_changed (wv_reaches env) i ''in_progress'' now (lv_hub lv))\<rparr>)"
    if t: "transact (mt_rides (lv_matching lv)) (stop_waiting (wv_ride env) i u ''driver'' ''vehicle_moved'' now
        (mt_rides (lv_matching lv))) = (Inr payload, db1)" for i payload db1
  proof -
    have "ride_later (live_rides lv) db1"
      using step_resume [of "live_rides lv" "wv_ride env" i u "''driver''" "''vehicle_moved''" now] t
      by (simp add: live_rides_def)
    moreover have "set (hb_by_ride (broadcast_waiting_changed (wv_reaches env) i payload now
        (broadcast_status_changed (wv_reaches env) i ''in_progress'' now (lv_hub lv))) j) \<subseteq> set (hb_by_ride (lv_hub lv) j)" for j
      using quiet_frames(3,5) unfolding quiet_def by blast
    ultimately show ?thesis by (simp add: live_grows_def live_rides_def)
  qed
  show ?thesis
    unfolding stop_waiting_if_vehicle_moves_def Let_def
    using one by (auto split: option.split sum.split prod.split)
qed

lemma grows_and_then:
  "live_grows lv (snd r) \<Longrightarrow> (\<And>lv1. live_grows lv1 (snd (f lv1))) \<Longrightarrow> live_grows lv (snd (and_then r f))"
  by (auto simp: and_then_def split: prod.split sum.split intro: grows_trans)

lemma grows_push: "live_grows lv (snd (handle_location_push env s message u role now lv))"
  unfolding handle_location_push_def Let_def
  by (auto intro!: grows_and_then grows_position grows_moves grows_reply grows_reply_error
      grows_trans [OF grows_tell [OF quiet_frames(7), unfolded tell_def] grows_reply]
      split: option.split)

text \<open>A subscription, and the end of a connection.\<close>

lemma inv_subscribe:
  assumes inv: "live_inv lv" and s: "lv_sessions lv s = Some (u, role)"
  shows "live_inv (snd (handle_subscribe env s message u role lv))"
proof -
  have "live_inv (lv\<lparr>lv_hub := subscribe_to_ride s i (lv_hub lv)\<rparr>)"
    if a: "can_access_ride i u role False (mt_rides (lv_matching lv))" for i
  proof -
    let ?lv = "lv\<lparr>lv_hub := subscribe_to_ride s i (lv_hub lv)\<rparr>"
    have "ride_reachable (live_rides lv)" using inv by (simp add: live_inv_def)
    then have e: "entitled ?lv s i"
      unfolding entitled_def using s a by (auto simp: live_rides_def intro!: exI [of _ "live_rides lv"])
    have "entitled ?lv t j" if "t \<in> set (hb_by_ride (lv_hub ?lv) j)" for t j
    proof (cases "t = s \<and> j = i")
      case False
      with that have "t \<in> set (hb_by_ride (lv_hub lv) j)"
        by (auto simp: subscribe_to_ride_def add_once_def split: if_splits)
      with inv have "entitled lv t j" by (simp add: live_inv_def)
      then show ?thesis by (rule entitled_later) (simp_all add: live_rides_def)
    qed (use e in simp)
    then show ?thesis using inv by (simp add: live_inv_def live_rides_def)
  qed
  then show ?thesis
    using inv grows_inv [OF grows_reply_error] grows_inv [OF grows_reply]
    by (auto simp: handle_subscribe_def split: option.split)
qed

lemma ws_end_sessions: "lv_sessions (ws_end s u role lv) = (lv_sessions lv)(s := None)"
  by (simp add: ws_end_def Let_def)

lemma ws_end_by_ride: "hb_by_ride (lv_hub (ws_end s u role lv)) i = removeAll s (hb_by_ride (lv_hub lv) i)"
  by (simp add: ws_end_def Let_def)

lemma ws_end_rides: "live_rides (ws_end s u role lv) = live_rides lv"
  by (simp add: ws_end_def Let_def live_rides_def)

lemma inv_end:
  assumes "live_inv lv"
  shows "live_inv (ws_end s u role lv)"
proof -
  have "entitled (ws_end s u role lv) t i" if "t \<in> set (hb_by_ride (lv_hub (ws_end s u role lv)) i)" for t i
  proof -
    from that have t: "t \<noteq> s" "t \<in> set (hb_by_ride (lv_hub lv) i)" by (simp_all add: ws_end_by_ride)
    then have "entitled lv t i" using assms by (simp add: live_inv_def)
    then show ?thesis by (rule entitled_later) (simp_all add: ws_end_rides ws_end_sessions t(1))
  qed
  then show ?thesis using assms by (simp add: live_inv_def ws_end_rides)
qed

lemma inv_message:
  assumes "live_inv lv" and "lv_sessions lv s = Some (u, role)"
  shows "live_inv (snd (handle_message env s message u role now lv))"
  unfolding handle_message_def Let_def
  using grows_inv [OF grows_reply_error assms(1)] grows_inv [OF grows_reply assms(1)]
    grows_inv [OF grows_push assms(1)] inv_subscribe [OF assms]
  by (auto split: view.split)

lemma inv_receive:
  assumes "live_inv lv"
  shows "live_inv (ws_receive env s message now lv)"
proof (cases "lv_sessions lv s")
  case (Some x)
  obtain u role where x: "x = (u, role)" by fastforce
  obtain r lv1 where h: "handle_message env s message u role now lv = (r, lv1)" by fastforce
  have "live_inv lv1" using inv_message [OF assms Some [unfolded x], of env message now] h by simp
  then show ?thesis
    using inv_end grows_inv [OF grows_reply]
    by (auto simp: ws_receive_def Some x h split: sum.split ws_error.split)
qed (simp add: ws_receive_def assms)

lemma inv_open:
  assumes "live_inv lv" and "lv_sessions lv s = None"
  shows "live_inv (snd (ws_open aenv s token now lv))"
proof -
  have "live_inv (lv\<lparr>lv_hub := connect s u (lv_hub lv), lv_sessions := (lv_sessions lv)(s \<mapsto> (u, role))\<rparr>)" (is "live_inv ?lv")
    for u role
  proof -
    have "entitled ?lv t i" if "t \<in> set (hb_by_ride (lv_hub ?lv) i)" for t i
    proof -
      from that assms(1) have e: "entitled lv t i" by (simp add: live_inv_def connect_def)
      then have "t \<noteq> s" using assms(2) by (auto simp: entitled_def)
      with e show ?thesis by (intro entitled_later [OF e]) (simp_all add: live_rides_def)
    qed
    then show ?thesis using assms(1) by (simp add: live_inv_def live_rides_def)
  qed
  then show ?thesis
    using assms(1) by (auto simp: ws_open_def split: sum.split exn.split)
qed

theorem live_step_inv: "live_step lv lv' \<Longrightarrow> live_inv lv \<Longrightarrow> live_inv lv'"
proof (induction rule: live_step.induct)
  case (live_other lv m)
  then have "live_grows lv (lv\<lparr>lv_matching := m\<rparr>)"
    by (intro grows_matching) (simp add: r_into_rtranclp step_other)
  then show ?case using live_other.prems by (rule grows_inv)
next
  case (live_open lv s aenv token now)
  then show ?case by (blast intro: inv_open)
next
  case (live_receive lv env s message now)
  then show ?case by (rule inv_receive)
next
  case (live_close s lv)
  then show ?case by (auto simp: ws_close_def intro: inv_end split: option.split)
qed (erule grows_inv [rotated], rule grows_create grows_accept grows_decline grows_expired grows_status grows_start grows_calls)+

lemma live_inv_start: "live_inv live_start_state"
  by (simp add: live_inv_def live_start_state_def live_rides_def ride_reachable_def empty_hub_def)

theorem reachable_live_inv: "live_reachable lv \<Longrightarrow> live_inv lv"
  unfolding live_reachable_def
  by (induction rule: rtranclp_induct) (auto intro: live_step_inv live_inv_start)

end
