(* ===== verification/Capability_Safety.thy ===== *)
theory Capability_Safety
  imports Capability_Outbox
begin

text \<open>
  The capability outbox: the invariant \<open>outbox_ok\<close> under which no event can clash, what an enqueued status
  shows for a driver, and the steps of the reconciliation that reads every profile.
\<close>

section \<open>The invariant\<close>

definition outbox_ok :: "ride_db \<Rightarrow> bool" where
  "outbox_ok db \<longleftrightarrow> distinct (map cs_user_id (capability_states db))
     \<and> (\<forall>e \<in> set (capability_events db). ce_id e < next_ride_id db
          \<and> (\<exists>u v. ce_event_id e = event_id_of u v (ce_id e))
          \<and> (\<exists>s \<in> set (capability_states db). cs_user_id s = ce_user_id e
               \<and> ce_projection_version e \<le> cs_projection_version s))"

text \<open>What the identity service is to show of a user.\<close>

definition desired :: "uuid \<Rightarrow> ride_db \<Rightarrow> (string option \<times> string list) option" where
  "desired u db = map_option (\<lambda>s. (cs_desired_operational_status s, cs_desired_actions s))
     (get_row cs_user_id u (capability_states db))"

lemma uuid_str_length: "length (uuid_str a) = 36"
  by (simp add: uuid_str_def Let_def)

lemma event_id_inj:
  assumes "event_id_of u v i = event_id_of u' v' i'" and "i < 2 ^ 128" and "i' < 2 ^ 128"
  shows "i = i'"
proof -
  have "rev (take 36 (rev (event_id_of u v i))) = uuid_str i" for u v i
    by (simp add: event_id_of_def uuid_str_length)
  with assms(1) have "uuid_str i = uuid_str i'" by metis
  then show ?thesis using uuid_roundtrip assms(2,3) by (metis option.inject)
qed

lemma get_row_inserted:
  "distinct (map key rs) \<Longrightarrow> rs' = snd (insert_do_nothing key r rs) \<Longrightarrow>
     distinct (map key rs') \<and> set rs \<subseteq> set rs'
     \<and> (\<exists>s. get_row key (key r) rs' = Some s \<and> s \<in> set rs' \<and> (s = r \<or> s \<in> set rs))
     \<and> (\<forall>k. k \<noteq> key r \<longrightarrow> get_row key k rs' = get_row key k rs)"
proof (cases "get_row key (key r) rs")
  case None
  assume a: "distinct (map key rs)" "rs' = snd (insert_do_nothing key r rs)"
  from None have "\<not> list_ex (\<lambda>x. key x = key r) rs" by (auto simp: get_row_None list_ex_iff image_iff)
  then have "rs' = rs @ [r]" using a(2) by (simp add: insert_do_nothing_def)
  moreover have "key r \<notin> key ` set rs" using None by (simp add: get_row_None)
  ultimately show ?thesis using None a(1) by (auto simp: get_row_append split: option.splits)
next
  case (Some s)
  assume a: "distinct (map key rs)" "rs' = snd (insert_do_nothing key r rs)"
  from get_row_Some [OF Some] have "list_ex (\<lambda>x. key x = key r) rs" by (auto simp: list_ex_iff)
  then have "rs' = rs" using a(2) by (simp add: insert_do_nothing_def)
  with Some a(1) get_row_Some [OF Some] show ?thesis by auto
qed


text \<open>The row of a user, there or new.\<close>

lemma state_for_update_ok:
  assumes inv: "outbox_ok db" and eq: "state_for_update u db = (s, db1)"
  shows "outbox_ok db1" and "get_row cs_user_id u (capability_states db1) = Some s" and "cs_user_id s = u"
    and "u' \<noteq> u \<Longrightarrow> desired u' db1 = desired u' db"
    and "\<exists>rows. db1 = db\<lparr>capability_states := rows\<rparr>"
proof -
  define rows where "rows = snd (insert_do_nothing cs_user_id (new_capability_state u) (capability_states db))"
  have key: "cs_user_id (new_capability_state u) = u" by (simp add: new_capability_state_def)
  from inv have dist: "distinct (map cs_user_id (capability_states db))" by (simp add: outbox_ok_def)
  from get_row_inserted [OF dist rows_def] obtain x where
    x: "distinct (map cs_user_id rows)" "set (capability_states db) \<subseteq> set rows" "get_row cs_user_id u rows = Some x"
    and other: "\<forall>k. k \<noteq> u \<longrightarrow> get_row cs_user_id k rows = get_row cs_user_id k (capability_states db)"
    by (auto simp: key)
  have db1: "db1 = db\<lparr>capability_states := rows\<rparr>" and s: "s = x"
    using eq x(3) by (auto simp: state_for_update_def Let_def rows_def)
  show "outbox_ok db1" using inv x(1,2) unfolding outbox_ok_def db1 by fastforce
  show "get_row cs_user_id u (capability_states db1) = Some s" using x(3) by (simp add: db1 s)
  show "cs_user_id s = u" using get_row_Some [OF x(3)] by (simp add: s)
  show "u' \<noteq> u \<Longrightarrow> desired u' db1 = desired u' db" using other by (simp add: desired_def db1)
  show "\<exists>rows. db1 = db\<lparr>capability_states := rows\<rparr>" using db1 by blast
qed

section \<open>Enqueuing\<close>

text \<open>A new event clashes with none that is there.\<close>

lemma no_capability_clash:
  assumes inv: "outbox_ok db" and room: "next_ride_id db < 2 ^ 128"
    and s: "s \<in> set (capability_states db)" and row: "ce_id row = next_ride_id db"
      "ce_event_id row = event_id_of (cs_user_id s) (cs_projection_version s + 1) (next_ride_id db)"
      "ce_user_id row = cs_user_id s" "ce_projection_version row = cs_projection_version s + 1"
  shows "insert_row capability_clash row (capability_events db) = Inr (capability_events db @ [row])"
proof -
  have "\<not> capability_clash row e" if e: "e \<in> set (capability_events db)" for e
  proof -
    from inv e have id: "ce_id e < next_ride_id db" by (simp add: outbox_ok_def)
    from inv e obtain u v where name: "ce_event_id e = event_id_of u v (ce_id e)" unfolding outbox_ok_def by blast
    from inv e obtain s' where s': "s' \<in> set (capability_states db)" "cs_user_id s' = ce_user_id e"
      "ce_projection_version e \<le> cs_projection_version s'" unfolding outbox_ok_def by blast
    have "ce_event_id row \<noteq> ce_event_id e"
      using event_id_inj [of "cs_user_id s" "cs_projection_version s + 1" "next_ride_id db" u v "ce_id e"]
        id room unfolding row(2) name by linarith
    moreover have "ce_projection_version row \<noteq> ce_projection_version e" if "ce_user_id row = ce_user_id e"
    proof -
      from inv have "distinct (map cs_user_id (capability_states db))" by (simp add: outbox_ok_def)
      then have "s' = s" using s s'(1,2) that row(3) by (metis distinct_map inj_onD)
      then show ?thesis using s'(3) row(4) by simp
    qed
    ultimately show ?thesis using id row(1) by (auto simp: capability_clash_def)
  qed
  then show ?thesis by (simp add: insert_row_Inr)
qed

lemma enqueue_ok:
  assumes inv: "outbox_ok db" and room: "next_ride_id db < 2 ^ 128"
  obtains ev db' where "enqueue u status actions request_id now db = Inr (ev, db')"
    and "outbox_ok db'" and "next_ride_id db' \<le> Suc (next_ride_id db)"
    and "desired u db' = Some (Some status, unique_in_order actions)"
    and "\<forall>u'. u' \<noteq> u \<longrightarrow> desired u' db' = desired u' db"
proof -
  obtain s db1 where eq: "state_for_update u db = (s, db1)" by fastforce
  note st = state_for_update_ok [OF inv eq]
  from st(5) have next1: "next_ride_id db1 = next_ride_id db" by auto
  have s: "s \<in> set (capability_states db1)" using get_row_Some [OF st(2)] by simp
  show thesis
  proof (cases "cs_desired_operational_status s = Some status \<and> cs_desired_actions s = unique_in_order actions
         \<and> str_or (cs_last_event_id s) [] \<noteq> []")
    case True
    then have "enqueue u status actions request_id now db = Inr (None, db1)"
      by (simp add: enqueue_def eq Let_def)
    moreover have "desired u db1 = Some (Some status, unique_in_order actions)"
      using st(2) True by (simp add: desired_def)
    ultimately show thesis using that [of None db1] st next1 by simp
  next
    case False
    define row where "row = \<lparr>ce_id = next_ride_id db, ce_event_id = event_id_of u (cs_projection_version s + 1) (next_ride_id db),
        ce_user_id = u, ce_projection_version = cs_projection_version s + 1, ce_operational_status = status,
        ce_actions = unique_in_order actions, ce_request_id = request_id, ce_status = ''pending'',
        ce_attempts = 0, ce_next_attempt_at = now, ce_last_attempt_at = None,
        ce_delivered_at = None, ce_last_error = None, ce_created_at = now\<rparr>"
    define s1 where "s1 = s\<lparr>cs_projection_version := cs_projection_version s + 1,
        cs_desired_operational_status := Some status, cs_desired_actions := unique_in_order actions,
        cs_last_event_id := Some (ce_event_id row), cs_sync_status := ''pending'', cs_last_error := None\<rparr>"
    define db2 where "db2 = db1\<lparr>next_ride_id := Suc (next_ride_id db1), capability_events := capability_events db1 @ [row],
        capability_states := put_row cs_user_id u s1 (capability_states db1)\<rparr>"
    have "insert_row capability_clash row (capability_events db1) = Inr (capability_events db1 @ [row])"
      by (rule no_capability_clash [OF st(1) _ s]) (use room in \<open>simp_all add: row_def next1 st(3)\<close>)
    then have ins: "insert_row capability_clash row (capability_events (snd (fresh_id db1))) = Inr (capability_events db1 @ [row])"
      by (simp add: fresh_id_def)
    have run: "enqueue u status actions request_id now db = Inr (Some row, db2)"
      unfolding enqueue_def eq Let_def prod.case if_not_P [OF False] fresh_id_def next1
      by (use ins in \<open>simp add: fresh_id_def next1 s1_def db2_def put_state_def st(3) row_def\<close>)
    have key: "cs_user_id s1 = u" by (simp add: s1_def st(3))
    have got: "get_row cs_user_id u (put_row cs_user_id u s1 (capability_states db1)) = Some s1"
      by (rule get_put_same [OF st(2) key])
    have "outbox_ok db2"
      unfolding outbox_ok_def
    proof (intro conjI ballI)
      show "distinct (map cs_user_id (capability_states db2))"
        using st(1) key by (simp add: db2_def map_put_row outbox_ok_def)
    next
      fix e assume "e \<in> set (capability_events db2)"
      then consider "e \<in> set (capability_events db1)" | "e = row" by (auto simp: db2_def)
      note cases = this
      show "ce_id e < next_ride_id db2"
        using cases st(1) by cases (auto simp: db2_def row_def next1 outbox_ok_def less_Suc_eq)
      show "\<exists>u v. ce_event_id e = event_id_of u v (ce_id e)"
        using cases st(1) by cases (auto simp: row_def outbox_ok_def)
      show "\<exists>x \<in> set (capability_states db2). cs_user_id x = ce_user_id e \<and> ce_projection_version e \<le> cs_projection_version x"
        using cases
      proof cases
        case 2
        then show ?thesis using get_row_Some [OF got] key by (auto simp: db2_def row_def s1_def intro!: bexI [of _ s1])
      next
        case 1
        with st(1) obtain x where x: "x \<in> set (capability_states db1)" "cs_user_id x = ce_user_id e"
          "ce_projection_version e \<le> cs_projection_version x" unfolding outbox_ok_def by blast
        show ?thesis
        proof (cases "cs_user_id x = u")
          case True
          with st(1) s st(3) x(1) have "x = s" unfolding outbox_ok_def by (metis distinct_map inj_onD)
          then show ?thesis using get_row_Some [OF got] x key by (auto simp: db2_def s1_def intro!: bexI [of _ s1])
        next
          case False
          then have "x \<in> set (put_row cs_user_id u s1 (capability_states db1))"
            using x(1) by (auto simp: put_row_def image_iff intro!: bexI [of _ x])
          then show ?thesis using x by (auto simp: db2_def)
        qed
      qed
    qed
    moreover have "desired u db2 = Some (Some status, unique_in_order actions)"
      using got by (simp add: desired_def db2_def s1_def)
    moreover have "\<forall>u'. u' \<noteq> u \<longrightarrow> desired u' db2 = desired u' db"
      using st(4) get_put_other [of cs_user_id s1 u] key by (simp add: desired_def db2_def)
    moreover have "next_ride_id db2 \<le> Suc (next_ride_id db)" by (simp add: db2_def next1)
    ultimately show thesis using that run by blast
  qed
qed


section \<open>Reconciliation\<close>

text \<open>The pages of the worker are the profiles, each once.\<close>

lemma all_candidates_pages:
  assumes "0 < batch"
  shows "all_candidates batch off db = Some (map (candidate_of db) (drop off (sort_key dp_user_id (profiles db))))"
proof (induction "length (profiles db) - off" arbitrary: off rule: less_induct)
  case less
  let ?rows = "drop off (sort_key dp_user_id (profiles db))"
  show ?case
  proof (cases "length ?rows < batch")
    case True
    then have "list_candidates batch off db = map (candidate_of db) ?rows" by (simp add: list_candidates_def)
    with True show ?thesis by (subst all_candidates.simps) (simp add: Let_def)
  next
    case False
    then have len: "length (list_candidates batch off db) = batch" by (simp add: list_candidates_def)
    have "all_candidates batch (off + batch) db
      = Some (map (candidate_of db) (drop (off + batch) (sort_key dp_user_id (profiles db))))"
      using False assms by (intro less) simp
    then show ?thesis
      by (subst all_candidates.simps) (simp add: Let_def len list_candidates_def add.commute
          flip: map_append drop_drop)
  qed
qed

text \<open>What the services and the worker publish of a driver is the same.\<close>

lemma candidate_status_of: "candidate_status (candidate_of db p) = operational_status p (newest_vehicle (dp_id p) db)"
proof (cases "newest_vehicle (dp_id p) db")
  case None
  then show ?thesis
    by (cases "dp_kyc_status p"; cases "dp_status p") (simp_all add: candidate_status_def candidate_of_def operational_status_def)
next
  case (Some v)
  then show ?thesis
    by (cases "dp_kyc_status p"; cases "dp_status p"; cases "ve_verification_status v")
      (simp_all add: candidate_status_def candidate_of_def operational_status_def Let_def)
qed

definition shown_status :: "(uuid \<Rightarrow> bool) \<Rightarrow> driver_profile \<Rightarrow> ride_db \<Rightarrow> string \<times> string list" where
  "shown_status online p db =
     (let status = operational_status p (newest_vehicle (dp_id p) db)
      in if fst status = ''offline'' \<and> online (dp_user_id p) then (''online'', [''go_offline'']) else status)"

lemma one_action: "\<exists>a. snd (shown_status online p db) = [a]"
  by (auto simp: shown_status_def operational_status_def Let_def split: option.splits)

lemma reconcile_one_ok:
  assumes "outbox_ok db" and "next_ride_id db < 2 ^ 128"
  obtains n' db' where "reconcile_one online now (candidate_of db0 p) (n, db) = Inr (n', db')"
    and "outbox_ok db'" and "next_ride_id db' \<le> Suc (next_ride_id db)"
    and "desired (dp_user_id p) db' = Some (Some (fst (shown_status online p db0)), snd (shown_status online p db0))"
    and "\<forall>u. u \<noteq> dp_user_id p \<longrightarrow> desired u db' = desired u db"
proof -
  let ?s = "shown_status online p db0"
  have user: "pc_user_id (candidate_of db0 p) = dp_user_id p" by (simp add: candidate_of_def Let_def)
  obtain ev db' where e: "enqueue (dp_user_id p) (fst ?s) (snd ?s) (Some ''capability-reconciliation'') now db = Inr (ev, db')"
    "outbox_ok db'" "next_ride_id db' \<le> Suc (next_ride_id db)"
    "desired (dp_user_id p) db' = Some (Some (fst ?s), unique_in_order (snd ?s))"
    "\<forall>u. u \<noteq> dp_user_id p \<longrightarrow> desired u db' = desired u db"
    by (rule enqueue_ok [OF assms])
  have "unique_in_order (snd ?s) = snd ?s" using one_action [of online p db0] by (auto simp: unique_in_order_def)
  moreover have "reconcile_one online now (candidate_of db0 p) (n, db) = Inr (if ev = None then n else Suc n, db')"
    using e(1) by (simp add: reconcile_one_def candidate_status_of user shown_status_def Let_def)
  ultimately show thesis using that e by simp
qed

lemma reconcile_each:
  "outbox_ok db \<Longrightarrow> next_ride_id db + length ps \<le> 2 ^ 128 \<Longrightarrow> distinct (map dp_user_id ps) \<Longrightarrow>
     \<exists>n' db'. foldR (reconcile_one online now) (map (candidate_of db0) ps) (n, db) = Inr (n', db') \<and> outbox_ok db'
       \<and> (\<forall>p \<in> set ps. desired (dp_user_id p) db'
            = Some (Some (fst (shown_status online p db0)), snd (shown_status online p db0)))
       \<and> (\<forall>u. u \<notin> dp_user_id ` set ps \<longrightarrow> desired u db' = desired u db)"
proof (induction ps arbitrary: n db)
  case (Cons p ps)
  then have room: "next_ride_id db < 2 ^ 128" by simp
  obtain n1 db1 where one: "reconcile_one online now (candidate_of db0 p) (n, db) = Inr (n1, db1)" "outbox_ok db1"
    "next_ride_id db1 \<le> Suc (next_ride_id db)"
    "desired (dp_user_id p) db1 = Some (Some (fst (shown_status online p db0)), snd (shown_status online p db0))"
    "\<forall>u. u \<noteq> dp_user_id p \<longrightarrow> desired u db1 = desired u db"
    by (rule reconcile_one_ok [OF Cons.prems(1) room])
  from one(3) Cons.prems(2) have room1: "next_ride_id db1 + length ps \<le> 2 ^ 128" by simp
  have dist: "distinct (map dp_user_id ps)" using Cons.prems(3) by simp
  from Cons.IH [OF one(2) room1 dist, of n1] obtain n2 db2 where
    rest: "foldR (reconcile_one online now) (map (candidate_of db0) ps) (n1, db1) = Inr (n2, db2)" "outbox_ok db2"
      "\<forall>q \<in> set ps. desired (dp_user_id q) db2
         = Some (Some (fst (shown_status online q db0)), snd (shown_status online q db0))"
      "\<forall>u. u \<notin> dp_user_id ` set ps \<longrightarrow> desired u db2 = desired u db1"
    by blast
  have "dp_user_id p \<notin> dp_user_id ` set ps" using Cons.prems(3) by simp
  then show ?case using one rest by auto
qed auto


lemma distinct_map_sub:
  "distinct (map f rs) \<Longrightarrow> distinct xs \<Longrightarrow> set xs \<subseteq> set rs \<Longrightarrow> distinct (map f xs)"
  by (auto simp: distinct_map intro: inj_on_subset)

lemma get_row_mem: "distinct (map key rs) \<Longrightarrow> r \<in> set rs \<Longrightarrow> get_row key (key r) rs = Some r"
  by (induction rs) (auto simp: rev_image_eqI)

text \<open>Sending an event again keeps what is desired.\<close>

lemma refresh_states_ok:
  "outbox_ok db \<Longrightarrow> distinct (map cs_user_id ss) \<Longrightarrow>
     \<forall>s \<in> set ss. get_row cs_user_id (cs_user_id s) (capability_states db) = Some s \<Longrightarrow>
     outbox_ok (snd (refresh_states now ss (n, db)))
     \<and> (\<forall>u. desired u (snd (refresh_states now ss (n, db))) = desired u db)"
proof (induction ss arbitrary: n db)
  case (Cons s ss)
  show ?case
  proof (cases "find (\<lambda>e. Some (ce_event_id e) = cs_last_event_id s) (capability_events db)")
    case None
    then show ?thesis using Cons by simp
  next
    case (Some row)
    define s1 where "s1 = s\<lparr>cs_sync_status := ''pending'', cs_next_refresh_at := Some now\<rparr>"
    define row1 where "row1 = row\<lparr>ce_status := ''pending'', ce_next_attempt_at := now\<rparr>"
    define db1 where "db1 = put_state s1 (put_event row1 db)"
    have run: "refresh_states now (s # ss) (n, db) = refresh_states now ss (Suc n, db1)"
      by (simp add: Some db1_def s1_def row1_def)
    have states: "capability_states db1 = put_row cs_user_id (cs_user_id s) s1 (capability_states db)"
      and events: "capability_events db1 = put_row ce_id (ce_id row) row1 (capability_events db)"
      and next1: "next_ride_id db1 = next_ride_id db"
      by (simp_all add: db1_def put_state_def put_event_def s1_def row1_def)
    have key: "cs_user_id s1 = cs_user_id s" by (simp add: s1_def)
    from Cons.prems(3) have got: "get_row cs_user_id (cs_user_id s) (capability_states db) = Some s" by simp
    note got1 = get_put_same [OF got key]
    from Some have row: "row \<in> set (capability_events db)" by (auto simp: find_Some_iff)
    have same: "desired u db1 = desired u db" for u
      using got got1 get_put_other [of cs_user_id s1 "cs_user_id s" u "capability_states db"] key
      by (cases "u = cs_user_id s") (simp_all add: desired_def states s1_def)
    have "outbox_ok db1"
      unfolding outbox_ok_def
    proof (intro conjI ballI)
      show "distinct (map cs_user_id (capability_states db1))"
        using Cons.prems(1) key by (simp add: states map_put_row outbox_ok_def)
    next
      fix e assume "e \<in> set (capability_events db1)"
      then obtain e0 where e0: "e0 \<in> set (capability_events db)" "ce_id e = ce_id e0" "ce_event_id e = ce_event_id e0"
        "ce_user_id e = ce_user_id e0" "ce_projection_version e = ce_projection_version e0"
        unfolding events using row by (auto simp: row1_def dest!: set_put_rowD)
      then show "ce_id e < next_ride_id db1" "\<exists>u v. ce_event_id e = event_id_of u v (ce_id e)"
        using Cons.prems(1) by (auto simp: outbox_ok_def next1)
      from e0 Cons.prems(1) obtain x where x: "x \<in> set (capability_states db)" "cs_user_id x = ce_user_id e"
        "ce_projection_version e \<le> cs_projection_version x" unfolding outbox_ok_def by metis
      show "\<exists>x \<in> set (capability_states db1). cs_user_id x = ce_user_id e \<and> ce_projection_version e \<le> cs_projection_version x"
      proof (cases "cs_user_id x = cs_user_id s")
        case True
        with Cons.prems(1) x(1) get_row_Some [OF got] have "x = s" unfolding outbox_ok_def by (metis distinct_map inj_onD)
        then show ?thesis using get_row_Some [OF got1] x key by (auto simp: states s1_def intro!: bexI [of _ s1])
      next
        case False
        then have "x \<in> set (capability_states db1)" using x(1) by (auto simp: states put_row_def image_iff intro!: bexI [of _ x])
        then show ?thesis using x by auto
      qed
    qed
    moreover have "\<forall>t \<in> set ss. get_row cs_user_id (cs_user_id t) (capability_states db1) = Some t"
    proof
      fix t assume t: "t \<in> set ss"
      then have "cs_user_id t \<noteq> cs_user_id s" using Cons.prems(2) by (metis distinct.simps(2) image_eqI list.map(2) set_map)
      then show "get_row cs_user_id (cs_user_id t) (capability_states db1) = Some t"
        using get_put_other [of cs_user_id s1 "cs_user_id s" "cs_user_id t"] key Cons.prems(3) t by (simp add: states)
    qed
    ultimately show ?thesis unfolding run using Cons.IH [of db1 "Suc n"] Cons.prems(2) same by simp
  qed
qed simp

lemma schedule_stale_refresh_ok:
  assumes "outbox_ok db"
  shows "outbox_ok (snd (schedule_stale_refresh before now limit db))
    \<and> (\<forall>u. desired u (snd (schedule_stale_refresh before now limit db)) = desired u db)"
proof -
  have dist: "distinct (map cs_user_id (capability_states db))" using assms by (simp add: outbox_ok_def)
  have sub: "set (stale_states before limit db) \<subseteq> set (capability_states db)"
    unfolding stale_states_def by (auto dest!: in_set_takeD)
  have "distinct (stale_states before limit db)"
    using dist unfolding stale_states_def by (simp add: distinct_map distinct_take)
  then have d: "distinct (map cs_user_id (stale_states before limit db))"
    by (rule distinct_map_sub [OF dist _ sub])
  from sub have "\<forall>s \<in> set (stale_states before limit db). get_row cs_user_id (cs_user_id s) (capability_states db) = Some s"
    using get_row_mem [OF dist] by blast
  from refresh_states_ok [OF assms d this, of now 0] show ?thesis by (simp add: schedule_stale_refresh_def)
qed

end
