(* ===== verification/S2S_Commands.thy ===== *)
theory S2S_Commands
  imports Auth_Service
begin

text \<open>
  Commands between services: core/s2s\_command\_store.py (an answer per idempotency key in Redis) and the
  audit trail of modules/audit. \<open>s2s_command\<close> is the frame that every handler of the backoffice puts around
  a service call: reserve the key, run, record, commit, keep the answer; a raise rolls the tables back and
  frees the key. The fingerprint of a payload (SHA-256 of its JSON) is a parameter.
\<close>

section \<open>The store\<close>

text \<open>Under a key: the fingerprint, the answer once done, and the expiry.\<close>

record command_entry =
  cd_fingerprint :: string
  cd_response :: "view option"
  cd_expires_at :: datetime

type_synonym command_store = "string \<Rightarrow> command_entry option"

definition live_entry :: "datetime \<Rightarrow> string \<Rightarrow> command_store \<Rightarrow> command_entry option" where
  "live_entry now k s = (case s k of None \<Rightarrow> None | Some e \<Rightarrow> if now < cd_expires_at e then Some e else None)"

definition command_key :: "string \<Rightarrow> string \<Rightarrow> string \<Rightarrow> string" where
  "command_key namespace client_id idempotency_key =
     ''diddigo:'' @ namespace @ '':'' @ client_id @ '':'' @ idempotency_key"

record reservation =
  rv_redis_key :: string
  rv_fingerprint :: string
  rv_cached_response :: "view option"

definition reserve_command ::
  "string \<Rightarrow> string \<Rightarrow> int \<Rightarrow> datetime \<Rightarrow> command_store \<Rightarrow> exn + reservation \<times> command_store" where
  "reserve_command k fingerprint ttl now s =
     (case live_entry now k s of
        None \<Rightarrow> Inr (\<lparr>rv_redis_key = k, rv_fingerprint = fingerprint, rv_cached_response = None\<rparr>,
          s(k \<mapsto> \<lparr>cd_fingerprint = fingerprint, cd_response = None, cd_expires_at = now + seconds ttl\<rparr>))
      | Some e \<Rightarrow>
        if cd_fingerprint e \<noteq> fingerprint then Inl (ApiError 409 ''IDEMPOTENCY_CONFLICT'')
        else if cd_response e = None then Inl (ApiError 409 ''IDEMPOTENCY_IN_PROGRESS'')
        else Inr (\<lparr>rv_redis_key = k, rv_fingerprint = fingerprint, rv_cached_response = cd_response e\<rparr>, s))"

definition complete_command :: "reservation \<Rightarrow> view \<Rightarrow> int \<Rightarrow> datetime \<Rightarrow> command_store \<Rightarrow> command_store" where
  "complete_command r response ttl now s = s(rv_redis_key r \<mapsto> \<lparr>cd_fingerprint = rv_fingerprint r,
     cd_response = Some response, cd_expires_at = now + seconds ttl\<rparr>)"

definition release_command :: "reservation \<Rightarrow> command_store \<Rightarrow> command_store" where
  "release_command r s = s(rv_redis_key r := None)"

section \<open>The audit trail\<close>

record audit_event =
  ae_client_id :: string
  ae_service_subject :: string
  ae_actor_user_id :: uuid
  ae_action :: string
  ae_target_type :: string
  ae_target_id :: uuid
  ae_request_id :: uuid
  ae_idempotency_key :: string
  ae_outcome :: string
  ae_reason :: "string option"
  ae_context :: view
  ae_created_at :: datetime

text \<open>One row per client, action and key; a second one is dropped.\<close>

definition audit_key :: "audit_event \<Rightarrow> string \<times> string \<times> string" where
  "audit_key e = (ae_client_id e, ae_action e, ae_idempotency_key e)"

definition record_audit :: "audit_event \<Rightarrow> audit_event list \<Rightarrow> audit_event list" where
  "record_audit e rows = snd (insert_do_nothing audit_key e rows)"

section \<open>The frame\<close>

record 'db office =
  oc_commands :: command_store
  oc_audit :: "audit_event list"
  oc_db :: 'db

text \<open>The headers of a call and the guards of every write: a service token with the scope and an admin.\<close>

record s2s_call =
  sc_token :: "string option"
  sc_client :: "string option"
  sc_backoffice_actor :: "uuid option"
  sc_actor :: "uuid option"
  sc_request_id :: uuid
  sc_idempotency_key :: string

definition authorized ::
  "auth_env \<Rightarrow> string \<Rightarrow> s2s_call \<Rightarrow> datetime \<Rightarrow> auth_db \<Rightarrow> exn + claims \<times> user" where
  "authorized env scope c now db =
     bindR (require_backoffice_service_token env scope (sc_token c) (sc_client c) now) (\<lambda>claims.
     bindR (require_s2s_admin_actor (sc_backoffice_actor c) (sc_actor c) db) (\<lambda>actor. Inr (claims, actor)))"

text \<open>What an event says of the command, before and after its result is known.\<close>

record command_log =
  cl_action :: string
  cl_target_type :: string
  cl_target :: "view \<Rightarrow> exn + uuid"
  cl_reason :: string
  cl_context :: "view \<Rightarrow> view"

definition audit_of ::
  "s2s_call \<Rightarrow> claims \<Rightarrow> user \<Rightarrow> command_log \<Rightarrow> datetime \<Rightarrow> uuid \<Rightarrow> view \<Rightarrow> audit_event" where
  "audit_of c claims actor entry now target result = \<lparr>ae_client_id = str_or (sc_client c) [],
     ae_service_subject = (if truthy (jget claims ''sub'') then py_str (jget claims ''sub'') else []),
     ae_actor_user_id = us_id actor, ae_action = cl_action entry, ae_target_type = cl_target_type entry,
     ae_target_id = target, ae_request_id = sc_request_id c, ae_idempotency_key = sc_idempotency_key c,
     ae_outcome = ''completed'', ae_reason = Some (cl_reason entry), ae_context = cl_context entry result,
     ae_created_at = now\<rparr>"

definition s2s_command ::
  "(view \<Rightarrow> string) \<Rightarrow> string \<Rightarrow> int \<Rightarrow> s2s_call \<Rightarrow> claims \<Rightarrow> user \<Rightarrow> view \<Rightarrow> command_log
    \<Rightarrow> ('db \<Rightarrow> exn + view \<times> 'db) \<Rightarrow> datetime \<Rightarrow> 'db office \<Rightarrow> (exn + view) \<times> 'db office" where
  "s2s_command fingerprint namespace ttl c claims actor payload entry run now w =
     (case reserve_command (command_key namespace (str_or (sc_client c) []) (sc_idempotency_key c))
         (fingerprint payload) ttl now (oc_commands w) of
        Inl e \<Rightarrow> (Inl e, w)
      | Inr (r, store1) \<Rightarrow>
        case rv_cached_response r of
          Some response \<Rightarrow> (Inr response, w)
        | None \<Rightarrow>
          case bindR (run (oc_db w)) (\<lambda>(result, db1).
               bindR (cl_target entry result) (\<lambda>target. Inr (result, target, db1))) of
            Inl e \<Rightarrow> (Inl e, w\<lparr>oc_commands := release_command r store1\<rparr>)
          | Inr (result, target, db1) \<Rightarrow> (Inr result, w\<lparr>
              oc_commands := complete_command r result ttl now store1,
              oc_audit := record_audit (audit_of c claims actor entry now target result) (oc_audit w),
              oc_db := db1\<rparr>))"

section \<open>What the frame promises\<close>

lemma live_entry_upd [simp]: "live_entry now k (s(k := x)) =
    (case x of None \<Rightarrow> None | Some e \<Rightarrow> if now < cd_expires_at e then Some e else None)"
  by (simp add: live_entry_def)

text \<open>A command that went through is answered from the store while its entry lives.\<close>

lemma command_replay:
  assumes ok: "s2s_command fp ns ttl c claims actor payload entry run now w = (Inr result, w')"
    and free: "live_entry now (command_key ns (str_or (sc_client c) []) (sc_idempotency_key c)) (oc_commands w) = None"
    and same: "fp payload' = fp payload"
      "command_key ns' (str_or (sc_client c') []) (sc_idempotency_key c')
        = command_key ns (str_or (sc_client c) []) (sc_idempotency_key c)"
    and lives: "later < now + seconds ttl"
  shows "s2s_command fp ns' ttl' c' claims' actor' payload' entry' run' later w' = (Inr result, w')"
  using ok free lives
  by (auto simp: s2s_command_def reserve_command_def same complete_command_def bindR_def
      split: sum.splits prod.splits if_splits)

text \<open>A command that failed leaves tables and trail alone and its key free.\<close>

lemma command_failed:
  assumes "s2s_command fp ns ttl c claims actor payload entry run now w = (Inl e, w')"
  shows "oc_db w' = oc_db w" and "oc_audit w' = oc_audit w"
    and "live_entry now (command_key ns (str_or (sc_client c) []) (sc_idempotency_key c)) (oc_commands w) = None
      \<Longrightarrow> live_entry now k (oc_commands w') = live_entry now k (oc_commands w)"
  using assms
  by (auto simp: s2s_command_def reserve_command_def release_command_def live_entry_def bindR_def
      split: sum.splits prod.splits if_splits option.splits)

lemma command_runs:
  assumes "live_entry now (command_key ns (str_or (sc_client c) []) (sc_idempotency_key c)) (oc_commands w) = None"
    and "run (oc_db w) = Inr (result, db1)" and "cl_target entry result = Inr target"
  shows "\<exists>w'. s2s_command fp ns ttl c claims actor payload entry run now w = (Inr result, w') \<and> oc_db w' = db1
    \<and> oc_audit w' = record_audit (audit_of c claims actor entry now target result) (oc_audit w)"
  using assms by (auto simp: s2s_command_def reserve_command_def bindR_def)

end
