(* ===== verification/Backoffice.thy ===== *)
theory Backoffice
  imports S2S_Commands Driver_Online
begin

text \<open>
  The commands of the backoffice: ride/application/driver\_provisioning\_service.py,
  ride/presentation/driver\_internal\_router.py and kyc\_internal\_router.py, and
  partner/presentation/internal\_router.py. A handler checks the service token and the acting admin, then
  runs one service call in the frame of S2S\_Commands. The notes and lists of a request are well formed
  (its schema).
\<close>

record registry =
  ry_auth :: auth_db
  ry_fleet :: fleet

record back_env =
  be_auth :: auth_env
  be_driver :: driver_env
  be_fingerprint :: "view \<Rightarrow> string"
  be_kyc_ttl :: int
  be_provisioning_ttl :: int

definition vget :: "string \<Rightarrow> view \<Rightarrow> view" where
  "vget k v = (case v of VObj items \<Rightarrow> (case map_of items k of None \<Rightarrow> VNone | Some x \<Rightarrow> x) | _ \<Rightarrow> VNone)"

text \<open>A service call on the tables of rides, or on the tables of partners.\<close>

definition on_rides :: "(ride_db \<Rightarrow> exn + view \<times> ride_db) \<Rightarrow> registry \<Rightarrow> exn + view \<times> registry" where
  "on_rides f g = bindR (f (fleet_rides (ry_fleet g))) (\<lambda>(result, db1).
     Inr (result, g\<lparr>ry_fleet := (ry_fleet g)\<lparr>fleet_rides := db1\<rparr>\<rparr>))"

definition on_fleet :: "(fleet \<Rightarrow> exn + view \<times> fleet) \<Rightarrow> registry \<Rightarrow> exn + view \<times> registry" where
  "on_fleet f g = bindR (f (ry_fleet g)) (\<lambda>(result, fl1). Inr (result, g\<lparr>ry_fleet := fl1\<rparr>))"

section \<open>Decisions on a KYC file\<close>

definition decision_view :: "document_decision \<Rightarrow> view" where
  "decision_view d = VObj [(''document_type'', vopt VStr (dd_document_type d)), (''decision'', vopt VStr (dd_decision d)),
     (''reason_code'', vopt VStr (dd_reason_code d)), (''reason'', vopt VStr (dd_reason d)),
     (''expected_correction'', vopt VStr (dd_expected_correction d))]"

definition decision_payload ::
  "string \<Rightarrow> string \<Rightarrow> uuid \<Rightarrow> user \<Rightarrow> string option \<Rightarrow> document_decision list \<Rightarrow> view" where
  "decision_payload decision target_key target actor notes documents = VObj [
     (''decision'', VStr decision), (target_key, vid target), (''actor_user_id'', vid (us_id actor)),
     (''notes'', vopt VStr notes), (''documents'', VList (map decision_view documents))]"

definition or_text :: "string option \<Rightarrow> string \<Rightarrow> string" where
  "or_text x d = (if str_or x [] = [] then d else str_or x [])"

definition decide ::
  "back_env \<Rightarrow> string \<Rightarrow> uuid \<Rightarrow> string option \<Rightarrow> document_decision list \<Rightarrow> s2s_call \<Rightarrow> claims \<Rightarrow> user
    \<Rightarrow> datetime \<Rightarrow> registry office \<Rightarrow> (exn + view) \<times> registry office" where
  "decide env decision driver_id notes documents c claims actor now =
     s2s_command (be_fingerprint env) ''kyc-command'' (be_kyc_ttl env) c claims actor
       (decision_payload decision ''driver_id'' driver_id actor notes documents)
       \<lparr>cl_action = ''driver.kyc.'' @ decision, cl_target_type = ''driver_profile'', cl_target = (\<lambda>_. Inr driver_id),
         cl_reason = or_text notes ''backoffice_kyc_decision'',
         cl_context = (\<lambda>result. VObj [(''result_status'', vget ''status'' result)])\<rparr>
       (on_rides ((if decision = ''approve'' then approve_kyc else reject_kyc)
          (be_driver env) driver_id (us_id actor) notes documents now)) now"

definition decide_vehicle ::
  "back_env \<Rightarrow> string \<Rightarrow> uuid \<Rightarrow> string option \<Rightarrow> document_decision list \<Rightarrow> s2s_call \<Rightarrow> claims \<Rightarrow> user
    \<Rightarrow> datetime \<Rightarrow> registry office \<Rightarrow> (exn + view) \<times> registry office" where
  "decide_vehicle env decision vehicle_id notes documents c claims actor now =
     s2s_command (be_fingerprint env) ''kyc-command'' (be_kyc_ttl env) c claims actor
       (decision_payload decision ''vehicle_id'' vehicle_id actor notes documents)
       \<lparr>cl_action = ''vehicle.kyv.'' @ decision, cl_target_type = ''vehicle'', cl_target = (\<lambda>_. Inr vehicle_id),
         cl_reason = or_text notes ''backoffice_kyv_decision'',
         cl_context = (\<lambda>result. VObj [(''result_status'', vget ''verification_status'' result)])\<rparr>
       (on_rides ((if decision = ''approve'' then approve_vehicle_kyv else reject_vehicle_kyv)
          (be_driver env) vehicle_id (us_id actor) notes documents now)) now"

text \<open>The guards of a handler in front of its command.\<close>

definition guarded ::
  "back_env \<Rightarrow> string \<Rightarrow> s2s_call \<Rightarrow> datetime
    \<Rightarrow> (claims \<Rightarrow> user \<Rightarrow> registry office \<Rightarrow> (exn + view) \<times> registry office)
    \<Rightarrow> registry office \<Rightarrow> (exn + view) \<times> registry office" where
  "guarded env scope c now command w =
     (case authorized (be_auth env) scope c now (ry_auth (oc_db w)) of
        Inl e \<Rightarrow> (Inl e, w)
      | Inr (claims, actor) \<Rightarrow> command claims actor w)"

text \<open>
  The schemas, looked at after the guards: an approval brings approved decisions only, a rejection at
  least one rejection.
\<close>

definition decisions_fit :: "string \<Rightarrow> document_decision list \<Rightarrow> bool" where
  "decisions_fit decision documents =
     (if decision = ''approve'' then list_all (\<lambda>d. dd_decision d = Some ''approved'') documents
      else list_ex (\<lambda>d. dd_decision d = Some ''rejected'') documents)"

definition handle_driver_decision ::
  "back_env \<Rightarrow> string \<Rightarrow> uuid \<Rightarrow> string option \<Rightarrow> document_decision list \<Rightarrow> s2s_call \<Rightarrow> datetime
    \<Rightarrow> registry office \<Rightarrow> (exn + view) \<times> registry office" where
  "handle_driver_decision env decision driver_id notes documents c now w =
     guarded env ''diddigo:kyc:decide'' c now (\<lambda>claims actor w.
       if \<not> decisions_fit decision documents then (Inl (ApiError 422 ''VALIDATION_ERROR''), w)
       else decide env decision driver_id notes documents c claims actor now w) w"

definition handle_vehicle_decision ::
  "back_env \<Rightarrow> string \<Rightarrow> uuid \<Rightarrow> string option \<Rightarrow> document_decision list \<Rightarrow> s2s_call \<Rightarrow> datetime
    \<Rightarrow> registry office \<Rightarrow> (exn + view) \<times> registry office" where
  "handle_vehicle_decision env decision vehicle_id notes documents c now w =
     guarded env ''diddigo:kyc:decide'' c now (\<lambda>claims actor w.
       if \<not> decisions_fit decision documents then (Inl (ApiError 422 ''VALIDATION_ERROR''), w)
       else decide_vehicle env decision vehicle_id notes documents c claims actor now w) w"

section \<open>Provisioning a driver\<close>

text \<open>The fields of a provisioning request as the schema dumps them, every one of them.\<close>

definition requested_profile :: "string \<Rightarrow> kyc_submission \<Rightarrow> (string \<times> view) list" where
  "requested_profile license_number s = [
     (''license_number'', VStr license_number), (''legal_name'', vopt VStr (ks_legal_name s)),
     (''birth_date'', vopt VAt (ks_birth_date s)), (''residence_address'', vopt VStr (ks_residence_address s)),
     (''license_document_file_id'', vfile (ks_license_document s)),
     (''license_back_document_file_id'', vfile (ks_license_back_document s)),
     (''national_id_document_file_id'', vfile (ks_national_id_document s)),
     (''national_id_back_document_file_id'', vfile (ks_national_id_back_document s)),
     (''selfie_document_file_id'', vfile (ks_selfie_document s)),
     (''profile_photo_file_id'', vopt vid (ks_profile_photo_file_id s)),
     (''license_document_url'', vlink (ks_license_document s)),
     (''license_back_document_url'', vlink (ks_license_back_document s)),
     (''national_id_document_url'', vlink (ks_national_id_document s)),
     (''national_id_back_document_url'', vlink (ks_national_id_back_document s)),
     (''selfie_document_url'', vlink (ks_selfie_document s)),
     (''license_expires_at'', vopt VAt (ks_license_expires_at s)),
     (''national_id_expires_at'', vopt VAt (ks_national_id_expires_at s))]"

definition current_profile :: "view \<Rightarrow> (string \<times> view) list" where
  "current_profile profile =
     (let kyc = vget ''kyc'' profile in
      (''license_number'', vget ''license_number'' profile)
      # map (\<lambda>k. (k, vget k kyc)) [''legal_name'', ''birth_date'', ''residence_address'',
          ''license_document_file_id'', ''license_back_document_file_id'', ''national_id_document_file_id'',
          ''national_id_back_document_file_id'', ''selfie_document_file_id'']
      @ (''profile_photo_file_id'', vget ''profile_photo_file_id'' profile)
      # map (\<lambda>k. (k, vget k kyc)) [''license_document_url'', ''license_back_document_url'',
          ''national_id_document_url'', ''national_id_back_document_url'', ''selfie_document_url''])"

text \<open>\<open>==\<close> of two dicts.\<close>

definition same_dict :: "('k \<times> 'v) list \<Rightarrow> ('k \<times> 'v) list \<Rightarrow> bool" where
  "same_dict a b \<longleftrightarrow> set (map fst a) = set (map fst b)
     \<and> list_all (\<lambda>k. map_of a k = map_of b k) (map fst a)"

definition matches_requested_profile :: "view \<Rightarrow> (string \<times> view) list \<Rightarrow> bool" where
  "matches_requested_profile profile requested = same_dict (current_profile profile) requested"

definition provision ::
  "driver_env \<Rightarrow> uuid \<Rightarrow> string option \<Rightarrow> string \<Rightarrow> kyc_submission \<Rightarrow> datetime \<Rightarrow> registry
    \<Rightarrow> exn + view \<times> registry" where
  "provision env user_id full_name license_number s now g =
     (let u = find_user user_id (ry_auth g); rides0 = fleet_rides (ry_fleet g) in
      if (case u of None \<Rightarrow> False | Some x \<Rightarrow> us_status x \<noteq> US_ACTIVE) then Inl (ApiError 403 ''USER_SUSPENDED'')
      else if find_profile_by_user user_id rides0 \<noteq> None then
        bindR (get_profile user_id now rides0) (\<lambda>profile.
        if \<not> matches_requested_profile profile (requested_profile license_number s)
        then Inl (ApiError 409 ''DRIVER_PROVISIONING_CONFLICT'')
        else Inr (VObj [(''created'', VBool False), (''profile'', profile)], g))
      else
        bindR (if u = None
               then save_user (new_user user_id (shadow_phone user_id) UR_PASSENGER US_ACTIVE full_name) now (ry_auth g)
               else Inr (ry_auth g)) (\<lambda>auth1.
        bindR (on_rides (create_profile env user_id license_number s now) (g\<lparr>ry_auth := auth1\<rparr>)) (\<lambda>(profile, g1).
        Inr (VObj [(''created'', VBool True), (''profile'', profile)], g1))))"

definition handle_provision ::
  "back_env \<Rightarrow> uuid \<Rightarrow> string option \<Rightarrow> string \<Rightarrow> kyc_submission \<Rightarrow> s2s_call \<Rightarrow> datetime
    \<Rightarrow> registry office \<Rightarrow> (exn + view) \<times> registry office" where
  "handle_provision env user_id full_name license_number s c now =
     guarded env ''diddigo:drivers:write'' c now (\<lambda>claims actor.
       s2s_command (be_fingerprint env) ''driver-provision'' (be_provisioning_ttl env) c claims actor
         (VObj (requested_profile license_number s
            @ [(''user_id'', vid user_id), (''full_name'', vopt VStr full_name), (''actor_user_id'', vid (us_id actor))]))
         \<lparr>cl_action = ''driver.profile.provision'', cl_target_type = ''driver_identity'', cl_target = (\<lambda>_. Inr user_id),
           cl_reason = ''backoffice_driver_provisioning'',
           cl_context = (\<lambda>result. VObj [(''created'', vget ''created'' result),
             (''driver_id'', vget ''id'' (vget ''profile'' result))])\<rparr>
         (provision (be_driver env) user_id full_name license_number s now) now)"

definition handle_profile_photo ::
  "back_env \<Rightarrow> uuid \<Rightarrow> uuid \<Rightarrow> s2s_call \<Rightarrow> datetime \<Rightarrow> registry office \<Rightarrow> (exn + view) \<times> registry office" where
  "handle_profile_photo env driver_id file_id c now =
     guarded env ''diddigo:drivers:write'' c now (\<lambda>claims actor.
       s2s_command (be_fingerprint env) ''driver-profile'' (be_provisioning_ttl env) c claims actor
         (VObj [(''driver_id'', vid driver_id), (''profile_photo_file_id'', vid file_id),
            (''actor_user_id'', vid (us_id actor))])
         \<lparr>cl_action = ''driver.profile_photo.update'', cl_target_type = ''driver_profile'',
           cl_target = (\<lambda>_. Inr driver_id), cl_reason = ''backoffice_profile_photo_update'',
           cl_context = (\<lambda>_. VObj [(''file_id'', vid file_id)])\<rparr>
         (on_rides (update_profile_photo driver_id file_id now)) now)"

section \<open>Partners\<close>

text \<open>What the routes of partners can do, with their action names and the partner they act on.\<close>

datatype partner_command =
    PC_CREATE string string "string option" "string option" "string option" bool string rat partner_documents
  | PC_UPDATE uuid partner_update
  | PC_ACTIVATE uuid
  | PC_SUBMIT_KYC uuid partner_documents
  | PC_APPROVE_KYC uuid "string option"
  | PC_REJECT_KYC uuid "string option"
  | PC_SUSPEND uuid
  | PC_REJECT uuid
  | PC_ADD_MEMBER uuid uuid string
  | PC_DEACTIVATE_MEMBER uuid uuid
  | PC_AFFILIATE uuid uuid
  | PC_UNAFFILIATE uuid uuid
  | PC_CREATE_VEHICLE uuid uuid string "string option" "string option" "string option" string string vehicle_submission
  | PC_ASSIGN uuid uuid uuid
  | PC_UNASSIGN uuid uuid

fun partner_action :: "partner_command \<Rightarrow> string" where
  "partner_action (PC_CREATE _ _ _ _ _ _ _ _ _) = ''partner.create''"
| "partner_action (PC_UPDATE _ _) = ''partner.update''"
| "partner_action (PC_ACTIVATE _) = ''partner.activate''"
| "partner_action (PC_SUBMIT_KYC _ _) = ''partner.kyc.submit''"
| "partner_action (PC_APPROVE_KYC _ _) = ''partner.kyc.approve''"
| "partner_action (PC_REJECT_KYC _ _) = ''partner.kyc.reject''"
| "partner_action (PC_SUSPEND _) = ''partner.suspend''"
| "partner_action (PC_REJECT _) = ''partner.reject''"
| "partner_action (PC_ADD_MEMBER _ _ _) = ''partner.member.add''"
| "partner_action (PC_DEACTIVATE_MEMBER _ _) = ''partner.member.deactivate''"
| "partner_action (PC_AFFILIATE _ _) = ''partner.driver.affiliate''"
| "partner_action (PC_UNAFFILIATE _ _) = ''partner.driver.unaffiliate''"
| "partner_action (PC_CREATE_VEHICLE _ _ _ _ _ _ _ _ _) = ''partner.vehicle.create''"
| "partner_action (PC_ASSIGN _ _ _) = ''partner.vehicle.assign''"
| "partner_action (PC_UNASSIGN _ _) = ''partner.vehicle.unassign''"

fun command_partner :: "partner_command \<Rightarrow> uuid option" where
  "command_partner (PC_CREATE _ _ _ _ _ _ _ _ _) = None"
| "command_partner (PC_UPDATE p _) = Some p"
| "command_partner (PC_ACTIVATE p) = Some p"
| "command_partner (PC_SUBMIT_KYC p _) = Some p"
| "command_partner (PC_APPROVE_KYC p _) = Some p"
| "command_partner (PC_REJECT_KYC p _) = Some p"
| "command_partner (PC_SUSPEND p) = Some p"
| "command_partner (PC_REJECT p) = Some p"
| "command_partner (PC_ADD_MEMBER p _ _) = Some p"
| "command_partner (PC_DEACTIVATE_MEMBER p _) = Some p"
| "command_partner (PC_AFFILIATE p _) = Some p"
| "command_partner (PC_UNAFFILIATE p _) = Some p"
| "command_partner (PC_CREATE_VEHICLE p _ _ _ _ _ _ _ _) = Some p"
| "command_partner (PC_ASSIGN p _ _) = Some p"
| "command_partner (PC_UNASSIGN p _) = Some p"

fun run_partner :: "partner_command \<Rightarrow> uuid \<Rightarrow> datetime \<Rightarrow> fleet \<Rightarrow> exn + view \<times> fleet" where
  "run_partner (PC_CREATE name kind legal phone email on mode amount s) _ now =
     create_partner name kind legal phone email on mode amount s now"
| "run_partner (PC_UPDATE p u) _ now = update_partner p u now"
| "run_partner (PC_ACTIVATE p) _ now = activate_partner p now"
| "run_partner (PC_SUBMIT_KYC p s) _ now = submit_kyc p s now"
| "run_partner (PC_APPROVE_KYC p notes) actor now = partner_approve_kyc p actor notes now"
| "run_partner (PC_REJECT_KYC p notes) actor now = partner_reject_kyc p actor notes now"
| "run_partner (PC_SUSPEND p) _ now = suspend_partner p now"
| "run_partner (PC_REJECT p) _ now = reject_partner p now"
| "run_partner (PC_ADD_MEMBER p u role) _ now = add_member p u role now"
| "run_partner (PC_DEACTIVATE_MEMBER p m) _ now = deactivate_member p m now"
| "run_partner (PC_AFFILIATE p d) _ now = affiliate_driver p d now"
| "run_partner (PC_UNAFFILIATE p d) _ now = unaffiliate_driver p d now"
| "run_partner (PC_CREATE_VEHICLE p d plate brand model color category comfort s) _ now =
     partner_create_vehicle p d plate brand model color category comfort s now"
| "run_partner (PC_ASSIGN p v d) _ now = assign_vehicle p v d now"
| "run_partner (PC_UNASSIGN p v) _ now = unassign_vehicle p v now"

text \<open>The payload that \<open>_write\<close> hashes: no route of partners passes one of its own.\<close>

definition partner_write_payload :: "string \<Rightarrow> user \<Rightarrow> view" where
  "partner_write_payload action actor = VObj [(''action'', VStr action), (''actor_user_id'', vid (us_id actor))]"

definition resolved_target :: "uuid option \<Rightarrow> user \<Rightarrow> view \<Rightarrow> exn + uuid" where
  "resolved_target target actor result =
     (case target of
        Some t \<Rightarrow> Inr t
      | None \<Rightarrow> (case vget ''id'' result of
            VStr s \<Rightarrow> if s = [] then Inr (us_id actor)
              else (case uuid_parse s of None \<Rightarrow> Inl PyValueError | Some t \<Rightarrow> Inr t)
          | _ \<Rightarrow> Inr (us_id actor)))"

definition partner_write ::
  "back_env \<Rightarrow> partner_command \<Rightarrow> s2s_call \<Rightarrow> claims \<Rightarrow> user \<Rightarrow> datetime \<Rightarrow> registry office
    \<Rightarrow> (exn + view) \<times> registry office" where
  "partner_write env p c claims actor now =
     s2s_command (be_fingerprint env) ''partner-command'' (be_kyc_ttl env) c claims actor
       (partner_write_payload (partner_action p) actor)
       \<lparr>cl_action = partner_action p, cl_target_type = ''partner'',
         cl_target = resolved_target (command_partner p) actor, cl_reason = ''backoffice_partner_command'',
         cl_context = (\<lambda>result. VObj [(''result_status'', vget ''status'' result)])\<rparr>
       (on_fleet (run_partner p (us_id actor) now)) now"

definition handle_partner_command ::
  "back_env \<Rightarrow> partner_command \<Rightarrow> s2s_call \<Rightarrow> datetime \<Rightarrow> registry office \<Rightarrow> (exn + view) \<times> registry office" where
  "handle_partner_command env p c now =
     guarded env ''diddigo:partners:write'' c now (\<lambda>claims actor. partner_write env p c claims actor now)"

section \<open>The other routes of partners\<close>

datatype partner_query =
    PQ_LIST "string option" "string option" nat nat
  | PQ_PARTNER uuid
  | PQ_MEMBERS uuid
  | PQ_DRIVERS uuid

text \<open>The bounds of a page are those of the query parameters.\<close>

fun run_query :: "partner_query \<Rightarrow> fleet \<Rightarrow> exn + view" where
  "run_query (PQ_LIST status kind page page_size) db =
     (if page < 1 \<or> page_size < 1 \<or> 100 < page_size then Inl (ApiError 422 ''VALIDATION_ERROR'')
      else list_partners status kind page page_size db)"
| "run_query (PQ_PARTNER p) db = get_partner p db"
| "run_query (PQ_MEMBERS p) db = list_members p db"
| "run_query (PQ_DRIVERS p) db = list_drivers p db"

text \<open>A read of the backoffice needs the scope only.\<close>

definition handle_partner_read ::
  "back_env \<Rightarrow> partner_query \<Rightarrow> string option \<Rightarrow> string option \<Rightarrow> datetime \<Rightarrow> registry \<Rightarrow> exn + view" where
  "handle_partner_read env q token client now g =
     bindR (require_backoffice_service_token (be_auth env) ''diddigo:partners:read'' token client now) (\<lambda>_.
       run_query q (ry_fleet g))"

text \<open>An administrator of the service itself, with no key and no trail.\<close>

definition handle_partner_admin ::
  "back_env \<Rightarrow> partner_command \<Rightarrow> string option \<Rightarrow> datetime \<Rightarrow> registry \<Rightarrow> exn + view \<times> registry" where
  "handle_partner_admin env p token now g =
     bindR (require_role (be_auth env) [''admin''] token now (ry_auth g)) (\<lambda>(u, auth1).
       on_fleet (run_partner p (iu_id u) now) (g\<lparr>ry_auth := auth1\<rparr>))"

definition handle_partner_admin_read ::
  "back_env \<Rightarrow> partner_query \<Rightarrow> string option \<Rightarrow> datetime \<Rightarrow> registry \<Rightarrow> exn + view \<times> registry" where
  "handle_partner_admin_read env q token now g =
     bindR (require_role (be_auth env) [''admin''] token now (ry_auth g)) (\<lambda>(_, auth1).
     bindR (run_query q (ry_fleet g)) (\<lambda>result. Inr (result, g\<lparr>ry_auth := auth1\<rparr>)))"

definition handle_my_partners ::
  "back_env \<Rightarrow> string option \<Rightarrow> datetime \<Rightarrow> registry \<Rightarrow> exn + view \<times> registry" where
  "handle_my_partners env token now g =
     bindR (get_current_active_user (be_auth env) token now (ry_auth g)) (\<lambda>(u, auth1).
       Inr (get_my_partners (iu_id u) (ry_fleet g), g\<lparr>ry_auth := auth1\<rparr>))"

end
