(* ===== verification/Partner_Safety.thy ===== *)
theory Partner_Safety
  imports Backoffice
begin

text \<open>
  What the partner tables always satisfy, whatever the backoffice asks for: the locale \<open>unique_table\<close> (a
  table whose rows never clash and have keys of their own) with its interpretations on members, links and
  assignments, and the locale \<open>command_desk\<close> (an assertion that a service call keeps is kept by its
  command, answered, refused or replayed) with its interpretation on the commands of partners.
\<close>

section \<open>Tables with a unique constraint\<close>

definition apart :: "('r \<Rightarrow> 'k) \<Rightarrow> ('r \<Rightarrow> 'r \<Rightarrow> bool) \<Rightarrow> 'r \<Rightarrow> 'r \<Rightarrow> bool" where
  "apart key clash a b \<longleftrightarrow> key a \<noteq> key b \<and> \<not> clash a b"

locale unique_table =
  fixes key :: "'r \<Rightarrow> 'k" and clash :: "'r \<Rightarrow> 'r \<Rightarrow> bool"
  assumes clash_sym: "clash a b \<Longrightarrow> clash b a"
begin

lemma put_apart:
  "sorted_wrt (apart key clash) rs \<Longrightarrow> key r = k \<Longrightarrow> \<forall>x \<in> set rs. key x \<noteq> k \<longrightarrow> \<not> clash r x \<Longrightarrow>
     sorted_wrt (apart key clash) (put_row key k r rs)"
proof (induction rs)
  case (Cons x rs)
  have other: "y \<in> set (put_row key k r rs) \<Longrightarrow> y = r \<or> (y \<in> set rs \<and> key y \<noteq> k)" for y
    using set_put_rowD [of y key k r rs] by blast
  show ?case
  proof (cases "key x = k")
    case True
    then have "k \<notin> key ` set rs" using Cons.prems(1) by (auto simp: apart_def)
    then have "put_row key k r rs = rs" by (rule put_row_absent)
    then show ?thesis using Cons.prems True by (auto simp: apart_def)
  next
    case False
    moreover have "\<not> clash x r" using Cons.prems(3) False clash_sym [of x r] by auto
    ultimately have "apart key clash x r" using Cons.prems(2) by (simp add: apart_def)
    then have "\<forall>y \<in> set (put_row key k r rs). apart key clash x y" using Cons.prems(1) other by auto
    moreover have "sorted_wrt (apart key clash) (put_row key k r rs)" using Cons by simp
    ultimately show ?thesis using False by simp
  qed
qed simp

lemma insert_apart:
  assumes "sorted_wrt (apart key clash) rs" and "get_row key k rs = None" and "key r = k"
    and "insert_row clash r rs = Inr rs'"
  shows "sorted_wrt (apart key clash) rs'"
proof -
  from assms have "rs' = rs @ [r]" "\<forall>x \<in> set rs. \<not> clash r x" "\<forall>x \<in> set rs. key x \<noteq> key r"
    by (auto simp: insert_row_Inr get_row_None image_iff)
  moreover from this(2) have "\<forall>x \<in> set rs. \<not> clash x r" using clash_sym by blast
  ultimately show ?thesis using assms(1) by (simp add: sorted_wrt_append apart_def)
qed

lemma apart_pair:
  "sorted_wrt (apart key clash) rs \<Longrightarrow> a \<in> set rs \<Longrightarrow> b \<in> set rs \<Longrightarrow> key a \<noteq> key b \<Longrightarrow> \<not> clash a b"
  using clash_sym by (induction rs) (auto simp: apart_def)

lemma apart_unique:
  "sorted_wrt (apart key clash) rs \<Longrightarrow> a \<in> set rs \<Longrightarrow> b \<in> set rs \<Longrightarrow> clash a b \<Longrightarrow> a = b"
  using clash_sym by (induction rs) (auto simp: apart_def)

lemma update_apart:
  assumes "sorted_wrt (apart key clash) rs" and "update_row key clash r rs = Inr rs'"
  shows "sorted_wrt (apart key clash) rs'"
  using assms put_apart [of rs r "key r"] by (auto simp: update_row_def list_ex_iff split: if_splits)

text \<open>A change of rows that keeps the keys and brings no clash.\<close>

lemma map_apart:
  assumes "sorted_wrt (apart key clash) rs" and "\<And>a. key (f a) = key a"
    and "\<And>a b. clash (f a) (f b) \<Longrightarrow> clash a b"
  shows "sorted_wrt (apart key clash) (map f rs)"
  unfolding sorted_wrt_map using assms(1)
  by (rule sorted_wrt_mono_rel [rotated]) (use assms(2,3) in \<open>auto simp: apart_def\<close>)

lemma save_apart:
  assumes "sorted_wrt (apart key clash) rs" and "key r = k"
  shows "okR (sorted_wrt (apart key clash))
    (if get_row key k rs = None then insert_row clash r rs else update_row key clash r rs)"
  using insert_apart [OF assms(1) _ assms(2)] update_apart [OF assms(1)] by (auto simp: okR_iff)

text \<open>A row that clashes with no more than the one it replaces.\<close>

lemma replace_apart:
  assumes "sorted_wrt (apart key clash) rs" and "get_row key k rs = Some row" and "key r = k"
    and "\<And>x. clash r x \<Longrightarrow> clash row x"
  shows "sorted_wrt (apart key clash) (put_row key k r rs)"
proof (rule put_apart [OF assms(1,3)], intro ballI impI notI)
  fix x assume x: "x \<in> set rs" "key x \<noteq> k" "clash r x"
  from get_row_Some [OF assms(2)] apart_pair [OF assms(1) _ x(1)] x(2) assms(4) [OF x(3)]
  show False by auto
qed

end

interpretation member_table: unique_table pm_id member_clash
  by unfold_locales (auto simp: member_clash_def)

interpretation link_table: unique_table pl_id link_clash
  by unfold_locales (auto simp: link_clash_def)

interpretation assignment_table: unique_table va_id assignment_clash
  by unfold_locales (auto simp: assignment_clash_def)

section \<open>The partner tables\<close>

text \<open>A rate that its column can hold.\<close>

definition rate_ok :: "rat \<Rightarrow> bool" where
  "rate_ok x \<longleftrightarrow> 0 \<le> x \<and> x < 100 \<and> x * 10000 \<in> \<int>"

definition fleet_ok :: "fleet \<Rightarrow> bool" where
  "fleet_ok db \<longleftrightarrow> (\<forall>p \<in> set (partners db). rate_ok (pa_commission_rate p))
     \<and> sorted_wrt (apart pm_id member_clash) (members db)
     \<and> sorted_wrt (apart pl_id link_clash) (driver_links db)
     \<and> sorted_wrt (apart va_id assignment_clash) (assignments db)"

lemma numeric_6_4_ok: "0 \<le> x \<Longrightarrow> okR rate_ok (numeric_6_4 x)"
  by (auto simp: numeric_6_4_def Let_def rate_ok_def)

abbreviation keeps_fleet :: "exn + 'a \<times> fleet \<Rightarrow> bool" where
  "keeps_fleet \<equiv> okR (\<lambda>(_, db). fleet_ok db)"

lemma fleet_ok_uuid [simp]: "fleet_ok (snd (partner_uuid db)) = fleet_ok db"
  by (simp add: partner_uuid_def fleet_ok_def)

lemma fleet_ok_rides [simp]: "fleet_ok (db\<lparr>fleet_rides := r\<rparr>) = fleet_ok db"
  by (simp add: fleet_ok_def)

lemma fleet_ok_partner: "fleet_ok db \<Longrightarrow> find_partner i db = Some p \<Longrightarrow> 0 \<le> pa_commission_rate p"
  by (auto simp: fleet_ok_def find_partner_def rate_ok_def dest!: get_row_Some)

lemma save_partner_ok: "fleet_ok db \<Longrightarrow> 0 \<le> pa_commission_rate p \<Longrightarrow> keeps_fleet (save_partner p now db)"
  unfolding save_partner_def Let_def
  by (rule okR_bindR, rule okR_mono [OF numeric_6_4_ok])
    (auto simp: fleet_ok_def dest!: set_put_rowD)

lemma saved_partner_ok: "fleet_ok db \<Longrightarrow> 0 \<le> pa_commission_rate p \<Longrightarrow> keeps_fleet (saved_partner p now db)"
  unfolding saved_partner_def by (rule okR_bindR, rule okR_mono [OF save_partner_ok]) auto

lemma save_member_ok: "fleet_ok db \<Longrightarrow> keeps_fleet (save_member m now db)"
  unfolding save_member_def Let_def
  by (rule okR_bindR, rule okR_mono [OF member_table.save_apart]) (auto simp: fleet_ok_def)

lemma save_driver_link_ok: "fleet_ok db \<Longrightarrow> keeps_fleet (save_driver_link l now db)"
  unfolding save_driver_link_def Let_def
  by (rule okR_if, simp, rule okR_bindR, rule okR_mono [OF link_table.save_apart]) (auto simp: fleet_ok_def)

lemma save_vehicle_assignment_ok: "fleet_ok db \<Longrightarrow> keeps_fleet (save_vehicle_assignment a now db)"
  unfolding save_vehicle_assignment_def Let_def
  by (rule okR_if, simp, rule okR_bindR, rule okR_mono [OF assignment_table.save_apart]) (auto simp: fleet_ok_def)

lemma deactivate_member_row_ok: "fleet_ok db \<Longrightarrow> fleet_ok (snd (deactivate_member_row i now db))"
proof (cases "get_row pm_id i (members db)")
  case (Some row)
  assume "fleet_ok db"
  with member_table.replace_apart [OF _ Some, of "row\<lparr>pm_active := False, pm_updated_at := Some now\<rparr>"]
    get_row_Some [OF Some] show ?thesis
    by (simp add: deactivate_member_row_def Some fleet_ok_def member_clash_def)
qed (simp add: deactivate_member_row_def)

lemma end_driver_link_ok: "fleet_ok db \<Longrightarrow> fleet_ok (snd (end_driver_link p d now db))"
  by (auto simp: end_driver_link_def Let_def fleet_ok_def link_clash_def
      intro!: link_table.map_apart split: if_splits)

lemma end_vehicle_assignment_ok: "fleet_ok db \<Longrightarrow> fleet_ok (snd (end_vehicle_assignment v now db))"
  by (auto simp: end_vehicle_assignment_def Let_def fleet_ok_def assignment_clash_def
      intro!: assignment_table.map_apart split: if_splits)

lemma set_vehicle_partner_owner_ok: "fleet_ok db \<Longrightarrow> fleet_ok (snd (set_vehicle_partner_owner v p d db))"
  by (auto simp: set_vehicle_partner_owner_def Let_def split: option.splits)

section \<open>The commands\<close>

lemma require_partner_wp [wp]:
  "(\<And>p. find_partner i db = Some p \<Longrightarrow> P p) \<Longrightarrow> okR P (require_partner i db)"
  by (auto simp: require_partner_def split: option.splits)

lemma require_active_partner_wp [wp]:
  "(\<And>p. find_partner i db = Some p \<Longrightarrow> pa_status p = PS_ACTIVE \<Longrightarrow> P p) \<Longrightarrow> okR P (require_active_partner i db)"
  unfolding require_active_partner_def by (intro wp) auto

lemma okR_trivial [wp]: "(\<And>x. P x) \<Longrightarrow> okR P m"
  by (cases m) auto

lemma commission_rate_of_ok: "okR (\<lambda>r. 0 \<le> r) (commission_rate_of x m)"
  by (auto simp: commission_rate_of_def)

text \<open>An update writes a checked rate or keeps the one it found.\<close>

lemma updated_partner_rate: "0 \<le> pa_commission_rate p \<Longrightarrow> okR (\<lambda>q. 0 \<le> pa_commission_rate q) (updated_partner u p)"
  using commission_rate_of_ok
  by (auto simp: updated_partner_def given_def okR_iff bindR_eq_Inr update_partner_kyc_fields_def split: option.splits)

lemma create_partner_ok:
  assumes "fleet_ok db"
  shows "keeps_fleet (create_partner name kind legal phone email on mode amount s now db)"
  unfolding create_partner_def Let_def partner_uuid_def prod.case
  by (rule okR_bindR, rule okR_trivial, rule okR_bindR, rule okR_trivial, rule okR_bindR, rule okR_trivial,
      rule okR_bindR, rule okR_mono [OF commission_rate_of_ok], rule okR_bindR, rule okR_mono [OF save_partner_ok])
    (use assms in \<open>auto simp: fleet_ok_def\<close>)

lemma update_partner_ok: "fleet_ok db \<Longrightarrow> keeps_fleet (update_partner i u now db)"
  unfolding update_partner_def
  by (rule okR_bindR, rule require_partner_wp, rule okR_bindR, rule okR_mono [OF updated_partner_rate])
    (auto intro: saved_partner_ok dest: fleet_ok_partner)

lemmas kyc_partner_defs = submit_kyc_def activate_partner_def partner_approve_kyc_def suspend_partner_def
  reject_partner_def partner_reject_kyc_def

lemma kyc_partner_ok:
  assumes "fleet_ok db"
  shows "keeps_fleet (submit_kyc i s now db)" "keeps_fleet (activate_partner i now db)"
    "keeps_fleet (partner_approve_kyc i reviewer notes now db)" "keeps_fleet (suspend_partner i now db)"
    "keeps_fleet (reject_partner i now db)" "keeps_fleet (partner_reject_kyc i reviewer notes now db)"
  unfolding kyc_partner_defs
  by (rule okR_bindR, rule require_partner_wp, (rule okR_bindR, rule okR_trivial)?, rule saved_partner_ok [OF assms],
      use fleet_ok_partner [OF assms] in \<open>simp add: update_partner_kyc_fields_def\<close>)+

text \<open>The same steps as rules on their results.\<close>

lemma steps_ok:
  "partner_uuid db = (i, db1) \<Longrightarrow> fleet_ok db \<Longrightarrow> fleet_ok db1"
  "deactivate_member_row m now db = (b, db1) \<Longrightarrow> fleet_ok db \<Longrightarrow> fleet_ok db1"
  "end_driver_link p d now db = (b, db1) \<Longrightarrow> fleet_ok db \<Longrightarrow> fleet_ok db1"
  "end_vehicle_assignment v now db = (b, db1) \<Longrightarrow> fleet_ok db \<Longrightarrow> fleet_ok db1"
  "set_vehicle_partner_owner v p d db = (b, db1) \<Longrightarrow> fleet_ok db \<Longrightarrow> fleet_ok db1"
  using fleet_ok_uuid [of db] deactivate_member_row_ok [of db m now] end_driver_link_ok [of db p d now]
    end_vehicle_assignment_ok [of db v now] set_vehicle_partner_owner_ok [of db v p d]
  by auto

lemma save_driver_link_wp:
  "fleet_ok db \<Longrightarrow> (\<And>l' db'. fleet_ok db' \<Longrightarrow> P (l', db')) \<Longrightarrow> okR P (save_driver_link l now db)"
  by (rule okR_mono [OF save_driver_link_ok]) auto

lemma assign_to_wp:
  "fleet_ok db \<Longrightarrow> (\<And>a' db'. fleet_ok db' \<Longrightarrow> P (a', db')) \<Longrightarrow> okR P (assign_to p v d now db)"
  unfolding assign_to_def
  by (rule okR_Let_prod, rule okR_mono [OF save_vehicle_assignment_ok]) (auto dest: steps_ok)

lemma ensure_affiliated_wp:
  assumes "fleet_ok db" and "\<And>db'. fleet_ok db' \<Longrightarrow> P db'"
  shows "okR P (ensure_driver_affiliated_to_partner p d now db)"
  unfolding ensure_driver_affiliated_to_partner_def
  by (intro okR_option okR_prod okR_if okR_InrI okR_Inl okR_Let_prod okR_bindR save_driver_link_wp)
    (use assms in \<open>auto dest: steps_ok\<close>)

lemma add_member_ok: "fleet_ok db \<Longrightarrow> keeps_fleet (add_member p u role now db)"
  unfolding add_member_def
  by (rule okR_bindR, rule require_partner_wp, rule okR_bindR, rule okR_trivial, rule okR_Let_prod)
    (use save_member_ok in \<open>auto simp: okR_iff Let_def dest: steps_ok split: sum.splits exn.splits\<close>)

lemma deactivate_member_ok: "fleet_ok db \<Longrightarrow> keeps_fleet (deactivate_member p m now db)"
  unfolding deactivate_member_def by (intro wp) (auto dest: steps_ok)

lemma affiliate_driver_ok: "fleet_ok db \<Longrightarrow> keeps_fleet (affiliate_driver p d now db)"
  unfolding affiliate_driver_def
  by (intro okR_bindR require_active_partner_wp okR_if okR_Let_prod okR_Inl save_driver_link_wp)
    (auto dest: steps_ok)

lemma unaffiliate_driver_ok: "fleet_ok db \<Longrightarrow> keeps_fleet (unaffiliate_driver p d now db)"
  unfolding unaffiliate_driver_def by (intro wp) (auto dest: steps_ok)

lemma assign_vehicle_ok: "fleet_ok db \<Longrightarrow> keeps_fleet (assign_vehicle p v d now db)"
  unfolding assign_vehicle_def
  by (intro okR_bindR require_active_partner_wp okR_if okR_Let_prod okR_Inl assign_to_wp)
    (auto dest: steps_ok)

lemma unassign_vehicle_ok: "fleet_ok db \<Longrightarrow> keeps_fleet (unassign_vehicle p v now db)"
  unfolding unassign_vehicle_def by (intro wp) (auto dest: steps_ok)

lemma partner_create_vehicle_ok:
  assumes "fleet_ok db"
  shows "keeps_fleet (partner_create_vehicle p d plate brand model color category comfort s now db)"
  unfolding partner_create_vehicle_def
  by (rule okR_bindR, rule require_active_partner_wp, rule okR_if, rule okR_Inl, rule okR_bindR,
      rule ensure_affiliated_wp [OF assms], rule okR_bindR, rule okR_trivial, rule okR_bindR, rule okR_trivial,
      rule okR_bindR, rule okR_trivial, rule okR_Let_prod, rule okR_Let, rule okR_bindR, rule okR_trivial,
      rule okR_bindR, rule assign_to_wp) auto

theorem run_partner_ok: "fleet_ok db \<Longrightarrow> keeps_fleet (run_partner p actor now db)"
  by (cases p) (simp_all add: create_partner_ok update_partner_ok kyc_partner_ok add_member_ok
      deactivate_member_ok affiliate_driver_ok unaffiliate_driver_ok assign_vehicle_ok unassign_vehicle_ok
      partner_create_vehicle_ok)

section \<open>Commands\<close>

text \<open>
  What a service call promises to the frame of S2S\_Commands, and what the frame makes of it: an answer
  from the store or a refusal leaves the tables, a success is the call's.
\<close>

locale command_desk =
  fixes run :: "'db \<Rightarrow> exn + view \<times> 'db" and inv :: "'db \<Rightarrow> bool"
  assumes run_keeps: "inv db \<Longrightarrow> okR (\<lambda>(_, db'). inv db') (run db)"
begin

lemma frame_keeps:
  assumes "inv (oc_db w)"
  shows "inv (oc_db (snd (s2s_command fp ns ttl c claims actor payload entry run now w)))"
  using assms run_keeps [OF assms]
  by (auto simp: s2s_command_def bindR_def split: sum.splits prod.splits option.splits)

end

interpretation partner_desk: command_desk "on_fleet (run_partner p actor now)" "\<lambda>g. fleet_ok (ry_fleet g)"
  for p actor now
  by unfold_locales (use run_partner_ok in \<open>fastforce simp: on_fleet_def okR_iff bindR_eq_Inr\<close>)

text \<open>Any sequence of requests to the routes of partners, by the backoffice or by an administrator.\<close>

datatype partner_request =
    BY_BACKOFFICE partner_command s2s_call datetime
  | BY_ADMIN partner_command "string option" datetime

fun serve_partner :: "back_env \<Rightarrow> partner_request \<Rightarrow> registry office \<Rightarrow> registry office" where
  "serve_partner env (BY_BACKOFFICE p c now) w = snd (handle_partner_command env p c now w)"
| "serve_partner env (BY_ADMIN p token now) w =
     (case handle_partner_admin env p token now (oc_db w) of Inl _ \<Rightarrow> w | Inr (_, g) \<Rightarrow> w\<lparr>oc_db := g\<rparr>)"

definition partner_requests :: "back_env \<Rightarrow> partner_request list \<Rightarrow> registry office \<Rightarrow> registry office" where
  "partner_requests env reqs w = fold (serve_partner env) reqs w"

lemma partner_command_ok:
  "fleet_ok (ry_fleet (oc_db w)) \<Longrightarrow> fleet_ok (ry_fleet (oc_db (snd (handle_partner_command env p c now w))))"
  unfolding handle_partner_command_def guarded_def partner_write_def
  by (auto intro: partner_desk.frame_keeps split: sum.splits)

lemma partner_admin_ok:
  "fleet_ok (ry_fleet g) \<Longrightarrow> okR (\<lambda>(_, g1). fleet_ok (ry_fleet g1)) (handle_partner_admin env p token now g)"
  unfolding handle_partner_admin_def
  by (rule okR_bindR, rule okR_trivial) (auto intro: partner_desk.run_keeps)

lemma partner_requests_ok:
  "fleet_ok (ry_fleet (oc_db w)) \<Longrightarrow> fleet_ok (ry_fleet (oc_db (partner_requests env reqs w)))"
proof (induction reqs arbitrary: w)
  case (Cons r reqs)
  have "fleet_ok (ry_fleet (oc_db (serve_partner env r w)))"
    using Cons.prems partner_command_ok partner_admin_ok
    by (cases r) (fastforce simp: okR_iff split: sum.splits)+
  with Cons.IH show ?case by (simp add: partner_requests_def)
qed (simp add: partner_requests_def)

end
