(* ===== verification/Fleet_Properties.thy ===== *)
theory Fleet_Properties
  imports Capability_Safety Partner_Safety Driver_Scoring
begin

text \<open>
  The properties of drivers, partners, accounts and backoffice commands: C22 to C29.
\<close>

section \<open>Going online\<close>

lemma insert_do_nothing_row:
  "\<exists>s. get_row key (key r) (snd (insert_do_nothing key r rs)) = Some s"
  by (auto simp: insert_do_nothing_def get_row_append list_ex_iff get_row_None image_iff split: option.splits)

lemma publish_effect:
  assumes "publish_driver_status u status request_id now db = Inr (b, db')"
  shows "desired u db' = Some (Some (fst status), unique_in_order (snd status))"
    and "profiles db' = profiles db" and "vehicles db' = vehicles db"
proof -
  obtain s db1 where eq: "state_for_update u db = (s, db1)" by fastforce
  let ?rows = "snd (insert_do_nothing cs_user_id (new_capability_state u) (capability_states db))"
  have db1: "db1 = db\<lparr>capability_states := ?rows\<rparr>" using eq by (auto simp: state_for_update_def Let_def)
  have got: "get_row cs_user_id u (capability_states db1) = Some s"
    using insert_do_nothing_row [of cs_user_id "new_capability_state u" "capability_states db"] eq
    by (auto simp: state_for_update_def Let_def new_capability_state_def)
  note key = get_row_Some [OF got]
  from assms obtain ev where en: "enqueue u (fst status) (snd status) request_id now db = Inr (ev, db')"
    by (auto simp: publish_driver_status_def bindR_eq_Inr)
  show "desired u db' = Some (Some (fst status), unique_in_order (snd status))"
    using en got key get_put_same [OF got]
    by (auto simp: enqueue_def eq Let_def desired_def bindR_eq_Inr put_state_def fresh_id_def split: if_splits)
  show "profiles db' = profiles db" "vehicles db' = vehicles db"
    using en by (auto simp: enqueue_def eq db1 Let_def bindR_eq_Inr put_state_def fresh_id_def split: if_splits)
qed

lemma get_row_put_key:
  "get_row key2 u rs = Some p \<Longrightarrow> key p = k \<Longrightarrow> key2 q = u \<Longrightarrow> get_row key2 u (put_row key k q rs) = Some q"
  by (induction rs) (auto split: if_splits)

text \<open>Resolving a driver changes at most the review flag of the profile.\<close>

lemma save_profile_same:
  assumes "find_profile_by_user u db = Some p" and "save_profile q db = Inr db'"
    and "dp_id q = dp_id p" and "dp_user_id q = dp_user_id p"
  obtains p1 where "find_profile_by_user u db' = Some p1" and "dp_id p1 = dp_id q" and "dp_status p1 = dp_status q"
    and "dp_is_review_account p1 = dp_is_review_account q" and "vehicles db' = vehicles db"
proof -
  let ?row = "profile_row (get_row dp_id (dp_id q) (profiles db)) q"
  have row: "dp_id ?row = dp_id q" "dp_user_id ?row = dp_user_id q" "dp_status ?row = dp_status q"
    "dp_is_review_account ?row = dp_is_review_account q"
    by (simp_all add: profile_row_def split: option.splits)
  have p: "p \<in> set (profiles db)" "dp_user_id p = u"
    using assms(1) get_row_Some [of dp_user_id u "profiles db" p] by (simp_all add: find_profile_by_user_def)
  then have "get_row dp_id (dp_id q) (profiles db) \<noteq> None" using assms(3) by (auto simp: get_row_None)
  then have db': "db' = db\<lparr>profiles := put_row dp_id (dp_id q) ?row (profiles db)\<rparr>"
    using assms(2) row(1) by (auto simp: save_profile_def Let_def update_row_def split: if_splits)
  have "get_row dp_user_id u (put_row dp_id (dp_id q) ?row (profiles db)) = Some ?row"
    using get_row_put_key [of dp_user_id u "profiles db" p dp_id "dp_id q" ?row] assms row(2) p(2)
    by (simp add: find_profile_by_user_def)
  then show thesis using that [of ?row] row db' by (simp add: find_profile_by_user_def)
qed

lemma resolve_driver_ok:
  assumes "resolve_driver u flag db = Inr ((p, v), db')"
  obtains p0 p1 where "find_profile_by_user u db = Some p0" and "dp_id p = dp_id p0" and "dp_status p0 = DR_ACTIVE"
    and "find_active_vehicle (dp_id p0) db = Some v" and "ve_verification_status v = VV_ACTIVE"
    and "find_profile_by_user u db' = Some p1" and "dp_id p1 = dp_id p0" and "dp_status p1 = DR_ACTIVE"
    and "vehicles db' = vehicles db"
proof -
  from assms obtain p0 where p0: "find_profile_by_user u db = Some p0"
    by (auto simp: resolve_driver_def require_profile_def bindR_eq_Inr split: option.splits)
  define changed where "changed \<longleftrightarrow> flag \<noteq> None \<and> flag \<noteq> Some (dp_is_review_account p0)"
  define q where "q = (if changed then p0\<lparr>dp_is_review_account := the flag\<rparr> else p0)"
  have q: "dp_id q = dp_id p0" "dp_user_id q = dp_user_id p0" "dp_status q = dp_status p0" by (simp_all add: q_def)
  from assms p0 obtain db1 where saved: "(if changed then save_profile q db else Inr db) = Inr db1"
    and rest: "dp_status q = DR_ACTIVE" "find_active_vehicle (dp_id q) db1 = Some v" "ve_verification_status v = VV_ACTIVE"
      "p = q" "db' = db1"
    by (auto simp: resolve_driver_def require_profile_def bindR_eq_Inr Let_def q_def changed_def
        split: if_splits option.splits)
  show thesis
  proof (cases changed)
    case True
    with saved have "save_profile q db = Inr db1" by simp
    from save_profile_same [OF p0 this q(1,2)] obtain p1 where p1: "find_profile_by_user u db1 = Some p1"
      "dp_id p1 = dp_id q" "dp_status p1 = dp_status q" "vehicles db1 = vehicles db" .
    show thesis using that [of p0 p1] p0 q rest p1 by (simp add: find_active_vehicle_def)
  next
    case False
    with saved have "db1 = db" by simp
    then show thesis using that [of p0 p0] p0 q rest by simp
  qed
qed


lemma wallet_again:
  "get_or_create_wallet d c db = (w, db1) \<Longrightarrow> get_or_create_wallet d c' db1 = (w, db1)"
  by (auto simp: get_or_create_wallet_def get_row_append new_id_def Let_def split: option.splits)

lemma ensure_can_go_online_ok:
  assumes "ensure_can_go_online env d fl pay = Inr (u, pay1)"
  obtains w where "driver_is_blocked_by_partner d fl = (False, None)" and "get_or_create_wallet d ''XOF'' pay = (w, pay1)"
    and "we_min_balance env \<le> wa_balance w"
proof -
  obtain b reason where blk: "driver_is_blocked_by_partner d fl = (b, reason)" by fastforce
  obtain w pay2 where w: "get_or_create_wallet d ''XOF'' pay = (w, pay2)" by fastforce
  from assms blk w have "\<not> b" "pay2 = pay1" "we_min_balance env \<le> wa_balance w"
    by (auto simp: ensure_can_go_online_def evaluate_def get_online_eligibility_def Let_def split: if_splits)
  moreover have "b \<or> reason = None"
    using blk by (auto simp: driver_is_blocked_by_partner_def split: option.splits prod.splits if_splits)
  ultimately show thesis using that [of w] w blk by auto
qed

lemma blocked_rides [simp]: "driver_is_blocked_by_partner d (fl\<lparr>fleet_rides := r\<rparr>) = driver_is_blocked_by_partner d fl"
  by (simp add: driver_is_blocked_by_partner_def find_active_driver_link_def find_partner_def)

text \<open>
  C22: a driver goes online only with an active profile, a verified active vehicle, no suspended partner
  and the minimum balance; he is then found by matching at the position he gave, the identity service is
  to show him online, and matching refuses him a ride only for its cohort, category or comfort. A refused
  request leaves every table as it was.
\<close>

theorem go_online_checked:
  assumes "handle_go_online env u position now w = (r, w')"
  shows "case r of
      Inl e \<Rightarrow> dw_fleet w' = dw_fleet w \<and> dw_pay w' = dw_pay w
    | Inr _ \<Rightarrow>
        (\<exists>p v wallet. find_profile_by_user (iu_id u) (fleet_rides (dw_fleet w)) = Some p \<and> dp_status p = DR_ACTIVE
           \<and> find_active_vehicle (dp_id p) (fleet_rides (dw_fleet w)) = Some v \<and> ve_verification_status v = VV_ACTIVE
           \<and> driver_is_blocked_by_partner (dp_id p) (dw_fleet w) = (False, None)
           \<and> get_or_create_wallet (dp_id p) ''XOF'' (dw_pay w) = (wallet, dw_pay w')
           \<and> we_min_balance (on_wallet env) \<le> wa_balance wallet)
        \<and> (\<forall>later. later < now + seconds PRESENCE_TTL_SECONDS \<longrightarrow>
             is_online_and_available (iu_id u) later (dw_locations w'))
        \<and> get_position (iu_id u) (dw_locations w') = Some position
        \<and> desired (iu_id u) (fleet_rides (dw_fleet w')) = Some (Some ''online'', [''go_offline''])
        \<and> (\<forall>menv ride. me_min_balance menv = we_min_balance (on_wallet env) \<longrightarrow>
             me_blocked_by_partner menv = (\<lambda>d. driver_is_blocked_by_partner d (dw_fleet w')) \<longrightarrow>
             fst (can_take_ride menv (iu_id u) ride (fleet_rides (dw_fleet w')) (dw_pay w'))
               \<in> {None, Some COHORT_MISMATCH, Some CATEGORY_MISMATCH, Some COMFORT_MISMATCH})"
proof (cases r)
  case (Inl e)
  then show ?thesis using assms by (auto simp: handle_go_online_def Let_def split: sum.splits)
next
  case (Inr x)
  from assms Inr obtain p v w1 where ch: "online_checks env u w = Inr ((p, v), w1)"
    by (auto simp: handle_go_online_def split: sum.splits)
  define l where "l = set_available (iu_id u) True now
    (update_position (on_telemetry_ttl env) (iu_id u) position None now (dw_locations w))"
  from assms Inr ch have pub: "publish_presence env (iu_id u) ''online'' ''go_offline'' now (w1\<lparr>dw_locations := l\<rparr>) = Inr w'"
    by (auto simp: handle_go_online_def Let_def l_def split: sum.splits)
  from ch obtain rides1 pay1 where
    res: "resolve_driver (iu_id u) (Some (iu_is_review_account u)) (fleet_rides (dw_fleet w)) = Inr ((p, v), rides1)"
    and en: "ensure_can_go_online (on_wallet env) (dp_id p) ((dw_fleet w)\<lparr>fleet_rides := rides1\<rparr>) (dw_pay w) = Inr ((), pay1)"
    and w1: "w1 = w\<lparr>dw_fleet := (dw_fleet w)\<lparr>fleet_rides := rides1\<rparr>, dw_pay := pay1\<rparr>"
    by (auto simp: online_checks_def bindR_eq_Inr)
  from pub obtain b rides2 where
    pu: "publish_driver_status (iu_id u) (''online'', [''go_offline'']) (dv_request_id (on_driver env)) now rides1 = Inr (b, rides2)"
    and w': "w' = w1\<lparr>dw_locations := l, dw_fleet := (dw_fleet w)\<lparr>fleet_rides := rides2\<rparr>\<rparr>"
    by (auto simp: publish_presence_def bindR_eq_Inr w1)
  note eff = publish_effect [OF pu]
  obtain p0 p1 where rd: "find_profile_by_user (iu_id u) (fleet_rides (dw_fleet w)) = Some p0" "dp_id p = dp_id p0"
    "dp_status p0 = DR_ACTIVE" "find_active_vehicle (dp_id p0) (fleet_rides (dw_fleet w)) = Some v"
    "ve_verification_status v = VV_ACTIVE" "find_profile_by_user (iu_id u) rides1 = Some p1" "dp_id p1 = dp_id p0"
    "dp_status p1 = DR_ACTIVE" "vehicles rides1 = vehicles (fleet_rides (dw_fleet w))"
    by (rule resolve_driver_ok [OF res])
  obtain wallet where wl: "driver_is_blocked_by_partner (dp_id p) (dw_fleet w) = (False, None)"
    "get_or_create_wallet (dp_id p) ''XOF'' (dw_pay w) = (wallet, pay1)" "we_min_balance (on_wallet env) \<le> wa_balance wallet"
    using ensure_can_go_online_ok [OF en] by auto
  have profile: "find_profile_by_user (iu_id u) rides2 = Some p1"
    using rd(6) eff(2) by (simp add: find_profile_by_user_def)
  have vehicle: "find_active_vehicle (dp_id p0) rides2 = Some v"
    using rd(4,9) eff(3) by (simp add: find_active_vehicle_def)
  have serve: "fst (can_take_ride menv (iu_id u) ride rides2 pay1)
      \<in> {None, Some COHORT_MISMATCH, Some CATEGORY_MISMATCH, Some COMFORT_MISMATCH}"
    if "me_min_balance menv = we_min_balance (on_wallet env)"
      "me_blocked_by_partner menv = (\<lambda>d. driver_is_blocked_by_partner d (dw_fleet w'))" for menv ride
    using wl rd(2,7,8) wallet_again [OF wl(2), of "''XOF''"] profile vehicle that
    by (auto simp: can_take_ride_def w' w1 Let_def)
  have online: "is_online_and_available (iu_id u) later l" if "later < now + seconds PRESENCE_TTL_SECONDS" for later
    using that by (auto simp: l_def set_available_def update_position_def is_online_and_available_def alive_def
        AVAILABILITY_TTL_SECONDS_def PRESENCE_TTL_SECONDS_def seconds_def)
  have "get_position (iu_id u) l = Some position" by (simp add: l_def get_position_def set_available_def update_position_def)
  moreover have "desired (iu_id u) rides2 = Some (Some ''online'', [''go_offline''])"
    using eff(1) by (simp add: unique_in_order_def)
  ultimately show ?thesis using Inr rd wl serve online by (auto simp: w' w1)
qed


section \<open>Verification\<close>

lemma publish_profile_keeps:
  "publish_profile_status env p now db = Inr db' \<Longrightarrow> profiles db' = profiles db \<and> vehicles db' = vehicles db"
  by (auto simp: publish_profile_status_def bindR_eq_Inr split: if_splits dest: publish_effect)

lemma publish_driver_keeps:
  "publish_status_for_driver_id env d now db = Inr db' \<Longrightarrow> profiles db' = profiles db \<and> vehicles db' = vehicles db"
  by (auto simp: publish_status_for_driver_id_def split: option.splits dest: publish_profile_keeps)

lemma vehicle_row_same [simp]:
  "ve_id (vehicle_row old v) = ve_id v" "ve_driver_id (vehicle_row old v) = ve_driver_id v"
  "ve_category (vehicle_row old v) = ve_category v" "ve_comfort_level (vehicle_row old v) = ve_comfort_level v"
  "ve_active (vehicle_row old v) = ve_active v" "ve_verification_status (vehicle_row old v) = ve_verification_status v"
  by (simp_all add: vehicle_row_def split: option.splits)

lemma save_vehicle_row:
  assumes "find_vehicle i db = Some v0" and "save_vehicle v db = Inr db'" and "ve_id v = i"
  shows "db' = db\<lparr>vehicles := put_row ve_id i (vehicle_row (Some v0) v) (vehicles db)\<rparr>"
  using assms by (auto simp: save_vehicle_def find_vehicle_def Let_def update_row_def split: if_splits)





lemma profile_row_same [simp]:
  "dp_id (profile_row old p) = dp_id p" "dp_status (profile_row old p) = dp_status p"
  "dp_kyc_status (profile_row old p) = dp_kyc_status p"
  by (simp_all add: profile_row_def split: option.splits)

lemma save_profile_row:
  assumes "find_profile i db = Some p0" and "save_profile p db = Inr db'" and "dp_id p = i"
  shows "find_profile i db' = Some (profile_row (Some p0) p)"
  using assms get_put_same [of dp_id i "profiles db" p0 "profile_row (Some p0) p"]
  by (auto simp: save_profile_def find_profile_def Let_def update_row_def split: if_splits)

lemma all_approved:
  "ensure_all_documents_approved rs ts = Inr u \<Longrightarrow> \<forall>t \<in> set ts. review_status t rs = Some ''approved''"
  by (auto simp: ensure_all_documents_approved_def list_all_iff split: if_splits)

text \<open>
  C24: a KYC file is approved only when its five documents are attached and every one is approved; the
  profile is then active. The verdicts are stored when there were none; those of an earlier review stay in
  the table as they were, a rejection included.
\<close>

theorem approved_file_is_complete:
  assumes "approve_kyc env i reviewer notes documents now db = Inr (x, db')"
  shows "\<exists>p q. find_profile i db = Some p \<and> find_profile i db' = Some q
    \<and> list_all attached [dp_license_document p, dp_license_back_document p, dp_national_id_document p,
         dp_national_id_back_document p, dp_selfie_document p]
    \<and> dp_status q = DR_ACTIVE \<and> dp_kyc_status q = KYC_APPROVED
    \<and> (dp_kyc_document_reviews p = [] \<longrightarrow>
         (\<forall>t \<in> set KYC_DOCUMENT_TYPES. review_status t (dp_kyc_document_reviews q) = Some ''approved''))
    \<and> (dp_kyc_document_reviews p \<noteq> [] \<longrightarrow> dp_kyc_document_reviews q = dp_kyc_document_reviews p)"
proof -
  from assms obtain p reviews events u db1 where p: "find_profile i db = Some p"
    and complete: "ensure_kyc_documents_complete p = Inr ()"
    and all: "ensure_all_documents_approved reviews KYC_DOCUMENT_TYPES = Inr u"
    and saved: "save_profile (p\<lparr>dp_kyc_document_reviews := reviews, dp_kyc_review_history := events,
       dp_status := DR_ACTIVE, dp_kyc_status := KYC_APPROVED, dp_license_verified_at := Some now,
       dp_kyc_reviewed_at := Some now, dp_kyc_review_notes := Some (review_note notes reviewer)\<rparr>) db = Inr db1"
    and pub: "profiles db' = profiles db1"
    by (auto simp: approve_kyc_def require_profile_by_id_def bindR_eq_Inr Let_def dest!: publish_profile_keeps
        split: option.splits)
  have id: "dp_id p = i" using p by (auto simp: find_profile_def dest: get_row_Some)
  note row = save_profile_row [OF p saved]
  have "find_profile i db' = find_profile i db1" using pub by (simp add: find_profile_def)
  with row id have q: "find_profile i db' = Some (profile_row (Some p) (p\<lparr>dp_kyc_document_reviews := reviews,
       dp_kyc_review_history := events, dp_status := DR_ACTIVE, dp_kyc_status := KYC_APPROVED,
       dp_license_verified_at := Some now, dp_kyc_reviewed_at := Some now,
       dp_kyc_review_notes := Some (review_note notes reviewer)\<rparr>))" by simp
  have "list_all attached [dp_license_document p, dp_license_back_document p, dp_national_id_document p,
         dp_national_id_back_document p, dp_selfie_document p]"
    using complete by (auto simp: ensure_kyc_documents_complete_def split: if_splits)
  with p q all_approved [OF all] show ?thesis by (simp add: profile_row_def json_column_def)
qed

lemma find_saved_vehicle:
  assumes "find_vehicle i db = Some v0" and "save_vehicle v db = Inr db'" and "ve_id v = i"
  shows "find_vehicle i db' = Some (vehicle_row (Some v0) v)"
  using save_vehicle_row [OF assms] get_put_same [of ve_id i "vehicles db" v0 "vehicle_row (Some v0) v"] assms(1,3)
  by (simp add: find_vehicle_def)

lemma approved_vehicle:
  assumes "approve_vehicle_kyv env i reviewer notes documents now db = Inr (x, db')" and "find_vehicle i db = Some v"
    and "ve_document_reviews v \<noteq> []"
  obtains v1 where "find_vehicle i db' = Some v1" and "ve_verification_status v1 = VV_ACTIVE"
    and "ve_document_reviews v1 = ve_document_reviews v"
proof -
  from assms(1,2) obtain reviews events db1 where
    saved: "save_vehicle (v\<lparr>ve_document_reviews := reviews, ve_review_history := events,
       ve_verification_status := VV_ACTIVE, ve_verified_at := Some now, ve_reviewed_at := Some now,
       ve_review_notes := Some (review_note notes reviewer), ve_active := True\<rparr>) db = Inr db1"
    and pub: "vehicles db' = vehicles db1"
    by (auto simp: approve_vehicle_kyv_def require_vehicle_def bindR_eq_Inr Let_def dest!: publish_driver_keeps)
  have id: "ve_id v = i" using assms(2) by (auto simp: find_vehicle_def dest: get_row_Some)
  have "find_vehicle i db' = find_vehicle i db1" using pub by (simp add: find_vehicle_def)
  with find_saved_vehicle [OF assms(2) saved] id that assms(3) show thesis
    by (simp add: vehicle_row_def json_column_def)
qed

lemma decisions_leave_others:
  assumes "apply_rejection_decisions allowed reviewer now items (current, hist) = Inr (current', hist')"
    and "t \<notin> (\<lambda>item. str_or (dd_document_type item) []) ` set items"
  shows "review_status t current' = review_status t current"
  using assms decisions_applied [of allowed reviewer now "[]" items current hist current' hist']
  by (auto simp: apply_rejection_decisions_def split: if_splits)

text \<open>
  A vehicle approved after a rejection is taken out of service by the rejection of the optional
  transport authorization alone: the verdict of the first review is still the stored one.
\<close>

theorem old_rejection_returns:
  assumes v: "find_vehicle i db = Some v" "t \<in> set REQUIRED_VEHICLE_DOCUMENT_TYPES"
      "review_status t (ve_document_reviews v) = Some ''rejected''"
    and ok: "approve_vehicle_kyv env i reviewer notes documents now db = Inr (x, db1)"
    and optional: "map dd_document_type decisions = [Some ''transport_authorization'']"
    and no: "reject_vehicle_kyv env i reviewer2 notes2 decisions later db1 = Inr (y, db2)"
  shows "map_option ve_verification_status (find_vehicle i db1) = Some VV_ACTIVE
    \<and> map_option ve_verification_status (find_vehicle i db2) = Some VV_REJECTED"
proof -
  have "ve_document_reviews v \<noteq> []" using v(3) by (auto simp: review_status_def)
  from approved_vehicle [OF ok v(1) this] obtain v1 where v1: "find_vehicle i db1 = Some v1"
    "ve_verification_status v1 = VV_ACTIVE" "ve_document_reviews v1 = ve_document_reviews v" .
  from no v1(1) obtain reviews events db3 where
    app: "apply_rejection_decisions VEHICLE_DOCUMENT_TYPES reviewer2 later decisions
        (ve_document_reviews v1, ve_review_history v1) = Inr (reviews, events)"
    and saved: "save_vehicle ((reviewed_vehicle reviews v1)\<lparr>ve_document_reviews := reviews, ve_review_history := events,
        ve_reviewed_at := Some later, ve_review_notes := Some (review_note notes2 reviewer2), ve_active := True\<rparr>) db1 = Inr db3"
    and pub: "vehicles db2 = vehicles db3"
    by (auto simp: reject_vehicle_kyv_def require_vehicle_def bindR_eq_Inr Let_def dest!: publish_driver_keeps)
  have "t \<noteq> ''transport_authorization''" using v(2) by (simp add: REQUIRED_VEHICLE_DOCUMENT_TYPES_def)
  moreover have "(\<lambda>item. str_or (dd_document_type item) []) ` set decisions = {''transport_authorization''}"
    using optional by (auto simp: str_or_def)
  ultimately have "review_status t reviews = Some ''rejected''"
    using decisions_leave_others [OF app, of t] v1(3) v(3) by simp
  then have "rejected_required reviews" using v(2) by (auto simp: rejected_required_def list_ex_iff)
  then have status: "ve_verification_status (reviewed_vehicle reviews v1) = VV_REJECTED"
    by (simp add: reviewed_vehicle_def)
  have id: "ve_id (reviewed_vehicle reviews v1) = i"
    using v1(1) by (auto simp: reviewed_vehicle_def find_vehicle_def dest: get_row_Some)
  have "find_vehicle i db2 = find_vehicle i db3" using pub by (simp add: find_vehicle_def)
  with find_saved_vehicle [OF v1(1) saved] id status v1 show ?thesis by simp
qed


section \<open>The backoffice\<close>

text \<open>
  Provisioning a driver who has a profile is always a conflict (or refused for a suspended account),
  whatever the request says: the request has the two expiry dates, which the comparison leaves out.
\<close>

theorem provisioned_driver_conflicts:
  assumes "find_profile_by_user uid (fleet_rides (ry_fleet g)) = Some p"
  shows "provision env uid full_name license_number s now g
    = Inl (if (case find_user uid (ry_auth g) of None \<Rightarrow> False | Some u \<Rightarrow> us_status u \<noteq> US_ACTIVE)
           then ApiError 403 ''USER_SUSPENDED'' else ApiError 409 ''DRIVER_PROVISIONING_CONFLICT'')"
proof -
  have "''license_expires_at'' \<in> set (map fst (requested_profile license_number s))"
    by (simp add: requested_profile_def)
  moreover have "''license_expires_at'' \<notin> set (map fst (current_profile profile))" for profile
    by (simp add: current_profile_def Let_def)
  ultimately have "\<not> matches_requested_profile profile (requested_profile license_number s)" for profile
    unfolding matches_requested_profile_def same_dict_def by metis
  with assms show ?thesis by (simp add: provision_def get_profile_def require_profile_def Let_def)
qed

lemma partner_write_auth: "ry_auth (oc_db (snd (partner_write env p c claims actor now w))) = ry_auth (oc_db w)"
  by (auto simp: partner_write_def s2s_command_def on_fleet_def bindR_def split: sum.splits prod.splits option.splits)

text \<open>
  A command on partners under a key that was used for the same action is answered with the first
  answer and changes nothing, even when it names another partner or carries another payload: the
  fingerprint is taken of the action and the admin only.
\<close>

theorem partner_key_hides_command:
  assumes first: "handle_partner_command env p c now w = (Inr x, w')"
    and free: "live_entry now (command_key ''partner-command'' (str_or (sc_client c) []) (sc_idempotency_key c))
        (oc_commands w) = None"
    and action: "partner_action q = partner_action p"
    and later: "later < now + seconds (be_kyc_ttl env)"
    and admin: "authorized (be_auth env) ''diddigo:partners:write'' c now (ry_auth (oc_db w)) = Inr (claims, actor)"
      "authorized (be_auth env) ''diddigo:partners:write'' c later (ry_auth (oc_db w)) = Inr (claims', actor)"
  shows "handle_partner_command env q c later w' = (Inr x, w')"
proof -
  from first admin(1) have run: "partner_write env p c claims actor now w = (Inr x, w')"
    by (simp add: handle_partner_command_def guarded_def)
  have "ry_auth (oc_db w') = ry_auth (oc_db w)" using partner_write_auth [of env p c claims actor now w] run by simp
  with admin(2) have "handle_partner_command env q c later w' = partner_write env q c claims' actor later w'"
    by (simp add: handle_partner_command_def guarded_def)
  also have "\<dots> = (Inr x, w')"
    using run unfolding partner_write_def by (rule command_replay) (use free action later in simp_all)
  finally show ?thesis .
qed

section \<open>Accounts\<close>

lemma filter_put_row: "\<not> P r \<Longrightarrow> filter P (put_row key k r rs) = filter (\<lambda>x. P x \<and> key x \<noteq> k) rs"
  by (induction rs) auto

lemma unconsumed_after:
  assumes "distinct (map ot_id (otp_codes db))" and "c \<in> set (otp_codes db)" and "ot_consumed_at c = None"
  shows "filter (\<lambda>x. ot_consumed_at x = None) (otp_codes (mark_consumed (ot_id c) now db))
    = filter (\<lambda>x. ot_consumed_at x = None \<and> ot_id x \<noteq> ot_id c) (otp_codes db)"
  using get_row_mem [OF assms(1,2)] assms(3) by (simp add: mark_consumed_def filter_put_row)

lemma latest_code: "find_latest_unconsumed ph db = Some c \<Longrightarrow> c \<in> set (otp_codes db) \<and> ot_phone c = ph \<and> ot_consumed_at c = None"
proof -
  assume "find_latest_unconsumed ph db = Some c"
  then have "c \<in> set (rev (sort_key ot_created_at (filter (\<lambda>x. ot_phone x = ph \<and> ot_consumed_at x = None) (otp_codes db))))"
    by (auto simp: find_latest_unconsumed_def simp del: set_rev set_sort split: list.splits)
  then show ?thesis by simp
qed

lemma mark_consumed_users [simp]: "users (mark_consumed i now db) = users db"
  by (simp add: mark_consumed_def split: option.splits)

lemma mark_consumed_keeps [simp]:
  "next_auth_id (mark_consumed i now db) = next_auth_id db"
  "map ot_id (otp_codes (mark_consumed i now db)) = map ot_id (otp_codes db)"
  by (auto simp: mark_consumed_def map_put_row dest: get_row_Some split: option.splits)

text \<open>Accounts have ids of their own, and the next one is not in use.\<close>

definition accounts_ok :: "auth_db \<Rightarrow> bool" where
  "accounts_ok db \<longleftrightarrow> distinct (map us_id (users db)) \<and> next_auth_id db \<notin> us_id ` set (users db)
     \<and> distinct (map ot_id (otp_codes db))"

lemma save_known_user:
  assumes "find_user (us_id u) db = Some old" and "save_user u now db = Inr db'"
  obtains row where "find_user (us_id u) db' = Some row" and "us_role row = us_role u" and "us_status row = us_status u"
    and "us_phone row = us_phone old" and "otp_codes db' = otp_codes db"
proof -
  define row where "row = old\<lparr>us_full_name := us_full_name u, us_role := us_role u, us_status := us_status u,
     us_is_review_account := us_is_review_account u, us_updated_at := Some now\<rparr>"
  have old: "get_row us_id (us_id u) (users db) = Some old" using assms(1) by (simp add: find_user_def)
  have "us_id row = us_id u" using get_row_Some [OF old] by (simp add: row_def)
  from get_put_same [OF old this] have "find_user (us_id u) db' = Some row"
    using assms(2) old by (auto simp: save_user_def row_def find_user_def)
  moreover have "otp_codes db' = otp_codes db" using assms(2) old by (auto simp: save_user_def)
  ultimately show thesis using that [of row] by (simp add: row_def)
qed

text \<open>The user of a session is the stored one.\<close>

lemma verified_user_ok:
  assumes "verified_user ph now db = Inr (u, db')" and "accounts_ok db"
  obtains row where "find_user (us_id u) db' = Some row" and "us_role row = us_role u" and "us_status row = us_status u"
    and "us_phone row = ph" and "us_phone u = ph" and "us_status u \<noteq> US_PENDING_VERIFICATION"
    and "otp_codes db' = otp_codes db" and "\<forall>x. find_by_phone ph db = Some x \<longrightarrow> us_role u = us_role x \<and> us_id u = us_id x"
proof (cases "find_by_phone ph db")
  case None
  define i where "i = next_auth_id db"
  define new where "new = (new_user i ph UR_PASSENGER US_ACTIVE None)\<lparr>us_created_at := Some now\<rparr>"
  define row where "row = new\<lparr>us_updated_at := Some now\<rparr>"
  have new: "us_id new = i" "us_phone new = ph" "us_role new = UR_PASSENGER" "us_status new = US_ACTIVE"
    "new\<lparr>us_created_at := Some (case us_created_at new of None \<Rightarrow> now | Some t \<Rightarrow> t),
         us_updated_at := Some (case us_updated_at new of None \<Rightarrow> now | Some t \<Rightarrow> t)\<rparr> = row"
    by (simp_all add: new_def new_user_def row_def)
  from assms(1) None have u: "u = new" and s: "save_user new now (db\<lparr>next_auth_id := Suc i\<rparr>) = Inr db'"
    by (auto simp: verified_user_def auth_uuid_def Let_def bindR_eq_Inr new_def i_def)
  have absent: "get_row us_id i (users db) = None" using assms(2) by (simp add: accounts_ok_def get_row_None i_def)
  with s have db': "db' = db\<lparr>next_auth_id := Suc i, users := users db @ [row]\<rparr>"
    unfolding save_user_def by (auto simp: new bindR_eq_Inr insert_row_Inr)
  have "find_user (us_id u) db' = Some row" using absent new(1) by (simp add: u db' find_user_def get_row_append row_def)
  then show thesis by (rule that) (simp_all add: row_def u new db' None)
next
  case (Some old)
  then have ph: "us_phone old = ph" and mem: "old \<in> set (users db)"
    by (auto simp: find_by_phone_def dest: get_row_Some)
  have found: "find_user (us_id old) db = Some old"
    using assms(2) mem by (simp add: find_user_def accounts_ok_def get_row_mem)
  show thesis
  proof (cases "us_status old = US_PENDING_VERIFICATION")
    case True
    define act where "act = old\<lparr>us_status := US_ACTIVE\<rparr>"
    from assms(1) Some True have u: "u = act" and s: "save_user act now db = Inr db'"
      by (auto simp: verified_user_def bindR_eq_Inr act_def)
    have act: "us_id act = us_id old" "us_role act = us_role old" "us_status act = US_ACTIVE" "us_phone act = ph"
      by (simp_all add: act_def ph)
    from found act have "find_user (us_id act) db = Some old" by simp
    from save_known_user [OF this s] obtain row where row: "find_user (us_id act) db' = Some row"
      "us_role row = us_role act" "us_status row = us_status act" "us_phone row = us_phone old"
      "otp_codes db' = otp_codes db" .
    show thesis
      by (rule that [of row]) (use row act in \<open>simp_all only: u ph Some option.inject\<close>, use act in auto)
  next
    case False
    with assms(1) Some have "u = old" "db' = db" by (auto simp: verified_user_def)
    then show thesis by (intro that [of old]) (simp_all add: found ph Some False)
  qed
qed

lemma verify_otp_ok:
  assumes "verify_otp env phone code None now db = Inr (s, db')"
  obtains ph c u where "validate_phone phone = Inr ph" and "find_latest_unconsumed ph db = Some c"
    and "now < ot_expires_at c" and "au_sha256_hex env code = ot_code_hash c"
    and "verified_user ph now (mark_consumed (ot_id c) now db) = Inr (u, db')" and "s = session_of env u now"
proof -
  have "\<exists>ph c u. validate_phone phone = Inr ph \<and> find_latest_unconsumed ph db = Some c \<and> now < ot_expires_at c
    \<and> au_sha256_hex env code = ot_code_hash c
    \<and> verified_user ph now (mark_consumed (ot_id c) now db) = Inr (u, db') \<and> s = session_of env u now"
    using assms by (fastforce simp: verify_otp_def bindR_eq_Inr split: option.splits if_splits)
  then show thesis using that by blast
qed

text \<open>
  C25: a code opens a session only as the newest unspent code of the phone and before it expires; it is
  then spent, every other unspent code stays as it was, and the account of the phone exists and is no
  longer pending.
\<close>

theorem verified_code_is_spent:
  assumes ok: "accounts_ok db" and run: "verify_otp env phone code None now db = Inr (s, db')"
  shows "\<exists>ph c u row. validate_phone phone = Inr ph \<and> find_latest_unconsumed ph db = Some c \<and> now < ot_expires_at c
    \<and> au_sha256_hex env code = ot_code_hash c
    \<and> filter (\<lambda>x. ot_consumed_at x = None) (otp_codes db')
        = filter (\<lambda>x. ot_consumed_at x = None \<and> ot_id x \<noteq> ot_id c) (otp_codes db)
    \<and> se_user s = Some u \<and> find_user (us_id u) db' = Some row \<and> us_phone row = ph
    \<and> us_status row \<noteq> US_PENDING_VERIFICATION"
proof -
  from run obtain ph c u where v: "validate_phone phone = Inr ph" "find_latest_unconsumed ph db = Some c"
    "now < ot_expires_at c" "au_sha256_hex env code = ot_code_hash c"
    and vu: "verified_user ph now (mark_consumed (ot_id c) now db) = Inr (u, db')" and "s = session_of env u now"
    by (rule verify_otp_ok)
  then have s: "se_user s = Some u" by (simp add: session_of_def)
  from ok have "accounts_ok (mark_consumed (ot_id c) now db)"
    by (simp add: accounts_ok_def)
  from verified_user_ok [OF vu this] obtain row where row: "find_user (us_id u) db' = Some row"
    "us_status row = us_status u" "us_phone row = ph" "us_status u \<noteq> US_PENDING_VERIFICATION"
    "otp_codes db' = otp_codes (mark_consumed (ot_id c) now db)" by metis
  have "filter (\<lambda>x. ot_consumed_at x = None) (otp_codes db')
      = filter (\<lambda>x. ot_consumed_at x = None \<and> ot_id x \<noteq> ot_id c) (otp_codes db)"
    unfolding row(5) by (rule unconsumed_after) (use ok latest_code [OF v(2)] in \<open>simp_all add: accounts_ok_def\<close>)
  moreover have "us_status row \<noteq> US_PENDING_VERIFICATION" using row(2,4) by simp
  ultimately show ?thesis using v s row(1,3) by blast
qed


text \<open>
  C26: whoever registers a phone with the role admin and reads the code sent to it is an active
  administrator, whom the service commands accept as their actor: only the error text says that the role
  must be passenger or driver.
\<close>

theorem self_registered_admin:
  assumes ok: "accounts_ok db" and reg: "register phone name ''admin'' now db = Inr (r, db1)"
    and otp: "request_otp env phone at1 db1 = Inr (code, db2)"
    and ver: "verify_otp env phone code None at2 db2 = Inr (s, db3)"
  shows "\<exists>u row. se_user s = Some u \<and> us_role u = UR_ADMIN \<and> us_status u = US_ACTIVE
    \<and> se_access_token s = issue_access_token env (us_id u) ''admin'' at2
    \<and> require_s2s_admin_actor (Some (us_id u)) None db3 = Inr row \<and> us_phone row = rg_phone r"
proof -
  define i where "i = next_auth_id db"
  from reg obtain ph where ph: "validate_phone phone = Inr ph" by (auto simp: register_def bindR_eq_Inr)
  define new where "new = (new_user i ph UR_ADMIN US_PENDING_VERIFICATION (if str_or name [] = [] then None else name))
      \<lparr>us_created_at := Some now\<rparr>"
  from reg ph have free: "find_by_phone ph db = None"
    and saved: "save_user new now (db\<lparr>next_auth_id := Suc i\<rparr>) = Inr db1" and r: "rg_phone r = ph"
    by (auto simp: register_def bindR_eq_Inr user_role_of_def auth_uuid_def Let_def new_def i_def split: if_splits)
  have absent: "get_row us_id i (users db) = None" using ok by (simp add: accounts_ok_def get_row_None i_def)
  define row where "row = new\<lparr>us_updated_at := Some now\<rparr>"
  have new: "us_id new = i" "us_phone new = ph"
    "new\<lparr>us_created_at := Some (case us_created_at new of None \<Rightarrow> now | Some t \<Rightarrow> t),
         us_updated_at := Some (case us_updated_at new of None \<Rightarrow> now | Some t \<Rightarrow> t)\<rparr> = row"
    by (simp_all add: new_def new_user_def row_def)
  have db1: "db1 = db\<lparr>next_auth_id := Suc i, users := users db @ [row]\<rparr>"
    using saved absent unfolding save_user_def by (auto simp: new bindR_eq_Inr insert_row_Inr)
  have row: "us_id row = i" "us_phone row = ph" "us_role row = UR_ADMIN" "us_status row = US_PENDING_VERIFICATION"
    by (simp_all add: row_def new_def new_user_def)
  have sent: "find_by_phone ph db1 = Some row" using free row(2) by (simp add: db1 find_by_phone_def get_row_append)
  from otp have users2: "users db2 = users db1"
    by (auto simp: request_otp_def bindR_eq_Inr save_otp_def auth_uuid_def Let_def split: if_splits)
  have phone2: "find_by_phone ph db2 = Some row" using sent users2 by (simp add: find_by_phone_def)
  from ver obtain ph2 c u where ph2: "validate_phone phone = Inr ph2" and "find_latest_unconsumed ph2 db2 = Some c"
    and "at2 < ot_expires_at c" and "au_sha256_hex env code = ot_code_hash c"
    and vu2: "verified_user ph2 at2 (mark_consumed (ot_id c) at2 db2) = Inr (u, db3)" and s: "s = session_of env u at2"
    by (rule verify_otp_ok)
  from ph2 ph have "ph2 = ph" by simp
  with vu2 have vu: "verified_user ph at2 (mark_consumed (ot_id c) at2 db2) = Inr (u, db3)" by simp
  from vu phone2 row(4) have u: "u = row\<lparr>us_status := US_ACTIVE\<rparr>"
    and up: "save_user (row\<lparr>us_status := US_ACTIVE\<rparr>) at2 (mark_consumed (ot_id c) at2 db2) = Inr db3"
    by (auto simp: verified_user_def bindR_eq_Inr find_by_phone_def)
  have "find_user (us_id (row\<lparr>us_status := US_ACTIVE\<rparr>)) (mark_consumed (ot_id c) at2 db2) = Some row"
    using absent row(1) by (simp add: find_user_def users2 db1 get_row_append)
  from save_known_user [OF this up] obtain row3 where row3: "find_user i db3 = Some row3" "us_role row3 = UR_ADMIN"
    "us_status row3 = US_ACTIVE" "us_phone row3 = ph" by (simp add: row) blast
  have "require_s2s_admin_actor (Some i) None db3 = Inr row3"
    using row3 by (simp add: require_s2s_admin_actor_def)
  then show ?thesis using row row3(4) r by (simp add: s u session_of_def)
qed

section \<open>Tokens\<close>

text \<open>What PyJWT documents: decoding gives back the claims that were signed until they expire.\<close>

definition signs :: "auth_env \<Rightarrow> claims \<Rightarrow> datetime \<Rightarrow> int \<Rightarrow> bool" where
  "signs env c now expires \<longleftrightarrow> au_encode env c \<noteq> [] \<and> jget c ''exp'' = JInt expires
     \<and> (\<forall>later \<ge> now. au_decode env later (au_encode env c)
          = (if expires * 1000000 \<le> later then Inl EXPIRED_SIGNATURE else Inr c))"

definition access_claims :: "auth_env \<Rightarrow> uuid \<Rightarrow> string \<Rightarrow> datetime \<Rightarrow> claims" where
  "access_claims env uid role now = [(''sub'', juuid uid), (''role'', JStr role), (''typ'', JStr ''access''),
     (''iat'', numeric_date now), (''exp'', numeric_date (now + seconds (60 * au_access_minutes env)))]"

definition refresh_claims :: "auth_env \<Rightarrow> uuid \<Rightarrow> datetime \<Rightarrow> claims" where
  "refresh_claims env uid now = [(''sub'', juuid uid), (''typ'', JStr ''refresh''), (''iat'', numeric_date now),
     (''exp'', numeric_date (now + seconds (86400 * au_refresh_days env)))]"

lemma claims_read:
  "jget (access_claims env uid role now) ''typ'' = JStr ''access''"
  "jget (refresh_claims env uid now) ''typ'' = JStr ''refresh''"
  "uid < 2 ^ 128 \<Longrightarrow> user_id_from_token (access_claims env uid role now) = Inr uid"
  "uid < 2 ^ 128 \<Longrightarrow> user_id_from_token (refresh_claims env uid now) = Inr uid"
  by (simp_all add: access_claims_def refresh_claims_def jget_def user_id_from_token_def juuid_def uuid_roundtrip
      del: power_numeral)

lemma decode_signed:
  assumes "signs env c now expires" and "now \<le> later" and "later < expires * 1000000"
  shows "decode_token env typ (au_encode env c) later
    = (if jget c ''typ'' \<noteq> JStr typ then Inl (ApiError 401 ''TOKEN_INVALID'') else Inr c)"
  using assms by (simp add: signs_def decode_token_def)

text \<open>
  C27: the tokens of a session name its account until they expire: the refresh token gives new tokens of
  the same account, the access token identifies it when it is active, and neither is taken for the other.
\<close>

theorem session_roundtrip:
  assumes ok: "accounts_ok db" and local: "\<not> au_identity_mode env"
    and run: "verify_otp env phone code None now db = Inr (s, db')" and u: "se_user s = Some u" "us_id u < 2 ^ 128"
    and signed: "signs env (access_claims env (us_id u) (user_role_value (us_role u)) now) now e1"
      "signs env (refresh_claims env (us_id u) now) now e2"
    and time: "now \<le> later" "later < e1 * 1000000" "later < e2 * 1000000"
  shows "\<exists>row. find_user (us_id u) db' = Some row \<and> us_role row = us_role u
    \<and> refresh env (se_refresh_token s) later db' = Inr ((session_of env row later)\<lparr>se_user := None\<rparr>)
    \<and> get_current_user env (Some (se_access_token s)) later db'
        = (if us_status u = US_ACTIVE then Inr (identity_of row, db') else Inl (ApiError 403 ''USER_SUSPENDED''))
    \<and> refresh env (se_access_token s) later db' = Inl (ApiError 401 ''TOKEN_INVALID'')
    \<and> get_current_user env (Some (se_refresh_token s)) later db' = Inl (ApiError 401 ''TOKEN_INVALID'')"
proof -
  from run obtain ph c u' where "validate_phone phone = Inr ph" and "find_latest_unconsumed ph db = Some c"
    and "now < ot_expires_at c" and "au_sha256_hex env code = ot_code_hash c"
    and vu': "verified_user ph now (mark_consumed (ot_id c) now db) = Inr (u', db')" and s': "s = session_of env u' now"
    by (rule verify_otp_ok)
  with u(1) have vu: "verified_user ph now (mark_consumed (ot_id c) now db) = Inr (u, db')" and s: "s = session_of env u now"
    by (simp_all add: session_of_def)
  from ok have "accounts_ok (mark_consumed (ot_id c) now db)" by (simp add: accounts_ok_def)
  from verified_user_ok [OF vu this] obtain row where row: "find_user (us_id u) db' = Some row"
    "us_role row = us_role u" "us_status row = us_status u" by metis
  let ?a = "access_claims env (us_id u) (user_role_value (us_role u)) now"
  let ?r = "refresh_claims env (us_id u) now"
  have tokens: "se_access_token s = au_encode env ?a" "se_refresh_token s = au_encode env ?r"
    by (simp_all add: s session_of_def issue_access_token_def issue_refresh_token_def access_claims_def refresh_claims_def)
  have some: "str_or (Some (au_encode env ?a)) [] = au_encode env ?a" "au_encode env ?a \<noteq> []"
    "str_or (Some (au_encode env ?r)) [] = au_encode env ?r" "au_encode env ?r \<noteq> []"
    using signed by (simp_all add: signs_def str_or_def)
  note dec = decode_signed [OF signed(1) time(1,2)] decode_signed [OF signed(2) time(1,3)]
  have id: "us_id row = us_id u" using row(1) by (auto simp: find_user_def dest: get_row_Some)
  have "refresh env (se_refresh_token s) later db' = Inr ((session_of env row later)\<lparr>se_user := None\<rparr>)"
    by (simp add: refresh_def tokens dec claims_read u(2) row(1) del: power_numeral)
  moreover have "get_current_user env (Some (se_access_token s)) later db'
      = (if us_status u = US_ACTIVE then Inr (identity_of row, db') else Inl (ApiError 403 ''USER_SUSPENDED''))"
    by (simp add: get_current_user_def tokens some local dec claims_read u(2) row(1,3) del: power_numeral)
  moreover have "refresh env (se_access_token s) later db' = Inl (ApiError 401 ''TOKEN_INVALID'')"
    by (simp add: refresh_def tokens dec claims_read)
  moreover have "get_current_user env (Some (se_refresh_token s)) later db' = Inl (ApiError 401 ''TOKEN_INVALID'')"
    by (simp add: get_current_user_def tokens some local dec claims_read)
  ultimately show ?thesis using row(1,2) by blast
qed

section \<open>The identity service\<close>

text \<open>
  C28: the reconciliation, which pages through all profiles, always ends and leaves every driver shown
  exactly as a status computed afresh from his profile, newest active vehicle and presence would show him.
\<close>

theorem reconciliation:
  assumes inv: "outbox_ok db" and batch: "0 < batch" and room: "next_ride_id db + length (profiles db) \<le> 2 ^ 128"
    and users: "distinct (map dp_user_id (profiles db))"
  shows "\<exists>n m db'. reconcile_all batch refresh_seconds locations now db = Some (Inr ((n, m), db')) \<and> outbox_ok db'
    \<and> (\<forall>p \<in> set (profiles db). desired (dp_user_id p) db'
        = (let s = shown_status (\<lambda>u. is_online_and_available u now locations) p db in Some (Some (fst s), snd s)))"
proof -
  let ?online = "\<lambda>u. is_online_and_available u now locations"
  let ?ps = "sort_key dp_user_id (profiles db)"
  have "distinct (map dp_user_id ?ps)" using users by (intro distinct_map_sub [OF users]) (auto simp: distinct_map)
  moreover have "next_ride_id db + length ?ps \<le> 2 ^ 128" using room by simp
  ultimately obtain n db1 where each: "foldR (reconcile_one ?online now) (map (candidate_of db) ?ps) (0, db) = Inr (n, db1)"
    "outbox_ok db1" "\<forall>p \<in> set ?ps. desired (dp_user_id p) db1
        = Some (Some (fst (shown_status ?online p db)), snd (shown_status ?online p db))"
    using reconcile_each [OF inv, of ?ps ?online now db 0] by blast
  obtain m db2 where r: "schedule_stale_refresh (now - seconds refresh_seconds) now batch db1 = (m, db2)" by fastforce
  have "reconcile_all batch refresh_seconds locations now db = Some (Inr ((n, m), db2))"
    using each(1) r by (simp add: reconcile_all_def all_candidates_pages [OF batch] reconcile_def)
  moreover have "outbox_ok db2 \<and> (\<forall>u. desired u db2 = desired u db1)"
    using schedule_stale_refresh_ok [OF each(2), of "now - seconds refresh_seconds" now batch] by (simp add: r)
  ultimately show ?thesis using each(3) by (auto simp: Let_def)
qed

section \<open>Partners\<close>


end
