(* ===== verification/Fleet_Witnesses.thy ===== *)
theory Fleet_Witnesses
  imports Payment_Properties Fleet_Properties
begin

text \<open>The properties of drivers, partners and accounts at concrete inputs.\<close>

section \<open>Going online\<close>

definition fleet_driver_env :: driver_env where
  "fleet_driver_env = \<lparr>dv_publisher = True, dv_request_id = None\<rparr>"

definition fleet_online_env :: online_env where
  "fleet_online_env = \<lparr>on_driver = fleet_driver_env, on_wallet = demo_wallet_env\<lparr>we_min_balance := 0\<rparr>,
     on_telemetry_ttl = 60\<rparr>"

definition fleet_of :: "ride_db \<Rightarrow> fleet" where
  "fleet_of rdb = \<lparr>partners = [], members = [], driver_links = [], assignments = [], next_partner_id = 1,
     fleet_rides = rdb\<rparr>"

definition fleet_world :: driver_world where
  "fleet_world = \<lparr>dw_fleet = fleet_of trip_fleet, dw_pay = empty_pay_db, dw_locations = no_drivers\<rparr>"

definition fleet_user :: identity where
  "fleet_user = \<lparr>iu_id = 8, iu_phone = ''+22501'', iu_full_name = None, iu_role = ''driver'', iu_status = ''active'',
     iu_is_review_account = False\<rparr>"

lemma trip_fleet_rows:
  "profiles trip_fleet = [trip_driver]" "vehicles trip_fleet = [trip_vehicle]"
  "capability_states trip_fleet = []" "capability_events trip_fleet = []"
  by (simp_all add: trip_fleet_def empty_ride_db_def)

lemma trip_rows:
  "dp_id trip_driver = 2" "dp_user_id trip_driver = 8" "dp_status trip_driver = DR_ACTIVE"
  "dp_is_review_account trip_driver = False" "dp_kyc_status trip_driver = KYC_APPROVED"
  "ve_id trip_vehicle = 3" "ve_driver_id trip_vehicle = 2"
  "ve_active trip_vehicle" "ve_verification_status trip_vehicle = VV_ACTIVE" "ve_document_reviews trip_vehicle = []"
  by (simp_all add: trip_driver_def new_driver_profile_def trip_vehicle_def new_vehicle_def)

lemmas fleet_rows = trip_fleet_rows trip_rows

lemma fleet_goes_online: "\<exists>v w'. handle_go_online fleet_online_env fleet_user (trip_point 5) 0 fleet_world = (Inr v, w')"
proof -
  have "online_checks fleet_online_env fleet_user fleet_world
      = Inr ((trip_driver, trip_vehicle), fleet_world\<lparr>dw_pay := snd (get_or_create_wallet 2 ''XOF'' empty_pay_db)\<rparr>)"
    by (simp add: online_checks_def require_business_driver_def resolve_driver_def require_profile_def
        ensure_can_go_online_def evaluate_def get_online_eligibility_def driver_is_blocked_by_partner_def
        find_active_driver_link_def find_profile_by_user_def find_active_vehicle_def fleet_world_def fleet_of_def
        fleet_user_def fleet_rows fleet_online_env_def get_or_create_wallet_def empty_pay_db_def new_id_def Let_def)
  then show ?thesis
    by (simp add: handle_go_online_def Let_def publish_presence_def publish_driver_status_def enqueue_def
        state_for_update_def fleet_world_def fleet_of_def insert_do_nothing_def fleet_rows new_capability_state_def
        fresh_id_def insert_row_def)
qed

lemma go_online_checked_witness:
  "\<exists>w'. snd (handle_go_online fleet_online_env fleet_user (trip_point 5) 0 fleet_world) = w'
    \<and> is_online_and_available 8 1 (dw_locations w') \<and> get_position 8 (dw_locations w') = Some (trip_point 5)"
proof -
  obtain v w' where h: "handle_go_online fleet_online_env fleet_user (trip_point 5) 0 fleet_world = (Inr v, w')"
    using fleet_goes_online by blast
  have "iu_id fleet_user = 8" "(1::int) < 0 + seconds PRESENCE_TTL_SECONDS"
    by (simp_all add: fleet_user_def seconds_def PRESENCE_TTL_SECONDS_def)
  with go_online_checked [OF h] h show ?thesis by simp
qed

section \<open>Verification\<close>

definition quiet_env :: driver_env where
  "quiet_env = \<lparr>dv_publisher = False, dv_request_id = None\<rparr>"

definition fleet_rejection :: "string \<Rightarrow> document_decision list" where
  "fleet_rejection t = [\<lparr>dd_document_type = Some t, dd_decision = Some ''rejected'', dd_reason_code = Some ''BLUR'',
     dd_reason = Some ''x'', dd_expected_correction = Some ''y''\<rparr>]"

lemma no_publisher [simp]: "publish_profile_status quiet_env p now db = Inr db"
  "publish_status_for_driver_id quiet_env d now db = Inr db"
  by (simp_all add: publish_profile_status_def publish_status_for_driver_id_def quiet_env_def split: option.splits)



definition a_file :: attachment where
  "a_file = \<lparr>at_file_id = Some 70, at_url = None\<rparr>"

definition filed_driver :: driver_profile where
  "filed_driver = (new_driver_profile 2 8 ''L1'')\<lparr>dp_license_document := a_file, dp_license_back_document := a_file,
     dp_national_id_document := a_file, dp_national_id_back_document := a_file, dp_selfie_document := a_file\<rparr>"

lemma approved_file_is_complete_witness:
  "\<exists>x db' q. approve_kyc quiet_env 2 9 None [] 1 (empty_ride_db\<lparr>profiles := [filed_driver]\<rparr>) = Inr (x, db')
    \<and> find_profile 2 db' = Some q \<and> review_status ''selfie'' (dp_kyc_document_reviews q) = Some ''approved''"
proof -
  let ?db = "empty_ride_db\<lparr>profiles := [filed_driver]\<rparr>"
  have p: "find_profile 2 ?db = Some filed_driver" "dp_kyc_document_reviews filed_driver = []"
    by (simp_all add: find_profile_def filed_driver_def new_driver_profile_def)
  have "\<exists>x db'. approve_kyc quiet_env 2 9 None [] 1 ?db = Inr (x, db')"
    by (simp add: approve_kyc_def require_profile_by_id_def p ensure_kyc_documents_complete_def attached_def
        KYC_DOCUMENT_TYPES_def approved_decision_def str_or_def Let_def ensure_all_documents_approved_def
        review_status_def set_review_def)
      (simp add: filed_driver_def new_driver_profile_def a_file_def save_profile_def Let_def update_row_def)
  then obtain x db' where a: "approve_kyc quiet_env 2 9 None [] 1 ?db = Inr (x, db')" by blast
  have "''selfie'' \<in> set KYC_DOCUMENT_TYPES" by (simp add: KYC_DOCUMENT_TYPES_def)
  with approved_file_is_complete [OF a] p a show ?thesis by auto
qed

definition once_rejected :: vehicle where
  "once_rejected = (new_vehicle 3 2 ''AB1'')\<lparr>ve_verification_status := VV_REJECTED,
     ve_registration_document := a_file, ve_insurance_document := a_file, ve_technical_inspection_document := a_file,
     ve_vehicle_front_photo := a_file, ve_vehicle_back_photo := a_file, ve_vehicle_left_photo := a_file,
     ve_vehicle_right_photo := a_file, ve_vehicle_interior_photo := a_file, ve_vehicle_plate_photo := a_file,
     ve_document_reviews := [\<lparr>dr_document_type = ''registration'', dr_status = ''rejected'', dr_reason_code = None,
       dr_reason = None, dr_expected_correction = None, dr_reviewed_at = Some 0\<rparr>]\<rparr>"

lemma old_rejection_returns_witness:
  "\<exists>x db1 y db2. approve_vehicle_kyv quiet_env 3 9 None [] 1 (empty_ride_db\<lparr>vehicles := [once_rejected]\<rparr>) = Inr (x, db1)
    \<and> reject_vehicle_kyv quiet_env 3 9 None (fleet_rejection ''transport_authorization'') 2 db1 = Inr (y, db2)
    \<and> map_option ve_verification_status (find_vehicle 3 db1) = Some VV_ACTIVE
    \<and> map_option ve_verification_status (find_vehicle 3 db2) = Some VV_REJECTED"
proof -
  let ?db = "empty_ride_db\<lparr>vehicles := [once_rejected]\<rparr>"
  have v: "find_vehicle 3 ?db = Some once_rejected"
    by (simp add: find_vehicle_def once_rejected_def new_vehicle_def)
  have st: "review_status ''registration'' (ve_document_reviews once_rejected) = Some ''rejected''"
    by (simp add: review_status_def once_rejected_def)
  have t: "''registration'' \<in> set REQUIRED_VEHICLE_DOCUMENT_TYPES"
    by (simp add: REQUIRED_VEHICLE_DOCUMENT_TYPES_def VEHICLE_DOCUMENT_TYPES_def)
  have files: "ensure_vehicle_kyv_documents_complete once_rejected = Inr ()"
    by (simp add: ensure_vehicle_kyv_documents_complete_def once_rejected_def new_vehicle_def attached_def a_file_def)
  have reviews: "\<exists>rs es. apply_document_decisions VEHICLE_DOCUMENT_TYPES 9 1 []
      (map approved_decision REQUIRED_VEHICLE_DOCUMENT_TYPES)
      (ve_document_reviews once_rejected, ve_review_history once_rejected) = Inr (rs, es)
    \<and> ensure_all_documents_approved rs REQUIRED_VEHICLE_DOCUMENT_TYPES = Inr ()"
    by (simp add: REQUIRED_VEHICLE_DOCUMENT_TYPES_def VEHICLE_DOCUMENT_TYPES_def approved_decision_def str_or_def
        Let_def ensure_all_documents_approved_def)
  have "\<exists>x db1. approve_vehicle_kyv quiet_env 3 9 None [] 1 ?db = Inr (x, db1)"
    using reviews
    by (auto simp: approve_vehicle_kyv_def require_vehicle_def v files save_vehicle_def Let_def update_row_def)
  then obtain x db1 where a: "approve_vehicle_kyv quiet_env 3 9 None [] 1 ?db = Inr (x, db1)" by blast
  have "ve_document_reviews once_rejected \<noteq> []" by (simp add: once_rejected_def)
  from approved_vehicle [OF a v this] obtain v1 where v1: "find_vehicle 3 db1 = Some v1" by blast
  then have id1: "ve_id v1 = 3" by (auto simp: find_vehicle_def dest: get_row_Some)
  have one: "vehicles db1 = [v1]"
    using a v1
    by (auto simp: approve_vehicle_kyv_def require_vehicle_def v files save_vehicle_def Let_def update_row_def
        find_vehicle_def bindR_eq_Inr split: if_splits)
  have "\<exists>y db2. reject_vehicle_kyv quiet_env 3 9 None (fleet_rejection ''transport_authorization'') 2 db1 = Inr (y, db2)"
    using id1
    by (simp add: reject_vehicle_kyv_def require_vehicle_def v1 apply_rejection_decisions_def
        rejected_item_def explained_def fleet_rejection_def str_or_def VEHICLE_DOCUMENT_TYPES_def Let_def
        reviewed_vehicle_def save_vehicle_def update_row_def one)
  then obtain y db2 where b: "reject_vehicle_kyv quiet_env 3 9 None (fleet_rejection ''transport_authorization'') 2 db1
    = Inr (y, db2)" by blast
  have o: "map dd_document_type (fleet_rejection ''transport_authorization'') = [Some ''transport_authorization'']"
    by (simp add: fleet_rejection_def)
  from old_rejection_returns [OF v t st a o b] a b show ?thesis by blast
qed

section \<open>The backoffice\<close>

definition no_accounts :: auth_db where
  "no_accounts = \<lparr>users = [], otp_codes = [], next_auth_id = 1\<rparr>"

lemma provisioned_driver_conflicts_witness:
  "\<forall>s. provision quiet_env 8 None ''L1'' s 1 \<lparr>ry_auth = no_accounts, ry_fleet = fleet_of trip_fleet\<rparr>
    = Inl (ApiError 409 ''DRIVER_PROVISIONING_CONFLICT'')"
proof
  fix s
  have "find_profile_by_user 8 (fleet_rides (ry_fleet \<lparr>ry_auth = no_accounts, ry_fleet = fleet_of trip_fleet\<rparr>))
      = Some trip_driver"
    by (simp add: fleet_of_def find_profile_by_user_def fleet_rows)
  from provisioned_driver_conflicts [OF this, of quiet_env None "''L1''" s 1]
  show "provision quiet_env 8 None ''L1'' s 1 \<lparr>ry_auth = no_accounts, ry_fleet = fleet_of trip_fleet\<rparr>
    = Inl (ApiError 409 ''DRIVER_PROVISIONING_CONFLICT'')"
    by (simp add: find_user_def no_accounts_def)
qed

definition back_claims :: claims where
  "back_claims = [(''role'', JStr ''service''), (''token_type'', JStr ''service''), (''status'', JStr ''active''),
     (''sub'', JStr ''service:backoffice''), (''client_id'', JStr ''bo''), (''scope'', JStr ''diddigo:partners:write'')]"

text \<open>Tokens of user 2 issued in the first second, and a service token that never expires.\<close>

definition demo_auth_env :: auth_env where
  "demo_auth_env = \<lparr>au_encode = (\<lambda>c. if jget c ''typ'' = JStr ''access'' then ''A'' else ''R''),
     au_decode = (\<lambda>now t.
       if t = ''A'' then (if 3600000000 \<le> now then Inl EXPIRED_SIGNATURE
         else Inr [(''sub'', juuid 2), (''role'', JStr ''passenger''), (''typ'', JStr ''access''),
           (''iat'', JInt 0), (''exp'', JInt 3600)])
       else (if 86400000000 \<le> now then Inl EXPIRED_SIGNATURE
         else Inr [(''sub'', juuid 2), (''typ'', JStr ''refresh''), (''iat'', JInt 0), (''exp'', JInt 86400)])),
     au_identity_mode = False, au_identity_decode = (\<lambda>_ _. Inl JWKS_UNAVAILABLE),
     au_service_decode = (\<lambda>_ _ _. Inr back_claims), au_profile = None, au_sha256_hex = (\<lambda>c. c), au_code = 7,
     au_access_minutes = 60, au_refresh_days = 1, au_rate_limit_seconds = 60, au_code_lifetime_seconds = 300\<rparr>"

definition demo_back_env :: back_env where
  "demo_back_env = \<lparr>be_auth = demo_auth_env\<lparr>au_identity_mode := True\<rparr>, be_driver = quiet_env,
     be_fingerprint = (\<lambda>v. case vget ''action'' v of VStr a \<Rightarrow> a | _ \<Rightarrow> []), be_kyc_ttl = 600,
     be_provisioning_ttl = 600\<rparr>"

definition back_call :: s2s_call where
  "back_call = \<lparr>sc_token = Some ''S'', sc_client = Some ''bo'', sc_backoffice_actor = Some 5, sc_actor = None,
     sc_request_id = 90, sc_idempotency_key = ''k''\<rparr>"

definition back_accounts :: auth_db where
  "back_accounts = \<lparr>users = [new_user 5 ''+2250700000'' UR_ADMIN US_ACTIVE None], otp_codes = [], next_auth_id = 6\<rparr>"

definition no_documents :: partner_documents where
  "no_documents = \<lparr>px_registration_document = no_attachment, px_tax_document = no_attachment,
     px_representative_id_document = no_attachment, px_fleet_ownership_document = no_attachment\<rparr>"

definition back_office :: "fleet \<Rightarrow> registry office" where
  "back_office fl = \<lparr>oc_commands = Map.empty, oc_audit = [], oc_db = \<lparr>ry_auth = back_accounts, ry_fleet = fl\<rparr>\<rparr>"

lemma words_one: "\<forall>c \<in> set s. \<not> is_space c \<Longrightarrow> words acc s = (if rev acc @ s = [] then [] else [rev acc @ s])"
  by (induction s arbitrary: acc) auto

lemma back_authorized:
  "authorized (be_auth demo_back_env) ''diddigo:partners:write'' back_call now back_accounts
    = Inr (back_claims, new_user 5 ''+2250700000'' UR_ADMIN US_ACTIVE None)"
proof -
  have "words [] ''diddigo:partners:write'' = [''diddigo:partners:write'']"
    by (simp add: is_space_def)
  then show ?thesis
    by (simp add: authorized_def require_backoffice_service_token_def require_identity_service_token_def
        demo_back_env_def demo_auth_env_def back_call_def str_or_def decode_service_token_def back_claims_def jget_def
        canonicalize_scopes_def require_s2s_admin_actor_def find_user_def back_accounts_def new_user_def)
qed

definition a_partner :: "string \<Rightarrow> partner_command" where
  "a_partner name = PC_CREATE name ''company'' None None None True ''percentage'' (1 / 5) no_documents"

lemma partner_write_runs:
  assumes "live_entry now (command_key ''partner-command'' (str_or (sc_client c) []) (sc_idempotency_key c)) (oc_commands w) = None"
    and "run_partner p (us_id actor) now (ry_fleet (oc_db w)) = Inr (result, fl)"
    and "resolved_target (command_partner p) actor result = Inr t"
  shows "\<exists>w'. partner_write env p c claims actor now w = (Inr result, w') \<and> oc_db w' = (oc_db w)\<lparr>ry_fleet := fl\<rparr>"
  using assms by (simp add: partner_write_def s2s_command_def reserve_command_def bindR_def on_fleet_def)

lemma partner_created:
  "\<exists>v w'. handle_partner_command demo_back_env (a_partner ''P'') back_call 0 (back_office (fleet_of trip_fleet)) = (Inr v, w')
    \<and> (\<exists>p. partners (ry_fleet (oc_db w')) = [p])"
proof -
  let ?w = "back_office (fleet_of trip_fleet)"
  have "\<exists>items fl. run_partner (a_partner ''P'') 5 0 (fleet_of trip_fleet) = Inr (VObj ((''id'', vid 1) # items), fl)
      \<and> (\<exists>p. partners fl = [p])"
    by (simp add: a_partner_def create_partner_def required_text_def blank_to_none_def strip_def partner_type_of_def
        commission_mode_of_def commission_rate_of_def partner_uuid_def fleet_of_def Let_def save_partner_def
        numeric_6_4_def partner_payload_def partner_fields_def is_space_def)
  then obtain items fl p where run: "run_partner (a_partner ''P'') 5 0 (fleet_of trip_fleet) = Inr (VObj ((''id'', vid 1) # items), fl)"
    and p: "partners fl = [p]" by blast
  have "uuid_parse (uuid_str 1) = Some 1" by (rule uuid_roundtrip) simp
  moreover have "uuid_str 1 \<noteq> []" by (simp add: uuid_str_def Let_def)
  ultimately have target: "resolved_target (command_partner (a_partner ''P'')) actor (VObj ((''id'', vid 1) # items)) = Inr 1"
    for actor
    by (simp add: a_partner_def resolved_target_def vget_def vid_def)
  let ?actor = "new_user 5 ''+2250700000'' UR_ADMIN US_ACTIVE None"
  have free: "live_entry 0 (command_key ''partner-command'' (str_or (sc_client back_call) []) (sc_idempotency_key back_call))
      (oc_commands ?w) = None" by (simp add: live_entry_def back_office_def)
  have ran: "run_partner (a_partner ''P'') (us_id ?actor) 0 (ry_fleet (oc_db ?w)) = Inr (VObj ((''id'', vid 1) # items), fl)"
    using run by (simp add: back_office_def new_user_def)
  obtain w' where "partner_write demo_back_env (a_partner ''P'') back_call back_claims ?actor 0 ?w
      = (Inr (VObj ((''id'', vid 1) # items)), w')" "oc_db w' = (oc_db ?w)\<lparr>ry_fleet := fl\<rparr>"
    using partner_write_runs [OF free ran target] by blast
  moreover have "authorized (be_auth demo_back_env) ''diddigo:partners:write'' back_call 0 (ry_auth (oc_db ?w))
      = Inr (back_claims, ?actor)"
    using back_authorized by (simp add: back_office_def)
  ultimately show ?thesis using p by (auto simp: handle_partner_command_def guarded_def)
qed

lemma partner_key_hides_command_witness:
  "\<exists>v w'. handle_partner_command demo_back_env (a_partner ''P'') back_call 0 (back_office (fleet_of trip_fleet)) = (Inr v, w')
    \<and> handle_partner_command demo_back_env (a_partner ''Q'') back_call 1 w' = (Inr v, w')"
proof -
  let ?w = "back_office (fleet_of trip_fleet)"
  obtain v w' where r: "handle_partner_command demo_back_env (a_partner ''P'') back_call 0 ?w = (Inr v, w')"
    using partner_created by blast
  have free: "live_entry 0 (command_key ''partner-command'' (str_or (sc_client back_call) []) (sc_idempotency_key back_call))
      (oc_commands ?w) = None" by (simp add: live_entry_def back_office_def)
  have action: "partner_action (a_partner ''Q'') = partner_action (a_partner ''P'')" by (simp add: a_partner_def)
  have later: "(1::int) < 0 + seconds (be_kyc_ttl demo_back_env)" by (simp add: demo_back_env_def seconds_def)
  have auth: "authorized (be_auth demo_back_env) ''diddigo:partners:write'' back_call now (ry_auth (oc_db ?w))
      = Inr (back_claims, new_user 5 ''+2250700000'' UR_ADMIN US_ACTIVE None)" for now
    using back_authorized by (simp add: back_office_def)
  from partner_key_hides_command [OF r free action later auth auth] r show ?thesis by blast
qed


section \<open>Accounts\<close>

definition a_phone :: string where "a_phone = ''+2250102030405''"

lemma a_phone_valid: "validate_phone a_phone = Inr a_phone"
  by (simp add: validate_phone_def a_phone_def is_space_def is_digit_def)

definition a_code :: otp_code where
  "a_code = \<lparr>ot_id = 1, ot_phone = a_phone, ot_code_hash = ''000007'', ot_expires_at = seconds 300, ot_created_at = 0,
     ot_consumed_at = None\<rparr>"

lemma code_text: "zero_pad 6 (nat_str 7) = ''000007''" by code_simp

lemma a_code_sent:
  "request_otp demo_auth_env a_phone 0 no_accounts
    = Inr (''000007'', no_accounts\<lparr>otp_codes := [a_code], next_auth_id := 2\<rparr>)"
  by (simp add: request_otp_def a_phone_valid find_latest_unconsumed_def no_accounts_def auth_uuid_def save_otp_def
      insert_row_def demo_auth_env_def a_code_def code_text Let_def numeral_2_eq_2)

definition sent_accounts :: auth_db where
  "sent_accounts = no_accounts\<lparr>otp_codes := [a_code], next_auth_id := 2\<rparr>"

lemma a_code_verified:
  "\<exists>s db u. verify_otp demo_auth_env a_phone ''000007'' None 1 sent_accounts = Inr (s, db) \<and> se_user s = Some u
    \<and> us_id u = 2 \<and> us_role u = UR_PASSENGER \<and> us_status u = US_ACTIVE"
  by (simp add: verify_otp_def a_phone_valid find_latest_unconsumed_def sent_accounts_def no_accounts_def a_code_def
      seconds_def demo_auth_env_def mark_consumed_def verified_user_def find_by_phone_def auth_uuid_def Let_def
      save_user_def insert_row_def session_of_def new_user_def)

lemma sent_accounts_ok: "accounts_ok sent_accounts"
  by (simp add: accounts_ok_def sent_accounts_def no_accounts_def)

lemma verified_code_is_spent_witness:
  "\<exists>s db u. verify_otp demo_auth_env a_phone ''000007'' None 1 sent_accounts = Inr (s, db) \<and> se_user s = Some u
    \<and> filter (\<lambda>x. ot_consumed_at x = None) (otp_codes db) = []"
proof -
  obtain s db u where v: "verify_otp demo_auth_env a_phone ''000007'' None 1 sent_accounts = Inr (s, db)" "se_user s = Some u"
    using a_code_verified by blast
  have c: "find_latest_unconsumed a_phone sent_accounts = Some a_code" "otp_codes sent_accounts = [a_code]"
    by (simp_all add: find_latest_unconsumed_def sent_accounts_def no_accounts_def a_code_def)
  from verified_code_is_spent [OF sent_accounts_ok v(1)] v c a_phone_valid show ?thesis by auto
qed

lemma self_registered_admin_witness:
  "\<exists>r db1 code db2 s db3 u. register a_phone None ''admin'' 0 no_accounts = Inr (r, db1)
    \<and> request_otp demo_auth_env a_phone 0 db1 = Inr (code, db2)
    \<and> verify_otp demo_auth_env a_phone code None 1 db2 = Inr (s, db3)
    \<and> se_user s = Some u \<and> us_role u = UR_ADMIN \<and> us_status u = US_ACTIVE"
proof -
  have ok: "accounts_ok no_accounts" by (simp add: accounts_ok_def no_accounts_def)
  define u0 where "u0 = (new_user 1 a_phone UR_ADMIN US_PENDING_VERIFICATION None)
    \<lparr>us_created_at := Some 0, us_updated_at := Some 0\<rparr>"
  have u0: "us_id u0 = 1" "us_phone u0 = a_phone" "us_status u0 = US_PENDING_VERIFICATION"
    by (simp_all add: u0_def new_user_def)
  let ?db1 = "no_accounts\<lparr>users := [u0], next_auth_id := 2\<rparr>"
  let ?db2 = "?db1\<lparr>otp_codes := [a_code\<lparr>ot_id := 2\<rparr>], next_auth_id := 3\<rparr>"
  have "\<exists>r. register a_phone None ''admin'' 0 no_accounts = Inr (r, ?db1)"
    by (simp add: register_def a_phone_valid user_role_of_def find_by_phone_def no_accounts_def auth_uuid_def Let_def
        save_user_def insert_row_def u0_def new_user_def str_or_def)
  then obtain r where r: "register a_phone None ''admin'' 0 no_accounts = Inr (r, ?db1)" by blast
  have q: "request_otp demo_auth_env a_phone 0 ?db1 = Inr (''000007'', ?db2)"
    by (simp add: request_otp_def a_phone_valid find_latest_unconsumed_def no_accounts_def auth_uuid_def save_otp_def
        insert_row_def demo_auth_env_def a_code_def code_text Let_def numeral_2_eq_2)
  have "\<exists>s db3. verify_otp demo_auth_env a_phone ''000007'' None 1 ?db2 = Inr (s, db3)"
    by (simp add: verify_otp_def a_phone_valid find_latest_unconsumed_def no_accounts_def a_code_def
        seconds_def demo_auth_env_def mark_consumed_def verified_user_def find_by_phone_def u0 save_user_def)
  then obtain s db3 where v: "verify_otp demo_auth_env a_phone ''000007'' None 1 ?db2 = Inr (s, db3)" by blast
  from self_registered_admin [OF ok r q v] r q v show ?thesis by blast
qed

lemma session_roundtrip_witness:
  "\<exists>s db u. verify_otp demo_auth_env a_phone ''000007'' None 1 sent_accounts = Inr (s, db) \<and> se_user s = Some u
    \<and> refresh demo_auth_env (se_access_token s) 5 db = Inl (ApiError 401 ''TOKEN_INVALID'')
    \<and> (\<exists>row. get_current_user demo_auth_env (Some (se_access_token s)) 5 db = Inr (identity_of row, db))"
proof -
  obtain s db u where v: "verify_otp demo_auth_env a_phone ''000007'' None 1 sent_accounts = Inr (s, db)" "se_user s = Some u"
    and u: "us_id u = 2" "us_role u = UR_PASSENGER" "us_status u = US_ACTIVE"
    using a_code_verified by blast
  have m: "\<not> au_identity_mode demo_auth_env" by (simp add: demo_auth_env_def)
  have i: "us_id u < 2 ^ 128" using u by simp
  have a: "signs demo_auth_env (access_claims demo_auth_env (us_id u) (user_role_value (us_role u)) 1) 1 3600"
    by (simp add: signs_def access_claims_def demo_auth_env_def jget_def numeric_date_def seconds_def u)
  have r: "signs demo_auth_env (refresh_claims demo_auth_env (us_id u) 1) 1 86400"
    by (simp add: signs_def refresh_claims_def demo_auth_env_def jget_def numeric_date_def seconds_def u)
  have t: "(1::int) \<le> 5" "(5::int) < 3600 * 1000000" "(5::int) < 86400 * 1000000" by simp_all
  from session_roundtrip [OF sent_accounts_ok m v i a r t] v u show ?thesis by auto
qed

section \<open>The identity service\<close>

lemma reconciliation_witness:
  "\<exists>n m db'. reconcile_all 1 60 no_drivers 0 trip_fleet = Some (Inr ((n, m), db'))
    \<and> desired 8 db' = Some (Some ''offline'', [''go_online''])"
proof -
  have ok: "outbox_ok trip_fleet" by (simp add: outbox_ok_def fleet_rows)
  have room: "next_ride_id trip_fleet + length (profiles trip_fleet) \<le> 2 ^ 128"
    by (simp add: trip_fleet_def)
  have users: "distinct (map dp_user_id (profiles trip_fleet))" by (simp add: fleet_rows)
  have "shown_status (\<lambda>u. is_online_and_available u 0 no_drivers) trip_driver trip_fleet = (''offline'', [''go_online''])"
    by (simp add: shown_status_def operational_status_def newest_vehicle_def fleet_rows asc_by_def
        is_online_and_available_def no_drivers_def alive_def)
  with reconciliation [OF ok _ room users, of 1 60 no_drivers 0] show ?thesis by (fastforce simp: fleet_rows)
qed

end
