(* ===== verification/Live_Properties.thy ===== *)
theory Live_Properties
  imports Live_Safety Fleet_Witnesses
begin

text \<open>
  Properties of the live events, over the states that requests, messages and timers reach: who is
  subscribed to a ride, who hears of its creation, how long an idle driver is offered rides, and what a
  stuck wait or a patched cancellation does to its driver.
\<close>

section \<open>Subscriptions\<close>


text \<open>The id that the next ride gets has no subscription.\<close>

lemma fresh_unheard: "live_inv lv \<Longrightarrow> hb_by_ride (lv_hub lv) (next_ride_id (live_rides lv)) = []"
proof (rule ccontr)
  let ?i = "next_ride_id (live_rides lv)"
  assume inv: "live_inv lv" and "hb_by_ride (lv_hub lv) ?i \<noteq> []"
  then obtain s where "s \<in> set (hb_by_ride (lv_hub lv) ?i)" by (cases "hb_by_ride (lv_hub lv) ?i") auto
  with inv have "entitled lv s ?i" by (simp add: live_inv_def)
  then obtain u role db0 r0 where re: "ride_reachable db0" and la: "ride_later db0 (live_rides lv)"
    and r0: "find_ride ?i db0 = Some r0"
    unfolding entitled_def can_access_ride_def by (auto split: option.splits)
  obtain r where r: "find_ride ?i (live_rides lv) = Some r" using onwards.lasts [OF re r0 _ la, of r0] by (auto simp: same_ride_def)
  have "ride_inv (live_rides lv)" using reachable_inv [OF reachable_later [OF re la]] .
  then have "rd_id r < ?i" using find_ride_mem [OF r] by (auto simp: ride_inv_def row_ok_def)
  then show False using find_ride_mem [OF r] by simp
qed

lemma try_match_outcome:
  assumes "try_match env ride now m = Inr (d, m1)" and "rd_status ride = REQUESTED"
  shows "d = given_up \<or> mt_rides m1 = mt_rides m"
proof -
  consider (gone) "search_budget_exceeded env ride now \<or> (0 < me_max_commission env
      \<and> (case rd_platform_commission ride of None \<Rightarrow> False | Some c \<Rightarrow> me_max_commission env < c))"
    | (asked) "\<not> (search_budget_exceeded env ride now \<or> (0 < me_max_commission env
      \<and> (case rd_platform_commission ride of None \<Rightarrow> False | Some c \<Rightarrow> me_max_commission env < c)))"
    by blast
  then show ?thesis
  proof cases
    case gone
    with assms show ?thesis by (auto simp: try_match_def bindR_eq_Inr)
  next
    case asked
    with assms show ?thesis
      by (auto simp: try_match_def bindR_eq_Inr Let_def split: if_splits)
  qed
qed

text \<open>
  When no driver can be offered a new ride, its passenger is told so by nothing: the answer says
  \<open>requested\<close>, and the event goes to the subscribers of an id that nobody can have subscribed to.
\<close>

theorem creation_unheard:
  assumes "live_reachable lv" and "route_create_ride env u q method scheduled now lv = (Inr v, lv')"
    and "find_ride (next_ride_id (live_rides lv)) (live_rides lv') = Some r" and "rd_status r = NO_DRIVER_FOUND"
  shows "field_of ''status'' v = VStr ''requested'' \<and> lv_hub lv' = lv_hub lv"
proof -
  obtain ride db1 where q: "request_ride (iu_id u) (iu_is_review_account u) q method scheduled now (live_rides lv)
      = Inr (ride, db1)"
    using assms(2) by (auto simp: route_create_ride_def split: sum.splits)
  obtain d m1 where m: "try_match (wv_match env) ride now ((lv_matching lv)\<lparr>mt_rides := db1\<rparr>) = Inr (d, m1)"
    using assms(2) by (auto simp: route_create_ride_def q split: sum.splits)
  have v: "v = ride_creation_payload ride"
    and lv': "lv' = announce_dispatch env (Some ride) (rd_id ride) d (lv\<lparr>lv_matching := m1\<rparr>)"
    using assms(2) by (simp_all add: route_create_ride_def q m)
  note new = requested_ride [OF q]
  have rides': "live_rides lv' = mt_rides m1"
    unfolding lv' announce_dispatch_def tell_def live_rides_def by (simp split: bool.split option.split)
  have "d = given_up"
  proof (rule ccontr)
    assume "d \<noteq> given_up"
    then have "mt_rides m1 = db1" using try_match_outcome [OF m new(2)] by simp
    then obtain row where "find_ride (next_ride_id (live_rides lv)) (live_rides lv') = Some row" "core row = core ride"
      using new(1,3) rides' unfolding as_saved_def by auto
    then have "rd_status r = REQUESTED" using assms(3) new(2) by (simp add: core_def)
    with assms(4) show False by simp
  qed
  then have "lv_hub lv' = lv_hub lv"
    using fresh_unheard [OF reachable_live_inv [OF assms(1)]] new(1)
    by (simp add: lv' announce_dispatch_def given_up_def tell_def broadcast_no_driver_found_def send_to_ride_def fan_out_def)
  moreover have "field_of ''status'' v = VStr ''requested''"
    unfolding v ride_creation_payload_def field_of_def view_fields_def by (simp add: new(2))
  ultimately show ?thesis by blast
qed

section \<open>An idle driver\<close>

text \<open>What sockets alone do: opening, messages, closing.\<close>

inductive socket_step :: "live \<Rightarrow> live \<Rightarrow> bool" where
  socket_open: "socket_step lv (snd (ws_open aenv s token now lv))"
| socket_message: "socket_step lv (ws_receive env s message now lv)"
| socket_close: "socket_step lv (ws_close s lv)"

definition unrefreshed :: "live \<Rightarrow> live \<Rightarrow> bool" where
  "unrefreshed lv lv' \<longleftrightarrow> (\<forall>d. dl_available (mt_locations (lv_matching lv')) d
     \<in> {dl_available (mt_locations (lv_matching lv)) d, None})"

lemma unrefreshed_trans: "unrefreshed a b \<Longrightarrow> unrefreshed b c \<Longrightarrow> unrefreshed a c"
  unfolding unrefreshed_def by (metis insert_iff singletonD)

lemma unrefreshed_reply: "unrefreshed lv (snd (reply env s frame lv))" "unrefreshed lv (snd (reply_error env s code lv))"
  by (simp_all add: reply_error_def reply_def unrefreshed_def)

lemma unrefreshed_and_then:
  "unrefreshed lv (snd r) \<Longrightarrow> (\<And>lv1. unrefreshed lv1 (snd (f lv1))) \<Longrightarrow> unrefreshed lv (snd (and_then r f))"
  by (auto simp: and_then_def split: prod.split sum.split intro: unrefreshed_trans)

lemma unrefreshed_parts:
  "unrefreshed lv (snd (record_position env u p v now lv))"
  "unrefreshed lv (snd (stop_waiting_if_vehicle_moves env u now lv))"
  "unrefreshed lv (ws_end s u role lv)"
  by (auto simp: record_position_def stop_waiting_if_vehicle_moves_def ws_end_def go_offline_def update_position_def
      Let_def unrefreshed_def split: option.split sum.split prod.split)

lemma unrefreshed_hub: "unrefreshed (lv\<lparr>lv_hub := h\<rparr>) lv' \<Longrightarrow> unrefreshed lv lv'"
  by (simp add: unrefreshed_def)

lemma unrefreshed_message: "unrefreshed lv (snd (handle_message env s message u role now lv))"
proof -
  have push: "unrefreshed lv (snd (handle_location_push env s message u role now lv))"
    unfolding handle_location_push_def Let_def
    by (auto intro!: unrefreshed_and_then unrefreshed_parts unrefreshed_reply
        unrefreshed_hub [OF unrefreshed_reply(1)] intro: unrefreshed_def [THEN iffD2] split: option.split)
  have sub: "unrefreshed lv (snd (handle_subscribe env s message u role lv))"
    unfolding handle_subscribe_def
    by (auto intro!: unrefreshed_reply unrefreshed_hub [OF unrefreshed_reply(1)] split: option.split)
  show ?thesis unfolding handle_message_def Let_def
    using push sub unrefreshed_reply by (auto split: view.split)
qed

lemma unrefreshed_receive: "unrefreshed lv (ws_receive env s message now lv)"
proof (cases "lv_sessions lv s")
  case None
  then show ?thesis by (simp add: ws_receive_def unrefreshed_def)
next
  case (Some x)
  obtain u role where x: "x = (u, role)" by fastforce
  obtain r lv1 where h: "handle_message env s message u role now lv = (r, lv1)" by fastforce
  have one: "unrefreshed lv lv1" using unrefreshed_message [of lv env s message u role now] h by simp
  have "unrefreshed lv (ws_end s u role (snd (reply env s f lv1)))" "unrefreshed lv (ws_end s u role lv1)" for f
    using one unrefreshed_trans unrefreshed_reply(1) unrefreshed_parts(3) by blast+
  with one show ?thesis by (auto simp: ws_receive_def Some x h split: sum.split ws_error.split)
qed

lemma unrefreshed_socket: "socket_step lv lv' \<Longrightarrow> unrefreshed lv lv'"
proof (induction rule: socket_step.induct)
  case (socket_open lv aenv s token now)
  show ?case by (auto simp: ws_open_def unrefreshed_def split: sum.split exn.split)
next
  case (socket_message lv env s message now)
  show ?case by (rule unrefreshed_receive)
next
  case (socket_close lv s)
  show ?case using unrefreshed_parts(3)
    by (auto simp: ws_close_def split: option.split) (auto simp: unrefreshed_def)
qed

lemma unrefreshed_run: "socket_step\<^sup>*\<^sup>* lv lv' \<Longrightarrow> unrefreshed lv lv'"
proof (induction rule: rtranclp_induct)
  case base
  show ?case by (simp add: unrefreshed_def)
next
  case (step a b)
  from unrefreshed_trans [OF step.IH unrefreshed_socket [OF step.hyps(2)]] show ?case .
qed

lemma goes_online_until:
  assumes "handle_go_online env u p t w = (Inr v, w')"
  shows "dl_available (dw_locations w') (iu_id u) = Some (t + seconds AVAILABILITY_TTL_SECONDS)"
proof -
  obtain q x w1 where "online_checks env u w = Inr ((q, x), w1)"
    using assms by (auto simp: handle_go_online_def split: sum.splits)
  with assms show ?thesis
    by (auto simp: handle_go_online_def publish_presence_def bindR_eq_Inr set_available_def Let_def
        split: sum.splits)
qed

text \<open>
  C31: positions keep a driver present but not available: whatever the sockets carry, five minutes after
  he went online an idle driver is found by no search for drivers any more.
\<close>

theorem idle_driver_forgotten:
  assumes "handle_go_online env u p t w = (Inr v, w')" and "mt_locations (lv_matching lv) = dw_locations w'"
    and "socket_step\<^sup>*\<^sup>* lv lv'" and "t + seconds AVAILABILITY_TTL_SECONDS \<le> now"
  shows "iu_id u \<notin> set (find_available_nearby geo around radius n now (mt_locations (lv_matching lv')))"
proof -
  have "dl_available (mt_locations (lv_matching lv')) (iu_id u) \<in> {Some (t + seconds AVAILABILITY_TTL_SECONDS), None}"
    using unrefreshed_run [OF assms(3)] goes_online_until [OF assms(1)] assms(2) unfolding unrefreshed_def by metis
  with assms(4) have "\<not> is_online_and_available (iu_id u) now (mt_locations (lv_matching lv'))"
    by (auto simp: is_online_and_available_def alive_def)
  then show ?thesis using found_available by blast
qed

section \<open>A driver on a ride\<close>

text \<open>
  On a wait that nothing started (a patched status), the first position that shows the vehicle moving
  ends the driver's connection and takes him offline; the ride goes on waiting.
\<close>

theorem stuck_wait_ends_socket:
  assumes "lv_sessions lv s = Some (u, ''driver'')" and "find_active_by_driver_user_id u (live_rides lv) = Some ride"
    and "find_ride (rd_id ride) (live_rides lv) = Some ride" and "unstarted_wait ride"
    and "message = VObj items" and "field_of ''event'' message = VStr ''driver.location_push''"
    and "parse_location (field_of ''location'' message) = Some p" and "geoadd_accepts p"
    and "parse_speed (field_of ''speed_kmh'' message) = Some v" and "wv_stationary_speed env < v"
  shows "lv_sessions (ws_receive env s message now lv) s = None
    \<and> get_position u (mt_locations (lv_matching (ws_receive env s message now lv))) = None
    \<and> \<not> is_online_and_available u later (mt_locations (lv_matching (ws_receive env s message now lv)))
    \<and> live_rides (ws_receive env s message now lv) = live_rides lv"
proof -
  obtain lv1 where r: "record_position env u p (Some v) now lv = (Inr (), lv1)" and lr: "live_rides lv1 = live_rides lv"
    using assms(8) by (simp add: record_position_def live_rides_def Let_def)
  have sw: "stop_waiting (wv_ride env) (rd_id ride) u role reason now (live_rides lv)
      = Inl (ApiError 409 ''WAITING_NOT_ACTIVE'') \<or> (\<exists>e. driver_ride (rd_id ride) u role (live_rides lv) = Inl e
         \<and> stop_waiting (wv_ride env) (rd_id ride) u role reason now (live_rides lv) = Inl e)" for role reason
    using assms(3,4)
    by (auto simp: stop_waiting_def driver_ride_def load_ride_def stop_waiting_saved_def stop_waiting_ride_def
        unstarted_wait_def bindR_def)
  then obtain e where "stop_waiting (wv_ride env) (rd_id ride) u ''driver'' ''vehicle_moved'' now (live_rides lv) = Inl e"
    by blast
  then have w: "stop_waiting_if_vehicle_moves env u now lv1 = (Inl (FAILED e), lv1)"
    using assms(2,4) lr by (simp add: stop_waiting_if_vehicle_moves_def live_rides_def unstarted_wait_def Let_def)
  have "handle_message env s message u ''driver'' now lv = (Inl (FAILED e), lv1)"
    using assms(5-10) r w by (simp add: handle_message_def handle_location_push_def and_then_def Let_def)
  then have "ws_receive env s message now lv = ws_end s u ''driver'' lv1" by (simp add: ws_receive_def assms(1))
  then show ?thesis using lr
    by (simp add: ws_end_def Let_def get_position_def go_offline_def is_online_and_available_def alive_def live_rides_def)
qed

text \<open>
  \<open>POST /cancel\<close> gives the driver of the ride back to matching; the same end by \<open>PATCH /status\<close> leaves
  him as busy as the accept made him.
\<close>

theorem cancelled_driver_freed:
  assumes "route_cancel env u i reason now lv = (Inr v, lv')"
    and "find_ride i (live_rides lv') = Some r" and "rd_driver_id r = Some d"
    and "find_profile d (live_rides lv') = Some p"
  shows "is_available (dp_user_id p) now (mt_locations (lv_matching lv'))
    \<and> (route_update_status env u2 i ''cancelled_by_driver'' now2 lv = (Inr v2, lv2) \<longrightarrow>
         mt_locations (lv_matching lv2) = mt_locations (lv_matching lv))"
proof
  obtain x db1 where "transact (live_rides lv) (cancel_ride (wv_ride env) i reason (iu_id u) (iu_role u) now (live_rides lv))
      = (Inr x, db1)" and lv': "lv' = changed env i (view_text (field_of ''status'' x)) now
        (release_driver_of i now (with_rides db1 lv))"
    using assms(1) by (auto simp: route_cancel_def call_rides_def split: prod.splits sum.splits)
  have keep: "live_rides (release_driver_of i now l) = live_rides l" for l
    by (auto simp: release_driver_of_def on_matching_def live_rides_def release_driver_def Let_def split: option.split)
  have db1: "live_rides lv' = db1"
    using lv' keep by (simp add: changed_def tell_def live_rides_def with_rides_def on_matching_def)
  show "is_available (dp_user_id p) now (mt_locations (lv_matching lv'))"
    using assms(2-4) find_ride_mem [OF assms(2)] unfolding db1
    by (simp add: lv' changed_def tell_def release_driver_of_def live_rides_def with_rides_def on_matching_def
        release_driver_def Let_def is_available_def set_available_def alive_def seconds_def AVAILABILITY_TTL_SECONDS_def)
  show "route_update_status env u2 i ''cancelled_by_driver'' now2 lv = (Inr v2, lv2) \<longrightarrow>
      mt_locations (lv_matching lv2) = mt_locations (lv_matching lv)"
    by (auto simp: route_update_status_def as_driver_def ride_status_of_def call_rides_def changed_def tell_def
        with_rides_def on_matching_def split: sum.splits prod.splits)
qed

end
