(* ===== verification/Live_Witnesses.thy ===== *)
theory Live_Witnesses
  imports Live_Properties Ride_Properties
begin

text \<open>The properties of the live events at concrete inputs, on the trip of Ride\_Trip.\<close>

section \<open>A ride that nobody can take\<close>

definition live_env :: ws_env where
  "live_env = \<lparr>wv_reaches = (\<lambda>_. True), wv_ride = trip_env, wv_telemetry_ttl = 60, wv_stationary_speed = 5,
     wv_match = trip_match_env\<lparr>me_geosearch := (\<lambda>_ _ _ _. [])\<rparr>\<rparr>"

definition live_of :: "ride_db \<Rightarrow> driver_locations \<Rightarrow> (nat \<Rightarrow> (uuid \<times> string) option) \<Rightarrow> live" where
  "live_of db l sessions = \<lparr>lv_matching = \<lparr>mt_rides = db, mt_pay = empty_pay_db, mt_offers = no_offers,
     mt_locations = l\<rparr>, lv_hub = empty_hub, lv_sessions = sessions\<rparr>"

definition live_before :: live where
  "live_before = live_of trip_fleet no_drivers Map.empty"

definition live_passenger :: identity where
  "live_passenger = fleet_user\<lparr>iu_id := 7, iu_role := ''passenger''\<rparr>"

lemma before_reachable: "live_reachable live_before"
proof -
  have "framed empty_ride_db trip_fleet" by (simp add: framed_def trip_fleet_def empty_ride_db_def)
  then have "live_step live_start_state (live_start_state\<lparr>lv_matching := lv_matching live_before\<rparr>)"
    by (intro live_other) (simp add: live_before_def live_of_def live_start_state_def live_rides_def)
  moreover have "live_start_state\<lparr>lv_matching := lv_matching live_before\<rparr> = live_before"
    by (simp add: live_before_def live_of_def live_start_state_def)
  ultimately show ?thesis unfolding live_reachable_def by simp
qed

lemma live_asked: "request_ride 7 False 4 ''cash'' None 0 trip_fleet = Inr (trip_ride, trip_asked)"
  by (simp add: trip_asked_value request_ride_def ride_payment_method_of_def find_ride_quote_def
      has_active_ride_def fresh_id_def save_ride_def trip_ride_def [symmetric] Let_def insert_row_def
      consume_ride_quote_def update_row_def record_history_def)

definition trip_lost :: ride where
  "trip_lost = ride_row 0 None (moved_to NO_DRIVER_FOUND 0 None trip_ride)"

lemma trip_lost_fields: "rd_id trip_lost = 10" "rd_status trip_lost = NO_DRIVER_FOUND"
  "rd_passenger_user_id trip_lost = 7"
  by (simp_all add: trip_lost_def ride_row_def moved_to_def first_visit_def)

lemma live_given_up:
  "\<exists>m1 h. try_match (wv_match live_env) trip_ride 0 ((lv_matching live_before)\<lparr>mt_rides := trip_asked\<rparr>) = Inr (given_up, m1)
    \<and> mt_rides m1 = trip_state trip_lost h []"
proof -
  have n: "next_candidates (wv_match live_env) trip_ride 0 ((lv_matching live_before)\<lparr>mt_rides := trip_asked\<rparr>)
      = Inr ([], empty_pay_db)"
    by (simp add: next_candidates_def live_env_def trip_match_env_def trip_config_def live_before_def live_of_def
        already_tried_def no_offers_def find_available_nearby_def search_drivers_def rank_by_eta_def py_take_def Let_def)
  have s: "\<not> search_budget_exceeded (wv_match live_env) trip_ride 0" "me_max_commission (wv_match live_env) = 0"
    "current_offers 0 10 (mt_offers (lv_matching live_before)) = []"
    by (simp_all add: search_budget_exceeded_def live_env_def trip_match_env_def trip_config_def seconds_def
        current_offers_def live_before_def live_of_def no_offers_def Let_def)
  have "\<exists>m2 h. give_up trip_ride 0 (((lv_matching live_before)\<lparr>mt_rides := trip_asked\<rparr>)\<lparr>mt_pay := empty_pay_db\<rparr>)
      = Inr m2 \<and> mt_rides m2 = trip_state trip_lost h []"
    by (simp add: give_up_def transition_def trip_asked_state trip_lost_def) blast
  then show ?thesis using n s by (auto simp: try_match_def Let_def)
qed

definition live_lost :: live where
  "live_lost = snd (route_create_ride live_env live_passenger 4 ''cash'' None 0 live_before)"

lemma lost_state:
  "\<exists>v h. route_create_ride live_env live_passenger 4 ''cash'' None 0 live_before = (Inr v, live_lost)
    \<and> live_rides live_lost = trip_state trip_lost h [] \<and> lv_sessions live_lost = Map.empty"
proof -
  obtain m1 h where m: "try_match (wv_match live_env) trip_ride 0 ((lv_matching live_before)\<lparr>mt_rides := trip_asked\<rparr>)
      = Inr (given_up, m1)" and r: "mt_rides m1 = trip_state trip_lost h []"
    using live_given_up by blast
  have q: "request_ride (iu_id live_passenger) (iu_is_review_account live_passenger) 4 ''cash'' None 0 (live_rides live_before)
      = Inr (trip_ride, trip_asked)"
    using live_asked by (simp add: live_passenger_def fleet_user_def live_rides_def live_before_def live_of_def)
  have e: "route_create_ride live_env live_passenger 4 ''cash'' None 0 live_before = (Inr (ride_creation_payload trip_ride),
      announce_dispatch live_env (Some trip_ride) 10 given_up (live_before\<lparr>lv_matching := m1\<rparr>))"
    by (simp add: route_create_ride_def q m)
  then have l: "live_lost = announce_dispatch live_env (Some trip_ride) 10 given_up (live_before\<lparr>lv_matching := m1\<rparr>)"
    by (simp add: live_lost_def)
  have "live_rides live_lost = mt_rides m1" "lv_sessions live_lost = Map.empty"
    by (simp_all add: l announce_dispatch_def given_up_def tell_def live_rides_def live_before_def live_of_def)
  with e l r have "route_create_ride live_env live_passenger 4 ''cash'' None 0 live_before
      = (Inr (ride_creation_payload trip_ride), live_lost)" "live_rides live_lost = trip_state trip_lost h []"
      "lv_sessions live_lost = Map.empty" by simp_all
  then show ?thesis by blast
qed

theorem creation_unheard_witness:
  "\<exists>v. route_create_ride live_env live_passenger 4 ''cash'' None 0 live_before = (Inr v, live_lost)
    \<and> field_of ''status'' v = VStr ''requested'' \<and> lv_hub live_lost = lv_hub live_before"
proof -
  obtain v h where v: "route_create_ride live_env live_passenger 4 ''cash'' None 0 live_before = (Inr v, live_lost)"
    and r: "live_rides live_lost = trip_state trip_lost h []"
    using lost_state by blast
  have "next_ride_id (live_rides live_before) = 10" by (simp add: live_rides_def live_before_def live_of_def)
  then have "find_ride (next_ride_id (live_rides live_before)) (live_rides live_lost) = Some trip_lost"
    by (simp add: r trip_lost_fields)
  from creation_unheard [OF before_reachable v this trip_lost_fields(2)] v show ?thesis by blast
qed








section \<open>A driver at a rank\<close>

definition push :: "string \<Rightarrow> view" where
  "push speed = ride_event ''driver.location_push''
     [(''location'', VObj [(''lat'', VInt 5), (''lng'', VStr ''5.0'')]), (''speed_kmh'', VStr speed)]"

definition rank_world :: driver_world where
  "rank_world = snd (handle_go_online fleet_online_env fleet_user (trip_point 5) 0 fleet_world)"

definition rank_live :: live where
  "rank_live = live_of trip_fleet (dw_locations rank_world) [1 \<mapsto> (8, ''driver'')]"

lemma push_reads:
  "field_of ''event'' (push v) = VStr ''driver.location_push''" "field_of ''speed_kmh'' (push v) = VStr v"
  "field_of ''ride_id'' (push v) = VNone"
  "parse_location (field_of ''location'' (push v)) = Some (trip_point 5)" "geoadd_accepts (trip_point 5)"
proof -
  have "float_of_str ''5.0'' = Some 5" by code_simp
  then show "parse_location (field_of ''location'' (push v)) = Some (trip_point 5)"
    by (simp add: push_def ride_event_def field_of_def view_fields_def parse_location_def trip_point_def)
qed (simp_all add: push_def ride_event_def field_of_def view_fields_def geoadd_accepts_def trip_point_def)

lemma push_speeds: "parse_speed (VStr ''0'') = Some 0" "parse_speed (VStr ''1e1'') = Some 10"
  by code_simp+

theorem idle_driver_forgotten_witness:
  "8 \<notin> set (find_available_nearby (\<lambda>_ _ _ _. [8]) (trip_point 5) 3 9 (seconds 301)
       (mt_locations (lv_matching (ws_receive live_env 1 (push ''0'') (seconds 299) rank_live))))
    \<and> [8] = find_nearby (\<lambda>_ _ _ _. [8]) (trip_point 5) 3 9 (seconds 301)
       (mt_locations (lv_matching (ws_receive live_env 1 (push ''0'') (seconds 299) rank_live)))"
proof
  let ?lv = "ws_receive live_env 1 (push ''0'') (seconds 299) rank_live"
  obtain v where v: "handle_go_online fleet_online_env fleet_user (trip_point 5) 0 fleet_world = (Inr v, rank_world)"
    using fleet_goes_online by (auto simp: rank_world_def)
  have l: "mt_locations (lv_matching rank_live) = dw_locations rank_world" by (simp add: rank_live_def live_of_def)
  have run: "socket_step\<^sup>*\<^sup>* rank_live ?lv" by (intro r_into_rtranclp socket_message)
  have t: "0 + seconds AVAILABILITY_TTL_SECONDS \<le> seconds 301" by (simp add: seconds_def AVAILABILITY_TTL_SECONDS_def)
  have u: "iu_id fleet_user = 8" by (simp add: fleet_user_def)
  show "8 \<notin> set (find_available_nearby (\<lambda>_ _ _ _. [8]) (trip_point 5) 3 9 (seconds 301) (mt_locations (lv_matching ?lv)))"
    using idle_driver_forgotten [OF v l run t] u by simp
  have o: "\<exists>lv1. ?lv = lv1 \<and> dl_seen (mt_locations (lv_matching lv1)) 8 = Some (seconds 299 + seconds PRESENCE_TTL_SECONDS)"
    using push_reads push_speeds(1)
    by (simp add: ws_receive_def rank_live_def live_of_def handle_message_def push_def ride_event_def
        handle_location_push_def record_position_def update_position_def live_env_def and_then_def reply_def Let_def)
  then show "[8] = find_nearby (\<lambda>_ _ _ _. [8]) (trip_point 5) 3 9 (seconds 301) (mt_locations (lv_matching ?lv))"
    by (simp add: find_nearby_def search_drivers_def alive_def seconds_def PRESENCE_TTL_SECONDS_def)
qed

section \<open>A stuck wait\<close>

definition stuck_live :: live where
  "stuck_live = live_of trip_stuck (update_position 60 8 (trip_point 5) None 0 no_drivers) [1 \<mapsto> (8, ''driver'')]"

theorem stuck_wait_ends_socket_witness:
  "lv_sessions (ws_receive live_env 1 (push ''1e1'') 9 stuck_live) 1 = None
    \<and> find_ride 10 (live_rides (ws_receive live_env 1 (push ''1e1'') 9 stuck_live)) = Some trip_stuck_ride"
proof -
  have st: "trip_stuck_ride \<in> set (rides trip_stuck)" "rides trip_stuck = [trip_stuck_ride]"
    "profiles trip_stuck = [trip_driver]"
    by (simp_all add: trip_stuck_def trip_going_state update_status_def wait_ended_first_def finish_status_def
        api_transition_def transition_def trip_stuck_ride_def record_ride_outcome_def Let_def)
  have r: "rd_id trip_stuck_ride = 10" "rd_status trip_stuck_ride = WAITING" "rd_driver_id trip_stuck_ride = Some 2"
    "unstarted_wait trip_stuck_ride"
    by (simp_all add: trip_stuck_ride_def unstarted_wait_def)
  have s: "lv_sessions stuck_live 1 = Some (8, ''driver'')" "live_rides stuck_live = trip_stuck"
    by (simp_all add: stuck_live_def live_of_def live_rides_def)
  have a: "find_active_by_driver_user_id 8 (live_rides stuck_live) = Some trip_stuck_ride"
    using st r by (simp add: s find_active_by_driver_user_id_def latest_requested_def is_active_def is_active_status_def trip_rows)
  have f: "find_ride (rd_id trip_stuck_ride) (live_rides stuck_live) = Some trip_stuck_ride"
    using trip_stuck_find by (simp add: s r)
  have m: "push ''1e1'' = VObj ((''event'', VStr ''driver.location_push'') #
      [(''location'', VObj [(''lat'', VInt 5), (''lng'', VStr ''5.0'')]), (''speed_kmh'', VStr ''1e1'')])"
    by (simp add: push_def ride_event_def)
  have v: "parse_speed (field_of ''speed_kmh'' (push ''1e1'')) = Some 10" using push_reads(2) push_speeds(2) by simp
  have w: "wv_stationary_speed live_env < 10" by (simp add: live_env_def)
  from stuck_wait_ends_socket [OF s(1) a f r(4) m push_reads(1,4,5) v w] trip_stuck_find s(2) show ?thesis by simp
qed

section \<open>A cancelled ride\<close>

definition matched_live :: live where
  "matched_live = live_of trip_matched no_drivers Map.empty"

lemma matched_cancelled:
  "\<exists>v lv' r. route_cancel live_env live_passenger 10 ''passenger_changed_mind'' 3 matched_live = (Inr v, lv')
     \<and> find_ride 10 (live_rides lv') = Some r \<and> rd_driver_id r = Some 2
     \<and> find_profile 2 (live_rides lv') = Some trip_driver"
proof -
  let ?r = "(moved_to CANCELLED_BY_PASSENGER 3 (Some [(''reason'', MStr ''passenger_changed_mind'')]) trip_ride1)
    \<lparr>rd_cancellation_reason := Some ''passenger_changed_mind''\<rparr>"
  have "\<not> is_assigned_driver trip_ride1 7 (trip_state trip_ride1 h es)" for h es
    by (simp add: is_assigned_driver_def driver_profile_id_for_user_def find_profile_by_user_def trip_rows)
  then have "\<exists>v. cancel_ride trip_env 10 ''passenger_changed_mind'' 7 ''passenger'' 3 trip_matched
      = Inr (v, trip_state (ride_row 3 None ?r) (take 1 trip_hops) (record_ride_outcome trip_config ?r 3 []))"
    by (simp add: cancel_ride_def VALID_CANCEL_REASONS_def trip_matched_state load_ride_def transition_def Let_def)
  moreover have "rd_id (ride_row 3 None ?r) = 10" "rd_driver_id (ride_row 3 None ?r) = Some 2"
    by (simp_all add: ride_row_def)
  ultimately have "\<exists>v r h es. cancel_ride trip_env 10 ''passenger_changed_mind'' 7 ''passenger'' 3 trip_matched
      = Inr (v, trip_state r h es) \<and> rd_id r = 10 \<and> rd_driver_id r = Some 2"
    by blast
  then obtain v r h es where c: "cancel_ride trip_env 10 ''passenger_changed_mind'' 7 ''passenger'' 3 trip_matched
      = Inr (v, trip_state r h es)" and r: "rd_id r = 10" "rd_driver_id r = Some 2" by blast
  have keep: "live_rides (release_driver_of i now l) = live_rides l" for i now l
    by (auto simp: release_driver_of_def on_matching_def live_rides_def release_driver_def Let_def split: option.split)
  have "live_rides (with_rides (trip_state r h es) matched_live) = trip_state r h es"
    by (simp add: live_rides_def with_rides_def on_matching_def)
  then show ?thesis using c r keep
    by (simp add: route_cancel_def call_rides_def live_passenger_def fleet_user_def matched_live_def live_of_def
        live_env_def changed_def tell_def live_rides_def find_profile_def trip_rows)
qed

lemma matched_patched:
  "\<exists>w lv2. route_update_status live_env fleet_user 10 ''cancelled_by_driver'' 3 matched_live = (Inr w, lv2)"
  by (simp add: route_update_status_def as_driver_def require_business_driver_def fleet_user_def matched_live_def
      live_of_def live_rides_def trip_matched_state trip_rows ride_status_of_def call_rides_def live_env_def
      update_status_def wait_ended_first_def finish_status_def api_transition_def transition_def)

theorem cancelled_driver_freed_witness:
  "\<exists>v lv'. route_cancel live_env live_passenger 10 ''passenger_changed_mind'' 3 matched_live = (Inr v, lv')
     \<and> is_available 8 3 (mt_locations (lv_matching lv'))
     \<and> (\<exists>w lv2. route_update_status live_env fleet_user 10 ''cancelled_by_driver'' 3 matched_live = (Inr w, lv2)
          \<and> mt_locations (lv_matching lv2) = mt_locations (lv_matching matched_live))"
proof -
  obtain v lv' r where c: "route_cancel live_env live_passenger 10 ''passenger_changed_mind'' 3 matched_live = (Inr v, lv')"
    and f: "find_ride 10 (live_rides lv') = Some r" "rd_driver_id r = Some 2"
      "find_profile 2 (live_rides lv') = Some trip_driver"
    using matched_cancelled by blast
  obtain w lv2 where p: "route_update_status live_env fleet_user 10 ''cancelled_by_driver'' 3 matched_live = (Inr w, lv2)"
    using matched_patched by blast
  from cancelled_driver_freed [OF c f] p trip_rows(2) c show ?thesis by metis
qed

end
