(* ===== verification/Calendar.thy ===== *)
theory Calendar
  imports Ride_Views
begin

text \<open>
  Dates of Python's \<open>datetime.date\<close>, counted in days from 0001-01-01, which is day 1, and the calendar of
  Africa/Abidjan, where local time is UTC. \<open>date_trunc\<close> of PostgreSQL names a day, week or month by its first
  day.
\<close>

section \<open>The Gregorian calendar\<close>

definition is_leap :: "int \<Rightarrow> bool" where
  "is_leap y \<longleftrightarrow> y mod 4 = 0 \<and> (y mod 100 \<noteq> 0 \<or> y mod 400 = 0)"

definition month_lengths :: "int \<Rightarrow> int list" where
  "month_lengths y = [31, if is_leap y then 29 else 28, 31, 30, 31, 30, 31, 31, 30, 31, 30, 31]"

definition days_before_year :: "int \<Rightarrow> int" where
  "days_before_year y = (let p = y - 1 in p * 365 + p div 4 - p div 100 + p div 400)"

definition days_before_month :: "int \<Rightarrow> int \<Rightarrow> int" where
  "days_before_month y m = sum_list (take (nat (m - 1)) (month_lengths y))"

text \<open>\<open>date(y, m, d)\<close>, which raises outside of the calendar, as the number of the day.\<close>

definition MAX_DATE :: int where "MAX_DATE = 3652059"

definition ymd_ord :: "int \<Rightarrow> int \<Rightarrow> int \<Rightarrow> int" where
  "ymd_ord y m d = days_before_year y + days_before_month y m + d"

definition make_date :: "int \<Rightarrow> int \<Rightarrow> int \<Rightarrow> exn + int" where
  "make_date y m d =
     (if 1 \<le> y \<and> y \<le> 9999 \<and> 1 \<le> m \<and> m \<le> 12 \<and> 1 \<le> d \<and> d \<le> month_lengths y ! nat (m - 1)
      then Inr (ymd_ord y m d) else Inl PyValueError)"

text \<open>Back from the number: cycles of 400, 100, 4 and 1 years, then the month.\<close>

fun month_of :: "int list \<Rightarrow> int \<Rightarrow> int \<Rightarrow> int \<times> int" where
  "month_of [] m n = (m, n + 1)"
| "month_of (l # ls) m n = (if n < l then (m, n + 1) else month_of ls (m + 1) (n - l))"

definition ord_ymd :: "int \<Rightarrow> int \<times> int \<times> int" where
  "ord_ymd ordinal =
     (let n = ordinal - 1; n400 = n div 146097; n = n mod 146097; n100 = n div 36524; n = n mod 36524;
          n4 = n div 1461; n = n mod 1461; n1 = n div 365; n = n mod 365;
          y = n400 * 400 + n100 * 100 + n4 * 4 + n1 + 1
      in if n1 = 4 \<or> n100 = 4 then (y - 1, 12, 31)
         else let (m, d) = month_of (month_lengths y) 1 n in (y, m, d))"

definition add_days :: "int \<Rightarrow> int \<Rightarrow> exn + int" where
  "add_days d k = (if 1 \<le> d + k \<and> d + k \<le> MAX_DATE then Inr (d + k) else Inl PyOverflowError)"

section \<open>Texts of dates\<close>

definition date_iso :: "int \<Rightarrow> string" where
  "date_iso d = (let (y, m, k) = ord_ymd d in
     zero_pad 4 (nat_str (nat y)) @ ''-'' @ zero_pad 2 (nat_str (nat m)) @ ''-'' @ zero_pad 2 (nat_str (nat k)))"

text \<open>\<open>YYYY-MM-DD\<close>, four, two and two digits.\<close>

definition is_day_text :: "string \<Rightarrow> bool" where
  "is_day_text s \<longleftrightarrow> length s = 10 \<and> s ! 4 = CHR ''-'' \<and> s ! 7 = CHR ''-''
     \<and> list_all is_digit (take 4 s) \<and> list_all is_digit (take 2 (drop 5 s)) \<and> list_all is_digit (drop 8 s)"

definition date_of_iso :: "string \<Rightarrow> exn + int" where
  "date_of_iso s =
     make_date (digits_val 0 (take 4 s)) (digits_val 0 (take 2 (drop 5 s))) (digits_val 0 (drop 8 s))"

section \<open>Times\<close>

definition DAY :: int where "DAY = seconds 86400"

text \<open>1970-01-01 is day 719163.\<close>

definition day_of :: "datetime \<Rightarrow> int" where
  "day_of t = 719163 + t div DAY"

definition abidjan_start :: "int \<Rightarrow> datetime" where
  "abidjan_start d = (d - 719163) * DAY"

definition local_hour :: "datetime \<Rightarrow> nat" where
  "local_hour t = nat ((t mod DAY) div seconds 3600)"

definition date_trunc :: "string \<Rightarrow> int \<Rightarrow> int" where
  "date_trunc period d =
     (if period = ''week'' then d - (d - 1) mod 7
      else if period = ''month'' then (let (y, m, _) = ord_ymd d in ymd_ord y m 1)
      else d)"

section \<open>The calendar is one\<close>

lemma month_of_sum:
  assumes "month_of ls m n = (m', d)" and "0 \<le> n" and "n < sum_list ls" and "\<forall>l \<in> set ls. 0 < l"
  shows "m \<le> m' \<and> m' < m + int (length ls) \<and> sum_list (take (nat (m' - m)) ls) + d = n + 1
    \<and> 1 \<le> d \<and> d \<le> ls ! nat (m' - m)"
  using assms
proof (induction ls arbitrary: m n)
  case (Cons l ls)
  show ?case
  proof (cases "n < l")
    case True
    with Cons.prems show ?thesis by auto
  next
    case False
    with Cons.prems(1) have e: "month_of ls (m + 1) (n - l) = (m', d)" by simp
    have ih: "m + 1 \<le> m' \<and> m' < m + 1 + int (length ls) \<and> sum_list (take (nat (m' - (m + 1))) ls) + d = n - l + 1
        \<and> 1 \<le> d \<and> d \<le> ls ! nat (m' - (m + 1))"
      using Cons.IH [OF e] Cons.prems False by simp
    then have "m + 1 \<le> m'" by blast
    then have s: "nat (m' - m) = Suc (nat (m' - (m + 1)))" by (simp add: Suc_nat_eq_nat_zadd1 [symmetric])
    show ?thesis using ih unfolding s by simp
  qed
qed simp

lemma year_length: "sum_list (month_lengths y) = (if is_leap y then 366 else 365)"
  by (simp add: month_lengths_def)

text \<open>The four cycles of a day number.\<close>

lemma cycles:
  fixes n :: int
  assumes "a = n div 146097" "p = n mod 146097" "b = p div 36524" "q = p mod 36524" "c = q div 1461" "r = q mod 1461"
    "e = r div 365" "k = r mod 365"
  shows "n = 146097 * a + 36524 * b + 1461 * c + 365 * e + k" "0 \<le> b" "b \<le> 4" "0 \<le> c" "c \<le> 24" "0 \<le> e" "e \<le> 4"
    "0 \<le> k" "k < 365" "b = 4 \<longrightarrow> c = 0 \<and> e = 0 \<and> k = 0" "e = 4 \<longrightarrow> k = 0" "c = 24 \<and> e = 4 \<longrightarrow> False"
proof -
  have s: "n = 146097 * a + p" "p = 36524 * b + q" "q = 1461 * c + r" "r = 365 * e + k"
    unfolding assms by simp_all
  have u: "0 \<le> p" "p < 146097" "0 \<le> q" "q < 36524" "0 \<le> r" "r < 1461" "0 \<le> k" "k < 365"
    unfolding assms by simp_all
  show "0 \<le> b" "0 \<le> c" "0 \<le> e" using u unfolding assms(3,5,7) by (simp_all add: pos_imp_zdiv_nonneg_iff)
  show "n = 146097 * a + 36524 * b + 1461 * c + 365 * e + k" using s by linarith
  show "0 \<le> k" "k < 365" by (rule u)+
  show "b \<le> 4" "c \<le> 24" "e \<le> 4" using s u by linarith+
  show "b = 4 \<longrightarrow> c = 0 \<and> e = 0 \<and> k = 0"
  proof
    assume "b = 4"
    then have "q = 0" using s u by linarith
    then show "c = 0 \<and> e = 0 \<and> k = 0" unfolding assms(5-8) by simp
  qed
  show "e = 4 \<longrightarrow> k = 0" "c = 24 \<and> e = 4 \<longrightarrow> False" using s u by linarith+
qed

lemma before_year:
  fixes a :: int
  assumes "0 \<le> b" "b < 4" "0 \<le> c" "c \<le> 24" "0 \<le> e" "e < 4"
  shows "days_before_year (400 * a + 100 * b + 4 * c + e + 1) = 146097 * a + 36524 * b + 1461 * c + 365 * e"
proof -
  let ?p = "400 * a + 100 * b + 4 * c + e"
  have "?p div 4 = 100 * a + 25 * b + c" using assms by (intro int_div_pos_eq [where r = e]) simp_all
  moreover have "?p div 100 = 4 * a + b" using assms by (intro int_div_pos_eq [where r = "4 * c + e"]) simp_all
  moreover have "?p div 400 = a" using assms by (intro int_div_pos_eq [where r = "100 * b + 4 * c + e"]) simp_all
  ultimately show ?thesis by (simp add: days_before_year_def Let_def)
qed

lemma december_last: "ymd_ord y 12 31 = days_before_year y + (if is_leap y then 366 else 365)"
  by (simp add: ymd_ord_def days_before_month_def month_lengths_def)

lemma month_lengths_facts: "length (month_lengths y) = 12" "\<forall>l \<in> set (month_lengths y). 0 < l"
  by (simp_all add: month_lengths_def)

lemma ord_ymd_valid:
  assumes "ord_ymd n = (y, m, d)"
  shows "ymd_ord y m d = n \<and> 1 \<le> m \<and> m \<le> 12 \<and> 1 \<le> d \<and> d \<le> month_lengths y ! nat (m - 1)"
proof -
  define a p where "a = (n - 1) div 146097" and "p = (n - 1) mod 146097"
  define b q where "b = p div 36524" and "q = p mod 36524"
  define c r where "c = q div 1461" and "r = q mod 1461"
  define e k where "e = r div 365" and "k = r mod 365"
  note c = cycles [OF a_def p_def b_def q_def c_def r_def e_def k_def]
  let ?y = "a * 400 + b * 100 + c * 4 + e + 1"
  have o: "ord_ymd n = (if e = 4 \<or> b = 4 then (?y - 1, 12, 31)
      else let (m, d) = month_of (month_lengths ?y) 1 k in (?y, m, d))"
    unfolding ord_ymd_def Let_def a_def p_def b_def q_def c_def r_def e_def k_def by simp
  show ?thesis
  proof (cases "e = 4 \<or> b = 4")
    case True
    then have y: "y = ?y - 1" "m = 12" "d = 31" using o assms by auto
    have "is_leap y \<and> days_before_year y + 366 = n"
    proof (cases "b = 4")
      case True
      then have z: "c = 0" "e = 0" "k = 0" using c(10) by auto
      have "days_before_year (400 * a + 100 * 3 + 4 * 24 + 3 + 1) = 146097 * a + 36524 * 3 + 1461 * 24 + 365 * 3"
        by (rule before_year) auto
      moreover have "y = 400 * a + 100 * 3 + 4 * 24 + 3 + 1" using y z True by simp
      moreover have "is_leap y" using y z True by (simp add: is_leap_def)
      ultimately show ?thesis using c(1) z True by simp
    next
      case False
      with \<open>e = 4 \<or> b = 4\<close> have e: "e = 4" by simp
      then have z: "k = 0" "c < 24" "b < 4" using c(3,5,11,12) False by auto
      have "days_before_year (400 * a + 100 * b + 4 * c + 3 + 1) = 146097 * a + 36524 * b + 1461 * c + 365 * 3"
        using c z by (intro before_year) auto
      moreover have yy: "y = 400 * a + 100 * b + 4 * c + 3 + 1" using y e by simp
      moreover have "is_leap y"
      proof -
        have "y mod 4 = 0" using yy by (intro int_mod_pos_eq [where q = "100 * a + 25 * b + c + 1"]) simp_all
        moreover have "y mod 100 = 4 * c + 4"
          using yy c(4) z by (intro int_mod_pos_eq [where q = "4 * a + b"]) simp_all
        ultimately show ?thesis using c(4) by (simp add: is_leap_def)
      qed
      ultimately show ?thesis using c(1) z e by simp
    qed
    then show ?thesis using december_last [of y] y by (simp add: month_lengths_def)
  next
    case False
    then obtain md where md: "month_of (month_lengths ?y) 1 k = (m, d)" and y: "y = ?y"
      using o assms by (auto split: prod.splits)
    have "k < sum_list (month_lengths ?y)" using c(9) by (simp add: year_length)
    from month_of_sum [OF md c(8) this month_lengths_facts(2)]
    have m: "1 \<le> m" "m < 13" "days_before_month y m + d = k + 1" "1 \<le> d" "d \<le> month_lengths y ! nat (m - 1)"
      by (simp_all add: month_lengths_facts days_before_month_def y)
    have "days_before_year (400 * a + 100 * b + 4 * c + e + 1) = 146097 * a + 36524 * b + 1461 * c + 365 * e"
      using c False by (intro before_year) auto
    then have "days_before_year y = n - 1 - k" using c(1) by (simp add: y algebra_simps)
    with m show ?thesis by (simp add: ymd_ord_def)
  qed
qed

text \<open>The window of a day holds the times of that day.\<close>

lemma day_of_start: "abidjan_start d \<le> t \<and> t < abidjan_start (d + 1) \<longleftrightarrow> day_of t = d"
proof -
  define k where "k = d - 719163"
  have D: "0 < DAY" by (simp add: DAY_def seconds_def)
  have t: "DAY * (t div DAY) + t mod DAY = t" "0 \<le> t mod DAY" "t mod DAY < DAY" using D by simp_all
  have "k * DAY \<le> t \<and> t < (k + 1) * DAY \<longleftrightarrow> t div DAY = k"
  proof
    assume "k * DAY \<le> t \<and> t < (k + 1) * DAY"
    then show "t div DAY = k" by (intro int_div_pos_eq [where r = "t - DAY * k"]) (simp_all add: algebra_simps)
  next
    assume "t div DAY = k"
    with t have "DAY * k + t mod DAY = t" by simp
    with t(2,3) show "k * DAY \<le> t \<and> t < (k + 1) * DAY" by (simp add: algebra_simps)
  qed
  then show ?thesis by (auto simp: abidjan_start_def day_of_def k_def)
qed

end
