(* ===== verification/Driver_Earnings.thy ===== *)
theory Driver_Earnings
  imports Calendar Ride_Service Wallet_Service
begin

text \<open>
  The earnings report of a driver: \<open>summarize_driver_earnings\<close> of payment/infra/repositories.py, which joins
  the transactions with the rides, and \<open>get_earnings\<close> of payment/application/wallet\_service.py. A sum skips
  NULL and is 0 over no row; the rows of a GROUP BY come in the order of their key. The session of
  PostgreSQL is in UTC.
\<close>

section \<open>Sums\<close>

definition num_or :: "rat option \<Rightarrow> rat" where
  "num_or x = (case x of None \<Rightarrow> 0 | Some v \<Rightarrow> v)"

definition sql_sum :: "('a \<Rightarrow> rat option) \<Rightarrow> 'a list \<Rightarrow> rat" where
  "sql_sum f rows = sum_list (map (\<lambda>x. num_or (f x)) rows)"

definition group_keys :: "('a \<Rightarrow> 'k::linorder) \<Rightarrow> 'a list \<Rightarrow> 'k list" where
  "group_keys key rows = sort (remdups (map key rows))"

definition group_of :: "('a \<Rightarrow> 'k) \<Rightarrow> 'k \<Rightarrow> 'a list \<Rightarrow> 'a list" where
  "group_of key k rows = filter (\<lambda>x. key x = k) rows"

section \<open>The repository\<close>

record earnings_bucket =
  eb_period_start :: int
  eb_ride_earnings :: rat
  eb_platform_commissions :: rat
  eb_withdrawals_succeeded :: rat
  eb_pending_or_disputed :: rat

definition is_acquired :: "transaction \<Rightarrow> bool" where
  "is_acquired t \<longleftrightarrow> tx_status t \<in> {PS_COLLECTED, PS_SUCCEEDED}"

definition is_unsettled :: "transaction \<Rightarrow> bool" where
  "is_unsettled t \<longleftrightarrow> tx_status t \<in> {PS_PENDING, PS_REQUIRES_ACTION, PS_PROCESSING, PS_DISPUTED}"

definition or_else :: "'a option \<Rightarrow> 'a option \<Rightarrow> 'a option" where
  "or_else x y = (case x of None \<Rightarrow> y | Some _ \<Rightarrow> x)"

definition local_settled_at :: "transaction \<times> ride \<Rightarrow> datetime option" where
  "local_settled_at = (\<lambda>(t, r). if is_acquired t
     then or_else (tx_collected_at t) (or_else (tx_paid_at t) (rd_completed_at r)) else Some (tx_created_at t))"

definition in_window :: "datetime \<Rightarrow> datetime \<Rightarrow> datetime option \<Rightarrow> bool" where
  "in_window start stop time = (case time of None \<Rightarrow> False | Some t \<Rightarrow> start \<le> t \<and> t < stop)"

definition earned_rows :: "uuid \<Rightarrow> datetime \<Rightarrow> datetime \<Rightarrow> ride_db \<Rightarrow> pay_db \<Rightarrow> (transaction \<times> ride) list" where
  "earned_rows driver_id start stop rdb db =
     filter (\<lambda>(t, r). rd_id r = tx_ride_id t \<and> rd_driver_id r = Some driver_id \<and> rd_status r = COMPLETED
         \<and> in_window start stop (local_settled_at (t, r)))
       (List.product (transactions db) (rides rdb))"

definition paid_out_rows :: "uuid \<Rightarrow> datetime \<Rightarrow> datetime \<Rightarrow> pay_db \<Rightarrow> driver_withdrawal list" where
  "paid_out_rows driver_id start stop db =
     filter (\<lambda>w. wd_driver_id w = driver_id \<and> wd_status w = WS_SUCCEEDED
       \<and> in_window start stop (wd_succeeded_at w)) (withdrawals db)"

definition bucket_of :: "string \<Rightarrow> datetime option \<Rightarrow> int" where
  "bucket_of period time = (case time of None \<Rightarrow> 0 | Some t \<Rightarrow> date_trunc period (day_of t))"

definition ride_bucket :: "int \<Rightarrow> (transaction \<times> ride) list \<Rightarrow> earnings_bucket" where
  "ride_bucket k rows =
     \<lparr>eb_period_start = k,
      eb_ride_earnings = sql_sum (\<lambda>(t, r). if is_acquired t then rd_driver_payout_estimate r else Some 0) rows,
      eb_platform_commissions = sql_sum (\<lambda>(t, r). if is_acquired t then rd_platform_commission r else Some 0) rows,
      eb_withdrawals_succeeded = 0,
      eb_pending_or_disputed = sql_sum (\<lambda>(t, r). if is_unsettled t then rd_driver_payout_estimate r else Some 0) rows\<rparr>"

text \<open>A payout goes to the bucket of its period; a new bucket comes last.\<close>

fun add_payouts :: "int \<Rightarrow> rat \<Rightarrow> earnings_bucket list \<Rightarrow> earnings_bucket list" where
  "add_payouts k x [] = [\<lparr>eb_period_start = k, eb_ride_earnings = 0, eb_platform_commissions = 0,
     eb_withdrawals_succeeded = x, eb_pending_or_disputed = 0\<rparr>]"
| "add_payouts k x (b # bs) =
     (if eb_period_start b = k then b\<lparr>eb_withdrawals_succeeded := x\<rparr> # bs else b # add_payouts k x bs)"

definition summarize_driver_earnings ::
  "uuid \<Rightarrow> string \<Rightarrow> datetime \<Rightarrow> datetime \<Rightarrow> ride_db \<Rightarrow> pay_db \<Rightarrow> earnings_bucket list" where
  "summarize_driver_earnings driver_id period start stop rdb db =
     (let rows = earned_rows driver_id start stop rdb db;
          key = (\<lambda>x. bucket_of period (local_settled_at x));
          payouts = paid_out_rows driver_id start stop db;
          out_key = (\<lambda>w. bucket_of period (wd_succeeded_at w))
      in fold (\<lambda>k. add_payouts k (sql_sum (\<lambda>w. Some (wd_amount w)) (group_of out_key k payouts)))
           (group_keys out_key payouts)
           (map (\<lambda>k. ride_bucket k (group_of key k rows)) (group_keys key rows)))"

section \<open>The report\<close>

definition earnings_bucket_payload :: "earnings_bucket \<Rightarrow> int \<times> int \<times> int \<times> int \<times> int" where
  "earnings_bucket_payload b = (eb_period_start b, py_trunc (eb_ride_earnings b), py_trunc (eb_platform_commissions b),
     py_trunc (eb_withdrawals_succeeded b), py_trunc (eb_pending_or_disputed b))"

definition bucket_json :: "int \<times> int \<times> int \<times> int \<times> int \<Rightarrow> json" where
  "bucket_json = (\<lambda>(k, e, c, w, p). JObj [(''period_start'', JStr (date_iso k)), (''ride_earnings_xof'', JInt e),
     (''platform_commissions_xof'', JInt c), (''withdrawals_succeeded_xof'', JInt w), (''pending_or_disputed_xof'', JInt p)])"

definition earnings_totals :: "(int \<times> int \<times> int \<times> int \<times> int) list \<Rightarrow> int \<times> int \<times> int \<times> int" where
  "earnings_totals bs = (sum_list (map (\<lambda>(k, e, c, w, p). e) bs), sum_list (map (\<lambda>(k, e, c, w, p). c) bs),
     sum_list (map (\<lambda>(k, e, c, w, p). w) bs), sum_list (map (\<lambda>(k, e, c, w, p). p) bs))"

definition earnings_report ::
  "string \<Rightarrow> int \<Rightarrow> int \<Rightarrow> driver_wallet \<Rightarrow> (int \<times> int \<times> int \<times> int \<times> int) list \<Rightarrow> (string \<times> json) list" where
  "earnings_report period from_date to_date wallet buckets =
     (let (e, c, w, p) = earnings_totals buckets
      in [(''timezone'', JStr ''Africa/Abidjan''), (''period'', JStr period), (''from_date'', JStr (date_iso from_date)),
          (''to_date'', JStr (date_iso to_date)), (''currency'', JStr (wa_currency wallet)),
          (''summary'', JObj [(''ride_earnings_xof'', JInt e), (''platform_commissions_xof'', JInt c),
             (''withdrawals_succeeded_xof'', JInt w), (''pending_or_disputed_xof'', JInt p),
             (''available_balance_xof'', JInt (py_trunc (wa_balance wallet)))]),
          (''buckets'', JList (map bucket_json buckets))])"

definition get_earnings ::
  "wallet_env \<Rightarrow> uuid \<Rightarrow> string \<Rightarrow> int \<Rightarrow> int \<Rightarrow> ride_db \<Rightarrow> pay_db \<Rightarrow> exn + (string \<times> json) list \<times> pay_db" where
  "get_earnings env driver_user_id period from_date to_date rdb db =
     (if period \<notin> {''day'', ''week'', ''month''} then Inl (ApiError 422 ''INVALID_EARNINGS_PERIOD'')
      else if to_date < from_date then Inl (ApiError 422 ''INVALID_EARNINGS_PERIOD'')
      else if 365 < to_date - from_date then Inl (ApiError 422 ''INVALID_EARNINGS_PERIOD'')
      else bindR (driver_id_for_user env driver_user_id) (\<lambda>driver_id.
        bindR (add_days to_date 1) (\<lambda>next_date.
        let buckets = summarize_driver_earnings driver_id period (abidjan_start from_date) (abidjan_start next_date) rdb db;
            (wallet, db1) = get_or_create_wallet driver_id ''XOF'' db
        in Inr (earnings_report period from_date to_date wallet (map earnings_bucket_payload buckets), db1))))"

section \<open>What the buckets add up to\<close>

lemma sql_sum_Nil [simp]: "sql_sum f [] = 0"
  by (simp add: sql_sum_def)

lemma sql_sum_Cons [simp]: "sql_sum f (x # xs) = num_or (f x) + sql_sum f xs"
  by (simp add: sql_sum_def)

lemma group_keys_facts:
  "distinct (group_keys key rows)" "set (group_keys key rows) = key ` set rows" "sorted (group_keys key rows)"
  by (simp_all add: group_keys_def)

text \<open>The groups of a GROUP BY hold every row once.\<close>

lemma sum_of_groups:
  assumes "distinct ks" and "key ` set rows \<subseteq> set ks"
  shows "sum_list (map (\<lambda>k. sql_sum f (group_of key k rows)) ks) = sql_sum f rows"
  using assms(2)
proof (induction rows)
  case Nil
  show ?case by (simp add: group_of_def)
next
  case (Cons x rows)
  have zero: "sum_list (map (\<lambda>k. if key x = k then v else 0) ks) = 0" if "key x \<notin> set ks" for v :: rat and ks
    using that by (induction ks) auto
  have one: "sum_list (map (\<lambda>k. if key x = k then v else 0) ks) = v" if "key x \<in> set ks" for v :: rat
    using assms(1) that by (induction ks) (auto simp: zero)
  have "sum_list (map (\<lambda>k. sql_sum f (group_of key k (x # rows))) ks)
      = sum_list (map (\<lambda>k. (if key x = k then num_or (f x) else 0) + sql_sum f (group_of key k rows)) ks)"
    by (rule arg_cong [where f = sum_list], rule map_cong) (simp_all add: group_of_def)
  also have "\<dots> = num_or (f x) + sql_sum f rows"
    using Cons one by (simp add: sum_list_addf)
  finally show ?case by simp
qed

lemma sum_group_keys: "sum_list (map (\<lambda>k. sql_sum f (group_of key k rows)) (group_keys key rows)) = sql_sum f rows"
  using group_keys_facts [of key rows] by (intro sum_of_groups) auto

lemma add_payouts_sums:
  "sum_list (map eb_ride_earnings (add_payouts k x bs)) = sum_list (map eb_ride_earnings bs)"
  "sum_list (map eb_platform_commissions (add_payouts k x bs)) = sum_list (map eb_platform_commissions bs)"
  "sum_list (map eb_pending_or_disputed (add_payouts k x bs)) = sum_list (map eb_pending_or_disputed bs)"
  by (induction bs) auto

lemma add_payouts_amount:
  "(\<forall>b \<in> set bs. eb_period_start b = k \<longrightarrow> eb_withdrawals_succeeded b = 0) \<Longrightarrow>
     sum_list (map eb_withdrawals_succeeded (add_payouts k x bs)) = sum_list (map eb_withdrawals_succeeded bs) + x"
  by (induction bs) auto

lemma add_payouts_mem:
  "b \<in> set (add_payouts k x bs) \<Longrightarrow>
     (\<exists>b0 \<in> set bs. eb_period_start b = eb_period_start b0 \<and> eb_ride_earnings b = eb_ride_earnings b0
        \<and> eb_platform_commissions b = eb_platform_commissions b0 \<and> eb_pending_or_disputed b = eb_pending_or_disputed b0
        \<and> eb_withdrawals_succeeded b \<in> {eb_withdrawals_succeeded b0, x} \<and> (eb_period_start b \<noteq> k \<longrightarrow>
             eb_withdrawals_succeeded b = eb_withdrawals_succeeded b0))
     \<or> eb_period_start b = k \<and> eb_ride_earnings b = 0 \<and> eb_platform_commissions b = 0 \<and> eb_pending_or_disputed b = 0
        \<and> eb_withdrawals_succeeded b = x"
  by (induction bs) (auto split: if_splits)

lemma fold_payouts:
  assumes "distinct ks"
    and "\<forall>b \<in> set bs. eb_period_start b \<in> set ks \<longrightarrow> eb_withdrawals_succeeded b = 0"
  shows "sum_list (map eb_withdrawals_succeeded (fold (\<lambda>k. add_payouts k (f k)) ks bs))
      = sum_list (map eb_withdrawals_succeeded bs) + sum_list (map f ks)
    \<and> sum_list (map eb_ride_earnings (fold (\<lambda>k. add_payouts k (f k)) ks bs)) = sum_list (map eb_ride_earnings bs)
    \<and> sum_list (map eb_platform_commissions (fold (\<lambda>k. add_payouts k (f k)) ks bs)) = sum_list (map eb_platform_commissions bs)
    \<and> sum_list (map eb_pending_or_disputed (fold (\<lambda>k. add_payouts k (f k)) ks bs)) = sum_list (map eb_pending_or_disputed bs)"
  using assms
proof (induction ks arbitrary: bs)
  case (Cons k ks)
  let ?bs = "add_payouts k (f k) bs"
  have "\<forall>b \<in> set ?bs. eb_period_start b \<in> set ks \<longrightarrow> eb_withdrawals_succeeded b = 0"
  proof (intro ballI impI)
    fix b assume "b \<in> set ?bs" and k: "eb_period_start b \<in> set ks"
    then have "eb_period_start b \<noteq> k" using Cons.prems(1) by auto
    with add_payouts_mem [OF \<open>b \<in> set ?bs\<close>] k Cons.prems(2) show "eb_withdrawals_succeeded b = 0" by auto
  qed
  with Cons.IH [of ?bs] Cons.prems show ?case by (simp add: add_payouts_sums add_payouts_amount)
qed simp

text \<open>The rows of a report, added up without any period.\<close>

definition period_totals :: "uuid \<Rightarrow> datetime \<Rightarrow> datetime \<Rightarrow> ride_db \<Rightarrow> pay_db \<Rightarrow> rat \<times> rat \<times> rat \<times> rat" where
  "period_totals driver_id start stop rdb db =
     (let rows = earned_rows driver_id start stop rdb db
      in (sql_sum (\<lambda>(t, r). if is_acquired t then rd_driver_payout_estimate r else Some 0) rows,
          sql_sum (\<lambda>(t, r). if is_acquired t then rd_platform_commission r else Some 0) rows,
          sql_sum (\<lambda>w. Some (wd_amount w)) (paid_out_rows driver_id start stop db),
          sql_sum (\<lambda>(t, r). if is_unsettled t then rd_driver_payout_estimate r else Some 0) rows))"

lemma buckets_add_up:
  fixes period start stop
  assumes "bs = summarize_driver_earnings driver_id period start stop rdb db"
  shows "(sum_list (map eb_ride_earnings bs), sum_list (map eb_platform_commissions bs),
      sum_list (map eb_withdrawals_succeeded bs), sum_list (map eb_pending_or_disputed bs))
    = period_totals driver_id start stop rdb db"
proof -
  let ?rows = "earned_rows driver_id start stop rdb db" and ?outs = "paid_out_rows driver_id start stop db"
  let ?key = "\<lambda>x. bucket_of period (local_settled_at x)" and ?out = "\<lambda>w. bucket_of period (wd_succeeded_at w)"
  let ?bs = "map (\<lambda>k. ride_bucket k (group_of ?key k ?rows)) (group_keys ?key ?rows)"
  let ?f = "\<lambda>k. sql_sum (\<lambda>w. Some (wd_amount w)) (group_of ?out k ?outs)"
  have zero: "\<forall>b \<in> set ?bs. eb_period_start b \<in> set (group_keys ?out ?outs) \<longrightarrow> eb_withdrawals_succeeded b = 0"
    by (auto simp: ride_bucket_def)
  have none: "sum_list (map eb_withdrawals_succeeded ?bs) = 0"
    by (simp add: ride_bucket_def comp_def)
  have sums: "sum_list (map eb_ride_earnings ?bs)
        = sql_sum (\<lambda>(t, r). if is_acquired t then rd_driver_payout_estimate r else Some 0) ?rows"
    "sum_list (map eb_platform_commissions ?bs)
        = sql_sum (\<lambda>(t, r). if is_acquired t then rd_platform_commission r else Some 0) ?rows"
    "sum_list (map eb_pending_or_disputed ?bs)
        = sql_sum (\<lambda>(t, r). if is_unsettled t then rd_driver_payout_estimate r else Some 0) ?rows"
    unfolding sum_group_keys [of _ ?key ?rows, symmetric] by (simp_all add: ride_bucket_def comp_def)
  have bs: "bs = fold (\<lambda>k. add_payouts k (?f k)) (group_keys ?out ?outs) ?bs"
    unfolding assms summarize_driver_earnings_def Let_def by simp
  from fold_payouts [OF group_keys_facts(1) zero, of ?f] none sums sum_group_keys [of _ ?out ?outs]
  show ?thesis unfolding bs period_totals_def Let_def by simp
qed

text \<open>Whole amounts: every bucket is whole, and truncation loses nothing.\<close>

definition whole_amounts :: "ride_db \<Rightarrow> pay_db \<Rightarrow> bool" where
  "whole_amounts rdb db \<longleftrightarrow> (\<forall>r \<in> set (rides rdb). num_or (rd_driver_payout_estimate r) \<in> \<int>
     \<and> num_or (rd_platform_commission r) \<in> \<int>) \<and> (\<forall>w \<in> set (withdrawals db). wd_amount w \<in> \<int>)"

lemma sql_sum_whole: "(\<And>x. x \<in> set rows \<Longrightarrow> num_or (f x) \<in> \<int>) \<Longrightarrow> sql_sum f rows \<in> \<int>"
  by (induction rows) simp_all

lemma trunc_sum: "(\<And>b. b \<in> set bs \<Longrightarrow> g b \<in> \<int>) \<Longrightarrow> of_int (sum_list (map (\<lambda>b. py_trunc (g b)) bs)) = sum_list (map g bs)"
proof (induction bs)
  case (Cons b bs)
  from Cons.prems obtain i where "g b = of_int i" by (metis Ints_cases list.set_intros(1))
  then show ?case using Cons by simp
qed simp

lemma buckets_whole:
  assumes "whole_amounts rdb db" and "b \<in> set (summarize_driver_earnings driver_id period start stop rdb db)"
  shows "eb_ride_earnings b \<in> \<int>" "eb_platform_commissions b \<in> \<int>" "eb_withdrawals_succeeded b \<in> \<int>"
    "eb_pending_or_disputed b \<in> \<int>"
proof -
  let ?whole = "\<lambda>b. eb_ride_earnings b \<in> \<int> \<and> eb_platform_commissions b \<in> \<int> \<and> eb_withdrawals_succeeded b \<in> \<int>
    \<and> eb_pending_or_disputed b \<in> \<int>"
  have keep: "\<forall>b \<in> set (fold (\<lambda>k. add_payouts k (f k)) ks bs). ?whole b"
    if "\<forall>b \<in> set bs. ?whole b" "\<forall>k. f k \<in> \<int>" for f ks bs
    using that(1)
  proof (induction ks arbitrary: bs)
    case (Cons k ks)
    have "?whole b" if b: "b \<in> set (add_payouts k (f k) bs)" for b
    proof -
      have x: "f k \<in> \<int>" using \<open>\<forall>k. f k \<in> \<int>\<close> by blast
      from add_payouts_mem [OF b] show ?thesis
      proof
        assume "\<exists>b0 \<in> set bs. eb_period_start b = eb_period_start b0 \<and> eb_ride_earnings b = eb_ride_earnings b0
          \<and> eb_platform_commissions b = eb_platform_commissions b0 \<and> eb_pending_or_disputed b = eb_pending_or_disputed b0
          \<and> eb_withdrawals_succeeded b \<in> {eb_withdrawals_succeeded b0, f k} \<and> (eb_period_start b \<noteq> k \<longrightarrow>
             eb_withdrawals_succeeded b = eb_withdrawals_succeeded b0)"
        then obtain b0 where "b0 \<in> set bs" and e: "eb_ride_earnings b = eb_ride_earnings b0"
          "eb_platform_commissions b = eb_platform_commissions b0" "eb_pending_or_disputed b = eb_pending_or_disputed b0"
          "eb_withdrawals_succeeded b = eb_withdrawals_succeeded b0 \<or> eb_withdrawals_succeeded b = f k" by blast
        with Cons.prems have "?whole b0" by blast
        with e x show ?thesis by metis
      qed (use x in simp)
    qed
    then show ?case unfolding fold_simps by (intro Cons.IH) blast
  qed simp
  have mem: "snd x \<in> set (rides rdb)" if "x \<in> set (group_of key k (earned_rows driver_id start stop rdb db))" for x key k
  proof -
    have "x \<in> set (List.product (transactions db) (rides rdb))"
      using that unfolding group_of_def earned_rows_def set_filter by blast
    then show ?thesis unfolding set_product mem_Times_iff by blast
  qed
  have r: "num_or (rd_driver_payout_estimate r) \<in> \<int>" "num_or (rd_platform_commission r) \<in> \<int>"
    if "r \<in> set (rides rdb)" for r
    using that assms(1) unfolding whole_amounts_def by blast+
  have pick: "num_or (case x of (t, r) \<Rightarrow> if P t then h r else Some 0) \<in> \<int>"
    if "num_or (h (snd x)) \<in> \<int>" for x and P :: "transaction \<Rightarrow> bool" and h :: "ride \<Rightarrow> rat option"
    using that by (cases x) (simp add: num_or_def)
  have made: "?whole (ride_bucket k (group_of key k (earned_rows driver_id start stop rdb db)))" for key k
    unfolding ride_bucket_def earnings_bucket.simps
    by (intro conjI sql_sum_whole pick r mem Ints_0)
  have paid: "sql_sum (\<lambda>w. Some (wd_amount w)) (group_of key k (paid_out_rows driver_id start stop db)) \<in> \<int>" for key k
    using assms(1) by (intro sql_sum_whole) (auto simp: group_of_def paid_out_rows_def whole_amounts_def num_or_def)
  let ?key = "\<lambda>x. bucket_of period (local_settled_at x)" and ?out = "\<lambda>w. bucket_of period (wd_succeeded_at w)"
  have "\<forall>b \<in> set (map (\<lambda>k. ride_bucket k (group_of ?key k (earned_rows driver_id start stop rdb db)))
      (group_keys ?key (earned_rows driver_id start stop rdb db))). ?whole b"
    using made unfolding set_map by blast
  note every = keep [OF this, of "\<lambda>k. sql_sum (\<lambda>w. Some (wd_amount w)) (group_of ?out k (paid_out_rows driver_id start stop db))"
      "group_keys ?out (paid_out_rows driver_id start stop db)"]
  have "?whole b"
    by (rule bspec [OF every [OF allI, OF paid] assms(2) [unfolded summarize_driver_earnings_def Let_def]])
  then show "eb_ride_earnings b \<in> \<int>" "eb_platform_commissions b \<in> \<int>" "eb_withdrawals_succeeded b \<in> \<int>"
    "eb_pending_or_disputed b \<in> \<int>" by blast+
qed

lemma report_totals:
  assumes "whole_amounts rdb db"
    and "earnings_totals (map earnings_bucket_payload (summarize_driver_earnings driver_id period start stop rdb db))
      = (e, c, w, p)"
  shows "(of_int e, of_int c, of_int w, of_int p) = period_totals driver_id start stop rdb db"
proof -
  let ?bs = "summarize_driver_earnings driver_id period start stop rdb db"
  have "e = sum_list (map (\<lambda>b. py_trunc (eb_ride_earnings b)) ?bs)"
    "c = sum_list (map (\<lambda>b. py_trunc (eb_platform_commissions b)) ?bs)"
    "w = sum_list (map (\<lambda>b. py_trunc (eb_withdrawals_succeeded b)) ?bs)"
    "p = sum_list (map (\<lambda>b. py_trunc (eb_pending_or_disputed b)) ?bs)"
    using assms(2) by (simp_all add: earnings_totals_def earnings_bucket_payload_def comp_def)
  then have "of_int e = sum_list (map eb_ride_earnings ?bs)" "of_int c = sum_list (map eb_platform_commissions ?bs)"
    "of_int w = sum_list (map eb_withdrawals_succeeded ?bs)" "of_int p = sum_list (map eb_pending_or_disputed ?bs)"
    using buckets_whole [OF assms(1)] by (simp_all only: trunc_sum)
  then show ?thesis using buckets_add_up [OF refl, of driver_id period start stop rdb db] by simp
qed

end
