(* ===== verification/Ride_Summary.thy ===== *)
theory Ride_Summary
  imports Driver_Earnings Auth_Service
begin

text \<open>
  The daily totals for Pilotage: ride/infra/summary\_repository.py (two aggregates over rides, transactions,
  top-ups and withdrawals), ride/application/summary\_service.py and the routes of
  ride/presentation/summary\_router.py. A database that does not answer is not modelled.
\<close>

section \<open>The aggregates\<close>

record summary_totals =
  sum_rides_requested :: nat
  sum_rides_completed :: nat
  sum_completed_fare :: rat
  sum_without_fare :: nat

definition requested_in :: "datetime \<Rightarrow> datetime \<Rightarrow> ride_db \<Rightarrow> ride list" where
  "requested_in start stop rdb =
     filter (\<lambda>r. in_window start stop (rd_requested_at r) \<and> \<not> rd_is_review_account r) (rides rdb)"

definition completed_in :: "datetime \<Rightarrow> datetime \<Rightarrow> ride_db \<Rightarrow> ride list" where
  "completed_in start stop rdb =
     filter (\<lambda>r. rd_status r = COMPLETED \<and> in_window start stop (rd_completed_at r) \<and> \<not> rd_is_review_account r)
       (rides rdb)"

definition summarize_period :: "datetime \<Rightarrow> datetime \<Rightarrow> ride_db \<Rightarrow> summary_totals" where
  "summarize_period start stop rdb =
     (let completed = completed_in start stop rdb
      in \<lparr>sum_rides_requested = length (requested_in start stop rdb),
          sum_rides_completed = length completed,
          sum_completed_fare = sql_sum (\<lambda>r. if rd_currency r = ''XOF'' then rd_final_fare r else None) completed,
          sum_without_fare = length (filter (\<lambda>r. rd_currency r = ''XOF'' \<and> rd_final_fare r = None) completed)\<rparr>)"

record finance_totals =
  fin_completed_fare :: rat
  fin_digital_payments :: rat
  fin_cash_payments :: rat
  fin_platform_commission :: rat
  fin_driver_earnings :: rat
  fin_driver_amount_paid :: rat
  fin_refunds :: rat
  fin_topups_requested_count :: nat
  fin_topups_requested :: rat
  fin_topups_succeeded_count :: nat
  fin_topups_succeeded :: rat
  fin_topups_pending_count :: nat
  fin_topups_pending :: rat
  fin_topups_failed_count :: nat
  fin_topups_failed :: rat
  fin_withdrawals_requested_count :: nat
  fin_withdrawals_requested :: rat
  fin_withdrawals_processing_count :: nat
  fin_withdrawals_processing :: rat
  fin_withdrawals_succeeded_count :: nat
  fin_withdrawals_succeeded :: rat
  fin_withdrawals_released_count :: nat
  fin_withdrawals_released :: rat
  fin_withdrawal_fees :: rat

definition has_transaction :: "payment_status \<Rightarrow> pay_db \<Rightarrow> ride \<Rightarrow> bool" where
  "has_transaction st db r \<longleftrightarrow>
     list_ex (\<lambda>t. tx_ride_id t = rd_id r \<and> tx_currency t = ''XOF'' \<and> tx_status t = st) (transactions db)"

definition driver_is_paid :: "pay_db \<Rightarrow> ride \<Rightarrow> bool" where
  "driver_is_paid db r \<longleftrightarrow> rd_payment_method r = CASH \<and> has_transaction PS_COLLECTED db r
     \<or> rd_payment_method r = MOBILE_MONEY \<and> has_transaction PS_SUCCEEDED db r"

definition xof_completed :: "datetime \<Rightarrow> datetime \<Rightarrow> ride_db \<Rightarrow> ride list" where
  "xof_completed start stop rdb = filter (\<lambda>r. rd_currency r = ''XOF'') (completed_in start stop rdb)"

definition sum_if :: "('a \<Rightarrow> bool) \<Rightarrow> ('a \<Rightarrow> rat option) \<Rightarrow> 'a list \<Rightarrow> rat" where
  "sum_if P f = sql_sum (\<lambda>x. if P x then f x else Some 0)"

text \<open>The sums over top-ups and withdrawals filter their rows; the sums over rides add 0 for the others.\<close>

definition summarize_finance_period :: "datetime \<Rightarrow> datetime \<Rightarrow> ride_db \<Rightarrow> pay_db \<Rightarrow> finance_totals" where
  "summarize_finance_period start stop rdb db =
     (let rs = xof_completed start stop rdb;
          asked = filter (\<lambda>u. in_window start stop (Some (tu_created_at u)) \<and> tu_currency u = ''XOF'') (topups db);
          paid = filter (\<lambda>u. in_window start stop (tu_paid_at u) \<and> tu_currency u = ''XOF'' \<and> tu_status u = TS_SUCCEEDED)
            (topups db);
          pending = filter (\<lambda>u. tu_status u \<in> {TS_PENDING, TS_REQUIRES_ACTION, TS_PROCESSING}) asked;
          failed = filter (\<lambda>u. tu_status u \<in> {TS_FAILED, TS_CANCELLED}) asked;
          outs = filter (\<lambda>w. in_window start stop (Some (wd_created_at w)) \<and> wd_currency w = ''XOF'') (withdrawals db);
          processing = filter (\<lambda>w. wd_status w \<in> {WS_RESERVED, WS_PROCESSING}) outs;
          succeeded = filter (\<lambda>w. wd_status w = WS_SUCCEEDED) outs;
          released = filter (\<lambda>w. wd_status w = WS_RELEASED) outs;
          topup_sum = (\<lambda>us. sql_sum (\<lambda>u. Some (tu_amount u)) us); out_sum = (\<lambda>ws. sql_sum (\<lambda>w. Some (wd_amount w)) ws)
      in \<lparr>fin_completed_fare = sql_sum rd_final_fare rs,
          fin_digital_payments = sum_if (\<lambda>r. rd_payment_method r = MOBILE_MONEY) rd_final_fare rs,
          fin_cash_payments = sum_if (\<lambda>r. rd_payment_method r = CASH) rd_final_fare rs,
          fin_platform_commission = sql_sum rd_platform_commission rs,
          fin_driver_earnings = sql_sum rd_driver_payout_estimate rs,
          fin_driver_amount_paid = sum_if (driver_is_paid db) rd_driver_payout_estimate rs,
          fin_refunds = sum_if (has_transaction PS_REFUNDED db) rd_final_fare rs,
          fin_topups_requested_count = length asked, fin_topups_requested = topup_sum asked,
          fin_topups_succeeded_count = length paid, fin_topups_succeeded = topup_sum paid,
          fin_topups_pending_count = length pending, fin_topups_pending = topup_sum pending,
          fin_topups_failed_count = length failed, fin_topups_failed = topup_sum failed,
          fin_withdrawals_requested_count = length outs, fin_withdrawals_requested = out_sum outs,
          fin_withdrawals_processing_count = length processing, fin_withdrawals_processing = out_sum processing,
          fin_withdrawals_succeeded_count = length succeeded, fin_withdrawals_succeeded = out_sum succeeded,
          fin_withdrawals_released_count = length released, fin_withdrawals_released = out_sum released,
          fin_withdrawal_fees = sql_sum (\<lambda>w. Some (wd_fees w)) succeeded\<rparr>)"

section \<open>The day asked for\<close>

record summary_env =
  sm_max_age_days :: int
  sm_freshness_seconds :: int

text \<open>The day with its first instant and the first instant of the next.\<close>

definition period_for_day :: "summary_env \<Rightarrow> datetime \<Rightarrow> string \<Rightarrow> exn + int \<times> datetime \<times> datetime" where
  "period_for_day env now day =
     (if \<not> is_day_text day then Inl (ApiError 422 ''INVALID_DATE'')
      else case bindR (date_of_iso day) (\<lambda>d. bindR (add_days d 1) (\<lambda>next. Inr (d, next))) of
          Inl _ \<Rightarrow> Inl (ApiError 422 ''INVALID_DATE'')
        | Inr (d, next) \<Rightarrow>
          if day_of now < d then Inl (ApiError 422 ''SUMMARY_DATE_IN_FUTURE'')
          else if d < day_of now - sm_max_age_days env then Inl (ApiError 422 ''SUMMARY_DATE_OUT_OF_RANGE'')
          else Inr (d, abidjan_start d, abidjan_start next))"

definition is_integral :: "rat \<Rightarrow> bool" where
  "is_integral x \<longleftrightarrow> x = of_int (round_half_even x)"

definition freshness :: "summary_env \<Rightarrow> datetime \<Rightarrow> view" where
  "freshness env now = VObj [(''status'', VStr ''fresh''), (''synchronized_at'', VAt now),
     (''window_seconds'', VInt (sm_freshness_seconds env))]"

section \<open>The summaries\<close>

definition daily_summary :: "summary_env \<Rightarrow> string \<Rightarrow> datetime \<Rightarrow> ride_db \<Rightarrow> exn + view" where
  "daily_summary env day now rdb =
     bindR (period_for_day env now day) (\<lambda>(_, start, stop).
     let totals = summarize_period start stop rdb
     in if \<not> is_integral (sum_completed_fare totals) then Inl (ApiError 500 ''INVALID_RIDE_FARE'')
        else Inr (VObj [(''module'', VStr ''diddigo''), (''date'', VStr day), (''timezone'', VStr ''Africa/Abidjan''),
          (''rides_requested'', VInt (int (sum_rides_requested totals))),
          (''rides_completed'', VInt (int (sum_rides_completed totals))),
          (''completed_fare_total_xof'', VInt (py_trunc (sum_completed_fare totals))),
          (''calculated_at'', VAt now), (''freshness'', freshness env now)]))"

definition item_of :: "string \<Rightarrow> view \<Rightarrow> view" where
  "item_of k v = (case v of VObj items \<Rightarrow> (case map_of items k of None \<Rightarrow> VNone | Some x \<Rightarrow> x) | _ \<Rightarrow> VNone)"

definition metric_view :: "string \<Rightarrow> string \<Rightarrow> view \<Rightarrow> string \<Rightarrow> view" where
  "metric_view name label value unit =
     VObj [(''name'', VStr name), (''label'', VStr label), (''value'', value), (''unit'', VStr unit)]"

definition pilotage_daily_summary :: "summary_env \<Rightarrow> string \<Rightarrow> datetime \<Rightarrow> ride_db \<Rightarrow> exn + view" where
  "pilotage_daily_summary env day now rdb =
     bindR (daily_summary env day now rdb) (\<lambda>summary.
     bindR (date_of_iso day) (\<lambda>d.
     Inr (VObj [(''contract_version'', VStr ''pilotage.v1''), (''module'', item_of ''module'' summary),
       (''date'', item_of ''date'' summary), (''timezone'', item_of ''timezone'' summary),
       (''is_final'', VBool (d < day_of now)),
       (''metrics'', VList [
          metric_view ''rides_requested'' ''Courses demandees'' (item_of ''rides_requested'' summary) ''count'',
          metric_view ''rides_completed'' ''Courses terminees'' (item_of ''rides_completed'' summary) ''count'',
          metric_view ''completed_fare_total_xof'' ''Montant facture des courses terminees''
            (item_of ''completed_fare_total_xof'' summary) ''XOF'']),
       (''calculated_at'', item_of ''calculated_at'' summary),
       (''sources'', VList [VObj [(''module'', VStr ''diddigo''), (''record_type'', VStr ''ride-summary'')]]),
       (''freshness'', item_of ''freshness'' summary),
       (''deep_links'', VList [VObj [(''label'', VStr ''Ouvrir les courses dans Backoffice''),
          (''href'', VStr ''/backoffice/#diddigo-rides'')]])])))"

text \<open>The metrics with their units; the fields that end in \<open>_xof\<close> must be whole.\<close>

definition finance_metrics :: "finance_totals \<Rightarrow> (string \<times> rat \<times> string) list" where
  "finance_metrics f = [
     (''completed_fare_total_xof'', fin_completed_fare f, ''XOF''),
     (''digital_payments_xof'', fin_digital_payments f, ''XOF''),
     (''cash_payments_xof'', fin_cash_payments f, ''XOF''),
     (''platform_commission_xof'', fin_platform_commission f, ''XOF''),
     (''driver_earnings_xof'', fin_driver_earnings f, ''XOF''),
     (''driver_amount_paid_xof'', fin_driver_amount_paid f, ''XOF''),
     (''driver_amount_outstanding_xof'', fin_driver_earnings f - fin_driver_amount_paid f, ''XOF''),
     (''refunds_xof'', fin_refunds f, ''XOF''),
     (''driver_topups_requested_count'', of_nat (fin_topups_requested_count f), ''count''),
     (''driver_topups_requested_xof'', fin_topups_requested f, ''XOF''),
     (''driver_topups_succeeded_count'', of_nat (fin_topups_succeeded_count f), ''count''),
     (''driver_topups_succeeded_xof'', fin_topups_succeeded f, ''XOF''),
     (''driver_topups_pending_count'', of_nat (fin_topups_pending_count f), ''count''),
     (''driver_topups_pending_xof'', fin_topups_pending f, ''XOF''),
     (''driver_topups_failed_count'', of_nat (fin_topups_failed_count f), ''count''),
     (''driver_topups_failed_xof'', fin_topups_failed f, ''XOF''),
     (''driver_withdrawals_requested_count'', of_nat (fin_withdrawals_requested_count f), ''count''),
     (''driver_withdrawals_requested_xof'', fin_withdrawals_requested f, ''XOF''),
     (''driver_withdrawals_processing_count'', of_nat (fin_withdrawals_processing_count f), ''count''),
     (''driver_withdrawals_processing_xof'', fin_withdrawals_processing f, ''XOF''),
     (''driver_withdrawals_succeeded_count'', of_nat (fin_withdrawals_succeeded_count f), ''count''),
     (''driver_withdrawals_succeeded_xof'', fin_withdrawals_succeeded f, ''XOF''),
     (''driver_withdrawals_released_count'', of_nat (fin_withdrawals_released_count f), ''count''),
     (''driver_withdrawals_released_xof'', fin_withdrawals_released f, ''XOF''),
     (''withdrawal_fees_xof'', fin_withdrawal_fees f, ''XOF'')]"

definition xof_amounts :: "finance_totals \<Rightarrow> rat list" where
  "xof_amounts f = [fin_completed_fare f, fin_digital_payments f, fin_cash_payments f, fin_platform_commission f,
     fin_driver_earnings f, fin_driver_amount_paid f, fin_refunds f, fin_topups_requested f, fin_topups_succeeded f,
     fin_topups_pending f, fin_topups_failed f, fin_withdrawals_requested f, fin_withdrawals_processing f,
     fin_withdrawals_succeeded f, fin_withdrawals_released f, fin_withdrawal_fees f]"

definition checked_totals :: "finance_totals \<Rightarrow> exn + unit" where
  "checked_totals f =
     (if list_ex (\<lambda>x. \<not> is_integral x) (xof_amounts f) then Inl (ApiError 500 ''INVALID_FINANCE_AMOUNT'')
      else if fin_digital_payments f + fin_cash_payments f \<noteq> fin_completed_fare f
      then Inl (ApiError 500 ''PAYMENT_ALLOCATION_MISMATCH'')
      else if fin_platform_commission f + fin_driver_earnings f \<noteq> fin_completed_fare f
      then Inl (ApiError 500 ''FARE_ALLOCATION_MISMATCH'')
      else if fin_driver_earnings f < fin_driver_amount_paid f then Inl (ApiError 500 ''DRIVER_PAYMENT_MISMATCH'')
      else Inr ())"

definition finance_view :: "summary_env \<Rightarrow> string \<Rightarrow> bool \<Rightarrow> finance_totals \<Rightarrow> datetime \<Rightarrow> view" where
  "finance_view env day final f now = VObj [(''contract_version'', VStr ''pilotage.v1''), (''module'', VStr ''diddigo''),
     (''date'', VStr day), (''timezone'', VStr ''Africa/Abidjan''), (''is_final'', VBool final),
     (''metrics'', VList (map (\<lambda>(name, value, unit). VObj [(''name'', VStr name), (''value'', VInt (py_trunc value)),
        (''unit'', VStr unit)]) (finance_metrics f))),
     (''calculated_at'', VAt now),
     (''sources'', VList [VObj [(''module'', VStr ''diddigo''), (''record_type'', VStr ''ride-finance-summary'')]]),
     (''freshness'', freshness env now)]"

definition pilotage_finance_summary ::
  "summary_env \<Rightarrow> string \<Rightarrow> datetime \<Rightarrow> ride_db \<Rightarrow> pay_db \<Rightarrow> exn + view" where
  "pilotage_finance_summary env day now rdb db =
     bindR (period_for_day env now day) (\<lambda>(d, start, stop).
     let totals = summarize_finance_period start stop rdb db
     in bindR (checked_totals totals) (\<lambda>_. Inr (finance_view env day (d < day_of now) totals now)))"

section \<open>The routes\<close>

definition as_pilotage :: "auth_env \<Rightarrow> string option \<Rightarrow> string option \<Rightarrow> datetime \<Rightarrow> exn + claims" where
  "as_pilotage env token client now = require_identity_service_token env ''diddigo'' ''diddigo:ride-summary:read''
     (Some ''service:pilotage'') None token client now"

definition get_ride_summary ::
  "auth_env \<Rightarrow> summary_env \<Rightarrow> string option \<Rightarrow> string option \<Rightarrow> string \<Rightarrow> datetime \<Rightarrow> ride_db \<Rightarrow> exn + view" where
  "get_ride_summary aenv env token client day now rdb =
     bindR (as_pilotage aenv token client now) (\<lambda>_. daily_summary env day now rdb)"

definition get_pilotage_daily_summary ::
  "auth_env \<Rightarrow> summary_env \<Rightarrow> string option \<Rightarrow> string option \<Rightarrow> string \<Rightarrow> datetime \<Rightarrow> ride_db \<Rightarrow> exn + view" where
  "get_pilotage_daily_summary aenv env token client day now rdb =
     bindR (as_pilotage aenv token client now) (\<lambda>_. pilotage_daily_summary env day now rdb)"

definition get_pilotage_finance_summary ::
  "auth_env \<Rightarrow> summary_env \<Rightarrow> string option \<Rightarrow> string option \<Rightarrow> string \<Rightarrow> datetime \<Rightarrow> ride_db \<Rightarrow> pay_db \<Rightarrow> exn + view" where
  "get_pilotage_finance_summary aenv env token client day now rdb db =
     bindR (as_pilotage aenv token client now) (\<lambda>_. pilotage_finance_summary env day now rdb db)"

definition component_view :: "string \<Rightarrow> bool \<Rightarrow> view" where
  "component_view name ok = VObj [(''name'', VStr name), (''status'', VStr (if ok then ''available'' else ''unavailable''))]"

definition get_pilotage_health_summary ::
  "auth_env \<Rightarrow> string option \<Rightarrow> string option \<Rightarrow> bool \<Rightarrow> bool \<Rightarrow> datetime \<Rightarrow> exn + view" where
  "get_pilotage_health_summary aenv token client db_ok redis_ok now =
     bindR (as_pilotage aenv token client now) (\<lambda>_.
     Inr (VObj [(''contract_version'', VStr ''pilotage.v1''), (''module'', VStr ''diddigo''),
       (''status'', VStr (if db_ok \<and> redis_ok then ''available'' else ''degraded'')), (''calculated_at'', VAt now),
       (''freshness_window_seconds'', VInt 60),
       (''components'', VList [component_view ''database'' db_ok, component_view ''redis'' redis_ok]),
       (''sources'', VList [VObj [(''module'', VStr ''diddigo''), (''record_type'', VStr ''health-summary'')]])]))"

end
