(* ===== verification/Ride_Breakdown.thy ===== *)
theory Ride_Breakdown
  imports Ride_Summary "HOL-Library.Multiset"
begin

text \<open>
  Breakdowns of a day for Pilotage: ride/domain/breakdown.py, ride/infra/breakdown\_repository.py,
  ride/infra/breakdown\_cache.py and ride/application/breakdown\_service.py, with the route of
  ride/presentation/summary\_router.py. The order of texts is that of the database and stands in the
  environment; the cache keeps a snapshot as it is, since its JSON gives decimals and instants back exactly.
\<close>

section \<open>Dimensions and metrics\<close>

datatype breakdown_dimension = BD_HOUR | BD_PAYMENT_METHOD | BD_SERVICE_TYPE | BD_FINAL_STATUS

datatype breakdown_metric = BM_RIDES_REQUESTED | BM_RIDES_COMPLETED | BM_COMPLETED_FARE_TOTAL_XOF

fun dimension_value :: "breakdown_dimension \<Rightarrow> string" where
  "dimension_value BD_HOUR = ''hour''"
| "dimension_value BD_PAYMENT_METHOD = ''payment_method''"
| "dimension_value BD_SERVICE_TYPE = ''service_type''"
| "dimension_value BD_FINAL_STATUS = ''final_status''"

fun metric_value :: "breakdown_metric \<Rightarrow> string" where
  "metric_value BM_RIDES_REQUESTED = ''rides_requested''"
| "metric_value BM_RIDES_COMPLETED = ''rides_completed''"
| "metric_value BM_COMPLETED_FARE_TOTAL_XOF = ''completed_fare_total_xof''"

definition SUPPORTED_BREAKDOWNS :: "(breakdown_dimension \<times> breakdown_metric) list" where
  "SUPPORTED_BREAKDOWNS = List.product [BD_HOUR, BD_PAYMENT_METHOD, BD_SERVICE_TYPE]
     [BM_RIDES_REQUESTED, BM_RIDES_COMPLETED, BM_COMPLETED_FARE_TOTAL_XOF] @ [(BD_FINAL_STATUS, BM_RIDES_REQUESTED)]"

record breakdown =
  bk_total :: rat
  bk_items :: "(string \<times> rat) list"
  bk_calculated_at :: datetime

definition is_consistent :: "breakdown \<Rightarrow> bool" where
  "is_consistent b \<longleftrightarrow> sum_list (map snd (bk_items b)) = bk_total b"

section \<open>The aggregation\<close>

definition metric_time :: "breakdown_metric \<Rightarrow> ride \<Rightarrow> datetime option" where
  "metric_time m r = (if m = BM_RIDES_REQUESTED then rd_requested_at r else rd_completed_at r)"

definition dimension_key :: "breakdown_dimension \<Rightarrow> breakdown_metric \<Rightarrow> ride \<Rightarrow> string" where
  "dimension_key d m r = (case d of
       BD_HOUR \<Rightarrow> (case metric_time m r of None \<Rightarrow> [] | Some t \<Rightarrow> zero_pad 2 (nat_str (local_hour t)))
     | BD_PAYMENT_METHOD \<Rightarrow> ride_payment_method_value (rd_payment_method r)
     | BD_SERVICE_TYPE \<Rightarrow> vehicle_category_value (rd_vehicle_category r)
     | BD_FINAL_STATUS \<Rightarrow> ride_status_value (rd_status r))"

definition metric_rows :: "breakdown_metric \<Rightarrow> datetime \<Rightarrow> datetime \<Rightarrow> ride_db \<Rightarrow> ride list" where
  "metric_rows m start stop rdb =
     filter (\<lambda>r. in_window start stop (metric_time m r) \<and> \<not> rd_is_review_account r
         \<and> (m \<noteq> BM_RIDES_REQUESTED \<longrightarrow> rd_status r = COMPLETED)
         \<and> (m = BM_COMPLETED_FARE_TOTAL_XOF \<longrightarrow> rd_currency r = ''XOF'')) (rides rdb)"

definition metric_of_rows :: "breakdown_metric \<Rightarrow> ride list \<Rightarrow> rat" where
  "metric_of_rows m rs = (if m = BM_COMPLETED_FARE_TOTAL_XOF then sql_sum rd_final_fare rs else of_nat (length rs))"

definition aggregate ::
  "(string list \<Rightarrow> string list) \<Rightarrow> datetime \<Rightarrow> datetime \<Rightarrow> breakdown_dimension \<Rightarrow> breakdown_metric \<Rightarrow> ride_db
    \<Rightarrow> (string \<times> rat) list" where
  "aggregate order_by start stop d m rdb =
     (let rows = metric_rows m start stop rdb
      in map (\<lambda>k. (k, metric_of_rows m (group_of (dimension_key d m) k rows)))
           (order_by (remdups (map (dimension_key d m) rows))))"

section \<open>The cache\<close>

type_synonym breakdown_cache = "string \<Rightarrow> (breakdown \<times> datetime) option"

definition breakdown_key :: "string \<Rightarrow> string \<Rightarrow> string \<Rightarrow> string" where
  "breakdown_key day dimension metric = ''pilotage:breakdown:v1:'' @ day @ '':'' @ dimension @ '':'' @ metric"

definition cached_breakdown :: "string \<Rightarrow> string \<Rightarrow> string \<Rightarrow> datetime \<Rightarrow> breakdown_cache \<Rightarrow> breakdown option" where
  "cached_breakdown day dimension metric now c = (case c (breakdown_key day dimension metric) of
       None \<Rightarrow> None | Some (b, expires_at) \<Rightarrow> if now < expires_at then Some b else None)"

definition cache_breakdown ::
  "string \<Rightarrow> string \<Rightarrow> string \<Rightarrow> breakdown \<Rightarrow> int \<Rightarrow> datetime \<Rightarrow> breakdown_cache \<Rightarrow> breakdown_cache" where
  "cache_breakdown day dimension metric b ttl now c = c(breakdown_key day dimension metric \<mapsto> (b, now + seconds ttl))"

section \<open>The service\<close>

text \<open>\<open>br_can_read\<close> and \<open>br_can_write\<close>: whether Redis answers.\<close>

record breakdown_env =
  br_summary :: summary_env
  br_order_by :: "string list \<Rightarrow> string list"
  br_current_ttl :: int
  br_final_ttl :: int
  br_can_read :: bool
  br_can_write :: bool

definition breakdown_selection :: "string \<Rightarrow> string \<Rightarrow> exn + breakdown_dimension \<times> breakdown_metric" where
  "breakdown_selection raw_dimension raw_metric =
     (case (find (\<lambda>d. dimension_value d = raw_dimension) [BD_HOUR, BD_PAYMENT_METHOD, BD_SERVICE_TYPE, BD_FINAL_STATUS],
            find (\<lambda>m. metric_value m = raw_metric) [BM_RIDES_REQUESTED, BM_RIDES_COMPLETED, BM_COMPLETED_FARE_TOTAL_XOF]) of
        (Some d, Some m) \<Rightarrow> if (d, m) \<notin> set SUPPORTED_BREAKDOWNS then Inl (ApiError 404 ''BREAKDOWN_NOT_AVAILABLE'')
          else Inr (d, m)
      | _ \<Rightarrow> Inl (ApiError 404 ''BREAKDOWN_NOT_AVAILABLE''))"

definition calculate_breakdown ::
  "breakdown_env \<Rightarrow> datetime \<Rightarrow> datetime \<Rightarrow> breakdown_dimension \<Rightarrow> breakdown_metric \<Rightarrow> datetime \<Rightarrow> ride_db \<Rightarrow> breakdown" where
  "calculate_breakdown env start stop d m now rdb =
     (let items = aggregate (br_order_by env) start stop d m rdb
      in \<lparr>bk_total = sum_list (map snd items), bk_items = items, bk_calculated_at = now\<rparr>)"

definition breakdown_label :: "string \<Rightarrow> string" where
  "breakdown_label k =
     (case map_of [(''cash'', ''Esp'' @ [char_of (232::nat)] @ ''ces''), (''mobile_money'', ''Mobile Money''),
        (''standard'', ''Standard''), (''comfort'', ''Confort''), (''van'', ''Van'')] k of None \<Rightarrow> k | Some l \<Rightarrow> l)"

definition breakdown_response ::
  "breakdown_env \<Rightarrow> string \<Rightarrow> int \<Rightarrow> breakdown_dimension \<Rightarrow> breakdown_metric \<Rightarrow> datetime \<Rightarrow> breakdown \<Rightarrow> view" where
  "breakdown_response env day d dm m now b =
     (let is_count = m \<noteq> BM_COMPLETED_FARE_TOTAL_XOF;
          amount = (\<lambda>x. if is_count then VInt (py_trunc x) else VNum x)
      in VObj [(''contract_version'', VStr ''pilotage.breakdown.v1''), (''module'', VStr ''diddigo''),
        (''date'', VStr day), (''timezone'', VStr ''Africa/Abidjan''), (''dimension'', VStr (dimension_value dm)),
        (''metric'', VStr (metric_value m)), (''unit'', VStr (if is_count then ''count'' else ''XOF'')),
        (''total'', amount (bk_total b)),
        (''items'', VList (map (\<lambda>(k, v). VObj [(''key'', VStr k), (''label'', VStr (breakdown_label k)),
           (''value'', amount v)]) (bk_items b))),
        (''is_final'', VBool (d < day_of now)), (''calculated_at'', VAt (bk_calculated_at b)),
        (''freshness'', freshness (br_summary env) (bk_calculated_at b))])"

definition pilotage_breakdown ::
  "breakdown_env \<Rightarrow> string \<Rightarrow> string \<Rightarrow> string \<Rightarrow> datetime \<Rightarrow> ride_db \<Rightarrow> breakdown_cache
    \<Rightarrow> (exn + view) \<times> breakdown_cache" where
  "pilotage_breakdown env day raw_dimension raw_metric now rdb c =
     (case bindR (period_for_day (br_summary env) now day) (\<lambda>p.
          bindR (breakdown_selection raw_dimension raw_metric) (\<lambda>s. Inr (p, s))) of
        Inl e \<Rightarrow> (Inl e, c)
      | Inr ((d, start, stop), (dm, m)) \<Rightarrow>
        let found = (if br_can_read env then cached_breakdown day (dimension_value dm) (metric_value m) now c else None);
            b = (case found of Some b \<Rightarrow> b | None \<Rightarrow> calculate_breakdown env start stop dm m now rdb);
            ttl = (if d = day_of now then br_current_ttl env else br_final_ttl env);
            c1 = (if found = None \<and> br_can_write env
                  then cache_breakdown day (dimension_value dm) (metric_value m) b ttl now c else c)
        in if \<not> is_consistent b then (Inl (ApiError 500 ''BREAKDOWN_TOTAL_MISMATCH''), c1)
           else (Inr (breakdown_response env day d dm m now b), c1))"

definition get_pilotage_breakdown ::
  "auth_env \<Rightarrow> breakdown_env \<Rightarrow> string option \<Rightarrow> string option \<Rightarrow> string \<Rightarrow> string \<Rightarrow> string \<Rightarrow> datetime \<Rightarrow> ride_db
    \<Rightarrow> breakdown_cache \<Rightarrow> (exn + view) \<times> breakdown_cache" where
  "get_pilotage_breakdown aenv env token client day dimension metric now rdb c =
     (case as_pilotage aenv token client now of
        Inl e \<Rightarrow> (Inl e, c)
      | Inr _ \<Rightarrow> pilotage_breakdown env day dimension metric now rdb c)"

section \<open>What a breakdown adds up to\<close>

lemma sql_count: "sql_sum (\<lambda>_. Some 1) xs = of_nat (length xs)"
  by (induction xs) (simp_all add: sql_sum_def num_or_def)

lemma count_of_groups:
  assumes "distinct ks" and "key ` set rows \<subseteq> set ks"
  shows "sum_list (map (\<lambda>k. of_nat (length (group_of key k rows)) :: rat) ks) = of_nat (length rows)"
  using sum_of_groups [OF assms, of "\<lambda>_. Some 1"] by (simp only: sql_count)

lemma aggregate_total:
  assumes "\<forall>ks. mset (order_by ks) = mset ks"
  shows "sum_list (map snd (aggregate order_by start stop d m rdb)) = metric_of_rows m (metric_rows m start stop rdb)"
proof -
  let ?key = "dimension_key d m" and ?rows = "metric_rows m start stop rdb"
  let ?ks = "order_by (remdups (map ?key ?rows))"
  have m: "mset ?ks = mset (remdups (map ?key ?rows))" using assms by blast
  from mset_eq_imp_distinct_iff [OF m] have ks: "distinct ?ks" by simp
  from mset_eq_setD [OF m] have cover: "?key ` set ?rows \<subseteq> set ?ks" by simp
  show ?thesis
    using sum_of_groups [OF ks cover, of rd_final_fare] count_of_groups [OF ks cover]
    by (cases "m = BM_COMPLETED_FARE_TOTAL_XOF") (simp_all add: aggregate_def Let_def comp_def metric_of_rows_def)
qed

text \<open>The metric of the daily summary.\<close>

definition summary_metric :: "breakdown_metric \<Rightarrow> summary_totals \<Rightarrow> rat" where
  "summary_metric m t = (case m of BM_RIDES_REQUESTED \<Rightarrow> of_nat (sum_rides_requested t)
     | BM_RIDES_COMPLETED \<Rightarrow> of_nat (sum_rides_completed t) | BM_COMPLETED_FARE_TOTAL_XOF \<Rightarrow> sum_completed_fare t)"

lemma sql_sum_filter: "sql_sum (\<lambda>x. if P x then f x else None) xs = sql_sum f (filter P xs)"
  by (induction xs) (simp_all add: sql_sum_def num_or_def)

lemma rows_give_summary: "metric_of_rows m (metric_rows m start stop rdb) = summary_metric m (summarize_period start stop rdb)"
proof (cases m)
  case BM_COMPLETED_FARE_TOTAL_XOF
  then show ?thesis
    by (simp add: metric_of_rows_def metric_rows_def metric_time_def summary_metric_def summarize_period_def
        completed_in_def Let_def sql_sum_filter conj_ac)
qed (simp_all add: metric_of_rows_def metric_rows_def metric_time_def summary_metric_def summarize_period_def
    requested_in_def completed_in_def Let_def conj_ac)

lemma calculated_total:
  assumes "\<forall>ks. mset (br_order_by env ks) = mset ks"
  shows "bk_total (calculate_breakdown env start stop d m now rdb) = summary_metric m (summarize_period start stop rdb)"
  by (simp add: calculate_breakdown_def Let_def aggregate_total [OF assms] rows_give_summary)

lemma calculated_consistent: "is_consistent (calculate_breakdown env start stop d m now rdb)"
  by (simp add: calculate_breakdown_def is_consistent_def Let_def)

end
