(* ===== verification/Half_Fare.thy ===== *)
theory Half_Fare
  imports Ride_Properties
begin

text \<open>
  The trip of Ride\_Trip with a supplement of half a franc that the passenger accepts: the requests lead to a
  completed ride of 1500.5 XOF.
\<close>

definition half_asked :: ride_db where
  "half_asked = snd (transact trip_going (add_supplement 10 8 ''driver'' ''other'' (Some (1 / 2)) (Some ''eau'') 5 trip_going))"

definition half_supplement :: ride_supplement where
  "half_supplement = \<lparr>su_id = 11, su_ride_id = 10, su_amount = 1 / 2, su_reason = ''other'', su_custom_label = Some ''eau'',
     su_source = ''catalog'', su_status = ''pending'', su_created_by_user_id = Some 8, su_created_at = 5,
     su_decided_by_user_id = None, su_decided_at = None\<rparr>"

lemma half_asked_state: "half_asked = trip_going\<lparr>supplements := [half_supplement], next_ride_id := 12\<rparr>"
proof -
  have k: "lower (strip ''other'') = ''other''" "strip ''eau'' = ''eau''" by code_simp+
  have a: "supplement_amount ''other'' (Some (1 / 2)) = Inr (1 / 2)" by code_simp
  show ?thesis
    by (simp add: half_asked_def add_supplement_def require_active_ride_for_driver_def k a trip_going_state str_or_def
        fresh_id_def insert_supplement_def insert_row_def Let_def half_supplement_def)
qed

definition half_agreed :: ride_db where
  "half_agreed = snd (transact half_asked (decide_supplement 10 11 7 ''passenger'' ''accepted'' 5 half_asked))"

definition half_ride :: ride where
  "half_ride = ride_row 5 (Some trip_ride4) (trip_ride4\<lparr>rd_supplements_total := 1 / 2\<rparr>)"

lemma half_agreed_state: "half_agreed = trip_going\<lparr>rides := [half_ride], next_ride_id := 12, supplements := [half_supplement
     \<lparr>su_status := ''accepted'', su_decided_by_user_id := Some 7, su_decided_at := Some 5\<rparr>]\<rparr>"
  by (simp add: half_agreed_def half_asked_state decide_supplement_def trip_going_state half_supplement_def Let_def
      find_supplement_for_update_def save_supplement_def accepted_supplements_total_def half_ride_def save_ride_def
      load_ride_def find_ride_def update_row_def)

definition half_done :: ride_db where
  "half_done = snd (transact half_agreed (update_status trip_env 10 COMPLETED 8 ''driver'' 6 half_agreed))"

lemma half_ride_fields:
  "rd_id half_ride = 10" "rd_status half_ride = IN_PROGRESS" "rd_driver_id half_ride = Some 2"
  "rd_pickup_location half_ride = Some (trip_point 5)" "rd_dropoff_location half_ride = Some (trip_point 6)"
  "rd_supplements_total half_ride = 1 / 2" "rd_status_history half_ride = []" "rd_map_trace_id half_ride = Some ''trace''"
  "rd_final_fare half_ride = None" "rd_estimated_fare half_ride = Some 1500" "rd_waiting_fee half_ride = 0"
  "rd_pre_ride_wait_fee half_ride = 0" "rd_completed_at half_ride = None"
  by (simp_all add: half_ride_def ride_row_def)

lemma trip_ride4_more: "rd_currency trip_ride4 = ''XOF''" "\<not> rd_is_review_account trip_ride4"
  by (simp_all add: trip_ride4_def trip_ride3_def trip_ride2_def trip_ride1_def trip_ride_def ride_row_def moved_to_def
      ride_of_quote_def new_ride_def)

lemma half_ride_more: "rd_currency half_ride = ''XOF''" "\<not> rd_is_review_account half_ride" "rd_payment_method half_ride = CASH"
  using trip_ride4_more by (simp_all add: half_ride_def ride_row_def)

definition half_final :: ride where
  "half_final = completed_fare (moved_to COMPLETED 6 None
     (half_ride\<lparr>rd_trace_analysis_status := Some ''no_samples'', rd_trace_analysis_error_code := None\<rparr>))"

lemma half_final_fields:
  "rd_id half_final = 10" "rd_status half_final = COMPLETED" "rd_pickup_location half_final = Some (trip_point 5)"
  "rd_dropoff_location half_final = Some (trip_point 6)" "rd_final_fare half_final = Some (3001 / 2)"
  "rd_currency half_final = ''XOF''" "rd_completed_at half_final = Some 6" "rd_payment_method half_final = CASH"
  "\<not> rd_is_review_account half_final"
  by (simp_all add: half_final_def half_ride_fields half_ride_more)
   (simp_all add: completed_fare_def split_fare_def Let_def extras_def half_ride_fields half_ride_more dec_or_def
      moved_to_def first_visit_def)

lemma half_done_rides: "rides half_done = [ride_row 6 (Some half_ride) half_final]"
  by (simp add: half_done_def half_agreed_state trip_going_state update_status_def wait_ended_first_def finish_status_def
     priced_for_completion_def apply_actual_pricing_if_possible_def list_route_points_def api_transition_def
     transition_def Let_def half_ride_fields driver_ride_def load_ride_def find_ride_def is_assigned_driver_def
     half_final_def [symmetric] save_ride_def half_final_fields update_row_def record_history_def find_profile_by_user_def
     record_priority_outcome_def driver_profile_id_for_user_def record_status_transition_def trip_driver_def
     new_driver_profile_def)

lemma half_done_fields: "rd_final_fare r = Some (3001 / 2) \<and> rd_status r = COMPLETED \<and> rd_currency r = ''XOF''
    \<and> rd_completed_at r = Some 6 \<and> rd_payment_method r = CASH \<and> \<not> rd_is_review_account r"
  if "r \<in> set (rides half_done)"
  using that unfolding half_done_rides
  by (simp add: half_final_fields ride_row_def)

lemma reach_half: "ride_reachable half_done"
proof -
  have "ride_reachable half_asked" unfolding half_asked_def by (rule reach_step [OF reach_going step_supplement])
  then have "ride_reachable half_agreed" unfolding half_agreed_def by (rule reach_step [OF _ step_decide])
  then show ?thesis unfolding half_done_def by (rule reach_step [OF _ step_status])
qed

end
