(* ===== verification/Summary_Properties.thy ===== *)
theory Summary_Properties
  imports Ride_Breakdown Half_Fare Payment_Properties
begin

text \<open>
  The reports: the finance summary over the rides that requests can lead to, the breakdowns against the daily
  summary and in time, and the earnings report of a driver. Each property is followed by its witness, mostly on
  the trip of Ride\_Trip, whose ride was completed on 1970-01-01.
\<close>

section \<open>Sums over settled rides\<close>






lemma integral_iff: "is_integral x \<longleftrightarrow> x \<in> \<int>"
  unfolding is_integral_def by (metis Ints_cases Ints_of_int round_half_even_of_int)







section \<open>Properties\<close>


text \<open>The day of the trip, read a moment after it.\<close>

definition trip_summary_env :: summary_env where
  "trip_summary_env = \<lparr>sm_max_age_days = 30, sm_freshness_seconds = 60\<rparr>"

lemma trip_period: "period_for_day trip_summary_env 10 ''1970-01-01'' = Inr (719163, 0, 86400000000)"
  by code_simp






text \<open>A breakdown that the cache does not hold.\<close>

lemma uncached_breakdown:
  assumes "period_for_day (br_summary env) now day = Inr (d, start, stop)"
    and "breakdown_selection (dimension_value dm) (metric_value m) = Inr (dm, m)"
    and "cached_breakdown day (dimension_value dm) (metric_value m) now c = None"
    and "b = calculate_breakdown env start stop dm m now rdb"
  shows "pilotage_breakdown env day (dimension_value dm) (metric_value m) now rdb c
    = (Inr (breakdown_response env day d dm m now b),
       if br_can_write env
       then cache_breakdown day (dimension_value dm) (metric_value m) b
         (if d = day_of now then br_current_ttl env else br_final_ttl env) now c
       else c)"
  using assms by (simp add: pilotage_breakdown_def bindR_def Let_def calculated_consistent)


definition trip_breakdown_env :: breakdown_env where
  "trip_breakdown_env = \<lparr>br_summary = trip_summary_env, br_order_by = id, br_current_ttl = 300, br_final_ttl = 86400,
     br_can_read = True, br_can_write = True\<rparr>"


text \<open>The numbers of an answer.\<close>

fun view_number :: "view \<Rightarrow> rat" where
  "view_number (VInt i) = of_int i"
| "view_number (VNum x) = x"
| "view_number _ = 0"

fun view_items :: "view \<Rightarrow> view list" where
  "view_items (VList vs) = vs"
| "view_items _ = []"

lemma trunc_whole: "x \<in> \<int> \<Longrightarrow> of_int (py_trunc x) = x"
  by (auto elim!: Ints_cases)

text \<open>What a breakdown that succeeds was computed from.\<close>

lemma breakdown_success:
  assumes "pilotage_breakdown env day dimension metric now rdb c = (Inr v, c')"
  obtains d start stop dm m b where "period_for_day (br_summary env) now day = Inr (d, start, stop)"
    "breakdown_selection dimension metric = Inr (dm, m)" "is_consistent b" "v = breakdown_response env day d dm m now b"
    "b = (case if br_can_read env then cached_breakdown day (dimension_value dm) (metric_value m) now c else None of
        Some b \<Rightarrow> b | None \<Rightarrow> calculate_breakdown env start stop dm m now rdb)"
  using assms unfolding pilotage_breakdown_def bindR_def
  by (auto simp: Let_def split: sum.splits if_splits)

lemma selection_values:
  "breakdown_selection dimension metric = Inr (dm, m) \<Longrightarrow> dimension = dimension_value dm \<and> metric = metric_value m"
  by (auto simp: breakdown_selection_def find_Some_iff split: option.splits if_splits)

text \<open>The metrics of the rows are whole where they are counts.\<close>

lemma count_whole: "m \<noteq> BM_COMPLETED_FARE_TOTAL_XOF \<Longrightarrow> metric_of_rows m rs \<in> \<int>"
  by (simp add: metric_of_rows_def)

lemma response_numbers:
  assumes "m = BM_COMPLETED_FARE_TOTAL_XOF \<or> bk_total b \<in> \<int> \<and> (\<forall>(k, x) \<in> set (bk_items b). x \<in> \<int>)"
  shows "view_number (item_of ''total'' (breakdown_response env day d dm m now b)) = bk_total b"
    and "map (view_number \<circ> item_of ''value'') (view_items (item_of ''items'' (breakdown_response env day d dm m now b)))
      = map snd (bk_items b)"
  using assms by (auto simp: breakdown_response_def item_of_def Let_def trunc_whole)

lemma summary_numbers:
  assumes "daily_summary env day now rdb = Inr s" and "period_for_day env now day = Inr (d, start, stop)"
  shows "view_number (item_of (metric_value m) s) = summary_metric m (summarize_period start stop rdb)"
  using assms by (cases m)
    (auto simp: daily_summary_def bindR_def Let_def summary_metric_def item_of_def trunc_whole integral_iff split: if_splits)

text \<open>
  C34: A breakdown that is computed and not read from the cache adds up to its total, and the total is the number
  that the daily summary gives for the same metric, whatever the dimension.
\<close>

theorem breakdown_agrees_with_summary:
  assumes "pilotage_breakdown env day dimension metric now rdb c = (Inr v, c')"
    and "daily_summary (br_summary env) day now rdb = Inr s"
    and "\<not> br_can_read env \<or> cached_breakdown day dimension metric now c = None"
    and "\<forall>ks. mset (br_order_by env ks) = mset ks"
  shows "view_number (item_of ''total'' v) = view_number (item_of metric s)
    \<and> sum_list (map (view_number \<circ> item_of ''value'') (view_items (item_of ''items'' v))) = view_number (item_of ''total'' v)"
proof -
  from assms(1) obtain d start stop dm m b where p: "period_for_day (br_summary env) now day = Inr (d, start, stop)"
    and sel: "breakdown_selection dimension metric = Inr (dm, m)" and c: "is_consistent b"
    and v: "v = breakdown_response env day d dm m now b"
    and b: "b = (case if br_can_read env then cached_breakdown day (dimension_value dm) (metric_value m) now c else None of
        Some b \<Rightarrow> b | None \<Rightarrow> calculate_breakdown env start stop dm m now rdb)"
    by (rule breakdown_success)
  from selection_values [OF sel] have names: "dimension = dimension_value dm" "metric = metric_value m" by blast+
  from b assms(3) have b: "b = calculate_breakdown env start stop dm m now rdb" unfolding names by auto
  have whole: "m = BM_COMPLETED_FARE_TOTAL_XOF \<or> bk_total b \<in> \<int> \<and> (\<forall>(k, x) \<in> set (bk_items b). x \<in> \<int>)"
  proof (cases "m = BM_COMPLETED_FARE_TOTAL_XOF")
    case False
    have "bk_total b = metric_of_rows m (metric_rows m start stop rdb)"
      by (simp add: b calculate_breakdown_def Let_def aggregate_total [OF assms(4)])
    then show ?thesis using count_whole [OF False] by (auto simp: b calculate_breakdown_def aggregate_def Let_def)
  qed simp
  from response_numbers [OF whole, of env day d dm now] c
    summary_numbers [OF assms(2) p, of m] calculated_total [OF assms(4), of start stop dm m now rdb]
  show ?thesis unfolding v names b is_consistent_def by metis
qed

lemma trip_ride5_more: "rd_completed_at trip_ride5 = Some 6" "\<not> rd_is_review_account trip_ride5"
  using trip_ride4_more
  by (simp_all add: trip_ride5_def ride_row_def completed_fare_def split_fare_def Let_def moved_to_def first_visit_def)

theorem breakdown_agrees_with_summary_witness:
  "\<exists>v c'. pilotage_breakdown trip_breakdown_env ''1970-01-01'' ''payment_method'' ''completed_fare_total_xof'' 10 trip_done
       (\<lambda>_. None) = (Inr v, c') \<and> view_number (item_of ''total'' v) = 1500"
proof -
  have p: "period_for_day (br_summary trip_breakdown_env) 10 ''1970-01-01'' = Inr (719163, 0, 86400000000)"
    by (simp add: trip_breakdown_env_def trip_period)
  have rows: "completed_in 0 86400000000 trip_done = [trip_ride5]"
    using trip_ride5_more by (simp add: completed_in_def in_window_def trip_done_state)
  have "breakdown_selection ''payment_method'' ''completed_fare_total_xof'' = Inr (BD_PAYMENT_METHOD, BM_COMPLETED_FARE_TOTAL_XOF)"
    by code_simp
  then obtain v c' where v: "pilotage_breakdown trip_breakdown_env ''1970-01-01'' ''payment_method'' ''completed_fare_total_xof''
      10 trip_done (\<lambda>_. None) = (Inr v, c')"
    using uncached_breakdown [OF p, of BD_PAYMENT_METHOD BM_COMPLETED_FARE_TOTAL_XOF "\<lambda>_. None"]
    by (simp add: cached_breakdown_def)
  have t: "sum_completed_fare (summarize_period 0 86400000000 trip_done) = 1500"
    by (simp add: summarize_period_def Let_def rows num_or_def)
  obtain s where s: "daily_summary (br_summary trip_breakdown_env) ''1970-01-01'' 10 trip_done = Inr s"
    "item_of ''completed_fare_total_xof'' s = VInt 1500"
    using p by (simp add: daily_summary_def bindR_def Let_def t is_integral_def item_of_def)
  have o: "\<forall>ks. mset (br_order_by trip_breakdown_env ks) = mset ks" by (simp add: trip_breakdown_env_def)
  have c: "\<not> br_can_read trip_breakdown_env
      \<or> cached_breakdown ''1970-01-01'' ''payment_method'' ''completed_fare_total_xof'' 10 (\<lambda>_. None) = None"
    by (simp add: cached_breakdown_def)
  from breakdown_agrees_with_summary [OF v s(1) c o] s(2) v show ?thesis by auto
qed

text \<open>What the cache gives back.\<close>

lemma cached_again:
  assumes "later < now + seconds ttl"
  shows "cached_breakdown day dimension metric later (cache_breakdown day dimension metric b ttl now c) = Some b"
  using assms by (simp add: cached_breakdown_def cache_breakdown_def)

text \<open>
  C35: A breakdown of the running day is kept for its short life even over midnight: read again on the next day it
  has the same numbers, whatever rides were requested or completed in between, and is now called final.
\<close>

theorem stale_breakdown_called_final:
  assumes "pilotage_breakdown env day dimension metric now rdb c = (Inr v, c')"
    and "cached_breakdown day dimension metric now c = None" and "br_can_read env" and "br_can_write env"
    and "period_for_day (br_summary env) now day = Inr (day_of now, start, stop)"
    and "later < now + seconds (br_current_ttl env)" and "day_of now < day_of later"
    and "period_for_day (br_summary env) later day = Inr (day_of now, start, stop)"
  shows "\<exists>v'. pilotage_breakdown env day dimension metric later rdb' c' = (Inr v', c')
    \<and> item_of ''total'' v' = item_of ''total'' v \<and> item_of ''items'' v' = item_of ''items'' v
    \<and> item_of ''calculated_at'' v' = VAt now
    \<and> item_of ''is_final'' v = VBool False \<and> item_of ''is_final'' v' = VBool True"
proof -
  from assms(1) obtain dm m where sel: "breakdown_selection dimension metric = Inr (dm, m)"
    by (rule breakdown_success)
  from selection_values [OF sel] have names: "dimension = dimension_value dm" "metric = metric_value m" by blast+
  let ?b = "calculate_breakdown env start stop dm m now rdb"
  have v: "v = breakdown_response env day (day_of now) dm m now ?b"
    and c': "c' = cache_breakdown day dimension metric ?b (br_current_ttl env) now c"
    using uncached_breakdown [OF assms(5) sel [unfolded names] assms(2) [unfolded names] refl, of rdb] assms(1,4)
    unfolding names by auto
  let ?v = "breakdown_response env day (day_of now) dm m later ?b"
  have "cached_breakdown day dimension metric later c' = Some ?b"
    unfolding c' by (rule cached_again [OF assms(6)])
  then have "pilotage_breakdown env day dimension metric later rdb' c' = (Inr ?v, c')"
    using assms(3,8) sel unfolding names
    by (simp add: pilotage_breakdown_def bindR_def Let_def calculated_consistent)
  moreover have "bk_calculated_at ?b = now" by (simp add: calculate_breakdown_def Let_def)
  ultimately show ?thesis using assms(7) unfolding v by (simp add: breakdown_response_def item_of_def Let_def)
qed

theorem stale_breakdown_called_final_witness:
  "\<exists>v c' v'. pilotage_breakdown trip_breakdown_env ''1970-01-01'' ''hour'' ''rides_completed'' 86399000000 trip_done
        (\<lambda>_. None) = (Inr v, c')
    \<and> pilotage_breakdown trip_breakdown_env ''1970-01-01'' ''hour'' ''rides_completed'' 86410000000 half_done c' = (Inr v', c')
    \<and> item_of ''total'' v' = item_of ''total'' v \<and> item_of ''is_final'' v' = VBool True"
proof -
  let ?env = trip_breakdown_env and ?day = "''1970-01-01''" and ?now = "86399000000 :: int" and ?later = "86410000000 :: int"
  have n: "day_of ?now = 719163" "day_of ?later = 719164" by code_simp+
  have p: "period_for_day (br_summary ?env) ?now ?day = Inr (719163, 0, 86400000000)"
    "period_for_day (br_summary ?env) ?later ?day = Inr (719163, 0, 86400000000)" by code_simp+
  have c: "cached_breakdown ?day ''hour'' ''rides_completed'' ?now (\<lambda>_. None) = None" by (simp add: cached_breakdown_def)
  have "breakdown_selection ''hour'' ''rides_completed'' = Inr (BD_HOUR, BM_RIDES_COMPLETED)" by code_simp
  then obtain v c' where v: "pilotage_breakdown ?env ?day ''hour'' ''rides_completed'' ?now trip_done (\<lambda>_. None) = (Inr v, c')"
    using uncached_breakdown [OF p(1), of BD_HOUR BM_RIDES_COMPLETED "\<lambda>_. None"] by (simp add: cached_breakdown_def)
  have e: "br_can_read ?env" "br_can_write ?env" "?later < ?now + seconds (br_current_ttl ?env)"
    by (simp_all add: trip_breakdown_env_def seconds_def)
  have d: "day_of ?now < day_of ?later" by (simp add: n)
  from stale_breakdown_called_final [OF v c e(1,2) p(1) [folded n(1)] e(3) d p(2) [folded n(1)], of half_done] v
  show ?thesis by blast
qed

text \<open>The pieces of a report.\<close>

lemma report_summary:
  assumes "get_earnings env uid period f t rdb db = Inr (r, db1)"
  obtains driver_id wallet e c w p where "driver_id_for_user env uid = Inr driver_id" "f \<le> t" "t \<le> f + 365"
    "get_or_create_wallet driver_id ''XOF'' db = (wallet, db1)"
    "earnings_totals (map earnings_bucket_payload
       (summarize_driver_earnings driver_id period (abidjan_start f) (abidjan_start (t + 1)) rdb db)) = (e, c, w, p)"
    "jget r ''summary'' = JObj [(''ride_earnings_xof'', JInt e), (''platform_commissions_xof'', JInt c),
       (''withdrawals_succeeded_xof'', JInt w), (''pending_or_disputed_xof'', JInt p),
       (''available_balance_xof'', JInt (py_trunc (wa_balance wallet)))]"
proof -
  from assms obtain driver_id next_date where a: "driver_id_for_user env uid = Inr driver_id" "f \<le> t" "t \<le> f + 365"
    "add_days t 1 = Inr next_date"
    by (auto simp: get_earnings_def bindR_eq_Inr split: if_splits)
  then have n: "next_date = t + 1" by (simp add: add_days_def split: if_splits)
  obtain wallet db2 where w: "get_or_create_wallet driver_id ''XOF'' db = (wallet, db2)" by fastforce
  obtain e c ws p where t: "earnings_totals (map earnings_bucket_payload
       (summarize_driver_earnings driver_id period (abidjan_start f) (abidjan_start (t + 1)) rdb db)) = (e, c, ws, p)"
    by (metis prod_cases4)
  have "db2 = db1" "r = earnings_report period f t wallet (map earnings_bucket_payload
       (summarize_driver_earnings driver_id period (abidjan_start f) (abidjan_start (t + 1)) rdb db))"
    using assms a w by (auto simp: get_earnings_def bindR_def n Let_def split: if_splits)
  with that [OF a(1-3) _ t] w t show thesis by (simp add: earnings_report_def jget_def)
qed

text \<open>
  C36: While amounts are whole, the earnings report of a driver has the same summary by day, by week and by
  month, and it is the sum over his settled rides and payouts of the period, each counted once.
\<close>

theorem earnings_any_period:
  assumes "whole_amounts rdb db"
    and "get_earnings env uid period f t rdb db = Inr (r, db1)" and "get_earnings env uid other f t rdb db = Inr (r', db2)"
  shows "jget r' ''summary'' = jget r ''summary'' \<and> db2 = db1
    \<and> (\<exists>driver_id e c w p balance. driver_id_for_user env uid = Inr driver_id
        \<and> jget r ''summary'' = JObj [(''ride_earnings_xof'', JInt e), (''platform_commissions_xof'', JInt c),
            (''withdrawals_succeeded_xof'', JInt w), (''pending_or_disputed_xof'', JInt p), (''available_balance_xof'', balance)]
        \<and> (of_int e, of_int c, of_int w, of_int p)
          = period_totals driver_id (abidjan_start f) (abidjan_start (t + 1)) rdb db)"
proof -
  from assms(2) obtain i wa e c w p where a: "driver_id_for_user env uid = Inr i"
    "get_or_create_wallet i ''XOF'' db = (wa, db1)"
    "earnings_totals (map earnings_bucket_payload
       (summarize_driver_earnings i period (abidjan_start f) (abidjan_start (t + 1)) rdb db)) = (e, c, w, p)"
    "jget r ''summary'' = JObj [(''ride_earnings_xof'', JInt e), (''platform_commissions_xof'', JInt c),
       (''withdrawals_succeeded_xof'', JInt w), (''pending_or_disputed_xof'', JInt p),
       (''available_balance_xof'', JInt (py_trunc (wa_balance wa)))]"
    by (rule report_summary)
  from assms(3) obtain i' wa' e' c' w' p' where b: "driver_id_for_user env uid = Inr i'"
    "get_or_create_wallet i' ''XOF'' db = (wa', db2)"
    "earnings_totals (map earnings_bucket_payload
       (summarize_driver_earnings i' other (abidjan_start f) (abidjan_start (t + 1)) rdb db)) = (e', c', w', p')"
    "jget r' ''summary'' = JObj [(''ride_earnings_xof'', JInt e'), (''platform_commissions_xof'', JInt c'),
       (''withdrawals_succeeded_xof'', JInt w'), (''pending_or_disputed_xof'', JInt p'),
       (''available_balance_xof'', JInt (py_trunc (wa_balance wa')))]"
    by (rule report_summary)
  from a(1) b(1) have i: "i' = i" by simp
  with a(2) b(2) have same: "wa' = wa" "db2 = db1" by simp_all
  note sums = report_totals [OF assms(1) a(3)] report_totals [OF assms(1) b(3)]
  then have "(of_int e', of_int c', of_int w', of_int p') = (of_int e :: rat, of_int c :: rat, of_int w :: rat, of_int p :: rat)"
    unfolding i by simp
  then have "e' = e" "c' = c" "w' = w" "p' = p" by simp_all
  with a b sums(1) same i show ?thesis by (simp add: a(1))
qed

definition trip_wallet_env :: wallet_env where
  "trip_wallet_env = demo_wallet_env\<lparr>we_driver_of_user := (\<lambda>_. Some 2)\<rparr>"

definition trip_paid_db :: pay_db where
  "trip_paid_db = empty_pay_db\<lparr>transactions := [\<lparr>tx_id = 20, tx_ride_id = 10, tx_amount = 1500, tx_currency = ''XOF'',
     tx_method = PM_CASH, tx_status = PS_COLLECTED, tx_collected_by = Some 2, tx_collected_at = Some 7, tx_created_at = 6,
     tx_payment_intent_id = None, tx_business_reference = None, tx_idempotency_key = None, tx_provider_status = None,
     tx_provider_next_action = None, tx_paid_at = None\<rparr>]\<rparr>"

theorem earnings_any_period_witness:
  "\<exists>r db1 r' db2. get_earnings trip_wallet_env 8 ''day'' 719163 719163 trip_done trip_paid_db = Inr (r, db1)
    \<and> get_earnings trip_wallet_env 8 ''month'' 719163 719163 trip_done trip_paid_db = Inr (r', db2)
    \<and> jget r' ''summary'' = jget r ''summary''"
proof -
  have w: "whole_amounts trip_done trip_paid_db"
    by (simp add: whole_amounts_def trip_done_state trip_paid_db_def empty_pay_db_def num_or_def)
  have "\<exists>r db1. get_earnings trip_wallet_env 8 period 719163 719163 trip_done trip_paid_db = Inr (r, db1)"
    if "period \<in> {''day'', ''month''}" for period
    using that by (auto simp: get_earnings_def trip_wallet_env_def driver_id_for_user_def add_days_def MAX_DATE_def bindR_def
        Let_def split: prod.split)
  then obtain r db1 r' db2 where "get_earnings trip_wallet_env 8 ''day'' 719163 719163 trip_done trip_paid_db = Inr (r, db1)"
    "get_earnings trip_wallet_env 8 ''month'' 719163 719163 trip_done trip_paid_db = Inr (r', db2)"
    by (metis insertCI)
  with earnings_any_period [OF w this] show ?thesis by blast
qed

end
