(* ===== verification/Payment_Routes.thy ===== *)
theory Payment_Routes
  imports Driver_Earnings Payment_Service Return_Contexts S2S_Commands Driver_Online
begin

text \<open>
  The routes of payment/presentation/router.py and the sweep of payment/application/reconciliation.py. A
  request runs one call of the services in its transaction; the user it comes from is known (Auth\_Service).
  The services find rides and drivers in the tables of the rides. Schemas of the bodies are not modelled.
\<close>

section \<open>The world of a request\<close>

record pay_world =
  pw_pay :: pay_db
  pw_rides :: ride_db
  pw_contexts :: context_store
  pw_commands :: command_store
  pw_lock :: "(string \<times> datetime) option"

record pay_routes_env =
  pr_wallet :: wallet_env
  pr_fingerprint :: "view \<Rightarrow> string"
  pr_debt_ttl :: int
  pr_batch :: nat
  pr_min_age :: int
  pr_max_age :: int

definition world_pay_env :: "pay_routes_env \<Rightarrow> pay_world \<Rightarrow> pay_env" where
  "world_pay_env env w = (we_pay (pr_wallet env))\<lparr>pe_find_ride := \<lambda>i. find_ride i (pw_rides w)\<rparr>"

definition world_wallet_env :: "pay_routes_env \<Rightarrow> pay_world \<Rightarrow> wallet_env" where
  "world_wallet_env env w = (pr_wallet env)\<lparr>we_pay := world_pay_env env w,
     we_driver_of_user := \<lambda>u. driver_profile_id_for_user u (pw_rides w),
     we_driver_exists := \<lambda>d. find_profile d (pw_rides w) \<noteq> None\<rparr>"

text \<open>A call that writes tables, one that also writes Redis, one that commits on its own, and one that only reads.\<close>

definition writing :: "(pay_db \<Rightarrow> exn + 'a \<times> pay_db) \<Rightarrow> pay_world \<Rightarrow> (exn + 'a) \<times> pay_world" where
  "writing call w = (let (r, db) = transact (pw_pay w) (call (pw_pay w)) in (r, w\<lparr>pw_pay := db\<rparr>))"

definition with_contexts ::
  "(context_store \<Rightarrow> pay_db \<Rightarrow> (exn + 'a \<times> pay_db) \<times> context_store) \<Rightarrow> pay_world \<Rightarrow> (exn + 'a) \<times> pay_world" where
  "with_contexts call w = (let (m, st) = call (pw_contexts w) (pw_pay w); (r, db) = transact (pw_pay w) m
     in (r, w\<lparr>pw_pay := db, pw_contexts := st\<rparr>))"

definition committing :: "(pay_db \<Rightarrow> (exn + 'a) \<times> pay_db) \<Rightarrow> pay_world \<Rightarrow> (exn + 'a) \<times> pay_world" where
  "committing call w = (let (r, db) = call (pw_pay w) in (r, w\<lparr>pw_pay := db\<rparr>))"

definition reading :: "(pay_db \<Rightarrow> exn + 'a) \<Rightarrow> pay_world \<Rightarrow> (exn + 'a) \<times> pay_world" where
  "reading call w = (call (pw_pay w), w)"

definition as_business_driver ::
  "identity \<Rightarrow> (driver_profile option \<Rightarrow> pay_world \<Rightarrow> (exn + 'a) \<times> pay_world) \<Rightarrow> pay_world \<Rightarrow> (exn + 'a) \<times> pay_world" where
  "as_business_driver u route w = (case require_business_driver u (pw_rides w) of
       Inl e \<Rightarrow> (Inl e, w) | Inr p \<Rightarrow> route p w)"

definition as_admin ::
  "identity \<Rightarrow> (pay_world \<Rightarrow> (exn + 'a) \<times> pay_world) \<Rightarrow> pay_world \<Rightarrow> (exn + 'a) \<times> pay_world" where
  "as_admin u route w =
     (if iu_status u \<noteq> ''active'' then (Inl (ApiError 403 ''USER_SUSPENDED''), w)
      else if iu_role u \<notin> set [''admin''] then (Inl (ApiError 403 ''FORBIDDEN_ROLE''), w)
      else route w)"

definition phone_or :: "string option \<Rightarrow> identity \<Rightarrow> string option" where
  "phone_or phone u = Some (str_or phone (iu_phone u))"

section \<open>Payments of rides\<close>

definition route_prepare_payment ::
  "pay_routes_env \<Rightarrow> identity \<Rightarrow> uuid \<Rightarrow> string \<Rightarrow> string option \<Rightarrow> string option \<Rightarrow> string option \<Rightarrow> datetime
    \<Rightarrow> pay_world \<Rightarrow> (exn + (string \<times> json) list) \<times> pay_world" where
  "route_prepare_payment env u ride_id means network email phone now w =
     with_contexts (prepare_payment (world_pay_env env w) ride_id means (iu_id u) email (phone_or phone u) network now) w"

definition route_confirm_cash ::
  "pay_routes_env \<Rightarrow> identity \<Rightarrow> uuid \<Rightarrow> int \<Rightarrow> datetime \<Rightarrow> pay_world \<Rightarrow> (exn + (string \<times> json) list) \<times> pay_world" where
  "route_confirm_cash env u ride_id amount now = as_business_driver u (\<lambda>profile w.
     case profile of
       None \<Rightarrow> (Inl (ApiError 403 ''DRIVER_PROFILE_REQUIRED''), w)
     | Some p \<Rightarrow> writing (confirm_cash (world_pay_env env w) ride_id (of_int amount) (dp_id p) now) w)"

definition route_get_payment ::
  "pay_routes_env \<Rightarrow> identity \<Rightarrow> uuid \<Rightarrow> pay_world \<Rightarrow> (exn + (string \<times> json) list) \<times> pay_world" where
  "route_get_payment env u ride_id w = reading (get_payment (world_pay_env env w) ride_id) w"

section \<open>Debts of passengers\<close>

definition route_list_passenger_debts ::
  "identity \<Rightarrow> nat \<Rightarrow> nat \<Rightarrow> pay_world \<Rightarrow> (exn + (string \<times> json) list) \<times> pay_world" where
  "route_list_passenger_debts u page page_size = reading (list_passenger_debts (iu_id u) page page_size)"

definition route_get_passenger_debt ::
  "identity \<Rightarrow> uuid \<Rightarrow> pay_world \<Rightarrow> (exn + (string \<times> json) list) \<times> pay_world" where
  "route_get_passenger_debt u debt_id = reading (get_passenger_debt debt_id (iu_id u))"

text \<open>The answer under an idempotency key is kept as JSON.\<close>

fun json_view :: "json \<Rightarrow> view" where
  "json_view JNull = VNone"
| "json_view (JBool b) = VBool b"
| "json_view (JInt i) = VInt i"
| "json_view (JStr s) = VStr s"
| "json_view (JList js) = VList (map json_view js)"
| "json_view (JObj fs) = VObj (map (\<lambda>(k, j). (k, json_view j)) fs)"

definition debt_command_key :: "identity \<Rightarrow> string \<Rightarrow> string" where
  "debt_command_key u key = command_key ''passenger-debt'' (''user:'' @ uuid_str (iu_id u)) key"

text \<open>Reserve the key, run, free it after a raise, else keep the answer; without a key just run.\<close>

definition once_under_key ::
  "pay_routes_env \<Rightarrow> identity \<Rightarrow> string option \<Rightarrow> view \<Rightarrow> datetime
    \<Rightarrow> (pay_world \<Rightarrow> (exn + (string \<times> json) list) \<times> pay_world) \<Rightarrow> pay_world \<Rightarrow> (exn + view) \<times> pay_world" where
  "once_under_key env u key payload now run w =
     (if str_or key [] = []
      then (case run w of (Inl e, w1) \<Rightarrow> (Inl e, w1) | (Inr result, w1) \<Rightarrow> (Inr (json_view (JObj result)), w1))
      else case reserve_command (debt_command_key u (str_or key [])) (pr_fingerprint env payload) (pr_debt_ttl env) now
          (pw_commands w) of
        Inl e \<Rightarrow> (Inl e, w)
      | Inr (r, store1) \<Rightarrow>
        case rv_cached_response r of
          Some response \<Rightarrow> (Inr response, w)
        | None \<Rightarrow>
          case run (w\<lparr>pw_commands := store1\<rparr>) of
            (Inl e, w1) \<Rightarrow> (Inl e, w1\<lparr>pw_commands := release_command r (pw_commands w1)\<rparr>)
          | (Inr result, w1) \<Rightarrow> (Inr (json_view (JObj result)), w1\<lparr>pw_commands :=
              complete_command r (json_view (JObj result)) (pr_debt_ttl env) now (pw_commands w1)\<rparr>))"

definition route_prepare_debt ::
  "pay_routes_env \<Rightarrow> identity \<Rightarrow> uuid \<Rightarrow> string \<Rightarrow> string option \<Rightarrow> string option \<Rightarrow> string option \<Rightarrow> string option
    \<Rightarrow> datetime \<Rightarrow> pay_world \<Rightarrow> (exn + view) \<times> pay_world" where
  "route_prepare_debt env u debt_id means network email phone key now w =
     (case (means \<noteq> ''mobile_money'', network) of
        (False, Some net) \<Rightarrow>
          once_under_key env u key
            (VObj [(''action'', VStr ''mobile_money_prepare''), (''debt_id'', vid debt_id), (''network'', VStr net)]) now
            (\<lambda>w. with_contexts (prepare_passenger_debt_payment (world_pay_env env w) debt_id (iu_id u) email (phone_or phone u)
               net now) w) w
      | _ \<Rightarrow> (Inl (ApiError 422 ''VALIDATION_ERROR''), w))"

definition route_request_debt_cash ::
  "pay_routes_env \<Rightarrow> identity \<Rightarrow> uuid \<Rightarrow> string option \<Rightarrow> datetime \<Rightarrow> pay_world \<Rightarrow> (exn + view) \<times> pay_world" where
  "route_request_debt_cash env u debt_id key now = once_under_key env u key
     (VObj [(''action'', VStr ''cash_request''), (''debt_id'', vid debt_id)]) now
     (writing (request_passenger_debt_cash_settlement debt_id (iu_id u) now))"

definition route_confirm_debt_cash ::
  "pay_routes_env \<Rightarrow> identity \<Rightarrow> uuid \<Rightarrow> datetime \<Rightarrow> pay_world \<Rightarrow> (exn + (string \<times> json) list) \<times> pay_world" where
  "route_confirm_debt_cash env u debt_id now = as_business_driver u (\<lambda>profile w.
     case profile of
       None \<Rightarrow> (Inl (ApiError 403 ''DRIVER_PROFILE_REQUIRED''), w)
     | Some p \<Rightarrow> writing (confirm_passenger_debt_cash_settlement (world_pay_env env w) debt_id (dp_id p) now) w)"

section \<open>The wallet of a driver\<close>

definition route_get_wallet :: "pay_routes_env \<Rightarrow> identity \<Rightarrow> pay_world \<Rightarrow> (exn + (string \<times> json) list) \<times> pay_world" where
  "route_get_wallet env u = as_business_driver u (\<lambda>_ w. writing (get_wallet (world_wallet_env env w) (iu_id u)) w)"

definition route_get_ledger ::
  "pay_routes_env \<Rightarrow> identity \<Rightarrow> nat \<Rightarrow> nat \<Rightarrow> pay_world \<Rightarrow> (exn + (string \<times> json) list) \<times> pay_world" where
  "route_get_ledger env u page page_size = as_business_driver u (\<lambda>_ w.
     writing (get_ledger (world_wallet_env env w) (iu_id u) page page_size) w)"

definition route_get_earnings ::
  "pay_routes_env \<Rightarrow> identity \<Rightarrow> string \<Rightarrow> int \<Rightarrow> int \<Rightarrow> pay_world \<Rightarrow> (exn + (string \<times> json) list) \<times> pay_world" where
  "route_get_earnings env u period from_date to_date = as_business_driver u (\<lambda>_ w.
     writing (get_earnings (world_wallet_env env w) (iu_id u) period from_date to_date (pw_rides w)) w)"

definition route_create_topup ::
  "pay_routes_env \<Rightarrow> identity \<Rightarrow> int \<Rightarrow> string \<Rightarrow> string \<Rightarrow> string option \<Rightarrow> datetime \<Rightarrow> pay_world
    \<Rightarrow> (exn + (string \<times> json) list) \<times> pay_world" where
  "route_create_topup env u amount means email phone now = as_business_driver u (\<lambda>_ w.
     with_contexts (create_topup (world_wallet_env env w) (iu_id u) (of_int amount) means email (phone_or phone u) now) w)"

definition route_get_topup ::
  "pay_routes_env \<Rightarrow> identity \<Rightarrow> uuid \<Rightarrow> pay_world \<Rightarrow> (exn + (string \<times> json) list) \<times> pay_world" where
  "route_get_topup env u topup_id = as_business_driver u (\<lambda>_ w.
     reading (get_topup (world_wallet_env env w) (iu_id u) topup_id) w)"

definition route_quote_withdrawal ::
  "pay_routes_env \<Rightarrow> identity \<Rightarrow> int \<Rightarrow> datetime \<Rightarrow> pay_world \<Rightarrow> (exn + (string \<times> json) list) \<times> pay_world" where
  "route_quote_withdrawal env u amount now = as_business_driver u (\<lambda>_ w.
     writing (quote_withdrawal (world_wallet_env env w) (iu_id u) (of_int amount) now) w)"

definition route_request_withdrawal ::
  "pay_routes_env \<Rightarrow> identity \<Rightarrow> uuid \<Rightarrow> string \<Rightarrow> json \<Rightarrow> uuid \<Rightarrow> string \<Rightarrow> datetime \<Rightarrow> pay_world
    \<Rightarrow> (exn + (string \<times> json) list) \<times> pay_world" where
  "route_request_withdrawal env u quote_id beneficiary destination verification_id code now = as_business_driver u (\<lambda>_ w.
     committing (request_withdrawal (world_wallet_env env w) (iu_id u) quote_id beneficiary destination verification_id
       code (iu_phone u) now) w)"

definition route_request_verification ::
  "pay_routes_env \<Rightarrow> identity \<Rightarrow> json \<Rightarrow> string \<Rightarrow> datetime \<Rightarrow> pay_world \<Rightarrow> (exn + (string \<times> json) list) \<times> pay_world" where
  "route_request_verification env u destination code now = as_business_driver u (\<lambda>_ w.
     committing (request_withdrawal_verification (world_wallet_env env w) (iu_id u) (iu_phone u) destination code now) w)"

definition route_list_withdrawals ::
  "pay_routes_env \<Rightarrow> identity \<Rightarrow> nat \<Rightarrow> nat \<Rightarrow> pay_world \<Rightarrow> (exn + (string \<times> json) list) \<times> pay_world" where
  "route_list_withdrawals env u page page_size = as_business_driver u (\<lambda>_ w.
     reading (list_driver_withdrawals (world_wallet_env env w) (iu_id u) page page_size) w)"

definition route_get_withdrawal ::
  "pay_routes_env \<Rightarrow> identity \<Rightarrow> uuid \<Rightarrow> pay_world \<Rightarrow> (exn + (string \<times> json) list) \<times> pay_world" where
  "route_get_withdrawal env u withdrawal_id = as_business_driver u (\<lambda>_ w.
     reading (get_withdrawal (world_wallet_env env w) (iu_id u) withdrawal_id) w)"

section \<open>Administration\<close>

definition route_admin_wallet ::
  "pay_routes_env \<Rightarrow> identity \<Rightarrow> uuid \<Rightarrow> pay_world \<Rightarrow> (exn + (string \<times> json) list) \<times> pay_world" where
  "route_admin_wallet env u driver_id = as_admin u (\<lambda>w. writing (admin_get_wallet (world_wallet_env env w) driver_id) w)"

definition route_admin_ledger ::
  "pay_routes_env \<Rightarrow> identity \<Rightarrow> uuid \<Rightarrow> nat \<Rightarrow> nat \<Rightarrow> pay_world \<Rightarrow> (exn + (string \<times> json) list) \<times> pay_world" where
  "route_admin_ledger env u driver_id page page_size = as_admin u (\<lambda>w.
     writing (admin_get_ledger (world_wallet_env env w) driver_id page page_size) w)"

definition route_admin_withdrawals ::
  "pay_routes_env \<Rightarrow> identity \<Rightarrow> uuid \<Rightarrow> nat \<Rightarrow> nat \<Rightarrow> pay_world \<Rightarrow> (exn + (string \<times> json) list) \<times> pay_world" where
  "route_admin_withdrawals env u driver_id page page_size = as_admin u (\<lambda>w.
     reading (admin_list_withdrawals (world_wallet_env env w) driver_id page page_size) w)"

definition sweep ::
  "pay_routes_env \<Rightarrow> nat option \<Rightarrow> datetime \<Rightarrow> pay_world \<Rightarrow> (exn + reconciliation_report) \<times> pay_world" where
  "sweep env limit now w = writing (reconcile_pending (world_pay_env env w)
     (case limit of None \<Rightarrow> pr_batch env | Some n \<Rightarrow> n) (pr_min_age env) (pr_max_age env) now) w"

definition route_reconcile ::
  "pay_routes_env \<Rightarrow> identity \<Rightarrow> nat option \<Rightarrow> datetime \<Rightarrow> pay_world \<Rightarrow> (exn + reconciliation_report) \<times> pay_world" where
  "route_reconcile env u limit now = as_admin u (sweep env limit now)"

definition route_reconcile_ride ::
  "pay_routes_env \<Rightarrow> identity \<Rightarrow> uuid \<Rightarrow> datetime \<Rightarrow> pay_world \<Rightarrow> (exn + reconciliation_report) \<times> pay_world" where
  "route_reconcile_ride env u ride_id now = as_admin u (\<lambda>w.
     writing (reconcile_transaction (world_pay_env env w) ride_id now) w)"

definition route_reconcile_topup ::
  "pay_routes_env \<Rightarrow> identity \<Rightarrow> uuid \<Rightarrow> datetime \<Rightarrow> pay_world \<Rightarrow> (exn + reconciliation_report) \<times> pay_world" where
  "route_reconcile_topup env u topup_id now = as_admin u (\<lambda>w.
     writing (reconcile_topup (world_pay_env env w) topup_id now) w)"

definition route_reconcile_withdrawal ::
  "pay_routes_env \<Rightarrow> identity \<Rightarrow> uuid \<Rightarrow> datetime \<Rightarrow> pay_world \<Rightarrow> (exn + (string \<times> json) list) \<times> pay_world" where
  "route_reconcile_withdrawal env u withdrawal_id now = as_admin u (\<lambda>w.
     writing (reconcile_withdrawal (world_wallet_env env w) withdrawal_id now) w)"

definition route_admin_withdrawal ::
  "identity \<Rightarrow> uuid \<Rightarrow> pay_world \<Rightarrow> (exn + (string \<times> json) list) \<times> pay_world" where
  "route_admin_withdrawal u withdrawal_id = as_admin u (reading (admin_get_withdrawal withdrawal_id))"

section \<open>DiddiPay and the browser\<close>

text \<open>The status of the answer: 200 for an event that was seen before, else 204.\<close>

definition route_webhook ::
  "pay_routes_env \<Rightarrow> string \<Rightarrow> string option \<Rightarrow> string option \<Rightarrow> datetime \<Rightarrow> pay_world \<Rightarrow> (exn + nat) \<times> pay_world" where
  "route_webhook env raw_body event_id signature now w =
     (case writing (apply_diddipay_webhook (world_pay_env env w) raw_body event_id signature now) w of
        (Inl e, w1) \<Rightarrow> (Inl e, w1)
      | (Inr result, w1) \<Rightarrow> (Inr (if jget result ''status'' = JStr ''duplicate'' then 200 else 204), w1))"

definition replace_char :: "char \<Rightarrow> string \<Rightarrow> string \<Rightarrow> string" where
  "replace_char c t s = concat (map (\<lambda>x. if x = c then t else [x]) s)"

text \<open>The page after a checkout: title, message and the reference that the browser brought.\<close>

definition route_browser_return ::
  "bool \<Rightarrow> string option \<Rightarrow> string option \<Rightarrow> string option \<Rightarrow> datetime \<Rightarrow> pay_world
    \<Rightarrow> (string \<times> string \<times> string) \<times> pay_world" where
  "route_browser_return wallet_path trxref reference context_token now w =
     (let surface = (if wallet_path then ''pro'' else ''consumer'');
          (verified, st) = (case context_token of
              None \<Rightarrow> (None, pw_contexts w)
            | Some token \<Rightarrow> if token = [] then (None, pw_contexts w) else consume_context token surface now (pw_contexts w));
          escaped = replace_char CHR ''>'' ''&gt;'' (replace_char CHR ''<'' ''&lt;''
            (replace_char CHR ''&'' ''&amp;'' (str_or reference (str_or trxref []))))
      in ((if verified \<noteq> None then ''Retour paiement DiddiGo'' else ''Lien de retour invalide'',
           if verified \<noteq> None then ''Le paiement est en cours de verification.''
           else ''Ce lien est invalide, expire ou a deja ete utilise.'',
           if escaped = [] then ''non fournie'' else escaped),
          w\<lparr>pw_contexts := st\<rparr>))"

section \<open>The sweep under its lock\<close>

text \<open>\<open>SET NX EX\<close> with a token, and the release script, which deletes the lock only under the same token.\<close>

definition lock_held :: "datetime \<Rightarrow> pay_world \<Rightarrow> bool" where
  "lock_held now w = (case pw_lock w of None \<Rightarrow> False | Some (_, expires_at) \<Rightarrow> now < expires_at)"

definition acquire_lock :: "string \<Rightarrow> int \<Rightarrow> datetime \<Rightarrow> pay_world \<Rightarrow> bool \<times> pay_world" where
  "acquire_lock token ttl now w =
     (if lock_held now w then (False, w) else (True, w\<lparr>pw_lock := Some (token, now + seconds ttl)\<rparr>))"

definition release_lock :: "string \<Rightarrow> datetime \<Rightarrow> pay_world \<Rightarrow> pay_world" where
  "release_lock token now w = (case pw_lock w of
       Some (t, expires_at) \<Rightarrow> if now < expires_at \<and> t = token then w\<lparr>pw_lock := None\<rparr> else w
     | None \<Rightarrow> w)"

text \<open>A sweep from its start to its end, with Redis and without; nothing else runs in between here.\<close>

definition run_guarded ::
  "pay_routes_env \<Rightarrow> bool \<Rightarrow> string option \<Rightarrow> int \<Rightarrow> datetime \<Rightarrow> datetime \<Rightarrow> pay_world
    \<Rightarrow> (exn + reconciliation_report option) \<times> pay_world" where
  "run_guarded env configured token ttl now later w =
     (if \<not> configured then (Inr None, w)
      else case token of
          None \<Rightarrow> (case sweep env None now w of (Inl e, w1) \<Rightarrow> (Inl e, w1) | (Inr r, w1) \<Rightarrow> (Inr (Some r), w1))
        | Some t \<Rightarrow>
          (case acquire_lock t ttl now w of
             (False, w1) \<Rightarrow> (Inr None, w1)
           | (True, w1) \<Rightarrow>
             (case sweep env None now w1 of
                (Inl e, w2) \<Rightarrow> (Inl e, release_lock t later w2)
              | (Inr r, w2) \<Rightarrow> (Inr (Some r), release_lock t later w2))))"

end
