(* ===== verification/Payment_Route_Properties.thy ===== *)
theory Payment_Route_Properties
  imports Payment_Routes Payment_Properties Offer_Store Ride_Properties Capability_Safety
begin

text \<open>
  The routes of the payments: whatever they serve, the tables stay among those that the requests of Payment\_Safety
  reach; a command under a key runs once; what a browser brings back is harmless; one sweep runs at a time, and
  payouts that DiddiPay does not know keep it from all others.
\<close>

section \<open>Every route is a request\<close>
























section \<open>What the routes keep\<close>




definition trip_pay_world :: pay_world where
  "trip_pay_world = \<lparr>pw_pay = empty_pay_db, pw_rides = trip_done, pw_contexts = (\<lambda>_. None), pw_commands = (\<lambda>_. None),
     pw_lock = None\<rparr>"

definition trip_routes_env :: pay_routes_env where
  "trip_routes_env = \<lparr>pr_wallet = demo_wallet_env, pr_fingerprint = (\<lambda>v. case v of VObj ((_, VStr s) # _) \<Rightarrow> s | _ \<Rightarrow> []), pr_debt_ttl = 86400, pr_batch = 1,
     pr_min_age = 0, pr_max_age = 3600\<rparr>"

definition trip_driver_user :: identity where
  "trip_driver_user = \<lparr>iu_id = 8, iu_phone = ''8'', iu_full_name = None, iu_role = ''user'', iu_status = ''active'',
     iu_is_review_account = False\<rparr>"








section \<open>Commands under a key\<close>

lemma once_answers:
  assumes "once_under_key env u (Some key) payload now run w = (r, w1)" and "key \<noteq> []"
    and "live_entry now (debt_command_key u key) (pw_commands w) = None"
    and "\<And>v. pw_commands (snd (run v)) = pw_commands v"
  shows "case r of
      Inl e \<Rightarrow> pw_commands w1 (debt_command_key u key) = None
    | Inr v \<Rightarrow> pw_commands w1 (debt_command_key u key) = Some \<lparr>cd_fingerprint = pr_fingerprint env payload,
        cd_response = Some v, cd_expires_at = now + seconds (pr_debt_ttl env)\<rparr>"
  using assms
  by (auto simp: once_under_key_def str_or_def reserve_command_def release_command_def complete_command_def
      split: sum.splits prod.splits)

lemma once_again:
  assumes "pw_commands w (debt_command_key u key) = Some \<lparr>cd_fingerprint = pr_fingerprint env payload,
        cd_response = Some v, cd_expires_at = e\<rparr>" and "later < e" and "key \<noteq> []"
  shows "once_under_key env u (Some key) payload later run w = (Inr v, w)"
  using assms by (simp add: once_under_key_def str_or_def reserve_command_def live_entry_def)

lemma commands_writing: "pw_commands (snd (writing call w)) = pw_commands w"
  by (simp add: writing_def case_prod_beta Let_def)

lemma commands_contexts: "pw_commands (snd (with_contexts call w)) = pw_commands w"
  by (simp add: with_contexts_def case_prod_beta Let_def)

text \<open>A request that fails leaves the payment tables alone.\<close>

lemma failed_writing: "writing call w = (Inl e, w1) \<Longrightarrow> pw_pay w1 = pw_pay w"
  by (auto simp: writing_def transact_def Let_def split: sum.splits)

lemma failed_contexts: "with_contexts call w = (Inl e, w1) \<Longrightarrow> pw_pay w1 = pw_pay w"
  by (auto simp: with_contexts_def transact_def Let_def split: sum.splits prod.splits)

lemma failed_once:
  assumes "once_under_key env u key payload now run w = (Inl e, w1)"
    and "\<And>v e v1. run v = (Inl e, v1) \<Longrightarrow> pw_pay v1 = pw_pay v"
  shows "pw_pay w1 = pw_pay w"
  using assms(1) assms(2) [of w] assms(2) [of "w\<lparr>pw_commands := c\<rparr>" for c]
  by (fastforce simp: once_under_key_def split: if_splits sum.splits prod.splits option.splits)

lemma once_request:
  assumes "once_under_key env u (Some key) payload now run w = (r, w1)" and "key \<noteq> []"
    and "live_entry now (debt_command_key u key) (pw_commands w) = None"
    and "\<And>v. pw_commands (snd (run v)) = pw_commands v" and "\<And>v e v1. run v = (Inl e, v1) \<Longrightarrow> pw_pay v1 = pw_pay v"
    and "pw_commands w2 (debt_command_key u key) = pw_commands w1 (debt_command_key u key)"
    and "later < now + seconds (pr_debt_ttl env)"
  shows "case r of
      Inl e \<Rightarrow> pw_pay w1 = pw_pay w \<and> live_entry later (debt_command_key u key) (pw_commands w1) = None
    | Inr v \<Rightarrow> once_under_key env u (Some key) payload later run' w2 = (Inr v, w2)"
proof (cases r)
  case (Inl e)
  from failed_once [OF assms(1) [unfolded Inl] assms(5)] once_answers [OF assms(1-4)]
  show ?thesis by (simp add: Inl live_entry_def)
next
  case (Inr v)
  from once_answers [OF assms(1-4)] assms(6) Inr
  have "pw_commands w2 (debt_command_key u key) = Some \<lparr>cd_fingerprint = pr_fingerprint env payload,
      cd_response = Some v, cd_expires_at = now + seconds (pr_debt_ttl env)\<rparr>" by simp
  from once_again [OF this assms(7,2)] Inr show ?thesis by simp
qed

lemma live_entry_later: "live_entry now k s = None \<Longrightarrow> now \<le> later \<Longrightarrow> live_entry later k s = None"
  by (auto simp: live_entry_def split: option.splits if_splits)

text \<open>
  C39: A debt command that went through under a key is answered from its key while that lives, without touching a
  table, whatever happened meanwhile; one that failed left the payment tables alone and its key free.
\<close>

theorem debt_request_once:
  assumes "ask = (\<lambda>t. route_prepare_debt env u i means network email phone (Some key) t)
      \<or> ask = (\<lambda>t. route_request_debt_cash env u i (Some key) t)"
    and "key \<noteq> []" and "live_entry now (debt_command_key u key) (pw_commands w) = None" and "ask now w = (r, w1)"
    and "now \<le> later" and "later < now + seconds (pr_debt_ttl env)"
    and "pw_commands w2 (debt_command_key u key) = pw_commands w1 (debt_command_key u key)"
  shows "case r of
      Inl e \<Rightarrow> pw_pay w1 = pw_pay w \<and> live_entry later (debt_command_key u key) (pw_commands w1) = None
    | Inr v \<Rightarrow> ask later w2 = (Inr v, w2)"
proof -
  note run = assms(4)
  show ?thesis
  proof (cases "ask = (\<lambda>t. route_request_debt_cash env u i (Some key) t)")
    case True
    then have a: "ask t = once_under_key env u (Some key) (VObj [(''action'', VStr ''cash_request''), (''debt_id'', vid i)]) t
        (writing (request_passenger_debt_cash_settlement i (iu_id u) t))" for t
      by (simp add: route_request_debt_cash_def)
    show ?thesis
      unfolding a by (rule once_request [OF run [unfolded a] assms(2,3) commands_writing failed_writing assms(7,6)])
  next
    case False
    with assms(1) have a: "ask = (\<lambda>t. route_prepare_debt env u i means network email phone (Some key) t)" by blast
    show ?thesis
    proof (cases "means = ''mobile_money'' \<and> network \<noteq> None")
      case True
      then obtain net where n: "means = ''mobile_money''" "network = Some net" by blast
      have a: "ask t v = once_under_key env u (Some key)
          (VObj [(''action'', VStr ''mobile_money_prepare''), (''debt_id'', vid i), (''network'', VStr net)]) t
          (\<lambda>w. with_contexts (prepare_passenger_debt_payment (world_pay_env env w) i (iu_id u) email (phone_or phone u)
             net t) w) v" for t v
        by (simp add: a n route_prepare_debt_def)
      show ?thesis
        unfolding a by (rule once_request [OF run [unfolded a] assms(2,3) commands_contexts failed_contexts assms(7,6)])
    next
      case False
      then have "ask now w = (Inl (ApiError 422 ''VALIDATION_ERROR''), w)"
        by (cases "means = ''mobile_money''"; cases network; simp add: a route_prepare_debt_def)
      with run live_entry_later [OF assms(3,5)] show ?thesis by auto
    qed
  qed
qed

definition trip_debt :: passenger_debt where
  "trip_debt = \<lparr>pd_id = 50, pd_passenger_user_id = 8, pd_ride_id = 10, pd_amount = 1500, pd_status = DS_OPEN,
     pd_currency = ''XOF'', pd_reason = ''unpaid'', pd_created_at = 0, pd_updated_at = 0, pd_settled_at = None,
     pd_settled_by = None\<rparr>"

definition debt_world :: pay_world where
  "debt_world = trip_pay_world\<lparr>pw_pay := empty_pay_db\<lparr>debts := [trip_debt]\<rparr>\<rparr>"

theorem debt_request_once_witness:
  "\<exists>v w1. route_request_debt_cash trip_routes_env trip_driver_user 50 (Some ''retry-01'') 60 debt_world = (Inr v, w1)
    \<and> map pd_status (debts (pw_pay w1)) = [DS_CASH_PENDING_CONFIRMATION]
    \<and> route_request_debt_cash trip_routes_env trip_driver_user 50 (Some ''retry-01'') 70 w1 = (Inr v, w1)"
proof -
  let ?ask = "\<lambda>t. route_request_debt_cash trip_routes_env trip_driver_user 50 (Some ''retry-01'') t"
  have free: "live_entry 60 (debt_command_key trip_driver_user ''retry-01'') (pw_commands debt_world) = None"
    by (simp add: debt_world_def trip_pay_world_def live_entry_def)
  have "\<exists>v w1. ?ask 60 debt_world = (Inr v, w1) \<and> map pd_status (debts (pw_pay w1)) = [DS_CASH_PENDING_CONFIRMATION]"
    using free
    by (simp add: route_request_debt_cash_def once_under_key_def str_or_def reserve_command_def writing_def debt_world_def
        trip_pay_world_def trip_debt_def trip_driver_user_def request_passenger_debt_cash_settlement_def owned_open_debt_def
        find_debt_by_id_def update_debt_status_def passenger_debt_payload_def Let_def)
  then obtain v w1 where v: "?ask 60 debt_world = (Inr v, w1)" "map pd_status (debts (pw_pay w1)) = [DS_CASH_PENDING_CONFIRMATION]"
    by (elim exE conjE) (rule that)
  have "(70 :: int) < 60 + seconds (pr_debt_ttl trip_routes_env)" by (simp add: trip_routes_env_def seconds_def)
  from debt_request_once [OF disjI2 [OF refl] _ free v(1) _ this refl] v show ?thesis by simp
qed

section \<open>Payouts that DiddiPay does not know\<close>











section \<open>The browser that comes back\<close>

lemma set_replace_char: "set (replace_char c t s) \<subseteq> (set s - {c}) \<union> set t"
  by (auto simp: replace_char_def)

lemma escaped_harmless:
  assumes "ref = replace_char CHR ''>'' ''&gt;'' (replace_char CHR ''<'' ''&lt;'' (replace_char CHR ''&'' ''&amp;'' s))"
  shows "CHR ''<'' \<notin> set ref \<and> CHR ''>'' \<notin> set ref"
proof -
  have a: "CHR ''<'' \<notin> set (replace_char CHR ''<'' ''&lt;'' x)" for x
    using set_replace_char [of "CHR ''<''" "''&lt;''" x] by auto
  have "CHR ''<'' \<notin> set (replace_char CHR ''>'' ''&gt;'' x)" if "CHR ''<'' \<notin> set x" for x
    using set_replace_char [of "CHR ''>''" "''&gt;''" x] that by auto
  moreover have "CHR ''>'' \<notin> set (replace_char CHR ''>'' ''&gt;'' x)" for x
    using set_replace_char [of "CHR ''>''" "''&gt;''" x] by auto
  ultimately show ?thesis unfolding assms using a by blast
qed

lemma spent_token: "consume_context token surface now st = (Some c, st') \<Longrightarrow> fst (consume_context token other later st') = None"
  by (auto simp: consume_context_def split: option.splits prod.splits if_splits)

lemma verified_link:
  assumes "route_browser_return pro trxref reference token now w = ((title, memo, ref), w')"
    and "title = ''Retour paiement DiddiGo''"
  obtains tok c where "token = Some tok" "tok \<noteq> []"
    "consume_context tok (if pro then ''pro'' else ''consumer'') now (pw_contexts w) = (Some c, pw_contexts w')"
  using assms unfolding route_browser_return_def
  by (auto simp: Let_def split: option.splits prod.splits if_splits)

text \<open>
  The page after a checkout settles nothing and carries no markup of its caller; it calls a link good only if
  the token was given out for this application and never used, and only once.
\<close>

theorem return_page_harmless:
  assumes "route_browser_return pro trxref reference token now w = ((title, memo, ref), w')"
  shows "CHR ''<'' \<notin> set ref \<and> CHR ''>'' \<notin> set ref \<and> pw_pay w' = pw_pay w \<and> pw_commands w' = pw_commands w
    \<and> (title = ''Retour paiement DiddiGo'' \<longrightarrow>
        (\<exists>tok c e. token = Some tok \<and> redis_get (context_key tok) now (pw_contexts w) = Some (c, e)
          \<and> rc_surface c = (if pro then ''pro'' else ''consumer'') \<and> rc_payment_intent_id c \<noteq> None)
        \<and> (\<forall>pro' trxref' reference' later. fst (fst (route_browser_return pro' trxref' reference' token later w'))
            = ''Lien de retour invalide''))"
proof -
  have ref: "ref = ''non fournie'' \<or> ref = replace_char CHR ''>'' ''&gt;'' (replace_char CHR ''<'' ''&lt;''
      (replace_char CHR ''&'' ''&amp;'' (str_or reference (str_or trxref []))))"
    and keep: "pw_pay w' = pw_pay w" "pw_commands w' = pw_commands w"
    using assms by (auto simp: route_browser_return_def Let_def split: prod.splits if_splits)
  have "CHR ''<'' \<notin> set ref \<and> CHR ''>'' \<notin> set ref"
    using ref escaped_harmless by (elim disjE) auto
  moreover have "(\<exists>tok c e. token = Some tok \<and> redis_get (context_key tok) now (pw_contexts w) = Some (c, e)
      \<and> rc_surface c = (if pro then ''pro'' else ''consumer'') \<and> rc_payment_intent_id c \<noteq> None)
    \<and> (\<forall>pro' trxref' reference' later. fst (fst (route_browser_return pro' trxref' reference' token later w'))
        = ''Lien de retour invalide'')"
    if good: "title = ''Retour paiement DiddiGo''"
  proof -
    from assms good obtain tok c where t: "token = Some tok" "tok \<noteq> []"
      and c: "consume_context tok (if pro then ''pro'' else ''consumer'') now (pw_contexts w) = (Some c, pw_contexts w')"
      by (rule verified_link)
    from c have "\<exists>c e. redis_get (context_key tok) now (pw_contexts w) = Some (c, e)
        \<and> rc_surface c = (if pro then ''pro'' else ''consumer'') \<and> rc_payment_intent_id c \<noteq> None"
      by (auto simp: consume_context_def split: option.splits prod.splits if_splits)
    moreover have "fst (fst (route_browser_return pro' trxref' reference' token later w')) = ''Lien de retour invalide''"
      for pro' trxref' reference' later
      using spent_token [OF c, of "if pro' then ''pro'' else ''consumer''" later] t
      by (simp add: route_browser_return_def Let_def case_prod_beta)
    ultimately show ?thesis using t by blast
  qed
  ultimately show ?thesis using keep by blast
qed

theorem return_page_harmless_witness:
  "\<exists>title memo ref w'. route_browser_return False None (Some ''<b>'') (Some ''t'') 9
      (trip_pay_world\<lparr>pw_contexts := [context_key ''t'' \<mapsto> (\<lparr>rc_flow = ''ride_payment'', rc_surface = ''consumer'', rc_user_id = 7,
        rc_resource_id = 10, rc_payment_intent_id = Some 77\<rparr>, 100)]\<rparr>) = ((title, memo, ref), w')
    \<and> title = ''Retour paiement DiddiGo'' \<and> ref = ''&lt;b&gt;'' \<and> CHR ''<'' \<notin> set ref"
proof -
  let ?w = "trip_pay_world\<lparr>pw_contexts := [context_key ''t'' \<mapsto> (\<lparr>rc_flow = ''ride_payment'', rc_surface = ''consumer'',
    rc_user_id = 7, rc_resource_id = 10, rc_payment_intent_id = Some 77\<rparr>, 100)]\<rparr>"
  obtain title memo ref w' where r: "route_browser_return False None (Some ''<b>'') (Some ''t'') 9 ?w = ((title, memo, ref), w')"
    by (metis surj_pair)
  then have "title = ''Retour paiement DiddiGo'' \<and> ref = ''&lt;b&gt;''"
    by (auto simp: route_browser_return_def consume_context_def redis_get_def str_or_def replace_char_def trip_pay_world_def)
  with return_page_harmless [OF r] r show ?thesis by blast
qed

section \<open>One sweep at a time\<close>

text \<open>The lock is a claim on the one key, for its time to live.\<close>

definition acquire_for :: "int \<Rightarrow> datetime \<Rightarrow> unit \<Rightarrow> string \<Rightarrow> pay_world \<Rightarrow> bool \<times> pay_world" where
  "acquire_for ttl now k token w = acquire_lock token ttl now w"

definition held_until :: "datetime \<Rightarrow> unit \<Rightarrow> pay_world \<Rightarrow> bool" where
  "held_until h k w = lock_held h w"

interpretation sweep_lock: claiming "acquire_for ttl" held_until "seconds ttl" for ttl
proof
  fix h t :: int and k k' :: unit and d :: string and s :: pay_world
  show "held_until h k s \<Longrightarrow> t \<le> h \<Longrightarrow> \<not> fst (acquire_for ttl t k d s)"
    by (auto simp: held_until_def acquire_for_def acquire_lock_def lock_held_def split: option.splits)
  show "held_until h k s \<Longrightarrow> t \<le> h \<Longrightarrow> held_until h k (snd (acquire_for ttl t k' d s))"
    by (auto simp: held_until_def acquire_for_def acquire_lock_def lock_held_def split: option.splits)
  show "fst (acquire_for ttl t k d s) \<Longrightarrow> h < t + seconds ttl \<Longrightarrow> held_until h k (snd (acquire_for ttl t k d s))"
    by (auto simp: held_until_def acquire_for_def acquire_lock_def lock_held_def split: option.splits if_splits)
qed

text \<open>Of the replicas that try within the life of the lock at most one sweeps; a late release spares the lock of another.\<close>

lemma one_sweep_at_a_time:
  assumes "\<forall>(t, token) \<in> set attempts. t0 \<le> t \<and> t < t0 + seconds ttl"
  shows "length (fst (sweep_lock.winners ttl () attempts w)) \<le> 1"
proof -
  have "\<forall>(t, token) \<in> set attempts. t0 \<le> t \<and> t \<le> t0 + seconds ttl - 1" using assms by fastforce
  then show ?thesis by (rule sweep_lock.one_winner) simp
qed

lemma release_spares_others: "pw_lock w = Some (t, e) \<Longrightarrow> t \<noteq> token \<Longrightarrow> release_lock token now w = w"
  by (simp add: release_lock_def)

end
