(* ===== verification/Spec2Isabelle.thy ===== *)
theory Spec2Isabelle
  imports Payment_Properties Return_Contexts Ride_Properties Live_Witnesses Summary_Properties Payment_Route_Properties
begin

text \<open>
  Diddi Go is the backend of a ride-hailing service: passengers ask for rides on a quote, a matching
  service offers them to drivers in waves, a driver accepts and carries the ride through its states, the
  fare is charged in cash or through DiddiPay, and drivers keep a prepaid wallet from which commissions
  are taken and to which payouts and top-ups are credited. Drivers and vehicles are verified by the
  backoffice, may belong to partners, and go online when nothing blocks them. This development models the
  services and tables that decide this, under src/app\_base/modules (ride, payment, partner, auth, audit)
  and src/app\_base/core.

  \<^bold>\<open>How the model is built.\<close> A service method is a function from its arguments, an environment and
  the database to \<open>exn + result \<times> database\<close>; a raised \<open>ApiError\<close>, \<open>LookupError\<close>, \<open>ValueError\<close> or
  \<open>IntegrityError\<close> is a value of \<open>exn\<close> (Prelude). The request transaction of core/database.py is
  \<open>transact\<close>: a raise rolls the database back. Three handlers commit in the middle and return what is
  durable beside the error: \<open>request_withdrawal\<close>, \<open>request_withdrawal_verification\<close> and
  \<open>start_ride_with_code\<close>. Redis (offers, presence, return contexts) is not rolled back. A table is a list
  of records with the unique constraints of the SQLAlchemy models as \<open>clash\<close> relations; ids are drawn from
  counters, so that \<open>uuid4()\<close> never repeats; a query orders as its ORDER BY says and leaves ties in insertion
  order. Amounts are rationals; where the code computes with \<open>Decimal\<close> of 28 digits (fares) the rounding
  of each operation is written out, and \<open>quantize\<close> is exact (Py\_Numbers). Time is one integer of
  microseconds per request.

  \<^bold>\<open>Payments.\<close>
  \<^item> Payment\_Entities: payment/domain/entities.py, enums with their wire values and dataclasses as records.
  \<^item> Payment\_Repository: payment/infra/repositories.py, the tables (\<open>pay_db\<close>) and every write and read.
  \<^item> Payment\_Service: payment/application/services.py, cash confirmation, digital collection, debts, the
    signed DiddiPay callback, the reconciliation sweep.
  \<^item> Wallet\_Service: payment/application/wallet\_service.py, top-ups, quotes, one-time codes, withdrawals.
  \<^item> Return\_Contexts: payment/application/return\_contexts.py, the Redis keys of payment return links.
  \<^item> Payment\_Ledger: the balance of a wallet against its ledger, the locale \<open>once_ledger\<close> (an entry whose
    key exists is not written again) with its interpretation on \<open>record_ledger_entry_once\<close>.
  \<^item> Payment\_Safety: \<open>pay_step\<close>, one request on the payment tables; the invariant \<open>pay_inv\<close>, the locale
    \<open>pay_guard\<close> (an assertion every table write keeps is kept by every request) and its interpretations.
  \<^item> Payment\_Properties: C1 to C8, with the finality of debts, the effect of a reservation and what one bad
    payout does to a sweep.
  \<^item> Calendar, Driver\_Earnings: the calendar of Africa/Abidjan and the earnings report, \<open>summarize_driver_earnings\<close>
    of the tables and \<open>get_earnings\<close> of the wallet.
  \<^item> Payment\_Routes: payment/presentation/router.py and payment/application/reconciliation.py over \<open>pay_world\<close>
    (tables, return contexts, stored commands, the lock of the sweep): the gates of each route, the idempotency
    key of debt commands (\<open>once_under_key\<close>), the page after a checkout and the guarded sweep.
  \<^item> Payment\_Route\_Properties: C37 to C40; \<open>route_step\<close> is one request to a route, the lock of the sweep is an
    instance of the locale \<open>claiming\<close>.

  \<^bold>\<open>Rides.\<close>
  \<^item> Ride\_Entities: ride/domain/entities.py, with \<open>transition\<close> and its table; the locale \<open>lifecycle\<close>.
  \<^item> Ride\_Pricing, Priority: the fare arithmetic of ride/application/services.py; the ledger of driver
    points (domain/priority.py, application/priority\_service.py, infra/priority\_repository.py).
  \<^item> Ride\_Tables, Ride\_Views: ride/infra/repositories.py as \<open>ride_db\<close>; the payloads of the service and
    who may see which part of them.
  \<^item> Ride\_Service: every handler of ride/application/services.py.
  \<^item> Ride\_Safety, Ride\_Requests: \<open>ride_move\<close>, what a handler may do to a ride; \<open>ride_inv\<close>, the invariant of
    the table; \<open>ride_step\<close>, one request; the locales \<open>ride_guard\<close> and \<open>ride_property\<close>, which lift an
    assertion kept by moves to every sequence of requests, and their interpretations.
  \<^item> Ride\_Trip: one concrete trip run through the handlers, on which the properties are exercised.
  \<^item> Ride\_Properties: C9 to C15, and what a driver sees of the amounts.

  \<^bold>\<open>Dispatch.\<close>
  \<^item> Driver\_Locations, Offer\_Store: ride/infra/driver\_location.py and ride/infra/offer\_store.py, Redis keys
    with their expiry; the locale \<open>claiming\<close>, interpreted on \<open>claim\<close>.
  \<^item> Matching: ride/application/matching\_service.py, on rides, wallets, offers and positions together.
  \<^item> Matching\_Properties: C16 to C21.

  \<^bold>\<open>Drivers and partners.\<close>
  \<^item> Driver\_Documents, Driver\_Service: ride/application/driver\_service.py, the verdicts on documents and
    their history, the KYC file of a driver and the KYV file of a vehicle through all their operations.
  \<^item> Driver\_Scoring: ride/application/scoring\_service.py and score\_contract\_adapter.py.
  \<^item> Capability\_Outbox, Capability\_Safety: ride/infra/capability\_projection\_repository.py with the publisher,
    the delivery and the worker; the invariant \<open>outbox_ok\<close> and what a reconciliation leaves.
  \<^item> Partner\_Tables, Partner\_Service: partner/infra/repositories.py (\<open>fleet\<close>, beside the ride tables) and
    partner/application/services.py.
  \<^item> Driver\_Online: ride/application/driver\_online\_eligibility.py and the online and offline handlers of
    ride/presentation/driver\_router.py, over tables, wallets and presence together (\<open>driver_world\<close>).

  \<^bold>\<open>Accounts and commands.\<close>
  \<^item> Auth\_Service: auth/application/services.py, core/security.py, core/identity.py and core/auth\_deps.py:
    registration, one-time codes, sessions, the current user, service tokens.
  \<^item> S2S\_Commands: core/s2s\_command\_store.py and the audit trail, as the frame \<open>s2s_command\<close> around a call.
  \<^item> Backoffice: the commands of ride/presentation/kyc\_internal\_router.py and driver\_internal\_router.py,
    driver provisioning, and all routes of partner/presentation.
  \<^item> Partner\_Safety: the locale \<open>unique_table\<close> (rows with keys of their own that never clash) interpreted on
    members, links and assignments; the locale \<open>command_desk\<close> (an assertion that a call keeps is kept by
    its command) interpreted on the commands of partners; any sequence of requests (\<open>partner_requests\<close>).
  \<^item> Fleet\_Properties: C22 to C29; Fleet\_Witnesses exercises them on concrete drivers and accounts.

  \<^bold>\<open>Live events.\<close>
  \<^item> Live\_Hub: ride/presentation/websocket.py, the connections and subscriptions (\<open>hub\<close>), the messages of a
    client and the life of one connection, beside tables, offers and positions (\<open>live\<close>).
  \<^item> Ride\_Routes: ride/presentation/router.py, every route with its service call, what it frees and whom it
    tells, and the timer of an offer wave.
  \<^item> Live\_Safety: \<open>live_step\<close>, one request, message or timer; the locale \<open>ride_call\<close> (a service call that is
    one request on the rides), interpreted on the services behind the routes; the invariant \<open>live_inv\<close>.
  \<^item> Live\_Properties: C30 and C31; Live\_Witnesses exercises them on the trip of Ride\_Trip.

  \<^bold>\<open>Pilotage.\<close>
  \<^item> Ride\_Summary: ride/infra/summary\_repository.py, ride/application/summary\_service.py and
    ride/presentation/summary\_router.py, the daily and the finance totals over rides and payment tables.
  \<^item> Ride\_Breakdown: ride/domain/breakdown.py, ride/infra/breakdown\_repository.py and breakdown\_cache.py,
    ride/application/breakdown\_service.py, the totals of a day by hour, payment method, category or status.
  \<^item> Half\_Fare, Summary\_Properties: a trip with a fractional fare; C32 to C36.

  \<^bold>\<open>Recursion.\<close> The loops of the code run over finite lists (rows, candidates, stops), so that they
  are structural recursion and no fuel is used; the polling of a search is the list of its events
  (\<open>offer_waves\<close>), and C21 bounds the number of waves. The one loop that may run for ever, the pages of the
  reconciliation, is a \<open>partial_function\<close>: a batch size of 0 never ends it, and C28 proves that every
  other one does.

  \<^bold>\<open>Parameters.\<close> What lies outside src/ or is pure computation of a library is an argument: the DiddiPay,
  DiddiMap, SMS and notification clients, the user directory, HMAC and SHA-256, the haversine distance,
  GEOSEARCH, JSON, signing and decoding of tokens, the keys and the profile endpoint of DiddiFreeID, the
  client of the capability outbox, the draw of a code. The environments \<open>pay_env\<close>, \<open>wallet_env\<close>,
  \<open>ride_env\<close>, \<open>match_env\<close>, \<open>driver_env\<close>, \<open>auth_env\<close>, \<open>back_env\<close> and \<open>ws_env\<close> hold them with the settings. Properties ask
  nothing of them except, in C21, that GEOSEARCH lists no member twice, as Redis documents of the members
  of a sorted set, and in C27 that decoding gives back the signed claims until they expire, as PyJWT
  documents (\<open>signs\<close>).

  \<^bold>\<open>Decisions.\<close> A JSON column that is written back with the list it was loaded with keeps what is stored,
  unless nothing was (\<open>json_column\<close>): SQLAlchemy compares a plain JSON value by identity. \<open>Numeric(6, 4)\<close> is
  modelled for the rate of a partner; \<open>avg\<close> keeps 16 decimals; scores are computed in exact rationals. The
  iteration order of a set literal is its order in the source. A dependency of a route (token, role,
  actor) is checked before its body. The session of PostgreSQL is in UTC, and so is Africa/Abidjan; the
  order of texts in an ORDER BY is a parameter. The JSON schemas of answers are not modelled. Foreign keys to the users table are not modelled.

  \<^bold>\<open>Not modelled.\<close> Log lines, metrics and the French texts of errors and notifications; schemas, push
  notifications, the search of places and the other routes that only pass a request on; the timer of the
  reconciliation; emergency contacts, places and review accounts; the validation of files by DiddiFiles; row locks and concurrent transactions
  (requests are sequential); lengths and scales of columns other than the rate. \<open>step_other\<close> in
  \<open>ride_step\<close> stands for writers outside the modelled services, which leave rides and supplements alone.
\<close>

end
